(* ===== verification/Prelude.thy ===== *)
theory Prelude
  imports Main
begin

text \<open>
  Shared vocabulary of the development: Python exceptions as values, the result type and its
  sequencing, short-circuit conditions whose operands may raise, the runner of a component
  that consumes a list of inputs one at a time, character classes and decimal numerals of
  the regular expressions the scripts use, and the list lemmas the components share.
\<close>

named_theorems py_simps \<open>unfolding rules of the result combinators\<close>

section \<open>Exceptions and results\<close>

text \<open>
  Every exception class the modelled code raises or lets escape. The classes of the
  repository carry the message or code they are constructed with.
\<close>

datatype exn =
    KeyError
  | TypeError
  | ValueError
  | JSONDecodeError
  | AttributeError
  | IndexError
  | OverflowError
  | UnicodeDecodeError
  | UnicodeEncodeError
  | OSError
  | FileExistsError
  | RuntimeError string
  | SubprocessError
  | SnapshotError string
  | SeedError string
  | AofError string
  | EpochError string
  | EvidenceSchemaError string
  | DeliveryError string
  | Rejected string

type_synonym bytes = string
type_synonym 'a py = "exn + 'a"

fun py_bind :: "'e + 'a \<Rightarrow> ('a \<Rightarrow> 'e + 'b) \<Rightarrow> 'e + 'b" where
  "py_bind (Inl e) f = Inl e"
| "py_bind (Inr x) f = f x"

lemma py_bind_Inr_iff [py_simps]:
  "py_bind m f = Inr y \<longleftrightarrow> (\<exists>x. m = Inr x \<and> f x = Inr y)"
  by (cases m) auto

lemma py_bind_Inl_iff [py_simps]:
  "py_bind m f = Inl e \<longleftrightarrow> m = Inl e \<or> (\<exists>x. m = Inr x \<and> f x = Inl e)"
  by (cases m) auto

lemma py_bind_assoc: "py_bind (py_bind m f) g = py_bind m (\<lambda>x. py_bind (f x) g)"
  by (cases m) auto

text \<open>
  \<^verbatim>\<open>if c: raise e\<close>, where evaluating the condition may itself raise.
\<close>

definition reject_if :: "(exn + bool) \<Rightarrow> exn \<Rightarrow> exn + unit" where
  "reject_if c e = py_bind c (\<lambda>b. if b then Inl e else Inr ())"

lemma reject_if_Inr [py_simps]: "reject_if c e = Inr u \<longleftrightarrow> c = Inr False"
  by (cases c) (auto simp: reject_if_def)

lemma reject_if_Inl [py_simps]: "reject_if c e = Inl e' \<longleftrightarrow> c = Inl e' \<or> (c = Inr True \<and> e' = e)"
  by (cases c) (auto simp: reject_if_def)

lemma reject_if_simps [simp]:
  "reject_if (Inr True) e = Inl e" "reject_if (Inr False) e = Inr ()" "reject_if (Inl e') e = Inl e'"
  by (simp_all add: reject_if_def)

text \<open>The exceptions an expression may raise, composed along its sequencing.\<close>

definition raises_only :: "('e \<Rightarrow> bool) \<Rightarrow> 'e + 'a \<Rightarrow> bool" where
  "raises_only P m \<longleftrightarrow> (\<forall>e. m = Inl e \<longrightarrow> P e)"

lemma raises_only_Inr [simp, intro]: "raises_only P (Inr x)"
  by (simp add: raises_only_def)

lemma raises_only_Inl [simp]: "raises_only P (Inl e) \<longleftrightarrow> P e"
  by (simp add: raises_only_def)

lemma raises_only_bind [intro]:
  "raises_only P m \<Longrightarrow> (\<And>x. raises_only P (f x)) \<Longrightarrow> raises_only P (py_bind m f)"
  by (auto simp: raises_only_def py_bind_Inl_iff)

lemma raises_only_if [intro]:
  "(c \<Longrightarrow> raises_only P a) \<Longrightarrow> (\<not> c \<Longrightarrow> raises_only P b) \<Longrightarrow> raises_only P (if c then a else b)"
  by simp

text \<open>
  Python's \<^verbatim>\<open>a or b or ...\<close> over conditions that may raise: the operands are looked
  at from the left, the first that raises or is true decides.
\<close>

fun py_or :: "('e + bool) list \<Rightarrow> 'e + bool" where
  "py_or [] = Inr False"
| "py_or (c # cs) = (case c of Inl e \<Rightarrow> Inl e | Inr b \<Rightarrow> if b then Inr True else py_or cs)"

lemma py_or_False [py_simps]: "py_or cs = Inr False \<longleftrightarrow> (\<forall>c \<in> set cs. c = Inr False)"
  by (induction cs) (auto split: sum.splits if_splits)

lemma py_or_Cons_False [simp]: "py_or (Inr False # cs) = py_or cs"
  by simp

lemma py_or_append:
  "py_or (cs @ ds) = (case py_or cs of Inl e \<Rightarrow> Inl e | Inr b \<Rightarrow> if b then Inr True else py_or ds)"
  by (induction cs) (auto split: sum.splits if_splits)

text \<open>\<^verbatim>\<open>any(... for x in xs)\<close> and a loop that runs a fallible function over a list.\<close>

abbreviation py_any :: "('a \<Rightarrow> 'e + bool) \<Rightarrow> 'a list \<Rightarrow> 'e + bool" where
  "py_any f xs \<equiv> py_or (map f xs)"

fun py_map :: "('a \<Rightarrow> 'e + 'b) \<Rightarrow> 'a list \<Rightarrow> 'e + 'b list" where
  "py_map f [] = Inr []"
| "py_map f (x # xs) = py_bind (f x) (\<lambda>y. py_bind (py_map f xs) (\<lambda>ys. Inr (y # ys)))"

lemma py_map_Inr [py_simps]:
  "py_map f xs = Inr ys \<longleftrightarrow> list_all2 (\<lambda>x y. f x = Inr y) xs ys"
  by (induction xs arbitrary: ys) (auto simp: py_bind_Inr_iff list_all2_Cons1)

lemma py_map_tagged:
  "py_map (\<lambda>x. py_bind (g x) (\<lambda>y. Inr (x, y))) xs = Inr ps
   \<Longrightarrow> map fst ps = xs \<and> (\<forall>p \<in> set ps. g (fst p) = Inr (snd p))"
  by (induction xs arbitrary: ps) (fastforce simp: py_bind_Inr_iff)+

lemma raises_only_map [intro]: "(\<And>x. raises_only P (f x)) \<Longrightarrow> raises_only P (py_map f xs)"
  by (induction xs) (auto intro!: raises_only_bind)

section \<open>Running a component over its inputs\<close>

fun py_run :: "('s \<Rightarrow> 'i \<Rightarrow> 'e + 's) \<Rightarrow> 's \<Rightarrow> 'i list \<Rightarrow> 'e + 's" where
  "py_run step s [] = Inr s"
| "py_run step s (i # is) = py_bind (step s i) (\<lambda>s'. py_run step s' is)"

lemma py_run_append:
  "py_run step s (xs @ ys) = py_bind (py_run step s xs) (\<lambda>s'. py_run step s' ys)"
  by (induction xs arbitrary: s) (auto simp: py_bind_assoc)

lemma py_run_snoc:
  "py_run step s (xs @ [x]) = py_bind (py_run step s xs) (\<lambda>s'. step s' x)"
proof -
  have "py_run step s' [x] = step s' x" for s'
    by (cases "step s' x") simp_all
  then show ?thesis by (simp add: py_run_append)
qed

lemma py_run_error_prefix:
  assumes "py_run step s xs = Inl e"
  shows "py_run step s (xs @ ys) = Inl e"
  using assms by (simp add: py_run_append)

text \<open>
  The contract of a component that is driven step by step: its steps keep an invariant that
  may speak of the inputs accepted so far. The client lemmas say what holds after a whole
  run, whatever its length.
\<close>

locale step_machine =
  fixes step :: "'s \<Rightarrow> 'i \<Rightarrow> exn + 's"
    and start :: 's
    and inv :: "'i list \<Rightarrow> 's \<Rightarrow> bool"
  assumes inv_start: "inv [] start"
    and inv_step: "inv is s \<Longrightarrow> step s i = Inr s' \<Longrightarrow> inv (is @ [i]) s'"
begin

lemma run_inv_from: "inv ps s \<Longrightarrow> py_run step s is = Inr s' \<Longrightarrow> inv (ps @ is) s'"
proof (induction "is" arbitrary: ps s)
  case Nil
  then show ?case by simp
next
  case (Cons i "is")
  then obtain t where t: "step s i = Inr t" "py_run step t is = Inr s'"
    by (auto simp: py_bind_Inr_iff)
  have "inv (ps @ [i]) t" using Cons.prems(1) t(1) by (rule inv_step)
  from Cons.IH [OF this t(2)] show ?case by simp
qed

lemma run_inv: "py_run step start is = Inr s' \<Longrightarrow> inv is s'"
  using run_inv_from [OF inv_start] by simp

lemma run_prefix_inv:
  assumes "py_run step start (xs @ ys) = Inr s'"
  obtains t where "py_run step start xs = Inr t" "inv xs t" "py_run step t ys = Inr s'"
  using assms run_inv by (auto simp: py_run_append py_bind_Inr_iff)

end

text \<open>A property that every step of a transition relation keeps, over any number of steps.\<close>

locale transition_invariant =
  fixes step :: "'s \<Rightarrow> 's \<Rightarrow> bool"
    and inv :: "'s \<Rightarrow> bool"
  assumes step_keeps: "inv s \<Longrightarrow> step s s' \<Longrightarrow> inv s'"
begin

lemma steps_keep: "step\<^sup>*\<^sup>* s s' \<Longrightarrow> inv s \<Longrightarrow> inv s'"
  by (induction rule: rtranclp_induct) (auto intro: step_keeps)

end

text \<open>
  One component simulates another when every successful step of the first is matched by the second;
  then every successful run is.
\<close>

locale run_simulation =
  fixes step :: "'s \<Rightarrow> 'i \<Rightarrow> exn + 's"
    and step' :: "'t \<Rightarrow> 'i \<Rightarrow> exn + 't"
    and related :: "'s \<Rightarrow> 't \<Rightarrow> bool"
  assumes sim_step: "related s t \<Longrightarrow> step s i = Inr s' \<Longrightarrow> \<exists>t'. step' t i = Inr t' \<and> related s' t'"
begin

lemma sim_run: "related s t \<Longrightarrow> py_run step s is = Inr s' \<Longrightarrow> \<exists>t'. py_run step' t is = Inr t' \<and> related s' t'"
proof (induction "is" arbitrary: s t)
  case (Cons i "is")
  then obtain u where u: "step s i = Inr u" "py_run step u is = Inr s'" by (auto simp: py_bind_Inr_iff)
  obtain v where v: "step' t i = Inr v" "related u v" using sim_step [OF Cons.prems(1) u(1)] by blast
  from Cons.IH [OF v(2) u(2)] v(1) show ?case by auto
qed auto

end

section \<open>Characters and the regular expressions of the scripts\<close>

abbreviation code :: "char \<Rightarrow> nat" where
  "code c \<equiv> of_char c"

definition is_digit :: "char \<Rightarrow> bool" where
  "is_digit c \<longleftrightarrow> 48 \<le> code c \<and> code c \<le> 57"

definition is_lower :: "char \<Rightarrow> bool" where
  "is_lower c \<longleftrightarrow> 97 \<le> code c \<and> code c \<le> 122"

definition is_upper :: "char \<Rightarrow> bool" where
  "is_upper c \<longleftrightarrow> 65 \<le> code c \<and> code c \<le> 90"

definition is_hex_lower :: "char \<Rightarrow> bool" where
  "is_hex_lower c \<longleftrightarrow> is_digit c \<or> (97 \<le> code c \<and> code c \<le> 102)"

definition is_hex :: "char \<Rightarrow> bool" where
  "is_hex c \<longleftrightarrow> is_hex_lower c \<or> (65 \<le> code c \<and> code c \<le> 70)"

definition is_ascii :: "char \<Rightarrow> bool" where
  "is_ascii c \<longleftrightarrow> code c < 128"

definition to_upper :: "char \<Rightarrow> char" where
  "to_upper c = (if is_lower c then char_of (code c - 32) else c)"

definition to_lower :: "char \<Rightarrow> char" where
  "to_lower c = (if is_upper c then char_of (code c + 32) else c)"

lemmas char_class_defs = is_digit_def is_lower_def is_upper_def is_hex_lower_def is_hex_def
  is_ascii_def

text \<open>Evaluation by membership: comparing characters is cheaper in the kernel than comparing numbers.\<close>

lemma is_digit_code [code]: "is_digit c \<longleftrightarrow> c \<in> set ''0123456789''"
proof -
  have "\<forall>c. is_digit c \<longleftrightarrow> c \<in> set ''0123456789''" by code_simp
  then show ?thesis by blast
qed

lemma is_lower_code [code]: "is_lower c \<longleftrightarrow> c \<in> set ''abcdefghijklmnopqrstuvwxyz''"
proof -
  have "\<forall>c. is_lower c \<longleftrightarrow> c \<in> set ''abcdefghijklmnopqrstuvwxyz''" by code_simp
  then show ?thesis by blast
qed

lemma is_upper_code [code]: "is_upper c \<longleftrightarrow> c \<in> set ''ABCDEFGHIJKLMNOPQRSTUVWXYZ''"
proof -
  have "\<forall>c. is_upper c \<longleftrightarrow> c \<in> set ''ABCDEFGHIJKLMNOPQRSTUVWXYZ''" by code_simp
  then show ?thesis by blast
qed

lemma is_hex_lower_code [code]: "is_hex_lower c \<longleftrightarrow> c \<in> set ''0123456789abcdef''"
proof -
  have "\<forall>c. is_hex_lower c \<longleftrightarrow> c \<in> set ''0123456789abcdef''" by code_simp
  then show ?thesis by blast
qed

lemma is_ascii_code [code]: "is_ascii (Char b0 b1 b2 b3 b4 b5 b6 b7) \<longleftrightarrow> \<not> b7"
proof -
  have "\<forall>b0 b1 b2 b3 b4 b5 b6 b7. is_ascii (Char b0 b1 b2 b3 b4 b5 b6 b7) \<longleftrightarrow> \<not> b7" by code_simp
  then show ?thesis by blast
qed

lemma to_lower_code [code]:
  "to_lower (Char b0 b1 b2 b3 b4 b5 b6 b7) =
     (let c = Char b0 b1 b2 b3 b4 b5 b6 b7 in if is_upper c then Char b0 b1 b2 b3 b4 True b6 b7 else c)"
proof -
  have "\<forall>b0 b1 b2 b3 b4 b5 b6 b7. to_lower (Char b0 b1 b2 b3 b4 b5 b6 b7) =
     (let c = Char b0 b1 b2 b3 b4 b5 b6 b7 in if is_upper c then Char b0 b1 b2 b3 b4 True b6 b7 else c)"
    by code_simp
  then show ?thesis by blast
qed

lemma is_hex_lower_is_hex [simp]: "is_hex_lower c \<Longrightarrow> is_hex c"
  by (simp add: is_hex_def)

lemma is_digit_is_hex_lower [simp]: "is_digit c \<Longrightarrow> is_hex_lower c"
  by (simp add: is_hex_lower_def)

lemma is_digit_ascii [simp]: "is_digit c \<Longrightarrow> is_ascii c"
  by (simp add: char_class_defs)

lemma is_hex_ascii [simp]: "is_hex c \<Longrightarrow> is_ascii c"
  by (auto simp: char_class_defs)

text \<open>\<^verbatim>\<open>[0-9a-f]{n}\<close> and \<^verbatim>\<open>[0-9a-fA-F]{n}\<close>, matched with \<^verbatim>\<open>fullmatch\<close>.\<close>

definition hex_lower_n :: "nat \<Rightarrow> string \<Rightarrow> bool" where
  "hex_lower_n n s \<longleftrightarrow> length s = n \<and> list_all is_hex_lower s"

definition hex_n :: "nat \<Rightarrow> string \<Rightarrow> bool" where
  "hex_n n s \<longleftrightarrow> length s = n \<and> list_all is_hex s"

lemma hex_lower_n_hex_n: "hex_lower_n n s \<Longrightarrow> hex_n n s"
  by (auto simp: hex_lower_n_def hex_n_def list_all_iff)

lemma to_lower_hex: "is_hex c \<Longrightarrow> is_hex_lower (to_lower c)"
  by (auto simp: char_class_defs to_lower_def)

lemma hex_n_lower: "hex_n n s \<Longrightarrow> hex_lower_n n (map to_lower s)"
  by (auto simp: hex_lower_n_def hex_n_def list_all_iff to_lower_hex)

section \<open>Decimal numerals\<close>

definition digit_value :: "char \<Rightarrow> nat" where
  "digit_value c = code c - 48"

definition digit_char :: "nat \<Rightarrow> char" where
  "digit_char d = char_of (48 + d)"

text \<open>\<^verbatim>\<open>int(text)\<close> on a string of ASCII digits.\<close>

definition parse_nat :: "string \<Rightarrow> nat" where
  "parse_nat s = foldl (\<lambda>n c. 10 * n + digit_value c) 0 s"

fun show_nat :: "nat \<Rightarrow> string" where
  "show_nat n = (if n < 10 then [digit_char n] else show_nat (n div 10) @ [digit_char (n mod 10)])"

declare show_nat.simps [simp del]

definition show_int :: "int \<Rightarrow> string" where
  "show_int i = (if i < 0 then ''-'' @ show_nat (nat (- i)) else show_nat (nat i))"

lemma digit_char_digit [simp]: "d < 10 \<Longrightarrow> is_digit (digit_char d)"
  by (simp add: digit_char_def is_digit_def)

lemma digit_value_char [simp]: "d < 10 \<Longrightarrow> digit_value (digit_char d) = d"
  by (simp add: digit_char_def digit_value_def)

lemma digit_value_less [simp]: "is_digit c \<Longrightarrow> digit_value c < 10"
  unfolding is_digit_def digit_value_def by linarith

lemma show_nat_digits: "list_all is_digit (show_nat n)"
proof (induction n rule: show_nat.induct)
  case (1 n)
  then show ?case by (subst show_nat.simps) simp
qed

lemma show_nat_nonempty [simp]: "show_nat n \<noteq> []"
  by (subst show_nat.simps) simp

lemma parse_nat_snoc [simp]: "parse_nat (s @ [c]) = 10 * parse_nat s + digit_value c"
  by (simp add: parse_nat_def)

lemma parse_show_nat [simp]: "parse_nat (show_nat n) = n"
proof (induction n rule: show_nat.induct)
  case (1 n)
  then show ?case
    by (subst show_nat.simps) (auto simp: parse_nat_def [of "[_]"])
qed

lemma show_nat_inject [simp]: "show_nat m = show_nat n \<longleftrightarrow> m = n"
  by (metis parse_show_nat)

lemma parse_nat_less:
  assumes "list_all is_digit s"
  shows "parse_nat s < 10 ^ length s"
  using assms
proof (induction s rule: rev_induct)
  case Nil
  then show ?case by (simp add: parse_nat_def)
next
  case (snoc c s)
  then have "parse_nat s < 10 ^ length s" and "digit_value c < 10" by simp_all
  then show ?case by simp
qed

lemma show_nat_length: "n < 10 ^ k \<Longrightarrow> 0 < k \<Longrightarrow> length (show_nat n) \<le> k"
proof (induction n arbitrary: k rule: show_nat.induct)
  case (1 n)
  show ?case
  proof (cases "n < 10")
    case True
    then show ?thesis using 1 by (subst show_nat.simps) simp
  next
    case False
    have "k \<noteq> 1" using 1(2) False by auto
    then obtain j where j: "k = Suc j" "0 < j" using 1(3) by (cases k) auto
    then have "n div 10 < 10 ^ j" using 1(2) by (simp add: less_mult_imp_div_less mult.commute)
    then have "length (show_nat (n div 10)) \<le> j" using 1(1) False j by simp
    then show ?thesis using False j by (subst show_nat.simps) simp
  qed
qed

section \<open>Shared list facts\<close>

lemma take_drop_split: "n \<le> m \<Longrightarrow> take m xs = take n xs @ take (m - n) (drop n xs)"
  by (metis le_add_diff_inverse take_add)

lemma list_all2_same_map: "list_all2 (\<lambda>x y. y = f x) xs ys \<longleftrightarrow> ys = map f xs"
  by (auto simp: list_all2_conv_all_nth intro: nth_equalityI)

text \<open>A property of every element of a list together with what precedes it.\<close>

definition each_with_prefix :: "('a list \<Rightarrow> 'a \<Rightarrow> bool) \<Rightarrow> 'a list \<Rightarrow> bool" where
  "each_with_prefix P xs \<longleftrightarrow> (\<forall>as x bs. xs = as @ x # bs \<longrightarrow> P as x)"

lemma each_with_prefix_Nil [simp]: "each_with_prefix P []"
  by (simp add: each_with_prefix_def)

lemma each_with_prefix_snoc [simp]:
  "each_with_prefix P (xs @ [y]) \<longleftrightarrow> each_with_prefix P xs \<and> P xs y"
proof
  assume all: "each_with_prefix P (xs @ [y])"
  have "P as x" if "xs = as @ x # bs" for as x bs
  proof -
    have "xs @ [y] = as @ x # (bs @ [y])" using that by simp
    then show ?thesis using all unfolding each_with_prefix_def by blast
  qed
  moreover have "P xs y" using all unfolding each_with_prefix_def by blast
  ultimately show "each_with_prefix P xs \<and> P xs y" unfolding each_with_prefix_def by blast
next
  assume both: "each_with_prefix P xs \<and> P xs y"
  have "P as x" if "xs @ [y] = as @ x # bs" for as x bs
  proof (cases bs rule: rev_cases)
    case Nil
    then show ?thesis using that both by simp
  next
    case (snoc cs z)
    then have "xs = as @ x # cs" using that by simp
    then show ?thesis using both unfolding each_with_prefix_def by blast
  qed
  then show "each_with_prefix P (xs @ [y])" unfolding each_with_prefix_def by blast
qed

end
