(* ===== verification/Text_Codec.thy ===== *)
theory Text_Codec
  imports Prelude
begin

text \<open>
  The text and integer codecs of the Python standard library that the byte-level components
  use: strict UTF-8 (\<^verbatim>\<open>bytes.decode("utf-8", errors="strict")\<close> and
  \<^verbatim>\<open>str.encode("utf-8")\<close>, a string being its list of code points), big-endian
  integers (\<^verbatim>\<open>int.from_bytes\<close>, \<^verbatim>\<open>int.to_bytes\<close>) and the order of
  \<^verbatim>\<open>bytes\<close> objects.
\<close>

type_synonym code_points = "nat list"

section \<open>Strict UTF-8\<close>

definition cont_byte :: "nat \<Rightarrow> nat \<Rightarrow> char \<Rightarrow> bool" where
  "cont_byte lo hi c \<longleftrightarrow> lo \<le> code c \<and> code c \<le> hi"

text \<open>
  The range of the second byte depends on the first one: this excludes overlong forms,
  surrogates and code points beyond U+10FFFF.
\<close>

definition second_range :: "nat \<Rightarrow> nat \<times> nat" where
  "second_range b =
     (if b = 224 then (160, 191) else if b = 237 then (128, 159)
      else if b = 240 then (144, 191) else if b = 244 then (128, 143) else (128, 191))"

fun utf8_decode :: "bytes \<Rightarrow> code_points option" where
  "utf8_decode [] = Some []"
| "utf8_decode (a # as) =
     (let b = code a; (lo, hi) = second_range b in
      if b < 128 then map_option (\<lambda>r. b # r) (utf8_decode as)
      else if 194 \<le> b \<and> b \<le> 223 then
        (case as of
           c # cs \<Rightarrow> if cont_byte lo hi c
             then map_option (\<lambda>r. ((b - 192) * 64 + (code c - 128)) # r) (utf8_decode cs) else None
         | [] \<Rightarrow> None)
      else if 224 \<le> b \<and> b \<le> 239 then
        (case as of
           c # d # ds \<Rightarrow> if cont_byte lo hi c \<and> cont_byte 128 191 d
             then map_option (\<lambda>r. ((b - 224) * 4096 + (code c - 128) * 64 + (code d - 128)) # r)
                    (utf8_decode ds) else None
         | _ \<Rightarrow> None)
      else if 240 \<le> b \<and> b \<le> 244 then
        (case as of
           c # d # e # es \<Rightarrow> if cont_byte lo hi c \<and> cont_byte 128 191 d \<and> cont_byte 128 191 e
             then map_option (\<lambda>r. ((b - 240) * 262144 + (code c - 128) * 4096
                                   + (code d - 128) * 64 + (code e - 128)) # r)
                    (utf8_decode es) else None
         | _ \<Rightarrow> None)
      else None)"

definition utf8_encode_point :: "nat \<Rightarrow> bytes option" where
  "utf8_encode_point p =
     (if p < 128 then Some [char_of p]
      else if p < 2048 then Some [char_of (192 + p div 64), char_of (128 + p mod 64)]
      else if 55296 \<le> p \<and> p \<le> 57343 then None
      else if p < 65536 then
        Some [char_of (224 + p div 4096), char_of (128 + p div 64 mod 64), char_of (128 + p mod 64)]
      else if p < 1114112 then
        Some [char_of (240 + p div 262144), char_of (128 + p div 4096 mod 64),
              char_of (128 + p div 64 mod 64), char_of (128 + p mod 64)]
      else None)"

fun utf8_encode :: "code_points \<Rightarrow> bytes option" where
  "utf8_encode [] = Some []"
| "utf8_encode (p # ps) =
     (case utf8_encode_point p of None \<Rightarrow> None
      | Some bs \<Rightarrow> map_option (\<lambda>r. bs @ r) (utf8_encode ps))"

text \<open>Splitting a number into base-64 digits.\<close>

lemma base64_digit:
  fixes q z :: nat
  assumes "z < 64"
  shows "(q * 64 + z) div 64 = q" "(q * 64 + z) mod 64 = z"
  using assms by simp_all

lemma base64_digits3:
  fixes x y z :: nat
  assumes "y < 64" "z < 64"
  shows "(x * 4096 + y * 64 + z) div 4096 = x" "(x * 4096 + y * 64 + z) div 64 mod 64 = y"
    "(x * 4096 + y * 64 + z) mod 64 = z"
proof -
  have eq: "x * 4096 + y * 64 + z = (x * 64 + y) * 64 + z" by simp
  have "(x * 4096 + y * 64 + z) div (64 * 64) = x"
    unfolding eq div_mult2_eq by (simp only: base64_digit assms)
  then show "(x * 4096 + y * 64 + z) div 4096 = x" by simp
  show "(x * 4096 + y * 64 + z) div 64 mod 64 = y" "(x * 4096 + y * 64 + z) mod 64 = z"
    unfolding eq by (simp_all only: base64_digit assms)
qed

lemma base64_digits4:
  fixes x y z w :: nat
  assumes "y < 64" "z < 64" "w < 64"
  shows "(x * 262144 + y * 4096 + z * 64 + w) div 262144 = x"
    "(x * 262144 + y * 4096 + z * 64 + w) div 4096 mod 64 = y"
    "(x * 262144 + y * 4096 + z * 64 + w) div 64 mod 64 = z"
    "(x * 262144 + y * 4096 + z * 64 + w) mod 64 = w"
proof -
  let ?p = "x * 262144 + y * 4096 + z * 64 + w"
  have eq: "?p = ((x * 64 + y) * 64 + z) * 64 + w" by simp
  have "?p div (64 * 64 * 64) = x" "?p div (64 * 64) = x * 64 + y"
    unfolding eq div_mult2_eq by (simp_all only: base64_digit assms)
  then show "?p div 262144 = x" "?p div 4096 mod 64 = y"
    using assms by simp_all
  show "?p div 64 mod 64 = z" "?p mod 64 = w"
    unfolding eq by (simp_all only: base64_digit assms)
qed

lemma encode_point2:
  assumes "194 \<le> b" "b \<le> 223" "128 \<le> c" "c \<le> (191::nat)"
  shows "utf8_encode_point ((b - 192) * 64 + (c - 128)) = Some [char_of b, char_of c]"
proof -
  define x y where "x = b - 192" and "y = c - 128"
  then have "b = x + 192" "c = y + 128" "y < 64" "2 \<le> x" "x < 32" using assms by auto
  then show ?thesis by (simp add: utf8_encode_point_def base64_digit add.commute)
qed

lemma encode_point3:
  assumes "224 \<le> b" "b \<le> 239" "fst (second_range b) \<le> c" "c \<le> snd (second_range b)"
    "128 \<le> d" "d \<le> (191::nat)"
  shows "utf8_encode_point ((b - 224) * 4096 + (c - 128) * 64 + (d - 128))
         = Some [char_of b, char_of c, char_of d]"
proof -
  define x y z where "x = b - 224" and "y = c - 128" and "z = d - 128"
  then have xyz: "b = x + 224" "c = y + 128" "d = z + 128" "y < 64" "z < 64" "x < 16"
    and sur: "x = 0 \<Longrightarrow> 32 \<le> y" "x = 13 \<Longrightarrow> y < 32"
    using assms by (auto simp: second_range_def split: if_splits)
  let ?p = "x * 4096 + y * 64 + z"
  have "2048 \<le> ?p" "?p < 65536"
    using xyz(4-6) sur by (cases "x = 0"; linarith)+
  moreover have "\<not> (55296 \<le> ?p \<and> ?p \<le> 57343)"
  proof -
    consider "x \<le> 12" | "x = 13" | "14 \<le> x" by linarith
    then have "?p < 55296 \<or> 57343 < ?p" using xyz(4-6) sur by cases linarith+
    then show ?thesis by linarith
  qed
  ultimately have "utf8_encode_point ?p
      = Some [char_of (224 + x), char_of (128 + y), char_of (128 + z)]"
    unfolding utf8_encode_point_def base64_digits3 [OF xyz(4,5)] by simp
  then show ?thesis by (simp add: xyz(1-3) add.commute)
qed

lemma encode_point4:
  assumes "240 \<le> b" "b \<le> 244" "fst (second_range b) \<le> c" "c \<le> snd (second_range b)"
    "128 \<le> d" "d \<le> (191::nat)" "128 \<le> e" "e \<le> (191::nat)"
  shows "utf8_encode_point ((b - 240) * 262144 + (c - 128) * 4096 + (d - 128) * 64 + (e - 128))
         = Some [char_of b, char_of c, char_of d, char_of e]"
proof -
  define x y z w where "x = b - 240" and "y = c - 128" and "z = d - 128" and "w = e - 128"
  then have xyz: "b = x + 240" "c = y + 128" "d = z + 128" "e = w + 128"
      "y < 64" "z < 64" "w < 64" "x < 5"
    and sur: "x = 0 \<Longrightarrow> 16 \<le> y" "x = 4 \<Longrightarrow> y < 16"
    using assms by (auto simp: second_range_def split: if_splits)
  let ?p = "x * 262144 + y * 4096 + z * 64 + w"
  have "65536 \<le> ?p" "?p < 1114112"
    using xyz(5-8) sur by (cases "x = 0"; cases "x = 4"; linarith)+
  then have "utf8_encode_point ?p
      = Some [char_of (240 + x), char_of (128 + y), char_of (128 + z), char_of (128 + w)]"
    unfolding utf8_encode_point_def base64_digits4 [OF xyz(5-7)] by simp
  then show ?thesis by (simp add: xyz(1-4) add.commute)
qed

text \<open>
  A byte string that decodes is the encoding of what it decodes to: the strict decoder has
  no two spellings of a string.
\<close>

lemma utf8_decode_encode: "utf8_decode bs = Some ps \<Longrightarrow> utf8_encode ps = Some bs"
proof (induction bs arbitrary: ps rule: measure_induct_rule [where f = length])
  case (less bs)
  show ?case
  proof (cases bs)
    case Nil
    with less.prems show ?thesis by simp
  next
    case (Cons a as)
    let ?R = "second_range (code a)"
    note dec = less.prems [unfolded Cons utf8_decode.simps(2) Let_def]
    consider (one) "code a < 128" | (two) "194 \<le> code a" "code a \<le> 223"
      | (three) "224 \<le> code a" "code a \<le> 239" | (four) "240 \<le> code a" "code a \<le> 244"
      using dec by (fastforce split: if_splits prod.splits)
    then show ?thesis
    proof cases
      case one
      with dec less.IH Cons show ?thesis
        by (auto simp: utf8_encode_point_def split: prod.splits)
    next
      case two
      then obtain c cs qs where as: "as = c # cs" and q: "utf8_decode cs = Some qs"
        and c: "cont_byte (fst ?R) (snd ?R) c"
        and ps: "ps = ((code a - 192) * 64 + (code c - 128)) # qs"
        using dec by (auto split: if_splits prod.splits list.splits)
      have "utf8_encode qs = Some cs" using q by (intro less.IH) (simp_all add: Cons as)
      moreover have "128 \<le> code c" "code c \<le> 191"
        using c two by (auto simp: cont_byte_def second_range_def split: if_splits)
      ultimately show ?thesis
        using encode_point2 [of "code a" "code c"] two by (simp add: Cons as ps)
    next
      case three
      then obtain c d ds qs where as: "as = c # d # ds" and q: "utf8_decode ds = Some qs"
        and c: "cont_byte (fst ?R) (snd ?R) c" and d: "cont_byte 128 191 d"
        and ps: "ps = ((code a - 224) * 4096 + (code c - 128) * 64 + (code d - 128)) # qs"
        using dec by (auto split: if_splits prod.splits list.splits)
      have "utf8_encode qs = Some ds" using q by (intro less.IH) (simp_all add: Cons as)
      with three c d show ?thesis
        using encode_point3 [of "code a" "code c" "code d"] by (simp add: Cons as ps cont_byte_def)
    next
      case four
      then obtain c d e es qs where as: "as = c # d # e # es" and q: "utf8_decode es = Some qs"
        and c: "cont_byte (fst ?R) (snd ?R) c" and d: "cont_byte 128 191 d"
        and e: "cont_byte 128 191 e"
        and ps: "ps = ((code a - 240) * 262144 + (code c - 128) * 4096
                       + (code d - 128) * 64 + (code e - 128)) # qs"
        using dec by (auto split: if_splits prod.splits list.splits)
      have "utf8_encode qs = Some es" using q by (intro less.IH) (simp_all add: Cons as)
      with four c d e show ?thesis
        using encode_point4 [of "code a" "code c" "code d" "code e"]
        by (simp add: Cons as ps cont_byte_def)
    qed
  qed
qed

section \<open>Big-endian integers\<close>

definition from_bytes_be :: "bytes \<Rightarrow> nat" where
  "from_bytes_be bs = foldl (\<lambda>n c. 256 * n + code c) 0 bs"

text \<open>\<^verbatim>\<open>int.from_bytes(bs, "big", signed=True)\<close>\<close>

definition from_bytes_signed :: "bytes \<Rightarrow> int" where
  "from_bytes_signed bs =
     (let n = from_bytes_be bs; w = 256 ^ length bs in
      if 2 * n < w then int n else int n - int w)"

text \<open>\<^verbatim>\<open>n.to_bytes(k, "big")\<close> for a value that fits.\<close>

fun to_bytes_be :: "nat \<Rightarrow> nat \<Rightarrow> bytes" where
  "to_bytes_be 0 n = []"
| "to_bytes_be (Suc k) n = to_bytes_be k (n div 256) @ [char_of (n mod 256)]"

lemma length_to_bytes_be [simp]: "length (to_bytes_be k n) = k"
  by (induction k arbitrary: n) auto

lemma from_bytes_be_snoc [simp]: "from_bytes_be (bs @ [c]) = 256 * from_bytes_be bs + code c"
  by (simp add: from_bytes_be_def)

lemma from_to_bytes_be: "n < 256 ^ k \<Longrightarrow> from_bytes_be (to_bytes_be k n) = n"
proof (induction k arbitrary: n)
  case 0
  then show ?case by (simp add: from_bytes_be_def)
next
  case (Suc k)
  then have "n div 256 < 256 ^ k" by (simp add: less_mult_imp_div_less mult.commute)
  with Suc.IH show ?case by (simp add: mod_less_divisor)
qed

lemma from_bytes_be_less: "from_bytes_be bs < 256 ^ length bs"
proof (induction bs rule: rev_induct)
  case Nil
  then show ?case by (simp add: from_bytes_be_def)
next
  case (snoc c bs)
  have "code c < 256" by simp
  with snoc have "256 * from_bytes_be bs + code c < 256 * (from_bytes_be bs + 1)" by simp
  also have "\<dots> \<le> 256 * 256 ^ length bs" using snoc by (simp only: Suc_leI Suc_eq_plus1 [symmetric] mult_le_mono2)
  finally show ?case by simp
qed

lemma to_from_bytes_be: "to_bytes_be (length bs) (from_bytes_be bs) = bs"
proof (induction bs rule: rev_induct)
  case Nil
  then show ?case by simp
next
  case (snoc c bs)
  have "code c < 256" by simp
  then show ?case using snoc by simp
qed

lemma from_bytes_signed_nonneg:
  assumes "0 \<le> from_bytes_signed bs"
  shows "from_bytes_be bs = nat (from_bytes_signed bs)"
proof -
  have "int (from_bytes_be bs) < int (256 ^ length bs)"
    using from_bytes_be_less [of bs] by (simp only: of_nat_less_iff)
  with assms show ?thesis by (auto simp: from_bytes_signed_def Let_def split: if_splits)
qed

lemma from_bytes_signed_small:
  "2 * n < 256 ^ k \<Longrightarrow> from_bytes_signed (to_bytes_be k n) = int n"
  by (simp add: from_bytes_signed_def from_to_bytes_be)

section \<open>The order of byte strings\<close>

fun bytes_less :: "bytes \<Rightarrow> bytes \<Rightarrow> bool" where
  "bytes_less xs [] = False"
| "bytes_less [] (y # ys) = True"
| "bytes_less (x # xs) (y # ys) = (code x < code y \<or> (x = y \<and> bytes_less xs ys))"

lemma bytes_less_irrefl [simp]: "\<not> bytes_less xs xs"
  by (induction xs) auto

lemma bytes_less_trans: "bytes_less xs ys \<Longrightarrow> bytes_less ys zs \<Longrightarrow> bytes_less xs zs"
proof (induction xs ys arbitrary: zs rule: bytes_less.induct)
  case (3 x xs y ys)
  then show ?case by (cases zs) auto
next
  case (2 y ys)
  then show ?case by (cases zs) auto
qed auto

lemma bytes_less_linear: "bytes_less xs ys \<or> xs = ys \<or> bytes_less ys xs"
proof (induction xs ys rule: bytes_less.induct)
  case (1 xs)
  then show ?case by (cases xs) auto
next
  case (3 x xs y ys)
  then show ?case by (metis bytes_less.simps(3) nat_neq_iff of_char_eq_iff)
qed auto

abbreviation bytes_le :: "bytes \<Rightarrow> bytes \<Rightarrow> bool" where
  "bytes_le xs ys \<equiv> \<not> bytes_less ys xs"

lemma bytes_le_trans: "bytes_le xs ys \<Longrightarrow> bytes_le ys zs \<Longrightarrow> bytes_le xs zs"
  by (metis bytes_less_linear bytes_less_trans)

end
