(* ===== verification/History_Stream.thy ===== *)
theory History_Stream
  imports Text_Codec
begin

text \<open>
  \<^verbatim>\<open>src/scripts/paper_runtime_history_stream.py\<close>: the incremental decoder of a binary
  PostgreSQL COPY stream with one ordered TEXT column, and the \<^verbatim>\<open>Budget\<close> of
  \<^verbatim>\<open>src/scripts/paper_runtime_snapshot_worker.py\<close> that bounds it. The decoder is a
  record with the fields of \<^verbatim>\<open>OrderedTextDigest\<close>; every method takes the record and
  returns it updated together with the exception it raises or its result, so what a failed
  call leaves behind is part of the model. The running SHA-256 object is the sequence of
  bytes fed to it, hashed by the parameter \<open>sha\<close> at the end. \<^verbatim>\<open>time.monotonic()\<close> is
  an oracle: \<open>late n\<close> says whether the \<open>n\<close>-th reading lies beyond the deadline.
\<close>

section \<open>Budget\<close>

definition MAX_ROW_BYTES :: nat where "MAX_ROW_BYTES = 4 * 1024 * 1024"
definition MAX_TOTAL_BYTES :: nat where "MAX_TOTAL_BYTES = 1024 * 1024 * 1024"
definition MAX_TOTAL_ROWS :: nat where "MAX_TOTAL_ROWS = 2000000"
definition MAX_CHUNK_BYTES :: nat where "MAX_CHUNK_BYTES = 8 * 1024 * 1024"

record budget =
  b_bytes :: nat
  b_rows :: nat
  b_ticks :: nat

definition budget_init :: budget where
  "budget_init = \<lparr>b_bytes = 0, b_rows = 0, b_ticks = 0\<rparr>"

definition tick :: "budget \<Rightarrow> budget" where
  "tick b = b\<lparr>b_ticks := Suc (b_ticks b)\<rparr>"

definition budget_error :: exn where
  "budget_error = SnapshotError ''full-history snapshot exceeded its fixed bound''"

text \<open>The clock is read only when the three counters are within their bounds.\<close>

definition budget_add :: "(nat \<Rightarrow> bool) \<Rightarrow> budget \<Rightarrow> code_points \<Rightarrow> bytes py \<times> budget" where
  "budget_add late b raw =
     (case utf8_encode raw of
        None \<Rightarrow> (Inl UnicodeEncodeError, b)
      | Some data \<Rightarrow>
          let b1 = b\<lparr>b_bytes := b_bytes b + length data, b_rows := Suc (b_rows b)\<rparr> in
          if length data > MAX_ROW_BYTES \<or> b_bytes b1 > MAX_TOTAL_BYTES \<or> b_rows b1 > MAX_TOTAL_ROWS
          then (Inl budget_error, b1)
          else if late (b_ticks b1) then (Inl budget_error, tick b1)
          else (Inr data, tick b1))"

section \<open>The decoder\<close>

definition HEADER :: bytes where
  "HEADER = ''PGCOPY'' @ map char_of [10, 255, 13, 10, 0 :: nat] @ replicate 8 (char_of (0 :: nat))"

lemma length_HEADER [simp]: "length HEADER = 19"
  by (simp add: HEADER_def)

datatype phase = Header | Fields | Length | Body | Trailer

record decoder =
  d_budget :: budget
  d_hashed :: bytes
  d_count :: nat
  d_previous :: "bytes option"
  d_pending :: bytes
  d_phase :: phase
  d_needed :: nat
  d_failed :: bool
  d_sealed :: bool

definition decoder_init :: "budget \<Rightarrow> decoder" where
  "decoder_init b = \<lparr>d_budget = b, d_hashed = [], d_count = 0, d_previous = None, d_pending = [],
     d_phase = Header, d_needed = length HEADER, d_failed = False, d_sealed = False\<rparr>"

definition framing_error :: exn where
  "framing_error = SnapshotError ''ordered history COPY framing/bound differs''"

definition d_reject :: "decoder \<Rightarrow> 'a py \<times> decoder" where
  "d_reject d = (Inl framing_error, d\<lparr>d_failed := True\<rparr>)"

definition d_deadline :: "(nat \<Rightarrow> bool) \<Rightarrow> decoder \<Rightarrow> unit py \<times> decoder" where
  "d_deadline late d =
     (let d1 = d\<lparr>d_budget := tick (d_budget d)\<rparr> in
      if late (b_ticks (d_budget d)) then d_reject d1 else (Inr (), d1))"

text \<open>
  The \<open>body\<close> branch of \<^verbatim>\<open>_frame\<close>. Only \<^verbatim>\<open>UnicodeDecodeError\<close> and
  \<^verbatim>\<open>SnapshotError\<close> are turned into a rejection; any other exception of
  \<^verbatim>\<open>budget.add\<close> escapes with the budget as it was left.
\<close>

definition d_body :: "(nat \<Rightarrow> bool) \<Rightarrow> decoder \<Rightarrow> bytes \<Rightarrow> unit py \<times> decoder" where
  "d_body late d fr =
     (case utf8_decode fr of
        None \<Rightarrow> d_reject d
      | Some raw \<Rightarrow>
          (case budget_add late (d_budget d) raw of (r, b) \<Rightarrow>
             let d1 = d\<lparr>d_budget := b\<rparr> in
             (case r of
                Inl (SnapshotError m) \<Rightarrow> d_reject d1
              | Inl e \<Rightarrow> (Inl e, d1)
              | Inr data \<Rightarrow>
                  if data \<noteq> fr
                     \<or> (case d_previous d of None \<Rightarrow> False | Some p \<Rightarrow> bytes_less data p)
                  then d_reject d1
                  else (Inr (), d1\<lparr>d_hashed := d_hashed d @ to_bytes_be 8 (length data) @ data,
                                  d_previous := Some data, d_count := Suc (d_count d),
                                  d_phase := Fields, d_needed := 2\<rparr>))))"

definition d_frame :: "(nat \<Rightarrow> bool) \<Rightarrow> decoder \<Rightarrow> bytes \<Rightarrow> unit py \<times> decoder" where
  "d_frame late d fr =
     (case d_phase d of
        Header \<Rightarrow>
          if fr \<noteq> HEADER then d_reject d else (Inr (), d\<lparr>d_phase := Fields, d_needed := 2\<rparr>)
      | Fields \<Rightarrow>
          let fields = from_bytes_signed fr in
          if fields = -1 then (Inr (), d\<lparr>d_phase := Trailer, d_needed := 0\<rparr>)
          else if fields = 1 then (Inr (), d\<lparr>d_phase := Length, d_needed := 4\<rparr>)
          else d_reject d
      | Length \<Rightarrow>
          let len = from_bytes_signed fr in
          if len < 0 \<or> len > int MAX_ROW_BYTES then d_reject d
          else let d1 = d\<lparr>d_phase := Body, d_needed := nat len\<rparr> in
               if len = 0 then d_body late d1 [] else (Inr (), d1)
      | Body \<Rightarrow> d_body late d fr
      | Trailer \<Rightarrow> d_reject d)"

text \<open>
  One round of the loop of \<^verbatim>\<open>write\<close> over what is left of the chunk: bytes move to the
  pending ones until the frame is complete, and a complete frame is handled. In the states the
  decoder reaches the pending bytes never outnumber the needed ones, so the difference is the
  one Python computes.
\<close>

definition collect :: "(nat \<Rightarrow> bool) \<Rightarrow> decoder \<Rightarrow> bytes \<Rightarrow> (unit py \<times> decoder) \<times> bytes" where
  "collect late d rest =
     (let n = min (d_needed d - length (d_pending d)) (length rest);
          d1 = d\<lparr>d_pending := d_pending d @ take n rest\<rparr>
      in (if length (d_pending d1) = d_needed d1
          then d_frame late (d1\<lparr>d_pending := []\<rparr>) (d_pending d1)
          else (Inr (), d1),
          drop n rest))"

text \<open>
  The loop itself; \<open>None\<close> when the fuel runs out before the loop ends. The lemma
  \<open>write_loop_total\<close> below shows that one unit per byte and one more are enough in every
  state the decoder reaches.
\<close>

fun write_loop ::
  "(nat \<Rightarrow> bool) \<Rightarrow> nat \<Rightarrow> decoder \<Rightarrow> bytes \<Rightarrow> (unit py \<times> decoder) option" where
  "write_loop late 0 d rest = None"
| "write_loop late (Suc fuel) d rest =
     (if rest = [] then Some (Inr (), d)
      else if d_phase d = Trailer then Some (d_reject d)
      else case collect late d rest of ((r, d2), rest1) \<Rightarrow>
        (case r of
           Inl e \<Rightarrow> Some (Inl e, d2)
         | Inr _ \<Rightarrow>
             (case d_deadline late d2 of
                (Inl e, d3) \<Rightarrow> Some (Inl e, d3)
              | (Inr _, d3) \<Rightarrow> write_loop late fuel d3 rest1)))"

text \<open>What asyncpg hands over: \<open>OtherObject\<close> is any value of another type.\<close>

datatype chunk = Bytes bytes | ByteArray bytes | OtherObject

fun chunk_bytes :: "chunk \<Rightarrow> bytes" where
  "chunk_bytes (Bytes bs) = bs"
| "chunk_bytes (ByteArray bs) = bs"
| "chunk_bytes OtherObject = []"

definition d_write ::
  "(nat \<Rightarrow> bool) \<Rightarrow> decoder \<Rightarrow> chunk \<Rightarrow> (unit py \<times> decoder) option" where
  "d_write late d chunk =
     (if d_failed d \<or> d_sealed d \<or> chunk = OtherObject \<or> length (chunk_bytes chunk) > MAX_CHUNK_BYTES
      then Some (d_reject d)
      else case d_deadline late d of
             (Inl e, d1) \<Rightarrow> Some (Inl e, d1)
           | (Inr _, d1) \<Rightarrow>
               write_loop late (Suc (length (chunk_bytes chunk))) d1 (chunk_bytes chunk))"

definition d_finish ::
  "(bytes \<Rightarrow> string) \<Rightarrow> (nat \<Rightarrow> bool) \<Rightarrow> decoder \<Rightarrow> string \<Rightarrow> (nat \<times> string) py \<times> decoder" where
  "d_finish sha late d status =
     (if d_failed d \<or> d_sealed d \<or> d_phase d \<noteq> Trailer \<or> d_pending d \<noteq> []
         \<or> status \<noteq> ''COPY '' @ show_nat (d_count d)
      then d_reject d
      else case d_deadline late d of
             (Inl e, d1) \<Rightarrow> (Inl e, d1)
           | (Inr _, d1) \<Rightarrow>
               (Inr (d_count d1, sha (d_hashed d1)), d1\<lparr>d_sealed := True\<rparr>))"

text \<open>The COPY protocol driver: one \<^verbatim>\<open>write\<close> per chunk until one of them raises.\<close>

fun write_all :: "(nat \<Rightarrow> bool) \<Rightarrow> decoder \<Rightarrow> chunk list \<Rightarrow> (unit py \<times> decoder) option" where
  "write_all late d [] = Some (Inr (), d)"
| "write_all late d (c # cs) =
     (case d_write late d c of
        None \<Rightarrow> None
      | Some (Inl e, d1) \<Rightarrow> Some (Inl e, d1)
      | Some (Inr _, d1) \<Rightarrow> write_all late d1 cs)"

section \<open>The stream format\<close>

definition FIELD_COUNT :: bytes where
  "FIELD_COUNT = to_bytes_be 2 1"

definition row_frame :: "bytes \<Rightarrow> bytes" where
  "row_frame r = FIELD_COUNT @ to_bytes_be 4 (length r) @ r"

definition TRAILER :: bytes where
  "TRAILER = to_bytes_be 2 65535"

abbreviation copy_body :: "bytes list \<Rightarrow> bytes" where
  "copy_body rows \<equiv> concat (map row_frame rows)"

definition copy_stream :: "bytes list \<Rightarrow> bytes" where
  "copy_stream rows = HEADER @ copy_body rows @ TRAILER"

definition digest_input :: "bytes list \<Rightarrow> bytes" where
  "digest_input rows = concat (map (\<lambda>r. to_bytes_be 8 (length r) @ r) rows)"

text \<open>
  Row lists the decoder is meant to accept on a budget that has already been charged \<open>b\<close>.
\<close>

definition admissible :: "budget \<Rightarrow> bytes list \<Rightarrow> bool" where
  "admissible b rows \<longleftrightarrow>
     list_all (\<lambda>r. utf8_decode r \<noteq> None \<and> length r \<le> MAX_ROW_BYTES) rows
     \<and> sorted_wrt (\<lambda>x y. bytes_le x y) rows
     \<and> (rows \<noteq> [] \<longrightarrow> b_rows b + length rows \<le> MAX_TOTAL_ROWS
          \<and> b_bytes b + sum_list (map length rows) \<le> MAX_TOTAL_BYTES)"

section \<open>What the decoder knows\<close>

text \<open>The rows accepted so far, as the fields of the decoder record them.\<close>

definition holds_rows :: "budget \<Rightarrow> bytes list \<Rightarrow> decoder \<Rightarrow> bool" where
  "holds_rows b rows d \<longleftrightarrow>
     d_count d = length rows \<and> d_hashed d = digest_input rows
     \<and> d_previous d = (if rows = [] then None else Some (last rows))
     \<and> b_rows (d_budget d) = b_rows b + length rows
     \<and> b_bytes (d_budget d) = b_bytes b + sum_list (map length rows)
     \<and> admissible b rows"

text \<open>The bytes that lead from the start of the stream to the frame being collected.\<close>

fun lead :: "phase \<Rightarrow> bytes list \<Rightarrow> nat \<Rightarrow> bytes" where
  "lead Header rows n = []"
| "lead Fields rows n = HEADER @ copy_body rows"
| "lead Length rows n = HEADER @ copy_body rows @ FIELD_COUNT"
| "lead Body rows n = HEADER @ copy_body rows @ FIELD_COUNT @ to_bytes_be 4 n"
| "lead Trailer rows n = HEADER @ copy_body rows @ TRAILER"

fun frame_size :: "phase \<Rightarrow> bytes list \<Rightarrow> nat \<Rightarrow> bool" where
  "frame_size Header rows n = (n = length HEADER \<and> rows = [])"
| "frame_size Fields rows n = (n = 2)"
| "frame_size Length rows n = (n = 4)"
| "frame_size Body rows n = (0 < n \<and> n \<le> MAX_ROW_BYTES)"
| "frame_size Trailer rows n = (n = 0)"

definition at_frame :: "budget \<Rightarrow> bytes list \<Rightarrow> decoder \<Rightarrow> bool" where
  "at_frame b rows d \<longleftrightarrow>
     holds_rows b rows d \<and> frame_size (d_phase d) rows (d_needed d)
     \<and> \<not> d_failed d \<and> \<not> d_sealed d"

definition decoded :: "budget \<Rightarrow> bytes \<Rightarrow> bytes list \<Rightarrow> decoder \<Rightarrow> bool" where
  "decoded b seen rows d \<longleftrightarrow>
     at_frame b rows d
     \<and> seen = lead (d_phase d) rows (d_needed d) @ d_pending d
     \<and> (d_pending d = [] \<or> length (d_pending d) < d_needed d)"

lemma decoded_init: "decoded b [] [] (decoder_init b)"
  by (simp add: decoded_def at_frame_def holds_rows_def decoder_init_def digest_input_def
      admissible_def)

lemma digest_input_snoc [simp]:
  "digest_input (rows @ [r]) = digest_input rows @ to_bytes_be 8 (length r) @ r"
  by (simp add: digest_input_def)

lemma admissible_snoc:
  "admissible b (rows @ [r]) \<longleftrightarrow>
     admissible b rows \<and> utf8_decode r \<noteq> None \<and> length r \<le> MAX_ROW_BYTES
     \<and> (rows \<noteq> [] \<longrightarrow> bytes_le (last rows) r)
     \<and> b_rows b + Suc (length rows) \<le> MAX_TOTAL_ROWS
     \<and> b_bytes b + sum_list (map length rows) + length r \<le> MAX_TOTAL_BYTES"
proof -
  have "sorted_wrt (\<lambda>x y. bytes_le x y) (rows @ [r]) \<longleftrightarrow>
      sorted_wrt (\<lambda>x y. bytes_le x y) rows \<and> (rows \<noteq> [] \<longrightarrow> bytes_le (last rows) r)"
  proof (cases rows rule: rev_cases)
    case (snoc ys y)
    then show ?thesis by (auto simp: sorted_wrt_append dest: bytes_le_trans)
  qed simp
  then show ?thesis by (auto simp: admissible_def)
qed

section \<open>Frames\<close>

lemma budget_add_decoded:
  assumes "utf8_decode fr = Some raw"
  shows "budget_add late b raw =
    (let b1 = b\<lparr>b_bytes := b_bytes b + length fr, b_rows := Suc (b_rows b)\<rparr> in
     if length fr > MAX_ROW_BYTES \<or> b_bytes b1 > MAX_TOTAL_BYTES \<or> b_rows b1 > MAX_TOTAL_ROWS
     then (Inl budget_error, b1)
     else if late (b_ticks b1) then (Inl budget_error, tick b1) else (Inr fr, tick b1))"
  by (simp add: budget_add_def utf8_decode_encode [OF assms])

text \<open>
  The body frame in one equation: it is taken exactly when it is UTF-8, within the bounds,
  not before its predecessor, and the clock is not late.
\<close>

lemma d_body_ok:
  assumes "holds_rows b rows d"
  shows "fst (d_body late d fr) = Inr () \<longleftrightarrow>
    admissible b (rows @ [fr]) \<and> \<not> late (b_ticks (d_budget d))"
  using assms
  by (auto simp: d_body_def budget_add_decoded d_reject_def budget_error_def Let_def holds_rows_def
      admissible_snoc split: option.splits if_splits)

definition take_row :: "decoder \<Rightarrow> bytes \<Rightarrow> decoder" where
  "take_row d fr = d\<lparr>
     d_budget := tick (d_budget d\<lparr>b_bytes := b_bytes (d_budget d) + length fr,
                                 b_rows := Suc (b_rows (d_budget d))\<rparr>),
     d_hashed := d_hashed d @ to_bytes_be 8 (length fr) @ fr,
     d_previous := Some fr, d_count := Suc (d_count d), d_phase := Fields, d_needed := 2\<rparr>"

lemma d_body_cases:
  "fst (d_body late d fr) = Inr () \<Longrightarrow> d_body late d fr = (Inr (), take_row d fr)"
  by (auto simp: d_body_def budget_add_decoded d_reject_def budget_error_def Let_def take_row_def
      split: option.splits if_splits)

lemma holds_rows_take_row:
  "holds_rows b rows d \<Longrightarrow> admissible b (rows @ [fr]) \<Longrightarrow> holds_rows b (rows @ [fr]) (take_row d fr)"
  by (simp add: holds_rows_def take_row_def tick_def)

lemma at_frame_take_row:
  "at_frame b rows d \<Longrightarrow> admissible b (rows @ [fr]) \<Longrightarrow> at_frame b (rows @ [fr]) (take_row d fr)"
  by (simp add: at_frame_def holds_rows_take_row) (simp add: take_row_def)

lemma d_body_at_frame:
  assumes "at_frame b rows d" and "d_body late d fr = (Inr (), d')"
  shows "d' = take_row d fr" "at_frame b (rows @ [fr]) d'"
proof -
  show d': "d' = take_row d fr" using assms(2) d_body_cases [of late d fr] by simp
  have "admissible b (rows @ [fr])" using assms d_body_ok [of b rows d late fr]
    by (simp add: at_frame_def)
  then show "at_frame b (rows @ [fr]) d'" unfolding d' by (rule at_frame_take_row [OF assms(1)])
qed

lemma fields_frame:
  assumes "length fr = 2"
  shows "from_bytes_signed fr = -1 \<longleftrightarrow> fr = TRAILER"
    and "from_bytes_signed fr = 1 \<longleftrightarrow> fr = FIELD_COUNT"
proof -
  have n: "fr = to_bytes_be 2 (from_bytes_be fr)" "from_bytes_be fr < 65536"
    using to_from_bytes_be [of fr] from_bytes_be_less [of fr] assms by simp_all
  have t: "from_bytes_be TRAILER = 65535" "from_bytes_be FIELD_COUNT = 1"
    by (simp_all add: TRAILER_def FIELD_COUNT_def from_to_bytes_be)
  have s: "from_bytes_signed fr = -1 \<longleftrightarrow> from_bytes_be fr = 65535"
      "from_bytes_signed fr = 1 \<longleftrightarrow> from_bytes_be fr = 1"
    using n(2) assms by (auto simp: from_bytes_signed_def Let_def)
  show "from_bytes_signed fr = -1 \<longleftrightarrow> fr = TRAILER"
    unfolding s(1) using n(1) t(1) by (metis TRAILER_def)
  show "from_bytes_signed fr = 1 \<longleftrightarrow> fr = FIELD_COUNT"
    unfolding s(2) using n(1) t(2) by (metis FIELD_COUNT_def)
qed

lemma length_frame:
  assumes "length fr = 4" "0 \<le> from_bytes_signed fr"
  shows "fr = to_bytes_be 4 (nat (from_bytes_signed fr))"
  using to_from_bytes_be [of fr] from_bytes_signed_nonneg [OF assms(2)] assms(1) by simp

text \<open>
  A frame that is accepted extends the stream read so far by exactly its bytes, and moves the
  decoder to the next frame boundary.
\<close>

lemma d_frame_sound:
  assumes at: "at_frame b rows d" and pend: "d_pending d = []"
    and len: "length fr = d_needed d" and phase: "d_phase d \<noteq> Trailer"
    and step: "d_frame late d fr = (Inr (), d')"
  obtains rows' where "decoded b (lead (d_phase d) rows (d_needed d) @ fr) rows' d'"
proof (cases "d_phase d")
  case Header
  with at step have "fr = HEADER" "d' = d\<lparr>d_phase := Fields, d_needed := 2\<rparr>" "rows = []"
    by (auto simp: d_frame_def d_reject_def at_frame_def split: if_splits)
  with at pend Header have "decoded b (lead (d_phase d) rows (d_needed d) @ fr) [] d'"
    by (simp add: decoded_def at_frame_def holds_rows_def)
  then show ?thesis by (rule that)
next
  case Fields
  with at len have l: "length fr = 2" by (simp add: at_frame_def)
  from Fields step consider
      "fr = TRAILER" "d' = d\<lparr>d_phase := Trailer, d_needed := 0\<rparr>"
    | "fr = FIELD_COUNT" "d' = d\<lparr>d_phase := Length, d_needed := 4\<rparr>"
    by (auto simp: d_frame_def d_reject_def fields_frame [OF l] split: if_splits)
  then have "decoded b (lead (d_phase d) rows (d_needed d) @ fr) rows d'"
    using at pend Fields by cases (simp_all add: decoded_def at_frame_def holds_rows_def)
  then show ?thesis by (rule that)
next
  case Length
  let ?n = "from_bytes_signed fr"
  from Length step have n: "0 \<le> ?n" "?n \<le> int MAX_ROW_BYTES"
    by (auto simp: d_frame_def d_reject_def Let_def split: if_splits)
  have fr: "fr = to_bytes_be 4 (nat ?n)" using Length at len n(1)
    by (intro length_frame) (simp_all add: at_frame_def)
  show ?thesis
  proof (cases "?n = 0")
    case True
    let ?d1 = "d\<lparr>d_phase := Body, d_needed := 0\<rparr>"
    have "d_body late ?d1 [] = (Inr (), d')" using Length step n True by (simp add: d_frame_def Let_def)
    moreover have "holds_rows b rows ?d1" using at by (simp add: at_frame_def holds_rows_def)
    ultimately have "d' = take_row ?d1 []" "holds_rows b (rows @ [[]]) d'"
      using d_body_cases [of late ?d1 "[]"] d_body_ok [of b rows ?d1 late "[]"]
      by (auto intro: holds_rows_take_row)
    then have "decoded b (lead (d_phase d) rows (d_needed d) @ fr) (rows @ [[]]) d'"
      using at pend Length fr True
      by (simp add: decoded_def at_frame_def take_row_def row_frame_def)
    then show ?thesis by (rule that)
  next
    case False
    then have "d' = d\<lparr>d_phase := Body, d_needed := nat ?n\<rparr>"
      using Length step n by (simp add: d_frame_def Let_def)
    moreover have "0 < nat ?n" "nat ?n \<le> MAX_ROW_BYTES" using n False by simp_all
    ultimately have "decoded b (lead (d_phase d) rows (d_needed d) @ fr) rows d'"
      using at pend Length fr by (simp add: decoded_def at_frame_def holds_rows_def)
    then show ?thesis by (rule that)
  qed
next
  case Body
  then have "d' = take_row d fr" "at_frame b (rows @ [fr]) d'"
    using d_body_at_frame [OF at] step by (simp_all add: d_frame_def)
  then have "decoded b (lead (d_phase d) rows (d_needed d) @ fr) (rows @ [fr]) d'"
    using pend Body len by (simp add: decoded_def take_row_def row_frame_def)
  then show ?thesis by (rule that)
next
  case Trailer
  with phase show ?thesis by simp
qed

section \<open>The write loop\<close>

lemma decoded_tick:
  "decoded b seen rows (d\<lparr>d_budget := tick (d_budget d)\<rparr>) \<longleftrightarrow> decoded b seen rows d"
  by (simp add: decoded_def at_frame_def holds_rows_def tick_def)

lemma d_deadline_ok:
  "d_deadline late d = (Inr (), d') \<Longrightarrow> d' = d\<lparr>d_budget := tick (d_budget d)\<rparr>"
  by (auto simp: d_deadline_def d_reject_def Let_def split: if_splits)

lemma decoded_deadline:
  "decoded b seen rows d \<Longrightarrow> d_deadline late d = (Inr (), d') \<Longrightarrow> decoded b seen rows d'"
  using d_deadline_ok decoded_tick by blast

lemma decoded_pending_room:
  "decoded b seen rows d \<Longrightarrow> d_phase d \<noteq> Trailer \<Longrightarrow> length (d_pending d) < d_needed d"
  by (cases "d_phase d") (auto simp: decoded_def at_frame_def)

text \<open>A round consumes at least one byte and keeps the decoder in step with the stream.\<close>

lemma collect_sound:
  assumes dec: "decoded b seen rows d" and rest: "rest \<noteq> []" and phase: "d_phase d \<noteq> Trailer"
    and step: "collect late d rest = ((Inr (), d2), rest1)"
  shows "\<exists>rows' taken. rest = taken @ rest1 \<and> taken \<noteq> [] \<and> decoded b (seen @ taken) rows' d2"
proof -
  let ?n = "min (d_needed d - length (d_pending d)) (length rest)"
  let ?taken = "take ?n rest"
  let ?d1 = "d\<lparr>d_pending := d_pending d @ ?taken\<rparr>"
  have room: "length (d_pending d) < d_needed d" using dec phase by (rule decoded_pending_room)
  have split: "rest = ?taken @ rest1" using step by (auto simp: collect_def Let_def)
  have ne: "?taken \<noteq> []" using room rest by simp
  have seen: "seen = lead (d_phase d) rows (d_needed d) @ d_pending d"
    and at: "at_frame b rows d" using dec by (simp_all add: decoded_def)
  show ?thesis
  proof (cases "length (d_pending d @ ?taken) = d_needed d")
    case True
    let ?d0 = "d\<lparr>d_pending := []\<rparr>"
    have "d_frame late ?d0 (d_pending d @ ?taken) = (Inr (), d2)"
      using step True by (simp add: collect_def Let_def)
    moreover have "at_frame b rows ?d0" using at by (simp add: at_frame_def holds_rows_def)
    ultimately obtain rows' where
      "decoded b (lead (d_phase ?d0) rows (d_needed ?d0) @ d_pending d @ ?taken) rows' d2"
      using True phase by (elim d_frame_sound) simp_all
    then have "decoded b (seen @ ?taken) rows' d2" using seen by simp
    then show ?thesis using split ne by blast
  next
    case False
    then have "d2 = ?d1" using step by (simp add: collect_def Let_def)
    moreover have "length (d_pending d @ ?taken) < d_needed d" using False room by simp
    moreover have "at_frame b rows ?d1" using at by (simp add: at_frame_def holds_rows_def)
    ultimately have "decoded b (seen @ ?taken) rows d2"
      using seen by (auto simp: decoded_def min_def split: if_splits)
    then show ?thesis using split ne by blast
  qed
qed

lemma write_loop_sound:
  assumes "decoded b seen rows d" "write_loop late fuel d rest = Some (Inr (), d')"
  shows "\<exists>rows'. decoded b (seen @ rest) rows' d'"
  using assms
proof (induction fuel arbitrary: seen rows d rest)
  case 0
  then show ?case by simp
next
  case (Suc fuel)
  show ?case
  proof (cases "rest = []")
    case True
    with Suc.prems show ?thesis by auto
  next
    case False
    have phase: "d_phase d \<noteq> Trailer" using Suc.prems False by (auto simp: d_reject_def)
    obtain d2 rest1 d3 where step: "collect late d rest = ((Inr (), d2), rest1)"
      and dl: "d_deadline late d2 = (Inr (), d3)"
      and rec: "write_loop late fuel d3 rest1 = Some (Inr (), d')"
      using Suc.prems(2) False phase by (auto split: prod.splits sum.splits)
    obtain rows' taken where t: "rest = taken @ rest1" "decoded b (seen @ taken) rows' d2"
      using collect_sound [OF Suc.prems(1) False phase step] by metis
    have "decoded b (seen @ taken) rows' d3" using t(2) dl by (rule decoded_deadline)
    from Suc.IH [OF this rec] t(1) show ?thesis by simp
  qed
qed

lemma write_loop_total:
  assumes "decoded b seen rows d" "length rest < fuel"
  shows "write_loop late fuel d rest \<noteq> None"
  using assms
proof (induction fuel arbitrary: seen rows d rest)
  case 0
  then show ?case by simp
next
  case (Suc fuel)
  show ?case
  proof (cases "rest = [] \<or> d_phase d = Trailer")
    case False
    obtain r d2 rest1 where step: "collect late d rest = ((r, d2), rest1)" by (metis prod.exhaust)
    show ?thesis
    proof (cases r)
      case (Inr u)
      obtain rows' taken where t: "rest = taken @ rest1" "taken \<noteq> []"
        "decoded b (seen @ taken) rows' d2"
        using collect_sound [OF Suc.prems(1), of rest late d2 rest1] step False Inr by auto
      have "write_loop late fuel d3 rest1 \<noteq> None" if "d_deadline late d2 = (Inr (), d3)" for d3
        using Suc.IH [OF decoded_deadline [OF t(3) that]] t(1,2) Suc.prems(2)
        by (cases taken) auto
      with False step Inr show ?thesis by (auto split: prod.splits sum.splits)
    qed (use False step in auto)
  qed auto
qed

section \<open>Accepting a well-formed stream\<close>

lemma two_byte_marks:
  "FIELD_COUNT = [char_of (0::nat), char_of (1::nat)]"
  "TRAILER = [char_of (255::nat), char_of (255::nat)]"
  by (simp_all add: TRAILER_def FIELD_COUNT_def numeral_2_eq_2)

lemma to_bytes_be_inject:
  assumes "m < 256 ^ k" "n < 256 ^ k" "to_bytes_be k m = to_bytes_be k n"
  shows "m = n"
  using assms from_to_bytes_be by metis

text \<open>The framing is uniquely readable: two row lists that agree on a prefix of the bytes agree.\<close>

lemma copy_body_prefix:
  assumes "list_all (\<lambda>r. length r \<le> MAX_ROW_BYTES) ds" "list_all (\<lambda>r. length r \<le> MAX_ROW_BYTES) rows"
    and "copy_body ds @ x = copy_body rows @ TRAILER"
  shows "\<exists>es. rows = ds @ es \<and> x = copy_body es @ TRAILER"
  using assms
proof (induction ds arbitrary: rows)
  case Nil
  then show ?case by auto
next
  case (Cons e ds)
  show ?case
  proof (cases rows)
    case Nil
    with Cons.prems(3) show ?thesis by (simp add: row_frame_def two_byte_marks)
  next
    case (Cons r rs)
    have "to_bytes_be 4 (length e) @ e @ copy_body ds @ x
        = to_bytes_be 4 (length r) @ r @ copy_body rs @ TRAILER"
      using Cons Cons.prems(3) by (simp add: row_frame_def [of e] row_frame_def [of r])
    then have len: "to_bytes_be 4 (length e) = to_bytes_be 4 (length r)"
      and tail: "e @ copy_body ds @ x = r @ copy_body rs @ TRAILER"
      by simp_all
    have "length e = length r"
      by (rule to_bytes_be_inject [OF _ _ len])
        (use Cons Cons.prems in \<open>simp_all add: MAX_ROW_BYTES_def\<close>)
    with tail have "e = r" "copy_body ds @ x = copy_body rs @ TRAILER" by simp_all
    with Cons.IH [of rs] Cons Cons.prems show ?thesis by auto
  qed
qed

lemma admissible_append: "admissible b (ds @ es) \<Longrightarrow> admissible b ds"
  by (auto simp: admissible_def sorted_wrt_append)

lemma admissible_rows_small: "admissible b rows \<Longrightarrow> list_all (\<lambda>r. length r \<le> MAX_ROW_BYTES) rows"
  by (auto simp: admissible_def list_all_iff)

lemma admissible_next:
  assumes "admissible b rows" "admissible b ds" "copy_body ds @ FIELD_COUNT @ x = copy_body rows @ TRAILER"
  obtains e es where "rows = ds @ e # es" "x = to_bytes_be 4 (length e) @ e @ copy_body es @ TRAILER"
    "admissible b (ds @ [e])" "length e \<le> MAX_ROW_BYTES"
proof -
  obtain es where es: "rows = ds @ es" "FIELD_COUNT @ x = copy_body es @ TRAILER"
    using copy_body_prefix [OF _ _ assms(3)] assms(1,2) admissible_rows_small by blast
  from es(2) obtain e es' where e: "es = e # es'"
    by (cases es) (auto simp: two_byte_marks)
  have "admissible b (ds @ [e])" using assms(1) es(1) e admissible_append [of b "ds @ [e]" es'] by simp
  moreover have "length e \<le> MAX_ROW_BYTES" using assms(1) es(1) e by (simp add: admissible_def)
  ultimately show ?thesis using es e by (intro that [of e es']) (simp_all add: row_frame_def)
qed

lemma d_frame_complete:
  assumes at: "at_frame b ds d" and len: "length fr = d_needed d" and phase: "d_phase d \<noteq> Trailer"
    and adm: "admissible b rows" and nl: "\<forall>n. \<not> late n"
    and bytes: "lead (d_phase d) ds (d_needed d) @ fr @ tail = copy_stream rows"
  shows "fst (d_frame late d fr) = Inr ()"
proof -
  have ds: "admissible b ds" "holds_rows b ds d" using at by (simp_all add: at_frame_def holds_rows_def)
  show ?thesis
  proof (cases "d_phase d")
    case Header
    then have "fr = HEADER" using at len bytes by (simp add: at_frame_def copy_stream_def)
    with Header show ?thesis by (simp add: d_frame_def)
  next
    case Fields
    then have l: "length fr = 2" using at len by (simp add: at_frame_def)
    have "copy_body ds @ fr @ tail = copy_body rows @ TRAILER"
      using Fields bytes by (simp add: copy_stream_def)
    then obtain es where "fr @ tail = copy_body es @ TRAILER"
      using copy_body_prefix adm ds(1) admissible_rows_small by blast
    then have "fr = take 2 (copy_body es @ TRAILER)" using l by (metis append_eq_conv_conj)
    then have "fr = TRAILER \<or> fr = FIELD_COUNT"
      by (cases es) (auto simp: row_frame_def two_byte_marks)
    with Fields show ?thesis by (auto simp: d_frame_def fields_frame [OF l] Let_def)
  next
    case Length
    then have l: "length fr = 4" using at len by (simp add: at_frame_def)
    have "copy_body ds @ FIELD_COUNT @ fr @ tail = copy_body rows @ TRAILER"
      using Length bytes by (simp add: copy_stream_def)
    then obtain e es where e: "fr @ tail = to_bytes_be 4 (length e) @ e @ copy_body es @ TRAILER"
        "admissible b (ds @ [e])" "length e \<le> MAX_ROW_BYTES"
      by (rule admissible_next [OF adm ds(1)])
    then have "fr = to_bytes_be 4 (length e)" using l by simp
    then have n: "from_bytes_signed fr = int (length e)"
      using e(3) by (simp add: from_bytes_signed_small MAX_ROW_BYTES_def)
    have "fst (d_body late (d\<lparr>d_phase := Body, d_needed := 0\<rparr>) []) = Inr ()" if "e = []"
      using that e(2) ds nl by (subst d_body_ok [of b ds]) (simp_all add: holds_rows_def)
    with Length n e(3) show ?thesis by (auto simp: d_frame_def Let_def)
  next
    case Body
    have "copy_body ds @ FIELD_COUNT @ to_bytes_be 4 (d_needed d) @ fr @ tail = copy_body rows @ TRAILER"
      using Body bytes by (simp add: copy_stream_def)
    then obtain e es where e: "to_bytes_be 4 (d_needed d) @ fr @ tail
          = to_bytes_be 4 (length e) @ e @ copy_body es @ TRAILER"
        "admissible b (ds @ [e])" "length e \<le> MAX_ROW_BYTES"
      by (rule admissible_next [OF adm ds(1)])
    have "d_needed d = length e"
      by (rule to_bytes_be_inject [of _ 4])
        (use e(1,3) at Body in \<open>simp_all add: at_frame_def MAX_ROW_BYTES_def\<close>)
    then have "fr = e" using e(1) len by simp
    with e(2) Body nl show ?thesis by (simp add: d_frame_def d_body_ok [OF ds(2)])
  qed (use phase in simp)
qed

lemma d_deadline_never_late:
  "\<forall>n. \<not> late n \<Longrightarrow> d_deadline late d = (Inr (), d\<lparr>d_budget := tick (d_budget d)\<rparr>)"
  by (simp add: d_deadline_def)

lemma write_loop_complete:
  assumes adm: "admissible b rows" and nl: "\<forall>n. \<not> late n"
    and "decoded b seen ds d" "seen @ rest @ tail = copy_stream rows" "length rest < fuel"
  shows "\<exists>d' ds'. write_loop late fuel d rest = Some (Inr (), d') \<and> decoded b (seen @ rest) ds' d'"
  using assms(3-)
proof (induction fuel arbitrary: seen ds d rest)
  case 0
  then show ?case by simp
next
  case (Suc fuel)
  have at: "at_frame b ds d" and seen: "seen = lead (d_phase d) ds (d_needed d) @ d_pending d"
    using Suc.prems(1) by (simp_all add: decoded_def)
  show ?case
  proof (cases "rest = []")
    case True
    with Suc.prems(1) show ?thesis by auto
  next
    case False
    have phase: "d_phase d \<noteq> Trailer"
    proof
      assume t: "d_phase d = Trailer"
      then have "copy_body ds @ TRAILER @ rest @ tail = copy_body rows @ TRAILER"
        using Suc.prems(1,2) seen by (auto simp: copy_stream_def decoded_def at_frame_def)
      moreover have "admissible b ds" using at by (simp add: at_frame_def holds_rows_def)
      ultimately obtain es where "TRAILER @ rest @ tail = copy_body es @ TRAILER"
        using copy_body_prefix adm admissible_rows_small by blast
      with False show False
        by (cases es) (auto simp: row_frame_def two_byte_marks)
    qed
    let ?n = "min (d_needed d - length (d_pending d)) (length rest)"
    obtain r d2 rest1 where step: "collect late d rest = ((r, d2), rest1)" by (metis prod.exhaust)
    have "r = Inr ()"
    proof (cases "length (d_pending d @ take ?n rest) = d_needed d")
      case True
      let ?d0 = "d\<lparr>d_pending := []\<rparr>"
      have "at_frame b ds ?d0" using at by (simp add: at_frame_def holds_rows_def)
      moreover have "lead (d_phase ?d0) ds (d_needed ?d0) @ (d_pending d @ take ?n rest)
          @ drop ?n rest @ tail = copy_stream rows"
        using Suc.prems(2) seen by (simp del: append_assoc add: append_assoc [symmetric])
          (metis append.assoc append_take_drop_id)
      ultimately have "fst (d_frame late ?d0 (d_pending d @ take ?n rest)) = Inr ()"
        using True phase by (intro d_frame_complete [OF _ _ _ adm nl]) simp_all
      with step True show ?thesis by (auto simp: collect_def Let_def split: if_splits)
    next
      case False
      with step show ?thesis by (auto simp: collect_def Let_def split: if_splits)
    qed
    with step obtain ds' taken where t: "rest = taken @ rest1" "taken \<noteq> []"
        "decoded b (seen @ taken) ds' d2"
      using collect_sound [OF Suc.prems(1) False phase, of late d2 rest1] by auto
    let ?d3 = "d2\<lparr>d_budget := tick (d_budget d2)\<rparr>"
    have "\<exists>d' ds'. write_loop late fuel ?d3 rest1 = Some (Inr (), d')
        \<and> decoded b ((seen @ taken) @ rest1) ds' d'"
      by (rule Suc.IH) (use t Suc.prems in \<open>auto simp: decoded_tick neq_Nil_conv\<close>)
    with False phase step \<open>r = Inr ()\<close> t(1) show ?thesis
      by (auto simp: d_deadline_never_late [OF nl])
  qed
qed

section \<open>Whole streams\<close>

declare write_loop.simps(2) [simp del]

lemma d_write_sound:
  assumes "decoded b seen rows d" "d_write late d c = Some (Inr (), d')"
  shows "\<exists>rows'. decoded b (seen @ chunk_bytes c) rows' d'"
proof -
  obtain d1 where "d_deadline late d = (Inr (), d1)"
    "write_loop late (Suc (length (chunk_bytes c))) d1 (chunk_bytes c) = Some (Inr (), d')"
    using assms(2) by (auto simp: d_write_def d_reject_def split: if_splits prod.splits sum.splits)
  with assms(1) show ?thesis by (blast intro: write_loop_sound decoded_deadline)
qed

lemma d_write_total:
  assumes "decoded b seen rows d"
  shows "d_write late d c \<noteq> None"
proof -
  have "write_loop late (Suc (length (chunk_bytes c))) d1 (chunk_bytes c) \<noteq> None"
    if "d_deadline late d = (Inr (), d1)" for d1
    using decoded_deadline [OF assms that] by (rule write_loop_total) simp
  then show ?thesis by (auto simp: d_write_def split: prod.splits sum.splits)
qed

lemma write_all_sound:
  "decoded b seen rows d \<Longrightarrow> write_all late d cs = Some (Inr (), d') \<Longrightarrow>
   \<exists>rows'. decoded b (seen @ concat (map chunk_bytes cs)) rows' d'"
proof (induction cs arbitrary: seen rows d)
  case Nil
  then show ?case by auto
next
  case (Cons c cs)
  then obtain d1 where "d_write late d c = Some (Inr (), d1)" "write_all late d1 cs = Some (Inr (), d')"
    by (auto split: option.splits sum.splits prod.splits)
  moreover from this(1) Cons.prems(1) obtain rows1 where "decoded b (seen @ chunk_bytes c) rows1 d1"
    using d_write_sound by blast
  ultimately show ?case using Cons.IH by fastforce
qed

text \<open>
  The length prefixes make the hashed bytes unambiguous, whatever the rows contain.
\<close>

lemma digest_input_inject:
  assumes "list_all (\<lambda>r. length r < 2 ^ 64) rs" "list_all (\<lambda>r. length r < 2 ^ 64) ss"
    and "digest_input rs = digest_input ss"
  shows "rs = ss"
  using assms
proof (induction rs arbitrary: ss)
  case Nil
  then have "length (digest_input ss) = 0" by (simp add: digest_input_def)
  then show ?case by (cases ss) (simp_all add: digest_input_def)
next
  case (Cons r rs)
  from Cons.prems(3) have "length (digest_input ss) \<noteq> 0"
    by (metis (no_types, lifting) digest_input_def Nil_is_append_conv concat.simps(2) length_0_conv
        length_to_bytes_be list.simps(9) zero_neq_numeral)
  then obtain s ss' where ss: "ss = s # ss'" by (cases ss) (auto simp: digest_input_def)
  have eq: "to_bytes_be 8 (length r) = to_bytes_be 8 (length s)"
      "r @ digest_input rs = s @ digest_input ss'"
    using Cons.prems(3) by (simp_all add: ss digest_input_def)
  have "length r = length s"
    by (rule to_bytes_be_inject [OF _ _ eq(1)]) (use Cons.prems(1,2) ss in simp_all)
  with eq(2) have "r = s" "digest_input rs = digest_input ss'" by simp_all
  with Cons.IH [of ss'] Cons.prems ss show ?case by simp
qed

text \<open>Exceptions: a call that raises leaves the decoder failed, and only this error is raised.\<close>

lemma d_body_error:
  "d_body late d fr = (Inl e, d') \<Longrightarrow> e = framing_error \<and> d_failed d'"
  by (auto simp: d_body_def budget_add_decoded d_reject_def budget_error_def Let_def
      split: option.splits if_splits)

lemma d_frame_error:
  "d_frame late d fr = (Inl e, d') \<Longrightarrow> e = framing_error \<and> d_failed d'"
  by (auto simp: d_frame_def d_reject_def Let_def dest: d_body_error split: phase.splits if_splits)

lemma d_deadline_error:
  "d_deadline late d = (Inl e, d') \<Longrightarrow> e = framing_error \<and> d_failed d'"
  by (auto simp: d_deadline_def d_reject_def Let_def split: if_splits)

lemma write_loop_error:
  "write_loop late fuel d rest = Some (Inl e, d') \<Longrightarrow> e = framing_error \<and> d_failed d'"
proof (induction fuel arbitrary: d rest)
  case (Suc fuel)
  have coll: "fst (collect late d rest) = (Inl e, d2) \<Longrightarrow> e = framing_error \<and> d_failed d2" for e d2
    by (auto simp: collect_def Let_def dest: d_frame_error split: if_splits)
  from Suc show ?case
    using coll by (auto simp: write_loop.simps(2) d_reject_def dest: d_deadline_error
        split: if_splits prod.splits sum.splits)
qed simp

lemma d_write_error:
  "d_write late d c = Some (Inl e, d') \<Longrightarrow> e = framing_error \<and> d_failed d'"
  by (auto simp: d_write_def d_reject_def dest: write_loop_error d_deadline_error
      split: if_splits prod.splits sum.splits)

lemma write_all_error:
  "write_all late d cs = Some (Inl e, d') \<Longrightarrow> e = framing_error \<and> d_failed d'"
proof (induction cs arbitrary: d)
  case (Cons c cs)
  then show ?case by (auto dest: d_write_error split: option.splits sum.splits prod.splits)
qed simp

section \<open>Properties\<close>

text \<open>
  C1: whatever way the COPY bytes are cut into chunks, a decoder that has taken every chunk and
  sealed its result has read exactly one well-formed stream. The bytes are the framing of a
  list of rows that is in C order, strictly UTF-8 and within the row, count and byte bounds; the
  reported count is its length, the digest is that of the length-prefixed rows, and the command
  status names the same count.
\<close>

theorem copy_decoder_sound:
  assumes "write_all late (decoder_init b) chunks = Some (Inr (), d)"
    and "d_finish sha late d status = (Inr (n, h), d')"
  shows "\<exists>rows. concat (map chunk_bytes chunks) = copy_stream rows \<and> admissible b rows
    \<and> n = length rows \<and> h = sha (digest_input rows) \<and> status = ''COPY '' @ show_nat n"
proof -
  obtain rows where rows: "decoded b (concat (map chunk_bytes chunks)) rows d"
    using write_all_sound [OF decoded_init assms(1)] by auto
  have fin: "d_phase d = Trailer" "d_pending d = []" "status = ''COPY '' @ show_nat (d_count d)"
      "n = d_count d" "h = sha (d_hashed d)"
    using assms(2) by (auto simp: d_finish_def d_reject_def d_deadline_def Let_def split: if_splits)
  with rows have "concat (map chunk_bytes chunks) = copy_stream rows \<and> admissible b rows
      \<and> n = length rows \<and> h = sha (digest_input rows) \<and> status = ''COPY '' @ show_nat n"
    by (simp add: decoded_def at_frame_def holds_rows_def copy_stream_def)
  then show ?thesis by blast
qed

lemma decoded_whole_stream:
  assumes dec: "decoded b (copy_stream rows) ds d" and adm: "admissible b rows" "admissible b ds"
  shows "d_phase d = Trailer \<and> d_pending d = [] \<and> ds = rows"
proof -
  have eq: "copy_stream rows = lead (d_phase d) ds (d_needed d) @ d_pending d"
    and pend: "d_pending d = [] \<or> length (d_pending d) < d_needed d"
    and size: "frame_size (d_phase d) ds (d_needed d)"
    using dec by (simp_all add: decoded_def at_frame_def)
  note small = adm [THEN admissible_rows_small]
  show ?thesis
  proof (cases "d_phase d")
    case Header
    then have "length (copy_stream rows) = length (d_pending d)" using eq by simp
    then show ?thesis using Header pend size by (auto simp: copy_stream_def)
  next
    case Fields
    then obtain es where "d_pending d = copy_body es @ TRAILER"
      using copy_body_prefix [OF small(2,1)] eq by (fastforce simp: copy_stream_def)
    then show ?thesis using Fields pend size by (auto simp: two_byte_marks)
  next
    case Length
    have "copy_body ds @ FIELD_COUNT @ d_pending d = copy_body rows @ TRAILER"
      using Length eq by (simp add: copy_stream_def)
    then obtain e es where "d_pending d = to_bytes_be 4 (length e) @ e @ copy_body es @ TRAILER"
      by (rule admissible_next [OF adm])
    then have "4 \<le> length (d_pending d)" by simp
    then show ?thesis using Length pend size by auto
  next
    case Body
    have "copy_body ds @ FIELD_COUNT @ to_bytes_be 4 (d_needed d) @ d_pending d = copy_body rows @ TRAILER"
      using Body eq by (simp add: copy_stream_def)
    then obtain e es where e: "to_bytes_be 4 (d_needed d) @ d_pending d
        = to_bytes_be 4 (length e) @ e @ copy_body es @ TRAILER" "length e \<le> MAX_ROW_BYTES"
      by (rule admissible_next [OF adm])
    have "d_needed d = length e"
      by (rule to_bytes_be_inject [of _ 4]) (use e Body size in \<open>simp_all add: MAX_ROW_BYTES_def\<close>)
    then have "d_pending d = e @ copy_body es @ TRAILER" using e(1) by simp
    then show ?thesis using \<open>d_needed d = length e\<close> pend Body size by auto
  next
    case Trailer
    then have "d_pending d = []" using pend size by simp
    with Trailer obtain es where "rows = ds @ es" "TRAILER = copy_body es @ TRAILER"
      using copy_body_prefix [OF small(2,1), of TRAILER] eq by (auto simp: copy_stream_def)
    then show ?thesis using Trailer \<open>d_pending d = []\<close>
      by (cases es) (simp_all add: row_frame_def two_byte_marks)
  qed
qed

lemma write_all_complete:
  assumes "admissible b rows" "\<forall>n. \<not> late n"
    and "list_all (\<lambda>c. c \<noteq> OtherObject \<and> length (chunk_bytes c) \<le> MAX_CHUNK_BYTES) chunks"
    and "decoded b seen ds d" "seen @ concat (map chunk_bytes chunks) @ tail = copy_stream rows"
  shows "\<exists>d' ds'. write_all late d chunks = Some (Inr (), d')
    \<and> decoded b (seen @ concat (map chunk_bytes chunks)) ds' d'"
  using assms(3-)
proof (induction chunks arbitrary: seen ds d)
  case Nil
  then show ?case by auto
next
  case (Cons c cs)
  let ?d1 = "d\<lparr>d_budget := tick (d_budget d)\<rparr>"
  obtain d2 ds2 where loop: "write_loop late (Suc (length (chunk_bytes c))) ?d1 (chunk_bytes c) = Some (Inr (), d2)"
      and dec: "decoded b (seen @ chunk_bytes c) ds2 d2"
    using write_loop_complete [OF assms(1,2), of seen ds ?d1 "chunk_bytes c"
        "concat (map chunk_bytes cs) @ tail" "Suc (length (chunk_bytes c))"] Cons.prems
    by (auto simp: decoded_tick)
  have "d_write late d c = Some (Inr (), d2)"
    using loop Cons.prems(1,2) by (simp add: d_write_def d_deadline_never_late [OF assms(2)] decoded_def at_frame_def)
  with Cons.IH [OF _ dec] Cons.prems show ?case by auto
qed

text \<open>
  C2: conversely every admissible row list is accepted, in every cutting of its stream into
  chunks of at most 8 MiB, as long as the clock does not run out; the result is its length and
  the digest of its length-prefixed rows. In particular the result does not depend on the
  chunking.
\<close>

theorem copy_decoder_complete:
  assumes "admissible b rows" and "\<forall>n. \<not> late n"
    and "list_all (\<lambda>c. c \<noteq> OtherObject \<and> length (chunk_bytes c) \<le> MAX_CHUNK_BYTES) chunks"
    and "concat (map chunk_bytes chunks) = copy_stream rows"
  shows "\<exists>d d'. write_all late (decoder_init b) chunks = Some (Inr (), d)
    \<and> d_finish sha late d (''COPY '' @ show_nat (length rows)) = (Inr (length rows, sha (digest_input rows)), d')"
proof -
  obtain d ds where d: "write_all late (decoder_init b) chunks = Some (Inr (), d)"
      "decoded b (copy_stream rows) ds d"
    using write_all_complete [OF assms(1-3) decoded_init, of "[]"] assms(4) by auto
  have adm: "admissible b ds" using d(2) by (simp add: decoded_def at_frame_def holds_rows_def)
  have end_state: "d_phase d = Trailer \<and> d_pending d = [] \<and> ds = rows"
    using d(2) assms(1) adm by (rule decoded_whole_stream)
  then show ?thesis using d d_deadline_never_late [OF assms(2), of d]
    by (auto simp: d_finish_def decoded_def at_frame_def holds_rows_def)
qed

text \<open>
  A two-row stream, cut inside the header, inside a length and inside a row.
\<close>

definition sample_rows :: "bytes list" where
  "sample_rows = [''ab'', ''b'']"

definition sample_chunks :: "chunk list" where
  "sample_chunks = [Bytes (take 5 (copy_stream sample_rows)), ByteArray (take 18 (drop 5 (copy_stream sample_rows))),
     Bytes [], Bytes (drop 23 (copy_stream sample_rows))]"

lemma sample_concat: "concat (map chunk_bytes sample_chunks) = copy_stream sample_rows"
proof -
  have "concat (map chunk_bytes sample_chunks)
      = take 23 (copy_stream sample_rows) @ drop 23 (copy_stream sample_rows)"
    using take_add [of 5 18 "copy_stream sample_rows"] by (simp add: sample_chunks_def)
  then show ?thesis by simp
qed

lemma sample_chunk_sizes:
  "list_all (\<lambda>c. c \<noteq> OtherObject \<and> length (chunk_bytes c) \<le> MAX_CHUNK_BYTES) sample_chunks"
  by (simp add: sample_chunks_def MAX_CHUNK_BYTES_def copy_stream_def sample_rows_def row_frame_def
      two_byte_marks)

lemma sample_admissible: "admissible budget_init sample_rows"
  by (simp add: admissible_def sample_rows_def budget_init_def MAX_ROW_BYTES_def MAX_TOTAL_ROWS_def
      MAX_TOTAL_BYTES_def)

theorem copy_decoder_complete_witness:
  "admissible budget_init sample_rows
   \<and> (\<exists>d d'. write_all (\<lambda>_. False) (decoder_init budget_init) sample_chunks = Some (Inr (), d)
     \<and> d_finish id (\<lambda>_. False) d (''COPY '' @ show_nat (length sample_rows))
       = (Inr (length sample_rows, id (digest_input sample_rows)), d'))"
  using copy_decoder_complete [of budget_init sample_rows "\<lambda>_. False" sample_chunks id]
    sample_admissible sample_chunk_sizes sample_concat by simp

lemma sample_run:
  obtains d d' where "write_all (\<lambda>_. False) (decoder_init budget_init) sample_chunks = Some (Inr (), d)"
    "d_finish id (\<lambda>_. False) d (''COPY '' @ show_nat 2) = (Inr (2, digest_input sample_rows), d')"
proof -
  obtain d ds where d: "write_all (\<lambda>_. False) (decoder_init budget_init) sample_chunks = Some (Inr (), d)"
      "decoded budget_init (copy_stream sample_rows) ds d"
    using write_all_complete [OF sample_admissible _ sample_chunk_sizes decoded_init, of "\<lambda>_. False" "[]"]
      sample_concat by auto
  then have "d_phase d = Trailer \<and> d_pending d = [] \<and> ds = sample_rows"
    by (intro decoded_whole_stream [OF d(2) sample_admissible])
      (simp add: decoded_def at_frame_def holds_rows_def)
  with d that show ?thesis
    by (auto simp: d_finish_def decoded_def at_frame_def holds_rows_def d_deadline_def sample_rows_def)
qed

theorem copy_decoder_sound_witness:
  "\<exists>d h d'. write_all (\<lambda>_. False) (decoder_init budget_init) sample_chunks = Some (Inr (), d)
    \<and> d_finish id (\<lambda>_. False) d (''COPY '' @ show_nat 2) = (Inr (2, h), d')
    \<and> (\<exists>rows. concat (map chunk_bytes sample_chunks) = copy_stream rows \<and> length rows = 2)"
proof -
  obtain d d' where d: "write_all (\<lambda>_. False) (decoder_init budget_init) sample_chunks = Some (Inr (), d)"
    "d_finish id (\<lambda>_. False) d (''COPY '' @ show_nat 2) = (Inr (2, digest_input sample_rows), d')"
    by (rule sample_run)
  then show ?thesis using copy_decoder_sound [OF d] by auto
qed

text \<open>
  C11: every call of \<^verbatim>\<open>write\<close> ends, in every state a decoder can be in, and a call that
  raises (framing, bounds, order, UTF-8 or deadline) raises the one framing error, leaves the
  decoder failed, and from then on every \<^verbatim>\<open>write\<close> and every \<^verbatim>\<open>finish\<close> is refused:
  a rejected stream can never be sealed.
\<close>

theorem copy_decoder_fail_closed:
  "write_all late (decoder_init b) chunks \<noteq> None
   \<and> (\<forall>e d. write_all late (decoder_init b) chunks = Some (Inl e, d) \<longrightarrow>
        e = framing_error
        \<and> (\<forall>late' c. d_write late' d c = Some (Inl framing_error, d))
        \<and> (\<forall>sha late' status. d_finish sha late' d status = (Inl framing_error, d)))"
proof -
  have total: "write_all late d cs \<noteq> None" if "decoded b seen rows d" for seen rows d cs
    using that
  proof (induction cs arbitrary: seen rows d)
    case (Cons c cs)
    obtain r d1 where w: "d_write late d c = Some (r, d1)" using d_write_total [OF Cons.prems] by fastforce
    then show ?case using d_write_sound [OF Cons.prems, of late c d1] Cons.IH by (cases r) auto
  qed simp
  have "e = framing_error \<and> (\<forall>late' c. d_write late' d c = Some (Inl framing_error, d))
        \<and> (\<forall>sha late' status. d_finish sha late' d status = (Inl framing_error, d))"
    if "write_all late (decoder_init b) chunks = Some (Inl e, d)" for e d
    using write_all_error [OF that] by (simp add: d_write_def d_finish_def d_reject_def)
  with total [OF decoded_init] show ?thesis by blast
qed

theorem copy_decoder_fail_closed_witness:
  "write_all (\<lambda>_. False) (decoder_init budget_init) [OtherObject]
     = Some (Inl framing_error, (decoder_init budget_init)\<lparr>d_failed := True\<rparr>)
   \<and> d_finish id (\<lambda>_. False) ((decoder_init budget_init)\<lparr>d_failed := True\<rparr>) ''COPY 0''
     = (Inl framing_error, (decoder_init budget_init)\<lparr>d_failed := True\<rparr>)"
proof -
  have run: "write_all (\<lambda>_. False) (decoder_init budget_init) [OtherObject]
     = Some (Inl framing_error, (decoder_init budget_init)\<lparr>d_failed := True\<rparr>)"
    by (simp add: d_write_def d_reject_def)
  with copy_decoder_fail_closed [of "\<lambda>_. False" budget_init "[OtherObject]"] show ?thesis by simp
qed

text \<open>
  C19: the bytes fed to SHA-256 determine the stream. Two runs that were both sealed and hashed
  the same bytes read the same COPY stream, also when rows contain newlines or look like length
  prefixes; so two different histories get the same digest only through a hash collision.
\<close>

theorem copy_digest_binds_stream:
  assumes "write_all late (decoder_init b) cs = Some (Inr (), d)"
    and "d_finish sha late d st = (Inr r, d1)"
    and "write_all late' (decoder_init b') cs' = Some (Inr (), d')"
    and "d_finish sha late' d' st' = (Inr r', d1')"
    and "d_hashed d = d_hashed d'"
  shows "concat (map chunk_bytes cs) = concat (map chunk_bytes cs')"
proof -
  obtain rows where rows: "decoded b (concat (map chunk_bytes cs)) rows d"
    using write_all_sound [OF decoded_init assms(1)] by auto
  obtain rows' where rows': "decoded b' (concat (map chunk_bytes cs')) rows' d'"
    using write_all_sound [OF decoded_init assms(3)] by auto
  have "d_phase d = Trailer" "d_pending d = []" "d_phase d' = Trailer" "d_pending d' = []"
    using assms(2,4) by (auto simp: d_finish_def d_reject_def split: if_splits)
  moreover have "rows = rows'"
  proof (rule digest_input_inject)
    show "list_all (\<lambda>r. length r < 2 ^ 64) rows" "list_all (\<lambda>r. length r < 2 ^ 64) rows'"
      using rows rows' by (auto simp: decoded_def at_frame_def holds_rows_def admissible_def
          MAX_ROW_BYTES_def list_all_iff dest!: bspec)
    show "digest_input rows = digest_input rows'"
      using rows rows' assms(5) by (simp add: decoded_def at_frame_def holds_rows_def)
  qed
  ultimately show ?thesis using rows rows' by (simp add: decoded_def)
qed

theorem copy_digest_binds_stream_witness:
  "\<exists>d d'. write_all (\<lambda>_. False) (decoder_init budget_init) sample_chunks = Some (Inr (), d)
    \<and> d_finish id (\<lambda>_. False) d (''COPY '' @ show_nat 2) = (Inr (2, digest_input sample_rows), d')
    \<and> concat (map chunk_bytes sample_chunks) = concat (map chunk_bytes sample_chunks)"
proof -
  obtain d d' where d: "write_all (\<lambda>_. False) (decoder_init budget_init) sample_chunks = Some (Inr (), d)"
    "d_finish id (\<lambda>_. False) d (''COPY '' @ show_nat 2) = (Inr (2, digest_input sample_rows), d')"
    by (rule sample_run)
  then show ?thesis using copy_digest_binds_stream [OF d d refl] by blast
qed

end
