(* ===== verification/Py_Value.thy ===== *)
theory Py_Value
  imports Prelude Complex_Main
begin

text \<open>
  The dynamically typed values the scripts read from JSON, and the operations of the language
  on them: equality and order across \<^verbatim>\<open>bool\<close>, \<^verbatim>\<open>int\<close> and \<^verbatim>\<open>float\<close>, truth,
  \<^verbatim>\<open>isinstance\<close> and \<^verbatim>\<open>type(...) is\<close>, dictionary access with its exceptions, and IEEE
  double rounding. A string is its list of characters with code points below 256; a dictionary
  is an association list in insertion order, the first binding of a key being its value.
\<close>

named_theorems py_access \<open>unfolding rules of the access operations\<close>

section \<open>Floating point numbers\<close>

datatype pyfloat = FNan | FInf bool | FNegZero | FFin rat

definition round_half_even :: "rat \<Rightarrow> int" where
  "round_half_even x =
     (let f = \<lfloor>x\<rfloor>; r = x - of_int f in
      if r < 1 / 2 then f else if r > 1 / 2 then f + 1 else if even f then f else f + 1)"

fun bit_length :: "nat \<Rightarrow> nat" where
  "bit_length n = (if n = 0 then 0 else Suc (bit_length (n div 2)))"

declare bit_length.simps [simp del]

definition exp2 :: "int \<Rightarrow> rat" where
  "exp2 e = (if 0 \<le> e then 2 ^ nat e else 1 / 2 ^ nat (- e))"

text \<open>The exponent \<open>e\<close> with \<open>2^e \<le> x < 2^(e+1)\<close> of a positive rational.\<close>

definition ilog2 :: "rat \<Rightarrow> int" where
  "ilog2 x =
     (case quotient_of x of (a, b) \<Rightarrow>
        let e = int (bit_length (nat a)) - int (bit_length (nat b)) in
        if exp2 e \<le> x then e else e - 1)"

text \<open>The double nearest to a rational, ties to even, with gradual underflow.\<close>

definition round_double :: "rat \<Rightarrow> pyfloat" where
  "round_double q =
     (if q = 0 then FFin 0
      else let u = exp2 (max (ilog2 \<bar>q\<bar>) (-1022) - 52);
               r = of_int (round_half_even (\<bar>q\<bar> / u)) * u
           in if exp2 1024 \<le> r then FInf (q < 0)
              else if r = 0 \<and> q < 0 then FNegZero
              else FFin (if q < 0 then - r else r))"

lemma bit_length_power [simp]: "bit_length (2 ^ n) = Suc n"
proof (induction n)
  case 0
  have "bit_length 1 = Suc (bit_length (1 div 2))" "bit_length 0 = 0" by (subst bit_length.simps, simp)+
  then show ?case by simp
next
  case (Suc n)
  then show ?case by (subst bit_length.simps) simp
qed

lemma ilog2_power: "ilog2 (2 ^ n) = int n"
proof -
  have q: "quotient_of (2 ^ n) = (2 ^ n, 1)"
    using quotient_of_int [of "2 ^ n"] by (simp add: Rat.of_int_def)
  have "bit_length 1 = 1" using bit_length_power [of 0] by simp
  then show ?thesis by (simp add: ilog2_def q exp2_def nat_power_eq)
qed

lemma round_half_even_int [simp]: "round_half_even (of_int i) = i"
  by (simp add: round_half_even_def)

text \<open>A power of two at or beyond the double range rounds to infinity.\<close>

lemma round_double_overflow:
  assumes "1024 \<le> n"
  shows "round_double (2 ^ n) = FInf False"
proof -
  have u: "exp2 (max (int n) (-1022) - 52) = 2 ^ (n - 52)"
    using assms by (simp add: exp2_def max_def nat_diff_distrib)
  have p: "(2::rat) ^ n = of_int (2 ^ 52) * 2 ^ (n - 52)"
  proof -
    have "(2::rat) ^ n = 2 ^ (52 + (n - 52))" using assms by simp
    then show ?thesis by (simp add: power_add)
  qed
  have r: "of_int (round_half_even (\<bar>2 ^ n\<bar> / 2 ^ (n - 52))) * (2::rat) ^ (n - 52) = 2 ^ n"
    by (simp add: p del: of_int_power of_int_numeral)
  have "exp2 1024 \<le> (2::rat) ^ n" using assms by (simp add: exp2_def power_increasing del: power_numeral)
  then show ?thesis using ilog2_power [of n] r u
    by (simp add: round_double_def Let_def not_less del: power_numeral)
qed

fun finite_value :: "pyfloat \<Rightarrow> rat option" where
  "finite_value FNegZero = Some 0"
| "finite_value (FFin q) = Some q"
| "finite_value _ = None"

fun float_neg :: "pyfloat \<Rightarrow> pyfloat" where
  "float_neg FNan = FNan"
| "float_neg (FInf s) = FInf (\<not> s)"
| "float_neg FNegZero = FFin 0"
| "float_neg (FFin q) = (if q = 0 then FNegZero else FFin (- q))"

fun float_add :: "pyfloat \<Rightarrow> pyfloat \<Rightarrow> pyfloat" where
  "float_add FNan y = FNan"
| "float_add x FNan = FNan"
| "float_add (FInf s) (FInf t) = (if s = t then FInf s else FNan)"
| "float_add (FInf s) y = FInf s"
| "float_add x (FInf t) = FInf t"
| "float_add FNegZero FNegZero = FNegZero"
| "float_add FNegZero (FFin q) = FFin q"
| "float_add (FFin q) FNegZero = FFin q"
| "float_add (FFin p) (FFin q) = round_double (p + q)"

fun float_eq :: "pyfloat \<Rightarrow> pyfloat \<Rightarrow> bool" where
  "float_eq (FInf s) (FInf t) = (s = t)"
| "float_eq x y = (case (finite_value x, finite_value y) of (Some p, Some q) \<Rightarrow> p = q | _ \<Rightarrow> False)"

text \<open>\<^verbatim>\<open>x < y\<close>; every comparison with NaN is false.\<close>

fun float_lt :: "pyfloat \<Rightarrow> pyfloat \<Rightarrow> bool" where
  "float_lt FNan y = False"
| "float_lt x FNan = False"
| "float_lt (FInf s) (FInf t) = (s \<and> \<not> t)"
| "float_lt (FInf s) y = s"
| "float_lt x (FInf t) = (\<not> t)"
| "float_lt x y = (case (finite_value x, finite_value y) of (Some p, Some q) \<Rightarrow> p < q | _ \<Rightarrow> False)"

abbreviation float_le :: "pyfloat \<Rightarrow> pyfloat \<Rightarrow> bool" where
  "float_le x y \<equiv> float_lt x y \<or> float_eq x y"

lemma float_eq_FFin [simp]: "float_eq x (FFin q) \<longleftrightarrow> finite_value x = Some q"
  by (cases x) auto

lemma float_lt_FFin [simp]: "float_lt (FFin p) (FFin q) \<longleftrightarrow> p < q"
  by simp

text \<open>Without NaN the comparisons are the usual trichotomy.\<close>

lemma float_trichotomy: "x \<noteq> FNan \<Longrightarrow> y \<noteq> FNan \<Longrightarrow> float_lt x y \<or> float_eq x y \<or> float_lt y x"
  by (cases x; cases y) auto

section \<open>Values\<close>

datatype pyval =
    PNone
  | PBool bool
  | PInt int
  | PFloat pyfloat
  | PStr string
  | PList "pyval list"
  | PDict "(string \<times> pyval) list"

type_synonym items = "(string \<times> pyval) list"

text \<open>Numbers, with \<^verbatim>\<open>True\<close> and \<^verbatim>\<open>False\<close> among them; integers are compared exactly.\<close>

fun num_of :: "pyval \<Rightarrow> pyfloat option" where
  "num_of (PBool b) = Some (FFin (if b then 1 else 0))"
| "num_of (PInt i) = Some (FFin (of_int i))"
| "num_of (PFloat f) = Some f"
| "num_of _ = None"

fun py_eq :: "pyval \<Rightarrow> pyval \<Rightarrow> bool"
  and py_eq_list :: "pyval list \<Rightarrow> pyval list \<Rightarrow> bool"
  and py_eq_items :: "items \<Rightarrow> items \<Rightarrow> bool" where
  "py_eq (PStr s) v = (case v of PStr t \<Rightarrow> s = t | _ \<Rightarrow> False)"
| "py_eq (PList xs) v = (case v of PList ys \<Rightarrow> py_eq_list xs ys | _ \<Rightarrow> False)"
| "py_eq (PDict m) v = (case v of PDict n \<Rightarrow> length m = length n \<and> py_eq_items m n | _ \<Rightarrow> False)"
| "py_eq PNone v = (v = PNone)"
| "py_eq u v = (case (num_of u, num_of v) of (Some x, Some y) \<Rightarrow> float_eq x y | _ \<Rightarrow> False)"
| "py_eq_list [] ys = (ys = [])"
| "py_eq_list (x # xs) ys = (case ys of [] \<Rightarrow> False | y # ys' \<Rightarrow> py_eq x y \<and> py_eq_list xs ys')"
| "py_eq_items [] n = True"
| "py_eq_items ((k, v) # m) n =
     (case map_of n k of None \<Rightarrow> False | Some w \<Rightarrow> py_eq v w \<and> py_eq_items m n)"

lemma py_eq_list_conv: "py_eq_list xs ys \<longleftrightarrow> list_all2 py_eq xs ys"
  by (induction xs arbitrary: ys) (auto simp: list_all2_Cons1 split: list.splits)

lemma py_eq_PStr [simp]: "py_eq v (PStr s) \<longleftrightarrow> v = PStr s"
  by (cases v) auto

lemma py_eq_PNone [simp]: "py_eq v PNone \<longleftrightarrow> v = PNone"
  by (cases v) auto

lemma py_eq_PInt: "py_eq v (PInt i) \<longleftrightarrow> (\<exists>f. num_of v = Some f \<and> finite_value f = Some (of_int i))"
  by (cases v) (auto split: option.splits)

lemma py_eq_PInt_PInt [simp]: "py_eq (PInt i) (PInt j) \<longleftrightarrow> i = j"
  by (simp add: py_eq_PInt)

lemma py_eq_PBool_PInt [simp]: "py_eq (PBool b) (PInt i) \<longleftrightarrow> i = (if b then 1 else 0)"
  by (auto simp: py_eq_PInt)

lemma py_eq_list_Nil [simp]: "py_eq v (PList []) \<longleftrightarrow> v = PList []"
  by (cases v) (auto split: list.splits simp: py_eq_list_conv)

lemma py_eq_strs: "py_eq v (PList (map PStr ss)) \<longleftrightarrow> v = PList (map PStr ss)"
proof -
  have "py_eq_list xs (map PStr ss) \<longleftrightarrow> xs = map PStr ss" for xs
    by (auto simp: py_eq_list_conv list_all2_map2 list_all2_conv_all_nth intro: nth_equalityI)
  then show ?thesis by (cases v) auto
qed

section \<open>Order\<close>

text \<open>
  \<^verbatim>\<open>x < y\<close> on numbers and on strings; other pairs of the types that occur raise.
\<close>

fun str_lt :: "string \<Rightarrow> string \<Rightarrow> bool" where
  "str_lt s [] = False"
| "str_lt [] (c # cs) = True"
| "str_lt (b # bs) (c # cs) = (code b < code c \<or> (b = c \<and> str_lt bs cs))"

lemma str_lt_irrefl [simp]: "\<not> str_lt s s"
  by (induction s) auto

lemma str_lt_trans: "str_lt xs ys \<Longrightarrow> str_lt ys zs \<Longrightarrow> str_lt xs zs"
proof (induction xs ys arbitrary: zs rule: str_lt.induct)
  case (3 x xs y ys)
  then show ?case by (cases zs) auto
next
  case (2 y ys)
  then show ?case by (cases zs) auto
qed auto

lemma str_lt_linear: "str_lt xs ys \<or> xs = ys \<or> str_lt ys xs"
proof (induction xs ys rule: str_lt.induct)
  case (1 xs)
  then show ?case by (cases xs) auto
next
  case (3 x xs y ys)
  then show ?case by (metis str_lt.simps(3) nat_neq_iff of_char_eq_iff)
qed auto

text \<open>\<^verbatim>\<open>sorted(set(...))\<close>: insertion into a strictly increasing list.\<close>

fun str_insert :: "string \<Rightarrow> string list \<Rightarrow> string list" where
  "str_insert s [] = [s]"
| "str_insert s (t # ts) =
     (if s = t then t # ts else if str_lt s t then s # t # ts else t # str_insert s ts)"

definition sorted_set :: "string list \<Rightarrow> string list" where
  "sorted_set xs = foldr str_insert xs []"

lemma set_str_insert [simp]: "set (str_insert s ts) = insert s (set ts)"
  by (induction ts) auto

lemma set_sorted_set [simp]: "set (sorted_set xs) = set xs"
  by (induction xs) (auto simp: sorted_set_def)

lemma str_insert_sorted: "sorted_wrt str_lt ts \<Longrightarrow> sorted_wrt str_lt (str_insert s ts)"
proof (induction ts)
  case (Cons t ts)
  then show ?case using str_lt_linear [of s t] by (auto intro: str_lt_trans)
qed simp

lemma sorted_sorted_set: "sorted_wrt str_lt (sorted_set xs)"
  by (induction xs) (auto simp: sorted_set_def intro: str_insert_sorted)

lemma sorted_set_Nil [simp]: "sorted_set xs = [] \<longleftrightarrow> xs = []"
  by (metis set_empty set_sorted_set)

lemma sorted_wrt_str_lt_unique:
  "sorted_wrt str_lt xs \<Longrightarrow> sorted_wrt str_lt ys \<Longrightarrow> set xs = set ys \<Longrightarrow> xs = ys"
proof (induction xs arbitrary: ys)
  case Nil
  then show ?case by simp
next
  case (Cons x xs)
  then obtain y ys' where ys: "ys = y # ys'" by (cases ys) auto
  have "x = y"
  proof (rule ccontr)
    assume "x \<noteq> y"
    then have "x \<in> set ys'" "y \<in> set xs" using Cons.prems(3) ys by auto
    then have "str_lt y x" "str_lt x y" using Cons.prems(1,2) ys by auto
    then show False using str_lt_trans by fastforce
  qed
  moreover have "x \<notin> set xs" "y \<notin> set ys'" using Cons.prems(1,2) ys by auto
  ultimately have "set xs = set ys'" using Cons.prems(3) ys by auto
  then show ?case using Cons ys \<open>x = y\<close> by simp
qed

text \<open>The printed set does not depend on the order or the multiplicity of its elements.\<close>

lemma sorted_set_cong: "set xs = set ys \<Longrightarrow> sorted_set xs = sorted_set ys"
  by (intro sorted_wrt_str_lt_unique sorted_sorted_set) simp

fun py_lt :: "pyval \<Rightarrow> pyval \<Rightarrow> bool py" where
  "py_lt (PStr s) (PStr t) = Inr (str_lt s t)"
| "py_lt u v = (case (num_of u, num_of v) of (Some x, Some y) \<Rightarrow> Inr (float_lt x y) | _ \<Rightarrow> Inl TypeError)"

lemma py_lt_PInt [simp]: "py_lt (PInt i) (PInt j) = Inr (i < j)"
  by simp

section \<open>Types and truth\<close>

fun is_bool :: "pyval \<Rightarrow> bool" where "is_bool (PBool _) = True" | "is_bool _ = False"
fun is_str :: "pyval \<Rightarrow> bool" where "is_str (PStr _) = True" | "is_str _ = False"
fun is_list :: "pyval \<Rightarrow> bool" where "is_list (PList _) = True" | "is_list _ = False"
fun is_dict :: "pyval \<Rightarrow> bool" where "is_dict (PDict _) = True" | "is_dict _ = False"

text \<open>\<^verbatim>\<open>type(v) is int\<close>, which is false of booleans.\<close>

fun type_is_int :: "pyval \<Rightarrow> bool" where "type_is_int (PInt _) = True" | "type_is_int _ = False"

lemma is_str_iff: "is_str v \<longleftrightarrow> (\<exists>s. v = PStr s)" by (cases v) auto
lemma is_list_iff: "is_list v \<longleftrightarrow> (\<exists>xs. v = PList xs)" by (cases v) auto
lemma is_dict_iff: "is_dict v \<longleftrightarrow> (\<exists>m. v = PDict m)" by (cases v) auto
lemma is_bool_iff: "is_bool v \<longleftrightarrow> (\<exists>b. v = PBool b)" by (cases v) auto
lemma type_is_int_iff: "type_is_int v \<longleftrightarrow> (\<exists>i. v = PInt i)" by (cases v) auto

lemmas type_iffs = is_str_iff is_list_iff is_dict_iff is_bool_iff type_is_int_iff

fun py_truth :: "pyval \<Rightarrow> bool" where
  "py_truth PNone = False"
| "py_truth (PBool b) = b"
| "py_truth (PInt i) = (i \<noteq> 0)"
| "py_truth (PFloat f) = (\<not> float_eq f (FFin 0))"
| "py_truth (PStr s) = (s \<noteq> [])"
| "py_truth (PList xs) = (xs \<noteq> [])"
| "py_truth (PDict m) = (m \<noteq> [])"

text \<open>\<^verbatim>\<open>float(v)\<close> of a number: an integer beyond the double range raises.\<close>

fun py_float :: "pyval \<Rightarrow> pyfloat py" where
  "py_float (PInt i) =
     (case round_double (of_int i) of FInf s \<Rightarrow> Inl OverflowError | f \<Rightarrow> Inr f)"
| "py_float (PBool b) = Inr (FFin (if b then 1 else 0))"
| "py_float (PFloat f) = Inr f"
| "py_float (PStr s) = Inl ValueError"
| "py_float _ = Inl TypeError"

section \<open>Access\<close>

text \<open>\<^verbatim>\<open>m.get(k)\<close> and \<^verbatim>\<open>m.get(k, d)\<close> on a dictionary, and on any value.\<close>

definition dict_get :: "items \<Rightarrow> string \<Rightarrow> pyval" where
  "dict_get m k = (case map_of m k of None \<Rightarrow> PNone | Some v \<Rightarrow> v)"

definition dict_get_default :: "items \<Rightarrow> string \<Rightarrow> pyval \<Rightarrow> pyval" where
  "dict_get_default m k d = (case map_of m k of None \<Rightarrow> d | Some v \<Rightarrow> v)"

fun py_get :: "pyval \<Rightarrow> string \<Rightarrow> pyval py" where
  "py_get (PDict m) k = Inr (dict_get m k)"
| "py_get _ k = Inl AttributeError"

text \<open>\<^verbatim>\<open>v[k]\<close> with a string key.\<close>

fun py_item :: "pyval \<Rightarrow> string \<Rightarrow> pyval py" where
  "py_item (PDict m) k = (case map_of m k of None \<Rightarrow> Inl KeyError | Some v \<Rightarrow> Inr v)"
| "py_item _ k = Inl TypeError"

definition keys_are :: "items \<Rightarrow> string list \<Rightarrow> bool" where
  "keys_are m ks \<longleftrightarrow> set (map fst m) = set ks"

lemma dict_get_present: "dict_get m k \<noteq> PNone \<Longrightarrow> map_of m k = Some (dict_get m k)"
  by (auto simp: dict_get_def split: option.splits)

lemma keys_are_lookup: "keys_are m ks \<Longrightarrow> k \<in> set ks \<Longrightarrow> map_of m k = Some (dict_get m k)"
  by (force simp: keys_are_def dict_get_def map_of_eq_None_iff split: option.splits)

lemma py_item_get: "map_of m k = Some v \<Longrightarrow> dict_get m k = v"
  by (simp add: dict_get_def)

text \<open>\<^verbatim>\<open>re.fullmatch(r"[0-9a-f]{n}", str(v))\<close> for \<open>24 < n\<close>: only a string, or an
  integer with that many decimal digits, has such a text (the text of a float is shorter, that of
  any other value starts with a letter or a bracket). The text of an integer of more than 4300
  digits is refused by the interpreter.\<close>

fun str_is_hex :: "nat \<Rightarrow> pyval \<Rightarrow> bool py" where
  "str_is_hex n (PStr s) = Inr (hex_lower_n n s)"
| "str_is_hex n (PInt i) =
     (if 4300 < length (show_nat (nat \<bar>i\<bar>)) then Inl ValueError else Inr (hex_lower_n n (show_int i)))"
| "str_is_hex n _ = Inr False"

end
