(* ===== verification/Py_Text.thy ===== *)
theory Py_Text
  imports Prelude
begin

text \<open>
  The \<^verbatim>\<open>str\<close> methods the scripts use, on strings of code points below 256:
  \<^verbatim>\<open>splitlines\<close>, \<^verbatim>\<open>strip\<close>, \<^verbatim>\<open>split\<close>, \<^verbatim>\<open>partition\<close>, \<^verbatim>\<open>startswith\<close>,
  \<^verbatim>\<open>endswith\<close>.
\<close>

definition is_space :: "char \<Rightarrow> bool" where
  "is_space c \<longleftrightarrow>
     (9 \<le> code c \<and> code c \<le> 13) \<or> (28 \<le> code c \<and> code c \<le> 32) \<or> code c = 133 \<or> code c = 160"

lemma is_space_code [code]:
  "is_space c \<longleftrightarrow> c \<in> set [CHR 0x09, CHR 0x0A, CHR 0x0B, CHR 0x0C, CHR 0x0D, CHR 0x1C, CHR 0x1D, CHR 0x1E,
     CHR 0x1F, CHR 0x20, CHR 0x85, CHR 0xA0]"
proof -
  have "\<forall>c. is_space c \<longleftrightarrow> c \<in> set [CHR 0x09, CHR 0x0A, CHR 0x0B, CHR 0x0C, CHR 0x0D, CHR 0x1C, CHR 0x1D,
     CHR 0x1E, CHR 0x1F, CHR 0x20, CHR 0x85, CHR 0xA0]" by code_simp
  then show ?thesis by blast
qed

definition is_linebreak :: "char \<Rightarrow> bool" where
  "is_linebreak c \<longleftrightarrow>
     (10 \<le> code c \<and> code c \<le> 13) \<or> (28 \<le> code c \<and> code c \<le> 30) \<or> code c = 133"

text \<open>\<^verbatim>\<open>str.splitlines()\<close>, the line under construction kept reversed.\<close>

fun split_lines_from :: "string \<Rightarrow> string \<Rightarrow> string list" where
  "split_lines_from cur [] = (if cur = [] then [] else [rev cur])"
| "split_lines_from cur (c # cs) =
     (if code c = 13 \<and> cs \<noteq> [] \<and> code (hd cs) = 10 then rev cur # split_lines_from [] (tl cs)
      else if is_linebreak c then rev cur # split_lines_from [] cs
      else split_lines_from (c # cur) cs)"

definition splitlines :: "string \<Rightarrow> string list" where
  "splitlines s = split_lines_from [] s"

text \<open>\<^verbatim>\<open>bytes.splitlines()\<close>, which breaks at \<^verbatim>\<open>\n\<close>, \<^verbatim>\<open>\r\<close> and \<^verbatim>\<open>\r\n\<close> only.\<close>

fun byte_lines_from :: "bytes \<Rightarrow> bytes \<Rightarrow> bytes list" where
  "byte_lines_from cur [] = (if cur = [] then [] else [rev cur])"
| "byte_lines_from cur (c # cs) =
     (if code c = 13 \<and> cs \<noteq> [] \<and> code (hd cs) = 10 then rev cur # byte_lines_from [] (tl cs)
      else if code c = 13 \<or> code c = 10 then rev cur # byte_lines_from [] cs
      else byte_lines_from (c # cur) cs)"

definition strip_of :: "(char \<Rightarrow> bool) \<Rightarrow> string \<Rightarrow> string" where
  "strip_of p s = rev (dropWhile p (rev (dropWhile p s)))"

abbreviation strip :: "string \<Rightarrow> string" where
  "strip s \<equiv> strip_of is_space s"

text \<open>\<^verbatim>\<open>str.split()\<close>: the maximal runs of non-space characters.\<close>

fun words_from :: "string \<Rightarrow> string \<Rightarrow> string list" where
  "words_from cur [] = (if cur = [] then [] else [rev cur])"
| "words_from cur (c # cs) =
     (if is_space c then (if cur = [] then words_from [] cs else rev cur # words_from [] cs)
      else words_from (c # cur) cs)"

definition words :: "string \<Rightarrow> string list" where
  "words s = words_from [] s"

definition startswith :: "string \<Rightarrow> string \<Rightarrow> bool" where
  "startswith s p \<longleftrightarrow> take (length p) s = p"

definition endswith :: "string \<Rightarrow> string \<Rightarrow> bool" where
  "endswith s p \<longleftrightarrow> length p \<le> length s \<and> drop (length s - length p) s = p"

text \<open>\<^verbatim>\<open>s.partition(c)\<close> for a one-character separator: before, found, after.\<close>

fun partition_at :: "char \<Rightarrow> string \<Rightarrow> string \<times> bool \<times> string" where
  "partition_at sep [] = ([], False, [])"
| "partition_at sep (c # cs) =
     (if c = sep then ([], True, cs)
      else case partition_at sep cs of (a, found, b) \<Rightarrow> (c # a, found, b))"

lemma partition_at_found: "partition_at sep s = (a, True, b) \<Longrightarrow> s = a @ sep # b \<and> sep \<notin> set a"
proof (induction s arbitrary: a)
  case (Cons c cs)
  obtain x y z where p: "partition_at sep cs = (x, y, z)" by (rule prod_cases3)
  show ?case
  proof (cases "c = sep")
    case True
    with Cons.prems show ?thesis by simp
  next
    case False
    then have "a = c # x" "y = True" "z = b" using Cons.prems p by simp_all
    with Cons.IH [of x] p False show ?thesis by simp
  qed
qed simp

lemma partition_at_not_found: "partition_at sep s = (a, False, b) \<Longrightarrow> a = s \<and> b = [] \<and> sep \<notin> set s"
proof (induction s arbitrary: a)
  case (Cons c cs)
  obtain x y z where p: "partition_at sep cs = (x, y, z)" by (rule prod_cases3)
  show ?case
  proof (cases "c = sep")
    case True
    with Cons.prems show ?thesis by simp
  next
    case False
    then have "a = c # x" "y = False" "z = b" using Cons.prems p by simp_all
    with Cons.IH [of x] p False show ?thesis by simp
  qed
qed simp

section \<open>Slugs\<close>

text \<open>\<^verbatim>\<open>[a-z0-9](?:[a-z0-9-]{0,46}[a-z0-9])?\<close>\<close>

definition slug_char :: "char \<Rightarrow> bool" where
  "slug_char c \<longleftrightarrow> is_lower c \<or> is_digit c"

definition slug :: "string \<Rightarrow> bool" where
  "slug s \<longleftrightarrow> s \<noteq> [] \<and> length s \<le> 48 \<and> slug_char (hd s) \<and> slug_char (last s)
     \<and> list_all (\<lambda>c. slug_char c \<or> c = CHR ''-'') s"

end
