(* ===== verification/Canary.thy ===== *)
theory Canary
  imports Py_Value Py_Text
begin

text \<open>
  \<^verbatim>\<open>src/scripts/paper_canary_acceptance.py\<close>: the acceptance gate of the EVEDEX DEV technical
  canary. The evidence is a dynamically typed value; parsing it yields the records below or an
  exception, and the evaluator turns every exception it catches into the fixed failure report.
  Sets of strings are lists here; a membership test or a comparison as sets is meant throughout.
\<close>

section \<open>Constants\<close>

definition EXPECTED_SYMBOLS :: "string list" where
  "EXPECTED_SYMBOLS = [''BTCUSDT'', ''ETHUSDT'', ''SOLUSDT'', ''BNBUSDT'', ''XRPUSDT'']"

definition EXPECTED_VENUE_SYMBOLS :: "(string \<times> string) list" where
  "EXPECTED_VENUE_SYMBOLS =
     [(''BTCUSDT'', ''BTCUSD:DEV''), (''ETHUSDT'', ''ETHUSD:DEV''), (''SOLUSDT'', ''SOLUSD:DEV''),
      (''BNBUSDT'', ''BNBUSD:DEV''), (''XRPUSDT'', ''XRPUSD:DEV'')]"

definition EXPECTED_ENVIRONMENTS :: "string list" where
  "EXPECTED_ENVIRONMENTS = [''paper:EVEDEX:DEV:PAPER'', ''paper-dev:EVEDEX:DEV:PAPER'']"

definition TERMINAL_STATES :: "string list" where
  "TERMINAL_STATES = [''FLAT'', ''CANCELLED'']"

definition REQUIRED_PROTECTION_EVENTS :: "string list" where
  "REQUIRED_PROTECTION_EVENTS =
     [''STOP_CREATED'', ''STOP_RECONCILED'', ''TARGET_CREATED'', ''TARGET_RECONCILED'']"

definition REQUIRED_EXIT_REASONS :: "string list" where
  "REQUIRED_EXIT_REASONS = [''STOP'', ''TARGET'', ''TIMEOUT'']"

definition FILL_EVENTS :: "string list" where
  "FILL_EVENTS = [''ENTRY_FILLED'', ''ENTRY_PARTIAL_FILL'']"

definition FORBIDDEN_PUBLIC_EVENTS :: "string list" where
  "FORBIDDEN_PUBLIC_EVENTS = [''FAILED'', ''RECOVERY_BLOCKED'', ''EMERGENCY_CLOSE'']"

definition ACCOUNT_PATTERN :: "string \<Rightarrow> bool" where
  "ACCOUNT_PATTERN s \<longleftrightarrow>
     take 17 s = ''kairos-paper-dev-'' \<and> slug (drop 17 s)"

definition COMPOSE_PROJECT_PATTERN :: "string \<Rightarrow> bool" where
  "COMPOSE_PROJECT_PATTERN s \<longleftrightarrow>
     s = ''kairos-paper'' \<or> (take 13 s = ''kairos-paper-'' \<and> slug (drop 13 s))"

definition DATABASE_IDENTIFIER_PATTERN :: "string \<Rightarrow> bool" where
  "DATABASE_IDENTIFIER_PATTERN s \<longleftrightarrow>
     s \<noteq> [] \<and> length s \<le> 63 \<and> (is_lower (hd s) \<or> hd s = CHR ''_'')
     \<and> list_all (\<lambda>c. is_lower c \<or> is_digit c \<or> c = CHR ''_'') s"

text \<open>\<^verbatim>\<open>str.casefold\<close> on ASCII letters; no other character folds into \<^verbatim>\<open>evedex\<close>.\<close>

definition casefold :: "string \<Rightarrow> string" where
  "casefold s = map to_lower s"

section \<open>Typed reads\<close>

definition schema_error :: "string \<Rightarrow> string \<Rightarrow> 'a py" where
  "schema_error label what = Inl (EvidenceSchemaError (label @ what))"

definition exact_keys :: "items \<Rightarrow> string list \<Rightarrow> string \<Rightarrow> unit py" where
  "exact_keys m expected label =
     (if keys_are m expected then Inr () else schema_error label '' has an unsupported shape'')"

fun as_mapping :: "pyval \<Rightarrow> string \<Rightarrow> items py" where
  "as_mapping (PDict m) label = Inr m"
| "as_mapping _ label = schema_error label '' must be an object''"

fun as_list :: "pyval \<Rightarrow> string \<Rightarrow> pyval list py" where
  "as_list (PList xs) label = Inr xs"
| "as_list _ label = schema_error label '' must be an array''"

fun as_text :: "pyval \<Rightarrow> string \<Rightarrow> string py" where
  "as_text (PStr s) label =
     (if s = [] then schema_error label '' must be non-empty text'' else Inr s)"
| "as_text _ label = schema_error label '' must be non-empty text''"

fun as_boolean :: "pyval \<Rightarrow> string \<Rightarrow> bool py" where
  "as_boolean (PBool b) label = Inr b"
| "as_boolean _ label = schema_error label '' must be boolean''"

fun as_integer :: "pyval \<Rightarrow> string \<Rightarrow> int py" where
  "as_integer (PInt i) label =
     (if i < 0 then schema_error label '' must be a non-negative integer'' else Inr i)"
| "as_integer _ label = schema_error label '' must be a non-negative integer''"

definition as_finite_nonnegative :: "pyval \<Rightarrow> string \<Rightarrow> pyfloat py" where
  "as_finite_nonnegative v label =
     (if (case v of PInt _ \<Rightarrow> True | PFloat _ \<Rightarrow> True | _ \<Rightarrow> False) then
        py_bind (py_float v) (\<lambda>f.
          if finite_value f = None \<or> float_lt f (FFin 0)
          then schema_error label '' must be finite and non-negative'' else Inr f)
      else schema_error label '' must be numeric'')"

fun nonempty_text :: "pyval \<Rightarrow> bool" where
  "nonempty_text (PStr s) = (s \<noteq> [])"
| "nonempty_text _ = False"

fun text_of :: "pyval \<Rightarrow> string" where
  "text_of (PStr s) = s"
| "text_of _ = []"

definition as_text_set :: "pyval \<Rightarrow> string \<Rightarrow> string list py" where
  "as_text_set v label =
     py_bind (as_list v label) (\<lambda>items.
       if \<not> list_all nonempty_text items then schema_error label '' must contain non-empty text''
       else if \<not> distinct (map text_of items) then schema_error label '' must not contain duplicates''
       else Inr (map text_of items))"

text \<open>\<^verbatim>\<open>convert(m[key], label)\<close>\<close>

definition read :: "items \<Rightarrow> string \<Rightarrow> (pyval \<Rightarrow> string \<Rightarrow> 'a py) \<Rightarrow> string \<Rightarrow> 'a py" where
  "read m key convert label = py_bind (py_item (PDict m) key) (\<lambda>v. convert v label)"

section \<open>Evidence\<close>

record canary_scope =
  environment :: string
  trading_mode :: string
  profile :: string
  exchange :: string
  account_id :: string

record canary_recovery =
  rec_present :: bool
  entries_blocked :: bool
  recovery_epoch :: int
  rec_completed :: bool
  protected_trade_crossed_epoch :: bool

record canary_integrity =
  prepared_effects :: int
  failed_effects :: int
  duplicate_client_ids :: int
  foreign_scope_trades :: int
  foreign_scope_effects :: int
  cancel_order_effects :: int
  real_fill_events :: int
  public_failure_events :: int

record canary_trade =
  t_symbol :: string
  t_venue_symbol :: string
  t_trading_mode :: string
  t_profile :: string
  t_exchange :: string
  t_strategy_id :: string
  t_strategy_revision :: string
  t_state :: string
  t_filled_quantity :: pyfloat
  t_marketable_ioc_limit :: bool
  t_next_bar_market :: bool
  t_decision_binding_valid :: bool
  t_event_types :: "string list"
  t_exit_reasons :: "string list"
  t_public_event_count :: int
  t_expected_public_event_count :: int
  t_public_sequence_contiguous :: bool
  t_public_scope_valid :: bool
  t_protected_sequence_valid :: bool
  t_internal_failure_count :: int
  t_cancel_order_effects :: int
  t_real_fill_event_count :: int

record canary_evidence =
  ev_scope :: canary_scope
  ev_recovery :: canary_recovery
  ev_integrity :: canary_integrity
  ev_trades :: "canary_trade list"

definition parse_scope :: "items \<Rightarrow> canary_scope py" where
  "parse_scope m =
     py_bind (exact_keys m [''environment'', ''trading_mode'', ''profile'', ''exchange'', ''account_id''] ''scope'') (\<lambda>_.
     py_bind (read m ''environment'' as_text ''scope.environment'') (\<lambda>e.
     py_bind (read m ''trading_mode'' as_text ''scope.trading_mode'') (\<lambda>t.
     py_bind (read m ''profile'' as_text ''scope.profile'') (\<lambda>p.
     py_bind (read m ''exchange'' as_text ''scope.exchange'') (\<lambda>x.
     py_bind (read m ''account_id'' as_text ''scope.account_id'') (\<lambda>a.
       Inr \<lparr>environment = e, trading_mode = t, profile = p, exchange = x, account_id = a\<rparr>))))))"

definition parse_recovery :: "items \<Rightarrow> canary_recovery py" where
  "parse_recovery m =
     py_bind (exact_keys m [''present'', ''entries_blocked'', ''recovery_epoch'', ''completed'',
                            ''protected_trade_crossed_epoch''] ''recovery'') (\<lambda>_.
     py_bind (read m ''present'' as_boolean ''recovery.present'') (\<lambda>p.
     py_bind (read m ''entries_blocked'' as_boolean ''recovery.entries_blocked'') (\<lambda>b.
     py_bind (read m ''recovery_epoch'' as_integer ''recovery.recovery_epoch'') (\<lambda>e.
     py_bind (read m ''completed'' as_boolean ''recovery.completed'') (\<lambda>c.
     py_bind (read m ''protected_trade_crossed_epoch'' as_boolean
                ''recovery.protected_trade_crossed_epoch'') (\<lambda>x.
       Inr \<lparr>rec_present = p, entries_blocked = b, recovery_epoch = e, rec_completed = c,
            protected_trade_crossed_epoch = x\<rparr>))))))"

definition parse_integrity :: "items \<Rightarrow> canary_integrity py" where
  "parse_integrity m =
     py_bind (exact_keys m [''prepared_effects'', ''failed_effects'', ''duplicate_client_order_ids'',
                            ''foreign_scope_trades'', ''foreign_scope_effects'', ''cancel_order_effects'',
                            ''real_fill_events'', ''public_failure_events''] ''integrity'') (\<lambda>_.
     py_bind (read m ''prepared_effects'' as_integer ''prepared_effects'') (\<lambda>a.
     py_bind (read m ''failed_effects'' as_integer ''failed_effects'') (\<lambda>b.
     py_bind (read m ''duplicate_client_order_ids'' as_integer ''duplicate_client_order_ids'') (\<lambda>c.
     py_bind (read m ''foreign_scope_trades'' as_integer ''foreign_scope_trades'') (\<lambda>d.
     py_bind (read m ''foreign_scope_effects'' as_integer ''foreign_scope_effects'') (\<lambda>e.
     py_bind (read m ''cancel_order_effects'' as_integer ''cancel_order_effects'') (\<lambda>f.
     py_bind (read m ''real_fill_events'' as_integer ''real_fill_events'') (\<lambda>g.
     py_bind (read m ''public_failure_events'' as_integer ''public_failure_events'') (\<lambda>h.
       Inr \<lparr>prepared_effects = a, failed_effects = b, duplicate_client_ids = c,
            foreign_scope_trades = d, foreign_scope_effects = e, cancel_order_effects = f,
            real_fill_events = g, public_failure_events = h\<rparr>)))))))))"

definition TRADE_KEYS :: "string list" where
  "TRADE_KEYS =
     [''symbol'', ''venue_symbol'', ''trading_mode'', ''profile'', ''exchange'', ''strategy_id'',
      ''strategy_revision'', ''state'', ''filled_quantity'', ''marketable_ioc_limit'',
      ''next_bar_market'', ''decision_binding_valid'', ''event_types'', ''exit_reasons'',
      ''public_event_count'', ''expected_public_event_count'', ''public_sequence_contiguous'',
      ''public_scope_valid'', ''protected_sequence_valid'', ''internal_failure_count'',
      ''cancel_order_effects'', ''real_fill_event_count'']"

definition trade_label :: "nat \<Rightarrow> string" where
  "trade_label index = ''trades['' @ show_nat index @ '']''"

definition parse_trade :: "nat \<Rightarrow> pyval \<Rightarrow> canary_trade py" where
  "parse_trade index v =
     py_bind (as_mapping v (trade_label index)) (\<lambda>m.
     py_bind (exact_keys m TRADE_KEYS (trade_label index)) (\<lambda>_.
     py_bind (read m ''symbol'' as_text ''trade.symbol'') (\<lambda>a.
     py_bind (read m ''venue_symbol'' as_text ''trade.venue_symbol'') (\<lambda>b.
     py_bind (read m ''trading_mode'' as_text ''trade.trading_mode'') (\<lambda>c.
     py_bind (read m ''profile'' as_text ''trade.profile'') (\<lambda>d.
     py_bind (read m ''exchange'' as_text ''trade.exchange'') (\<lambda>e.
     py_bind (read m ''strategy_id'' as_text ''trade.strategy_id'') (\<lambda>f.
     py_bind (read m ''strategy_revision'' as_text ''trade.strategy_revision'') (\<lambda>g.
     py_bind (read m ''state'' as_text ''trade.state'') (\<lambda>h.
     py_bind (read m ''filled_quantity'' as_finite_nonnegative ''trade.filled_quantity'') (\<lambda>i.
     py_bind (read m ''marketable_ioc_limit'' as_boolean ''trade.marketable_ioc_limit'') (\<lambda>j.
     py_bind (read m ''next_bar_market'' as_boolean ''trade.next_bar_market'') (\<lambda>k.
     py_bind (read m ''decision_binding_valid'' as_boolean ''trade.decision_binding_valid'') (\<lambda>l.
     py_bind (read m ''event_types'' as_text_set ''trade.event_types'') (\<lambda>n.
     py_bind (read m ''exit_reasons'' as_text_set ''trade.exit_reasons'') (\<lambda>p.
     py_bind (read m ''public_event_count'' as_integer ''trade.public_event_count'') (\<lambda>q.
     py_bind (read m ''expected_public_event_count'' as_integer ''trade.expected_public_event_count'') (\<lambda>r.
     py_bind (read m ''public_sequence_contiguous'' as_boolean ''trade.public_sequence_contiguous'') (\<lambda>s.
     py_bind (read m ''public_scope_valid'' as_boolean ''trade.public_scope_valid'') (\<lambda>t.
     py_bind (read m ''protected_sequence_valid'' as_boolean ''trade.protected_sequence_valid'') (\<lambda>u.
     py_bind (read m ''internal_failure_count'' as_integer ''trade.internal_failure_count'') (\<lambda>w.
     py_bind (read m ''cancel_order_effects'' as_integer ''trade.cancel_order_effects'') (\<lambda>x.
     py_bind (read m ''real_fill_event_count'' as_integer ''trade.real_fill_event_count'') (\<lambda>y.
       Inr \<lparr>t_symbol = a, t_venue_symbol = b, t_trading_mode = c, t_profile = d, t_exchange = e,
            t_strategy_id = f, t_strategy_revision = g, t_state = h, t_filled_quantity = i,
            t_marketable_ioc_limit = j, t_next_bar_market = k, t_decision_binding_valid = l,
            t_event_types = n, t_exit_reasons = p, t_public_event_count = q,
            t_expected_public_event_count = r, t_public_sequence_contiguous = s,
            t_public_scope_valid = t, t_protected_sequence_valid = u, t_internal_failure_count = w,
            t_cancel_order_effects = x, t_real_fill_event_count = y\<rparr>))))))))))))))))))))))))"

text \<open>The body of the evaluator's \<^verbatim>\<open>try\<close> block.\<close>

definition parse_evidence :: "pyval \<Rightarrow> canary_evidence py" where
  "parse_evidence evidence =
     py_bind (as_mapping evidence ''evidence'') (\<lambda>root.
     py_bind (exact_keys root [''schema_version'', ''scope'', ''recovery'', ''integrity'', ''trades'']
                ''evidence'') (\<lambda>_.
     py_bind (py_item (PDict root) ''schema_version'') (\<lambda>version.
     py_bind (if py_eq version (PInt 1) then Inr () else schema_error ''unsupported evidence schema'' []) (\<lambda>_.
     py_bind (read root ''scope'' as_mapping ''scope'') (\<lambda>sm.
     py_bind (parse_scope sm) (\<lambda>sc.
     py_bind (read root ''recovery'' as_mapping ''recovery'') (\<lambda>rm.
     py_bind (parse_recovery rm) (\<lambda>rc.
     py_bind (read root ''integrity'' as_mapping ''integrity'') (\<lambda>im.
     py_bind (parse_integrity im) (\<lambda>ig.
     py_bind (read root ''trades'' as_list ''trades'') (\<lambda>rows.
     py_bind (py_map (case_prod parse_trade) (enumerate 0 rows)) (\<lambda>ts.
       Inr \<lparr>ev_scope = sc, ev_recovery = rc, ev_integrity = ig, ev_trades = ts\<rparr>))))))))))))"

section \<open>Reports\<close>

record canary_report =
  r_status :: string
  r_accepted :: bool
  r_coverage :: items
  r_counters :: "(string \<times> int) list"
  r_pending :: "string list"
  r_failures :: "string list"

definition base_report ::
  "string \<Rightarrow> string list \<Rightarrow> string list \<Rightarrow> items \<Rightarrow> (string \<times> int) list \<Rightarrow> canary_report" where
  "base_report status pending failures coverage counters =
     \<lparr>r_status = status, r_accepted = (status = ''PASS''), r_coverage = coverage,
      r_counters = counters, r_pending = sorted_set pending, r_failures = sorted_set failures\<rparr>"

text \<open>The dictionary that is serialised, with the fields that never change.\<close>

definition report_value :: "canary_report \<Rightarrow> pyval" where
  "report_value r = PDict
     [(''schema_version'', PInt 1),
      (''gate'', PStr ''EVEDEX_DEV_TECHNICAL_CANARY_ACCEPTANCE''),
      (''status'', PStr (r_status r)),
      (''accepted'', PBool (r_accepted r)),
      (''strategy'', PStr ''technical-canary@1''),
      (''scope'', PDict [(''trading_mode'', PStr ''PAPER''), (''profile'', PStr ''DEV''),
                         (''exchange'', PStr ''EVEDEX''), (''dedicated_account_namespace'', PBool True)]),
      (''coverage'', PDict (r_coverage r)),
      (''counters'', PDict (map (\<lambda>(k, n). (k, PInt n)) (r_counters r))),
      (''pending_reasons'', PList (map PStr (r_pending r))),
      (''failure_reasons'', PList (map PStr (r_failures r))),
      (''contains_raw_identifiers'', PBool False),
      (''contains_credentials'', PBool False)]"

abbreviation strs :: "string list \<Rightarrow> pyval" where
  "strs xs \<equiv> PList (map PStr xs)"

definition invalid_evidence_report :: canary_report where
  "invalid_evidence_report =
     base_report ''FAIL'' [] [''EVIDENCE_SCHEMA_INVALID'']
       [(''protected_flat_symbols'', strs []), (''required_symbols'', strs EXPECTED_SYMBOLS),
        (''exit_reasons'', strs []), (''marketable_ioc_limit'', PBool False),
        (''entry_cancel'', PBool False), (''restart_recovery'', PBool False)]
       [(''trades'', 0), (''real_fill_events'', 0), (''duplicate_client_order_ids'', 0),
        (''unresolved_effects'', 0), (''nonterminal_trades'', 0), (''failed_lifecycles'', 0)]"

definition collection_failure_report :: canary_report where
  "collection_failure_report =
     invalid_evidence_report\<lparr>r_failures := [''READ_ONLY_EVIDENCE_COLLECTION_FAILED'']\<rparr>"

section \<open>Evaluation\<close>

definition scope_dedicated :: "canary_scope \<Rightarrow> bool" where
  "scope_dedicated s \<longleftrightarrow>
     \<not> (environment s \<notin> set EXPECTED_ENVIRONMENTS \<or> trading_mode s \<noteq> ''PAPER'' \<or> profile s \<noteq> ''DEV''
        \<or> casefold (exchange s) \<noteq> ''evedex'' \<or> \<not> ACCOUNT_PATTERN (account_id s))"

definition recovery_failures :: "canary_recovery \<Rightarrow> string list" where
  "recovery_failures r =
     (if \<not> rec_present r then [''RECOVERY_BARRIER_MISSING'']
      else if entries_blocked r \<or> \<not> rec_completed r then [''RECOVERY_BARRIER_NOT_CLEAN''] else [])"

definition restart_recovery :: "canary_recovery \<Rightarrow> bool" where
  "restart_recovery r \<longleftrightarrow>
     rec_present r \<and> rec_completed r \<and> \<not> entries_blocked r \<and> recovery_epoch r \<ge> 2
     \<and> protected_trade_crossed_epoch r"

definition unresolved_effects :: "canary_integrity \<Rightarrow> int" where
  "unresolved_effects i = prepared_effects i + failed_effects i"

definition fail_if :: "bool \<Rightarrow> string \<Rightarrow> string list" where
  "fail_if c reason = (if c then [reason] else [])"

definition integrity_failures :: "canary_integrity \<Rightarrow> string list" where
  "integrity_failures i =
     fail_if (unresolved_effects i \<noteq> 0) ''UNRESOLVED_PREPARED_OR_FAILED_EFFECTS''
     @ fail_if (duplicate_client_ids i \<noteq> 0) ''DUPLICATE_CLIENT_ORDER_IDS''
     @ fail_if (foreign_scope_trades i \<noteq> 0 \<or> foreign_scope_effects i \<noteq> 0)
         ''DEDICATED_ACCOUNT_HAS_FOREIGN_SCOPE_FACTS''
     @ fail_if (public_failure_events i \<noteq> 0) ''FAILED_OR_EMERGENCY_PUBLIC_LIFECYCLE_FACTS''"

definition lineage_outside :: "canary_trade \<Rightarrow> bool" where
  "lineage_outside t \<longleftrightarrow>
     t_symbol t \<notin> set (map fst EXPECTED_VENUE_SYMBOLS)
     \<or> Some (t_venue_symbol t) \<noteq> map_of EXPECTED_VENUE_SYMBOLS (t_symbol t)
     \<or> t_trading_mode t \<noteq> ''PAPER'' \<or> t_profile t \<noteq> ''DEV''
     \<or> casefold (t_exchange t) \<noteq> ''evedex''
     \<or> t_strategy_id t \<noteq> ''technical-canary'' \<or> t_strategy_revision t \<noteq> ''1''
     \<or> \<not> t_decision_binding_valid t"

definition lifecycle_failed :: "canary_trade \<Rightarrow> bool" where
  "lifecycle_failed t \<longleftrightarrow>
     t_state t = ''FAILED_BLOCKED'' \<or> t_internal_failure_count t \<noteq> 0
     \<or> list_ex (\<lambda>e. e \<in> set FORBIDDEN_PUBLIC_EVENTS) (t_event_types t)"

definition facts_broken :: "canary_trade \<Rightarrow> bool" where
  "facts_broken t \<longleftrightarrow>
     t_public_event_count t \<noteq> t_expected_public_event_count t
     \<or> \<not> t_public_sequence_contiguous t \<or> \<not> t_public_scope_valid t"

definition has_fill :: "canary_trade \<Rightarrow> bool" where
  "has_fill t \<longleftrightarrow> float_lt (FFin 0) (t_filled_quantity t) \<or> t_real_fill_event_count t > 0"

definition required_exits :: "canary_trade \<Rightarrow> string list" where
  "required_exits t = filter (\<lambda>e. e \<in> set REQUIRED_EXIT_REASONS) (t_exit_reasons t)"

definition exit_attribution_valid :: "canary_trade \<Rightarrow> bool" where
  "exit_attribution_valid t \<longleftrightarrow>
     set (t_exit_reasons t) = set (required_exits t) \<and> length (remdups (required_exits t)) = 1"

definition protected_flat :: "canary_trade \<Rightarrow> bool" where
  "protected_flat t \<longleftrightarrow>
     t_state t = ''FLAT'' \<and> has_fill t
     \<and> list_ex (\<lambda>e. e \<in> set FILL_EVENTS) (t_event_types t)
     \<and> ''DECISION_RECEIVED'' \<in> set (t_event_types t)
     \<and> list_all (\<lambda>e. e \<in> set (t_event_types t)) REQUIRED_PROTECTION_EVENTS
     \<and> ''EXIT_TRIGGERED'' \<in> set (t_event_types t)
     \<and> ''EXIT_FILLED'' \<in> set (t_event_types t)
     \<and> exit_attribution_valid t
     \<and> t_protected_sequence_valid t"

text \<open>The locals the loop over the trades updates.\<close>

record canary_acc =
  a_failures :: "string list"
  a_protected :: "string list"
  a_exits :: "string list"
  a_nonterminal :: int
  a_failed :: int
  a_fills :: int
  a_cancels :: int
  a_ioc :: bool

definition acc_init :: "canary_trade list \<Rightarrow> canary_acc" where
  "acc_init ts = \<lparr>a_failures = [], a_protected = [], a_exits = [], a_nonterminal = 0, a_failed = 0,
     a_fills = 0, a_cancels = 0, a_ioc = (ts \<noteq> [])\<rparr>"

definition trade_step :: "canary_acc \<Rightarrow> canary_trade \<Rightarrow> canary_acc" where
  "trade_step a t =
     a\<lparr>a_fills := a_fills a + t_real_fill_event_count t,
       a_cancels := a_cancels a + t_cancel_order_effects t,
       a_ioc := (a_ioc a \<and> t_marketable_ioc_limit t \<and> t_next_bar_market t),
       a_failures := a_failures a
         @ fail_if (lineage_outside t) ''TRADE_LINEAGE_OUTSIDE_TECHNICAL_CANARY_V1''
         @ fail_if (facts_broken t) ''PUBLIC_LIFECYCLE_FACTS_ARE_NOT_ATOMIC_AND_CONTIGUOUS''
         @ fail_if (has_fill t \<and> \<not> protected_flat t) ''FILLED_TRADE_LACKS_PROTECTED_FLAT_ROUND_TRIP'',
       a_nonterminal := a_nonterminal a + (if t_state t \<notin> set TERMINAL_STATES then 1 else 0),
       a_failed := a_failed a + (if lifecycle_failed t then 1 else 0),
       a_protected := a_protected a @ (if protected_flat t then [t_symbol t] else []),
       a_exits := a_exits a @ (if protected_flat t then required_exits t else [])\<rparr>"

definition missing_of :: "string list \<Rightarrow> string list \<Rightarrow> string list" where
  "missing_of required seen = sorted_set (filter (\<lambda>x. x \<notin> set seen) required)"

definition verdict :: "string list \<Rightarrow> string list \<Rightarrow> string" where
  "verdict failures pending =
     (if failures \<noteq> [] then ''FAIL'' else if pending \<noteq> [] then ''PENDING'' else ''PASS'')"

definition all_failures :: "canary_evidence \<Rightarrow> canary_acc \<Rightarrow> string list" where
  "all_failures ev a =
     fail_if (\<not> scope_dedicated (ev_scope ev)) ''SCOPE_IS_NOT_DEDICATED_EVEDEX_DEV_PAPER''
     @ recovery_failures (ev_recovery ev)
     @ integrity_failures (ev_integrity ev)
     @ a_failures a
     @ fail_if (a_fills a \<noteq> real_fill_events (ev_integrity ev)) ''REAL_FILL_EVENT_AGGREGATE_MISMATCH''
     @ fail_if (a_cancels a \<noteq> cancel_order_effects (ev_integrity ev)) ''CANCEL_EFFECT_AGGREGATE_MISMATCH''
     @ fail_if (a_nonterminal a \<noteq> 0) ''NONTERMINAL_TRADE_LIFECYCLES''
     @ fail_if (a_failed a \<noteq> 0) ''FAILED_TRADE_LIFECYCLES''"

definition all_pending :: "canary_evidence \<Rightarrow> canary_acc \<Rightarrow> string list" where
  "all_pending ev a =
     fail_if (\<not> restart_recovery (ev_recovery ev)) ''RESTART_RECOVERY_NOT_YET_PROVEN''
     @ fail_if (missing_of EXPECTED_SYMBOLS (a_protected a) \<noteq> []) ''PROTECTED_FLAT_ROUND_TRIPS_MISSING''
     @ fail_if (missing_of REQUIRED_EXIT_REASONS (a_exits a) \<noteq> []) ''STOP_TARGET_TIMEOUT_COVERAGE_INCOMPLETE''
     @ fail_if (\<not> a_ioc a) ''MARKETABLE_IOC_LIMIT_COVERAGE_INCOMPLETE''
     @ fail_if (\<not> 0 < cancel_order_effects (ev_integrity ev)) ''ENTRY_CANCEL_COVERAGE_INCOMPLETE''
     @ fail_if (real_fill_events (ev_integrity ev) \<le> 0) ''REAL_EVEDEX_DEV_FILL_NOT_OBSERVED''"

definition assess :: "canary_evidence \<Rightarrow> canary_report" where
  "assess ev =
     (let a = foldl trade_step (acc_init (ev_trades ev)) (ev_trades ev);
          failures = all_failures ev a;
          pending = all_pending ev a;
          ig = ev_integrity ev
      in base_report (verdict failures pending) pending failures
           [(''protected_flat_symbols'', strs (sorted_set (a_protected a))),
            (''required_symbols'', strs EXPECTED_SYMBOLS),
            (''missing_symbols'', strs (missing_of EXPECTED_SYMBOLS (a_protected a))),
            (''exit_reasons'', strs (sorted_set (a_exits a))),
            (''missing_exit_reasons'', strs (missing_of REQUIRED_EXIT_REASONS (a_exits a))),
            (''marketable_ioc_limit'', PBool (a_ioc a)),
            (''entry_cancel'', PBool (0 < cancel_order_effects ig)),
            (''restart_recovery'', PBool (restart_recovery (ev_recovery ev)))]
           [(''trades'', int (length (ev_trades ev))),
            (''real_fill_events'', real_fill_events ig),
            (''duplicate_client_order_ids'', duplicate_client_ids ig),
            (''unresolved_effects'', unresolved_effects ig),
            (''nonterminal_trades'', a_nonterminal a),
            (''failed_lifecycles'', a_failed a)])"

text \<open>
  \<^verbatim>\<open>except (EvidenceSchemaError, KeyError, TypeError, ValueError)\<close>, the JSON and Unicode errors being
  subclasses of \<^verbatim>\<open>ValueError\<close>.
\<close>

fun caught_by_evaluator :: "exn \<Rightarrow> bool" where
  "caught_by_evaluator (EvidenceSchemaError _) = True"
| "caught_by_evaluator KeyError = True"
| "caught_by_evaluator TypeError = True"
| "caught_by_evaluator ValueError = True"
| "caught_by_evaluator JSONDecodeError = True"
| "caught_by_evaluator UnicodeDecodeError = True"
| "caught_by_evaluator UnicodeEncodeError = True"
| "caught_by_evaluator _ = False"

definition evaluate_evidence :: "pyval \<Rightarrow> canary_report py" where
  "evaluate_evidence evidence =
     (case parse_evidence evidence of
        Inl e \<Rightarrow> if caught_by_evaluator e then Inr invalid_evidence_report else Inl e
      | Inr ev \<Rightarrow> Inr (assess ev))"

section \<open>Collection and exit status\<close>

text \<open>
  The query is run by \<^verbatim>\<open>psql\<close> inside the database container; the parameter \<open>psql\<close>
  stands for \<^verbatim>\<open>subprocess.run\<close> on the argument vector with the SQL text for an environment
  and an account as input, and returns the exit status and standard output, or raises
  (\<^verbatim>\<open>OSError\<close>, a timeout). The parameter \<open>json_loads\<close> is the JSON decoder; a decoding
  error is \<open>Inl JSONDecodeError\<close>.
\<close>

record collect_request =
  q_compose_file :: string
  q_env_file :: string
  q_account :: string
  q_kairos_environment :: string
  q_database_user :: string
  q_database_name :: string
  q_timeout :: int
  q_project :: string

definition validate_request :: "collect_request \<Rightarrow> unit py" where
  "validate_request q =
     (if \<not> ACCOUNT_PATTERN (q_account q) then Inl ValueError
      else if q_kairos_environment q \<notin> {''paper'', ''paper-dev''} then Inl ValueError
      else if \<not> COMPOSE_PROJECT_PATTERN (q_project q) then Inl ValueError
      else if \<not> DATABASE_IDENTIFIER_PATTERN (q_database_user q) then Inl ValueError
      else if \<not> DATABASE_IDENTIFIER_PATTERN (q_database_name q) then Inl ValueError
      else if q_timeout q < 1 \<or> q_timeout q > 300 then Inl ValueError
      else Inr ())"

definition psql_command :: "collect_request \<Rightarrow> string list" where
  "psql_command q =
     [''docker'', ''compose'', ''-p'', q_project q, ''--env-file'', q_env_file q, ''-f'', q_compose_file q,
      ''exec'', ''-T'', ''timescaledb'', ''psql'', ''--no-psqlrc'', ''--quiet'', ''--tuples-only'',
      ''--no-align'', ''--set=ON_ERROR_STOP=1'',
      ''--username='' @ q_database_user q, ''--dbname='' @ q_database_name q]"

definition sql_environment :: "collect_request \<Rightarrow> string" where
  "sql_environment q = q_kairos_environment q @ '':EVEDEX:DEV:PAPER''"

type_synonym psql_runner = "string list \<Rightarrow> string \<Rightarrow> string \<Rightarrow> (int \<times> string) py"

definition collect_evidence ::
  "psql_runner \<Rightarrow> (string \<Rightarrow> pyval py) \<Rightarrow> collect_request \<Rightarrow> pyval py" where
  "collect_evidence psql json_loads q =
     py_bind (validate_request q) (\<lambda>_.
     py_bind (psql (psql_command q) (sql_environment q) (q_account q)) (\<lambda>(rc, out).
       if rc \<noteq> 0 then Inl (RuntimeError ''read-only PostgreSQL evidence collection failed'')
       else case filter (\<lambda>l. l \<noteq> []) (map strip (splitlines out)) of
              [line] \<Rightarrow>
                (case json_loads line of
                   Inl e \<Rightarrow> Inl (if e = JSONDecodeError then RuntimeError ''read-only PostgreSQL evidence was not valid JSON''
                                else e)
                 | Inr v \<Rightarrow> py_bind (as_mapping v ''database evidence'') (\<lambda>m. Inr (PDict m)))
            | _ \<Rightarrow> Inl (RuntimeError ''read-only PostgreSQL evidence was not one JSON document'')))"

text \<open>\<^verbatim>\<open>except (OSError, RuntimeError, subprocess.SubprocessError, ValueError)\<close>\<close>

fun caught_by_main :: "exn \<Rightarrow> bool" where
  "caught_by_main OSError = True"
| "caught_by_main (RuntimeError _) = True"
| "caught_by_main SubprocessError = True"
| "caught_by_main ValueError = True"
| "caught_by_main JSONDecodeError = True"
| "caught_by_main (EvidenceSchemaError _) = True"
| "caught_by_main UnicodeDecodeError = True"
| "caught_by_main UnicodeEncodeError = True"
| "caught_by_main _ = False"

definition exit_status :: "canary_report \<Rightarrow> int" where
  "exit_status r = (if r_status r = ''PASS'' then 0 else if r_status r = ''PENDING'' then 2 else 1)"

text \<open>\<^verbatim>\<open>main\<close> after argument parsing: the report that is written and the exit status.\<close>

definition canary_main ::
  "psql_runner \<Rightarrow> (string \<Rightarrow> pyval py) \<Rightarrow> collect_request \<Rightarrow> (canary_report \<times> int) py" where
  "canary_main psql json_loads q =
     (case py_bind (collect_evidence psql json_loads q) evaluate_evidence of
        Inl e \<Rightarrow> if caught_by_main e then Inr (collection_failure_report, exit_status collection_failure_report)
                 else Inl e
      | Inr r \<Rightarrow> Inr (r, exit_status r))"

section \<open>The trade loop\<close>

lemma fail_if_Nil [simp]: "fail_if c r = [] \<longleftrightarrow> \<not> c"
  by (simp add: fail_if_def)

lemma set_fail_if [simp]: "set (fail_if c r) = (if c then {r} else {})"
  by (simp add: fail_if_def)

lemma foldl_trade_step:
  "foldl trade_step a ts =
     a\<lparr>a_fills := a_fills a + sum_list (map t_real_fill_event_count ts),
       a_cancels := a_cancels a + sum_list (map t_cancel_order_effects ts),
       a_ioc := (a_ioc a \<and> list_all (\<lambda>t. t_marketable_ioc_limit t \<and> t_next_bar_market t) ts),
       a_failures := a_failures a @ concat (map (\<lambda>t.
           fail_if (lineage_outside t) ''TRADE_LINEAGE_OUTSIDE_TECHNICAL_CANARY_V1''
         @ fail_if (facts_broken t) ''PUBLIC_LIFECYCLE_FACTS_ARE_NOT_ATOMIC_AND_CONTIGUOUS''
         @ fail_if (has_fill t \<and> \<not> protected_flat t) ''FILLED_TRADE_LACKS_PROTECTED_FLAT_ROUND_TRIP'') ts),
       a_nonterminal := a_nonterminal a + int (length (filter (\<lambda>t. t_state t \<notin> set TERMINAL_STATES) ts)),
       a_failed := a_failed a + int (length (filter lifecycle_failed ts)),
       a_protected := a_protected a @ map t_symbol (filter protected_flat ts),
       a_exits := a_exits a @ concat (map required_exits (filter protected_flat ts))\<rparr>"
  by (induction ts arbitrary: a) (simp_all add: trade_step_def)

section \<open>The acceptance criteria\<close>

text \<open>
  What the gate promises, stated on the evidence alone and without the accumulator of the loop:
  no violation anywhere, and every required scenario seen.
\<close>

definition trade_clean :: "canary_trade \<Rightarrow> bool" where
  "trade_clean t \<longleftrightarrow>
     map_of EXPECTED_VENUE_SYMBOLS (t_symbol t) = Some (t_venue_symbol t)
     \<and> t_trading_mode t = ''PAPER'' \<and> t_profile t = ''DEV'' \<and> casefold (t_exchange t) = ''evedex''
     \<and> t_strategy_id t = ''technical-canary'' \<and> t_strategy_revision t = ''1''
     \<and> t_decision_binding_valid t
     \<and> (t_state t = ''FLAT'' \<or> t_state t = ''CANCELLED'')
     \<and> t_internal_failure_count t = 0
     \<and> set (t_event_types t) \<inter> set FORBIDDEN_PUBLIC_EVENTS = {}
     \<and> t_public_event_count t = t_expected_public_event_count t
     \<and> t_public_sequence_contiguous t \<and> t_public_scope_valid t
     \<and> (has_fill t \<longrightarrow> protected_flat t)"

definition canary_clean :: "canary_evidence \<Rightarrow> bool" where
  "canary_clean ev \<longleftrightarrow>
     scope_dedicated (ev_scope ev)
     \<and> rec_present (ev_recovery ev) \<and> rec_completed (ev_recovery ev) \<and> \<not> entries_blocked (ev_recovery ev)
     \<and> prepared_effects (ev_integrity ev) = 0 \<and> failed_effects (ev_integrity ev) = 0
     \<and> duplicate_client_ids (ev_integrity ev) = 0
     \<and> foreign_scope_trades (ev_integrity ev) = 0 \<and> foreign_scope_effects (ev_integrity ev) = 0
     \<and> public_failure_events (ev_integrity ev) = 0
     \<and> (\<forall>t \<in> set (ev_trades ev). trade_clean t)
     \<and> sum_list (map t_real_fill_event_count (ev_trades ev)) = real_fill_events (ev_integrity ev)
     \<and> sum_list (map t_cancel_order_effects (ev_trades ev)) = cancel_order_effects (ev_integrity ev)"

definition canary_covered :: "canary_evidence \<Rightarrow> bool" where
  "canary_covered ev \<longleftrightarrow>
     restart_recovery (ev_recovery ev)
     \<and> (\<forall>s \<in> set EXPECTED_SYMBOLS. \<exists>t \<in> set (ev_trades ev). protected_flat t \<and> t_symbol t = s)
     \<and> (\<forall>x \<in> set REQUIRED_EXIT_REASONS. \<exists>t \<in> set (ev_trades ev). protected_flat t \<and> x \<in> set (t_exit_reasons t))
     \<and> ev_trades ev \<noteq> []
     \<and> (\<forall>t \<in> set (ev_trades ev). t_marketable_ioc_limit t \<and> t_next_bar_market t)
     \<and> cancel_order_effects (ev_integrity ev) > 0 \<and> real_fill_events (ev_integrity ev) > 0"

abbreviation final_acc :: "canary_evidence \<Rightarrow> canary_acc" where
  "final_acc ev \<equiv> foldl trade_step (acc_init (ev_trades ev)) (ev_trades ev)"

lemma missing_of_Nil: "missing_of required seen = [] \<longleftrightarrow> set required \<subseteq> set seen"
  by (auto simp: missing_of_def filter_empty_conv)

lemma trade_clean_iff:
  "trade_clean t \<longleftrightarrow> \<not> lineage_outside t \<and> \<not> facts_broken t \<and> \<not> (has_fill t \<and> \<not> protected_flat t)
     \<and> t_state t \<in> set TERMINAL_STATES \<and> \<not> lifecycle_failed t"
proof -
  have lin: "\<not> lineage_outside t \<longleftrightarrow>
      map_of EXPECTED_VENUE_SYMBOLS (t_symbol t) = Some (t_venue_symbol t)
     \<and> t_trading_mode t = ''PAPER'' \<and> t_profile t = ''DEV'' \<and> casefold (t_exchange t) = ''evedex''
     \<and> t_strategy_id t = ''technical-canary'' \<and> t_strategy_revision t = ''1''
     \<and> t_decision_binding_valid t"
    unfolding lineage_outside_def by (metis domI dom_map_of_conv_image_fst list.set_map)
  have life: "t_state t \<in> set TERMINAL_STATES \<and> \<not> lifecycle_failed t \<longleftrightarrow>
      (t_state t = ''FLAT'' \<or> t_state t = ''CANCELLED'') \<and> t_internal_failure_count t = 0
      \<and> set (t_event_types t) \<inter> set FORBIDDEN_PUBLIC_EVENTS = {}"
    by (auto simp: TERMINAL_STATES_def lifecycle_failed_def list_ex_iff)
  show ?thesis unfolding trade_clean_def using lin life by (auto simp: facts_broken_def)
qed

lemma all_failures_Nil:
  assumes "0 \<le> prepared_effects (ev_integrity ev)" "0 \<le> failed_effects (ev_integrity ev)"
  shows "all_failures ev (final_acc ev) = [] \<longleftrightarrow> canary_clean ev"
proof -
  have trades: "a_failures (final_acc ev) = [] \<and> a_nonterminal (final_acc ev) = 0 \<and> a_failed (final_acc ev) = 0
      \<longleftrightarrow> (\<forall>t \<in> set (ev_trades ev). trade_clean t)"
    by (auto simp: foldl_trade_step acc_init_def trade_clean_iff filter_empty_conv)
  have eff: "unresolved_effects (ev_integrity ev) = 0 \<longleftrightarrow>
      prepared_effects (ev_integrity ev) = 0 \<and> failed_effects (ev_integrity ev) = 0"
    using assms by (auto simp: unresolved_effects_def)
  have rcv: "recovery_failures (ev_recovery ev) = [] \<longleftrightarrow>
      rec_present (ev_recovery ev) \<and> rec_completed (ev_recovery ev) \<and> \<not> entries_blocked (ev_recovery ev)"
    by (auto simp: recovery_failures_def)
  have sums: "a_fills (final_acc ev) = sum_list (map t_real_fill_event_count (ev_trades ev))"
      "a_cancels (final_acc ev) = sum_list (map t_cancel_order_effects (ev_trades ev))"
    by (simp_all add: foldl_trade_step acc_init_def)
  show ?thesis
    unfolding all_failures_def canary_clean_def integrity_failures_def append_is_Nil_conv fail_if_Nil
      rcv sums using trades eff by blast
qed

lemma all_pending_Nil: "all_pending ev (final_acc ev) = [] \<longleftrightarrow> canary_covered ev"
proof -
  have sym: "set EXPECTED_SYMBOLS \<subseteq> set (a_protected (final_acc ev)) \<longleftrightarrow>
      (\<forall>s \<in> set EXPECTED_SYMBOLS. \<exists>t \<in> set (ev_trades ev). protected_flat t \<and> t_symbol t = s)"
    by (auto simp: foldl_trade_step acc_init_def)
  have ex: "set REQUIRED_EXIT_REASONS \<subseteq> set (a_exits (final_acc ev)) \<longleftrightarrow>
      (\<forall>x \<in> set REQUIRED_EXIT_REASONS. \<exists>t \<in> set (ev_trades ev). protected_flat t \<and> x \<in> set (t_exit_reasons t))"
    by (auto simp: foldl_trade_step acc_init_def required_exits_def)
  have ioc: "a_ioc (final_acc ev) \<longleftrightarrow>
      ev_trades ev \<noteq> [] \<and> (\<forall>t \<in> set (ev_trades ev). t_marketable_ioc_limit t \<and> t_next_bar_market t)"
    by (simp add: foldl_trade_step acc_init_def list_all_iff)
  show ?thesis
    unfolding all_pending_def canary_covered_def append_is_Nil_conv fail_if_Nil missing_of_Nil
    using sym ex ioc by auto
qed

section \<open>Parsing\<close>

lemma as_integer_nonneg: "as_integer v l = Inr i \<Longrightarrow> 0 \<le> i"
  by (cases v) (auto simp: schema_error_def split: if_splits)

lemma parse_integrity_nonneg:
  "parse_integrity m = Inr i \<Longrightarrow> 0 \<le> prepared_effects i \<and> 0 \<le> failed_effects i"
  by (auto simp: parse_integrity_def read_def py_bind_Inr_iff dest!: as_integer_nonneg)

lemma parse_evidence_nonneg:
  "parse_evidence v = Inr ev \<Longrightarrow>
   0 \<le> prepared_effects (ev_integrity ev) \<and> 0 \<le> failed_effects (ev_integrity ev)"
  by (auto simp: parse_evidence_def read_def py_bind_Inr_iff dest: parse_integrity_nonneg)

text \<open>Besides what the evaluator catches, parsing raises one exception only.\<close>

abbreviation parse_raises :: "'a py \<Rightarrow> bool" where
  "parse_raises \<equiv> raises_only (\<lambda>e. caught_by_evaluator e \<or> e = OverflowError)"

lemma read_raises: "(\<And>v. parse_raises (convert v l)) \<Longrightarrow> parse_raises (read m k convert l)"
  by (auto simp: read_def intro!: raises_only_bind split: option.splits)

lemma py_float_raises: "parse_raises (py_float v)"
  by (cases v) (auto split: pyfloat.splits)

lemma convert_raises:
  "parse_raises (as_mapping v l)" "parse_raises (as_list v l)" "parse_raises (as_text v l)"
  "parse_raises (as_boolean v l)" "parse_raises (as_integer v l)"
  "parse_raises (as_finite_nonnegative v l)" "parse_raises (as_text_set v l)"
  "parse_raises (exact_keys m ks l)"
proof -
  show list: "parse_raises (as_list v l)" by (cases v) (auto simp: schema_error_def)
  show "parse_raises (as_mapping v l)" "parse_raises (as_text v l)"
    "parse_raises (as_boolean v l)" "parse_raises (as_integer v l)"
    by (cases v; simp add: schema_error_def)+
  show "parse_raises (as_finite_nonnegative v l)"
    using py_float_raises by (auto simp: as_finite_nonnegative_def schema_error_def intro!: raises_only_bind)
  show "parse_raises (as_text_set v l)"
    using list by (auto simp: as_text_set_def schema_error_def intro!: raises_only_bind)
  show "parse_raises (exact_keys m ks l)" by (simp add: exact_keys_def schema_error_def)
qed

lemma parse_evidence_raises: "parse_raises (parse_evidence v)"
proof -
  have trade: "parse_raises (case_prod parse_trade x)" for x
    unfolding parse_trade_def split_def by (intro raises_only_bind read_raises convert_raises raises_only_Inr)
  have "parse_raises (parse_scope m)" "parse_raises (parse_recovery m)" "parse_raises (parse_integrity m)" for m
    unfolding parse_scope_def parse_recovery_def parse_integrity_def
    by (intro raises_only_bind read_raises convert_raises raises_only_Inr)+
  moreover have "parse_raises (py_item (PDict m) k)" for m k by (auto split: option.splits)
  ultimately show ?thesis
    unfolding parse_evidence_def
    by (intro raises_only_bind read_raises convert_raises raises_only_Inr raises_only_map trade)
      (auto simp: schema_error_def)
qed

end
