(* ===== verification/Canary_Gate.thy ===== *)
theory Canary_Gate
  imports Canary
begin

text \<open>
  What the acceptance gate of the canary promises: its verdicts characterised by the criteria on
  the evidence, the text its report may contain, the exceptions it lets escape, and what an exit
  status of zero of \<^verbatim>\<open>main\<close> entails. The sample evidence below is the input of the witnesses.
\<close>

section \<open>The strings of a report\<close>

fun value_strings :: "pyval \<Rightarrow> string list"
  and item_strings :: "items \<Rightarrow> string list"
  and list_strings :: "pyval list \<Rightarrow> string list" where
  "value_strings (PStr s) = [s]"
| "value_strings (PList xs) = list_strings xs"
| "value_strings (PDict m) = item_strings m"
| "value_strings v = []"
| "item_strings [] = []"
| "item_strings ((k, v) # m) = k # value_strings v @ item_strings m"
| "list_strings [] = []"
| "list_strings (x # xs) = value_strings x @ list_strings xs"

lemma list_strings_strs [simp]: "list_strings (map PStr ss) = ss"
  by (induction ss) auto

lemma item_strings_ints [simp]: "item_strings (map (\<lambda>(k, n). (k, PInt n)) cs) = map fst cs"
  by (induction cs) auto

definition FIELD_NAMES :: "string list" where
  "FIELD_NAMES =
     [''schema_version'', ''gate'', ''status'', ''accepted'', ''strategy'', ''scope'', ''trading_mode'', ''profile'',
      ''exchange'', ''dedicated_account_namespace'', ''coverage'', ''counters'', ''pending_reasons'',
      ''failure_reasons'', ''contains_raw_identifiers'', ''contains_credentials'',
      ''protected_flat_symbols'', ''required_symbols'', ''missing_symbols'', ''exit_reasons'',
      ''missing_exit_reasons'', ''marketable_ioc_limit'', ''entry_cancel'', ''restart_recovery'',
      ''trades'', ''real_fill_events'', ''duplicate_client_order_ids'', ''unresolved_effects'',
      ''nonterminal_trades'', ''failed_lifecycles'']"

definition FIXED_TEXT :: "string list" where
  "FIXED_TEXT =
     [''EVEDEX_DEV_TECHNICAL_CANARY_ACCEPTANCE'', ''technical-canary@1'', ''PASS'', ''PENDING'', ''FAIL'',
      ''PAPER'', ''DEV'', ''EVEDEX'']"

definition PENDING_CODES :: "string list" where
  "PENDING_CODES =
     [''RESTART_RECOVERY_NOT_YET_PROVEN'', ''PROTECTED_FLAT_ROUND_TRIPS_MISSING'',
      ''STOP_TARGET_TIMEOUT_COVERAGE_INCOMPLETE'', ''MARKETABLE_IOC_LIMIT_COVERAGE_INCOMPLETE'',
      ''ENTRY_CANCEL_COVERAGE_INCOMPLETE'', ''REAL_EVEDEX_DEV_FILL_NOT_OBSERVED'']"

definition report_vocabulary :: "string set" where
  "report_vocabulary = set FIELD_NAMES \<union> set FIXED_TEXT \<union> set PENDING_CODES
     \<union> set EXPECTED_SYMBOLS \<union> set REQUIRED_EXIT_REASONS"

section \<open>Sample evidence\<close>

definition sample_trade :: "string \<Rightarrow> string \<Rightarrow> string \<Rightarrow> pyval \<Rightarrow> pyval" where
  "sample_trade s venue reason qty = PDict
     [(''symbol'', PStr s), (''venue_symbol'', PStr venue), (''trading_mode'', PStr ''PAPER''),
      (''profile'', PStr ''DEV''), (''exchange'', PStr ''evedex''), (''strategy_id'', PStr ''technical-canary''),
      (''strategy_revision'', PStr ''1''), (''state'', PStr ''FLAT''), (''filled_quantity'', qty),
      (''marketable_ioc_limit'', PBool True), (''next_bar_market'', PBool True),
      (''decision_binding_valid'', PBool True),
      (''event_types'', strs [''DECISION_RECEIVED'', ''ENTRY_FILLED'', ''STOP_CREATED'', ''STOP_RECONCILED'',
         ''TARGET_CREATED'', ''TARGET_RECONCILED'', ''EXIT_TRIGGERED'', ''EXIT_FILLED'']),
      (''exit_reasons'', strs [reason]), (''public_event_count'', PInt 8),
      (''expected_public_event_count'', PInt 8), (''public_sequence_contiguous'', PBool True),
      (''public_scope_valid'', PBool True), (''protected_sequence_valid'', PBool True),
      (''internal_failure_count'', PInt 0), (''cancel_order_effects'', PInt 1),
      (''real_fill_event_count'', PInt 1)]"

definition evidence_of :: "pyval list \<Rightarrow> pyval" where
  "evidence_of ts = PDict
     [(''schema_version'', PInt 1),
      (''scope'', PDict [(''environment'', PStr ''paper:EVEDEX:DEV:PAPER''), (''trading_mode'', PStr ''PAPER''),
         (''profile'', PStr ''DEV''), (''exchange'', PStr ''evedex''), (''account_id'', PStr ''kairos-paper-dev-a'')]),
      (''recovery'', PDict [(''present'', PBool True), (''entries_blocked'', PBool False),
         (''recovery_epoch'', PInt 2), (''completed'', PBool True), (''protected_trade_crossed_epoch'', PBool True)]),
      (''integrity'', PDict [(''prepared_effects'', PInt 0), (''failed_effects'', PInt 0),
         (''duplicate_client_order_ids'', PInt 0), (''foreign_scope_trades'', PInt 0),
         (''foreign_scope_effects'', PInt 0), (''cancel_order_effects'', PInt (int (length ts))),
         (''real_fill_events'', PInt (int (length ts))), (''public_failure_events'', PInt 0)]),
      (''trades'', PList ts)]"

definition passing_evidence :: pyval where
  "passing_evidence = evidence_of
     [sample_trade ''BTCUSDT'' ''BTCUSD:DEV'' ''STOP'' (PFloat (FFin 1)),
      sample_trade ''ETHUSDT'' ''ETHUSD:DEV'' ''TARGET'' (PFloat (FFin 1)),
      sample_trade ''SOLUSDT'' ''SOLUSD:DEV'' ''TIMEOUT'' (PFloat (FFin 1)),
      sample_trade ''BNBUSDT'' ''BNBUSD:DEV'' ''STOP'' (PFloat (FFin 1)),
      sample_trade ''XRPUSDT'' ''XRPUSD:DEV'' ''STOP'' (PFloat (FFin 1))]"

lemmas sample_parse_defs = parse_evidence_def evidence_of_def exact_keys_def keys_are_def read_def
  parse_scope_def parse_recovery_def parse_integrity_def parse_trade_def TRADE_KEYS_def sample_trade_def
  as_finite_nonnegative_def as_text_set_def

section \<open>The report of an assessed snapshot\<close>

lemma assess_status:
  "r_status (assess ev) = verdict (all_failures ev (final_acc ev)) (all_pending ev (final_acc ev))"
  by (simp add: assess_def base_report_def Let_def)

lemma assess_accepted: "r_accepted (assess ev) \<longleftrightarrow> r_status (assess ev) = ''PASS''"
  by (simp add: assess_def base_report_def Let_def)

lemma assess_verdict:
  assumes "parse_evidence v = Inr ev"
  shows "r_status (assess ev) =
     (if canary_clean ev then if canary_covered ev then ''PASS'' else ''PENDING'' else ''FAIL'')"
proof -
  have "all_failures ev (final_acc ev) = [] \<longleftrightarrow> canary_clean ev"
    using parse_evidence_nonneg [OF assms] by (intro all_failures_Nil) simp_all
  then show ?thesis by (simp add: assess_status verdict_def all_pending_Nil)
qed

lemma report_strings: "set (value_strings (report_value (assess ev))) =
      set FIELD_NAMES \<union> set [''EVEDEX_DEV_TECHNICAL_CANARY_ACCEPTANCE'', ''technical-canary@1'', ''PAPER'', ''DEV'', ''EVEDEX'']
      \<union> {r_status (assess ev)} \<union> set (a_protected (final_acc ev)) \<union> set EXPECTED_SYMBOLS
      \<union> set (missing_of EXPECTED_SYMBOLS (a_protected (final_acc ev))) \<union> set (a_exits (final_acc ev))
      \<union> set (missing_of REQUIRED_EXIT_REASONS (a_exits (final_acc ev)))
      \<union> set (all_pending ev (final_acc ev)) \<union> set (all_failures ev (final_acc ev))"
  unfolding assess_def base_report_def report_value_def Let_def FIELD_NAMES_def
  by (simp del: insert_iff) (simp only: Un_ac insert_commute Un_insert_left Un_insert_right)

lemma assess_vocabulary:
  assumes "canary_clean ev"
    and nonneg: "0 \<le> prepared_effects (ev_integrity ev)" "0 \<le> failed_effects (ev_integrity ev)"
  shows "set (value_strings (report_value (assess ev))) \<subseteq> report_vocabulary"
proof -
  let ?a = "final_acc ev"
  have prot: "set (a_protected ?a) \<subseteq> set EXPECTED_SYMBOLS"
  proof
    fix s assume "s \<in> set (a_protected ?a)"
    then obtain t where t: "t \<in> set (ev_trades ev)" "s = t_symbol t"
      by (auto simp: foldl_trade_step acc_init_def)
    then have "map_of EXPECTED_VENUE_SYMBOLS s = Some (t_venue_symbol t)"
      using assms by (simp add: canary_clean_def trade_clean_def)
    then show "s \<in> set EXPECTED_SYMBOLS"
      by (auto simp: EXPECTED_VENUE_SYMBOLS_def EXPECTED_SYMBOLS_def split: if_splits)
  qed
  have exits: "set (a_exits ?a) \<subseteq> set REQUIRED_EXIT_REASONS"
    by (auto simp: foldl_trade_step acc_init_def required_exits_def)
  have miss: "set (missing_of req seen) \<subseteq> set req" for req seen
    by (auto simp: missing_of_def)
  have pend: "set (all_pending ev ?a) \<subseteq> set PENDING_CODES"
    by (simp add: all_pending_def PENDING_CODES_def)
  have fails: "all_failures ev ?a = []" using assms nonneg by (simp add: all_failures_Nil)
  have st: "verdict f p \<in> set FIXED_TEXT" for f p by (simp add: verdict_def FIXED_TEXT_def)
  have fixed: "set [''EVEDEX_DEV_TECHNICAL_CANARY_ACCEPTANCE'', ''technical-canary@1'', ''PAPER'', ''DEV'', ''EVEDEX'']
      \<subseteq> set FIXED_TEXT" by (simp add: FIXED_TEXT_def)
  have strs: "set (value_strings (report_value (assess ev))) =
      set FIELD_NAMES \<union> set [''EVEDEX_DEV_TECHNICAL_CANARY_ACCEPTANCE'', ''technical-canary@1'', ''PAPER'', ''DEV'', ''EVEDEX'']
      \<union> {r_status (assess ev)} \<union> set (a_protected ?a) \<union> set EXPECTED_SYMBOLS
      \<union> set (missing_of EXPECTED_SYMBOLS (a_protected ?a)) \<union> set (a_exits ?a)
      \<union> set (missing_of REQUIRED_EXIT_REASONS (a_exits ?a))
      \<union> set (all_pending ev ?a) \<union> set (all_failures ev ?a)"
    by (rule report_strings)
  show ?thesis
    unfolding strs report_vocabulary_def fails assess_status
    using st [of "[]" "all_pending ev ?a"] prot exits miss [of EXPECTED_SYMBOLS "a_protected ?a"]
      miss [of REQUIRED_EXIT_REASONS "a_exits ?a"] pend fixed by (simp add: subset_iff) 
qed

section \<open>Properties\<close>

text \<open>
  C18: a report of the evaluator says PASS exactly when the evidence parses, no invariant is
  violated anywhere in it and every required scenario is covered, and PENDING exactly when only
  coverage is missing; there is no fourth status, and \<^verbatim>\<open>accepted\<close> says the same as PASS.
\<close>

theorem canary_verdict:
  assumes "evaluate_evidence v = Inr r"
  shows "(r_status r = ''PASS'' \<longleftrightarrow>
            (\<exists>ev. parse_evidence v = Inr ev \<and> canary_clean ev \<and> canary_covered ev))
       \<and> (r_status r = ''PENDING'' \<longleftrightarrow>
            (\<exists>ev. parse_evidence v = Inr ev \<and> canary_clean ev \<and> \<not> canary_covered ev))
       \<and> r_status r \<in> {''PASS'', ''PENDING'', ''FAIL''}
       \<and> (r_accepted r \<longleftrightarrow> r_status r = ''PASS'')"
proof (cases "parse_evidence v")
  case (Inl e)
  then have "r = invalid_evidence_report" using assms by (simp add: evaluate_evidence_def split: if_splits)
  then show ?thesis using Inl by (simp add: invalid_evidence_report_def base_report_def)
next
  case (Inr ev)
  then have r: "r = assess ev" using assms by (simp add: evaluate_evidence_def)
  show ?thesis using Inr by (auto simp: r assess_verdict [OF Inr] assess_accepted)
qed

theorem canary_verdict_witness:
  "\<exists>r. evaluate_evidence passing_evidence = Inr r \<and> r_status r = ''PASS''
     \<and> (\<exists>ev. parse_evidence passing_evidence = Inr ev \<and> canary_clean ev \<and> canary_covered ev)"
proof -
  have "map_sum id r_status (evaluate_evidence passing_evidence) = Inr ''PASS''" by code_simp
  then obtain r where r: "evaluate_evidence passing_evidence = Inr r" "r_status r = ''PASS''"
    by (cases "evaluate_evidence passing_evidence") auto
  with canary_verdict [OF r(1)] show ?thesis by blast
qed

text \<open>
  C20: the evaluator returns a report on every input but one kind: the only exception that
  escapes it is \<^verbatim>\<open>OverflowError\<close>, and it does escape, from the conversion of an integer
  quantity beyond the range of a double, which the \<^verbatim>\<open>except\<close> clause does not list.
\<close>

theorem evaluator_escapes:
  "(evaluate_evidence v = Inl e \<longleftrightarrow> e = OverflowError \<and> parse_evidence v = Inl OverflowError)
   \<and> evaluate_evidence (evidence_of [sample_trade ''BTCUSDT'' ''BTCUSD:DEV'' ''STOP'' (PInt (2 ^ 1024))])
     = Inl OverflowError"
proof
  show "evaluate_evidence v = Inl e \<longleftrightarrow> e = OverflowError \<and> parse_evidence v = Inl OverflowError"
    using parse_evidence_raises [of v]
    by (auto simp: evaluate_evidence_def raises_only_def split: sum.splits)
  have "py_float (PInt (2 ^ 1024)) = Inl OverflowError"
    using round_double_overflow [of 1024] by (simp del: power_numeral)
  then show "evaluate_evidence (evidence_of [sample_trade ''BTCUSDT'' ''BTCUSD:DEV'' ''STOP'' (PInt (2 ^ 1024))])
     = Inl OverflowError"
    by (simp add: evaluate_evidence_def sample_parse_defs del: py_float.simps power_numeral)
qed

text \<open>
  A report that is not a failure contains no text of the evidence: every string in the
  serialised dictionary, its keys included, is a field name, a fixed code, one of the five
  expected symbols or one of the three exit reasons.
\<close>

theorem report_text_fixed:
  assumes "evaluate_evidence v = Inr r" "r_status r \<noteq> ''FAIL''"
  shows "set (value_strings (report_value r)) \<subseteq> report_vocabulary"
proof (cases "parse_evidence v")
  case (Inl e)
  then show ?thesis using assms
    by (auto simp: evaluate_evidence_def invalid_evidence_report_def base_report_def split: if_splits)
next
  case (Inr ev)
  then have r: "r = assess ev" using assms(1) by (simp add: evaluate_evidence_def)
  have pos: "0 \<le> prepared_effects (ev_integrity ev)" "0 \<le> failed_effects (ev_integrity ev)"
    using parse_evidence_nonneg [OF Inr] by auto
  have "all_failures ev (final_acc ev) = []"
    using assms(2) by (auto simp: r assess_status verdict_def split: if_splits)
  then show ?thesis using assess_vocabulary [OF _ pos] by (simp add: r all_failures_Nil pos)
qed

theorem report_text_fixed_witness:
  "\<exists>r. evaluate_evidence passing_evidence = Inr r
     \<and> set (value_strings (report_value r)) \<subseteq> report_vocabulary"
proof -
  have "map_sum id r_status (evaluate_evidence passing_evidence) = Inr ''PASS''" by code_simp
  then obtain r where r: "evaluate_evidence passing_evidence = Inr r" "r_status r = ''PASS''"
    by (cases "evaluate_evidence passing_evidence") auto
  with report_text_fixed [OF r(1)] show ?thesis by simp
qed

text \<open>
  A failure report can contain text of the evidence: the symbol of a protected flat trade is
  added to the reported symbols before its lineage is looked at by anything but the failure list,
  so any non-empty string in that field comes out in \<^verbatim>\<open>coverage.protected_flat_symbols\<close>.
\<close>

theorem report_echoes_symbol:
  assumes "s \<noteq> []" "s \<notin> set EXPECTED_SYMBOLS"
  shows "\<exists>r. evaluate_evidence (evidence_of [sample_trade s ''BTCUSD:DEV'' ''STOP'' (PFloat (FFin 1))]) = Inr r
     \<and> r_status r = ''FAIL''
     \<and> dict_get (r_coverage r) ''protected_flat_symbols'' = strs [s]"
proof -
  let ?v = "evidence_of [sample_trade s ''BTCUSD:DEV'' ''STOP'' (PFloat (FFin 1))]"
  obtain ev where ev: "parse_evidence ?v = Inr ev" "length (ev_trades ev) = 1"
    "t_symbol (hd (ev_trades ev)) = s" "protected_flat (hd (ev_trades ev))"
    using assms(1)
    by (simp add: sample_parse_defs protected_flat_def has_fill_def required_exits_def
        exit_attribution_valid_def REQUIRED_PROTECTION_EVENTS_def REQUIRED_EXIT_REASONS_def FILL_EVENTS_def)
      blast
  then obtain t where t: "ev_trades ev = [t]" "t_symbol t = s" "protected_flat t"
    by (cases "ev_trades ev") auto
  have "lineage_outside t"
    using assms(2) t(2) by (auto simp: lineage_outside_def EXPECTED_SYMBOLS_def EXPECTED_VENUE_SYMBOLS_def)
  then have "all_failures ev (final_acc ev) \<noteq> []"
    using t(1) by (simp add: all_failures_def trade_step_def)
  then have "r_status (assess ev) = ''FAIL''" by (simp add: assess_status verdict_def)
  moreover have "a_protected (final_acc ev) = [s]"
    using t by (simp add: trade_step_def acc_init_def)
  then have "dict_get (r_coverage (assess ev)) ''protected_flat_symbols'' = strs [s]"
    by (simp add: assess_def base_report_def Let_def dict_get_def sorted_set_def)
  ultimately show ?thesis using ev(1) by (simp add: evaluate_evidence_def)
qed

theorem report_echoes_symbol_witness:
  "\<exists>r. evaluate_evidence (evidence_of [sample_trade ''account-7 order-9'' ''BTCUSD:DEV'' ''STOP'' (PFloat (FFin 1))]) = Inr r
     \<and> dict_get (r_coverage r) ''protected_flat_symbols'' = strs [''account-7 order-9'']"
  using report_echoes_symbol [of "''account-7 order-9''"] by (auto simp: EXPECTED_SYMBOLS_def)

text \<open>
  C9: \<^verbatim>\<open>main\<close> exits with status zero only after a request that passed every check was
  answered by \<^verbatim>\<open>psql\<close> with status zero and one JSON object on its output that is clean and
  fully covered evidence; whatever goes wrong before that is reported with status one.
\<close>

theorem canary_exit_zero:
  assumes "canary_main psql json_loads q = Inr (r, 0)"
  shows "validate_request q = Inr () \<and> r_accepted r
    \<and> (\<exists>out line v ev. psql (psql_command q) (sql_environment q) (q_account q) = Inr (0, out)
         \<and> filter (\<lambda>l. l \<noteq> []) (map strip (splitlines out)) = [line] \<and> json_loads line = Inr v
         \<and> parse_evidence v = Inr ev \<and> canary_clean ev \<and> canary_covered ev)"
proof -
  have fail: "exit_status collection_failure_report \<noteq> 0"
    by (simp add: collection_failure_report_def invalid_evidence_report_def base_report_def exit_status_def)
  then obtain v where v: "collect_evidence psql json_loads q = Inr v" "evaluate_evidence v = Inr r" "exit_status r = 0"
    using assms by (auto simp: canary_main_def py_bind_Inr_iff split: sum.splits if_splits)
  then have st: "r_status r = ''PASS''" by (simp add: exit_status_def split: if_splits)
  obtain rc out where po: "validate_request q = Inr ()"
      "psql (psql_command q) (sql_environment q) (q_account q) = Inr (rc, out)" "rc = 0"
      and out: "(case filter (\<lambda>l. l \<noteq> []) (map strip (splitlines out)) of
              [line] \<Rightarrow>
                (case json_loads line of
                   Inl e \<Rightarrow> Inl (if e = JSONDecodeError then RuntimeError ''read-only PostgreSQL evidence was not valid JSON''
                                else e)
                 | Inr v \<Rightarrow> py_bind (as_mapping v ''database evidence'') (\<lambda>m. Inr (PDict m)))
            | _ \<Rightarrow> Inl (RuntimeError ''read-only PostgreSQL evidence was not one JSON document'')) = Inr v"
    using v(1) by (auto simp: collect_evidence_def py_bind_Inr_iff split: if_splits)
  then obtain line w where l: "filter (\<lambda>l. l \<noteq> []) (map strip (splitlines out)) = [line]" "json_loads line = Inr w"
    "py_bind (as_mapping w ''database evidence'') (\<lambda>m. Inr (PDict m)) = Inr v"
    by (auto split: list.splits sum.splits)
  from l(3) have w: "w = v" by (cases w) (auto simp: schema_error_def)
  obtain ev where ev: "parse_evidence v = Inr ev" "r = assess ev"
    using v(2) st by (auto simp: evaluate_evidence_def invalid_evidence_report_def base_report_def
        split: sum.splits if_splits)
  then have "canary_clean ev \<and> canary_covered ev"
    using st by (simp add: assess_verdict [OF ev(1)] split: if_splits)
  with st ev po l w show ?thesis by (auto simp: assess_accepted)
qed

definition sample_request :: collect_request where
  "sample_request = \<lparr>q_compose_file = ''compose.yml'', q_env_file = ''.env'', q_account = ''kairos-paper-dev-a'',
     q_kairos_environment = ''paper'', q_database_user = ''kairos'', q_database_name = ''kairos'',
     q_timeout = 60, q_project = ''kairos-paper''\<rparr>"

theorem canary_exit_zero_witness:
  "\<exists>r. canary_main (\<lambda>_ _ _. Inr (0, ''{}'')) (\<lambda>_. Inr passing_evidence) sample_request = Inr (r, 0) \<and> r_accepted r"
proof -
  have "map_sum id snd (canary_main (\<lambda>_ _ _. Inr (0, ''{}'')) (\<lambda>_. Inr passing_evidence) sample_request) = Inr 0"
    by code_simp
  then obtain r where r: "canary_main (\<lambda>_ _ _. Inr (0, ''{}'')) (\<lambda>_. Inr passing_evidence) sample_request = Inr (r, 0)"
    by (cases "canary_main (\<lambda>_ _ _. Inr (0, ''{}'')) (\<lambda>_. Inr passing_evidence) sample_request") auto
  with canary_exit_zero [OF r] show ?thesis by blast
qed

text \<open>
  C23: nothing that is interpolated into the SQL text or the \<^verbatim>\<open>psql\<close> arguments can leave its
  quotes. When collection calls \<^verbatim>\<open>psql\<close> at all, the two strings put between single quotes in the
  query consist of letters, digits, colons and hyphens, the database role and name of lower-case
  letters, digits and underscores, and the timeout is between 1 and 300 seconds; a request that
  does not satisfy this raises \<^verbatim>\<open>ValueError\<close> whatever \<^verbatim>\<open>psql\<close> would answer.
\<close>

definition sql_safe_char :: "char \<Rightarrow> bool" where
  "sql_safe_char c \<longleftrightarrow> is_lower c \<or> is_upper c \<or> is_digit c \<or> c = CHR '':'' \<or> c = CHR ''-''"

lemma slug_safe: "slug s \<Longrightarrow> list_all sql_safe_char s"
  by (auto simp: slug_def slug_char_def sql_safe_char_def list_all_iff)

lemma ACCOUNT_PATTERN_safe: "ACCOUNT_PATTERN s \<Longrightarrow> list_all sql_safe_char s"
proof -
  assume "ACCOUNT_PATTERN s"
  then have "take 17 s = ''kairos-paper-dev-''" "list_all sql_safe_char (drop 17 s)"
    by (simp_all add: ACCOUNT_PATTERN_def slug_safe)
  moreover have "list_all sql_safe_char ''kairos-paper-dev-''" by code_simp
  ultimately show ?thesis by (metis append_take_drop_id list_all_append)
qed

theorem canary_sql_safe:
  "(validate_request q = Inr () \<and> list_all sql_safe_char (q_account q) \<and> list_all sql_safe_char (sql_environment q)
      \<and> list_all (\<lambda>c. is_lower c \<or> is_digit c \<or> c = CHR ''_'') (q_database_user q @ q_database_name q)
      \<and> 1 \<le> q_timeout q \<and> q_timeout q \<le> 300)
   \<or> collect_evidence psql json_loads q = Inl ValueError"
proof (cases "validate_request q")
  case (Inl e)
  then have "e = ValueError" by (simp add: validate_request_def split: if_splits)
  with Inl show ?thesis by (simp add: collect_evidence_def)
next
  case (Inr u)
  have "list_all sql_safe_char (''paper'' @ '':EVEDEX:DEV:PAPER'')"
    "list_all sql_safe_char (''paper-dev'' @ '':EVEDEX:DEV:PAPER'')" by code_simp+
  with Inr show ?thesis
    by (auto simp: validate_request_def sql_environment_def ACCOUNT_PATTERN_safe
        DATABASE_IDENTIFIER_PATTERN_def split: if_splits)
qed

end
