(* ===== verification/Redis_Resp.thy ===== *)
theory Redis_Resp
  imports Prelude
begin

text \<open>
  \<^verbatim>\<open>src/scripts/runtime_epoch_redis_aof.py\<close>, first part: the bounded reader of the Redis
  serialisation protocol in an append-only file (\<^verbatim>\<open>_unsigned\<close>, \<^verbatim>\<open>_RespReader\<close>), and its
  correctness against the encoding of commands as arrays of bulk strings.
\<close>

definition MAX_ARRAY_LENGTH :: nat where "MAX_ARRAY_LENGTH = 32"
definition MAX_TOKEN_BYTES :: nat where "MAX_TOKEN_BYTES = 128 * 1024"

abbreviation malformed :: exn where
  "malformed \<equiv> AofError ''AOF_MALFORMED_OR_TRUNCATED''"

abbreviation limit_exceeded :: exn where
  "limit_exceeded \<equiv> AofError ''AOF_LIMIT_EXCEEDED''"

section \<open>The reader\<close>

text \<open>\<^verbatim>\<open>bytes.isdigit()\<close> is false of the empty string.\<close>

definition unsigned :: "bytes \<Rightarrow> nat \<Rightarrow> exn \<Rightarrow> nat py" where
  "unsigned v maximum err =
     (if v = [] \<or> length v > 20 \<or> \<not> list_all is_digit v then Inl malformed
      else if parse_nat v > maximum then Inl err
      else Inr (parse_nat v))"

record resp_reader =
  rd_data :: bytes
  rd_offset :: nat
  rd_commands :: nat
  rd_max_commands :: nat

definition rest :: "resp_reader \<Rightarrow> bytes" where
  "rest r = drop (rd_offset r) (rd_data r)"

definition advance :: "resp_reader \<Rightarrow> nat \<Rightarrow> resp_reader" where
  "advance r n = r\<lparr>rd_offset := rd_offset r + n\<rparr>"

text \<open>Where \<^verbatim>\<open>b"\r\n"\<close> is found first.\<close>

fun find_crlf :: "bytes \<Rightarrow> nat option" where
  "find_crlf [] = None"
| "find_crlf [c] = None"
| "find_crlf (a # b # cs) =
     (if code a = 13 \<and> code b = 10 then Some 0 else map_option Suc (find_crlf (b # cs)))"

definition CRLF :: bytes where
  "CRLF = [char_of (13::nat), char_of (10::nat)]"

definition resp_line :: "resp_reader \<Rightarrow> (bytes \<times> resp_reader) py" where
  "resp_line r =
     (case find_crlf (rest r) of
        None \<Rightarrow> Inl malformed
      | Some n \<Rightarrow>
          (if n > MAX_TOKEN_BYTES then Inl limit_exceeded
           else Inr (take n (rest r), advance r (n + 2))))"

text \<open>The byte at the offset is the marker, which is skipped.\<close>

definition resp_marker :: "char \<Rightarrow> resp_reader \<Rightarrow> resp_reader py" where
  "resp_marker c r =
     (if take 1 (rest r) \<noteq> [c] then Inl malformed else Inr (advance r 1))"

text \<open>One iteration of the loop over the elements of the array.\<close>

definition resp_bulk :: "resp_reader \<Rightarrow> (bytes \<times> resp_reader) py" where
  "resp_bulk r =
     py_bind (resp_marker (CHR ''$'') r) (\<lambda>r.
     py_bind (resp_line r) (\<lambda>(raw_length, r).
     py_bind (unsigned raw_length MAX_TOKEN_BYTES limit_exceeded) (\<lambda>len.
       if len > MAX_TOKEN_BYTES then Inl limit_exceeded
       else if rd_offset r + len + 2 > length (rd_data r) \<or> take 2 (drop len (rest r)) \<noteq> CRLF
            then Inl malformed
       else Inr (take len (rest r), advance r (len + 2)))))"

fun resp_bulks :: "nat \<Rightarrow> resp_reader \<Rightarrow> (bytes list \<times> resp_reader) py" where
  "resp_bulks 0 r = Inr ([], r)"
| "resp_bulks (Suc n) r =
     py_bind (resp_bulk r) (\<lambda>(x, r).
     py_bind (resp_bulks n r) (\<lambda>(xs, r). Inr (x # xs, r)))"

definition next_command :: "resp_reader \<Rightarrow> (bytes list \<times> resp_reader) option py" where
  "next_command r =
     (if rd_offset r = length (rd_data r) then Inr None
      else
        py_bind (resp_marker (CHR ''*'') r) (\<lambda>r.
        py_bind (resp_line r) (\<lambda>(raw_count, r).
        py_bind (unsigned raw_count MAX_ARRAY_LENGTH limit_exceeded) (\<lambda>count.
          if count < 1 \<or> count > MAX_ARRAY_LENGTH then Inl limit_exceeded
          else
            py_bind (resp_bulks count r) (\<lambda>(command, r).
              let r = r\<lparr>rd_commands := rd_commands r + 1\<rparr> in
              if rd_commands r > rd_max_commands r then Inl limit_exceeded
              else Inr (Some (command, r)))))))"

section \<open>The encoding\<close>

text \<open>
  What Redis writes: \<open>print_command\<close>. What the reader accepts: the same with any decimal numeral
  of at most 20 digits for a count, leading zeros included.
\<close>

definition print_bulk :: "bytes \<Rightarrow> bytes" where
  "print_bulk x = ''$'' @ show_nat (length x) @ CRLF @ x @ CRLF"

definition print_command :: "bytes list \<Rightarrow> bytes" where
  "print_command xs = ''*'' @ show_nat (length xs) @ CRLF @ concat (map print_bulk xs)"

definition numeral_of :: "bytes \<Rightarrow> nat \<Rightarrow> bool" where
  "numeral_of v n \<longleftrightarrow> v \<noteq> [] \<and> length v \<le> 20 \<and> list_all is_digit v \<and> parse_nat v = n"

definition encodes_bulk :: "bytes \<Rightarrow> bytes \<Rightarrow> bool" where
  "encodes_bulk x bs \<longleftrightarrow> (\<exists>v. numeral_of v (length x) \<and> bs = ''$'' @ v @ CRLF @ x @ CRLF)"

definition encodes_command :: "bytes list \<Rightarrow> bytes \<Rightarrow> bool" where
  "encodes_command xs bs \<longleftrightarrow>
     (\<exists>v bss. numeral_of v (length xs) \<and> list_all2 encodes_bulk xs bss \<and> bs = ''*'' @ v @ CRLF @ concat bss)"

definition command_in_limits :: "bytes list \<Rightarrow> bool" where
  "command_in_limits xs \<longleftrightarrow>
     1 \<le> length xs \<and> length xs \<le> MAX_ARRAY_LENGTH \<and> list_all (\<lambda>x. length x \<le> MAX_TOKEN_BYTES) xs"

lemma unsigned_Inr: "unsigned v m e = Inr n \<longleftrightarrow> numeral_of v n \<and> n \<le> m"
  by (auto simp: unsigned_def numeral_of_def)

lemma find_crlf_Some: "find_crlf bs = Some n \<Longrightarrow> n + 2 \<le> length bs \<and> bs = take n bs @ CRLF @ drop (n + 2) bs"
proof (induction bs arbitrary: n rule: find_crlf.induct)
  case (3 a b cs)
  show ?case
  proof (cases "code a = 13 \<and> code b = 10")
    case True
    then have "a = char_of (13::nat)" "b = char_of (10::nat)" by (metis char_of_char)+
    then show ?thesis using 3 True by (simp add: CRLF_def)
  next
    case False
    then obtain m where "n = Suc m" "find_crlf (b # cs) = Some m" using 3 by (auto split: if_splits)
    then show ?thesis using 3 False by auto
  qed
qed auto

lemma find_crlf_digits: "list_all is_digit v \<Longrightarrow> find_crlf (v @ CRLF @ bs) = Some (length v)"
proof (induction v)
  case Nil
  then show ?case by (simp add: CRLF_def)
next
  case (Cons c v)
  then have c: "code c \<noteq> 13" "find_crlf (v @ CRLF @ bs) = Some (length v)" by (auto simp: is_digit_def)
  obtain d ds where "v @ CRLF @ bs = d # ds" by (cases "v @ CRLF @ bs") (auto simp: CRLF_def)
  then show ?case using c by simp
qed

section \<open>Positions\<close>

lemma rest_advance [simp]: "rest (advance r n) = drop n (rest r)"
  by (simp add: rest_def advance_def add.commute)

lemma rest_commands [simp]: "rest (r\<lparr>rd_commands := n\<rparr>) = rest r"
  by (simp add: rest_def)

lemma advance_simps [simp]:
  "rd_data (advance r n) = rd_data r" "rd_commands (advance r n) = rd_commands r"
  "rd_max_commands (advance r n) = rd_max_commands r" "rd_offset (advance r n) = rd_offset r + n"
  "advance (advance r m) n = advance r (m + n)" "advance r 0 = r"
  by (simp_all add: advance_def add.assoc)

text \<open>The reader moved over the bytes.\<close>

definition consumes :: "resp_reader \<Rightarrow> bytes \<Rightarrow> resp_reader \<Rightarrow> bool" where
  "consumes r bs r' \<longleftrightarrow> r' = advance r (length bs) \<and> take (length bs) (rest r) = bs"

lemma consumes_rest: "consumes r bs r' \<Longrightarrow> rest r = bs @ rest r'"
  by (metis append_take_drop_id consumes_def rest_advance)

lemma consumesI: "rest r = bs @ ds \<Longrightarrow> consumes r bs (advance r (length bs))"
  by (simp add: consumes_def)

lemma consumes_Nil [simp]: "consumes r [] r' \<longleftrightarrow> r' = r"
  by (simp add: consumes_def)

lemma take_append_iff:
  "take (length as + length bs) xs = as @ bs \<longleftrightarrow> take (length as) xs = as \<and> take (length bs) (drop (length as) xs) = bs"
proof
  assume eq: "take (length as + length bs) xs = as @ bs"
  have "take (length as) xs = take (length as) (take (length as + length bs) xs)" by simp
  moreover have "take (length bs) (drop (length as) xs) = drop (length as) (take (length as + length bs) xs)"
    by (simp add: drop_take)
  ultimately show "take (length as) xs = as \<and> take (length bs) (drop (length as) xs) = bs"
    unfolding eq by simp
qed (simp add: take_add)

lemma consumes_append: "consumes r (as @ bs) t \<longleftrightarrow> (\<exists>s. consumes r as s \<and> consumes s bs t)"
  by (auto simp: consumes_def take_append_iff)

lemma resp_marker_Inr: "resp_marker c r = Inr r' \<longleftrightarrow> consumes r [c] r'"
  by (auto simp: resp_marker_def consumes_def)

lemma resp_line_sound:
  assumes "resp_line r = Inr (v, r')"
  shows "consumes r (v @ CRLF) r'"
proof -
  obtain n where n: "find_crlf (rest r) = Some n" "v = take n (rest r)" "r' = advance r (n + 2)"
    using assms by (auto simp: resp_line_def split: option.splits if_splits)
  then have le: "n + 2 \<le> length (rest r)" and eq: "rest r = (v @ CRLF) @ drop (n + 2) (rest r)"
    using find_crlf_Some by auto
  from n(2) le have "n = length v" by simp
  with consumesI [OF eq] n(3) show ?thesis by (simp add: CRLF_def)
qed

lemma resp_line_complete:
  assumes "numeral_of v n" "consumes r (v @ CRLF) r'"
  shows "resp_line r = Inr (v, r')"
proof -
  have "rest r = v @ CRLF @ rest r'" using consumes_rest [OF assms(2)] by simp
  then have "find_crlf (rest r) = Some (length v)" "take (length v) (rest r) = v"
    using assms(1) find_crlf_digits by (simp_all only: numeral_of_def append_eq_conv_conj) (metis append_eq_conv_conj)+
  moreover have "length v \<le> MAX_TOKEN_BYTES" using assms(1) by (simp add: numeral_of_def MAX_TOKEN_BYTES_def)
  moreover have "r' = advance r (length v + 2)" using assms(2) by (simp add: consumes_def CRLF_def)
  ultimately show ?thesis by (simp add: resp_line_def)
qed

lemma resp_bulk_Inr:
  "resp_bulk r = Inr (x, r') \<longleftrightarrow>
     (\<exists>bs. encodes_bulk x bs \<and> length x \<le> MAX_TOKEN_BYTES \<and> consumes r bs r')"
  (is "?L = ?R")
proof
  assume ?L
  then obtain s v t n where st: "consumes r ''$'' s" "consumes s (v @ CRLF) t" "numeral_of v n" "n \<le> MAX_TOKEN_BYTES"
    and n: "rd_offset t + n + 2 \<le> length (rd_data t)" "take 2 (drop n (rest t)) = CRLF"
      "x = take n (rest t)" "r' = advance t (n + 2)"
    by (auto simp: resp_bulk_def py_bind_Inr_iff unsigned_Inr resp_marker_Inr split: if_splits
        dest: resp_line_sound)
  have "length x = n" using n by (simp add: rest_def)
  moreover have "consumes t x (advance t n)" "consumes (advance t n) CRLF r'"
    using n \<open>length x = n\<close> by (simp_all add: consumes_def CRLF_def numeral_2_eq_2)
  then have "consumes t (x @ CRLF) r'" unfolding consumes_append by blast
  ultimately have "encodes_bulk x (''$'' @ v @ CRLF @ x @ CRLF)" "consumes r (''$'' @ v @ CRLF @ x @ CRLF) r'"
    using st unfolding encodes_bulk_def consumes_append by blast+
  with st(4) \<open>length x = n\<close> show ?R by blast
next
  assume ?R
  then obtain v where v: "numeral_of v (length x)" "length x \<le> MAX_TOKEN_BYTES"
    and c: "consumes r (''$'' @ (v @ CRLF) @ x @ CRLF) r'" by (auto simp: encodes_bulk_def)
  from c obtain s t where st: "consumes r ''$'' s" "consumes s (v @ CRLF) t" "consumes t (x @ CRLF) r'"
    unfolding consumes_append [of r "''$''"] consumes_append [of _ "v @ CRLF"] by blast
  have eq: "rest t = x @ CRLF @ rest r'" using consumes_rest [OF st(3)] by simp
  then have "take 2 (drop (length x) (rest t)) = CRLF" "take (length x) (rest t) = x"
    by (simp_all add: CRLF_def)
  moreover have "length x + 2 \<le> length (rest t)" unfolding eq by (simp add: CRLF_def)
  then have "rd_offset t + length x + 2 \<le> length (rd_data t)" by (simp add: rest_def)
  moreover have "r' = advance t (length x + 2)" using st(3) by (simp add: consumes_def CRLF_def)
  moreover have "resp_line s = Inr (v, t)" using v(1) st(2) by (rule resp_line_complete)
  moreover have "resp_marker (CHR ''$'') r = Inr s" using st(1) by (simp add: resp_marker_Inr)
  moreover have "unsigned v MAX_TOKEN_BYTES limit_exceeded = Inr (length x)" using v by (simp add: unsigned_Inr)
  ultimately show ?L using v(2) by (simp add: resp_bulk_def)
qed

lemma resp_bulks_Inr:
  "resp_bulks n r = Inr (xs, r') \<longleftrightarrow>
     length xs = n \<and> list_all (\<lambda>x. length x \<le> MAX_TOKEN_BYTES) xs
     \<and> (\<exists>bss. list_all2 encodes_bulk xs bss \<and> consumes r (concat bss) r')"
proof (induction n arbitrary: r xs)
  case 0
  then show ?case by auto
next
  case (Suc n)
  show ?case
  proof (cases xs)
    case Nil
    then show ?thesis by (auto simp: py_bind_Inr_iff)
  next
    case (Cons y ys)
    have "resp_bulks (Suc n) r = Inr (xs, r') \<longleftrightarrow>
        (\<exists>s. resp_bulk r = Inr (y, s) \<and> resp_bulks n s = Inr (ys, r'))"
      by (auto simp: py_bind_Inr_iff Cons)
    also have "\<dots> \<longleftrightarrow> length ys = n \<and> list_all (\<lambda>x. length x \<le> MAX_TOKEN_BYTES) (y # ys)
        \<and> (\<exists>bs bss. encodes_bulk y bs \<and> list_all2 encodes_bulk ys bss \<and> consumes r (bs @ concat bss) r')"
      unfolding resp_bulk_Inr Suc consumes_append by auto
    also have "(\<exists>bs bss. encodes_bulk y bs \<and> list_all2 encodes_bulk ys bss \<and> consumes r (bs @ concat bss) r')
        \<longleftrightarrow> (\<exists>bss. list_all2 encodes_bulk (y # ys) bss \<and> consumes r (concat bss) r')"
      by (metis concat.simps(2) list_all2_Cons1 list_all2_Cons)
    finally show ?thesis by (simp add: Cons)
  qed
qed

lemma next_command_None: "next_command r = Inr None \<longleftrightarrow> rd_offset r = length (rd_data r)"
  by (auto simp: next_command_def Let_def py_bind_Inr_iff split: if_splits)

text \<open>The reader returns exactly the commands within the limits that an encoding at its position denotes.\<close>

lemma next_command_Some:
  "next_command r = Inr (Some (xs, r')) \<longleftrightarrow>
     command_in_limits xs \<and> rd_commands r < rd_max_commands r
     \<and> (\<exists>bs s. encodes_command xs bs \<and> consumes r bs s \<and> r' = s\<lparr>rd_commands := rd_commands r + 1\<rparr>)"
  (is "?L = ?R")
proof
  assume L: ?L
  then obtain s v t n u where st: "consumes r ''*'' s" "consumes s (v @ CRLF) t" "numeral_of v n" "1 \<le> n"
      "n \<le> MAX_ARRAY_LENGTH" and bulks: "resp_bulks n t = Inr (xs, u)"
    and u: "rd_commands u < rd_max_commands u" "r' = u\<lparr>rd_commands := rd_commands u + 1\<rparr>"
    by (auto simp: next_command_def Let_def py_bind_Inr_iff unsigned_Inr resp_marker_Inr not_less Suc_le_eq
        split: if_splits dest: resp_line_sound)
  from bulks obtain bss where b: "length xs = n" "list_all (\<lambda>x. length x \<le> MAX_TOKEN_BYTES) xs"
    "list_all2 encodes_bulk xs bss" "consumes t (concat bss) u" by (auto simp: resp_bulks_Inr)
  have c: "consumes r (''*'' @ v @ CRLF @ concat bss) u"
    using st b unfolding consumes_append by blast
  then have "rd_commands u = rd_commands r" "rd_max_commands u = rd_max_commands r" by (simp_all add: consumes_def)
  then show ?R using c st b u unfolding encodes_command_def command_in_limits_def by auto
next
  assume ?R
  then obtain v bss u where v: "numeral_of v (length xs)" "command_in_limits xs" "list_all2 encodes_bulk xs bss"
      "rd_commands r < rd_max_commands r"
    and c: "consumes r (''*'' @ v @ CRLF @ concat bss) u" and r': "r' = u\<lparr>rd_commands := rd_commands r + 1\<rparr>"
    by (auto simp: encodes_command_def)
  then obtain s t where st: "consumes r ''*'' s" "consumes s (v @ CRLF) t" "consumes t (concat bss) u"
    unfolding consumes_append by blast
  have "rest r \<noteq> []" using consumes_rest [OF st(1)] by simp
  then have "rd_offset r \<noteq> length (rd_data r)" by (auto simp: rest_def)
  moreover have "resp_marker (CHR ''*'') r = Inr s" using st(1) by (simp add: resp_marker_Inr)
  moreover have "resp_line s = Inr (v, t)" using v(1) st(2) by (rule resp_line_complete)
  moreover have "unsigned v MAX_ARRAY_LENGTH limit_exceeded = Inr (length xs)"
    using v by (simp add: unsigned_Inr command_in_limits_def)
  moreover have "resp_bulks (length xs) t = Inr (xs, u)"
    using v st(3) by (auto simp: resp_bulks_Inr command_in_limits_def)
  moreover have "rd_commands u = rd_commands r" "rd_max_commands u = rd_max_commands r"
    using c by (simp_all add: consumes_def)
  moreover have "xs \<noteq> []" using v(2) by (auto simp: command_in_limits_def)
  ultimately show ?L using v by (simp add: next_command_def command_in_limits_def r')
qed

lemma encodes_command_nonempty: "encodes_command xs bs \<Longrightarrow> bs \<noteq> []"
  by (auto simp: encodes_command_def)

text \<open>Every command moves the reader forward and stays within the data.\<close>

lemma next_command_progress:
  assumes "next_command r = Inr (Some (xs, r'))"
  shows "rd_data r' = rd_data r \<and> rd_offset r < rd_offset r' \<and> rd_offset r' \<le> length (rd_data r)"
proof -
  from assms obtain bs s where bs: "encodes_command xs bs" "consumes r bs s"
    "r' = s\<lparr>rd_commands := rd_commands r + 1\<rparr>" unfolding next_command_Some by blast
  have "bs \<noteq> []" using bs(1) by (rule encodes_command_nonempty)
  moreover have "length bs \<le> length (rest r)" using consumes_rest [OF bs(2)] by simp
  ultimately show ?thesis using bs(2,3) by (cases bs) (auto simp: consumes_def rest_def)
qed

lemma print_bulk_encodes: "length x \<le> MAX_TOKEN_BYTES \<Longrightarrow> encodes_bulk x (print_bulk x)"
  using show_nat_length [of "length x" 20]
  by (auto simp: encodes_bulk_def print_bulk_def numeral_of_def show_nat_digits MAX_TOKEN_BYTES_def)

lemma print_command_encodes:
  assumes "command_in_limits xs"
  shows "encodes_command xs (print_command xs)"
proof -
  have "numeral_of (show_nat (length xs)) (length xs)"
    using assms show_nat_length [of "length xs" 20]
    by (auto simp: command_in_limits_def numeral_of_def show_nat_digits MAX_ARRAY_LENGTH_def)
  moreover have "list_all2 encodes_bulk xs (map print_bulk xs)"
    using assms by (auto simp: command_in_limits_def list_all_iff list_all2_map2 list_all2_same print_bulk_encodes)
  ultimately show ?thesis unfolding encodes_command_def print_command_def by blast
qed

end
