(* ===== verification/Py_Check.thy ===== *)
theory Py_Check
  imports Py_Value Py_Text
begin

text \<open>
  The vocabulary of the validators: \<^verbatim>\<open>str\<close>, \<^verbatim>\<open>set\<close>, iteration and membership on dynamically
  typed values, and the shape of a validator as a list of checks that contribute error messages in
  order, where evaluating a check may raise. The text of a float is a parameter (\<open>ft\<close>).
\<close>

section \<open>Text of values\<close>

definition hex_digit :: "nat \<Rightarrow> char" where
  "hex_digit d = (if d < 10 then char_of (48 + d) else char_of (87 + d))"

definition printable :: "char \<Rightarrow> bool" where
  "printable c \<longleftrightarrow> (32 \<le> code c \<and> code c \<le> 126) \<or> (161 \<le> code c \<and> code c \<noteq> 173)"

text \<open>\<^verbatim>\<open>repr\<close> of a string: single quotes unless it has those and no double quotes.\<close>

definition repr_char :: "char \<Rightarrow> char \<Rightarrow> string" where
  "repr_char quote c =
     (if c = quote \<or> code c = 92 then [CHR 0x5C, c]
      else if code c = 9 then [CHR 0x5C, CHR ''t'']
      else if code c = 10 then [CHR 0x5C, CHR ''n'']
      else if code c = 13 then [CHR 0x5C, CHR ''r'']
      else if printable c then [c]
      else [CHR 0x5C, CHR ''x'', hex_digit (code c div 16), hex_digit (code c mod 16)])"

definition repr_str :: "string \<Rightarrow> string" where
  "repr_str s =
     (let quote = (if CHR 0x27 \<in> set s \<and> CHR 0x22 \<notin> set s then CHR 0x22 else CHR 0x27)
      in [quote] @ concat (map (repr_char quote) s) @ [quote])"

fun join :: "string \<Rightarrow> string list \<Rightarrow> string" where
  "join sep [] = []"
| "join sep [x] = x"
| "join sep (x # xs) = x @ sep @ join sep xs"

fun py_repr :: "(pyfloat \<Rightarrow> string) \<Rightarrow> pyval \<Rightarrow> string"
  and repr_list :: "(pyfloat \<Rightarrow> string) \<Rightarrow> pyval list \<Rightarrow> string list"
  and repr_items :: "(pyfloat \<Rightarrow> string) \<Rightarrow> items \<Rightarrow> string list" where
  "py_repr ft PNone = ''None''"
| "py_repr ft (PBool b) = (if b then ''True'' else ''False'')"
| "py_repr ft (PInt i) = show_int i"
| "py_repr ft (PFloat f) = ft f"
| "py_repr ft (PStr s) = repr_str s"
| "py_repr ft (PList xs) = ''['' @ join '', '' (repr_list ft xs) @ '']''"
| "py_repr ft (PDict m) = ''{'' @ join '', '' (repr_items ft m) @ ''}''"
| "repr_list ft [] = []"
| "repr_list ft (x # xs) = py_repr ft x # repr_list ft xs"
| "repr_items ft [] = []"
| "repr_items ft ((k, v) # m) = (repr_str k @ '': '' @ py_repr ft v) # repr_items ft m"

text \<open>\<^verbatim>\<open>str(v)\<close>\<close>

fun py_str :: "(pyfloat \<Rightarrow> string) \<Rightarrow> pyval \<Rightarrow> string" where
  "py_str ft (PStr s) = s"
| "py_str ft v = py_repr ft v"

definition str_lower :: "string \<Rightarrow> string" where
  "str_lower s = map to_lower s"

text \<open>\<^verbatim>\<open>str.casefold\<close> as code points.\<close>

definition casefold_char :: "char \<Rightarrow> nat list" where
  "casefold_char c =
     (if is_upper c \<or> (192 \<le> code c \<and> code c \<le> 222 \<and> code c \<noteq> 215) then [code c + 32]
      else if code c = 223 then [115, 115]
      else if code c = 181 then [956]
      else [code c])"

definition casefold_points :: "string \<Rightarrow> nat list" where
  "casefold_points s = concat (map casefold_char s)"

text \<open>\<^verbatim>\<open>p in s\<close>, \<^verbatim>\<open>s.split(c)\<close> and \<^verbatim>\<open>s.replace(c, d)\<close> for characters.\<close>

fun contains :: "string \<Rightarrow> string \<Rightarrow> bool" where
  "contains p [] = (p = [])"
| "contains p (c # cs) = (take (length p) (c # cs) = p \<or> contains p cs)"

fun split_at :: "char \<Rightarrow> string \<Rightarrow> string list" where
  "split_at c [] = [[]]"
| "split_at c (x # xs) =
     (if x = c then [] # split_at c xs
      else case split_at c xs of [] \<Rightarrow> [[x]] | w # ws \<Rightarrow> (x # w) # ws)"

definition replace_char :: "char \<Rightarrow> char \<Rightarrow> string \<Rightarrow> string" where
  "replace_char a b s = map (\<lambda>c. if c = a then b else c) s"

section \<open>Containers\<close>

fun get_default :: "pyval \<Rightarrow> string \<Rightarrow> pyval \<Rightarrow> pyval py" where
  "get_default (PDict m) k d = Inr (dict_get_default m k d)"
| "get_default _ k d = Inl AttributeError"

definition or_empty :: "pyval \<Rightarrow> pyval" where
  "or_empty v = (if py_truth v then v else PDict [])"

definition or_empty_list :: "pyval \<Rightarrow> pyval" where
  "or_empty_list v = (if py_truth v then v else PList [])"

text \<open>\<^verbatim>\<open>v.get(k, {}) or {}\<close> and \<^verbatim>\<open>v.get(k) or {}\<close> have the same value.\<close>

definition sub :: "pyval \<Rightarrow> string \<Rightarrow> pyval py" where
  "sub v k = py_bind (get_default v k (PDict [])) (\<lambda>x. Inr (or_empty x))"

text \<open>\<^verbatim>\<open>for x in v\<close>\<close>

fun py_iter :: "pyval \<Rightarrow> pyval list py" where
  "py_iter (PList xs) = Inr xs"
| "py_iter (PDict m) = Inr (map (\<lambda>kv. PStr (fst kv)) m)"
| "py_iter (PStr s) = Inr (map (\<lambda>c. PStr [c]) s)"
| "py_iter _ = Inl TypeError"

fun hashable :: "pyval \<Rightarrow> bool" where
  "hashable (PList _) = False"
| "hashable (PDict _) = False"
| "hashable _ = True"

text \<open>\<^verbatim>\<open>set(v)\<close>, as a list; lists and dictionaries are not hashable.\<close>

definition py_set :: "pyval \<Rightarrow> pyval list py" where
  "py_set v = py_bind (py_iter v) (\<lambda>xs. if list_all hashable xs then Inr xs else Inl TypeError)"

text \<open>Comparison and intersection with a set of strings.\<close>

definition same_strs :: "pyval list \<Rightarrow> string list \<Rightarrow> bool" where
  "same_strs vs ss \<longleftrightarrow> set vs = PStr ` set ss"

definition meet_strs :: "string list \<Rightarrow> pyval list \<Rightarrow> string list" where
  "meet_strs ss vs = filter (\<lambda>s. PStr s \<in> set vs) ss"

text \<open>\<^verbatim>\<open>k in v\<close> for a string \<open>k\<close>.\<close>

fun py_in :: "string \<Rightarrow> pyval \<Rightarrow> bool py" where
  "py_in k (PDict m) = Inr (map_of m k \<noteq> None)"
| "py_in k (PList xs) = Inr (PStr k \<in> set xs)"
| "py_in k (PStr s) = Inr (contains k s)"
| "py_in k _ = Inl TypeError"

text \<open>\<^verbatim>\<open>v.items()\<close>\<close>

fun py_items :: "pyval \<Rightarrow> items py" where
  "py_items (PDict m) = Inr m"
| "py_items _ = Inl AttributeError"

section \<open>Lists of checks\<close>

definition err_if :: "bool py \<Rightarrow> string \<Rightarrow> string list py" where
  "err_if c msg = py_bind c (\<lambda>b. Inr (if b then [msg] else []))"

text \<open>The messages of the checks in order; the first check that raises ends the validator.\<close>

fun gather :: "string list py list \<Rightarrow> string list py" where
  "gather [] = Inr []"
| "gather (c # cs) = py_bind c (\<lambda>es. py_bind (gather cs) (\<lambda>fs. Inr (es @ fs)))"

lemma err_if_Nil [simp]: "err_if c msg = Inr [] \<longleftrightarrow> c = Inr False"
  by (cases c) (auto simp: err_if_def)

lemma gather_Nil: "gather cs = Inr [] \<longleftrightarrow> (\<forall>c \<in> set cs. c = Inr [])"
  by (induction cs) (auto simp: py_bind_Inr_iff)

lemma gather_parts_Nil:
  "gather (as @ bs) = Inr [] \<longleftrightarrow> gather as = Inr [] \<and> gather bs = Inr []"
  "gather (a # bs) = Inr [] \<longleftrightarrow> a = Inr [] \<and> gather bs = Inr []"
  "gather [] = Inr []"
  unfolding gather_Nil by auto

lemma gather_mapI: "(\<And>x. x \<in> set xs \<Longrightarrow> f x = Inr []) \<Longrightarrow> gather (map f xs) = Inr []"
  by (auto simp: gather_Nil)

lemma gather_append: "gather (as @ bs) = py_bind (gather as) (\<lambda>x. py_bind (gather bs) (\<lambda>y. Inr (x @ y)))"
proof (induction as)
  case Nil
  then show ?case by (cases "gather bs") auto
next
  case (Cons a as)
  then show ?case by (cases a; cases "gather as"; cases "gather bs") auto
qed

lemma gather_Inr_iff: "(\<exists>es. gather cs = Inr es) \<longleftrightarrow> (\<forall>c \<in> set cs. \<exists>es. c = Inr es)"
  by (induction cs) (auto simp: py_bind_Inr_iff)

lemma same_strs_iff:
  "same_strs vs ss \<longleftrightarrow> (\<forall>v \<in> set vs. \<exists>s \<in> set ss. v = PStr s) \<and> (\<forall>s \<in> set ss. PStr s \<in> set vs)"
  by (auto simp: same_strs_def)

lemma meet_strs_Nil [simp]: "meet_strs ss vs = [] \<longleftrightarrow> (\<forall>s \<in> set ss. PStr s \<notin> set vs)"
  by (auto simp: meet_strs_def filter_empty_conv)

text \<open>Substring search finds exactly the infixes.\<close>

lemma contains_iff: "contains p s \<longleftrightarrow> (\<exists>a b. s = a @ p @ b)"
proof (induction s)
  case (Cons c cs)
  have "take (length p) (c # cs) = p \<longleftrightarrow> (\<exists>b. c # cs = p @ b)" by (metis append_eq_conv_conj)
  then show ?case using Cons by (auto simp: Cons_eq_append_conv)
qed auto

lemma same_strs_items: "same_strs (map (\<lambda>kv. PStr (fst kv)) m) ss \<longleftrightarrow> set (map fst m) = set ss"
proof -
  have "set (map (\<lambda>kv. PStr (fst kv)) m) = PStr ` set (map fst m)" by (simp add: image_image)
  moreover have "inj PStr" by (simp add: inj_def)
  ultimately show ?thesis unfolding same_strs_def by (simp only: inj_image_eq_iff)
qed

lemma py_set_dict [simp]: "py_set (PDict m) = Inr (map (\<lambda>kv. PStr (fst kv)) m)"
  by (simp add: py_set_def list_all_iff)

end
