(* ===== verification/Redis_Aof.thy ===== *)
theory Redis_Aof
  imports Redis_Resp Py_Check "HOL-Library.AList"
begin

text \<open>
  \<^verbatim>\<open>src/scripts/runtime_epoch_redis_aof.py\<close>, second part: the inventory of a captured
  append-only file and the access-control line for its replay. The inventory is a loop that reads
  a command and folds it into the locals of \<^verbatim>\<open>inventory_bytes\<close>, here the record \<open>aof_state\<close>.
  SHA-256 (\<open>sha\<close>, the hexadecimal digest) and the JSON decoder (\<open>json\<close>) are parameters.
\<close>

section \<open>Constants and patterns\<close>

definition TOPIC :: string where "TOPIC = ''kairos.market.closed_bar.v1''"
definition GROUP :: string where "GROUP = ''bars''"
definition MAX_AOF_BYTES :: nat where "MAX_AOF_BYTES = 8 * 1024 * 1024"
definition MAX_COMMANDS :: nat where "MAX_COMMANDS = 50000"

abbreviation aof_fail :: "string \<Rightarrow> 'a py" where
  "aof_fail c \<equiv> Inl (AofError c)"

definition owner_ok :: "string \<Rightarrow> string py" where
  "owner_ok owner = (if hex_lower_n 32 owner then Inr owner else aof_fail ''OWNER_INVALID'')"

definition publication_key :: "string \<Rightarrow> string" where
  "publication_key owner = ''kairos.runtime.'' @ owner @ ''.publication''"

text \<open>\<^verbatim>\<open>0|[1-9][0-9]*\<close>\<close>

definition canonical_numeral :: "string \<Rightarrow> bool" where
  "canonical_numeral s \<longleftrightarrow> s = ''0'' \<or> (s \<noteq> [] \<and> list_all is_digit s \<and> hd s \<noteq> CHR ''0'')"

definition stream_id :: "bytes \<Rightarrow> bool \<Rightarrow> string py" where
  "stream_id v allow_zero =
     (if \<not> list_all is_ascii v then aof_fail ''STREAM_ID_INVALID''
      else case partition_at (CHR ''-'') v of (ms, found, sq) \<Rightarrow>
        if \<not> (found \<and> canonical_numeral ms \<and> canonical_numeral sq) then aof_fail ''STREAM_ID_INVALID''
        else if length ms > 20 \<or> length sq > 20 then aof_fail ''STREAM_ID_INVALID''
        else if parse_nat ms > 2 ^ 64 - 1 \<or> parse_nat sq > 2 ^ 64 - 1
                \<or> (parse_nat ms = 0 \<and> parse_nat sq = 0 \<and> \<not> allow_zero)
             then aof_fail ''STREAM_ID_INVALID''
        else Inr v)"

text \<open>\<^verbatim>\<open>consumer-[0-9a-f]{12}-[1-9][0-9]*\<close>\<close>

definition consumer_ok :: "string \<Rightarrow> bool" where
  "consumer_ok s \<longleftrightarrow>
     take 9 s = ''consumer-'' \<and> hex_lower_n 12 (take 12 (drop 9 s)) \<and> take 1 (drop 21 s) = ''-''
     \<and> canonical_numeral (drop 22 s) \<and> drop 22 s \<noteq> ''0''"

definition ascii :: "bytes \<Rightarrow> string py" where
  "ascii v = (if list_all is_ascii v then Inr v else Inl malformed)"

definition upper :: "bytes \<Rightarrow> bytes" where "upper s = map to_upper s"
definition lower :: "string \<Rightarrow> string" where "lower s = map to_lower s"

abbreviation unknown :: "'a py" where
  "unknown \<equiv> aof_fail ''AOF_UNKNOWN_COMMAND_OR_KEY''"

section \<open>Consumer group commands\<close>

definition valid_group_args :: "bytes list \<Rightarrow> string py" where
  "valid_group_args args =
     (if length args < 4 \<or> args ! 1 \<noteq> TOPIC \<or> args ! 2 \<noteq> GROUP then unknown
      else
        py_bind (if args ! 0 = ''CREATE'' then
                   (if length args \<noteq> 5 \<or> args ! 4 \<noteq> ''MKSTREAM'' then unknown else Inr ())
                 else if args ! 0 = ''SETID'' then
                   (if length args \<noteq> 6 \<or> args ! 4 \<noteq> ''ENTRIESREAD'' then unknown
                    else py_bind (unsigned (args ! 5) (2 ^ 63 - 1) malformed) (\<lambda>_. Inr ()))
                 else unknown) (\<lambda>_.
        py_bind (if args ! 3 \<notin> {''$'', ''0''} then py_bind (stream_id (args ! 3) True) (\<lambda>_. Inr ())
                 else Inr ()) (\<lambda>_.
          Inr (lower (args ! 0)))))"

text \<open>The options of \<^verbatim>\<open>XCLAIM\<close> with their arities; the position is the order they must keep.\<close>

definition CLAIM_OPTIONS :: "(bytes \<times> nat) list" where
  "CLAIM_OPTIONS = [(''TIME'', 1), (''RETRYCOUNT'', 1), (''FORCE'', 0), (''JUSTID'', 0), (''LASTID'', 1)]"

definition option_order :: "(bytes \<times> int) list" where
  "option_order = [(''TIME'', 0), (''RETRYCOUNT'', 1), (''FORCE'', 2), (''JUSTID'', 3), (''LASTID'', 4)]"

text \<open>The first loop: the stream ids, and the arguments from the first option on.\<close>

fun claim_ids :: "bytes list \<Rightarrow> (nat \<times> bytes list) py" where
  "claim_ids [] = Inr (0, [])"
| "claim_ids (a # as) =
     (if upper a \<in> set (map fst CLAIM_OPTIONS) then Inr (0, a # as)
      else py_bind (stream_id a False) (\<lambda>_.
           py_bind (claim_ids as) (\<lambda>(n, os). Inr (Suc n, os))))"

text \<open>The second loop: the options, strictly in their order.\<close>

fun claim_options :: "int \<Rightarrow> bytes list \<Rightarrow> unit py" where
  "claim_options last_option [] = Inr ()"
| "claim_options last_option (a # as) =
     (case (map_of CLAIM_OPTIONS (upper a), map_of option_order (upper a)) of
        (Some arity, Some ord) \<Rightarrow>
          (if ord \<le> last_option then Inl malformed
           else if arity = 0 then claim_options ord as
           else case as of
                  [] \<Rightarrow> Inl malformed
                | b # bs \<Rightarrow>
                    py_bind (if upper a = ''LASTID'' then py_bind (stream_id b True) (\<lambda>_. Inr ())
                             else py_bind (unsigned b (2 ^ 63 - 1) malformed) (\<lambda>_. Inr ())) (\<lambda>_.
                      claim_options ord bs))
      | _ \<Rightarrow> unknown)"

definition valid_claim :: "bytes list \<Rightarrow> unit py" where
  "valid_claim args =
     (if length args < 5 \<or> args ! 0 \<noteq> TOPIC \<or> args ! 1 \<noteq> GROUP then unknown
      else
        py_bind (ascii (args ! 2)) (\<lambda>consumer.
          if \<not> consumer_ok consumer then aof_fail ''AOF_CONSUMER_IDENTITY_INVALID''
          else
            py_bind (unsigned (args ! 3) (2 ^ 63 - 1) malformed) (\<lambda>_.
            py_bind (claim_ids (drop 4 args)) (\<lambda>(ids, options).
              if ids = 0 then Inl malformed else claim_options (-1) options))))"

section \<open>The inventory loop\<close>

text \<open>\<^verbatim>\<open>Counter\<close>: an absent key counts zero.\<close>

type_synonym counter = "(string \<times> nat) list"

definition count :: "counter \<Rightarrow> string \<Rightarrow> nat" where
  "count c k = (case map_of c k of None \<Rightarrow> 0 | Some n \<Rightarrow> n)"

definition bump :: "string \<Rightarrow> counter \<Rightarrow> counter" where
  "bump k c = AList.update k (count c k + 1) c"

record aof_state =
  counts :: counter
  dbs :: "int list"
  publication_ids :: "string list"
  receipt_fields :: "(string \<times> string \<times> string) list"
  stream_receipts :: "(string \<times> string) list"
  in_multi :: bool
  transaction_streams :: "(string \<times> string) list"
  transaction_has_hset :: bool
  transaction_has_xadd :: bool
  xadd_receipts :: "(string \<times> string) list"

definition aof_init :: aof_state where
  "aof_init = \<lparr>counts = [], dbs = [], publication_ids = [], receipt_fields = [], stream_receipts = [],
     in_multi = False, transaction_streams = [], transaction_has_hset = False,
     transaction_has_xadd = False, xadd_receipts = []\<rparr>"

abbreviation transaction_invalid :: "'a py" where
  "transaction_invalid \<equiv> aof_fail ''AOF_TRANSACTION_INVALID''"

abbreviation receipt_invalid :: "'a py" where
  "receipt_invalid \<equiv> aof_fail ''AOF_RECEIPT_INVALID''"

definition do_multi :: "aof_state \<Rightarrow> bytes list \<Rightarrow> aof_state py" where
  "do_multi s args =
     (if args \<noteq> [] \<or> in_multi s then transaction_invalid
      else Inr (s\<lparr>in_multi := True, transaction_streams := [], transaction_has_hset := False,
                  transaction_has_xadd := False, counts := bump ''multi'' (counts s)\<rparr>))"

definition do_exec :: "aof_state \<Rightarrow> bytes list \<Rightarrow> aof_state py" where
  "do_exec s args =
     (if args \<noteq> [] \<or> \<not> in_multi s then transaction_invalid
      else if transaction_has_hset s \<noteq> transaction_has_xadd s then transaction_invalid
      else Inr (s\<lparr>in_multi := False, counts := bump ''exec'' (counts s)\<rparr>))"

definition do_select :: "aof_state \<Rightarrow> bytes list \<Rightarrow> aof_state py" where
  "do_select s args =
     (if length args \<noteq> 1 \<or> args ! 0 \<noteq> ''0'' then aof_fail ''AOF_DB_INVALID''
      else Inr (s\<lparr>dbs := List.insert 0 (dbs s), counts := bump ''select'' (counts s)\<rparr>))"

definition do_xadd :: "(bytes \<Rightarrow> string) \<Rightarrow> aof_state \<Rightarrow> bytes list \<Rightarrow> aof_state py" where
  "do_xadd sha s args =
     (if length args \<noteq> 4 \<or> args ! 0 \<noteq> TOPIC \<or> args ! 2 \<noteq> ''data'' then unknown
      else
        py_bind (stream_id (args ! 1) False) (\<lambda>sid.
          let digest = sha (args ! 3) in
          if map_of (stream_receipts s) sid \<noteq> None then aof_fail ''AOF_STREAM_ID_REUSED''
          else
            let s = s\<lparr>stream_receipts := AList.update sid digest (stream_receipts s),
                      xadd_receipts := List.insert (digest, sid) (xadd_receipts s)\<rparr>;
                s = (if in_multi s
                     then s\<lparr>transaction_streams := List.insert (digest, sid) (transaction_streams s),
                            transaction_has_xadd := True\<rparr>
                     else s)
            in Inr (s\<lparr>counts := bump ''xadd'' (counts s)\<rparr>)))"

text \<open>The receipt: a JSON array of a digest and a stream id.\<close>

fun receipt_of :: "pyval \<Rightarrow> (string \<times> string) py" where
  "receipt_of (PList [PStr d, PStr i]) = (if hex_n 64 d then Inr (d, i) else receipt_invalid)"
| "receipt_of _ = receipt_invalid"

definition load_receipt :: "(string \<Rightarrow> pyval py) \<Rightarrow> bytes \<Rightarrow> pyval py" where
  "load_receipt json v =
     (if \<not> list_all is_ascii v then receipt_invalid
      else case json v of
             Inl e \<Rightarrow> if e = JSONDecodeError then receipt_invalid else Inl e
           | Inr r \<Rightarrow> Inr r)"

definition do_hset ::
  "(string \<Rightarrow> pyval py) \<Rightarrow> bytes \<Rightarrow> aof_state \<Rightarrow> bytes list \<Rightarrow> aof_state py" where
  "do_hset json exact_key s args =
     (if \<not> in_multi s then transaction_invalid
      else if length args \<noteq> 3 \<or> args ! 0 \<noteq> exact_key then unknown
      else
        py_bind (ascii (args ! 1)) (\<lambda>field.
        if \<not> hex_n 64 field then unknown
        else
          py_bind (load_receipt json (args ! 2)) (\<lambda>v.
          py_bind (receipt_of v) (\<lambda>(digest, rid).
          if \<not> list_all is_ascii rid then receipt_invalid
          else
            py_bind (stream_id rid False) (\<lambda>receipt_stream_id.
            let pair = (lower digest, receipt_stream_id) in
            if pair \<notin> set (transaction_streams s) \<or> pair \<notin> set (xadd_receipts s) then receipt_invalid
            else
              let message_id = lower field;
                  old_receipt = map_of (receipt_fields s) message_id
              in
                if old_receipt \<noteq> None \<and> old_receipt \<noteq> Some pair then aof_fail ''AOF_RECEIPT_FIELD_REWRITTEN''
                else Inr (s\<lparr>publication_ids :=
                               (if old_receipt = None then publication_ids s @ [message_id]
                                else publication_ids s),
                            receipt_fields := AList.update message_id pair (receipt_fields s),
                            transaction_has_hset := True,
                            counts := bump ''hset'' (counts s)\<rparr>))))))"

definition do_xgroup :: "aof_state \<Rightarrow> bytes list \<Rightarrow> aof_state py" where
  "do_xgroup s args =
     py_bind (valid_group_args args) (\<lambda>sub. Inr (s\<lparr>counts := bump (''xgroup|'' @ sub) (counts s)\<rparr>))"

definition do_xclaim :: "aof_state \<Rightarrow> bytes list \<Rightarrow> aof_state py" where
  "do_xclaim s args = py_bind (valid_claim args) (\<lambda>_. Inr (s\<lparr>counts := bump ''xclaim'' (counts s)\<rparr>))"

definition do_xack :: "aof_state \<Rightarrow> bytes list \<Rightarrow> aof_state py" where
  "do_xack s args =
     (if length args < 3 \<or> args ! 0 \<noteq> TOPIC \<or> args ! 1 \<noteq> GROUP then unknown
      else py_bind (py_map (\<lambda>sid. stream_id sid False) (drop 2 args)) (\<lambda>_.
             Inr (s\<lparr>counts := bump ''xack'' (counts s)\<rparr>)))"

definition aof_step ::
  "(bytes \<Rightarrow> string) \<Rightarrow> (string \<Rightarrow> pyval py) \<Rightarrow> bytes \<Rightarrow> aof_state \<Rightarrow> bytes list \<Rightarrow> aof_state py" where
  "aof_step sha json exact_key s command =
     (case command of
        [] \<Rightarrow> Inl malformed
      | c # args \<Rightarrow>
          (let name = upper c in
           if name = ''MULTI'' then do_multi s args
           else if name = ''EXEC'' then do_exec s args
           else if name = ''SELECT'' then do_select s args
           else if name = ''XADD'' then do_xadd sha s args
           else if name = ''HSET'' then do_hset json exact_key s args
           else if name = ''XGROUP'' then do_xgroup s args
           else if name = ''XCLAIM'' then do_xclaim s args
           else if name = ''XACK'' then do_xack s args
           else unknown))"

function aof_loop ::
  "(bytes \<Rightarrow> string) \<Rightarrow> (string \<Rightarrow> pyval py) \<Rightarrow> bytes \<Rightarrow> resp_reader \<Rightarrow> aof_state
     \<Rightarrow> (resp_reader \<times> aof_state) py" where
  "aof_loop sha json exact_key r s =
     (case next_command r of
        Inl e \<Rightarrow> Inl e
      | Inr None \<Rightarrow> Inr (r, s)
      | Inr (Some (command, r')) \<Rightarrow>
          (case aof_step sha json exact_key s command of
             Inl e \<Rightarrow> Inl e
           | Inr s' \<Rightarrow> aof_loop sha json exact_key r' s'))"
  by pat_completeness auto

termination
  by (relation "measure (\<lambda>(_, _, _, r, _). length (rd_data r) - rd_offset r)")
    (auto dest: next_command_progress)

declare aof_loop.simps [simp del]

section \<open>The report\<close>

record aof_report =
  rep_bytes :: nat
  rep_parsed_source_sha256 :: string
  rep_command_count :: nat
  rep_dbs :: "int list"
  rep_subcommand_counts :: counter
  rep_xadd_count :: nat
  rep_ledger_fields :: nat
  rep_receipt_count :: nat
  rep_publication_message_ids_sha256 :: string
  rep_first_publication_message_id :: "string option"
  rep_last_publication_message_id :: "string option"
  rep_matched_receipt_count :: nat
  rep_actor_format_valid :: bool
  rep_transactions_balanced :: bool

definition profile_limits :: "string \<Rightarrow> (nat \<times> nat) py" where
  "profile_limits profile =
     (if profile = ''standard'' then Inr (MAX_AOF_BYTES, MAX_COMMANDS)
      else if profile = ''forensic32m'' then Inr (32 * 1024 * 1024, 200000)
      else aof_fail ''AOF_PROFILE_INVALID'')"

text \<open>\<^verbatim>\<open>sorted(...)\<close> on strings, and \<^verbatim>\<open>json.dumps\<close> of a list of strings without characters to escape.\<close>

fun str_insort :: "string \<Rightarrow> string list \<Rightarrow> string list" where
  "str_insort s [] = [s]"
| "str_insort s (t # ts) = (if str_lt t s then t # str_insort s ts else s # t # ts)"

definition str_sort :: "string list \<Rightarrow> string list" where
  "str_sort xs = foldr str_insort xs []"

definition dumps_plain :: "string list \<Rightarrow> string" where
  "dumps_plain xs = ''['' @ join '','' (map (\<lambda>x. [CHR 0x22] @ x @ [CHR 0x22]) xs) @ '']''"

definition sorted_counts :: "counter \<Rightarrow> counter" where
  "sorted_counts c = map (\<lambda>k. (k, count c k)) (str_sort (map fst c))"

definition aof_summary :: "(bytes \<Rightarrow> string) \<Rightarrow> bytes \<Rightarrow> resp_reader \<Rightarrow> aof_state \<Rightarrow> aof_report" where
  "aof_summary sha data r s =
     \<lparr>rep_bytes = length data,
      rep_parsed_source_sha256 = sha data,
      rep_command_count = rd_commands r,
      rep_dbs = sort (dbs s),
      rep_subcommand_counts = sorted_counts (counts s),
      rep_xadd_count = count (counts s) ''xadd'',
      rep_ledger_fields = length (publication_ids s),
      rep_receipt_count = count (counts s) ''hset'',
      rep_publication_message_ids_sha256 = sha (dumps_plain (str_sort (publication_ids s))),
      rep_first_publication_message_id =
        (if publication_ids s = [] then None else Some (hd (publication_ids s))),
      rep_last_publication_message_id =
        (if publication_ids s = [] then None else Some (last (publication_ids s))),
      rep_matched_receipt_count = length (receipt_fields s),
      rep_actor_format_valid = (0 < count (counts s) ''xclaim''),
      rep_transactions_balanced = (count (counts s) ''multi'' = count (counts s) ''exec'')\<rparr>"

definition resp_start :: "bytes \<Rightarrow> nat \<Rightarrow> resp_reader" where
  "resp_start data max_commands =
     \<lparr>rd_data = data, rd_offset = 0, rd_commands = 0, rd_max_commands = max_commands\<rparr>"

definition inventory_bytes ::
  "(bytes \<Rightarrow> string) \<Rightarrow> (string \<Rightarrow> pyval py) \<Rightarrow> bytes \<Rightarrow> string \<Rightarrow> string \<Rightarrow> aof_report py" where
  "inventory_bytes sha json data owner profile =
     py_bind (profile_limits profile) (\<lambda>(max_aof_bytes, max_commands).
     py_bind (owner_ok owner) (\<lambda>owner.
       if length data > max_aof_bytes then Inl limit_exceeded
       else
         py_bind (aof_loop sha json (publication_key owner) (resp_start data max_commands) aof_init) (\<lambda>(r, s).
           if in_multi s then transaction_invalid
           else if data = [] then Inl malformed
           else Inr (aof_summary sha data r s))))"

text \<open>
  The file system as \<^verbatim>\<open>inventory_aof\<close> uses it on one path: each call returns or raises.
  A \<^verbatim>\<open>stat\<close> result is whether the file is regular, and its size.
\<close>

record aof_fs =
  fs_is_symlink :: "bool py"
  fs_stat :: "(bool \<times> nat) py"
  fs_open :: "unit py"
  fs_fstat :: "(bool \<times> nat) py"
  fs_read :: "nat \<Rightarrow> bytes py"

fun os_or_value_error :: "exn \<Rightarrow> bool" where
  "os_or_value_error OSError = True"
| "os_or_value_error ValueError = True"
| "os_or_value_error JSONDecodeError = True"
| "os_or_value_error UnicodeDecodeError = True"
| "os_or_value_error UnicodeEncodeError = True"
| "os_or_value_error _ = False"

definition read_aof_file :: "aof_fs \<Rightarrow> nat \<Rightarrow> bytes py" where
  "read_aof_file fs max_aof_bytes =
     py_bind (fs_is_symlink fs) (\<lambda>link.
       if link then aof_fail ''AOF_FILE_INVALID''
       else
         py_bind (fs_stat fs) (\<lambda>(regular, size).
           if \<not> regular then aof_fail ''AOF_FILE_INVALID''
           else if size > max_aof_bytes then Inl limit_exceeded
           else
             py_bind (fs_open fs) (\<lambda>_.
             py_bind (fs_fstat fs) (\<lambda>(regular, size).
               if \<not> regular \<or> size > max_aof_bytes then aof_fail ''AOF_FILE_INVALID''
               else fs_read fs (max_aof_bytes + 1)))))"

definition inventory_aof ::
  "(bytes \<Rightarrow> string) \<Rightarrow> (string \<Rightarrow> pyval py) \<Rightarrow> aof_fs \<Rightarrow> string \<Rightarrow> string \<Rightarrow> aof_report py" where
  "inventory_aof sha json fs owner profile =
     py_bind (profile_limits profile) (\<lambda>(max_aof_bytes, max_commands).
     py_bind (owner_ok owner) (\<lambda>owner.
     py_bind (case read_aof_file fs max_aof_bytes of
                Inl e \<Rightarrow> Inl (if os_or_value_error e then AofError ''AOF_FILE_INVALID'' else e)
              | Inr data \<Rightarrow> Inr data) (\<lambda>data.
       if length data > max_aof_bytes then Inl limit_exceeded
       else inventory_bytes sha json data owner profile)))"

section \<open>Access-control lines\<close>

definition replay_default_acl :: "string \<Rightarrow> string py" where
  "replay_default_acl owner =
     py_bind (owner_ok owner) (\<lambda>owner.
       Inr (''user default reset off resetpass ~'' @ TOPIC @ '' ~'' @ publication_key owner
            @ '' +select +multi +exec +xadd +hset +xgroup|create +xgroup|setid +xclaim +xack''))"

text \<open>
  \<^verbatim>\<open>re.match(r"^user ([a-zA-Z0-9_]+) (?:on|off)(?: |$)", line)\<close> and its group, on a line of
  \<^verbatim>\<open>splitlines\<close>, which has no newline for \<^verbatim>\<open>$\<close> to match before.
\<close>

definition word_char :: "char \<Rightarrow> bool" where
  "word_char c \<longleftrightarrow> is_lower c \<or> is_upper c \<or> is_digit c \<or> c = CHR ''_''"

definition acl_user :: "string \<Rightarrow> string option" where
  "acl_user line =
     (if take 5 line \<noteq> ''user '' then None
      else
        let name = takeWhile word_char (drop 5 line);
            tail = drop (length name) (drop 5 line)
        in if name = [] then None
           else if tail = '' on'' \<or> take 4 tail = '' on '' \<or> tail = '' off'' \<or> take 5 tail = '' off ''
                then Some name else None)"

definition EPOCH_USERS :: "string list" where
  "EPOCH_USERS = [''kairos_epoch_admin'', ''kairos_epoch_producer'', ''kairos_epoch_consumer'']"

abbreviation acl_invalid :: "'a py" where
  "acl_invalid \<equiv> aof_fail ''ACL_INPUT_INVALID''"

definition acl_line_user :: "string \<Rightarrow> string py" where
  "acl_line_user line =
     (case acl_user line of
        Some u \<Rightarrow> if u \<in> set EPOCH_USERS then Inr u else acl_invalid
      | None \<Rightarrow> acl_invalid)"

definition candidate_acl :: "bytes \<Rightarrow> string \<Rightarrow> bytes py" where
  "candidate_acl original owner =
     py_bind (owner_ok owner) (\<lambda>owner.
       if CHR 0x00 \<in> set original then acl_invalid
       else
         case partition_at (CHR 0x0A) original of (before, newline, remainder) \<Rightarrow>
         let cr = (before \<noteq> [] \<and> last before = CHR 0x0D);
             ending = (if cr then CRLF else [CHR 0x0A]);
             first = (if cr then butlast before else before);
             lines = filter (\<lambda>l. l \<noteq> []) (byte_lines_from [] remainder)
         in if \<not> list_all is_ascii first \<or> \<not> list_all (list_all is_ascii) lines then acl_invalid
            else if first \<noteq> ''user default off'' then acl_invalid
            else
              py_bind (py_map acl_line_user lines) (\<lambda>found.
                if set found \<noteq> set EPOCH_USERS \<or> length found \<noteq> length EPOCH_USERS then acl_invalid
                else if \<not> newline then acl_invalid
                else py_bind (replay_default_acl owner) (\<lambda>acl. Inr (acl @ ending @ remainder))))"

end
