(* ===== verification/Redis_Ledger.thy ===== *)
theory Redis_Ledger
  imports Redis_Aof
begin

text \<open>
  What an accepted append-only file means. The inventory loop is reduced to a run of its step over
  the commands the file encodes; invariants of that run, each an instance of the step machine of
  the prelude, then bind every publication receipt to the stream entry it names.
\<close>

section \<open>The loop as a run over the commands of the file\<close>

inductive reads :: "resp_reader \<Rightarrow> bytes list list \<Rightarrow> resp_reader \<Rightarrow> bool" where
  reads_end: "next_command r = Inr None \<Longrightarrow> reads r [] r"
| reads_next: "next_command r = Inr (Some (c, r1)) \<Longrightarrow> reads r1 cs r2 \<Longrightarrow> reads r (c # cs) r2"

inductive_cases reads_NilE: "reads r [] r'"
inductive_cases reads_ConsE: "reads r (c # cs) r'"

lemma aof_loop_Inr:
  "aof_loop sha json key r s = Inr (r', s') \<longleftrightarrow>
     (\<exists>cs. reads r cs r' \<and> py_run (aof_step sha json key) s cs = Inr s')"
proof
  show "\<exists>cs. reads r cs r' \<and> py_run (aof_step sha json key) s cs = Inr s'"
    if "aof_loop sha json key r s = Inr (r', s')"
    using that
  proof (induction sha json key r s rule: aof_loop.induct)
    case (1 sha json key r s)
    from 1(2) consider "next_command r = Inr None" "r' = r" "s' = s"
      | c r1 s1 where "next_command r = Inr (Some (c, r1))" "aof_step sha json key s c = Inr s1"
          "aof_loop sha json key r1 s1 = Inr (r', s')"
      by (subst (asm) aof_loop.simps) (auto split: sum.splits option.splits prod.splits)
    then show ?case
    proof cases
      case 1
      then show ?thesis by (metis py_run.simps(1) reads_end)
    next
      case 2
      with 1(1) obtain cs where "reads r1 cs r'" "py_run (aof_step sha json key) s1 cs = Inr s'"
        by (metis (no_types, lifting))
      with 2 show ?thesis by (intro exI [of _ "c # cs"]) (simp add: reads_next)
    qed
  qed
  show "aof_loop sha json key r s = Inr (r', s')"
    if "\<exists>cs. reads r cs r' \<and> py_run (aof_step sha json key) s cs = Inr s'"
  proof -
    from that obtain cs where "reads r cs r'" "py_run (aof_step sha json key) s cs = Inr s'" by blast
    then show ?thesis
    proof (induction arbitrary: s rule: reads.induct)
      case (reads_end r)
      then show ?case by (simp add: aof_loop.simps)
    next
      case (reads_next r c r1 cs r2)
      then show ?case by (subst aof_loop.simps) (auto simp: py_bind_Inr_iff)
    qed
  qed
qed

text \<open>A reader that reaches the end has read exactly an encoding of the commands it returned.\<close>

definition encodes_file :: "bytes list list \<Rightarrow> bytes \<Rightarrow> bool" where
  "encodes_file cs data \<longleftrightarrow> (\<exists>bss. list_all2 encodes_command cs bss \<and> data = concat bss)"

lemma encodes_file_Nil [simp]: "encodes_file [] data \<longleftrightarrow> data = []"
  by (auto simp: encodes_file_def)

lemma encodes_file_Cons:
  "encodes_file (c # cs) data \<longleftrightarrow> (\<exists>bs ds. encodes_command c bs \<and> encodes_file cs ds \<and> data = bs @ ds)"
  by (force simp: encodes_file_def list_all2_Cons1)

lemma reads_sound:
  assumes "reads r cs r'" "rd_offset r \<le> length (rd_data r)"
  shows "encodes_file cs (rest r) \<and> list_all command_in_limits cs
    \<and> rd_commands r' = rd_commands r + length cs
    \<and> (rd_commands r \<le> rd_max_commands r \<longrightarrow> rd_commands r' \<le> rd_max_commands r)"
  using assms
proof (induction rule: reads.induct)
  case (reads_end r)
  then show ?case by (simp add: next_command_None rest_def)
next
  case (reads_next r c r1 cs r2)
  from reads_next(1) obtain bs s where c: "command_in_limits c" "rd_commands r < rd_max_commands r"
    "encodes_command c bs" "consumes r bs s" "r1 = s\<lparr>rd_commands := rd_commands r + 1\<rparr>"
    unfolding next_command_Some by blast
  have "rest r = bs @ rest r1" using consumes_rest [OF c(4)] by (simp add: c(5))
  moreover have "rd_max_commands r1 = rd_max_commands r" using c(4,5) by (simp add: consumes_def)
  moreover have "rd_offset r1 \<le> length (rd_data r1)" using next_command_progress [OF reads_next(1)] by simp
  ultimately show ?case using reads_next c by (auto simp: encodes_file_Cons)
qed

lemma reads_complete:
  assumes "encodes_file cs (rest r)" "list_all command_in_limits cs"
    "rd_commands r + length cs \<le> rd_max_commands r" "rd_offset r \<le> length (rd_data r)"
  shows "\<exists>r'. reads r cs r'"
  using assms
proof (induction cs arbitrary: r)
  case Nil
  then have "next_command r = Inr None" by (simp add: next_command_None rest_def)
  then show ?case by (auto intro: reads_end)
next
  case (Cons c cs)
  from Cons.prems(1) obtain bs ds where b: "encodes_command c bs" "encodes_file cs ds" "rest r = bs @ ds"
    by (auto simp: encodes_file_Cons)
  define r1 where "r1 = (advance r (length bs))\<lparr>rd_commands := rd_commands r + 1\<rparr>"
  have n: "next_command r = Inr (Some (c, r1))"
    unfolding next_command_Some r1_def using Cons.prems b consumesI by fastforce
  have "rest r1 = ds" using b(3) by (simp add: r1_def)
  moreover have "rd_offset r1 \<le> length (rd_data r1)" using next_command_progress [OF n] by simp
  ultimately have "\<exists>r'. reads r1 cs r'"
    using Cons.prems b(2) by (intro Cons.IH) (simp_all add: r1_def)
  with n show ?case by (auto intro: reads_next)
qed

section \<open>Steps by kind of command\<close>

definition named :: "string \<Rightarrow> bytes list \<Rightarrow> bool" where
  "named n c \<longleftrightarrow> c \<noteq> [] \<and> upper (hd c) = n"

text \<open>The identity and content of the stream entry an \<^verbatim>\<open>XADD\<close> command adds.\<close>

definition entry :: "(bytes \<Rightarrow> string) \<Rightarrow> bytes list \<Rightarrow> string \<times> string" where
  "entry sha c = (sha (c ! 4), c ! 2)"

definition entries :: "(bytes \<Rightarrow> string) \<Rightarrow> bytes list list \<Rightarrow> (string \<times> string) set" where
  "entries sha cs = {entry sha c |c. c \<in> set cs \<and> named ''XADD'' c}"

text \<open>The message id and the digest and stream id an \<^verbatim>\<open>HSET\<close> command records.\<close>

definition hset_records :: "(string \<Rightarrow> pyval py) \<Rightarrow> bytes list \<Rightarrow> string \<Rightarrow> string \<times> string \<Rightarrow> bool" where
  "hset_records json c m p \<longleftrightarrow>
     m = lower (c ! 2) \<and> hex_n 64 (c ! 2)
     \<and> (\<exists>d. json (c ! 3) = Inr (PList [PStr d, PStr (snd p)]) \<and> hex_n 64 d \<and> fst p = lower d)"

lemma stream_id_Inr: "stream_id v z = Inr t \<Longrightarrow> t = v"
  by (auto simp: stream_id_def split: if_splits prod.splits)

lemma receipt_of_Inr: "receipt_of v = Inr (d, i) \<longleftrightarrow> v = PList [PStr d, PStr i] \<and> hex_n 64 d"
  by (cases v rule: receipt_of.cases) auto

lemma do_hset_Inr:
  assumes "do_hset json key s args = Inr s'"
  obtains m p where "in_multi s" "hset_records json (a # args) m p"
      "p \<in> set (transaction_streams s)" "p \<in> set (xadd_receipts s)"
      "map_of (receipt_fields s) m = None \<or> map_of (receipt_fields s) m = Some p"
      "s' = s\<lparr>publication_ids := (if map_of (receipt_fields s) m = None then publication_ids s @ [m]
                                  else publication_ids s),
              receipt_fields := AList.update m p (receipt_fields s),
              transaction_has_hset := True, counts := bump ''hset'' (counts s)\<rparr>"
proof -
  from assms obtain v d i where g: "in_multi s" "hex_n 64 (args ! 1)" "load_receipt json (args ! 2) = Inr v"
      "receipt_of v = Inr (d, i)"
    and p: "(lower d, i) \<in> set (transaction_streams s)" "(lower d, i) \<in> set (xadd_receipts s)"
    and old: "map_of (receipt_fields s) (lower (args ! 1)) = None
        \<or> map_of (receipt_fields s) (lower (args ! 1)) = Some (lower d, i)"
    and s': "s' = s\<lparr>publication_ids := (if map_of (receipt_fields s) (lower (args ! 1)) = None
                        then publication_ids s @ [lower (args ! 1)] else publication_ids s),
              receipt_fields := AList.update (lower (args ! 1)) (lower d, i) (receipt_fields s),
              transaction_has_hset := True, counts := bump ''hset'' (counts s)\<rparr>"
    by (auto simp: do_hset_def py_bind_Inr_iff ascii_def Let_def split: if_splits dest!: stream_id_Inr)
  have "json (args ! 2) = Inr v" using g(3) by (auto simp: load_receipt_def split: if_splits sum.splits)
  then have "hset_records json (a # args) (lower (args ! 1)) (lower d, i)"
    using g(2,4) by (simp add: hset_records_def receipt_of_Inr)
  with that g(1) p old s' show thesis by blast
qed

lemma valid_group_args_Inr: "valid_group_args args = Inr k \<Longrightarrow> k = lower (args ! 0)"
  by (auto simp: valid_group_args_def py_bind_Inr_iff split: if_splits)

lemma neutral_step:
  assumes "aof_step sha json key s (a # args) = Inr s'" "upper a \<notin> {''MULTI'', ''EXEC'', ''XADD'', ''HSET''}"
  obtains k ds where "k \<notin> {''multi'', ''exec'', ''xadd'', ''hset''}" "s' = s\<lparr>dbs := ds, counts := bump k (counts s)\<rparr>"
proof -
  consider "do_select s args = Inr s'" | "do_xgroup s args = Inr s'" | "do_xclaim s args = Inr s'"
    | "do_xack s args = Inr s'"
    using assms by (auto simp: aof_step_def Let_def split: if_splits)
  then show thesis
  proof cases
    case 1
    then show thesis using that [of "''select''"] by (auto simp: do_select_def split: if_splits)
  next
    case 2
    then show thesis using that [of "''xgroup|'' @ lower (args ! 0)" "dbs s"]
      by (auto simp: do_xgroup_def py_bind_Inr_iff dest!: valid_group_args_Inr)
  next
    case 3
    then show thesis using that [of "''xclaim''" "dbs s"] by (auto simp: do_xclaim_def py_bind_Inr_iff)
  next
    case 4
    then show thesis using that [of "''xack''" "dbs s"]
      by (auto simp: do_xack_def py_bind_Inr_iff split: if_splits)
  qed
qed

lemma aof_step_cases:
  assumes "aof_step sha json key s c = Inr s'"
  obtains
    (multi) "named ''MULTI'' c" "\<not> in_multi s"
      "s' = s\<lparr>in_multi := True, transaction_streams := [], transaction_has_hset := False,
              transaction_has_xadd := False, counts := bump ''multi'' (counts s)\<rparr>"
  | (exec) "named ''EXEC'' c" "in_multi s" "transaction_has_hset s = transaction_has_xadd s"
      "s' = s\<lparr>in_multi := False, counts := bump ''exec'' (counts s)\<rparr>"
  | (xadd) "named ''XADD'' c" "map_of (stream_receipts s) (snd (entry sha c)) = None"
      "s' = s\<lparr>stream_receipts := AList.update (snd (entry sha c)) (fst (entry sha c)) (stream_receipts s),
              xadd_receipts := List.insert (entry sha c) (xadd_receipts s),
              transaction_streams := (if in_multi s then List.insert (entry sha c) (transaction_streams s)
                                      else transaction_streams s),
              transaction_has_xadd := (in_multi s \<or> transaction_has_xadd s),
              counts := bump ''xadd'' (counts s)\<rparr>"
  | (hset) m p where "named ''HSET'' c" "in_multi s" "hset_records json c m p"
      "p \<in> set (transaction_streams s)" "p \<in> set (xadd_receipts s)"
      "map_of (receipt_fields s) m = None \<or> map_of (receipt_fields s) m = Some p"
      "s' = s\<lparr>publication_ids := (if map_of (receipt_fields s) m = None then publication_ids s @ [m]
                                  else publication_ids s),
              receipt_fields := AList.update m p (receipt_fields s),
              transaction_has_hset := True, counts := bump ''hset'' (counts s)\<rparr>"
  | (neutral) k ds where "\<not> named ''MULTI'' c" "\<not> named ''EXEC'' c" "\<not> named ''XADD'' c" "\<not> named ''HSET'' c"
      "k \<notin> {''multi'', ''exec'', ''xadd'', ''hset''}" "s' = s\<lparr>dbs := ds, counts := bump k (counts s)\<rparr>"
proof -
  from assms obtain a args where c: "c = a # args" by (auto simp: aof_step_def split: list.splits)
  consider "upper a = ''MULTI''" | "upper a = ''EXEC''" | "upper a = ''XADD''" | "upper a = ''HSET''"
    | "upper a \<notin> {''MULTI'', ''EXEC'', ''XADD'', ''HSET''}" by blast
  then show thesis
  proof cases
    case 1
    then show thesis using assms multi c by (auto simp: aof_step_def do_multi_def named_def split: if_splits)
  next
    case 2
    then show thesis using assms exec c by (auto simp: aof_step_def do_exec_def named_def split: if_splits)
  next
    case 3
    then show thesis using assms xadd c
      by (auto simp: aof_step_def do_xadd_def named_def py_bind_Inr_iff entry_def Let_def
          split: if_splits dest!: stream_id_Inr)
  next
    case 4
    then have "do_hset json key s args = Inr s'" using assms c by (simp add: aof_step_def)
    then show thesis by (rule do_hset_Inr [of _ _ _ _ _ a]) (use 4 c hset in \<open>auto simp: named_def\<close>)
  next
    case 5
    with assms obtain k ds where "k \<notin> {''multi'', ''exec'', ''xadd'', ''hset''}"
      "s' = s\<lparr>dbs := ds, counts := bump k (counts s)\<rparr>" unfolding c by (rule neutral_step)
    with 5 c show thesis by (intro neutral) (auto simp: named_def)
  qed
qed

section \<open>Transactions and counters\<close>

text \<open>After the commands \<open>cs\<close> a transaction is open and \<open>mid\<close> are the commands queued in it.\<close>

definition tx_open :: "bytes list list \<Rightarrow> bytes list list \<Rightarrow> bool" where
  "tx_open cs mid \<longleftrightarrow>
     (\<exists>pre m. cs = pre @ m # mid \<and> named ''MULTI'' m
        \<and> (\<forall>c \<in> set mid. \<not> named ''MULTI'' c \<and> \<not> named ''EXEC'' c))"

lemma tx_open_Nil [simp]: "\<not> tx_open [] mid"
  by (simp add: tx_open_def)

lemma tx_open_snoc:
  "tx_open (cs @ [c]) mid \<longleftrightarrow>
     (named ''MULTI'' c \<and> mid = [])
     \<or> (\<not> named ''MULTI'' c \<and> \<not> named ''EXEC'' c \<and> (\<exists>mid'. mid = mid' @ [c] \<and> tx_open cs mid'))"
  by (cases mid rule: rev_cases) (auto simp: tx_open_def)

lemma named_distinct: "named m c \<Longrightarrow> named n c \<longleftrightarrow> m = n"
  by (auto simp: named_def)

lemma entries_snoc:
  "entries sha (cs @ [c]) = (if named ''XADD'' c then insert (entry sha c) (entries sha cs) else entries sha cs)"
  by (auto simp: entries_def)

lemma entries_Nil [simp]: "entries sha [] = {}"
  by (simp add: entries_def)

definition has_command :: "string \<Rightarrow> bytes list list \<Rightarrow> bool" where
  "has_command n cs \<longleftrightarrow> list_ex (named n) cs"

lemma has_command_snoc [simp]:
  "has_command n (cs @ [c]) \<longleftrightarrow> has_command n cs \<or> named n c"  "\<not> has_command n []"
  by (auto simp: has_command_def)

lemma count_bump [simp]: "count (bump k c) j = (if j = k then count c k + 1 else count c j)"
  by (simp add: count_def bump_def update_conv')

definition tx_inv :: "(bytes \<Rightarrow> string) \<Rightarrow> bytes list list \<Rightarrow> aof_state \<Rightarrow> bool" where
  "tx_inv sha cs s \<longleftrightarrow>
     (in_multi s \<longleftrightarrow> (\<exists>mid. tx_open cs mid))
     \<and> (\<forall>mid. tx_open cs mid \<longrightarrow> set (transaction_streams s) = entries sha mid
          \<and> (transaction_has_hset s \<longleftrightarrow> has_command ''HSET'' mid)
          \<and> (transaction_has_xadd s \<longleftrightarrow> has_command ''XADD'' mid))"

definition count_inv :: "bytes list list \<Rightarrow> aof_state \<Rightarrow> bool" where
  "count_inv cs s \<longleftrightarrow>
     count (counts s) ''multi'' = count (counts s) ''exec'' + of_bool (in_multi s)
     \<and> count (counts s) ''xadd'' = length (filter (named ''XADD'') cs)
     \<and> count (counts s) ''hset'' = length (filter (named ''HSET'') cs)"

lemma tx_inv_step:
  assumes "tx_inv sha cs s" "aof_step sha json key s c = Inr s'"
  shows "tx_inv sha (cs @ [c]) s'"
  using assms(2)
proof (cases rule: aof_step_cases)
  case multi
  then show ?thesis by (auto simp: tx_inv_def tx_open_snoc)
next
  case exec
  then show ?thesis by (auto simp: tx_inv_def tx_open_snoc named_distinct)
next
  case xadd
  then show ?thesis using assms(1)
    by (auto simp: tx_inv_def tx_open_snoc named_distinct entries_snoc)
next
  case (hset m p)
  then show ?thesis using assms(1)
    by (auto simp: tx_inv_def tx_open_snoc named_distinct entries_snoc)
next
  case (neutral k ds)
  then show ?thesis using assms(1)
    by (auto simp: tx_inv_def tx_open_snoc entries_snoc)
qed

lemma count_inv_step:
  assumes "count_inv cs s" "aof_step sha json key s c = Inr s'"
  shows "count_inv (cs @ [c]) s'"
  using assms(2)
  by (cases rule: aof_step_cases) (use assms(1) in \<open>auto simp: count_inv_def named_distinct\<close>)

lemma tx_inv_start: "tx_inv sha [] aof_init"
  by (simp add: tx_inv_def aof_init_def)

lemma count_inv_start: "count_inv [] aof_init"
  by (simp add: count_inv_def aof_init_def count_def)

interpretation aof_tx: step_machine "aof_step sha json key" aof_init "tx_inv sha" for sha json key
  by unfold_locales (rule tx_inv_start, rule tx_inv_step)

interpretation aof_count: step_machine "aof_step sha json key" aof_init count_inv for sha json key
  by unfold_locales (rule count_inv_start, rule count_inv_step)

section \<open>The ledger\<close>

text \<open>
  The identities the inventory has seen: no stream id is added twice, the receipts kept are
  exactly those the \<^verbatim>\<open>HSET\<close> commands record, and each message id is listed once.
\<close>

definition ledger_inv ::
  "(bytes \<Rightarrow> string) \<Rightarrow> (string \<Rightarrow> pyval py) \<Rightarrow> bytes list list \<Rightarrow> aof_state \<Rightarrow> bool" where
  "ledger_inv sha json cs s \<longleftrightarrow>
     set (xadd_receipts s) = entries sha cs
     \<and> (\<forall>i d. map_of (stream_receipts s) i = Some d \<longleftrightarrow> (d, i) \<in> entries sha cs)
     \<and> distinct (map (snd \<circ> entry sha) (filter (named ''XADD'') cs))
     \<and> (\<forall>m p. map_of (receipt_fields s) m = Some p \<longleftrightarrow>
              (\<exists>c \<in> set cs. named ''HSET'' c \<and> hset_records json c m p))
     \<and> distinct (publication_ids s) \<and> distinct (map fst (receipt_fields s))
     \<and> set (publication_ids s) = set (map fst (receipt_fields s))"

lemma hset_records_unique: "hset_records json c m p \<Longrightarrow> hset_records json c n q \<Longrightarrow> m = n \<and> p = q"
  by (auto simp: hset_records_def prod_eq_iff)

lemma ledger_inv_start: "ledger_inv sha json [] aof_init"
  by (simp add: ledger_inv_def aof_init_def)

lemma ledger_inv_step:
  assumes "ledger_inv sha json cs s" "aof_step sha json key s c = Inr s'"
  shows "ledger_inv sha json (cs @ [c]) s'"
  using assms(2)
proof (cases rule: aof_step_cases)
  case xadd
  have sr: "map_of (stream_receipts s) i = Some d \<longleftrightarrow> (d, i) \<in> entries sha cs" for i d
    using assms(1) unfolding ledger_inv_def by blast
  have new: "snd (entry sha c) \<notin> snd ` entries sha cs"
  proof
    assume "snd (entry sha c) \<in> snd ` entries sha cs"
    then obtain d where "(d, snd (entry sha c)) \<in> entries sha cs" by auto
    then have "map_of (stream_receipts s) (snd (entry sha c)) = Some d" by (simp add: sr)
    then show False using xadd(2) by simp
  qed
  have seen: "(snd \<circ> entry sha) ` set (filter (named ''XADD'') cs) = snd ` entries sha cs"
    by (auto simp: entries_def)
  have e: "entries sha (cs @ [c]) = insert (entry sha c) (entries sha cs)"
    using xadd(1) by (simp add: entries_snoc)
  have streams: "map_of (AList.update (snd (entry sha c)) (fst (entry sha c)) (stream_receipts s)) i = Some d
      \<longleftrightarrow> (d, i) \<in> entries sha (cs @ [c])" for i d
  proof (cases "i = snd (entry sha c)")
    case True
    then have "(d, i) \<notin> entries sha cs" using new by (metis image_eqI snd_conv)
    then show ?thesis unfolding e using True by (auto simp: update_conv' prod_eq_iff)
  next
    case False
    then have "(d, i) \<noteq> entry sha c" by (metis snd_conv)
    then show ?thesis unfolding e using False by (simp add: update_conv' sr)
  qed
  have ids: "distinct (map (snd \<circ> entry sha) (filter (named ''XADD'') (cs @ [c])))"
    using assms(1) new seen xadd(1) by (simp add: ledger_inv_def image_comp)
  have recs: "(\<exists>c' \<in> set (cs @ [c]). named ''HSET'' c' \<and> hset_records json c' m p) \<longleftrightarrow>
      (\<exists>c' \<in> set cs. named ''HSET'' c' \<and> hset_records json c' m p)" for m p
    using xadd(1) by (auto simp: named_distinct)
  show ?thesis using assms(1) streams ids unfolding ledger_inv_def recs
    by (simp add: xadd(3) e xadd(1) del: map_of_eq_Some_iff)
next
  case (hset m p)
  then have old: "map_of (receipt_fields s) m = Some q \<Longrightarrow> q = p" for q by auto
  have none: "map_of (receipt_fields s) m = None \<longleftrightarrow> m \<notin> set (map fst (receipt_fields s))"
    by (auto simp: map_of_eq_None_iff)
  have rf: "(\<exists>c' \<in> set cs. named ''HSET'' c' \<and> hset_records json c' n q) \<longleftrightarrow>
      map_of (receipt_fields s) n = Some q" for n q
    using assms(1) unfolding ledger_inv_def by blast
  have "hset_records json c n q \<longleftrightarrow> n = m \<and> q = p" for n q
    using hset(3) hset_records_unique by blast
  then have u: "(\<exists>c' \<in> set (cs @ [c]). named ''HSET'' c' \<and> hset_records json c' n q) \<longleftrightarrow>
      (n = m \<and> q = p) \<or> map_of (receipt_fields s) n = Some q" for n q
    using hset(1) by (simp add: bex_Un rf)
  have recs: "map_of (AList.update m p (receipt_fields s)) n = Some q \<longleftrightarrow>
      (\<exists>c' \<in> set (cs @ [c]). named ''HSET'' c' \<and> hset_records json c' n q)" for n q
    unfolding u using old [of q] by (cases "n = m") (auto simp: update_conv')
  have e: "entries sha (cs @ [c]) = entries sha cs" "filter (named ''XADD'') (cs @ [c]) = filter (named ''XADD'') cs"
    using hset(1) by (auto simp: entries_snoc named_distinct)
  have ids: "distinct (map fst (AList.update m p (receipt_fields s)))"
    "set (map fst (AList.update m p (receipt_fields s))) = insert m (set (map fst (receipt_fields s)))"
    using assms(1) by (auto simp: ledger_inv_def distinct_update dom_update)
  show ?thesis using assms(1) recs ids none unfolding ledger_inv_def e
    by (auto simp: hset(7) simp del: map_of_eq_Some_iff set_map)
qed (use assms(1) in \<open>auto simp: ledger_inv_def entries_snoc named_distinct\<close>)

interpretation aof_ledger: step_machine "aof_step sha json key" aof_init "ledger_inv sha json" for sha json key
  by unfold_locales (rule ledger_inv_start, rule ledger_inv_step)

section \<open>What every accepted command satisfies\<close>

text \<open>
  The commands before \<open>c\<close> justify it: a transaction is opened only when none is open and closed
  only when it holds receipts and entries together or neither; an entry has a fresh stream id; a
  receipt is recorded only inside a transaction, for an entry added earlier in that transaction
  whose payload has the recorded digest.
\<close>

definition justified ::
  "(bytes \<Rightarrow> string) \<Rightarrow> (string \<Rightarrow> pyval py) \<Rightarrow> bytes list list \<Rightarrow> bytes list \<Rightarrow> bool" where
  "justified sha json before c \<longleftrightarrow>
     (named ''MULTI'' c \<longrightarrow> (\<forall>mid. \<not> tx_open before mid))
     \<and> (named ''EXEC'' c \<longrightarrow>
          (\<exists>mid. tx_open before mid \<and> (has_command ''HSET'' mid \<longleftrightarrow> has_command ''XADD'' mid)))
     \<and> (named ''XADD'' c \<longrightarrow> (\<forall>d. (d, c ! 2) \<notin> entries sha before))
     \<and> (named ''HSET'' c \<longrightarrow>
          (\<exists>mid p. tx_open before mid \<and> hset_records json c (lower (c ! 2)) p \<and> p \<in> entries sha mid))"

lemma step_justified:
  assumes "tx_inv sha cs s" "ledger_inv sha json cs s" "aof_step sha json key s c = Inr s'"
  shows "justified sha json cs c"
  using assms(3)
proof (cases rule: aof_step_cases)
  case xadd
  have "map_of (stream_receipts s) (c ! 2) = Some d \<longleftrightarrow> (d, c ! 2) \<in> entries sha cs" for d
    using assms(2) unfolding ledger_inv_def by blast
  then show ?thesis using xadd(1,2) by (simp add: justified_def named_distinct entry_def)
next
  case (hset m p)
  obtain mid where mid: "tx_open cs mid" using assms(1) hset(2) unfolding tx_inv_def by blast
  then have "p \<in> entries sha mid" using assms(1) hset(4) unfolding tx_inv_def by blast
  moreover have "m = lower (c ! 2)" using hset(3) by (simp add: hset_records_def)
  ultimately have "\<exists>mid p. tx_open cs mid \<and> hset_records json c (lower (c ! 2)) p \<and> p \<in> entries sha mid"
    using mid hset(3) by blast
  with hset(1) show ?thesis by (simp add: justified_def named_distinct)
qed (use assms(1) in \<open>auto simp: justified_def named_distinct tx_inv_def\<close>)

lemma run_justified:
  "py_run (aof_step sha json key) aof_init cs = Inr s \<Longrightarrow> each_with_prefix (justified sha json) cs"
proof (induction cs arbitrary: s rule: rev_induct)
  case (snoc c cs)
  then obtain t where t: "py_run (aof_step sha json key) aof_init cs = Inr t" "aof_step sha json key t c = Inr s"
    by (auto simp: py_run_snoc py_bind_Inr_iff)
  have "justified sha json cs c"
    using aof_tx.run_inv [OF t(1)] aof_ledger.run_inv [OF t(1)] t(2) by (rule step_justified)
  with snoc.IH [OF t(1)] show ?case by simp
qed simp

section \<open>Accepted files\<close>

lemma reads_deterministic: "reads r cs r1 \<Longrightarrow> reads r ds r2 \<Longrightarrow> cs = ds \<and> r1 = r2"
proof (induction arbitrary: ds rule: reads.induct)
  case (reads_end r)
  from reads_end(2) show ?case by cases (use reads_end(1) in simp_all)
next
  case (reads_next r c r1 cs r2')
  from reads_next(4) show ?case by cases (use reads_next in auto)
qed

lemma inventory_bytes_Inr:
  assumes "inventory_bytes sha json data owner profile = Inr rep"
  obtains cs s r limit max_commands where
    "profile_limits profile = Inr (limit, max_commands)" "length data \<le> limit" "data \<noteq> []"
    "hex_lower_n 32 owner" "reads (resp_start data max_commands) cs r"
    "py_run (aof_step sha json (publication_key owner)) aof_init cs = Inr s"
    "\<not> in_multi s" "rep = aof_summary sha data r s"
  using assms
  by (auto simp: inventory_bytes_def owner_ok_def py_bind_Inr_iff aof_loop_Inr split: if_splits)

lemma resp_start_simps [simp]:
  "rest (resp_start data n) = data" "rd_offset (resp_start data n) = 0" "rd_data (resp_start data n) = data"
  "rd_commands (resp_start data n) = 0" "rd_max_commands (resp_start data n) = n"
  by (simp_all add: resp_start_def rest_def)

lemmas reads_start_sound = reads_sound [of "resp_start _ _", simplified]

lemma inventory_bytes_complete:
  assumes "profile_limits profile = Inr (limit, max_commands)" "hex_lower_n 32 owner" "length data \<le> limit"
    and "encodes_file cs data" "list_all command_in_limits cs" "cs \<noteq> []" "length cs \<le> max_commands"
    and "py_run (aof_step sha json (publication_key owner)) aof_init cs = Inr s" "\<not> in_multi s"
  shows "\<exists>r. reads (resp_start data max_commands) cs r
    \<and> inventory_bytes sha json data owner profile = Inr (aof_summary sha data r s)"
proof -
  obtain r where r: "reads (resp_start data max_commands) cs r"
    using reads_complete [of cs "resp_start data max_commands"] assms by auto
  then have "aof_loop sha json (publication_key owner) (resp_start data max_commands) aof_init = Inr (r, s)"
    using assms(8) aof_loop_Inr by blast
  moreover have "data \<noteq> []"
    using assms(4,6) by (cases cs) (auto simp: encodes_file_Cons dest: encodes_command_nonempty)
  ultimately have "inventory_bytes sha json data owner profile = Inr (aof_summary sha data r s)"
    using assms by (simp add: inventory_bytes_def owner_ok_def)
  with r show ?thesis by blast
qed

lemma print_encodes_file:
  "list_all command_in_limits cs \<Longrightarrow> encodes_file cs (concat (map print_command cs))"
proof (induction cs)
  case (Cons c cs)
  then have "encodes_command c (print_command c)" "encodes_file cs (concat (map print_command cs))"
    by (simp_all add: print_command_encodes)
  then show ?case by (auto simp only: encodes_file_Cons list.map concat.simps)
qed simp

lemma card_ids:
  assumes "ledger_inv sha json cs s"
  shows "length (receipt_fields s) = length (publication_ids s)"
    "length (publication_ids s) = card {m. \<exists>c \<in> set cs. \<exists>p. named ''HSET'' c \<and> hset_records json c m p}"
    "length (filter (named ''XADD'') cs) = card (snd ` entries sha cs)"
proof -
  have d: "distinct (publication_ids s)" "distinct (map fst (receipt_fields s))"
      "set (publication_ids s) = set (map fst (receipt_fields s))"
      "distinct (map (snd \<circ> entry sha) (filter (named ''XADD'') cs))"
    using assms by (simp_all add: ledger_inv_def)
  show "length (receipt_fields s) = length (publication_ids s)"
    using d by (metis distinct_card length_map)
  have "set (publication_ids s) = {m. \<exists>p. map_of (receipt_fields s) m = Some p}"
    unfolding d(3) set_map dom_map_of_conv_image_fst [symmetric] by (simp only: dom_def not_None_eq)
  also have "\<dots> = {m. \<exists>p. \<exists>c \<in> set cs. named ''HSET'' c \<and> hset_records json c m p}"
    using assms by (simp add: ledger_inv_def del: map_of_eq_Some_iff)
  also have "\<dots> = {m. \<exists>c \<in> set cs. \<exists>p. named ''HSET'' c \<and> hset_records json c m p}" by blast
  finally show "length (publication_ids s) = card {m. \<exists>c \<in> set cs. \<exists>p. named ''HSET'' c \<and> hset_records json c m p}"
    using d(1) by (metis distinct_card)
  have "snd ` entries sha cs = set (map (snd \<circ> entry sha) (filter (named ''XADD'') cs))"
    by (auto simp: entries_def)
  then show "length (filter (named ''XADD'') cs) = card (snd ` entries sha cs)"
    using distinct_card [OF d(4)] by simp
qed

text \<open>
  C7: an accepted file is an encoding of a sequence of commands within the limits of the profile,
  in which every command is justified by those before it and no transaction is left open: in
  particular every publication receipt names an entry added in the same transaction with the
  digest of its payload, no stream id is used twice, and a transaction with receipts has entries
  and conversely.
\<close>

theorem aof_accepted_sound:
  assumes "inventory_bytes sha json data owner profile = Inr rep"
  shows "\<exists>cs limit max_commands. profile_limits profile = Inr (limit, max_commands) \<and> length data \<le> limit
    \<and> encodes_file cs data \<and> list_all command_in_limits cs \<and> cs \<noteq> [] \<and> length cs \<le> max_commands
    \<and> each_with_prefix (justified sha json) cs \<and> (\<forall>mid. \<not> tx_open cs mid)"
proof -
  obtain cs s r limit max_commands where a: "profile_limits profile = Inr (limit, max_commands)"
    "length data \<le> limit" "data \<noteq> []" "reads (resp_start data max_commands) cs r"
    "py_run (aof_step sha json (publication_key owner)) aof_init cs = Inr s" "\<not> in_multi s"
    using assms by (rule inventory_bytes_Inr)
  have "encodes_file cs data" "list_all command_in_limits cs" "length cs \<le> max_commands"
    using reads_start_sound [OF a(4)] by simp_all
  moreover have "cs \<noteq> []" using \<open>encodes_file cs data\<close> a(3) by auto
  moreover have "each_with_prefix (justified sha json) cs" using a(5) by (rule run_justified)
  moreover have "\<forall>mid. \<not> tx_open cs mid" using aof_tx.run_inv [OF a(5)] a(6) by (simp add: tx_inv_def)
  ultimately show ?thesis using a(1,2) by blast
qed

text \<open>
  A small file: a transaction that publishes one entry with its receipt. The digest function and
  the decoder of the witnesses are constant functions.
\<close>

definition sample_sha :: "bytes \<Rightarrow> string" where
  "sample_sha _ = replicate 64 (CHR ''a'')"

definition sample_json :: "string \<Rightarrow> pyval py" where
  "sample_json t = (if t = ''[]'' then Inl JSONDecodeError
                    else Inr (PList [PStr (replicate 64 (CHR ''A'')), PStr ''5-0'']))"

definition sample_owner :: string where
  "sample_owner = replicate 32 (CHR ''0'')"

definition sample_commands :: "bytes list list" where
  "sample_commands =
     [[''SELECT'', ''0''], [''MULTI''], [''XADD'', TOPIC, ''5-0'', ''data'', ''x''],
      [''HSET'', publication_key sample_owner, replicate 64 (CHR ''B''), ''receipt''], [''EXEC'']]"

definition sample_aof :: bytes where
  "sample_aof = concat (map print_command sample_commands)"

lemma sample_limits: "list_all command_in_limits sample_commands" "length sample_aof \<le> MAX_AOF_BYTES"
  "length sample_commands \<le> MAX_COMMANDS" "sample_commands \<noteq> []" "encodes_file sample_commands sample_aof"
proof -
  show l: "list_all command_in_limits sample_commands"
    by (simp add: sample_commands_def command_in_limits_def MAX_ARRAY_LENGTH_def MAX_TOKEN_BYTES_def
        TOPIC_def publication_key_def sample_owner_def)
  show "encodes_file sample_commands sample_aof" using print_encodes_file [OF l] by (simp add: sample_aof_def)
  show "length sample_commands \<le> MAX_COMMANDS" "sample_commands \<noteq> []"
    by (simp_all add: sample_commands_def MAX_COMMANDS_def)
  have "length sample_aof = 290" by code_simp
  then show "length sample_aof \<le> MAX_AOF_BYTES" by (simp add: MAX_AOF_BYTES_def)
qed

lemma sample_aof_run:
  "\<exists>s. py_run (aof_step sample_sha sample_json (publication_key sample_owner)) aof_init sample_commands = Inr s
     \<and> \<not> in_multi s"
proof -
  have id: "stream_id ''5-0'' False = Inr ''5-0''"
    by (simp add: stream_id_def char_class_defs canonical_numeral_def parse_nat_def digit_value_def)
  have hex: "hex_n 64 (replicate 64 (CHR ''A''))" "hex_n 64 (replicate 64 (CHR ''B''))"
    by (simp_all add: hex_n_def list_all_iff char_class_defs)
  have low: "lower (replicate 64 (CHR ''A'')) = replicate 64 (CHR ''a'')" by code_simp
  have asc: "list_all is_ascii (replicate 64 (CHR ''B''))" "list_all is_ascii ''receipt''" "list_all is_ascii ''5-0''"
    by (simp_all add: list_all_iff char_class_defs)
  show ?thesis
    using id hex low asc
    by (simp add: sample_commands_def aof_step_def upper_def to_upper_def is_lower_def do_select_def do_multi_def
        aof_init_def do_xadd_def do_exec_def do_hset_def ascii_def load_receipt_def sample_json_def sample_sha_def Let_def)
qed

lemma sample_accepted:
  "\<exists>rep. inventory_bytes sample_sha sample_json sample_aof sample_owner ''standard'' = Inr rep"
proof -
  have "profile_limits ''standard'' = Inr (MAX_AOF_BYTES, MAX_COMMANDS)" by (simp add: profile_limits_def)
  moreover have "hex_lower_n 32 sample_owner" by (simp add: sample_owner_def hex_lower_n_def char_class_defs list_all_iff)
  ultimately show ?thesis using sample_limits sample_aof_run inventory_bytes_complete by blast
qed

theorem aof_accepted_sound_witness:
  "\<exists>cs. encodes_file cs sample_aof \<and> each_with_prefix (justified sample_sha sample_json) cs"
  using sample_accepted aof_accepted_sound by blast

text \<open>
  The numbers of the report mean what they say. For the commands the file encodes, the command
  count is their number, the entry count is the number of distinct stream ids, the receipt count is
  the number of \<^verbatim>\<open>HSET\<close> commands, the ledger and matched counts both are the number of distinct
  message ids, and the transactions are balanced.
\<close>

theorem aof_report_exact:
  assumes "inventory_bytes sha json data owner profile = Inr rep"
    and "encodes_file cs data" "list_all command_in_limits cs"
    and "profile_limits profile = Inr (limit, max_commands)" "length cs \<le> max_commands"
  shows "rep_command_count rep = length cs \<and> rep_bytes rep = length data
    \<and> rep_xadd_count rep = card (snd ` entries sha cs)
    \<and> rep_receipt_count rep = length (filter (named ''HSET'') cs)
    \<and> rep_ledger_fields rep = card {m. \<exists>c \<in> set cs. \<exists>p. named ''HSET'' c \<and> hset_records json c m p}
    \<and> rep_matched_receipt_count rep = rep_ledger_fields rep
    \<and> rep_transactions_balanced rep"
proof -
  obtain ds s r where a: "reads (resp_start data max_commands) ds r"
    "py_run (aof_step sha json (publication_key owner)) aof_init ds = Inr s" "\<not> in_multi s"
    "rep = aof_summary sha data r s"
    using assms(1,4) by (elim inventory_bytes_Inr) simp
  obtain r' where "reads (resp_start data max_commands) cs r'"
    using reads_complete [of cs "resp_start data max_commands"] assms by auto
  then have ds: "ds = cs" using reads_deterministic [OF a(1)] by blast
  have "rd_commands r = length cs" using reads_start_sound [OF a(1)] by (simp add: ds)
  moreover have "count_inv cs s" "ledger_inv sha json cs s"
    using aof_count.run_inv [OF a(2)] aof_ledger.run_inv [OF a(2)] by (simp_all add: ds)
  ultimately show ?thesis using card_ids a(3) by (simp add: a(4) aof_summary_def count_inv_def)
qed

theorem aof_report_exact_witness:
  "\<exists>rep. inventory_bytes sample_sha sample_json sample_aof sample_owner ''standard'' = Inr rep
     \<and> rep_command_count rep = length sample_commands"
proof -
  obtain rep where rep: "inventory_bytes sample_sha sample_json sample_aof sample_owner ''standard'' = Inr rep"
    using sample_accepted by blast
  have "profile_limits ''standard'' = Inr (MAX_AOF_BYTES, MAX_COMMANDS)" by (simp add: profile_limits_def)
  from aof_report_exact [OF rep sample_limits(5,1) this sample_limits(3)] rep show ?thesis by blast
qed

text \<open>
  C24: nothing the commands justify is refused. Whatever encoding of commands within the limits is
  captured, the inventory returns the summary of the run over those commands as soon as the run
  itself accepts them and leaves no transaction open; the printed form of the commands, which is
  what Redis writes, is such an encoding.
\<close>

theorem aof_accepts:
  assumes "profile_limits profile = Inr (limit, max_commands)" "hex_lower_n 32 owner"
    and "data = concat (map print_command cs)" "length data \<le> limit"
    and "list_all command_in_limits cs" "cs \<noteq> []" "length cs \<le> max_commands"
    and "py_run (aof_step sha json (publication_key owner)) aof_init cs = Inr s" "\<not> in_multi s"
  shows "\<exists>rep. inventory_bytes sha json data owner profile = Inr rep \<and> rep_parsed_source_sha256 rep = sha data
    \<and> rep_publication_message_ids_sha256 rep = sha (dumps_plain (str_sort (publication_ids s)))"
proof -
  have "encodes_file cs data" using assms(3,5) print_encodes_file by simp
  then obtain r where "inventory_bytes sha json data owner profile = Inr (aof_summary sha data r s)"
    using inventory_bytes_complete [OF assms(1,2,4) _ assms(5-9)] by blast
  then show ?thesis by (simp add: aof_summary_def)
qed

theorem aof_accepts_witness:
  "\<exists>rep. inventory_bytes sample_sha sample_json sample_aof sample_owner ''standard'' = Inr rep
     \<and> rep_parsed_source_sha256 rep = sample_sha sample_aof"
proof -
  obtain s where s: "py_run (aof_step sample_sha sample_json (publication_key sample_owner)) aof_init sample_commands = Inr s"
    "\<not> in_multi s" using sample_aof_run by blast
  have "profile_limits ''standard'' = Inr (MAX_AOF_BYTES, MAX_COMMANDS)" by (simp add: profile_limits_def)
  moreover have "hex_lower_n 32 sample_owner" by (simp add: sample_owner_def hex_lower_n_def char_class_defs list_all_iff)
  ultimately show ?thesis
    using aof_accepts [OF _ _ sample_aof_def sample_limits(2,1,4,3) s] by blast
qed

section \<open>Sanitised errors\<close>

fun aof_error :: "exn \<Rightarrow> bool" where
  "aof_error (AofError c) =
     (c \<in> {''OWNER_INVALID'', ''STREAM_ID_INVALID'', ''AOF_MALFORMED_OR_TRUNCATED'', ''AOF_LIMIT_EXCEEDED'',
       ''AOF_UNKNOWN_COMMAND_OR_KEY'', ''AOF_CONSUMER_IDENTITY_INVALID'', ''AOF_PROFILE_INVALID'',
       ''AOF_TRANSACTION_INVALID'', ''AOF_DB_INVALID'', ''AOF_STREAM_ID_REUSED'', ''AOF_RECEIPT_INVALID'',
       ''AOF_RECEIPT_FIELD_REWRITTEN''})"
| "aof_error _ = False"

lemma stream_id_raises: "raises_only aof_error (stream_id v z)"
  by (auto simp: stream_id_def split: prod.splits)

lemma unsigned_raises: "aof_error e \<Longrightarrow> raises_only aof_error (unsigned v m e)"
  by (auto simp: unsigned_def)

lemma claim_ids_raises: "raises_only aof_error (claim_ids as)"
  by (induction as) (auto intro!: raises_only_bind stream_id_raises)

lemma claim_options_raises: "raises_only aof_error (claim_options l as)"
  by (induction l as rule: claim_options.induct)
    (auto intro!: raises_only_bind stream_id_raises unsigned_raises split: option.splits list.splits)

lemma receipt_of_raises: "raises_only aof_error (receipt_of v)"
  by (cases v rule: receipt_of.cases) auto

lemma aof_step_raises:
  assumes "\<And>t. raises_only (\<lambda>e. e = JSONDecodeError) (json t)"
  shows "raises_only aof_error (aof_step sha json key s c)"
proof -
  have load: "raises_only aof_error (load_receipt json v)" for v
    using assms [of v] by (auto simp: load_receipt_def raises_only_def split: sum.splits)
  have "raises_only aof_error (do_hset json key s args)" for args
    by (auto simp: do_hset_def ascii_def Let_def
        intro!: raises_only_bind load receipt_of_raises stream_id_raises split: prod.splits)
  moreover have "raises_only aof_error (do_xadd sha s args)" for args
    by (auto simp: do_xadd_def Let_def intro!: raises_only_bind stream_id_raises)
  moreover have "raises_only aof_error (do_xgroup s args)" for args
    by (auto simp: do_xgroup_def valid_group_args_def intro!: raises_only_bind stream_id_raises unsigned_raises)
  moreover have "raises_only aof_error (do_xclaim s args)" for args
    by (auto simp: do_xclaim_def valid_claim_def ascii_def
        intro!: raises_only_bind unsigned_raises claim_ids_raises claim_options_raises split: prod.splits)
  moreover have "raises_only aof_error (do_xack s args)" for args
    by (auto simp: do_xack_def intro!: raises_only_bind raises_only_map stream_id_raises)
  ultimately show ?thesis
    by (auto simp: aof_step_def Let_def do_multi_def do_exec_def do_select_def split: list.splits)
qed

lemma resp_raises:
  "raises_only aof_error (resp_line r)" "raises_only aof_error (resp_marker ch r)"
  "raises_only aof_error (resp_bulk r)" "raises_only aof_error (resp_bulks n r)"
  "raises_only aof_error (next_command r)"
proof -
  show line: "raises_only aof_error (resp_line r)" for r by (auto simp: resp_line_def split: option.splits)
  show marker: "raises_only aof_error (resp_marker ch r)" for ch r by (auto simp: resp_marker_def)
  show bulk: "raises_only aof_error (resp_bulk r)" for r
    by (auto simp: resp_bulk_def intro!: raises_only_bind line marker unsigned_raises split: prod.splits)
  show bulks: "raises_only aof_error (resp_bulks n r)" for n r
    by (induction n arbitrary: r) (auto intro!: raises_only_bind bulk split: prod.splits)
  show "raises_only aof_error (next_command r)"
    by (auto simp: next_command_def Let_def intro!: raises_only_bind line marker bulks unsigned_raises
        split: prod.splits)
qed

lemma aof_loop_raises:
  assumes "\<And>t. raises_only (\<lambda>e. e = JSONDecodeError) (json t)"
  shows "raises_only aof_error (aof_loop sha json key r s)"
  using assms
proof (induction sha json key r s rule: aof_loop.induct)
  case (1 sha json key r s)
  have step: "raises_only aof_error (aof_step sha json key s c)" for c
    using 1(2) by (rule aof_step_raises)
  show ?case using 1 resp_raises(5) [of r] step
    by (subst aof_loop.simps) (auto simp: raises_only_def split: sum.splits option.splits)
qed

text \<open>
  Whatever the bytes of the file, an inventory that fails raises only the module's own error,
  which carries one of its fixed codes and nothing of the file, provided the JSON decoder raises
  only its decoding error.
\<close>

theorem aof_errors_sanitised:
  assumes "\<And>t. raises_only (\<lambda>e. e = JSONDecodeError) (json t)"
  shows "raises_only aof_error (inventory_bytes sha json data owner profile)"
  unfolding inventory_bytes_def
  by (auto simp: profile_limits_def owner_ok_def intro!: raises_only_bind aof_loop_raises assms
      split: prod.splits)

theorem aof_errors_sanitised_witness:
  "raises_only aof_error (inventory_bytes sample_sha sample_json ''*1'' sample_owner ''standard'')"
  by (rule aof_errors_sanitised) (simp add: sample_json_def)

section \<open>The candidate access-control file\<close>

lemma acl_line_user_Inr: "acl_line_user l = Inr u \<Longrightarrow> acl_user l = Some u"
  by (auto simp: acl_line_user_def split: option.splits if_splits)

lemma acl_lines_users: "py_map acl_line_user ls = Inr us \<Longrightarrow> map acl_user ls = map Some us"
  by (induction ls arbitrary: us) (auto simp: py_bind_Inr_iff acl_line_user_Inr)

text \<open>
  The candidate file differs from the original in its first line only. An accepted original
  begins with \<^verbatim>\<open>user default off\<close> and a line end; the candidate is the replay line for the owner,
  the same line end and the same bytes after it, and those bytes declare the three epoch users,
  each exactly once, and no other user.
\<close>

theorem candidate_acl_first_line_only:
  assumes "candidate_acl original owner = Inr out"
  shows "\<exists>e tail acl users. e \<in> {[CHR 0x0A], CRLF} \<and> original = ''user default off'' @ e @ tail
    \<and> replay_default_acl owner = Inr acl \<and> out = acl @ e @ tail
    \<and> map acl_user (filter (\<lambda>l. l \<noteq> []) (byte_lines_from [] tail)) = map Some users
    \<and> distinct users \<and> set users = set EPOCH_USERS"
proof -
  obtain before newline tail where p: "partition_at (CHR 0x0A) original = (before, newline, tail)"
    by (rule prod_cases3)
  define cr where "cr \<longleftrightarrow> before \<noteq> [] \<and> last before = CHR 0x0D"
  define e where "e = (if cr then CRLF else [CHR 0x0A])"
  from assms obtain acl users where a: "newline" "replay_default_acl owner = Inr acl" "out = acl @ e @ tail"
      "(if cr then butlast before else before) = ''user default off''"
      "py_map acl_line_user (filter (\<lambda>l. l \<noteq> []) (byte_lines_from [] tail)) = Inr users"
      "set users = set EPOCH_USERS" "length users = length EPOCH_USERS"
    by (auto simp: candidate_acl_def p Let_def py_bind_Inr_iff owner_ok_def cr_def e_def split: if_splits)
  have before: "original = before @ CHR 0x0A # tail" using p a(1) partition_at_found by auto
  have "original = ''user default off'' @ e @ tail"
  proof (cases cr)
    case True
    then have "before = butlast before @ [CHR 0x0D]" by (metis append_butlast_last_id cr_def)
    then have "before = ''user default off'' @ [CHR 0x0D]" using a(4) True by simp
    moreover have "CRLF = [CHR 0x0D, CHR 0x0A]" by code_simp
    ultimately show ?thesis using before True by (simp add: e_def)
  next
    case False
    then show ?thesis using before a(4) by (simp add: e_def)
  qed
  moreover have "map acl_user (filter (\<lambda>l. l \<noteq> []) (byte_lines_from [] tail)) = map Some users"
    using a(5) by (rule acl_lines_users)
  moreover have "distinct users"
    using a(6,7) by (intro card_distinct) (simp add: EPOCH_USERS_def)
  moreover have "e \<in> {[CHR 0x0A], CRLF}" by (simp add: e_def)
  ultimately show ?thesis using a(2,3,6) by blast
qed

definition sample_acl :: bytes where
  "sample_acl = ''user default off'' @ [CHR 0x0A] @ ''user kairos_epoch_admin on ~*'' @ [CHR 0x0A]
     @ ''user kairos_epoch_consumer off'' @ [CHR 0x0A] @ ''user kairos_epoch_producer on '' @ [CHR 0x0A]"

theorem candidate_acl_first_line_only_witness:
  "\<exists>e tail acl. sample_acl = ''user default off'' @ e @ tail
     \<and> candidate_acl sample_acl sample_owner = Inr (acl @ e @ tail)"
proof -
  have "case candidate_acl sample_acl sample_owner of Inr _ \<Rightarrow> True | _ \<Rightarrow> False" by code_simp
  then obtain out where "candidate_acl sample_acl sample_owner = Inr out" by (auto split: sum.splits)
  with candidate_acl_first_line_only [OF this] show ?thesis by blast
qed

end
