(* ===== verification/Deployment.thy ===== *)
theory Deployment
  imports Py_Check "HOL-Library.AList"
begin

text \<open>
  \<^verbatim>\<open>src/scripts/validate_deployment.py\<close>: the validator of the source lock, of the rendered
  Compose model and of the interpolation file. Each function appends messages to a list of errors;
  here it is a list of checks in the order of the code, run by \<^const>\<open>gather\<close>. What depends on the
  host (the text of a float, the float denoted by a text, the resolution of a path) is the record
  \<open>host\<close>.
\<close>

section \<open>Host functions and constants\<close>

record host =
  float_text :: "pyfloat \<Rightarrow> string"
  text_float :: "string \<Rightarrow> pyfloat py"
  resolve_path :: "string \<Rightarrow> string py"
  repo_root :: string

definition APP_SERVICES :: "string list" where
  "APP_SERVICES = [''quant-scouts'', ''strategy-engine'', ''text-scouts'', ''router'', ''aggregator'',
     ''macro-strategist'', ''risk-manager'', ''execution-engine'']"

text \<open>In the order of \<^verbatim>\<open>sorted(SOURCE_SERVICES)\<close>.\<close>

definition SOURCE_SERVICES :: "string list" where
  "SOURCE_SERVICES = [''aggregator'', ''execution-engine'', ''macro-strategist'', ''ops-exporter'',
     ''quant-scouts'', ''risk-manager'', ''router'', ''strategy-engine'', ''text-scouts'']"

definition EXPECTED_SERVICES :: "string list" where
  "EXPECTED_SERVICES = SOURCE_SERVICES @ [''redis'', ''timescaledb'', ''prometheus'', ''grafana'']"

definition EGRESS_SERVICES :: "string list" where
  "EGRESS_SERVICES = [''quant-scouts'', ''text-scouts'', ''aggregator'', ''macro-strategist'', ''execution-engine'']"

definition X_RUNTIME_BUDGET_MICROUSD :: int where "X_RUNTIME_BUDGET_MICROUSD = 2000000"

definition EXPECTED_REPOSITORIES :: "(string \<times> string) list" where
  "EXPECTED_REPOSITORIES =
     map (\<lambda>name. (name, ''https://github.com/Kairos-cryptoAI/kairos-'' @ name)) APP_SERVICES
     @ [(''ops-exporter'', ''https://github.com/Kairos-cryptoAI/kairos-persistence'')]"

definition SYNTHETIC_PROCESSING_SCOPE_SHA256 :: string where
  "SYNTHETIC_PROCESSING_SCOPE_SHA256 = replicate 64 (CHR ''0'')"

text \<open>\<^verbatim>\<open>^[^@\s]+@sha256:[0-9a-f]{64}$\<close>\<close>

definition IMAGE_PATTERN :: "string \<Rightarrow> bool" where
  "IMAGE_PATTERN s \<longleftrightarrow>
     (case partition_at (CHR ''@'') s of (tag, found, digest) \<Rightarrow>
        found \<and> tag \<noteq> [] \<and> \<not> list_ex is_space tag
        \<and> take 7 digest = ''sha256:'' \<and> hex_lower_n 64 (drop 7 digest))"

definition EXPECTED_REDIS_IMAGE :: string where
  "EXPECTED_REDIS_IMAGE =
     ''redis:8.2.8-alpine3.22@sha256:a7859ed111db3c1f5404a973a4747505d559fb5ca32d37e447afc0ef845a2103''"

definition EXPECTED_REDIS_FEATURE :: string where
  "EXPECTED_REDIS_FEATURE = ''XACKDEL ref_policy=ACKED''"

definition FORBIDDEN_SECRET_ENV :: "string list" where
  "FORBIDDEN_SECRET_ENV =
     [''KAIROS_REDIS_PASSWORD'', ''KAIROS_PERSISTENCE_DATABASE_URL'', ''KAIROS_DEEPSEEK_API_KEY'',
      ''KAIROS_OPENAI_API_KEY'', ''KAIROS_X_BEARER_TOKEN'', ''KAIROS_BRIGHTDATA_API_TOKEN'',
      ''KAIROS_REDDIT_CLIENT_ID'', ''KAIROS_REDDIT_CLIENT_SECRET'', ''KAIROS_EVEDEX_JWT'',
      ''KAIROS_EVEDEX_PRIVATE_KEY'', ''KAIROS_CCXT_API_KEY'', ''KAIROS_CCXT_SECRET'',
      ''POSTGRES_PASSWORD'', ''GRAFANA_ADMIN_PASSWORD'', ''REDIS_PASSWORD'']"

definition COMMON_BINDINGS :: "(string \<times> string) list" where
  "COMMON_BINDINGS = [(''KAIROS_REDIS_URL'', ''/run/secrets/redis_url''),
     (''KAIROS_PERSISTENCE_DATABASE_URL'', ''/run/secrets/persistence_database_url'')]"

definition BASE_SECRET_FILES :: "(string \<times> string) list" where
  "BASE_SECRET_FILES = map (\<lambda>n. (n, n))
     [''redis_password'', ''redis_url'', ''postgres_password'', ''persistence_database_url'',
      ''grafana_admin_password'', ''openai_api_key'', ''x_bearer_token'']"

definition BASE_COMMON_ENVIRONMENT_KEYS :: "string list" where
  "BASE_COMMON_ENVIRONMENT_KEYS =
     [''KAIROS_ENVIRONMENT'', ''KAIROS_LOG_LEVEL'', ''KAIROS_LOG_JSON'', ''KAIROS_BUS_BACKEND'',
      ''KAIROS_PERSISTENCE_MIGRATION_PROFILE'', ''KAIROS_SECRET_BINDINGS'', ''KAIROS_TRADING_SYMBOLS'']"

definition BASE_SOURCE_ENVIRONMENT_KEYS :: "(string \<times> string list) list" where
  "BASE_SOURCE_ENVIRONMENT_KEYS = map (\<lambda>(n, ks). (n, BASE_COMMON_ENVIRONMENT_KEYS @ ks))
     [(''quant-scouts'', []),
      (''strategy-engine'', [''KAIROS_TRADING_MODE'', ''KAIROS_ENABLED_STRATEGY_IDS'']),
      (''text-scouts'', [''KAIROS_PROCESSING_SCOPE_SHA256'', ''KAIROS_REDDIT_USER_AGENT'',
         ''KAIROS_X_MONTHLY_BUDGET_MICROUSD'', ''KAIROS_X_POST_READ_UNIT_COST_MICROUSD'',
         ''KAIROS_X_USER_READ_UNIT_COST_MICROUSD'']),
      (''router'', []),
      (''aggregator'', [''KAIROS_CANDIDATE_REQUIRE_MACRO_CONTEXT'', ''KAIROS_CANDIDATE_REQUIRE_TEXT_CONTEXT'']),
      (''macro-strategist'', []),
      (''risk-manager'', [''KAIROS_REQUIRE_RECONCILED_ACCOUNT'', ''KAIROS_ACCOUNT_SNAPSHOT_MAX_AGE_S'',
         ''KAIROS_REQUIRE_STRATEGIC_ALLOCATION'']),
      (''execution-engine'', [''KAIROS_EXCHANGE'', ''KAIROS_TRADING_MODE'', ''KAIROS_ACCOUNT_ID'',
         ''KAIROS_ACCOUNT_SNAPSHOT_INTERVAL_S'', ''KAIROS_DRY_RUN_EQUITY_USD'',
         ''KAIROS_EVEDEX_EXCHANGE_URL'', ''KAIROS_EVEDEX_CHAIN_ID'']),
      (''ops-exporter'', [''KAIROS_METRICS_HOST'', ''KAIROS_METRICS_PORT''])]"

definition BASE_INFRASTRUCTURE_ENVIRONMENT_KEYS :: "(string \<times> string list) list" where
  "BASE_INFRASTRUCTURE_ENVIRONMENT_KEYS =
     [(''redis'', []),
      (''timescaledb'', [''POSTGRES_USER'', ''POSTGRES_PASSWORD_FILE'', ''POSTGRES_DB'']),
      (''prometheus'', []),
      (''grafana'', [''GF_SECURITY_ADMIN_USER'', ''GF_SECURITY_ADMIN_PASSWORD__FILE'', ''GF_USERS_ALLOW_SIGN_UP'',
         ''GF_ANALYTICS_REPORTING_ENABLED'', ''GF_ANALYTICS_CHECK_FOR_UPDATES''])]"

definition BASE_INFRASTRUCTURE_USERS :: "(string \<times> string) list" where
  "BASE_INFRASTRUCTURE_USERS = [(''redis'', ''redis:redis''), (''timescaledb'', ''postgres:postgres'')]"

definition BASE_SERVICE_NETWORKS :: "(string \<times> string list) list" where
  "BASE_SERVICE_NETWORKS =
     [(''redis'', [''bus'']),
      (''timescaledb'', [''data'']),
      (''quant-scouts'', [''bus'', ''data'', ''observability'', ''egress'']),
      (''strategy-engine'', [''bus'', ''data'', ''observability'']),
      (''text-scouts'', [''bus'', ''data'', ''observability'', ''egress'']),
      (''router'', [''bus'', ''data'', ''observability'']),
      (''aggregator'', [''bus'', ''data'', ''observability'', ''egress'']),
      (''macro-strategist'', [''bus'', ''data'', ''observability'', ''egress'']),
      (''risk-manager'', [''bus'', ''data'', ''observability'']),
      (''execution-engine'', [''bus'', ''data'', ''observability'', ''egress'']),
      (''ops-exporter'', [''bus'', ''data'', ''observability'', ''management'']),
      (''prometheus'', [''observability'', ''management'']),
      (''grafana'', [''observability'', ''management''])]"

definition FORBIDDEN_SERVICE_OPTIONS :: "string list" where
  "FORBIDDEN_SERVICE_OPTIONS =
     [''cap_add'', ''cgroup'', ''cgroup_parent'', ''configs'', ''credential_spec'', ''device_cgroup_rules'',
      ''devices'', ''entrypoint'', ''external_links'', ''ipc'', ''links'', ''network_mode'', ''pid'',
      ''runtime'', ''user'', ''uts'', ''volumes_from'']"

section \<open>Helpers\<close>

definition is_true :: "host \<Rightarrow> pyval \<Rightarrow> bool" where
  "is_true h v \<longleftrightarrow> str_lower (strip (py_str (float_text h) v)) \<in> {''1'', ''true'', ''yes'', ''on''}"

definition context_map :: "host \<Rightarrow> pyval \<Rightarrow> (string \<times> string) list py" where
  "context_map h build =
     py_bind (get_default build ''additional_contexts'' (PDict [])) (\<lambda>contexts.
       Inr (case contexts of
              PDict m \<Rightarrow> map (\<lambda>(k, v). (k, py_str (float_text h) v)) m
            | PList xs \<Rightarrow>
                foldl (\<lambda>result item.
                    case partition_at (CHR ''='') (py_str (float_text h) item) of (name, found, value) \<Rightarrow>
                      if found then AList.update name value result else result) [] xs
            | _ \<Rightarrow> []))"

definition secret_source :: "host \<Rightarrow> pyval \<Rightarrow> string py" where
  "secret_source h item =
     (if is_dict item then py_bind (get_default item ''source'' (PStr [])) (\<lambda>v. Inr (py_str (float_text h) v))
      else Inr (py_str (float_text h) item))"

definition secret_sources :: "host \<Rightarrow> pyval \<Rightarrow> string list py" where
  "secret_sources h service =
     py_bind (get_default service ''secrets'' (PList [])) (\<lambda>v.
     py_bind (py_iter (or_empty_list v)) (\<lambda>items.
       py_map (secret_source h) items))"

definition add_binding :: "(string \<times> string) list \<Rightarrow> string \<Rightarrow> (string \<times> string) list" where
  "add_binding result item =
     (case partition_at (CHR ''='') item of (name, found, path) \<Rightarrow>
        if found \<and> name \<noteq> [] \<and> path \<noteq> [] then AList.update name path result else result)"

definition bindings :: "host \<Rightarrow> pyval \<Rightarrow> (string \<times> string) list py" where
  "bindings h service =
     py_bind (sub service ''environment'') (\<lambda>env.
     py_bind (get_default env ''KAIROS_SECRET_BINDINGS'' (PStr [])) (\<lambda>v.
       Inr (foldl add_binding []
         (filter (\<lambda>p. p \<noteq> []) (map strip (split_at (CHR '','') (py_str (float_text h) v)))))))"

text \<open>\<^verbatim>\<open>v.get(k) != s\<close>, \<^verbatim>\<open>v.get(k) is not True\<close>, the truth of \<^verbatim>\<open>v.get(k)\<close> and \<^verbatim>\<open>str(v.get(k, ""))\<close>.\<close>

definition get_ne :: "pyval \<Rightarrow> string \<Rightarrow> string \<Rightarrow> bool py" where
  "get_ne v k s = py_bind (py_get v k) (\<lambda>x. Inr (x \<noteq> PStr s))"

definition get_not_true :: "pyval \<Rightarrow> string \<Rightarrow> bool py" where
  "get_not_true v k = py_bind (py_get v k) (\<lambda>x. Inr (x \<noteq> PBool True))"

definition get_truth :: "pyval \<Rightarrow> string \<Rightarrow> bool py" where
  "get_truth v k = py_bind (py_get v k) (\<lambda>x. Inr (py_truth x))"

definition get_text :: "host \<Rightarrow> pyval \<Rightarrow> string \<Rightarrow> string py" where
  "get_text h v k = py_bind (get_default v k (PStr [])) (\<lambda>x. Inr (py_str (float_text h) x))"

definition text_check :: "host \<Rightarrow> pyval \<Rightarrow> string \<Rightarrow> (string \<Rightarrow> bool) \<Rightarrow> bool py" where
  "text_check h v k bad = py_bind (get_text h v k) (\<lambda>s. Inr (bad s))"

text \<open>\<^verbatim>\<open>set(v) != expected\<close>\<close>

definition keys_differ :: "pyval \<Rightarrow> string list \<Rightarrow> bool py" where
  "keys_differ v expected = py_bind (py_set v) (\<lambda>ks. Inr (\<not> same_strs ks expected))"

definition same_dict :: "(string \<times> string) list \<Rightarrow> (string \<times> string) list \<Rightarrow> bool" where
  "same_dict a b \<longleftrightarrow> set (map fst a) = set (map fst b) \<and> list_all (\<lambda>(k, _). map_of a k = map_of b k) a"

lemma same_dict_iff: "same_dict a b \<longleftrightarrow> map_of a = map_of b"
proof
  assume s: "same_dict a b"
  have "map_of a k = map_of b k" for k
  proof (cases "k \<in> set (map fst a)")
    case True
    then obtain v where "(k, v) \<in> set a" by auto
    then show ?thesis using s by (auto simp: same_dict_def list_all_iff)
  next
    case False
    then have "k \<notin> set (map fst b)" using s by (simp add: same_dict_def)
    with False show ?thesis by (metis list.set_map map_of_eq_None_iff)
  qed
  then show "map_of a = map_of b" by (rule ext)
next
  assume m: "map_of a = map_of b"
  then have "fst ` set a = fst ` set b" by (metis dom_map_of_conv_image_fst)
  then show "same_dict a b" using m by (simp add: same_dict_def list_all_iff)
qed

section \<open>The source lock\<close>

definition SOURCE_LOCK_DEPENDENCIES :: "string list" where
  "SOURCE_LOCK_DEPENDENCIES = [''kairos-core'', ''kairos-llm'', ''kairos-persistence'']"

definition lock_service_checks :: "host \<Rightarrow> pyval \<Rightarrow> string \<Rightarrow> string list py" where
  "lock_service_checks h services name =
     py_bind (sub services name) (\<lambda>entry.
       gather
         [err_if (get_ne entry ''repository'' (the (map_of EXPECTED_REPOSITORIES name)))
            (name @ '': unexpected source repository''),
          err_if (text_check h entry ''revision'' (\<lambda>s. \<not> hex_lower_n 40 s))
            (name @ '': revision must be a full immutable Git SHA''),
          err_if (text_check h entry ''package_dir'' (\<lambda>s. s = [])) (name @ '': package_dir is required''),
          err_if (text_check h entry ''command'' (\<lambda>s. s = [])) (name @ '': command is required'')])"

definition extra_ne :: "pyval \<Rightarrow> string \<Rightarrow> string \<Rightarrow> bool py" where
  "extra_ne services name extra =
     py_bind (get_default services name (PDict [])) (\<lambda>entry. get_ne entry ''extra'' extra)"

definition validate_source_lock :: "host \<Rightarrow> pyval \<Rightarrow> string list py" where
  "validate_source_lock h lock =
     gather
       ([err_if (py_bind (py_get lock ''schema_version'') (\<lambda>v. Inr (\<not> py_eq v (PInt 1))))
           ''sources.lock.json schema_version must be 1'',
         err_if (py_bind (sub lock ''build'') (\<lambda>b. get_ne b ''python'' ''3.11.15''))
           ''source lock must pin Python 3.11.15'',
         err_if (py_bind (sub lock ''build'') (\<lambda>b. get_ne b ''uv'' ''0.12.3''))
           ''source lock must pin uv 0.12.3'']
        @ map (\<lambda>name. err_if (py_bind (sub lock ''dependencies'') (\<lambda>d. text_check h d name (\<lambda>s. \<not> hex_lower_n 40 s)))
             (''dependency '' @ name @ '' must have a full immutable Git SHA'')) SOURCE_LOCK_DEPENDENCIES
        @ [err_if (py_bind (sub lock ''infrastructure'') (\<lambda>i. py_bind (sub i ''redis'') (\<lambda>r.
             get_ne r ''image'' EXPECTED_REDIS_IMAGE)))
             ''source lock must pin the Redis 8.2.8 runtime required by kairos-core'',
           err_if (py_bind (sub lock ''infrastructure'') (\<lambda>i. py_bind (sub i ''redis'') (\<lambda>r.
             get_ne r ''required_feature'' EXPECTED_REDIS_FEATURE)))
             ''source lock must document the Redis XACKDEL ACKED-ref-policy requirement'',
           err_if (py_bind (sub lock ''services'') (\<lambda>s. keys_differ s SOURCE_SERVICES))
             ''source lock service set does not match Compose build sources'']
        @ map (\<lambda>name. py_bind (sub lock ''services'') (\<lambda>s. lock_service_checks h s name)) SOURCE_SERVICES
        @ [err_if (py_bind (sub lock ''services'') (\<lambda>s. extra_ne s ''execution-engine'' ''evedex''))
             ''execution-engine must install the evedex extra'',
           err_if (py_bind (sub lock ''services'') (\<lambda>s. extra_ne s ''strategy-engine'' ''runtime''))
             ''strategy-engine must install the runtime extra''])"

section \<open>One source service\<close>

text \<open>
  The build context is compared after path resolution; a failing resolution counts as the empty
  path, which is the current directory.
\<close>

definition context_differs :: "host \<Rightarrow> pyval \<Rightarrow> bool py" where
  "context_differs h build =
     py_bind (get_text h build ''context'') (\<lambda>s.
       case resolve_path h s of
         Inl e \<Rightarrow> if e = OSError then Inr (''.'' \<noteq> repo_root h) else Inl e
       | Inr p \<Rightarrow> Inr (p \<noteq> repo_root h))"

definition expected_arg_names :: "pyval \<Rightarrow> string list" where
  "expected_arg_names extra =
     [''PACKAGE_DIR'', ''SOURCE_REPOSITORY'', ''SOURCE_REVISION''] @ (if py_truth extra then [''SERVICE_EXTRA''] else [])"

definition arg_differs :: "host \<Rightarrow> pyval \<Rightarrow> string \<Rightarrow> string \<Rightarrow> bool py" where
  "arg_differs h args k expected = text_check h args k (\<lambda>s. s \<noteq> expected)"

definition validate_source_service :: "host \<Rightarrow> string \<Rightarrow> pyval \<Rightarrow> pyval \<Rightarrow> string list py" where
  "validate_source_service h name service source =
     py_bind (get_text h source ''repository'') (\<lambda>repository.
     py_bind (get_text h source ''revision'') (\<lambda>revision.
     py_bind (sub service ''build'') (\<lambda>build.
     py_bind (context_map h build) (\<lambda>contexts.
     gather
       [err_if (Inr (set (map fst contexts) \<noteq> {''service''}))
          (name @ '': named build contexts must match the exact allow-list''),
        err_if (Inr (map_of contexts ''service'' \<noteq> Some (repository @ ''.git#'' @ revision)))
          (name @ '': named build context differs from sources.lock.json''),
        err_if (context_differs h build) (name @ '': Docker build context must be this deployment repository''),
        err_if (get_ne build ''dockerfile'' ''docker/Dockerfile'')
          (name @ '': Dockerfile differs from the reviewed allow-list''),
        err_if (get_not_true build ''pull'') (name @ '': builds must refresh digest-pinned base images''),
        err_if (py_bind (sub build ''args'') (\<lambda>args. py_bind (py_get source ''extra'') (\<lambda>extra.
            keys_differ args (expected_arg_names extra))))
          (name @ '': build arguments must match the exact allow-list''),
        err_if (py_bind (sub build ''args'') (\<lambda>args. arg_differs h args ''SOURCE_REVISION'' revision))
          (name @ '': OCI source revision differs from the source lock''),
        err_if (py_bind (sub build ''args'') (\<lambda>args. arg_differs h args ''SOURCE_REPOSITORY'' repository))
          (name @ '': OCI source repository differs from the source lock''),
        err_if (py_bind (sub build ''args'') (\<lambda>args. py_bind (get_text h source ''package_dir'') (\<lambda>d.
            arg_differs h args ''PACKAGE_DIR'' d)))
          (name @ '': package directory differs from the source lock''),
        err_if (py_bind (sub build ''args'') (\<lambda>args. py_bind (get_text h source ''extra'') (\<lambda>x.
            arg_differs h args ''SERVICE_EXTRA'' x)))
          (name @ '': build extra differs from the source lock''),
        err_if (py_bind (get_default service ''command'' (PList [])) (\<lambda>c.
            py_bind (get_text h source ''command'') (\<lambda>t. Inr (\<not> py_eq c (PList [PStr t])))))
          (name @ '': command differs from the source lock'')]))))"

section \<open>Checks of every service\<close>

definition mounts_docker_socket :: "host \<Rightarrow> pyval \<Rightarrow> bool py" where
  "mounts_docker_socket h volume =
     py_bind (if is_dict volume then get_default volume ''source'' (PStr []) else Inr volume) (\<lambda>v.
       Inr (contains ''docker.sock'' (py_str (float_text h) v)))"

definition expected_environment_keys :: "string \<Rightarrow> string list option" where
  "expected_environment_keys name =
     (if name \<in> set SOURCE_SERVICES then map_of BASE_SOURCE_ENVIRONMENT_KEYS name
      else map_of BASE_INFRASTRUCTURE_ENVIRONMENT_KEYS name)"

text \<open>\<^verbatim>\<open>set(service.get("networks", {}) or [])\<close>\<close>

definition network_set :: "pyval \<Rightarrow> pyval list py" where
  "network_set service =
     py_bind (get_default service ''networks'' (PDict [])) (\<lambda>v. py_set (or_empty_list v))"

definition service_networks :: "string \<Rightarrow> string list" where
  "service_networks name = (case map_of BASE_SERVICE_NETWORKS name of None \<Rightarrow> [] | Some ns \<Rightarrow> ns)"

definition option_set :: "pyval \<Rightarrow> string \<Rightarrow> bool py" where
  "option_set service option =
     py_bind (py_get service option) (\<lambda>v. Inr (v \<notin> {PNone, PStr [], PList [], PDict []}))"

definition common_service_checks :: "host \<Rightarrow> string \<times> pyval \<Rightarrow> string list py" where
  "common_service_checks h = (\<lambda>(name, service).
     gather
       ([err_if (get_truth service ''env_file'') (name @ '': env_file is forbidden''),
         err_if (get_truth service ''privileged'') (name @ '': privileged containers are forbidden'')]
        @ map (\<lambda>option.
             if option = ''user'' \<and> name \<in> set (map fst BASE_INFRASTRUCTURE_USERS) then Inr []
             else err_if (option_set service option) (name @ '': unsafe Compose option '' @ option @ '' is forbidden''))
           FORBIDDEN_SERVICE_OPTIONS
        @ [py_bind (get_default service ''volumes'' (PList [])) (\<lambda>v.
           py_bind (py_iter (or_empty_list v)) (\<lambda>volumes.
             gather (map (\<lambda>volume. err_if (mounts_docker_socket h volume)
               (name @ '': mounting the Docker socket is forbidden'')) volumes))),
           err_if (py_bind (sub service ''environment'') (\<lambda>env.
               case expected_environment_keys name of None \<Rightarrow> Inr False | Some ks \<Rightarrow> keys_differ env ks))
             (name @ '': environment keys must match the exact allow-list''),
           err_if (py_bind (network_set service) (\<lambda>ns. Inr (\<not> same_strs ns (service_networks name))))
             (name @ '': networks must match the exact isolation map''),
           py_bind (sub service ''environment'') (\<lambda>env. py_bind (py_set env) (\<lambda>ks.
             Inr (map (\<lambda>secret. name @ '': secret '' @ secret @ '' must be file-mounted, not an environment value'')
               (sorted_set (meet_strs FORBIDDEN_SECRET_ENV ks)))))]))"

section \<open>Checks of a source service\<close>

definition not_healthy :: "pyval \<Rightarrow> string \<Rightarrow> bool py" where
  "not_healthy service dependency =
     py_bind (py_get service ''depends_on'') (\<lambda>d.
     py_bind (get_default (or_empty d) dependency (PDict [])) (\<lambda>requirement.
       if \<not> is_dict requirement then Inr True else get_ne requirement ''condition'' ''service_healthy''))"

definition source_service_checks :: "host \<Rightarrow> pyval \<Rightarrow> pyval \<Rightarrow> string \<Rightarrow> string list py" where
  "source_service_checks h services source_services name =
     py_bind (sub services name) (\<lambda>service.
     py_bind (get_default source_services name (PDict [])) (\<lambda>source.
     gather
       ([validate_source_service h name service source,
         err_if (get_not_true service ''read_only'') (name @ '': root filesystem must be read-only''),
         err_if (py_bind (py_get service ''cap_drop'') (\<lambda>v. Inr (v \<noteq> PList [PStr ''ALL''])))
           (name @ '': all Linux capabilities must be dropped''),
         err_if (py_bind (py_get service ''security_opt'') (\<lambda>v. Inr (v \<noteq> PList [PStr ''no-new-privileges:true''])))
           (name @ '': no-new-privileges must be enabled''),
         err_if (get_not_true service ''init'') (name @ '': the reviewed init wrapper must remain enabled'')]
        @ map (\<lambda>dependency. err_if (not_healthy service dependency) (name @ '': must wait for healthy '' @ dependency))
            [''redis'', ''timescaledb'']
        @ [err_if (py_bind (network_set service) (\<lambda>ns.
               Inr (name \<notin> set EGRESS_SERVICES \<and> PStr ''egress'' \<in> set ns)))
             (name @ '': egress is forbidden outside the exact allow-list''),
           err_if (py_bind (py_get service ''volumes'') (\<lambda>v. Inr (name \<in> set SOURCE_SERVICES \<and> py_truth v)))
             (name @ '': application bind/volume mounts are forbidden''),
           err_if (py_bind (network_set service) (\<lambda>ns.
               Inr (\<not> list_all (\<lambda>n. PStr n \<in> set ns) [''bus'', ''data'', ''observability''])))
             (name @ '': bus, data, and observability networks are required''),
           err_if (py_bind (network_set service) (\<lambda>ns.
               Inr (name \<in> set APP_SERVICES \<and> (name \<in> set EGRESS_SERVICES) \<noteq> (PStr ''egress'' \<in> set ns))))
             (name @ '': egress network assignment violates the allow-list''),
           err_if (py_bind (network_set service) (\<lambda>ns.
               Inr (name = ''ops-exporter'' \<and> PStr ''management'' \<notin> set ns)))
             ''ops-exporter: management network is required for loopback publishing'',
           err_if (py_bind (network_set service) (\<lambda>ns.
               Inr (name \<in> set APP_SERVICES \<and> PStr ''management'' \<in> set ns)))
             (name @ '': management network is forbidden for application services''),
           err_if (py_bind (bindings h service) (\<lambda>b.
               Inr (\<not> list_all (\<lambda>(k, v). map_of b k = Some v) COMMON_BINDINGS)))
             (name @ '': durable Redis/database secret bindings are required''),
           err_if (py_bind (secret_sources h service) (\<lambda>ss.
               Inr (\<not> list_all (\<lambda>x. x \<in> set ss) [''redis_url'', ''persistence_database_url''])))
             (name @ '': durable Redis/database secret files are required''),
           err_if (py_bind (sub service ''environment'') (\<lambda>env.
               text_check h env ''KAIROS_BUS_BACKEND'' (\<lambda>s. casefold_points s \<noteq> map of_char ''redis'')))
             (name @ '': durable runtime requires the Redis bus backend''),
           err_if (py_bind (sub service ''environment'') (\<lambda>env.
               get_ne env ''KAIROS_PERSISTENCE_MIGRATION_PROFILE'' ''controlled-runtime''))
             (name @ '': shared database requires the controlled-runtime profile''),
           err_if (py_bind (sub service ''environment'') (\<lambda>env.
               py_bind (py_get env ''KAIROS_LOG_JSON'') (\<lambda>v. Inr (\<not> is_true h v))))
             (name @ '': structured JSON logs must remain enabled'')])))"

section \<open>Mode, secrets and numbers\<close>

text \<open>\<^verbatim>\<open>services.get(name, {}).get("environment", {}) or {}\<close>\<close>

definition service_env :: "pyval \<Rightarrow> string \<Rightarrow> pyval py" where
  "service_env services name =
     py_bind (get_default services name (PDict [])) (\<lambda>service. sub service ''environment'')"

definition scope_check :: "host \<Rightarrow> bool \<Rightarrow> pyval \<Rightarrow> string list py" where
  "scope_check h allow_example_values services =
     py_bind (service_env services ''text-scouts'') (\<lambda>env.
     py_bind (get_text h env ''KAIROS_PROCESSING_SCOPE_SHA256'') (\<lambda>processing_scope.
       Inr (if \<not> hex_lower_n 64 processing_scope
            then [''text-scouts: operator-provisioned processing scope must be a lowercase SHA-256'']
            else if processing_scope = SYNTHETIC_PROCESSING_SCOPE_SHA256 \<and> \<not> allow_example_values
            then [''text-scouts: synthetic CI processing scope is not deployment authority'']
            else [])))"

definition EVEDEX_SECRETS :: "string list" where
  "EVEDEX_SECRETS = [''evedex_jwt'', ''evedex_private_key'']"

definition execution_checks :: "host \<Rightarrow> bool \<Rightarrow> pyval \<Rightarrow> string list py" where
  "execution_checks h live services =
     py_bind (sub services ''execution-engine'') (\<lambda>execution.
     py_bind (sub execution ''environment'') (\<lambda>execution_env.
     py_bind (secret_sources h execution) (\<lambda>execution_secrets.
     py_bind (bindings h execution) (\<lambda>execution_bindings.
     gather
       ([err_if (py_bind (get_default execution ''build'' (PDict [])) (\<lambda>build. py_bind (sub build ''args'') (\<lambda>args.
             get_ne args ''SERVICE_EXTRA'' ''evedex'')))
           ''execution-engine must build with SERVICE_EXTRA=evedex'',
         err_if (py_in ''KAIROS_DRY_RUN'' execution_env)
           ''execution-engine: retired KAIROS_DRY_RUN switch must be removed'']
        @ (if live then
             [err_if (get_ne execution_env ''KAIROS_TRADING_MODE'' ''LIVE'')
                ''live Compose must explicitly select TradingMode=LIVE'',
              err_if (Inr (set EVEDEX_SECRETS \<inter> set execution_secrets \<noteq> {}))
                ''live Compose must not mount retired static EVEDEX credentials'',
              err_if (Inr ({''KAIROS_EVEDEX_JWT'', ''KAIROS_EVEDEX_PRIVATE_KEY''} \<inter> set (map fst execution_bindings) \<noteq> {}))
                ''live Compose must not bind retired static EVEDEX credentials'']
           else
             [err_if (get_ne execution_env ''KAIROS_TRADING_MODE'' ''DRY_RUN'')
                ''base Compose must explicitly select TradingMode=DRY_RUN'',
              err_if (Inr (set EVEDEX_SECRETS \<inter> set execution_secrets \<noteq> {}))
                ''base Compose must not mount EVEDEX live credentials'']))))))"

definition expected_provider_secrets :: "(string \<times> (string \<times> string \<times> string) list) list" where
  "expected_provider_secrets =
     [(''text-scouts'', [(''KAIROS_OPENAI_API_KEY'', ''openai_api_key'', ''/run/secrets/openai_api_key''),
                         (''KAIROS_X_BEARER_TOKEN'', ''x_bearer_token'', ''/run/secrets/x_bearer_token'')]),
      (''aggregator'', [(''KAIROS_OPENAI_API_KEY'', ''openai_api_key'', ''/run/secrets/openai_api_key'')]),
      (''macro-strategist'', [(''KAIROS_OPENAI_API_KEY'', ''openai_api_key'', ''/run/secrets/openai_api_key'')])]"

definition provider_secret_checks ::
  "host \<Rightarrow> pyval \<Rightarrow> string \<times> (string \<times> string \<times> string) list \<Rightarrow> string list py" where
  "provider_secret_checks h services = (\<lambda>(name, expected).
     py_bind (sub services name) (\<lambda>service.
     py_bind (bindings h service) (\<lambda>b.
     py_bind (secret_sources h service) (\<lambda>sources.
       Inr (concat (map (\<lambda>(environment_name, source, path).
         (if source \<notin> set sources then [name @ '': expected provider secret file '' @ source @ '' is missing''] else [])
         @ (if map_of b environment_name \<noteq> Some path
            then [name @ '': expected provider binding '' @ environment_name @ '' is missing''] else [])) expected))))))"

definition providers_of :: "string \<Rightarrow> (string \<times> string \<times> string) list" where
  "providers_of name = (case map_of expected_provider_secrets name of None \<Rightarrow> [] | Some ps \<Rightarrow> ps)"

definition expected_sources :: "string \<Rightarrow> string list" where
  "expected_sources name =
     [''redis_url'', ''persistence_database_url''] @ map (\<lambda>(_, source, _). source) (providers_of name)"

definition expected_bindings :: "string \<Rightarrow> (string \<times> string) list" where
  "expected_bindings name =
     COMMON_BINDINGS @ map (\<lambda>(environment_name, _, path). (environment_name, path)) (providers_of name)"

definition exact_secret_checks :: "host \<Rightarrow> pyval \<Rightarrow> string \<Rightarrow> string list py" where
  "exact_secret_checks h services name =
     py_bind (sub services name) (\<lambda>service.
     gather
       [err_if (py_bind (secret_sources h service) (\<lambda>ss. Inr (set ss \<noteq> set (expected_sources name))))
          (name @ '': secret source set must match the exact allow-list''),
        err_if (py_bind (bindings h service) (\<lambda>b. Inr (\<not> same_dict b (expected_bindings name))))
          (name @ '': secret bindings must match the exact allow-list'')])"

text \<open>\<^verbatim>\<open>definition.get("name") not in (None, f"kairos_{name}")\<close>\<close>

definition aliased :: "pyval \<Rightarrow> string \<Rightarrow> bool py" where
  "aliased definition name =
     py_bind (py_get definition ''name'') (\<lambda>v. Inr (v \<notin> {PNone, PStr (''kairos_'' @ name)}))"

definition secret_path :: "host \<Rightarrow> pyval \<Rightarrow> string \<Rightarrow> string py" where
  "secret_path h secret_definitions name =
     py_bind (sub secret_definitions name) (\<lambda>definition.
     py_bind (get_text h definition ''file'') (\<lambda>s. Inr (replace_char (CHR 0x5C) (CHR ''/'') s)))"

definition secret_definition_checks :: "host \<Rightarrow> pyval \<Rightarrow> string list py" where
  "secret_definition_checks h config =
     py_bind (sub config ''secrets'') (\<lambda>secret_definitions.
     gather
       ([err_if (keys_differ secret_definitions (map fst BASE_SECRET_FILES))
           ''top-level secret definitions must match the exact active base allow-list'']
        @ map (\<lambda>(name, basename).
             py_bind (sub secret_definitions name) (\<lambda>definition.
             gather
               [err_if (aliased definition name) (name @ '': resolved secret aliases another Compose project''),
                err_if (py_bind (secret_path h secret_definitions name) (\<lambda>resolved.
                    Inr (\<not> endswith resolved (''/'' @ basename))))
                  (name @ '': secret file must end with /'' @ basename)])) BASE_SECRET_FILES
        @ [err_if (py_bind (py_map (\<lambda>(name, _). secret_path h secret_definitions name) BASE_SECRET_FILES) (\<lambda>ps.
               Inr (\<not> distinct (map casefold_points (filter (\<lambda>p. p \<noteq> []) ps)))))
             ''top-level secret files must resolve to distinct paths'']))"

text \<open>\<^verbatim>\<open>int(text)\<close>: a sign and digits, single underscores between digits, spaces around.\<close>

fun int_digits :: "string \<Rightarrow> bool" where
  "int_digits [] = False"
| "int_digits [c] = is_digit c"
| "int_digits (c # d # cs) = (is_digit c \<and> (if d = CHR ''_'' then int_digits cs else int_digits (d # cs)))"

definition int_of_text :: "string \<Rightarrow> int py" where
  "int_of_text text =
     (let t = strip text;
          sign = (if t \<noteq> [] \<and> hd t = CHR ''-'' then -1 else 1);
          body = (if t \<noteq> [] \<and> (hd t = CHR ''-'' \<or> hd t = CHR ''+'') then tl t else t);
          digits = filter (\<lambda>c. c \<noteq> CHR ''_'') body
      in if int_digits body \<and> length digits \<le> 4300 then Inr (sign * int (parse_nat digits)) else Inl ValueError)"

fun py_int :: "pyval \<Rightarrow> int py" where
  "py_int (PInt i) = Inr i"
| "py_int (PBool b) = Inr (if b then 1 else 0)"
| "py_int (PStr s) = int_of_text s"
| "py_int (PFloat FNan) = Inl ValueError"
| "py_int (PFloat (FInf _)) = Inl OverflowError"
| "py_int (PFloat FNegZero) = Inr 0"
| "py_int (PFloat (FFin q)) = Inr (if q < 0 then - \<lfloor>- q\<rfloor> else \<lfloor>q\<rfloor>)"
| "py_int _ = Inl TypeError"

text \<open>\<^verbatim>\<open>except (KeyError, TypeError, ValueError)\<close>\<close>

fun key_type_value_error :: "exn \<Rightarrow> bool" where
  "key_type_value_error KeyError = True"
| "key_type_value_error TypeError = True"
| "key_type_value_error ValueError = True"
| "key_type_value_error JSONDecodeError = True"
| "key_type_value_error UnicodeDecodeError = True"
| "key_type_value_error UnicodeEncodeError = True"
| "key_type_value_error (EvidenceSchemaError _) = True"
| "key_type_value_error _ = False"

definition except_key_type_value :: "'a py \<Rightarrow> 'a \<Rightarrow> 'a py" where
  "except_key_type_value m d =
     (case m of Inl e \<Rightarrow> if key_type_value_error e then Inr d else Inl e | Inr x \<Rightarrow> Inr x)"

definition x_budget_check :: "pyval \<Rightarrow> string list py" where
  "x_budget_check services =
     py_bind (service_env services ''text-scouts'') (\<lambda>env.
       except_key_type_value
         (py_bind (py_item env ''KAIROS_X_MONTHLY_BUDGET_MICROUSD'') (\<lambda>v.
          py_bind (py_int v) (\<lambda>x_runtime_budget.
            Inr (if x_runtime_budget \<noteq> X_RUNTIME_BUDGET_MICROUSD
                 then [''text-scouts: X monthly budget must equal the $2 qualification ceiling''] else []))))
         [''text-scouts: X monthly runtime budget must be an integer''])"

definition to_float :: "host \<Rightarrow> pyval \<Rightarrow> pyfloat py" where
  "to_float h v = (case v of PStr s \<Rightarrow> text_float h s | _ \<Rightarrow> py_float v)"

definition cadence_check :: "host \<Rightarrow> pyval \<Rightarrow> string list py" where
  "cadence_check h services =
     py_bind (sub services ''execution-engine'') (\<lambda>execution.
     py_bind (sub execution ''environment'') (\<lambda>execution_env.
     py_bind (service_env services ''risk-manager'') (\<lambda>risk_env.
       except_key_type_value
         (py_bind (py_item execution_env ''KAIROS_ACCOUNT_SNAPSHOT_INTERVAL_S'') (\<lambda>a.
          py_bind (to_float h a) (\<lambda>interval.
          py_bind (py_item risk_env ''KAIROS_ACCOUNT_SNAPSHOT_MAX_AGE_S'') (\<lambda>b.
          py_bind (to_float h b) (\<lambda>max_age.
            Inr (if float_le max_age interval
                 then [''account snapshot cadence must be faster than Risk freshness window''] else []))))))
         [''account snapshot cadence and freshness window must be numeric''])))"

definition not_enabled :: "host \<Rightarrow> pyval \<Rightarrow> string \<Rightarrow> string \<Rightarrow> bool py" where
  "not_enabled h services name key =
     py_bind (service_env services name) (\<lambda>env. py_bind (py_get env key) (\<lambda>v. Inr (\<not> is_true h v)))"

definition policy_checks :: "host \<Rightarrow> pyval \<Rightarrow> string list py" where
  "policy_checks h services =
     gather
       [err_if (py_bind (service_env services ''strategy-engine'') (\<lambda>env. get_ne env ''KAIROS_TRADING_MODE'' ''DRY_RUN''))
          ''strategy-engine: base topology must remain DRY_RUN'',
        err_if (py_bind (service_env services ''strategy-engine'') (\<lambda>env. get_ne env ''KAIROS_ENABLED_STRATEGY_IDS'' ''[]''))
          ''strategy-engine: rejected alpha sleeves must remain disabled'',
        err_if (not_enabled h services ''aggregator'' ''KAIROS_CANDIDATE_REQUIRE_MACRO_CONTEXT'')
          ''aggregator: candidate Macro context must be required'',
        err_if (not_enabled h services ''aggregator'' ''KAIROS_CANDIDATE_REQUIRE_TEXT_CONTEXT'')
          ''aggregator: candidate Text context must be required'',
        err_if (not_enabled h services ''risk-manager'' ''KAIROS_REQUIRE_RECONCILED_ACCOUNT'')
          ''risk-manager reconciliation gate must stay enabled'',
        err_if (not_enabled h services ''risk-manager'' ''KAIROS_REQUIRE_STRATEGIC_ALLOCATION'')
          ''risk-manager strategic allocation gate must stay enabled'']"

section \<open>Infrastructure\<close>

text \<open>\<^verbatim>\<open>" ".join(str(part) for part in v)\<close>\<close>

definition joined :: "host \<Rightarrow> pyval \<Rightarrow> string py" where
  "joined h v = py_bind (py_iter v) (\<lambda>parts. Inr (join '' '' (map (py_str (float_text h)) parts)))"

text \<open>The text of \<^verbatim>\<open>(service.get("healthcheck") or {}).get("test") or []\<close>.\<close>

definition health_text :: "host \<Rightarrow> pyval \<Rightarrow> string py" where
  "health_text h service =
     py_bind (py_get service ''healthcheck'') (\<lambda>hc.
     py_bind (py_get (or_empty hc) ''test'') (\<lambda>test. joined h (or_empty_list test)))"

definition redis_checks :: "host \<Rightarrow> pyval \<Rightarrow> string list py" where
  "redis_checks h services =
     py_bind (sub services ''redis'') (\<lambda>redis.
     py_bind (py_bind (py_get redis ''command'') (\<lambda>c. joined h (or_empty_list c))) (\<lambda>redis_command.
     py_bind (health_text h redis) (\<lambda>redis_health.
     gather
       [err_if (text_check h redis ''image'' (\<lambda>s. s \<noteq> EXPECTED_REDIS_IMAGE))
          ''Redis image must match the pinned 8.2.8 runtime'',
        err_if (get_truth redis ''ports'') ''Redis must not publish a host port'',
        err_if (Inr (\<not> contains ''requirepass'' redis_command
                     \<or> \<not> contains ''/run/secrets/redis_password'' redis_command))
          ''Redis must read and enforce its password file'',
        err_if (Inr (\<not> contains ''/run/secrets/redis_password'' redis_health))
          ''Redis healthcheck must authenticate from its password file'',
        err_if (py_bind (secret_sources h redis) (\<lambda>ss. Inr (''redis_password'' \<notin> set ss)))
          ''Redis password secret is missing''])))"

definition database_checks :: "host \<Rightarrow> pyval \<Rightarrow> string list py" where
  "database_checks h services =
     py_bind (sub services ''timescaledb'') (\<lambda>timescale.
     py_bind (sub services ''grafana'') (\<lambda>grafana.
     gather
       [err_if (get_truth timescale ''ports'') ''TimescaleDB must not publish a host port'',
        err_if (py_bind (sub timescale ''environment'') (\<lambda>env.
            get_ne env ''POSTGRES_PASSWORD_FILE'' ''/run/secrets/postgres_password''))
          ''TimescaleDB must use POSTGRES_PASSWORD_FILE'',
        err_if (py_bind (health_text h timescale) (\<lambda>t.
            Inr (\<not> contains ''/proc/1/comm'' t \<or> \<not> contains ''pg_isready'' t)))
          ''TimescaleDB healthcheck must exclude the temporary init server'',
        err_if (py_bind (sub grafana ''environment'') (\<lambda>env.
            get_ne env ''GF_SECURITY_ADMIN_PASSWORD__FILE'' ''/run/secrets/grafana_admin_password''))
          ''Grafana must use an admin password file'']))"

definition expected_infrastructure_secrets :: "(string \<times> string list) list" where
  "expected_infrastructure_secrets =
     [(''redis'', [''redis_password'']), (''timescaledb'', [''postgres_password'']), (''prometheus'', []),
      (''grafana'', [''grafana_admin_password''])]"

definition infrastructure_secret_checks :: "host \<Rightarrow> pyval \<Rightarrow> string list py" where
  "infrastructure_secret_checks h services =
     gather (map (\<lambda>(name, expected).
         err_if (py_bind (sub services name) (\<lambda>service.
             py_bind (secret_sources h service) (\<lambda>ss. Inr (set ss \<noteq> set expected))))
           (name @ '': infrastructure secret set must match the exact allow-list''))
       expected_infrastructure_secrets)"

text \<open>Target, kind, source and whether it is read-only.\<close>

definition expected_volume_targets :: "(string \<times> (string \<times> string \<times> string \<times> bool) list) list" where
  "expected_volume_targets =
     [(''redis'', [(''/data'', ''volume'', ''redis-data'', False)]),
      (''timescaledb'',
        [(''/var/lib/postgresql/data'', ''volume'', ''ts-data'', False),
         (''/docker-entrypoint-initdb.d/001-kairos.sql'', ''bind'', ''/timescaledb/schema.sql'', True)]),
      (''prometheus'',
        [(''/prometheus'', ''volume'', ''prometheus-data'', False),
         (''/etc/prometheus/prometheus.yml'', ''bind'', ''/monitoring/prometheus.yml'', True),
         (''/etc/prometheus/alerts.yml'', ''bind'', ''/monitoring/alerts.base.yml'', True)]),
      (''grafana'',
        [(''/var/lib/grafana'', ''volume'', ''grafana-data'', False),
         (''/etc/grafana/provisioning/datasources/kairos.yml'', ''bind'', ''/monitoring/grafana-datasource.yml'', True)])]"

definition by_target :: "host \<Rightarrow> pyval list \<Rightarrow> items" where
  "by_target h volumes =
     foldl (\<lambda>result volume.
         case volume of
           PDict m \<Rightarrow> AList.update (py_str (float_text h) (dict_get_default m ''target'' (PStr []))) volume result
         | _ \<Rightarrow> result) [] volumes"

definition volume_differs :: "host \<Rightarrow> pyval \<Rightarrow> string \<Rightarrow> string \<Rightarrow> bool \<Rightarrow> bool py" where
  "volume_differs h volume kind source read_only =
     py_bind (get_text h volume ''source'') (\<lambda>text.
     let actual_source = replace_char (CHR 0x5C) (CHR ''/'') text;
         source_matches = (if kind = ''volume'' then actual_source = source else endswith actual_source source)
     in py_or
          [get_ne volume ''type'' kind,
           Inr (\<not> source_matches),
           py_bind (get_default volume ''read_only'' (PBool False)) (\<lambda>v. Inr (py_truth v \<noteq> read_only))])"

definition volume_checks :: "host \<Rightarrow> pyval \<Rightarrow> string list py" where
  "volume_checks h services =
     gather (map (\<lambda>(name, expected).
         py_bind (sub services name) (\<lambda>service.
         py_bind (get_default service ''volumes'' (PList [])) (\<lambda>v.
         py_bind (py_iter (or_empty_list v)) (\<lambda>actual_volumes.
         let actual_by_target = by_target h actual_volumes in
         if set (map fst actual_by_target) \<noteq> set (map fst expected)
         then Inr [name @ '': volume targets must match the exact allow-list'']
         else gather (map (\<lambda>(target, kind, source, read_only).
                err_if (py_bind (py_item (PDict actual_by_target) target) (\<lambda>volume.
                    volume_differs h volume kind source read_only))
                  (name @ '': volume '' @ target @ '' differs from the allow-list'')) expected)))))
       expected_volume_targets)"

text \<open>The named volumes; the code iterates over a set, whose order decides only that of the messages.\<close>

definition expected_named_volumes :: "string list" where
  "expected_named_volumes = [''redis-data'', ''ts-data'', ''prometheus-data'', ''grafana-data'']"

definition named_volume_checks :: "pyval \<Rightarrow> string list py" where
  "named_volume_checks config =
     gather
       ([err_if (py_bind (sub config ''volumes'') (\<lambda>v. keys_differ v expected_named_volumes))
           ''top-level volumes must match the exact allow-list'']
        @ map (\<lambda>name. err_if (py_bind (sub config ''volumes'') (\<lambda>v. py_bind (sub v name) (\<lambda>definition.
               aliased definition name)))
             (name @ '': resolved volume aliases another Compose project'')) expected_named_volumes)"

definition port_not_loopback :: "host \<Rightarrow> pyval \<Rightarrow> bool py" where
  "port_not_loopback h port =
     py_bind (if is_dict port then get_default port ''host_ip'' (PStr []) else Inr port) (\<lambda>v.
       Inr (\<not> contains ''127.0.0.1'' (py_str (float_text h) v)))"

definition management_checks :: "host \<Rightarrow> pyval \<Rightarrow> string \<Rightarrow> string list py" where
  "management_checks h services name =
     py_bind (get_default services name (PDict [])) (\<lambda>service.
     gather
       [err_if (py_bind (network_set service) (\<lambda>ns. Inr (PStr ''management'' \<notin> set ns)))
          (name @ '': management network is required''),
        err_if (py_bind (health_text h service) (\<lambda>t. Inr (\<not> contains ''127.0.0.1'' t)))
          (name @ '': a loopback healthcheck is required''),
        py_bind (get_default service ''ports'' (PList [])) (\<lambda>v.
        py_bind (py_iter (or_empty_list v)) (\<lambda>ports.
          gather (map (\<lambda>port. err_if (port_not_loopback h port)
            (name @ '': published ports must bind to 127.0.0.1'')) ports)))])"

definition image_check :: "host \<Rightarrow> pyval \<Rightarrow> string \<Rightarrow> string list py" where
  "image_check h services name =
     err_if (py_bind (get_default services name (PDict [])) (\<lambda>service.
         text_check h service ''image'' (\<lambda>s. \<not> IMAGE_PATTERN s)))
       (name @ '': image must use tag plus sha256 digest'')"

definition INTERNAL_NETWORKS :: "string list" where
  "INTERNAL_NETWORKS = [''bus'', ''data'', ''observability'', ''management'']"

definition network_checks :: "pyval \<Rightarrow> string list py" where
  "network_checks config =
     py_bind (sub config ''networks'') (\<lambda>networks.
     gather
       ([err_if (keys_differ networks (INTERNAL_NETWORKS @ [''egress'']))
           ''top-level networks must match the exact allow-list'',
         py_bind (py_items networks) (\<lambda>ns.
           gather (map (\<lambda>(name, network). err_if (aliased (or_empty network) name)
             (name @ '': resolved network aliases another Compose project'')) ns))]
        @ map (\<lambda>name. err_if (py_bind (get_default networks name (PDict [])) (\<lambda>n. get_not_true n ''internal''))
             (name @ '': network must be internal'')) INTERNAL_NETWORKS
        @ [err_if (py_bind (get_default networks ''egress'' (PDict [])) (\<lambda>n.
               py_bind (py_get n ''internal'') (\<lambda>v. Inr (v = PBool True))))
             ''egress must remain the sole external connectivity network'']))"

section \<open>The Compose model\<close>

definition validate_compose :: "host \<Rightarrow> pyval \<Rightarrow> pyval \<Rightarrow> bool \<Rightarrow> bool \<Rightarrow> string list py" where
  "validate_compose h config lock live allow_example_values =
     py_bind (py_get config ''name'') (\<lambda>project.
     py_bind (sub config ''services'') (\<lambda>services.
     gather
       ([err_if (Inr (project \<noteq> PStr ''kairos'')) ''base Compose project name must be exactly kairos'',
         err_if (keys_differ services EXPECTED_SERVICES)
           ''rendered Compose service set is incomplete or contains unexpected services'',
         py_bind (py_items services) (\<lambda>ms. gather (map (common_service_checks h) ms))]
        @ map (\<lambda>(name, user). err_if (py_bind (sub services name) (\<lambda>s. get_ne s ''user'' user))
             (name @ '': must run as the pinned non-root image user'')) BASE_INFRASTRUCTURE_USERS
        @ map (\<lambda>name. py_bind (sub lock ''services'') (\<lambda>source_services.
             source_service_checks h services source_services name)) SOURCE_SERVICES
        @ [scope_check h allow_example_values services,
           execution_checks h live services]
        @ map (provider_secret_checks h services) expected_provider_secrets
        @ map (exact_secret_checks h services) SOURCE_SERVICES
        @ [secret_definition_checks h config,
           x_budget_check services,
           policy_checks h services,
           cadence_check h services,
           redis_checks h services,
           database_checks h services,
           infrastructure_secret_checks h services,
           volume_checks h services,
           named_volume_checks config]
        @ map (management_checks h services) [''ops-exporter'', ''prometheus'', ''grafana'']
        @ map (image_check h services) [''redis'', ''timescaledb'', ''prometheus'', ''grafana'']
        @ [network_checks config])))"

section \<open>The interpolation file and the entry point\<close>

definition quote_char :: "char \<Rightarrow> bool" where
  "quote_char c \<longleftrightarrow> c = CHR 0x27 \<or> c = CHR 0x22"

definition dotenv_line :: "(string \<times> string) list \<Rightarrow> string \<Rightarrow> (string \<times> string) list py" where
  "dotenv_line result raw =
     (let line = strip raw in
      if line = [] \<or> startswith line ''#'' then Inr result
      else case partition_at (CHR ''='') line of (key, found, value) \<Rightarrow>
             if \<not> found \<or> strip key = [] then Inl ValueError
             else Inr (AList.update (strip key) (strip_of quote_char (strip value)) result))"

definition parse_dotenv :: "string \<Rightarrow> (string \<times> string) list py" where
  "parse_dotenv text = py_run dotenv_line [] (splitlines text)"

definition REQUIRED_ENVIRONMENT :: "string list" where
  "REQUIRED_ENVIRONMENT = [''GRAFANA_ADMIN_USER'', ''KAIROS_PROCESSING_SCOPE_SHA256'', ''KAIROS_SECRETS_DIR'',
     ''POSTGRES_DB'', ''POSTGRES_USER'']"

definition env_get :: "(string \<times> string) list \<Rightarrow> string \<Rightarrow> string" where
  "env_get m k = (case map_of m k of None \<Rightarrow> [] | Some v \<Rightarrow> v)"

definition validate_environment :: "(string \<times> string) list \<Rightarrow> string list" where
  "validate_environment environment =
     concat (map (\<lambda>name. if env_get environment name = [] then [name @ '' must be set''] else []) REQUIRED_ENVIRONMENT)
     @ (let processing_scope = env_get environment ''KAIROS_PROCESSING_SCOPE_SHA256'' in
        if processing_scope \<noteq> [] \<and> \<not> hex_lower_n 64 processing_scope
        then [''KAIROS_PROCESSING_SCOPE_SHA256 must be a lowercase SHA-256'']
        else if processing_scope = SYNTHETIC_PROCESSING_SCOPE_SHA256
        then [''KAIROS_PROCESSING_SCOPE_SHA256 synthetic CI fixture is not deployment authority'']
        else [])
     @ map (\<lambda>name. name @ '' must not be stored in the Compose interpolation file'')
         (sorted_set (filter (\<lambda>n. n \<in> set (map fst environment)) FORBIDDEN_SECRET_ENV))
     @ (if ''KAIROS_DRY_RUN'' \<in> set (map fst environment)
        then [''KAIROS_DRY_RUN is retired and must be removed''] else [])"

end
