(* ===== verification/Deployment_Remote.thy ===== *)
theory Deployment_Remote
  imports Deployment
begin

text \<open>
  \<^verbatim>\<open>src/scripts/validate_deployment.py\<close>, remote part: the verification of the locked revisions
  against GitHub, the admission of the optional native composition of the execution engine, and
  \<^verbatim>\<open>main\<close>. What a URL serves (\<open>fetch\<close>, decoded), the TOML decoder and the JSON decoder are
  parameters.
\<close>

section \<open>Native inputs of the execution engine\<close>

definition EXECUTION_NATIVE_INPUTS :: "(string \<times> string \<times> string \<times> string) list" where
  "EXECUTION_NATIVE_INPUTS =
     [(''kairos-quant-scouts'', ''quant-scouts'', ''0.1.0'', ''kairos-quant-scouts>=0.1,<0.2''),
      (''kairos-text-scouts'', ''text-scouts'', ''0.2.0'', ''kairos-text-scouts>=0.2,<0.3''),
      (''kairos-macro-strategist'', ''macro-strategist'', ''0.2.0'', ''kairos-macro-strategist>=0.2,<0.3''),
      (''kairos-router'', ''router'', ''0.2.0'', ''kairos-router>=0.2,<0.3''),
      (''kairos-aggregator'', ''aggregator'', ''0.2.0'', ''kairos-aggregator>=0.2,<0.3''),
      (''kairos-llm'', ''kairos-llm'', ''0.1.0'', ''kairos-llm>=0.1,<0.2'')]"

definition LLM_SERVICES :: "string list" where
  "LLM_SERVICES = [''text-scouts'', ''aggregator'', ''macro-strategist'']"

definition PERSISTENCE_SERVICES :: "string list" where
  "PERSISTENCE_SERVICES = filter (\<lambda>s. s \<noteq> ''ops-exporter'') SOURCE_SERVICES"

text \<open>\<^verbatim>\<open>pyproject.get("tool", {}).get("uv", {}).get(k, d)\<close>\<close>

definition tool_uv :: "pyval \<Rightarrow> pyval py" where
  "tool_uv pyproject =
     py_bind (get_default pyproject ''tool'' (PDict [])) (\<lambda>tool. get_default tool ''uv'' (PDict []))"

definition native_revision :: "pyval \<Rightarrow> string \<Rightarrow> string \<Rightarrow> pyval py" where
  "native_revision lock package service =
     (if package = ''kairos-llm'' then py_bind (sub lock ''dependencies'') (\<lambda>d. py_get d ''kairos-llm'')
      else py_bind (sub lock ''services'') (\<lambda>s. py_bind (sub s service) (\<lambda>e. py_get e ''revision'')))"

definition native_repository :: "string \<Rightarrow> string" where
  "native_repository package = ''https://github.com/Kairos-cryptoAI/'' @ package @ ''.git''"

definition sha_text :: "pyval \<Rightarrow> bool" where
  "sha_text v \<longleftrightarrow> (case v of PStr s \<Rightarrow> hex_lower_n 40 s | _ \<Rightarrow> False)"

definition native_source_differs :: "pyval \<Rightarrow> pyval \<Rightarrow> string \<Rightarrow> bool py" where
  "native_source_differs sources expected_revision package =
     py_bind (py_get sources package) (\<lambda>source.
       py_or
         [Inr (\<not> sha_text expected_revision),
          Inr (\<not> is_dict source),
          keys_differ source [''git'', ''rev''],
          get_ne source ''git'' (native_repository package),
          py_bind (py_get source ''rev'') (\<lambda>r. Inr (\<not> py_eq r expected_revision))])"

text \<open>The records of \<^verbatim>\<open>uv.lock\<close> with a given name.\<close>

definition records_named :: "pyval list \<Rightarrow> string \<Rightarrow> pyval list" where
  "records_named packages name =
     filter (\<lambda>item. case item of PDict m \<Rightarrow> dict_get m ''name'' = PStr name | _ \<Rightarrow> False) packages"

definition record_name :: "pyval \<Rightarrow> pyval" where
  "record_name item = (case item of PDict m \<Rightarrow> dict_get m ''name'' | _ \<Rightarrow> PNone)"

definition locked_optional_differs :: "pyval list \<Rightarrow> bool py" where
  "locked_optional_differs packages =
     (let records = records_named packages ''kairos-execution-engine'';
          root = (case records of [r] \<Rightarrow> r | _ \<Rightarrow> PDict [])
      in py_bind (sub root ''optional-dependencies'') (\<lambda>optional.
         py_bind (py_get optional ''native-inputs'') (\<lambda>locked.
           Inr (case locked of
                  PList items \<Rightarrow>
                    \<not> list_all (\<lambda>i. case i of PDict m \<Rightarrow> keys_are m [''name''] | _ \<Rightarrow> False) items
                    \<or> map record_name items \<noteq> map PStr (sorted_set (map fst EXECUTION_NATIVE_INPUTS))
                | _ \<Rightarrow> True))))"

definition native_record_differs :: "pyval list \<Rightarrow> string \<Rightarrow> string \<Rightarrow> pyval \<Rightarrow> bool py" where
  "native_record_differs packages package version expected_revision =
     (case expected_revision of
        PStr sha \<Rightarrow>
          (case records_named packages package of
             [r] \<Rightarrow>
               py_or
                 [get_ne r ''version'' version,
                  py_bind (py_get r ''source'') (\<lambda>s.
                    get_ne (or_empty s) ''git'' (native_repository package @ ''?rev='' @ sha @ ''#'' @ sha))]
           | _ \<Rightarrow> Inr True)
      | _ \<Rightarrow> Inr True)"

definition validate_execution_native_inputs :: "pyval \<Rightarrow> pyval \<Rightarrow> pyval \<Rightarrow> string list py" where
  "validate_execution_native_inputs pyproject remote_lock lock =
     py_bind (sub pyproject ''project'') (\<lambda>project.
     py_bind (sub project ''optional-dependencies'') (\<lambda>extras.
     py_bind (py_get extras ''native-inputs'') (\<lambda>declarations.
     py_bind (py_bind (tool_uv pyproject) (\<lambda>uv. sub uv ''sources'')) (\<lambda>sources.
     py_bind (get_default remote_lock ''package'' (PList [])) (\<lambda>package_list.
     py_bind (py_iter package_list) (\<lambda>packages.
     gather
       ([err_if (Inr (\<not> py_eq declarations (PList (map (\<lambda>(_, _, _, d). PStr d) EXECUTION_NATIVE_INPUTS))))
           ''execution-engine: native-inputs must declare the exact six pinned dependencies'']
        @ map (\<lambda>(package, service, _, _).
             err_if (py_bind (native_revision lock package service) (\<lambda>rev. native_source_differs sources rev package))
               (''execution-engine: native-inputs source '' @ package @ '' differs from deployment lock''))
           (last EXECUTION_NATIVE_INPUTS # butlast EXECUTION_NATIVE_INPUTS)
        @ [err_if (Inr (length (records_named packages ''kairos-execution-engine'') \<noteq> 1))
             ''execution-engine: uv.lock must contain one root package record'',
           err_if (locked_optional_differs packages)
             ''execution-engine: uv.lock native-inputs dependency set differs from pyproject'']
        @ map (\<lambda>(package, service, version, _).
             err_if (py_bind (native_revision lock package service) (\<lambda>rev.
                 native_record_differs packages package version rev))
               (''execution-engine: uv.lock source/version for '' @ package @ '' differs from deployment lock''))
           EXECUTION_NATIVE_INPUTS)))))))"

section \<open>Remote sources\<close>

text \<open>\<^verbatim>\<open>v in container\<close>\<close>

fun py_member :: "pyval \<Rightarrow> pyval \<Rightarrow> bool py" where
  "py_member v (PDict m) = (if hashable v then Inr (v \<in> PStr ` set (map fst m)) else Inl TypeError)"
| "py_member v (PList xs) = Inr (list_ex (py_eq v) xs)"
| "py_member v (PStr s) = (case v of PStr t \<Rightarrow> Inr (contains t s) | _ \<Rightarrow> Inl TypeError)"
| "py_member v _ = Inl TypeError"

definition py_not_in :: "pyval \<Rightarrow> pyval \<Rightarrow> bool py" where
  "py_not_in v c = py_bind (py_member v c) (\<lambda>b. Inr (\<not> b))"

text \<open>
  A \<^verbatim>\<open>try\<close> block around checks: the messages before an exception that is caught are kept.
\<close>

fun attempt :: "(exn \<Rightarrow> string list option) \<Rightarrow> string list py list \<Rightarrow> string list py" where
  "attempt handler [] = Inr []"
| "attempt handler (c # cs) =
     (case c of
        Inl e \<Rightarrow> (case handler e of None \<Rightarrow> Inl e | Some es \<Rightarrow> Inr es)
      | Inr es \<Rightarrow> py_bind (attempt handler cs) (\<lambda>fs. Inr (es @ fs)))"

text \<open>\<^verbatim>\<open>except (OSError, ValueError, KeyError, HTTPError)\<close> and the name of the class.\<close>

fun remote_caught :: "exn \<Rightarrow> string option" where
  "remote_caught OSError = Some ''OSError''"
| "remote_caught ValueError = Some ''ValueError''"
| "remote_caught JSONDecodeError = Some ''JSONDecodeError''"
| "remote_caught UnicodeDecodeError = Some ''UnicodeDecodeError''"
| "remote_caught UnicodeEncodeError = Some ''UnicodeEncodeError''"
| "remote_caught KeyError = Some ''KeyError''"
| "remote_caught _ = None"

definition remove_prefix :: "string \<Rightarrow> string \<Rightarrow> string" where
  "remove_prefix p s = (if startswith s p then drop (length p) s else s)"

record remote =
  fetch :: "string \<Rightarrow> string py"
  toml :: "string \<Rightarrow> pyval py"
  json :: "string \<Rightarrow> pyval py"

definition source_rev :: "pyval \<Rightarrow> string \<Rightarrow> pyval py" where
  "source_rev sources package = py_bind (py_get sources package) (\<lambda>s. py_get (or_empty s) ''rev'')"

text \<open>\<^verbatim>\<open>sources\<close> of the project: the third \<^verbatim>\<open>get\<close> without \<^verbatim>\<open>or {}\<close>.\<close>

definition uv_sources :: "pyval \<Rightarrow> pyval py" where
  "uv_sources pyproject = py_bind (tool_uv pyproject) (\<lambda>uv. get_default uv ''sources'' (PDict []))"

definition llm_check :: "pyval \<Rightarrow> pyval \<Rightarrow> string \<Rightarrow> string list py" where
  "llm_check sources dependencies name =
     py_bind (py_get sources ''kairos-llm'') (\<lambda>llm.
       if name \<in> set LLM_SERVICES then
         err_if (py_bind (py_get (or_empty llm) ''rev'') (\<lambda>r.
             py_bind (py_get dependencies ''kairos-llm'') (\<lambda>d. Inr (\<not> py_eq r d))))
           (name @ '': kairos-llm SHA differs from deployment lock'')
       else if name \<noteq> ''execution-engine'' \<and> py_truth llm
       then Inr [name @ '': unexpected kairos-llm source dependency'']
       else Inr [])"

definition wheel_packages :: "pyval \<Rightarrow> pyval py" where
  "wheel_packages pyproject =
     py_bind (get_default pyproject ''tool'' (PDict [])) (\<lambda>t.
     py_bind (get_default t ''hatch'' (PDict [])) (\<lambda>t.
     py_bind (get_default t ''build'' (PDict [])) (\<lambda>t.
     py_bind (get_default t ''targets'' (PDict [])) (\<lambda>t.
     py_bind (get_default t ''wheel'' (PDict [])) (\<lambda>t.
       get_default t ''packages'' (PList []))))))"

definition native_checks :: "remote \<Rightarrow> pyval \<Rightarrow> pyval \<Rightarrow> string \<Rightarrow> string list py" where
  "native_checks R lock pyproject lock_text =
     py_bind (get_default pyproject ''project'' (PDict [])) (\<lambda>project.
     py_bind (sub project ''optional-dependencies'') (\<lambda>optional.
     py_bind (py_get optional ''native-inputs'') (\<lambda>native_inputs.
     py_bind (uv_sources pyproject) (\<lambda>sources.
     py_bind (py_get sources ''kairos-llm'') (\<lambda>llm.
     py_bind (py_set sources) (\<lambda>keys.
       if native_inputs \<noteq> PNone \<or> py_truth llm \<or> meet_strs (map fst EXECUTION_NATIVE_INPUTS) keys \<noteq> []
       then py_bind (toml R lock_text) (\<lambda>remote_lock. validate_execution_native_inputs pyproject remote_lock lock)
       else Inr []))))))"

definition verify_source :: "host \<Rightarrow> remote \<Rightarrow> pyval \<Rightarrow> string \<times> pyval \<Rightarrow> string list py" where
  "verify_source h R lock = (\<lambda>(name, source).
     py_bind (sub lock ''dependencies'') (\<lambda>dependencies.
     py_bind (get_text h source ''repository'') (\<lambda>repository.
     py_bind (get_text h source ''revision'') (\<lambda>revision.
       if \<not> hex_lower_n 40 revision then Inr []
       else
         let slug = remove_prefix ''https://github.com/'' repository;
             raw_base = ''https://raw.githubusercontent.com/'' @ slug @ ''/'' @ revision;
             pyproject = py_bind (fetch R (raw_base @ ''/pyproject.toml'')) (toml R);
             lock_text = fetch R (raw_base @ ''/uv.lock'')
         in attempt (\<lambda>e. map_option (\<lambda>c. [name @ '': remote source verification failed ('' @ c @ '')'']) (remote_caught e))
           [err_if (py_bind (fetch R (''https://api.github.com/repos/'' @ slug @ ''/commits/'' @ revision)) (\<lambda>t.
                py_bind (json R t) (\<lambda>metadata. get_ne metadata ''sha'' revision)))
              (name @ '': GitHub resolved an unexpected revision''),
            err_if (py_bind (fetch R (raw_base @ ''/.python-version'')) (\<lambda>t. Inr (strip t \<noteq> ''3.11'')))
              (name @ '': .python-version must be 3.11''),
            err_if (py_bind pyproject (\<lambda>p. py_bind (tool_uv p) (\<lambda>uv. get_ne uv ''required-version'' ''==0.12.3'')))
              (name @ '': pyproject must require uv ==0.12.3''),
            err_if (py_bind pyproject (\<lambda>p. py_bind (uv_sources p) (\<lambda>s. py_bind (source_rev s ''kairos-core'') (\<lambda>r.
                py_bind (py_get dependencies ''kairos-core'') (\<lambda>d. Inr (\<not> py_eq r d))))))
              (name @ '': kairos-core SHA differs from deployment lock''),
            py_bind pyproject (\<lambda>p. py_bind (uv_sources p) (\<lambda>s. llm_check s dependencies name)),
            err_if (py_bind pyproject (\<lambda>p. py_bind (uv_sources p) (\<lambda>s. py_bind (source_rev s ''kairos-persistence'') (\<lambda>r.
                if name \<in> set PERSISTENCE_SERVICES
                then py_bind (py_get dependencies ''kairos-persistence'') (\<lambda>d. Inr (\<not> py_eq r d))
                else Inr False))))
              (name @ '': kairos-persistence SHA differs from deployment lock''),
            err_if (py_bind pyproject (\<lambda>p. py_bind (get_default p ''project'' (PDict [])) (\<lambda>project.
                py_bind (py_get source ''command'') (\<lambda>c. py_bind (sub project ''scripts'') (\<lambda>scripts. py_not_in c scripts)))))
              (name @ '': deployment command is absent from project.scripts''),
            err_if (py_bind pyproject (\<lambda>p. py_bind (wheel_packages p) (\<lambda>packages.
                py_bind (py_get source ''package_dir'') (\<lambda>d. py_not_in d packages))))
              (name @ '': package_dir is absent from Hatch wheel packages''),
            err_if (py_bind pyproject (\<lambda>p.
                if name = ''execution-engine'' then
                  py_bind (get_default p ''project'' (PDict [])) (\<lambda>project.
                  py_bind (get_default project ''optional-dependencies'' (PDict [])) (\<lambda>o'.
                  py_bind (py_get o' ''evedex'') (\<lambda>v. Inr (\<not> py_truth v))))
                else Inr False))
              ''execution-engine: evedex optional dependency is missing'',
            py_bind pyproject (\<lambda>p. py_bind lock_text (\<lambda>t.
              if name = ''execution-engine'' then native_checks R lock p t else Inr [])),
            err_if (py_bind lock_text (\<lambda>t. py_bind (py_get dependencies ''kairos-core'') (\<lambda>d. py_not_in d (PStr t))))
              (name @ '': uv.lock lacks pinned kairos-core SHA''),
            err_if (py_bind lock_text (\<lambda>t.
                if name \<in> set LLM_SERVICES then py_bind (py_get dependencies ''kairos-llm'') (\<lambda>d. py_not_in d (PStr t))
                else Inr False))
              (name @ '': uv.lock lacks pinned kairos-llm SHA''),
            err_if (py_bind lock_text (\<lambda>t.
                if name \<in> set PERSISTENCE_SERVICES
                then py_bind (py_get dependencies ''kairos-persistence'') (\<lambda>d. py_not_in d (PStr t))
                else Inr False))
              (name @ '': uv.lock lacks pinned kairos-persistence SHA'')]))))"

definition verify_remote_sources :: "host \<Rightarrow> remote \<Rightarrow> pyval \<Rightarrow> string list py" where
  "verify_remote_sources h R lock =
     py_bind (sub lock ''services'') (\<lambda>services.
     py_bind (py_items services) (\<lambda>ms.
       gather (map (\<lambda>k. verify_source h R lock (k, dict_get ms k)) (sorted_set (map fst ms)))))"

section \<open>The entry point\<close>

definition load_json :: "pyval py \<Rightarrow> pyval py" where
  "load_json contents = py_bind contents (\<lambda>v. if is_dict v then Inr v else Inl TypeError)"

text \<open>The files of the command line, read and decoded when they are given.\<close>

record deploy_args =
  a_source_lock :: "pyval py"
  a_compose_json :: "pyval py option"
  a_env_file :: "string py option"
  a_verify_remote :: bool
  a_live :: bool
  a_allow_example_values :: bool

definition deploy_errors :: "host \<Rightarrow> remote \<Rightarrow> deploy_args \<Rightarrow> string list py" where
  "deploy_errors h R args =
     py_bind (load_json (a_source_lock args)) (\<lambda>lock.
     gather
       [validate_source_lock h lock,
        (case a_compose_json args of
           None \<Rightarrow> Inr []
         | Some contents \<Rightarrow> py_bind (load_json contents) (\<lambda>config.
             validate_compose h config lock (a_live args) (a_allow_example_values args))),
        (case a_env_file args of
           None \<Rightarrow> Inr []
         | Some contents \<Rightarrow> py_bind contents (\<lambda>text. py_bind (parse_dotenv text) (\<lambda>env.
             Inr (validate_environment env)))),
        (if a_verify_remote args then verify_remote_sources h R lock else Inr [])])"

fun deploy_caught :: "exn \<Rightarrow> bool" where
  "deploy_caught OSError = True"
| "deploy_caught TypeError = True"
| "deploy_caught ValueError = True"
| "deploy_caught JSONDecodeError = True"
| "deploy_caught UnicodeDecodeError = True"
| "deploy_caught UnicodeEncodeError = True"
| "deploy_caught _ = False"

definition deploy_main :: "host \<Rightarrow> remote \<Rightarrow> deploy_args \<Rightarrow> int py" where
  "deploy_main h R args =
     (case deploy_errors h R args of
        Inl e \<Rightarrow> if deploy_caught e then Inr 2 else Inl e
      | Inr errors \<Rightarrow> Inr (if errors \<noteq> [] then 1 else 0))"

end
