(* ===== verification/Compose_Contract.thy ===== *)
theory Compose_Contract
  imports Deployment_Remote
begin

text \<open>
  What the two Compose validators promise to whoever starts a model they accept, as three
  interfaces: networks, secret files and the exit status. The base validator and the paper
  validator are interpretations.
\<close>

section \<open>Network isolation\<close>

definition internal_network :: "items \<Rightarrow> string \<Rightarrow> bool" where
  "internal_network ns k \<longleftrightarrow> (\<exists>m. map_of ns k = Some (PDict m) \<and> dict_get m ''internal'' = PBool True)"

locale isolating_gate =
  fixes accepts :: "pyval \<Rightarrow> bool"
    and allowed :: "string \<Rightarrow> string list"
    and internal :: "string list"
    and egress :: string
    and egress_services :: "string list"
  assumes attached: "accepts config \<Longrightarrow> \<exists>ms. sub config ''services'' = Inr (PDict ms)
      \<and> (\<forall>(name, service) \<in> set ms. \<exists>nets. network_set service = Inr nets \<and> same_strs nets (allowed name))"
    and declared: "accepts config \<Longrightarrow> \<exists>ns. sub config ''networks'' = Inr (PDict ns)
      \<and> (\<forall>k \<in> set internal. internal_network ns k)"
    and map_safe: "k \<in> set (allowed name) \<Longrightarrow> k \<in> set internal \<or> k = egress \<and> name \<in> set egress_services"
begin

lemma isolation:
  assumes "accepts config"
  shows "\<exists>ms ns. sub config ''services'' = Inr (PDict ms) \<and> sub config ''networks'' = Inr (PDict ns)
    \<and> (\<forall>(name, service) \<in> set ms. \<exists>nets. network_set service = Inr nets
         \<and> (\<forall>v \<in> set nets. \<exists>k. v = PStr k \<and> (internal_network ns k \<or> k = egress \<and> name \<in> set egress_services)))"
proof -
  obtain ms where ms: "sub config ''services'' = Inr (PDict ms)"
    and nets: "\<forall>(name, service) \<in> set ms. \<exists>nets. network_set service = Inr nets \<and> same_strs nets (allowed name)"
    using attached [OF assms] by blast
  obtain ns where ns: "sub config ''networks'' = Inr (PDict ns)" "\<forall>k \<in> set internal. internal_network ns k"
    using declared [OF assms] by blast
  have allowed_v: "\<exists>k. v = PStr k \<and> (internal_network ns k \<or> k = egress \<and> name \<in> set egress_services)"
    if vs: "same_strs vs (allowed name)" and v: "v \<in> set vs" for vs v name
  proof -
    obtain k where k: "v = PStr k" "k \<in> set (allowed name)"
      using vs v unfolding same_strs_iff by blast
    with map_safe [OF k(2)] ns(2) show ?thesis by blast
  qed
  show ?thesis
  proof (intro exI conjI)
    show "\<forall>(name, service) \<in> set ms. \<exists>nets. network_set service = Inr nets \<and> (\<forall>v \<in> set nets. \<exists>k. v = PStr k
         \<and> (internal_network ns k \<or> k = egress \<and> name \<in> set egress_services))"
      using nets allowed_v by fast
  qed (fact ms, fact ns(1))
qed

end

section \<open>Secret files\<close>

locale secret_gate =
  fixes h :: host
    and accepts :: "pyval \<Rightarrow> bool"
    and sources :: "string list"
    and mounted :: "string \<Rightarrow> string list"
    and bound :: "string \<Rightarrow> (string \<times> string) list"
  assumes exact: "accepts config \<Longrightarrow> name \<in> set sources \<Longrightarrow> \<exists>services service ss b.
      sub config ''services'' = Inr services \<and> sub services name = Inr service
      \<and> secret_sources h service = Inr ss \<and> set ss = set (mounted name)
      \<and> bindings h service = Inr b \<and> map_of b = map_of (bound name)"
    and bound_mounted: "name \<in> set sources \<Longrightarrow> map_of (bound name) k = Some path
      \<Longrightarrow> \<exists>s \<in> set (mounted name). path = ''/run/secrets/'' @ s"
begin

lemma files_only:
  assumes "accepts config" "name \<in> set sources"
  shows "\<exists>services service ss b. sub config ''services'' = Inr services \<and> sub services name = Inr service
    \<and> secret_sources h service = Inr ss \<and> bindings h service = Inr b \<and> set ss = set (mounted name)
    \<and> (\<forall>k path. map_of b k = Some path \<longrightarrow> (\<exists>s \<in> set ss. path = ''/run/secrets/'' @ s))"
proof -
  obtain services service ss b where e: "sub config ''services'' = Inr services" "sub services name = Inr service"
    "secret_sources h service = Inr ss" "set ss = set (mounted name)" "bindings h service = Inr b"
    "map_of b = map_of (bound name)"
    using exact [OF assms] by blast
  have "\<exists>s \<in> set ss. path = ''/run/secrets/'' @ s" if "map_of b k = Some path" for k path
    using bound_mounted [OF assms(2), of k path] that unfolding e(4,6) .
  with e show ?thesis by blast
qed

end

section \<open>The exit status\<close>

locale exit_gate =
  fixes main :: "'a \<Rightarrow> int py"
    and errors :: "'a \<Rightarrow> string list py"
  assumes main_cases: "main args = (case errors args of
      Inl e \<Rightarrow> if deploy_caught e then Inr 2 else Inl e
    | Inr es \<Rightarrow> Inr (if es \<noteq> [] then 1 else 0))"
begin

lemma zero_iff: "main args = Inr 0 \<longleftrightarrow> errors args = Inr []"
  by (auto simp: main_cases split: sum.splits)

lemma status: "main args = Inr n \<Longrightarrow> n = 0 \<or> n = 1 \<or> n = 2"
  by (auto simp: main_cases split: sum.splits if_splits)

lemma escapes: "main args = Inl e \<Longrightarrow> errors args = Inl e \<and> \<not> deploy_caught e"
  by (auto simp: main_cases split: sum.splits if_splits)

end

text \<open>The stages of both entry points: an input that is given validates.\<close>

lemma optional_stage:
  "(case arg of None \<Rightarrow> Inr [] | Some contents \<Rightarrow> py_bind (f contents) g) = Inr []
   \<longleftrightarrow> (\<forall>contents. arg = Some contents \<longrightarrow> (\<exists>x. f contents = Inr x \<and> g x = Inr []))"
  by (cases arg) (auto simp: py_bind_Inr_iff)

lemma gather4:
  "gather [a, b, c, d] = Inr [] \<longleftrightarrow> a = Inr [] \<and> b = Inr [] \<and> c = Inr [] \<and> d = Inr []"
  by (simp only: gather_parts_Nil simp_thms)

end
