(* ===== verification/Paper_Deployment.thy ===== *)
theory Paper_Deployment
  imports Deployment_Remote
begin

text \<open>
  \<^verbatim>\<open>src/scripts/validate_paper_deployment.py\<close>: the validator of the isolated EVEDEX DEV paper
  deployment. It imports the helpers of the base validator and follows its style: each function is
  a list of checks in the order of the code, run by \<^const>\<open>gather\<close>. Names that both modules use
  carry the prefix \<open>paper\<close> or \<open>PAPER\<close> here. Sets of strings are lists in sorted order.
\<close>

section \<open>Constants\<close>

definition PAPER_SOURCE_SERVICES :: "string list" where
  "PAPER_SOURCE_SERVICES =
     [''canary-controller'', ''execution-engine'', ''ops-exporter'', ''quant-scouts'',
      ''risk-manager'', ''strategy-engine'']"

definition PAPER_EXPECTED_SERVICES :: "string list" where
  "PAPER_EXPECTED_SERVICES = PAPER_SOURCE_SERVICES @ [''redis'', ''timescaledb'', ''prometheus'', ''grafana'']"

definition PAPER_REPOSITORIES :: "(string \<times> string) list" where
  "PAPER_REPOSITORIES =
     [(''quant-scouts'', ''https://github.com/Kairos-cryptoAI/kairos-quant-scouts''),
      (''strategy-engine'', ''https://github.com/Kairos-cryptoAI/kairos-strategy-engine''),
      (''risk-manager'', ''https://github.com/Kairos-cryptoAI/kairos-risk-manager''),
      (''canary-controller'', ''https://github.com/Kairos-cryptoAI/kairos-risk-manager''),
      (''execution-engine'', ''https://github.com/Kairos-cryptoAI/kairos-execution-engine''),
      (''ops-exporter'', ''https://github.com/Kairos-cryptoAI/kairos-persistence'')]"

definition PAPER_COMMANDS :: "(string \<times> string) list" where
  "PAPER_COMMANDS =
     [(''quant-scouts'', ''kairos-quant-scouts''), (''strategy-engine'', ''kairos-strategy-engine''),
      (''risk-manager'', ''kairos-risk-manager''), (''canary-controller'', ''kairos-paper-canary''),
      (''execution-engine'', ''kairos-execution-engine''),
      (''ops-exporter'', ''kairos-persistence-exporter'')]"

definition PAPER_EGRESS_SERVICES :: "string list" where
  "PAPER_EGRESS_SERVICES =
     [''execution-engine'', ''quant-scouts'']"

definition PAPER_DEV_SYMBOLS :: string where
  "PAPER_DEV_SYMBOLS =
     ''[\"BTCUSDT\",\"ETHUSDT\",\"SOLUSDT\",\"BNBUSDT\",\"XRPUSDT\"]''"

definition PAPER_DEV_SYMBOL_MAP :: string where
  "PAPER_DEV_SYMBOL_MAP =
     ''{\"BTCUSDT\":\"BTCUSD:DEV\",\"ETHUSDT\":\"ETHUSD:DEV\",\"SOLUSDT\":\"SOLUSD:DEV\",\"BNBUSDT\":\"BNBUSD:DEV\",\"XRPUSDT\":\"XRPUSD:DEV\"}''"

definition PAPER_ENDPOINTS :: "(string \<times> string) list" where
  "PAPER_ENDPOINTS =
     [(''KAIROS_EVEDEX_EXCHANGE_URL'', ''https://trading-api.evedex.tech''),
      (''KAIROS_EVEDEX_AUTH_URL'', ''https://auth-api.evedex.tech''),
      (''KAIROS_EVEDEX_WEBSOCKET_URL'', ''wss://ws.evedex.tech/connection/websocket''),
      (''KAIROS_EVEDEX_WEBSOCKET_PREFIX'', ''futures-perp-dev''),
      (''KAIROS_EVEDEX_CHAIN_ID'', ''16182'')]"

definition PAPER_SIDECAR_NODE_RUNTIME :: string where
  "PAPER_SIDECAR_NODE_RUNTIME = ''/usr/local/bin/node''"

definition PAPER_COMMON_BINDINGS :: "(string \<times> string) list" where
  "PAPER_COMMON_BINDINGS =
     [(''KAIROS_REDIS_URL'', ''/run/secrets/paper_redis_url''),
      (''KAIROS_PERSISTENCE_DATABASE_URL'', ''/run/secrets/paper_persistence_database_url'')]"

definition PAPER_SECRET_FILES :: "(string \<times> string) list" where
  "PAPER_SECRET_FILES =
     [(''paper_redis_password'', ''redis_password''), (''paper_redis_url'', ''redis_url''),
      (''paper_postgres_password'', ''postgres_password''),
      (''paper_persistence_database_url'', ''persistence_database_url''),
      (''paper_grafana_admin_password'', ''grafana_admin_password''),
      (''evedex_dev_api_key'', ''evedex_dev_api_key''),
      (''evedex_dev_private_key'', ''evedex_dev_private_key'')]"

definition FORBIDDEN_PAPER_SERVICES :: "string list" where
  "FORBIDDEN_PAPER_SERVICES =
     [''aggregator'', ''llm'', ''macro-strategist'', ''router'', ''text-scouts'']"

definition FORBIDDEN_PAPER_SECRET_SOURCES :: "string list" where
  "FORBIDDEN_PAPER_SECRET_SOURCES =
     [''ccxt_api_key'', ''ccxt_secret'', ''deepseek_api_key'', ''evedex_jwt'',
      ''evedex_private_key'', ''openai_api_key'', ''x_bearer_token'']"

definition FORBIDDEN_PAPER_ENV :: "string list" where
  "FORBIDDEN_PAPER_ENV =
     [''KAIROS_CCXT_API_KEY'', ''KAIROS_CCXT_SECRET'', ''KAIROS_DEEPSEEK_API_KEY'',
      ''KAIROS_DRY_RUN'', ''KAIROS_EVEDEX_JWT'', ''KAIROS_EVEDEX_PRIVATE_KEY'',
      ''KAIROS_OPENAI_API_KEY'', ''KAIROS_X_BEARER_TOKEN'']"

definition PAPER_INTERPOLATION_KEYS :: "string list" where
  "PAPER_INTERPOLATION_KEYS =
     [''GRAFANA_ADMIN_USER'', ''KAIROS_EVEDEX_DEV_EXPECTED_ACCOUNT_ID'', ''KAIROS_PAPER_ACCOUNT_ID'',
      ''KAIROS_PAPER_GRAFANA_PORT'', ''KAIROS_PAPER_METRICS_PORT'', ''KAIROS_PAPER_PROMETHEUS_PORT'',
      ''KAIROS_PAPER_SECRETS_DIR'', ''POSTGRES_DB'', ''POSTGRES_USER'']"

definition PAPER_COMMON_ENVIRONMENT :: "(string \<times> string) list" where
  "PAPER_COMMON_ENVIRONMENT =
     [(''KAIROS_ENVIRONMENT'', ''paper''), (''KAIROS_LOG_LEVEL'', ''INFO''),
      (''KAIROS_LOG_JSON'', ''true''), (''KAIROS_BUS_BACKEND'', ''redis''),
      (''KAIROS_TRADING_SYMBOLS'', PAPER_DEV_SYMBOLS)]"

definition PAPER_SOURCE_ENVIRONMENT_KEYS :: "(string \<times> string list) list" where
  "PAPER_SOURCE_ENVIRONMENT_KEYS =
     [(''quant-scouts'',
        map fst PAPER_COMMON_ENVIRONMENT @ [''KAIROS_ENABLE_VENUE_QUALITY_GATE'', ''KAIROS_EVEDEX_DEV_BASE_URL'',
         ''KAIROS_FUNDING_INTERVAL_S'', ''KAIROS_KLINE_FINALITY_DELAY_S'',
         ''KAIROS_KLINE_RECONCILIATION_INTERVAL_S'', ''KAIROS_MAXIMUM_ABS_BASIS_BPS'',
         ''KAIROS_MAXIMUM_BINANCE_FUTURE_SKEW_MS'', ''KAIROS_MAXIMUM_EVEDEX_SLIPPAGE_BPS'',
         ''KAIROS_MAXIMUM_EVEDEX_SPREAD_BPS'', ''KAIROS_MAXIMUM_VENUE_BOOK_AGE_MS'',
         ''KAIROS_MAXIMUM_VENUE_TIMESTAMP_SKEW_MS'', ''KAIROS_SECRET_BINDINGS'',
         ''KAIROS_SNAPSHOT_INTERVAL_S'', ''KAIROS_VENUE_QUALITY_INTERVAL_S'']),
      (''strategy-engine'',
        map fst PAPER_COMMON_ENVIRONMENT @ [''KAIROS_ENABLED_STRATEGY_IDS'', ''KAIROS_SECRET_BINDINGS'', ''KAIROS_TRADING_MODE'']),
      (''risk-manager'',
        map fst PAPER_COMMON_ENVIRONMENT @ [''KAIROS_EVEDEX_PROFILE'', ''KAIROS_PAPER_ACCOUNT_ID'', ''KAIROS_PAPER_STRATEGY_ALLOWLIST'',
         ''KAIROS_REQUIRE_RECONCILED_ACCOUNT'', ''KAIROS_REQUIRE_STRATEGIC_ALLOCATION'',
         ''KAIROS_SECRET_BINDINGS'', ''KAIROS_TRADING_MODE'']),
      (''canary-controller'',
        map fst PAPER_COMMON_ENVIRONMENT @ [''KAIROS_EVEDEX_PROFILE'', ''KAIROS_PAPER_ACCOUNT_ID'', ''KAIROS_PAPER_STRATEGY_ALLOWLIST'',
         ''KAIROS_REQUIRE_RECONCILED_ACCOUNT'', ''KAIROS_REQUIRE_STRATEGIC_ALLOCATION'',
         ''KAIROS_SECRET_BINDINGS'', ''KAIROS_TRADING_MODE'']),
      (''execution-engine'',
        map fst PAPER_COMMON_ENVIRONMENT @ [''KAIROS_ACCOUNT_ID'', ''KAIROS_EVEDEX_AUTH_URL'', ''KAIROS_EVEDEX_CHAIN_ID'',
         ''KAIROS_EVEDEX_DEV_API_KEY_FILE'', ''KAIROS_EVEDEX_DEV_EXPECTED_ACCOUNT_ID'',
         ''KAIROS_EVEDEX_DEV_PRIVATE_KEY_FILE'', ''KAIROS_EVEDEX_DEV_SYMBOL_MAP'',
         ''KAIROS_EVEDEX_EXCHANGE_URL'', ''KAIROS_EVEDEX_PROFILE'', ''KAIROS_EVEDEX_SIDECAR_NODE'',
         ''KAIROS_EVEDEX_WEBSOCKET_PREFIX'', ''KAIROS_EVEDEX_WEBSOCKET_URL'', ''KAIROS_EXCHANGE'',
         ''KAIROS_SECRET_BINDINGS'', ''KAIROS_TRADING_MODE'']),
      (''ops-exporter'',
        map fst PAPER_COMMON_ENVIRONMENT @ [''KAIROS_METRICS_HOST'', ''KAIROS_METRICS_PORT'', ''KAIROS_SECRET_BINDINGS''])]"

definition PAPER_INFRASTRUCTURE_ENVIRONMENT_KEYS :: "(string \<times> string list) list" where
  "PAPER_INFRASTRUCTURE_ENVIRONMENT_KEYS =
     [(''redis'',
        []),
      (''timescaledb'',
        [''POSTGRES_DB'', ''POSTGRES_PASSWORD_FILE'', ''POSTGRES_USER'']),
      (''prometheus'',
        []),
      (''grafana'',
        [''GF_ANALYTICS_CHECK_FOR_UPDATES'', ''GF_ANALYTICS_REPORTING_ENABLED'',
         ''GF_SECURITY_ADMIN_PASSWORD__FILE'', ''GF_SECURITY_ADMIN_USER'', ''GF_USERS_ALLOW_SIGN_UP''])]"

definition PAPER_INFRASTRUCTURE_USERS :: "(string \<times> string) list" where
  "PAPER_INFRASTRUCTURE_USERS =
     [(''redis'', ''redis:redis''), (''timescaledb'', ''postgres:postgres'')]"

definition PAPER_SERVICE_NETWORKS :: "(string \<times> string list) list" where
  "PAPER_SERVICE_NETWORKS =
     [(''redis'',
        [''paper-bus'']),
      (''timescaledb'',
        [''paper-data'']),
      (''quant-scouts'',
        [''paper-bus'', ''paper-data'', ''paper-egress'', ''paper-observability'']),
      (''strategy-engine'',
        [''paper-bus'', ''paper-data'', ''paper-observability'']),
      (''risk-manager'',
        [''paper-bus'', ''paper-data'', ''paper-observability'']),
      (''canary-controller'',
        [''paper-bus'', ''paper-data'', ''paper-observability'']),
      (''execution-engine'',
        [''paper-bus'', ''paper-data'', ''paper-egress'', ''paper-observability'']),
      (''ops-exporter'',
        [''paper-bus'', ''paper-data'', ''paper-management'', ''paper-observability'']),
      (''prometheus'',
        [''paper-management'', ''paper-observability'']),
      (''grafana'',
        [''paper-management'', ''paper-observability''])]"

definition PAPER_FORBIDDEN_SERVICE_OPTIONS :: "string list" where
  "PAPER_FORBIDDEN_SERVICE_OPTIONS =
     [''cap_add'', ''cgroup'', ''cgroup_parent'', ''configs'', ''credential_spec'',
      ''device_cgroup_rules'', ''devices'', ''entrypoint'', ''external_links'', ''ipc'', ''links'',
      ''network_mode'', ''pid'', ''runtime'', ''user'', ''uts'', ''volumes_from'']"

text \<open>\<^verbatim>\<open>kairos-paper-dev-[a-z0-9](?:[a-z0-9-]{0,46}[a-z0-9])?\<close>\<close>

definition PAPER_ACCOUNT_PATTERN :: "string \<Rightarrow> bool" where
  "PAPER_ACCOUNT_PATTERN s \<longleftrightarrow> startswith s ''kairos-paper-dev-'' \<and> slug (drop 17 s)"

section \<open>The source lock\<close>

definition paper_lock_service_checks :: "host \<Rightarrow> pyval \<Rightarrow> string \<Rightarrow> string list py" where
  "paper_lock_service_checks h services name =
     py_bind (sub services name) (\<lambda>source.
       gather
         [err_if (get_ne source ''repository'' (the (map_of PAPER_REPOSITORIES name)))
            (name @ '': unexpected PAPER source repository''),
          err_if (text_check h source ''revision'' (\<lambda>s. \<not> hex_lower_n 40 s))
            (name @ '': PAPER revision must be a full immutable Git SHA''),
          err_if (get_ne source ''command'' (the (map_of PAPER_COMMANDS name)))
            (name @ '': unexpected PAPER command''),
          err_if (py_bind (get_truth source ''package_dir'') (\<lambda>b. Inr (\<not> b)))
            (name @ '': PAPER package_dir is required'')])"

definition validate_paper_source_lock :: "host \<Rightarrow> pyval \<Rightarrow> string list py" where
  "validate_paper_source_lock h lock =
     gather
       ([err_if (py_bind (py_get lock ''schema_version'') (\<lambda>v. Inr (\<not> py_eq v (PInt 1))))
           ''paper source lock schema_version must be 1'',
         err_if (py_bind (sub lock ''build'') (\<lambda>build.
             py_or [get_ne build ''python'' ''3.11.15'', get_ne build ''uv'' ''0.12.3'', get_ne build ''node'' ''22'']))
           ''paper source lock must pin Python 3.11.15, uv 0.12.3 and Node 22'']
        @ map (\<lambda>name. err_if (py_bind (sub lock ''dependencies'') (\<lambda>d. text_check h d name (\<lambda>s. \<not> hex_lower_n 40 s)))
             (''paper dependency '' @ name @ '' must have a full immutable Git SHA''))
            [''kairos-core'', ''kairos-persistence'']
        @ [err_if (py_bind (sub lock ''infrastructure'') (\<lambda>i. py_bind (sub i ''redis'') (\<lambda>r.
             get_ne r ''image'' EXPECTED_REDIS_IMAGE)))
             ''paper source lock must pin the required Redis 8.2.8 image'',
           err_if (py_bind (sub lock ''infrastructure'') (\<lambda>i. py_bind (sub i ''redis'') (\<lambda>r.
             get_ne r ''required_feature'' EXPECTED_REDIS_FEATURE)))
             ''paper source lock must record the Redis ACKED-ref-policy feature'',
           err_if (py_bind (sub lock ''services'') (\<lambda>s. keys_differ s PAPER_SOURCE_SERVICES))
             ''paper source lock service set is incomplete or contains paid services'']
        @ map (\<lambda>name. py_bind (sub lock ''services'') (\<lambda>s. paper_lock_service_checks h s name)) PAPER_SOURCE_SERVICES
        @ [err_if (py_bind (sub lock ''services'') (\<lambda>s. extra_ne s ''strategy-engine'' ''runtime''))
             ''strategy-engine must install only its runtime extra'',
           err_if (py_bind (sub lock ''services'') (\<lambda>s. extra_ne s ''execution-engine'' ''evedex''))
             ''execution-engine must install its EVEDEX gateway extra'',
           err_if (py_bind (sub lock ''services'') (\<lambda>s. py_bind (get_default s ''ops-exporter'' (PDict [])) (\<lambda>exporter.
               py_bind (py_get exporter ''revision'') (\<lambda>r. py_bind (sub lock ''dependencies'') (\<lambda>d.
               py_bind (py_get d ''kairos-persistence'') (\<lambda>p. Inr (\<not> py_eq r p)))))))
             ''ops-exporter revision must equal the PAPER persistence dependency''])"

section \<open>One source service\<close>

definition paper_dockerfile :: "string \<Rightarrow> string" where
  "paper_dockerfile name =
     (if name = ''execution-engine'' then ''docker/Dockerfile.paper-execution'' else ''docker/Dockerfile'')"

definition PAPER_ARG_NAMES :: "string list" where
  "PAPER_ARG_NAMES = [''PACKAGE_DIR'', ''SERVICE_EXTRA'', ''SOURCE_REPOSITORY'', ''SOURCE_REVISION'']"

definition validate_source_build :: "host \<Rightarrow> string \<Rightarrow> pyval \<Rightarrow> pyval \<Rightarrow> string list py" where
  "validate_source_build h name service source =
     py_bind (get_text h source ''repository'') (\<lambda>repository.
     py_bind (get_text h source ''revision'') (\<lambda>revision.
     py_bind (sub service ''build'') (\<lambda>build.
     py_bind (context_map h build) (\<lambda>contexts.
     gather
       ([err_if (Inr (set (map fst contexts) \<noteq> {''service''}))
           (name @ '': PAPER build contexts must match the exact allow-list''),
         err_if (Inr (map_of contexts ''service'' \<noteq> Some (repository @ ''.git#'' @ revision)))
           (name @ '': PAPER build context differs from its immutable lock''),
         err_if (context_differs h build) (name @ '': PAPER Docker build context must be this deployment repository''),
         err_if (get_ne build ''dockerfile'' (paper_dockerfile name))
           (name @ '': PAPER Dockerfile differs from the reviewed allow-list''),
         err_if (get_not_true build ''pull'') (name @ '': PAPER builds must refresh digest-pinned base images''),
         err_if (py_bind (sub build ''args'') (\<lambda>args. keys_differ args PAPER_ARG_NAMES))
           (name @ '': PAPER build arguments must match the exact allow-list'')]
        @ map (\<lambda>(key, expected).
             err_if (py_bind (sub build ''args'') (\<lambda>args. py_bind expected (\<lambda>e. arg_differs h args key e)))
               (name @ '': build argument '' @ key @ '' differs from the PAPER lock''))
            [(''PACKAGE_DIR'', py_bind (py_get source ''package_dir'') (\<lambda>v. Inr (py_str (float_text h) v))),
             (''SOURCE_REPOSITORY'', Inr repository),
             (''SOURCE_REVISION'', Inr revision)]
        @ [err_if (py_bind (sub build ''args'') (\<lambda>args. py_bind (get_text h source ''extra'') (\<lambda>x.
               arg_differs h args ''SERVICE_EXTRA'' x)))
             (name @ '': build extra differs from the PAPER lock''),
           err_if (py_bind (py_get service ''command'') (\<lambda>c. py_bind (py_get source ''command'') (\<lambda>t.
               Inr (\<not> py_eq c (PList [t])))))
             (name @ '': runtime command differs from the PAPER lock'')])))))"

section \<open>Checks of every service\<close>

definition paper_environment_keys :: "string \<Rightarrow> string list option" where
  "paper_environment_keys name =
     (if name \<in> set PAPER_SOURCE_SERVICES then map_of PAPER_SOURCE_ENVIRONMENT_KEYS name
      else map_of PAPER_INFRASTRUCTURE_ENVIRONMENT_KEYS name)"

definition paper_networks :: "string \<Rightarrow> string list" where
  "paper_networks name = (case map_of PAPER_SERVICE_NETWORKS name of None \<Rightarrow> [] | Some ns \<Rightarrow> ns)"

definition paper_common_checks :: "host \<Rightarrow> string \<times> pyval \<Rightarrow> string list py" where
  "paper_common_checks h = (\<lambda>(name, service).
     py_bind (sub service ''environment'') (\<lambda>environment.
     py_bind (network_set service) (\<lambda>networks.
     gather
       ([err_if (get_truth service ''env_file'') (name @ '': env_file is forbidden''),
         err_if (get_truth service ''privileged'') (name @ '': privileged mode is forbidden'')]
        @ map (\<lambda>option.
             if option = ''user'' \<and> name \<in> set (map fst PAPER_INFRASTRUCTURE_USERS) then Inr []
             else err_if (option_set service option) (name @ '': unsafe Compose option '' @ option @ '' is forbidden''))
           PAPER_FORBIDDEN_SERVICE_OPTIONS
        @ [err_if (py_bind (py_set environment) (\<lambda>ks. Inr (meet_strs FORBIDDEN_PAPER_ENV ks \<noteq> [])))
             (name @ '': legacy/live/paid credential environment is forbidden''),
           err_if (py_bind (secret_sources h service) (\<lambda>ss. Inr (list_ex (\<lambda>f. f \<in> set ss) FORBIDDEN_PAPER_SECRET_SOURCES)))
             (name @ '': live or paid provider secret is forbidden''),
           err_if (Inr (name \<notin> set PAPER_EGRESS_SERVICES \<and> PStr ''paper-egress'' \<in> set networks))
             (name @ '': PAPER egress is forbidden outside the exact allow-list''),
           py_bind (get_default service ''volumes'' (PList [])) (\<lambda>v.
           py_bind (py_iter (or_empty_list v)) (\<lambda>volumes.
             gather (map (\<lambda>volume. err_if (mounts_docker_socket h volume)
               (name @ '': Docker socket mount is forbidden'')) volumes))),
           err_if (if name \<in> set PAPER_SOURCE_SERVICES then get_truth service ''volumes'' else Inr False)
             (name @ '': PAPER application bind/volume mounts are forbidden''),
           err_if (case paper_environment_keys name of None \<Rightarrow> Inr False | Some ks \<Rightarrow> keys_differ environment ks)
             (name @ '': environment keys must match the exact PAPER allow-list''),
           err_if (Inr (\<not> same_strs networks (paper_networks name)))
             (name @ '': networks must match the exact PAPER isolation map'')]))))"

section \<open>Checks of a source service\<close>

definition paper_secret_names :: "string \<Rightarrow> string list" where
  "paper_secret_names name =
     [''paper_redis_url'', ''paper_persistence_database_url'']
     @ (if name = ''execution-engine'' then [''evedex_dev_api_key'', ''evedex_dev_private_key''] else [])"

definition paper_source_checks :: "host \<Rightarrow> pyval \<Rightarrow> pyval \<Rightarrow> string \<Rightarrow> string list py" where
  "paper_source_checks h services locked_services name =
     py_bind (sub services name) (\<lambda>service.
     py_bind (get_default locked_services name (PDict [])) (\<lambda>source.
     gather
       ([validate_source_build h name service source,
         err_if (get_not_true service ''read_only'') (name @ '': PAPER root filesystem must be read-only''),
         err_if (py_bind (py_get service ''cap_drop'') (\<lambda>v. Inr (v \<noteq> PList [PStr ''ALL''])))
           (name @ '': all capabilities must be dropped''),
         err_if (py_bind (py_get service ''security_opt'') (\<lambda>v. Inr (v \<noteq> PList [PStr ''no-new-privileges:true''])))
           (name @ '': no-new-privileges must be enabled''),
         err_if (get_not_true service ''init'') (name @ '': the reviewed init wrapper must remain enabled'')]
        @ map (\<lambda>dependency. err_if (not_healthy service dependency) (name @ '': must wait for healthy '' @ dependency))
            [''redis'', ''timescaledb'']
        @ [err_if (py_bind (network_set service) (\<lambda>ns.
               Inr (\<not> list_all (\<lambda>n. PStr n \<in> set ns) [''paper-bus'', ''paper-data'', ''paper-observability''])))
             (name @ '': isolated PAPER bus/data/observability networks are required''),
           err_if (py_bind (network_set service) (\<lambda>ns.
               Inr ((name \<in> set PAPER_EGRESS_SERVICES) \<noteq> (PStr ''paper-egress'' \<in> set ns))))
             (name @ '': PAPER egress assignment violates the allow-list''),
           err_if (py_bind (bindings h service) (\<lambda>b. Inr (\<not> same_dict b PAPER_COMMON_BINDINGS)))
             (name @ '': secret bindings must match the exact PAPER allow-list''),
           err_if (py_bind (secret_sources h service) (\<lambda>ss. Inr (set ss \<noteq> set (paper_secret_names name))))
             (name @ '': secret source set must match the exact PAPER allow-list''),
           err_if (if name \<noteq> ''ops-exporter'' then get_truth service ''ports'' else Inr False)
             (name @ '': application ports must not be published to the host'')]
        @ map (\<lambda>(key, expected).
             err_if (py_bind (sub service ''environment'') (\<lambda>env. text_check h env key (\<lambda>s. s \<noteq> expected)))
               (name @ '': common PAPER setting '' @ key @ '' must be '' @ expected)) PAPER_COMMON_ENVIRONMENT)))"

section \<open>Mode, venue and credentials\<close>

text \<open>\<^verbatim>\<open>(services.get(name, {}) or {}).get("environment", {}) or {}\<close>\<close>

definition paper_env :: "pyval \<Rightarrow> string \<Rightarrow> pyval py" where
  "paper_env services name = py_bind (sub services name) (\<lambda>service. sub service ''environment'')"

definition mode_checks :: "host \<Rightarrow> pyval \<Rightarrow> string \<Rightarrow> string list py" where
  "mode_checks h services name =
     py_bind (paper_env services name) (\<lambda>env.
     gather
       [err_if (get_ne env ''KAIROS_TRADING_MODE'' ''PAPER'') (name @ '': KAIROS_TRADING_MODE must be PAPER''),
        err_if (text_check h env ''KAIROS_ENVIRONMENT'' (\<lambda>s. casefold_points s \<noteq> map of_char ''paper''))
          (name @ '': KAIROS_ENVIRONMENT must be paper''),
        err_if (get_ne env ''KAIROS_TRADING_SYMBOLS'' PAPER_DEV_SYMBOLS)
          (name @ '': exact five-symbol PAPER universe is required'')])"

definition CANARY_ALLOWLIST :: string where
  "CANARY_ALLOWLIST = ''[\"technical-canary@1\"]''"

definition risk_checks :: "host \<Rightarrow> pyval \<Rightarrow> string list py" where
  "risk_checks h services =
     py_bind (paper_env services ''risk-manager'') (\<lambda>risk_env.
     gather
       ([err_if (get_ne risk_env ''KAIROS_EVEDEX_PROFILE'' ''DEV'') ''risk-manager: EVEDEX profile must be DEV'',
         err_if (get_ne risk_env ''KAIROS_PAPER_STRATEGY_ALLOWLIST'' CANARY_ALLOWLIST)
           ''risk-manager: only the technical canary revision may be armed'',
         err_if (text_check h risk_env ''KAIROS_PAPER_ACCOUNT_ID'' (\<lambda>s. \<not> PAPER_ACCOUNT_PATTERN s))
           ''risk-manager: dedicated PAPER account must use the kairos-paper-dev-* namespace'']
        @ map (\<lambda>flag. err_if (py_bind (py_get risk_env flag) (\<lambda>v. Inr (\<not> is_true h v)))
             (''risk-manager: '' @ flag @ '' must remain enabled''))
            [''KAIROS_REQUIRE_RECONCILED_ACCOUNT'', ''KAIROS_REQUIRE_STRATEGIC_ALLOCATION'']))"

text \<open>\<^verbatim>\<open>env.get(key) != risk_env.get("KAIROS_PAPER_ACCOUNT_ID")\<close>\<close>

definition account_differs :: "pyval \<Rightarrow> string \<Rightarrow> pyval \<Rightarrow> bool py" where
  "account_differs env key risk_env =
     py_bind (py_get env key) (\<lambda>a. py_bind (py_get risk_env ''KAIROS_PAPER_ACCOUNT_ID'') (\<lambda>b. Inr (\<not> py_eq a b)))"

definition canary_checks :: "host \<Rightarrow> pyval \<Rightarrow> string list py" where
  "canary_checks h services =
     py_bind (paper_env services ''risk-manager'') (\<lambda>risk_env.
     py_bind (sub services ''canary-controller'') (\<lambda>canary.
     py_bind (sub canary ''environment'') (\<lambda>canary_env.
     gather
       [err_if (py_or [py_bind (py_get canary ''profiles'') (\<lambda>v. Inr (v \<noteq> PList [PStr ''canary''])),
                       text_check h canary ''restart'' (\<lambda>s. casefold_points s \<noteq> map of_char ''no'')])
          ''canary-controller: must remain an explicit one-shot canary profile'',
        err_if (account_differs canary_env ''KAIROS_PAPER_ACCOUNT_ID'' risk_env)
          ''canary-controller: dedicated account must match risk-manager'',
        err_if (get_ne canary_env ''KAIROS_EVEDEX_PROFILE'' ''DEV'') ''canary-controller: EVEDEX profile must be DEV'',
        err_if (get_ne canary_env ''KAIROS_PAPER_STRATEGY_ALLOWLIST'' CANARY_ALLOWLIST)
          ''canary-controller: only the technical canary revision may be armed'',
        err_if (py_bind (secret_sources h canary) (\<lambda>ss.
            Inr (list_ex (\<lambda>s. s \<notin> {''paper_redis_url'', ''paper_persistence_database_url''}) ss)))
          ''canary-controller: exchange and paid-provider credentials are forbidden''])))"

definition expected_quant :: "(string \<times> string) list" where
  "expected_quant =
     [(''KAIROS_ENABLE_VENUE_QUALITY_GATE'', ''true''), (''KAIROS_SNAPSHOT_INTERVAL_S'', ''5''),
      (''KAIROS_FUNDING_INTERVAL_S'', ''30''), (''KAIROS_KLINE_RECONCILIATION_INTERVAL_S'', ''5''),
      (''KAIROS_KLINE_FINALITY_DELAY_S'', ''5''), (''KAIROS_MAXIMUM_BINANCE_FUTURE_SKEW_MS'', ''2000''),
      (''KAIROS_EVEDEX_DEV_BASE_URL'', ''https://trading-api.evedex.tech''),
      (''KAIROS_VENUE_QUALITY_INTERVAL_S'', ''30''), (''KAIROS_MAXIMUM_ABS_BASIS_BPS'', ''25''),
      (''KAIROS_MAXIMUM_EVEDEX_SPREAD_BPS'', ''25''), (''KAIROS_MAXIMUM_EVEDEX_SLIPPAGE_BPS'', ''25''),
      (''KAIROS_MAXIMUM_VENUE_BOOK_AGE_MS'', ''5000''), (''KAIROS_MAXIMUM_VENUE_TIMESTAMP_SKEW_MS'', ''2000'')]"

definition quant_checks :: "host \<Rightarrow> pyval \<Rightarrow> string list py" where
  "quant_checks h services =
     py_bind (paper_env services ''quant-scouts'') (\<lambda>quant_env.
     gather (map (\<lambda>(key, expected).
         err_if (text_check h quant_env key (\<lambda>s. casefold_points s \<noteq> casefold_points expected))
           (''quant-scouts: '' @ key @ '' must be '' @ expected)) expected_quant))"

definition venue_checks :: "host \<Rightarrow> pyval \<Rightarrow> string list py" where
  "venue_checks h services =
     py_bind (paper_env services ''risk-manager'') (\<lambda>risk_env.
     py_bind (sub services ''execution-engine'') (\<lambda>execution.
     py_bind (sub execution ''environment'') (\<lambda>execution_env.
     gather
       ([err_if (py_bind (get_default execution ''build'' (PDict [])) (\<lambda>build.
             get_ne build ''dockerfile'' ''docker/Dockerfile.paper-execution''))
           ''execution-engine: PAPER must use the bundled Node sidecar Dockerfile'']
        @ map (\<lambda>(key, expected). err_if (text_check h execution_env key (\<lambda>s. s \<noteq> expected))
             (''execution-engine: '' @ key @ '' differs from official DEV'')) PAPER_ENDPOINTS
        @ [err_if (get_ne execution_env ''KAIROS_EVEDEX_PROFILE'' ''DEV'') ''execution-engine: EVEDEX profile must be DEV'',
           err_if (text_check h execution_env ''KAIROS_EXCHANGE'' (\<lambda>s. casefold_points s \<noteq> map of_char ''evedex''))
             ''execution-engine: PAPER exchange must be exactly EVEDEX'',
           err_if (get_ne execution_env ''KAIROS_EVEDEX_DEV_SYMBOL_MAP'' PAPER_DEV_SYMBOL_MAP)
             ''execution-engine: exact EVEDEX DEV symbol map is required'',
           err_if (account_differs execution_env ''KAIROS_ACCOUNT_ID'' risk_env)
             ''execution-engine: dedicated account must match risk-manager'',
           err_if (text_check h execution_env ''KAIROS_EVEDEX_DEV_EXPECTED_ACCOUNT_ID'' (\<lambda>s. strip s = []))
             ''execution-engine: expected remote DEV account identity is required'',
           err_if (py_bind (secret_sources h execution) (\<lambda>ss.
               Inr (\<not> list_all (\<lambda>x. x \<in> set ss) [''evedex_dev_api_key'', ''evedex_dev_private_key''])))
             ''execution-engine: separate DEV API and signing key secrets are required'',
           err_if (get_ne execution_env ''KAIROS_EVEDEX_DEV_API_KEY_FILE'' ''/run/secrets/evedex_dev_api_key'')
             ''execution-engine: DEV API key must be passed only as a file'',
           err_if (get_ne execution_env ''KAIROS_EVEDEX_DEV_PRIVATE_KEY_FILE'' ''/run/secrets/evedex_dev_private_key'')
             ''execution-engine: DEV private key must be passed only as a file'',
           err_if (get_ne execution_env ''KAIROS_EVEDEX_SIDECAR_NODE'' PAPER_SIDECAR_NODE_RUNTIME)
             ''execution-engine: sidecar runtime must be the absolute image-pinned /usr/local/bin/node'']))))"

section \<open>Secret files\<close>

text \<open>
  \<^verbatim>\<open>path.rsplit("/", maxsplit=1)\<close> at the code points of a folded path: what stands before and what
  after the last separator; a path without one is returned whole by both.
\<close>

definition rsplit_head :: "nat list \<Rightarrow> nat list" where
  "rsplit_head path = (if 47 \<in> set path then rev (tl (dropWhile (\<lambda>c. c \<noteq> 47) (rev path))) else path)"

definition rsplit_last :: "nat list \<Rightarrow> nat list" where
  "rsplit_last path = rev (takeWhile (\<lambda>c. c \<noteq> 47) (rev path))"

definition rstrip_slash :: "nat list \<Rightarrow> nat list" where
  "rstrip_slash path = rev (dropWhile (\<lambda>c. c = 47) (rev path))"

text \<open>\<^verbatim>\<open>definition.get("name") not in (None, f"kairos-paper_{name}")\<close>\<close>

definition paper_aliased :: "pyval \<Rightarrow> string \<Rightarrow> bool py" where
  "paper_aliased definition name =
     py_bind (py_get definition ''name'') (\<lambda>v. Inr (v \<notin> {PNone, PStr (''kairos-paper_'' @ name)}))"

definition resolved_paths :: "host \<Rightarrow> pyval \<Rightarrow> nat list list py" where
  "resolved_paths h secret_definitions =
     py_bind (py_map (\<lambda>(name, _). secret_path h secret_definitions name) PAPER_SECRET_FILES) (\<lambda>ps.
       Inr (map casefold_points (filter (\<lambda>p. p \<noteq> []) ps)))"

definition paper_secret_checks :: "host \<Rightarrow> pyval \<Rightarrow> string list py" where
  "paper_secret_checks h config =
     py_bind (sub config ''secrets'') (\<lambda>secret_definitions.
     gather
       ([err_if (keys_differ secret_definitions (map fst PAPER_SECRET_FILES))
           ''top-level secret definitions must match the exact PAPER allow-list'']
        @ map (\<lambda>(name, basename).
             py_bind (sub secret_definitions name) (\<lambda>definition.
             gather
               [err_if (paper_aliased definition name) (name @ '': resolved secret resource aliases another Compose project''),
                err_if (py_bind (secret_path h secret_definitions name) (\<lambda>resolved.
                    Inr (\<not> endswith resolved (''/'' @ basename))))
                  (name @ '': secret file must end with /'' @ basename)])) PAPER_SECRET_FILES
        @ [err_if (py_bind (resolved_paths h secret_definitions) (\<lambda>ps. Inr (\<not> distinct ps)))
             ''top-level PAPER secret files must resolve to distinct paths'',
           err_if (py_bind (resolved_paths h secret_definitions) (\<lambda>ps.
               Inr (length (remdups (map rsplit_head ps)) \<noteq> 1)))
             ''top-level PAPER secret files must share one dedicated directory'',
           err_if (py_bind (resolved_paths h secret_definitions) (\<lambda>ps.
               Inr (list_ex (\<lambda>parent. rsplit_last (rstrip_slash parent) = map of_char ''secrets'') (map rsplit_head ps))))
             ''PAPER secrets must not reuse the base deployment secret directory'']))"

section \<open>Infrastructure\<close>

definition paper_infrastructure_secrets :: "(string \<times> string list) list" where
  "paper_infrastructure_secrets =
     [(''redis'', [''paper_redis_password'']), (''timescaledb'', [''paper_postgres_password'']), (''prometheus'', []),
      (''grafana'', [''paper_grafana_admin_password''])]"

definition paper_infrastructure_checks :: "host \<Rightarrow> pyval \<Rightarrow> string list py" where
  "paper_infrastructure_checks h services =
     gather (map (\<lambda>(name, expected).
         err_if (py_bind (sub services name) (\<lambda>service.
             py_bind (secret_sources h service) (\<lambda>ss. Inr (set ss \<noteq> set expected))))
           (name @ '': infrastructure secret set must match the exact PAPER allow-list''))
       paper_infrastructure_secrets)"

definition paper_volume_targets :: "(string \<times> (string \<times> string \<times> string \<times> bool) list) list" where
  "paper_volume_targets =
     [(''redis'', [(''/data'', ''volume'', ''paper-redis-data'', False)]),
      (''timescaledb'',
        [(''/var/lib/postgresql/data'', ''volume'', ''paper-ts-data'', False),
         (''/docker-entrypoint-initdb.d/001-kairos.sql'', ''bind'', ''/timescaledb/schema.sql'', True)]),
      (''prometheus'',
        [(''/prometheus'', ''volume'', ''paper-prometheus-data'', False),
         (''/etc/prometheus/prometheus.yml'', ''bind'', ''/monitoring/prometheus.yml'', True),
         (''/etc/prometheus/alerts.yml'', ''bind'', ''/monitoring/alerts.yml'', True)]),
      (''grafana'',
        [(''/var/lib/grafana'', ''volume'', ''paper-grafana-data'', False),
         (''/etc/grafana/provisioning/datasources/kairos.yml'', ''bind'', ''/monitoring/grafana-datasource.yml'', True)])]"

definition paper_volume_checks :: "host \<Rightarrow> pyval \<Rightarrow> string list py" where
  "paper_volume_checks h services =
     gather (map (\<lambda>(name, expected).
         py_bind (sub services name) (\<lambda>service.
         py_bind (get_default service ''volumes'' (PList [])) (\<lambda>v.
         py_bind (py_iter (or_empty_list v)) (\<lambda>actual_volumes.
         let actual_by_target = by_target h actual_volumes in
         if set (map fst actual_by_target) \<noteq> set (map fst expected)
         then Inr [name @ '': volume targets must match the exact PAPER allow-list'']
         else gather (map (\<lambda>(target, kind, source, read_only).
                err_if (py_bind (py_item (PDict actual_by_target) target) (\<lambda>volume.
                    volume_differs h volume kind source read_only))
                  (name @ '': volume '' @ target @ '' differs from the PAPER allow-list'')) expected)))))
       paper_volume_targets)"

definition paper_named_volumes :: "string list" where
  "paper_named_volumes = [''paper-redis-data'', ''paper-ts-data'', ''paper-prometheus-data'', ''paper-grafana-data'']"

definition paper_named_volume_checks :: "pyval \<Rightarrow> string list py" where
  "paper_named_volume_checks config =
     gather
       ([err_if (py_bind (sub config ''volumes'') (\<lambda>v. keys_differ v paper_named_volumes))
           ''top-level PAPER volumes must match the exact allow-list'']
        @ map (\<lambda>name. err_if (py_bind (sub config ''volumes'') (\<lambda>v. py_bind (sub v name) (\<lambda>definition.
               paper_aliased definition name)))
             (name @ '': resolved volume aliases another Compose project'')) paper_named_volumes)"

definition paper_database_checks :: "host \<Rightarrow> pyval \<Rightarrow> string list py" where
  "paper_database_checks h services =
     py_bind (sub services ''redis'') (\<lambda>redis.
     py_bind (sub services ''timescaledb'') (\<lambda>timescale.
     gather
       ([err_if (py_or [get_ne redis ''image'' EXPECTED_REDIS_IMAGE, get_truth redis ''ports''])
           ''PAPER Redis must use the pinned image without a host port'',
         err_if (py_bind (secret_sources h redis) (\<lambda>ss. Inr (''paper_redis_password'' \<notin> set ss)))
           ''PAPER Redis password secret is missing'',
         err_if (get_truth timescale ''ports'') ''PAPER TimescaleDB must not publish a host port'',
         err_if (py_bind (sub timescale ''environment'') (\<lambda>env.
             get_ne env ''POSTGRES_PASSWORD_FILE'' ''/run/secrets/paper_postgres_password''))
           ''PAPER TimescaleDB must read its isolated password file'']
        @ map (\<lambda>name. err_if (py_bind (sub services name) (\<lambda>service. text_check h service ''image'' (\<lambda>s. \<not> IMAGE_PATTERN s)))
             (name @ '': infrastructure image must use tag plus sha256 digest''))
            [''redis'', ''timescaledb'', ''prometheus'', ''grafana''])))"

definition PAPER_INTERNAL_NETWORKS :: "string list" where
  "PAPER_INTERNAL_NETWORKS = [''paper-bus'', ''paper-data'', ''paper-observability'', ''paper-management'']"

definition paper_network_checks :: "pyval \<Rightarrow> string list py" where
  "paper_network_checks config =
     py_bind (sub config ''networks'') (\<lambda>networks.
     gather
       ([err_if (keys_differ networks (paper_networks ''execution-engine'' @ [''paper-management'']))
           ''top-level PAPER networks must match the exact allow-list'']
        @ map (\<lambda>name. err_if (py_bind (sub networks name) (\<lambda>n. get_not_true n ''internal''))
             (name @ '': network must be internal'')) PAPER_INTERNAL_NETWORKS
        @ [err_if (py_bind (sub networks ''paper-egress'') (\<lambda>n.
               py_bind (py_get n ''internal'') (\<lambda>v. Inr (v = PBool True))))
             ''paper-egress: network must permit only allow-listed outbound clients'',
           py_bind (py_items networks) (\<lambda>ns.
             gather (map (\<lambda>(name, network). gather
               [err_if (paper_aliased (or_empty network) name)
                  (name @ '': resolved network aliases another Compose project''),
                err_if (if name \<noteq> ''paper-egress'' then get_not_true (or_empty network) ''internal'' else Inr False)
                  (name @ '': only paper-egress may provide external connectivity'')]) ns))]))"

definition paper_port_checks :: "host \<Rightarrow> pyval \<Rightarrow> string \<Rightarrow> string list py" where
  "paper_port_checks h services name =
     py_bind (sub services name) (\<lambda>service.
     py_bind (get_default service ''ports'' (PList [])) (\<lambda>v.
     py_bind (py_iter (or_empty_list v)) (\<lambda>ports.
       gather (map (\<lambda>port. err_if (port_not_loopback h port)
         (name @ '': observability ports must bind only to loopback'')) ports))))"

section \<open>The Compose model\<close>

definition validate_paper_compose :: "host \<Rightarrow> pyval \<Rightarrow> pyval \<Rightarrow> string list py" where
  "validate_paper_compose h config lock =
     py_bind (py_get config ''name'') (\<lambda>project.
     py_bind (sub config ''services'') (\<lambda>services.
     gather
       ([err_if (Inr (project \<noteq> PStr ''kairos-paper'')) ''PAPER Compose project name must be exactly kairos-paper'',
         err_if (keys_differ services PAPER_EXPECTED_SERVICES)
           ''rendered PAPER service set is incomplete or contains unexpected services'',
         err_if (py_bind (py_set services) (\<lambda>ks. Inr (meet_strs FORBIDDEN_PAPER_SERVICES ks \<noteq> [])))
           ''PAPER technical canary must not start LLM/feed/review services'',
         py_bind (py_items services) (\<lambda>ms. gather (map (paper_common_checks h) ms))]
        @ map (\<lambda>(name, user). err_if (py_bind (sub services name) (\<lambda>s. get_ne s ''user'' user))
             (name @ '': must run as the pinned non-root image user'')) PAPER_INFRASTRUCTURE_USERS
        @ map (\<lambda>name. py_bind (sub lock ''services'') (\<lambda>locked_services.
             paper_source_checks h services locked_services name)) PAPER_SOURCE_SERVICES
        @ map (mode_checks h services) [''strategy-engine'', ''risk-manager'', ''canary-controller'', ''execution-engine'']
        @ [err_if (py_bind (paper_env services ''strategy-engine'') (\<lambda>env. get_ne env ''KAIROS_ENABLED_STRATEGY_IDS'' ''[]''))
             ''strategy-engine: PAPER alpha must remain REJECT_ALL'',
           risk_checks h services,
           canary_checks h services,
           quant_checks h services,
           venue_checks h services,
           paper_secret_checks h config,
           paper_infrastructure_checks h services,
           paper_volume_checks h services,
           paper_named_volume_checks config,
           paper_database_checks h services,
           paper_network_checks config]
        @ map (paper_port_checks h services) [''ops-exporter'', ''prometheus'', ''grafana''])))"

section \<open>The interpolation file\<close>

definition PAPER_REQUIRED :: "string list" where
  "PAPER_REQUIRED = [''GRAFANA_ADMIN_USER'', ''KAIROS_EVEDEX_DEV_EXPECTED_ACCOUNT_ID'', ''KAIROS_PAPER_ACCOUNT_ID'',
     ''KAIROS_PAPER_SECRETS_DIR'', ''POSTGRES_DB'', ''POSTGRES_USER'']"

definition PAPER_FORBIDDEN_NAMES :: "string list" where
  "PAPER_FORBIDDEN_NAMES = FORBIDDEN_PAPER_ENV @ [''POSTGRES_PASSWORD'', ''REDIS_PASSWORD'', ''GRAFANA_ADMIN_PASSWORD'',
     ''KAIROS_EVEDEX_DEV_API_KEY'', ''KAIROS_EVEDEX_DEV_PRIVATE_KEY'']"

definition ACCOUNT_SENTINEL :: string where
  "ACCOUNT_SENTINEL = ''replace-with-dedicated-evedex-dev-account-id''"

definition validate_paper_environment :: "(string \<times> string) list \<Rightarrow> bool \<Rightarrow> string list" where
  "validate_paper_environment environment allow_example_values =
     (let unexpected = filter (\<lambda>k. k \<notin> set PAPER_INTERPOLATION_KEYS) (map fst environment) in
      if unexpected \<noteq> []
      then [''PAPER interpolation keys must match the reviewed allow-list; unexpected: '' @ join '', '' (sorted_set unexpected)]
      else [])
     @ concat (map (\<lambda>name. if env_get environment name = [] then [name @ '' must be set for PAPER''] else []) PAPER_REQUIRED)
     @ map (\<lambda>name. name @ '' must not be stored in the PAPER interpolation file'')
         (sorted_set (filter (\<lambda>n. n \<in> set (map fst environment)) PAPER_FORBIDDEN_NAMES))
     @ (if \<not> PAPER_ACCOUNT_PATTERN (env_get environment ''KAIROS_PAPER_ACCOUNT_ID'')
        then [''KAIROS_PAPER_ACCOUNT_ID must use the dedicated kairos-paper-dev-* namespace''] else [])
     @ (if map_of environment ''POSTGRES_USER'' \<noteq> Some ''kairos'' \<or> map_of environment ''POSTGRES_DB'' \<noteq> Some ''kairos''
        then [''PAPER PostgreSQL identity must match the provisioned kairos/kairos DSN''] else [])
     @ (if \<not> allow_example_values
           \<and> map_of environment ''KAIROS_EVEDEX_DEV_EXPECTED_ACCOUNT_ID'' = Some ACCOUNT_SENTINEL
        then [''replace the EVEDEX DEV account-id sentinel before PAPER preflight''] else [])"

section \<open>Remote sources and the entry point\<close>

definition paper_persistence_check :: "pyval \<Rightarrow> pyval \<Rightarrow> string \<Rightarrow> string \<Rightarrow> string list py" where
  "paper_persistence_check sources dependencies name revision =
     (if name = ''ops-exporter'' then
        err_if (py_bind (py_get dependencies ''kairos-persistence'') (\<lambda>d. Inr (PStr revision \<noteq> d)))
          ''ops-exporter must run the locked persistence revision''
      else
        err_if (py_bind (source_rev sources ''kairos-persistence'') (\<lambda>r.
            py_bind (py_get dependencies ''kairos-persistence'') (\<lambda>d. Inr (\<not> py_eq r d))))
          (name @ '': kairos-persistence SHA differs from the PAPER lock''))"

definition sidecar_checks :: "pyval \<Rightarrow> string list py" where
  "sidecar_checks package =
     gather
       [err_if (py_bind (sub package ''dependencies'') (\<lambda>d. get_ne d ''@evedex/exchange-bot-sdk'' ''1.2.11''))
          ''execution-engine: official EVEDEX SDK must be pinned to 1.2.11'',
        err_if (py_bind (sub package ''engines'') (\<lambda>e. get_ne e ''node'' ''22.x''))
          ''execution-engine: sidecar runtime must require exact Node 22.x'']"

definition paper_uv_sources :: "pyval \<Rightarrow> pyval py" where
  "paper_uv_sources pyproject = py_bind (tool_uv pyproject) (\<lambda>uv. sub uv ''sources'')"

definition verify_paper_source :: "host \<Rightarrow> remote \<Rightarrow> pyval \<Rightarrow> string \<times> pyval \<Rightarrow> string list py" where
  "verify_paper_source h R lock = (\<lambda>(name, source).
     py_bind (sub lock ''dependencies'') (\<lambda>dependencies.
     py_bind (get_text h source ''repository'') (\<lambda>repository.
     py_bind (get_text h source ''revision'') (\<lambda>revision.
       if \<not> hex_lower_n 40 revision then Inr []
       else
         let slug = remove_prefix ''https://github.com/'' repository;
             raw = ''https://raw.githubusercontent.com/'' @ slug @ ''/'' @ revision;
             pyproject = py_bind (fetch R (raw @ ''/pyproject.toml'')) (toml R);
             scripts = py_bind pyproject (\<lambda>p. py_bind (sub p ''project'') (\<lambda>project. sub project ''scripts''));
             sources = py_bind pyproject paper_uv_sources;
             lock_text = fetch R (raw @ ''/uv.lock'')
         in attempt (\<lambda>e. map_option (\<lambda>c. [name @ '': remote PAPER source verification failed ('' @ c @ '')'']) (remote_caught e))
           [err_if (py_bind (fetch R (''https://api.github.com/repos/'' @ slug @ ''/commits/'' @ revision)) (\<lambda>t.
                py_bind (json R t) (\<lambda>metadata. get_ne metadata ''sha'' revision)))
              (name @ '': GitHub resolved an unexpected PAPER revision''),
            err_if (py_bind scripts (\<lambda>ss. py_bind (py_get source ''command'') (\<lambda>c. py_not_in c ss)))
              (name @ '': PAPER command is absent from project.scripts''),
            err_if (py_bind sources (\<lambda>s. py_bind (source_rev s ''kairos-core'') (\<lambda>r.
                py_bind (py_get dependencies ''kairos-core'') (\<lambda>d. Inr (\<not> py_eq r d)))))
              (name @ '': kairos-core SHA differs from the PAPER lock''),
            py_bind sources (\<lambda>s. paper_persistence_check s dependencies name revision),
            err_if (py_bind pyproject (\<lambda>p.
                if name = ''strategy-engine''
                then py_bind (sub p ''project'') (\<lambda>project. py_bind (sub project ''optional-dependencies'') (\<lambda>extras.
                       py_not_in (PStr ''runtime'') extras))
                else Inr False))
              ''strategy-engine: runtime optional dependency is missing'',
            err_if (py_bind scripts (\<lambda>ss.
                if name \<in> {''risk-manager'', ''canary-controller''} then py_not_in (PStr ''kairos-paper-canary'') ss
                else Inr False))
              ''risk-manager: manually armed canary command is missing'',
            (if name = ''execution-engine''
             then py_bind (fetch R (raw @ ''/kairos_execution/evedex_sidecar/package.json'')) (\<lambda>t.
                  py_bind (json R t) sidecar_checks)
             else Inr []),
            err_if (py_bind lock_text (\<lambda>t. py_bind (py_get dependencies ''kairos-core'') (\<lambda>d. py_not_in d (PStr t))))
              (name @ '': uv.lock lacks pinned PAPER kairos-core SHA''),
            err_if (py_bind lock_text (\<lambda>t.
                if name \<noteq> ''ops-exporter''
                then py_bind (py_get dependencies ''kairos-persistence'') (\<lambda>d. py_not_in d (PStr t))
                else Inr False))
              (name @ '': uv.lock lacks pinned PAPER kairos-persistence SHA'')]))))"

definition verify_remote_paper_sources :: "host \<Rightarrow> remote \<Rightarrow> pyval \<Rightarrow> string list py" where
  "verify_remote_paper_sources h R lock =
     py_bind (sub lock ''services'') (\<lambda>services.
     py_bind (py_items services) (\<lambda>ms.
       gather (map (\<lambda>k. verify_paper_source h R lock (k, dict_get ms k)) (sorted_set (map fst ms)))))"

record paper_args =
  p_source_lock :: "pyval py"
  p_compose_json :: "pyval py option"
  p_env_file :: "string py option"
  p_verify_remote :: bool
  p_allow_example_values :: bool

definition paper_errors :: "host \<Rightarrow> remote \<Rightarrow> paper_args \<Rightarrow> string list py" where
  "paper_errors h R args =
     py_bind (load_json (p_source_lock args)) (\<lambda>lock.
     gather
       [validate_paper_source_lock h lock,
        (case p_compose_json args of
           None \<Rightarrow> Inr []
         | Some contents \<Rightarrow> py_bind (load_json contents) (\<lambda>config. validate_paper_compose h config lock)),
        (case p_env_file args of
           None \<Rightarrow> Inr []
         | Some contents \<Rightarrow> py_bind contents (\<lambda>text. py_bind (parse_dotenv text) (\<lambda>env.
             Inr (validate_paper_environment env (p_allow_example_values args))))),
        (if p_verify_remote args then verify_remote_paper_sources h R lock else Inr [])])"

definition paper_main :: "host \<Rightarrow> remote \<Rightarrow> paper_args \<Rightarrow> int py" where
  "paper_main h R args =
     (case paper_errors h R args of
        Inl e \<Rightarrow> if deploy_caught e then Inr 2 else Inl e
      | Inr errors \<Rightarrow> Inr (if errors \<noteq> [] then 1 else 0))"

end
