(* ===== verification/Paper_Gate.thy ===== *)
theory Paper_Gate
  imports Compose_Contract Paper_Deployment
begin

text \<open>
  What an accepted paper deployment guarantees: the same isolation, secret and exit contracts as
  the base validator, by interpretation of the same interfaces, and what is particular to paper
  trading: only the development venue, one dedicated account, one dedicated secret directory.
\<close>

section \<open>The parts of an accepted model\<close>

lemma validate_paper_compose_ok:
  assumes "validate_paper_compose h config lock = Inr []"
  obtains ms sources where
    "sub config ''services'' = Inr (PDict ms)" "sub lock ''services'' = Inr sources"
    "set (map fst ms) = set PAPER_EXPECTED_SERVICES"
    "\<forall>x \<in> set ms. paper_common_checks h x = Inr []"
    "\<forall>name \<in> set PAPER_SOURCE_SERVICES. paper_source_checks h (PDict ms) sources name = Inr []"
    "\<forall>name \<in> {''strategy-engine'', ''risk-manager'', ''canary-controller'', ''execution-engine''}.
       mode_checks h (PDict ms) name = Inr []"
    "risk_checks h (PDict ms) = Inr []" "canary_checks h (PDict ms) = Inr []" "venue_checks h (PDict ms) = Inr []"
    "paper_secret_checks h config = Inr []" "paper_network_checks config = Inr []"
proof -
  from assms obtain project services where s: "sub config ''services'' = Inr services"
    and keys: "keys_differ services PAPER_EXPECTED_SERVICES = Inr False"
    and items: "py_bind (py_items services) (\<lambda>ms. gather (map (paper_common_checks h) ms)) = Inr []"
    and src: "\<forall>name \<in> set PAPER_SOURCE_SERVICES.
      py_bind (sub lock ''services'') (\<lambda>ls. paper_source_checks h services ls name) = Inr []"
    and mode: "\<forall>name \<in> {''strategy-engine'', ''risk-manager'', ''canary-controller'', ''execution-engine''}.
       mode_checks h services name = Inr []"
    and parts: "risk_checks h services = Inr []" "canary_checks h services = Inr []" "venue_checks h services = Inr []"
      "paper_secret_checks h config = Inr []" "paper_network_checks config = Inr []"
    unfolding validate_paper_compose_def py_bind_Inr_iff gather_Nil set_append set_map ball_Un list.set err_if_Nil
    by (auto simp: py_bind_Inr_iff gather_Nil)
  from items obtain ms where ms: "services = PDict ms" "\<forall>x \<in> set ms. paper_common_checks h x = Inr []"
    by (cases services) (auto simp: py_bind_Inr_iff gather_Nil)
  have k: "set (map fst ms) = set PAPER_EXPECTED_SERVICES"
    using keys by (simp add: ms(1) keys_differ_def same_strs_items del: set_map)
  have "py_bind (sub lock ''services'') (\<lambda>ls. paper_source_checks h services ls ''risk-manager'') = Inr []"
    using src by (simp add: PAPER_SOURCE_SERVICES_def)
  then obtain sources where sources: "sub lock ''services'' = Inr sources" by (auto simp: py_bind_Inr_iff)
  from that [of ms sources] s sources k ms src mode parts show thesis by simp
qed

section \<open>Networks\<close>

lemma paper_common_networks:
  assumes "paper_common_checks h (name, service) = Inr []"
  shows "\<exists>nets. network_set service = Inr nets \<and> same_strs nets (paper_networks name)"
  using assms unfolding paper_common_checks_def prod.case py_bind_Inr_iff gather_Nil by auto

lemma paper_networks_allowed:
  assumes "k \<in> set (paper_networks name)"
  shows "k \<in> set PAPER_INTERNAL_NETWORKS \<or> k = ''paper-egress'' \<and> name \<in> set PAPER_EGRESS_SERVICES"
proof -
  obtain ks where ks: "map_of PAPER_SERVICE_NETWORKS name = Some ks" "k \<in> set ks"
    using assms by (cases "map_of PAPER_SERVICE_NETWORKS name") (simp_all add: paper_networks_def)
  have "list_all (\<lambda>(n, ks). list_all (\<lambda>k. k \<in> set PAPER_INTERNAL_NETWORKS
      \<or> k = ''paper-egress'' \<and> n \<in> set PAPER_EGRESS_SERVICES) ks) PAPER_SERVICE_NETWORKS"
    by code_simp
  with map_of_SomeD [OF ks(1)] ks(2) show ?thesis by (auto simp: list_all_iff)
qed

lemma not_true_internal:
  assumes "py_bind (sub (PDict ns) k) (\<lambda>n. get_not_true n ''internal'') = Inr False"
  shows "internal_network ns k"
proof -
  obtain v where v: "sub (PDict ns) k = Inr v" "py_get v ''internal'' = Inr (PBool True)"
    using assms by (auto simp: py_bind_Inr_iff get_not_true_def)
  then obtain m where m: "v = PDict m" "dict_get m ''internal'' = PBool True" by (cases v) auto
  then have "map_of ns k = Some v" using v(1)
    by (auto simp: sub_def or_empty_def dict_get_default_def dict_get_def split: option.splits if_splits)
  with m show ?thesis by (auto simp: internal_network_def)
qed

lemma paper_network_checks_ok:
  assumes "paper_network_checks config = Inr []"
  shows "\<exists>ns. sub config ''networks'' = Inr (PDict ns) \<and> (\<forall>k \<in> set PAPER_INTERNAL_NETWORKS. internal_network ns k)"
proof -
  from assms obtain networks ns where n: "sub config ''networks'' = Inr networks" "py_items networks = Inr ns"
    and int: "\<forall>k \<in> set PAPER_INTERNAL_NETWORKS. py_bind (sub networks k) (\<lambda>n. get_not_true n ''internal'') = Inr False"
    unfolding paper_network_checks_def py_bind_Inr_iff gather_Nil by (auto simp: py_bind_Inr_iff)
  from n(2) have "networks = PDict ns" by (cases networks) auto
  with n(1) int show ?thesis using not_true_internal by blast
qed

interpretation paper_net: isolating_gate "\<lambda>config. validate_paper_compose h config lock = Inr []"
  paper_networks PAPER_INTERNAL_NETWORKS "''paper-egress''" PAPER_EGRESS_SERVICES
  for h lock
proof
  fix config assume a: "validate_paper_compose h config lock = Inr []"
  then obtain ms where c: "sub config ''services'' = Inr (PDict ms)" "\<forall>x \<in> set ms. paper_common_checks h x = Inr []"
    by (rule validate_paper_compose_ok)
  have "\<forall>(name, service) \<in> set ms. \<exists>nets. network_set service = Inr nets \<and> same_strs nets (paper_networks name)"
    by (intro ballI case_prodI2 paper_common_networks) (use c(2) in blast)
  with c(1) show "\<exists>ms. sub config ''services'' = Inr (PDict ms) \<and> (\<forall>(name, service) \<in> set ms.
      \<exists>nets. network_set service = Inr nets \<and> same_strs nets (paper_networks name))" by blast
  show "\<exists>ns. sub config ''networks'' = Inr (PDict ns) \<and> (\<forall>k \<in> set PAPER_INTERNAL_NETWORKS. internal_network ns k)"
    by (rule validate_paper_compose_ok [OF a]) (rule paper_network_checks_ok)
qed (rule paper_networks_allowed)

text \<open>
  C10: in a paper model that validates, every network a service is attached to is declared internal,
  or it is \<^verbatim>\<open>paper-egress\<close> and the service is the market data reader or the execution engine.
\<close>

theorem paper_network_isolation:
  assumes "validate_paper_compose h config lock = Inr []"
  shows "\<exists>ms ns. sub config ''services'' = Inr (PDict ms) \<and> sub config ''networks'' = Inr (PDict ns)
    \<and> (\<forall>(name, service) \<in> set ms. \<exists>nets. network_set service = Inr nets
         \<and> (\<forall>v \<in> set nets. \<exists>k. v = PStr k
              \<and> (internal_network ns k \<or> k = ''paper-egress'' \<and> name \<in> set PAPER_EGRESS_SERVICES)))"
  using assms by (rule paper_net.isolation)

section \<open>Secrets\<close>

lemma paper_common_secrets:
  assumes "paper_common_checks h (name, service) = Inr []"
  shows "\<exists>ss. secret_sources h service = Inr ss \<and> set ss \<inter> set FORBIDDEN_PAPER_SECRET_SOURCES = {}"
  using assms unfolding paper_common_checks_def prod.case py_bind_Inr_iff gather_Nil
  by (auto simp: py_bind_Inr_iff list_ex_iff)

lemma paper_exact_secrets:
  assumes "paper_source_checks h services sources name = Inr []"
  shows "\<exists>service ss b. sub services name = Inr service \<and> secret_sources h service = Inr ss
    \<and> set ss = set (paper_secret_names name) \<and> bindings h service = Inr b \<and> map_of b = map_of PAPER_COMMON_BINDINGS"
proof -
  obtain service source where s: "sub services name = Inr service"
    and b: "py_bind (bindings h service) (\<lambda>b. Inr (\<not> same_dict b PAPER_COMMON_BINDINGS)) = Inr False"
    and ss: "py_bind (secret_sources h service) (\<lambda>ss. Inr (set ss \<noteq> set (paper_secret_names name))) = Inr False"
    using assms unfolding paper_source_checks_def py_bind_Inr_iff gather_Nil set_append ball_Un list.set err_if_Nil
    by (auto simp: py_bind_Inr_iff)
  then show ?thesis by (auto simp: py_bind_Inr_iff same_dict_iff)
qed

lemma paper_bindings_mounted:
  assumes "map_of PAPER_COMMON_BINDINGS k = Some path"
  shows "\<exists>s \<in> set (paper_secret_names name). path = ''/run/secrets/'' @ s"
  using map_of_SomeD [OF assms] by (auto simp: PAPER_COMMON_BINDINGS_def paper_secret_names_def)

interpretation paper_secrets: secret_gate h "\<lambda>config. validate_paper_compose h config lock = Inr []"
  PAPER_SOURCE_SERVICES paper_secret_names "\<lambda>_. PAPER_COMMON_BINDINGS"
  for h lock
proof
  fix config name assume "validate_paper_compose h config lock = Inr []" and n: "name \<in> set PAPER_SOURCE_SERVICES"
  then obtain ms sources where "sub config ''services'' = Inr (PDict ms)" "paper_source_checks h (PDict ms) sources name = Inr []"
    using validate_paper_compose_ok [of h config lock thesis for thesis] by metis
  then show "\<exists>services service ss b. sub config ''services'' = Inr services \<and> sub services name = Inr service
      \<and> secret_sources h service = Inr ss \<and> set ss = set (paper_secret_names name)
      \<and> bindings h service = Inr b \<and> map_of b = map_of PAPER_COMMON_BINDINGS"
    using paper_exact_secrets by blast
qed (rule paper_bindings_mounted)


section \<open>Venue and account\<close>

text \<open>
  C29: an accepted paper model trades on the development venue with one account. The four trading
  services run in mode \<^verbatim>\<open>PAPER\<close>; the execution engine uses every endpoint of the official
  development venue and its profile; its account and the canary's are the one of the risk manager,
  whose text lies in the namespace of dedicated paper accounts.
\<close>

theorem paper_dev_venue_only:
  assumes "validate_paper_compose h config lock = Inr []"
  shows "\<exists>services risk_env canary_env env account a b. sub config ''services'' = Inr services
    \<and> (\<forall>name \<in> {''strategy-engine'', ''risk-manager'', ''canary-controller'', ''execution-engine''}.
         \<exists>e. paper_env services name = Inr e \<and> py_get e ''KAIROS_TRADING_MODE'' = Inr (PStr ''PAPER''))
    \<and> paper_env services ''risk-manager'' = Inr risk_env \<and> paper_env services ''canary-controller'' = Inr canary_env
    \<and> paper_env services ''execution-engine'' = Inr env
    \<and> (\<forall>(k, v) \<in> set PAPER_ENDPOINTS. get_text h env k = Inr v)
    \<and> py_get env ''KAIROS_EVEDEX_PROFILE'' = Inr (PStr ''DEV'')
    \<and> py_get risk_env ''KAIROS_PAPER_ACCOUNT_ID'' = Inr account
    \<and> py_get env ''KAIROS_ACCOUNT_ID'' = Inr a \<and> py_eq a account
    \<and> py_get canary_env ''KAIROS_PAPER_ACCOUNT_ID'' = Inr b \<and> py_eq b account
    \<and> (\<exists>text. get_text h risk_env ''KAIROS_PAPER_ACCOUNT_ID'' = Inr text \<and> PAPER_ACCOUNT_PATTERN text)"
proof -
  obtain ms where c: "sub config ''services'' = Inr (PDict ms)"
    and mode: "\<forall>name \<in> {''strategy-engine'', ''risk-manager'', ''canary-controller'', ''execution-engine''}.
       mode_checks h (PDict ms) name = Inr []"
    and risk: "risk_checks h (PDict ms) = Inr []" and canary: "canary_checks h (PDict ms) = Inr []"
    and venue: "venue_checks h (PDict ms) = Inr []"
    using assms by (rule validate_paper_compose_ok)
  have m: "\<forall>name \<in> {''strategy-engine'', ''risk-manager'', ''canary-controller'', ''execution-engine''}.
      \<exists>e. paper_env (PDict ms) name = Inr e \<and> py_get e ''KAIROS_TRADING_MODE'' = Inr (PStr ''PAPER'')"
    using mode by (simp add: mode_checks_def py_bind_Inr_iff gather_Nil get_ne_def) blast
  obtain risk_env t where r: "paper_env (PDict ms) ''risk-manager'' = Inr risk_env"
    "get_text h risk_env ''KAIROS_PAPER_ACCOUNT_ID'' = Inr t" "PAPER_ACCOUNT_PATTERN t"
    using risk by (auto simp: risk_checks_def py_bind_Inr_iff gather_Nil text_check_def)
  obtain canary_env account b where k: "paper_env (PDict ms) ''canary-controller'' = Inr canary_env"
    "py_get risk_env ''KAIROS_PAPER_ACCOUNT_ID'' = Inr account"
    "py_get canary_env ''KAIROS_PAPER_ACCOUNT_ID'' = Inr b" "py_eq b account"
    using canary r(1) by (auto simp: canary_checks_def py_bind_Inr_iff gather_Nil account_differs_def paper_env_def)
  obtain env a where e: "paper_env (PDict ms) ''execution-engine'' = Inr env"
    "py_get env ''KAIROS_EVEDEX_PROFILE'' = Inr (PStr ''DEV'')" "py_get env ''KAIROS_ACCOUNT_ID'' = Inr a" "py_eq a account"
    "\<forall>(k, v) \<in> set PAPER_ENDPOINTS. get_text h env k = Inr v"
    using venue r(1) k(2)
    by (auto simp: venue_checks_def py_bind_Inr_iff gather_Nil account_differs_def paper_env_def get_ne_def text_check_def
        ball_Un split: prod.splits)
  show ?thesis using c m r k e by blast
qed

section \<open>The secret directory\<close>

lemma rsplit_at_last:
  assumes "47 \<notin> set ys"
  shows "rsplit_head (xs @ 47 # ys) = xs" "rsplit_last (xs @ 47 # ys) = ys"
  using assms by (simp_all add: rsplit_head_def rsplit_last_def dropWhile_append takeWhile_append)

lemma casefold_points_append [simp]: "casefold_points (s @ t) = casefold_points s @ casefold_points t"
  by (simp add: casefold_points_def)

lemma endswith_split: "endswith s p \<Longrightarrow> \<exists>r. s = r @ p"
  by (metis append_take_drop_id endswith_def)

lemma remdups_singleton:
  assumes "length (remdups xs) = 1" "x \<in> set xs" "y \<in> set xs"
  shows "x = y"
proof -
  obtain z where "remdups xs = [z]" using assms(1) by (cases "remdups xs") auto
  then have "set xs = {z}" by (metis list.simps(15) set_empty2 set_remdups empty_set)
  with assms show ?thesis by simp
qed

lemma secret_basenames: "(name, basename) \<in> set PAPER_SECRET_FILES \<Longrightarrow> 47 \<notin> set (casefold_points basename)"
proof -
  have "list_all (\<lambda>(n, b). 47 \<notin> set (casefold_points b)) PAPER_SECRET_FILES" by code_simp
  then show "(name, basename) \<in> set PAPER_SECRET_FILES \<Longrightarrow> 47 \<notin> set (casefold_points basename)"
    by (auto simp: list_all_iff)
qed

lemma paper_secret_path:
  assumes "paper_secret_checks h config = Inr []" "sub config ''secrets'' = Inr defs" "(name, basename) \<in> set PAPER_SECRET_FILES"
  shows "\<exists>p r. secret_path h defs name = Inr p \<and> casefold_points p = r @ 47 # casefold_points basename"
proof -
  from assms have "py_bind (secret_path h defs name) (\<lambda>resolved. Inr (\<not> endswith resolved (''/'' @ basename))) = Inr False"
    by (auto simp: paper_secret_checks_def gather_Nil py_bind_Inr_iff ball_Un)
  then obtain p where p: "secret_path h defs name = Inr p" "endswith p (''/'' @ basename)"
    by (auto simp: py_bind_Inr_iff)
  obtain r where "p = r @ ''/'' @ basename" using endswith_split [OF p(2)] by blast
  then have "casefold_points p = casefold_points r @ 47 # casefold_points basename"
    by (simp add: casefold_points_def casefold_char_def is_upper_def)
  with p(1) show ?thesis by blast
qed

text \<open>
  The secret files of an accepted paper model lie in one directory of their own: up to letter
  case each is that directory followed by its prescribed base name, no two coincide, and the last
  component of the directory is not \<^verbatim>\<open>secrets\<close>, the directory of the base deployment.
\<close>

theorem paper_secrets_in_one_directory:
  assumes "validate_paper_compose h config lock = Inr []"
  shows "\<exists>defs directory. sub config ''secrets'' = Inr defs
    \<and> (\<forall>(name, basename) \<in> set PAPER_SECRET_FILES. \<exists>p. secret_path h defs name = Inr p
         \<and> casefold_points p = directory @ 47 # casefold_points basename)
    \<and> rsplit_last (rstrip_slash directory) \<noteq> map of_char ''secrets''"
proof -
  have chk: "paper_secret_checks h config = Inr []"
    by (rule validate_paper_compose_ok [OF assms])
  then obtain defs ps where d: "sub config ''secrets'' = Inr defs" "resolved_paths h defs = Inr ps"
    "length (remdups (map rsplit_head ps)) = 1"
    "\<not> list_ex (\<lambda>parent. rsplit_last (rstrip_slash parent) = map of_char ''secrets'') (map rsplit_head ps)"
    by (auto simp: paper_secret_checks_def gather_Nil py_bind_Inr_iff)
  define directory where "directory = hd (map rsplit_head ps)"
  have "map rsplit_head ps \<noteq> []" using d(3) by force
  then have dir: "directory \<in> set (map rsplit_head ps)" unfolding directory_def by (rule hd_in_set)
  have one: "\<exists>p. secret_path h defs name = Inr p \<and> casefold_points p = directory @ 47 # casefold_points basename"
    if f: "(name, basename) \<in> set PAPER_SECRET_FILES" for name basename
  proof -
    obtain p r where p: "secret_path h defs name = Inr p" "casefold_points p = r @ 47 # casefold_points basename"
      using paper_secret_path [OF chk d(1) f] by blast
    obtain qs where qs: "py_map (\<lambda>(name, _). secret_path h defs name) PAPER_SECRET_FILES = Inr qs"
      "ps = map casefold_points (filter (\<lambda>p. p \<noteq> []) qs)"
      using d(2) by (auto simp: resolved_paths_def py_bind_Inr_iff)
    have "p \<in> set qs" using qs(1) f p(1) unfolding py_map_Inr
      by (fastforce simp: list_all2_conv_all_nth in_set_conv_nth)
    moreover have "p \<noteq> []" using p(2) by (auto simp: casefold_points_def)
    ultimately have "rsplit_head (casefold_points p) \<in> set (map rsplit_head ps)" using qs(2) by auto
    then have "rsplit_head (casefold_points p) = directory" using remdups_singleton [OF d(3)] dir by blast
    then show ?thesis using p rsplit_at_last(1) [OF secret_basenames [OF f]] by auto
  qed
  have "rsplit_last (rstrip_slash directory) \<noteq> map of_char ''secrets''"
    using d(4) dir unfolding list_ex_iff by blast
  with d(1) one show ?thesis by blast
qed

section \<open>The exit status\<close>

interpretation paper_exit: exit_gate "paper_main h R" "paper_errors h R" for h R
  by unfold_locales (simp add: paper_main_def)

text \<open>
  Exit status zero of the paper validator is exactly that the lock is an object that validates,
  that the Compose model and the interpolation file validate when they are given, and that no remote
  source differs when that is asked for; and the only statuses are 0, 1 and 2.
\<close>

theorem paper_exit_status:
  "(paper_main h R args = Inr 0 \<longleftrightarrow>
     (\<exists>lock. load_json (p_source_lock args) = Inr lock \<and> validate_paper_source_lock h lock = Inr []
      \<and> (\<forall>contents. p_compose_json args = Some contents \<longrightarrow>
           (\<exists>config. load_json contents = Inr config \<and> validate_paper_compose h config lock = Inr []))
      \<and> (\<forall>contents. p_env_file args = Some contents \<longrightarrow>
           (\<exists>text env. contents = Inr text \<and> parse_dotenv text = Inr env
              \<and> validate_paper_environment env (p_allow_example_values args) = []))
      \<and> (p_verify_remote args \<longrightarrow> verify_remote_paper_sources h R lock = Inr [])))
   \<and> paper_main h R args \<in> {Inr 0, Inr 1, Inr 2} \<union> {Inl e | e. \<not> deploy_caught e}"
proof
  show "paper_main h R args \<in> {Inr 0, Inr 1, Inr 2} \<union> {Inl e | e. \<not> deploy_caught e}"
    using paper_exit.status [of h R args] paper_exit.escapes [of h R args] by (cases "paper_main h R args") auto
  show "paper_main h R args = Inr 0 \<longleftrightarrow>
     (\<exists>lock. load_json (p_source_lock args) = Inr lock \<and> validate_paper_source_lock h lock = Inr []
      \<and> (\<forall>contents. p_compose_json args = Some contents \<longrightarrow>
           (\<exists>config. load_json contents = Inr config \<and> validate_paper_compose h config lock = Inr []))
      \<and> (\<forall>contents. p_env_file args = Some contents \<longrightarrow>
           (\<exists>text env. contents = Inr text \<and> parse_dotenv text = Inr env
              \<and> validate_paper_environment env (p_allow_example_values args) = []))
      \<and> (p_verify_remote args \<longrightarrow> verify_remote_paper_sources h R lock = Inr []))"
    unfolding paper_exit.zero_iff paper_errors_def py_bind_Inr_iff gather4 optional_stage
    by (auto simp: py_bind_Inr_iff)
qed

end
