(* ===== verification/Deployment_Gate.thy ===== *)
theory Deployment_Gate
  imports Compose_Contract
begin

text \<open>
  What a deployment that validates without errors guarantees: network isolation, secrets that are
  mounted files only, builds pinned to the locked revisions, and the meaning of the exit status.
\<close>

section \<open>The parts of an accepted model\<close>

lemma sub_Inr_dict: "sub v k = Inr w \<Longrightarrow> \<exists>m. v = PDict m \<and> w = or_empty (dict_get_default m k (PDict []))"
  by (cases v) (auto simp: sub_def)

lemma validate_compose_ok:
  assumes "validate_compose h config lock live allow = Inr []"
  obtains services ms sources where
    "sub config ''services'' = Inr services" "services = PDict ms" "set (map fst ms) = set EXPECTED_SERVICES"
    "\<forall>x \<in> set ms. common_service_checks h x = Inr []"
    "\<forall>name \<in> set SOURCE_SERVICES. source_service_checks h services sources name = Inr []"
    "sub lock ''services'' = Inr sources"
    "\<forall>name \<in> set SOURCE_SERVICES. exact_secret_checks h services name = Inr []"
    "cadence_check h services = Inr []" "network_checks config = Inr []"
    "execution_checks h live services = Inr []"
proof -
  from assms obtain services where s: "sub config ''services'' = Inr services"
    and g: "gather
       ([err_if (Inr (PStr ''kairos'' \<noteq> PStr ''kairos'')) ''base Compose project name must be exactly kairos'',
         err_if (keys_differ services EXPECTED_SERVICES)
           ''rendered Compose service set is incomplete or contains unexpected services'',
         py_bind (py_items services) (\<lambda>ms. gather (map (common_service_checks h) ms))]
        @ map (\<lambda>(name, user). err_if (py_bind (sub services name) (\<lambda>s. get_ne s ''user'' user))
             (name @ '': must run as the pinned non-root image user'')) BASE_INFRASTRUCTURE_USERS
        @ map (\<lambda>name. py_bind (sub lock ''services'') (\<lambda>source_services.
             source_service_checks h services source_services name)) SOURCE_SERVICES
        @ [scope_check h allow services,
           execution_checks h live services]
        @ map (provider_secret_checks h services) expected_provider_secrets
        @ map (exact_secret_checks h services) SOURCE_SERVICES
        @ [secret_definition_checks h config,
           x_budget_check services,
           policy_checks h services,
           cadence_check h services,
           redis_checks h services,
           database_checks h services,
           infrastructure_secret_checks h services,
           volume_checks h services,
           named_volume_checks config]
        @ map (management_checks h services) [''ops-exporter'', ''prometheus'', ''grafana'']
        @ map (image_check h services) [''redis'', ''timescaledb'', ''prometheus'', ''grafana'']
        @ [network_checks config]) = Inr []"
    unfolding validate_compose_def py_bind_Inr_iff gather_Nil by force
  note all = g [unfolded gather_Nil set_append set_map ball_Un list.set insert_iff ball_simps]
  have items: "py_bind (py_items services) (\<lambda>ms. gather (map (common_service_checks h) ms)) = Inr []"
    and keys: "keys_differ services EXPECTED_SERVICES = Inr False"
    using all by simp_all
  then obtain ms where ms: "services = PDict ms" "\<forall>x \<in> set ms. common_service_checks h x = Inr []"
    by (cases services) (auto simp: py_bind_Inr_iff gather_Nil)
  have k: "set (map fst ms) = set EXPECTED_SERVICES"
    using keys by (simp add: ms(1) keys_differ_def same_strs_items del: set_map)
  have src: "\<forall>name \<in> set SOURCE_SERVICES. py_bind (sub lock ''services'') (\<lambda>source_services.
             source_service_checks h services source_services name) = Inr []"
    using all by auto
  then have "py_bind (sub lock ''services'') (\<lambda>s. source_service_checks h services s ''router'') = Inr []"
    by (simp add: SOURCE_SERVICES_def)
  then obtain sources where sources: "sub lock ''services'' = Inr sources" by (auto simp: py_bind_Inr_iff)
  show thesis
    using that [OF s ms(1) k ms(2) _ sources] src all by (simp add: sources)
qed

section \<open>Networks\<close>

lemma network_checks_ok:
  assumes "network_checks config = Inr []"
  obtains ns where "sub config ''networks'' = Inr (PDict ns)" "set (map fst ns) = set (INTERNAL_NETWORKS @ [''egress''])"
    "\<forall>k \<in> set INTERNAL_NETWORKS. internal_network ns k" "\<not> internal_network ns ''egress''"
proof -
  from assms obtain networks where n: "sub config ''networks'' = Inr networks"
    and keys: "keys_differ networks (INTERNAL_NETWORKS @ [''egress'']) = Inr False"
    and items: "\<exists>ns. py_items networks = Inr ns"
    and int: "\<forall>k \<in> set INTERNAL_NETWORKS. py_bind (get_default networks k (PDict [])) (\<lambda>n. get_not_true n ''internal'') = Inr False"
    and eg: "py_bind (get_default networks ''egress'' (PDict [])) (\<lambda>n. py_bind (py_get n ''internal'') (\<lambda>v. Inr (v = PBool True))) = Inr False"
    by (auto simp: network_checks_def py_bind_Inr_iff gather_Nil)
  from items obtain ns where ns: "networks = PDict ns" by (cases networks) auto
  have "internal_network ns k" if "k \<in> set INTERNAL_NETWORKS" for k
  proof -
    from int that obtain v where v: "get_default networks k (PDict []) = Inr v" "get_not_true v ''internal'' = Inr False"
      by (auto simp: py_bind_Inr_iff)
    then obtain m where m: "v = PDict m" "dict_get m ''internal'' = PBool True"
      by (cases v) (auto simp: get_not_true_def)
    then have "map_of ns k = Some v" using v(1)
      by (auto simp: ns dict_get_default_def dict_get_def split: option.splits)
    then show ?thesis using m by (auto simp: internal_network_def)
  qed
  moreover have "\<not> internal_network ns ''egress''"
    using eg by (auto simp: ns internal_network_def dict_get_default_def)
  moreover have "set (map fst ns) = set (INTERNAL_NETWORKS @ [''egress''])"
    using keys by (simp add: ns keys_differ_def same_strs_items del: set_map set_append)
  ultimately show thesis using that n ns by blast
qed

lemma common_networks:
  assumes "common_service_checks h (name, service) = Inr []"
  shows "\<exists>nets. network_set service = Inr nets \<and> same_strs nets (service_networks name)"
  using assms unfolding common_service_checks_def prod.case gather_Nil
  by (auto simp: py_bind_Inr_iff)

lemma service_networks_allowed:
  assumes "k \<in> set (service_networks name)"
  shows "k \<in> set INTERNAL_NETWORKS \<or> k = ''egress'' \<and> name \<in> set EGRESS_SERVICES"
proof -
  obtain ks where ks: "map_of BASE_SERVICE_NETWORKS name = Some ks" "k \<in> set ks"
    using assms by (cases "map_of BASE_SERVICE_NETWORKS name") (simp_all add: service_networks_def)
  have "list_all (\<lambda>(n, ks). list_all (\<lambda>k. k \<in> set INTERNAL_NETWORKS \<or> k = ''egress'' \<and> n \<in> set EGRESS_SERVICES) ks)
      BASE_SERVICE_NETWORKS"
    by code_simp
  with map_of_SomeD [OF ks(1)] ks(2) show ?thesis by (auto simp: list_all_iff)
qed

interpretation base_net: isolating_gate "\<lambda>config. validate_compose h config lock live allow = Inr []"
  service_networks INTERNAL_NETWORKS "''egress''" EGRESS_SERVICES
  for h lock live allow
proof
  fix config assume "validate_compose h config lock live allow = Inr []"
  then obtain ms where c: "sub config ''services'' = Inr (PDict ms)" "\<forall>x \<in> set ms. common_service_checks h x = Inr []"
    "network_checks config = Inr []"
    by (rule validate_compose_ok) blast
  have "\<forall>(name, service) \<in> set ms. \<exists>nets. network_set service = Inr nets \<and> same_strs nets (service_networks name)"
    by (intro ballI case_prodI2 common_networks) (use c(2) in blast)
  with c(1) show "\<exists>ms. sub config ''services'' = Inr (PDict ms) \<and> (\<forall>(name, service) \<in> set ms.
      \<exists>nets. network_set service = Inr nets \<and> same_strs nets (service_networks name))" by blast
  from c(3) show "\<exists>ns. sub config ''networks'' = Inr (PDict ns) \<and> (\<forall>k \<in> set INTERNAL_NETWORKS. internal_network ns k)"
    by (rule network_checks_ok) blast
qed (rule service_networks_allowed)

text \<open>
  C9: in a model that validates, a service can reach outside only through the egress network and
  only if it is on the egress list: every network any service is attached to is declared internal,
  or it is \<^verbatim>\<open>egress\<close> and the service is one of the five that may use it.
\<close>

theorem compose_network_isolation:
  assumes "validate_compose h config lock live allow = Inr []"
  shows "\<exists>ms ns. sub config ''services'' = Inr (PDict ms) \<and> sub config ''networks'' = Inr (PDict ns)
    \<and> (\<forall>(name, service) \<in> set ms. \<exists>nets. network_set service = Inr nets
         \<and> (\<forall>v \<in> set nets. \<exists>k. v = PStr k
              \<and> (internal_network ns k \<or> k = ''egress'' \<and> name \<in> set EGRESS_SERVICES)))"
  using assms by (rule base_net.isolation)

section \<open>Secrets\<close>

lemma common_environment:
  assumes "common_service_checks h (name, service) = Inr []"
  shows "\<exists>env ks. sub service ''environment'' = Inr env \<and> py_set env = Inr ks
    \<and> (\<forall>f \<in> set FORBIDDEN_SECRET_ENV. PStr f \<notin> set ks)"
  using assms unfolding common_service_checks_def prod.case gather_Nil
  by (auto simp: py_bind_Inr_iff)

lemma exact_secrets:
  assumes "exact_secret_checks h services name = Inr []"
  obtains service ss b where "sub services name = Inr service" "secret_sources h service = Inr ss"
    "set ss = set (expected_sources name)" "bindings h service = Inr b" "map_of b = map_of (expected_bindings name)"
  using assms by (auto simp: exact_secret_checks_def py_bind_Inr_iff gather_Nil same_dict_iff)

text \<open>The allow-lists themselves bind only what they mount.\<close>

lemma expected_bindings_mounted:
  assumes "name \<in> set SOURCE_SERVICES" "map_of (expected_bindings name) k = Some path"
  shows "\<exists>s \<in> set (expected_sources name). path = ''/run/secrets/'' @ s"
proof -
  have "list_all (\<lambda>n. list_all (\<lambda>(k, p). list_ex (\<lambda>s. p = ''/run/secrets/'' @ s) (expected_sources n)) (expected_bindings n))
      SOURCE_SERVICES"
    by code_simp
  then have "list_all (\<lambda>(k, p). list_ex (\<lambda>s. p = ''/run/secrets/'' @ s) (expected_sources name)) (expected_bindings name)"
    using assms(1) unfolding list_all_iff by (rule bspec)
  then show ?thesis using map_of_SomeD [OF assms(2)] by (auto simp: list_all_iff list_ex_iff)
qed

interpretation base_secrets: secret_gate h "\<lambda>config. validate_compose h config lock live allow = Inr []"
  SOURCE_SERVICES expected_sources expected_bindings
  for h lock live allow
proof
  fix config name assume "validate_compose h config lock live allow = Inr []" and n: "name \<in> set SOURCE_SERVICES"
  then obtain services where c: "sub config ''services'' = Inr services" "exact_secret_checks h services name = Inr []"
    using validate_compose_ok [of h config lock live allow thesis for thesis] by metis
  from c(2) obtain service ss b where "sub services name = Inr service" "secret_sources h service = Inr ss"
    "set ss = set (expected_sources name)" "bindings h service = Inr b" "map_of b = map_of (expected_bindings name)"
    by (rule exact_secrets)
  with c(1) show "\<exists>services service ss b. sub config ''services'' = Inr services \<and> sub services name = Inr service
      \<and> secret_sources h service = Inr ss \<and> set ss = set (expected_sources name)
      \<and> bindings h service = Inr b \<and> map_of b = map_of (expected_bindings name)" by blast
qed (rule expected_bindings_mounted)

text \<open>
  C25: secrets reach a source service as mounted files only. In a model that validates, no service
  has one of the secret variables in its environment; a source service mounts exactly the secret
  files of its allow-list, and every entry of its secret bindings names the mount path of one of
  the files it mounts.
\<close>

theorem compose_secrets_are_files:
  assumes "validate_compose h config lock live allow = Inr []"
  shows "(\<exists>ms. sub config ''services'' = Inr (PDict ms)
      \<and> (\<forall>(name, service) \<in> set ms. \<exists>env ks. sub service ''environment'' = Inr env \<and> py_set env = Inr ks
           \<and> (\<forall>f \<in> set FORBIDDEN_SECRET_ENV. PStr f \<notin> set ks)))
    \<and> (\<forall>name \<in> set SOURCE_SERVICES. \<exists>services service ss b.
         sub config ''services'' = Inr services \<and> sub services name = Inr service
         \<and> secret_sources h service = Inr ss \<and> bindings h service = Inr b
         \<and> set ss = set (expected_sources name)
         \<and> (\<forall>k path. map_of b k = Some path \<longrightarrow> (\<exists>s \<in> set ss. path = ''/run/secrets/'' @ s)))"
proof
  obtain ms where c: "sub config ''services'' = Inr (PDict ms)" "\<forall>x \<in> set ms. common_service_checks h x = Inr []"
    using assms by (rule validate_compose_ok) blast
  have "\<forall>(name, service) \<in> set ms. \<exists>env ks. sub service ''environment'' = Inr env \<and> py_set env = Inr ks
      \<and> (\<forall>f \<in> set FORBIDDEN_SECRET_ENV. PStr f \<notin> set ks)"
    by (intro ballI case_prodI2 common_environment) (use c(2) in blast)
  with c(1) show "\<exists>ms. sub config ''services'' = Inr (PDict ms)
      \<and> (\<forall>(name, service) \<in> set ms. \<exists>env ks. sub service ''environment'' = Inr env \<and> py_set env = Inr ks
           \<and> (\<forall>f \<in> set FORBIDDEN_SECRET_ENV. PStr f \<notin> set ks))" by blast
qed (rule ballI, rule base_secrets.files_only [OF assms])

section \<open>Pinned builds\<close>

lemma lock_service_ok:
  assumes "validate_source_lock h lock = Inr []" "name \<in> set SOURCE_SERVICES"
  obtains services entry revision where "sub lock ''services'' = Inr services" "sub services name = Inr entry"
    "py_get entry ''repository'' = Inr (PStr (the (map_of EXPECTED_REPOSITORIES name)))"
    "get_text h entry ''revision'' = Inr revision" "hex_lower_n 40 revision"
proof -
  have "py_bind (sub lock ''services'') (\<lambda>s. lock_service_checks h s name) = Inr []"
    using assms unfolding validate_source_lock_def gather_Nil by auto
  then show thesis using that
    by (auto simp: py_bind_Inr_iff lock_service_checks_def gather_Nil get_ne_def text_check_def)
qed

lemma get_text_of_get: "py_get v k = Inr (PStr s) \<Longrightarrow> get_text h v k = Inr s"
  by (cases v) (auto simp: get_text_def dict_get_def dict_get_default_def split: option.splits)

lemma sub_get_default:
  "sub v k = Inr w \<Longrightarrow> w \<noteq> PDict [] \<Longrightarrow> get_default v k (PDict []) = Inr w"
  by (auto simp: sub_def py_bind_Inr_iff or_empty_def split: if_splits)

text \<open>
  When the lock and the model both validate, every source service is built from its expected
  repository at a full commit id: the only named build context is the repository's URL followed by
  forty hexadecimal digits, the same revision is passed to the build as its label, and the build
  context is this repository.
\<close>

theorem compose_builds_pinned:
  assumes "validate_source_lock h lock = Inr []" "validate_compose h config lock live allow = Inr []"
    and "name \<in> set SOURCE_SERVICES"
  shows "\<exists>services service build contexts revision args.
    sub config ''services'' = Inr services \<and> sub services name = Inr service \<and> sub service ''build'' = Inr build
    \<and> context_map h build = Inr contexts \<and> set (map fst contexts) = {''service''} \<and> hex_lower_n 40 revision
    \<and> map_of contexts ''service'' = Some (the (map_of EXPECTED_REPOSITORIES name) @ ''.git#'' @ revision)
    \<and> sub build ''args'' = Inr args \<and> get_text h args ''SOURCE_REVISION'' = Inr revision
    \<and> context_differs h build = Inr False"
proof -
  let ?repo = "the (map_of EXPECTED_REPOSITORIES name)"
  obtain sources entry revision where l: "sub lock ''services'' = Inr sources" "sub sources name = Inr entry"
    "py_get entry ''repository'' = Inr (PStr ?repo)" "get_text h entry ''revision'' = Inr revision" "hex_lower_n 40 revision"
    using assms(1,3) by (rule lock_service_ok)
  obtain services sources' where c: "sub config ''services'' = Inr services"
    "\<forall>name \<in> set SOURCE_SERVICES. source_service_checks h services sources' name = Inr []" "sub lock ''services'' = Inr sources'"
    using assms(2) by (rule validate_compose_ok) blast
  have "entry \<noteq> PDict []" using l(3) by (auto simp: dict_get_def)
  then have "get_default sources name (PDict []) = Inr entry" using l(2) sub_get_default by blast
  then obtain service where s: "sub services name = Inr service" "validate_source_service h name service entry = Inr []"
    using c assms(3) l(1) by (auto simp: source_service_checks_def py_bind_Inr_iff gather_Nil)
  have "get_text h entry ''repository'' = Inr ?repo" using l(3) by (rule get_text_of_get)
  then obtain build contexts where b: "sub service ''build'' = Inr build" "context_map h build = Inr contexts"
    "set (map fst contexts) = {''service''}" "map_of contexts ''service'' = Some (?repo @ ''.git#'' @ revision)"
    "context_differs h build = Inr False"
    "py_bind (sub build ''args'') (\<lambda>args. arg_differs h args ''SOURCE_REVISION'' revision) = Inr False"
    using s(2) l(4) by (auto simp: validate_source_service_def py_bind_Inr_iff gather_Nil)
  from b(6) obtain args where "sub build ''args'' = Inr args" "get_text h args ''SOURCE_REVISION'' = Inr revision"
    by (auto simp: py_bind_Inr_iff arg_differs_def text_check_def)
  then show ?thesis using c(1) s(1) b l(5) by blast
qed

section \<open>The snapshot cadence\<close>

lemma float_not_le: "\<not> float_le y x \<longleftrightarrow> float_lt x y \<or> x = FNan \<or> y = FNan"
  by (cases x; cases y) auto

text \<open>
  What the cadence check admits. For numeric settings it returns no error exactly when the
  account snapshot interval is below the freshness window of Risk or one of the two is NaN: the
  comparison that should reject a slow cadence is false of NaN, so the text \<^verbatim>\<open>nan\<close> passes.
\<close>

theorem cadence_check_admits:
  assumes "sub services ''execution-engine'' = Inr execution" "sub execution ''environment'' = Inr execution_env"
    and "service_env services ''risk-manager'' = Inr risk_env"
    and "py_item execution_env ''KAIROS_ACCOUNT_SNAPSHOT_INTERVAL_S'' = Inr a" "to_float h a = Inr interval"
    and "py_item risk_env ''KAIROS_ACCOUNT_SNAPSHOT_MAX_AGE_S'' = Inr b" "to_float h b = Inr max_age"
  shows "cadence_check h services = Inr [] \<longleftrightarrow>
    float_lt interval max_age \<or> interval = FNan \<or> max_age = FNan"
  using assms float_not_le [of max_age interval]
  by (auto simp: cadence_check_def except_key_type_value_def)

section \<open>The exit status\<close>

interpretation base_exit: exit_gate "deploy_main h R" "deploy_errors h R" for h R
  by unfold_locales (simp add: deploy_main_def)

text \<open>
  Exit status zero of the validator entails that the lock is an object that validates, that the
  Compose model and the interpolation file validate when they are given, and that no remote source
  differs when that is asked for; a check that raises never ends in status zero.
\<close>

theorem deploy_exit_zero:
  assumes "deploy_main h R args = Inr 0"
  shows "\<exists>lock. load_json (a_source_lock args) = Inr lock \<and> validate_source_lock h lock = Inr []
    \<and> (\<forall>contents. a_compose_json args = Some contents \<longrightarrow>
         (\<exists>config. load_json contents = Inr config
            \<and> validate_compose h config lock (a_live args) (a_allow_example_values args) = Inr []))
    \<and> (\<forall>contents. a_env_file args = Some contents \<longrightarrow>
         (\<exists>text env. contents = Inr text \<and> parse_dotenv text = Inr env \<and> validate_environment env = []))
    \<and> (a_verify_remote args \<longrightarrow> verify_remote_sources h R lock = Inr [])"
proof -
  have "deploy_errors h R args = Inr []" using assms by (simp add: base_exit.zero_iff)
  then show ?thesis unfolding deploy_errors_def py_bind_Inr_iff gather4 optional_stage by auto
qed

end
