(* ===== verification/Deployment_Sample.thy ===== *)
theory Deployment_Sample
  imports Deployment_Gate
begin

text \<open>
  A lock and a model that validate, evaluated by the kernel, and the witnesses of the properties
  of the deployment validator.
\<close>

section \<open>The sample\<close>

text \<open>A model of the shape Compose renders; every service but the infrastructure follows one template.\<close>

definition sample_host :: host where
  "sample_host = \<lparr>float_text = (\<lambda>_. ''1.0''), text_float = (\<lambda>s. if s = ''nan'' then Inr FNan else if s = ''5'' then Inr (FFin 5) else Inr (FFin 60)),
     resolve_path = (\<lambda>_. Inr ''/repo''), repo_root = ''/repo''\<rparr>"

definition sample_lock_entry :: "string \<Rightarrow> pyval" where
  "sample_lock_entry name = PDict
     ([(''repository'', PStr (the (map_of EXPECTED_REPOSITORIES name))), (''revision'', PStr (replicate 40 (CHR ''a''))),
       (''package_dir'', PStr ''p''), (''command'', PStr ''c'')]
      @ (if name = ''execution-engine'' then [(''extra'', PStr ''evedex'')]
         else if name = ''strategy-engine'' then [(''extra'', PStr ''runtime'')] else []))"

definition sample_lock :: pyval where
  "sample_lock = PDict
     [(''schema_version'', PInt 1), (''build'', PDict [(''python'', PStr ''3.11.15''), (''uv'', PStr ''0.12.3'')]),
      (''dependencies'', PDict (map (\<lambda>n. (n, PStr (replicate 40 (CHR ''b'')))) SOURCE_LOCK_DEPENDENCIES)),
      (''infrastructure'', PDict [(''redis'', PDict [(''image'', PStr EXPECTED_REDIS_IMAGE),
         (''required_feature'', PStr EXPECTED_REDIS_FEATURE)])]),
      (''services'', PDict (map (\<lambda>n. (n, sample_lock_entry n)) SOURCE_SERVICES))]"

definition sample_env_value :: "string \<Rightarrow> string \<Rightarrow> string" where
  "sample_env_value name key =
     (if key = ''KAIROS_LOG_JSON'' then ''true''
      else if key = ''KAIROS_BUS_BACKEND'' then ''redis''
      else if key = ''KAIROS_PERSISTENCE_MIGRATION_PROFILE'' then ''controlled-runtime''
      else if key = ''KAIROS_SECRET_BINDINGS'' then join '','' (map (\<lambda>(k, p). k @ ''='' @ p) (expected_bindings name))
      else if key = ''KAIROS_TRADING_MODE'' then ''DRY_RUN''
      else if key = ''KAIROS_ENABLED_STRATEGY_IDS'' then ''[]''
      else if key = ''KAIROS_PROCESSING_SCOPE_SHA256'' then replicate 64 (CHR ''c'')
      else if key = ''KAIROS_X_MONTHLY_BUDGET_MICROUSD'' then ''2000000''
      else if key = ''KAIROS_ACCOUNT_SNAPSHOT_INTERVAL_S'' then ''5''
      else if key = ''KAIROS_ACCOUNT_SNAPSHOT_MAX_AGE_S'' then ''60''
      else ''true'')"

definition sample_networks :: "string \<Rightarrow> pyval" where
  "sample_networks name = PDict (map (\<lambda>n. (n, PNone)) (service_networks name))"

definition sample_secrets :: "string list \<Rightarrow> pyval" where
  "sample_secrets names = PList (map (\<lambda>n. PDict [(''source'', PStr n)]) names)"

definition sample_build :: "string \<Rightarrow> pyval" where
  "sample_build name =
     (let repository = the (map_of EXPECTED_REPOSITORIES name); revision = replicate 40 (CHR ''a'') in PDict
      [(''context'', PStr ''.''), (''dockerfile'', PStr ''docker/Dockerfile''), (''pull'', PBool True),
       (''additional_contexts'', PDict [(''service'', PStr (repository @ ''.git#'' @ revision))]),
       (''args'', PDict
         ([(''SOURCE_REVISION'', PStr revision), (''SOURCE_REPOSITORY'', PStr repository), (''PACKAGE_DIR'', PStr ''p'')]
          @ (if name = ''execution-engine'' then [(''SERVICE_EXTRA'', PStr ''evedex'')]
             else if name = ''strategy-engine'' then [(''SERVICE_EXTRA'', PStr ''runtime'')] else [])))])"

definition healthy :: pyval where
  "healthy = PDict [(''condition'', PStr ''service_healthy'')]"

definition sample_source_service :: "string \<Rightarrow> pyval" where
  "sample_source_service name = PDict
     [(''build'', sample_build name), (''command'', PList [PStr ''c'']),
      (''environment'', PDict (map (\<lambda>k. (k, PStr (sample_env_value name k))) (the (map_of BASE_SOURCE_ENVIRONMENT_KEYS name)))),
      (''secrets'', sample_secrets (expected_sources name)), (''read_only'', PBool True), (''init'', PBool True),
      (''cap_drop'', PList [PStr ''ALL'']), (''security_opt'', PList [PStr ''no-new-privileges:true'']),
      (''depends_on'', PDict [(''redis'', healthy), (''timescaledb'', healthy)]),
      (''healthcheck'', PDict [(''test'', PList [PStr ''CMD'', PStr ''http://127.0.0.1:9108/metrics''])]),
      (''networks'', sample_networks name)]"

definition sample_volume :: "string \<times> string \<times> string \<times> bool \<Rightarrow> pyval" where
  "sample_volume = (\<lambda>(target, kind, source, read_only). PDict
     [(''target'', PStr target), (''type'', PStr kind), (''source'', PStr source), (''read_only'', PBool read_only)])"

definition sample_infrastructure :: "string \<Rightarrow> items \<Rightarrow> string \<times> pyval" where
  "sample_infrastructure name extra = (name, PDict
     (extra @ [(''networks'', sample_networks name),
        (''secrets'', sample_secrets (the (map_of expected_infrastructure_secrets name))),
        (''volumes'', PList (map sample_volume (the (map_of expected_volume_targets name))))]))"

definition sample_image :: "string \<Rightarrow> pyval" where
  "sample_image tag = PStr (tag @ ''@sha256:'' @ replicate 64 (CHR ''d''))"

definition sample_rest :: items where
  "sample_rest =
     [sample_infrastructure ''redis''
        [(''image'', PStr EXPECTED_REDIS_IMAGE), (''user'', PStr ''redis:redis''),
         (''command'', PList [PStr ''requirepass'', PStr ''/run/secrets/redis_password'']),
         (''healthcheck'', PDict [(''test'', PList [PStr ''/run/secrets/redis_password''])])],
      sample_infrastructure ''timescaledb''
        [(''image'', sample_image ''timescale:1''), (''user'', PStr ''postgres:postgres''),
         (''environment'', PDict [(''POSTGRES_USER'', PStr ''kairos''), (''POSTGRES_DB'', PStr ''kairos''),
            (''POSTGRES_PASSWORD_FILE'', PStr ''/run/secrets/postgres_password'')]),
         (''healthcheck'', PDict [(''test'', PList [PStr ''/proc/1/comm pg_isready''])])],
      sample_infrastructure ''prometheus''
        [(''image'', sample_image ''prometheus:1''), (''ports'', PList [PDict [(''host_ip'', PStr ''127.0.0.1'')]]),
         (''healthcheck'', PDict [(''test'', PList [PStr ''http://127.0.0.1:9090''])])],
      sample_infrastructure ''grafana''
        [(''image'', sample_image ''grafana:1''),
         (''environment'', PDict (map (\<lambda>k. (k, PStr (if k = ''GF_SECURITY_ADMIN_PASSWORD__FILE''
            then ''/run/secrets/grafana_admin_password'' else ''false'')))
            (the (map_of BASE_INFRASTRUCTURE_ENVIRONMENT_KEYS ''grafana'')))),
         (''healthcheck'', PDict [(''test'', PList [PStr ''http://127.0.0.1:3000''])])]]"

definition sample_services :: items where
  "sample_services = map (\<lambda>n. (n, sample_source_service n)) SOURCE_SERVICES @ sample_rest"

definition sample_config :: pyval where
  "sample_config = PDict
     [(''name'', PStr ''kairos''), (''services'', PDict sample_services),
      (''secrets'', PDict (map (\<lambda>(n, b). (n, PDict [(''file'', PStr (''/secrets/'' @ b))])) BASE_SECRET_FILES)),
      (''volumes'', PDict (map (\<lambda>n. (n, PNone)) expected_named_volumes)),
      (''networks'', PDict (map (\<lambda>n. (n, PDict [(''internal'', PBool True)])) INTERNAL_NETWORKS
         @ [(''egress'', PDict [])]))]"

section \<open>Evaluation, part by part\<close>

definition source_common_ok :: "string \<Rightarrow> bool" where
  "source_common_ok n \<longleftrightarrow> common_service_checks sample_host (n, sample_source_service n) = Inr []"

definition source_ok :: "string \<Rightarrow> bool" where
  "source_ok n \<longleftrightarrow>
     source_service_checks sample_host (PDict [(n, sample_source_service n)])
       (PDict [(n, sample_lock_entry n)]) n = Inr []"

lemma source_common_ok1: "source_common_ok ''aggregator''" by code_simp
lemma source_common_ok2: "source_common_ok ''execution-engine''" by code_simp
lemma source_common_ok3: "source_common_ok ''macro-strategist''" by code_simp
lemma source_common_ok4: "source_common_ok ''ops-exporter''" by code_simp
lemma source_common_ok5: "source_common_ok ''quant-scouts''" by code_simp
lemma source_common_ok6: "source_common_ok ''risk-manager''" by code_simp
lemma source_common_ok7: "source_common_ok ''router''" by code_simp
lemma source_common_ok8: "source_common_ok ''strategy-engine''" by code_simp
lemma source_common_ok9: "source_common_ok ''text-scouts''" by code_simp

lemma source_ok1: "source_ok ''aggregator''" by code_simp
lemma source_ok2: "source_ok ''execution-engine''" by code_simp
lemma source_ok3: "source_ok ''macro-strategist''" by code_simp
lemma source_ok4: "source_ok ''ops-exporter''" by code_simp
lemma source_ok5: "source_ok ''quant-scouts''" by code_simp
lemma source_ok6: "source_ok ''risk-manager''" by code_simp
lemma source_ok7: "source_ok ''router''" by code_simp
lemma source_ok8: "source_ok ''strategy-engine''" by code_simp
lemma source_ok9: "source_ok ''text-scouts''" by code_simp

lemmas source_common_oks = source_common_ok1 source_common_ok2 source_common_ok3 source_common_ok4
  source_common_ok5 source_common_ok6 source_common_ok7 source_common_ok8 source_common_ok9

lemmas source_oks = source_ok1 source_ok2 source_ok3 source_ok4 source_ok5 source_ok6 source_ok7
  source_ok8 source_ok9

lemma sample_source_lookup:
  assumes "n \<in> set SOURCE_SERVICES"
  shows "map_of sample_services n = Some (sample_source_service n)"
    "map_of (map (\<lambda>n. (n, sample_lock_entry n)) SOURCE_SERVICES) n = Some (sample_lock_entry n)"
proof -
  have look: "map_of (map (\<lambda>n. (n, f n)) SOURCE_SERVICES) n = Some (f n)" for f :: "string \<Rightarrow> pyval"
    using assms by (simp add: map_of_map_restrict)
  show "map_of (map (\<lambda>n. (n, sample_lock_entry n)) SOURCE_SERVICES) n = Some (sample_lock_entry n)"
    by (rule look)
  show "map_of sample_services n = Some (sample_source_service n)"
    unfolding sample_services_def map_of_append by (simp add: look map_add_Some_iff)
qed

lemma sub_lookup: "map_of m k = map_of m' k \<Longrightarrow> sub (PDict m) k = sub (PDict m') k"
  by (simp add: sub_def dict_get_default_def)

lemma sample_source_checks:
  assumes "n \<in> set SOURCE_SERVICES" "source_ok n"
  shows "source_service_checks sample_host (PDict sample_services)
    (PDict (map (\<lambda>n. (n, sample_lock_entry n)) SOURCE_SERVICES)) n = Inr []"
proof -
  have "sub (PDict sample_services) n = sub (PDict [(n, sample_source_service n)]) n"
    by (rule sub_lookup) (simp add: sample_source_lookup assms(1))
  then show ?thesis using assms(2)
    by (simp add: source_ok_def source_service_checks_def dict_get_default_def sample_source_lookup assms(1))
qed

lemma sample_exact_ok: "list_all (\<lambda>n. exact_secret_checks sample_host (PDict [(n, sample_source_service n)]) n = Inr []) SOURCE_SERVICES"
  by code_simp

lemma sample_provider_ok:
  "list_all (\<lambda>x. provider_secret_checks sample_host (PDict [(fst x, sample_source_service (fst x))]) x = Inr [])
     expected_provider_secrets"
  by code_simp

lemma sample_keys_ok: "keys_differ (PDict sample_services) EXPECTED_SERVICES = Inr False" by code_simp

lemma sample_infrastructure_ok:
  "list_all (\<lambda>x. common_service_checks sample_host x = Inr []) (sample_rest)"
  by code_simp

lemma sample_scope_ok: "scope_check sample_host False (PDict sample_services) = Inr []" by code_simp
lemma sample_execution_ok: "execution_checks sample_host False (PDict sample_services) = Inr []" by code_simp
lemma sample_definitions_ok: "secret_definition_checks sample_host sample_config = Inr []" by code_simp
lemma sample_policy_ok: "policy_checks sample_host (PDict sample_services) = Inr []" by code_simp
lemma sample_cadence_ok: "cadence_check sample_host (PDict sample_services) = Inr []" by code_simp
lemma sample_redis_ok: "redis_checks sample_host (PDict sample_services) = Inr []" by code_simp
lemma sample_database_ok: "database_checks sample_host (PDict sample_services) = Inr []" by code_simp
lemma sample_secrets_ok: "infrastructure_secret_checks sample_host (PDict sample_services) = Inr []" by code_simp
lemma sample_volumes_ok: "volume_checks sample_host (PDict sample_services) = Inr []" by code_simp
lemma sample_named_ok: "named_volume_checks sample_config = Inr []" by code_simp
lemma sample_networks_ok: "network_checks sample_config = Inr []" by code_simp

lemma sample_users_ok:
  "list_all (\<lambda>(name, user). py_bind (sub (PDict sample_services) name) (\<lambda>s. get_ne s ''user'' user) = Inr False)
     BASE_INFRASTRUCTURE_USERS"
  by code_simp

lemma sample_management_ok:
  "list_all (\<lambda>n. management_checks sample_host (PDict sample_services) n = Inr []) [''ops-exporter'', ''prometheus'', ''grafana'']"
  by code_simp

lemma sample_image_ok:
  "list_all (\<lambda>n. image_check sample_host (PDict sample_services) n = Inr [])
     [''redis'', ''timescaledb'', ''prometheus'', ''grafana'']"
  by code_simp

lemma sample_budget_ok: "x_budget_check (PDict sample_services) = Inr []"
proof -
  let ?env = "PDict (map (\<lambda>k. (k, PStr (sample_env_value ''text-scouts'' k)))
    (the (map_of BASE_SOURCE_ENVIRONMENT_KEYS ''text-scouts'')))"
  have "service_env (PDict sample_services) ''text-scouts'' = Inr ?env" by code_simp
  moreover have "py_item ?env ''KAIROS_X_MONTHLY_BUDGET_MICROUSD'' = Inr (PStr ''2000000'')" by code_simp
  moreover have "int_of_text ''2000000'' = Inr 2000000"
    by (simp add: int_of_text_def strip_of_def is_space_def is_digit_def parse_nat_def digit_value_def Let_def)
  ultimately show ?thesis by (simp add: x_budget_check_def except_key_type_value_def X_RUNTIME_BUDGET_MICROUSD_def)
qed

lemma sample_lock_ok: "validate_source_lock sample_host sample_lock = Inr []" by code_simp

section \<open>The whole sample\<close>

lemma in_SOURCE_SERVICES:
  "n \<in> set SOURCE_SERVICES \<longleftrightarrow> n = ''aggregator'' \<or> n = ''execution-engine'' \<or> n = ''macro-strategist''
     \<or> n = ''ops-exporter'' \<or> n = ''quant-scouts'' \<or> n = ''risk-manager'' \<or> n = ''router''
     \<or> n = ''strategy-engine'' \<or> n = ''text-scouts''"
  by (simp add: SOURCE_SERVICES_def)

lemma sample_common_ok: "\<forall>x \<in> set sample_services. common_service_checks sample_host x = Inr []"
proof
  fix x assume "x \<in> set sample_services"
  then consider n where "n \<in> set SOURCE_SERVICES" "x = (n, sample_source_service n)" | "x \<in> set (sample_rest)"
    unfolding sample_services_def set_append set_map by blast
  then show "common_service_checks sample_host x = Inr []"
  proof cases
    case 1
    then have "source_common_ok n" using source_common_oks unfolding in_SOURCE_SERVICES by blast
    then show ?thesis using 1(2) by (simp add: source_common_ok_def)
  next
    case 2
    then show ?thesis using sample_infrastructure_ok unfolding list_all_iff by blast
  qed
qed

lemma sample_source_all_ok:
  assumes "n \<in> set SOURCE_SERVICES"
  shows "source_service_checks sample_host (PDict sample_services)
      (PDict (map (\<lambda>n. (n, sample_lock_entry n)) SOURCE_SERVICES)) n = Inr []"
    "exact_secret_checks sample_host (PDict sample_services) n = Inr []"
proof -
  have "source_ok n" using assms source_oks unfolding in_SOURCE_SERVICES by blast
  with assms show "source_service_checks sample_host (PDict sample_services)
      (PDict (map (\<lambda>n. (n, sample_lock_entry n)) SOURCE_SERVICES)) n = Inr []" by (rule sample_source_checks)
  have "sub (PDict sample_services) n = sub (PDict [(n, sample_source_service n)]) n"
    by (rule sub_lookup) (simp add: sample_source_lookup assms)
  moreover have "exact_secret_checks sample_host (PDict [(n, sample_source_service n)]) n = Inr []"
    using sample_exact_ok assms unfolding list_all_iff by blast
  ultimately show "exact_secret_checks sample_host (PDict sample_services) n = Inr []"
    by (simp add: exact_secret_checks_def)
qed

lemma sample_provider_all_ok:
  assumes "x \<in> set expected_provider_secrets"
  shows "provider_secret_checks sample_host (PDict sample_services) x = Inr []"
proof -
  obtain n ps where x: "x = (n, ps)" by (cases x)
  have "list_all (\<lambda>x. fst x \<in> set SOURCE_SERVICES) expected_provider_secrets" by code_simp
  then have "n \<in> set SOURCE_SERVICES" using assms x by (auto simp: list_all_iff)
  then have "sub (PDict sample_services) n = sub (PDict [(n, sample_source_service n)]) n"
    by (intro sub_lookup) (simp add: sample_source_lookup)
  moreover have "provider_secret_checks sample_host (PDict [(n, sample_source_service n)]) x = Inr []"
    using sample_provider_ok assms x unfolding list_all_iff by fastforce
  ultimately show ?thesis by (simp add: x provider_secret_checks_def)
qed

lemma sample_compose_ok: "validate_compose sample_host sample_config sample_lock False False = Inr []"
proof -
  have names: "py_get sample_config ''name'' = Inr (PStr ''kairos'')" by code_simp
  have services: "sub sample_config ''services'' = Inr (PDict sample_services)"
    by (simp add: sample_config_def sub_def dict_get_default_def or_empty_def sample_services_def SOURCE_SERVICES_def)
  have lock: "sub sample_lock ''services'' = Inr (PDict (map (\<lambda>n. (n, sample_lock_entry n)) SOURCE_SERVICES))"
    by (simp add: sample_lock_def sub_def dict_get_default_def or_empty_def SOURCE_SERVICES_def)
  have common: "py_bind (py_items (PDict sample_services)) (\<lambda>ms. gather (map (common_service_checks sample_host) ms)) = Inr []"
    using sample_common_ok by (simp add: gather_Nil)
  have users: "gather (map (\<lambda>(name, user). err_if (py_bind (sub (PDict sample_services) name)
      (\<lambda>s. get_ne s ''user'' user)) (name @ '': must run as the pinned non-root image user''))
      BASE_INFRASTRUCTURE_USERS) = Inr []"
    using sample_users_ok unfolding list_all_iff by (intro gather_mapI) auto
  have sources: "gather (map (source_service_checks sample_host (PDict sample_services)
      (PDict (map (\<lambda>n. (n, sample_lock_entry n)) SOURCE_SERVICES))) SOURCE_SERVICES) = Inr []"
    "gather (map (exact_secret_checks sample_host (PDict sample_services)) SOURCE_SERVICES) = Inr []"
    "gather (map (provider_secret_checks sample_host (PDict sample_services)) expected_provider_secrets) = Inr []"
    by (intro gather_mapI sample_source_all_ok sample_provider_all_ok; assumption)+
  have managed: "gather (map (management_checks sample_host (PDict sample_services))
      [''ops-exporter'', ''prometheus'', ''grafana'']) = Inr []"
    "gather (map (image_check sample_host (PDict sample_services))
      [''redis'', ''timescaledb'', ''prometheus'', ''grafana'']) = Inr []"
    using sample_management_ok sample_image_ok unfolding list_all_iff by (intro gather_mapI; blast)+
  show ?thesis
    unfolding validate_compose_def names services lock py_bind.simps gather_parts_Nil err_if_Nil
    by (intro conjI common users sources managed sample_keys_ok sample_scope_ok sample_execution_ok
        sample_definitions_ok sample_budget_ok sample_policy_ok sample_cadence_ok sample_redis_ok
        sample_database_ok sample_secrets_ok sample_volumes_ok sample_named_ok sample_networks_ok refl)
      simp_all
qed

section \<open>Witnesses\<close>

theorem compose_network_isolation_witness:
  "\<exists>ms ns. sub sample_config ''services'' = Inr (PDict ms) \<and> sub sample_config ''networks'' = Inr (PDict ns)
    \<and> (\<forall>(name, service) \<in> set ms. \<exists>nets. network_set service = Inr nets
         \<and> (\<forall>v \<in> set nets. \<exists>k. v = PStr k
              \<and> (internal_network ns k \<or> k = ''egress'' \<and> name \<in> set EGRESS_SERVICES)))"
  by (rule compose_network_isolation [OF sample_compose_ok])

theorem compose_secrets_are_files_witness:
  "\<exists>ms. sub sample_config ''services'' = Inr (PDict ms)"
  using compose_secrets_are_files [OF sample_compose_ok] by blast

theorem compose_builds_pinned_witness:
  "\<exists>services service build revision. sub sample_config ''services'' = Inr services
     \<and> sub services ''router'' = Inr service \<and> sub service ''build'' = Inr build \<and> hex_lower_n 40 revision"
  using compose_builds_pinned [OF sample_lock_ok sample_compose_ok, of "''router''"]
  by (auto simp: in_SOURCE_SERVICES)

definition nan_services :: pyval where
  "nan_services = PDict
     [(''execution-engine'', PDict [(''environment'', PDict [(''KAIROS_ACCOUNT_SNAPSHOT_INTERVAL_S'', PStr ''nan'')])]),
      (''risk-manager'', PDict [(''environment'', PDict [(''KAIROS_ACCOUNT_SNAPSHOT_MAX_AGE_S'', PStr ''60'')])])]"

theorem cadence_check_admits_witness: "cadence_check sample_host nan_services = Inr []"
  by (subst cadence_check_admits
      [where execution = "PDict [(''environment'', PDict [(''KAIROS_ACCOUNT_SNAPSHOT_INTERVAL_S'', PStr ''nan'')])]"
        and execution_env = "PDict [(''KAIROS_ACCOUNT_SNAPSHOT_INTERVAL_S'', PStr ''nan'')]"
        and risk_env = "PDict [(''KAIROS_ACCOUNT_SNAPSHOT_MAX_AGE_S'', PStr ''60'')]"
        and a = "PStr ''nan''" and interval = FNan and b = "PStr ''60''" and max_age = "FFin 60"])
    (simp_all add: nan_services_def sub_def service_env_def or_empty_def dict_get_default_def to_float_def sample_host_def)

definition sample_args :: deploy_args where
  "sample_args = \<lparr>a_source_lock = Inr sample_lock, a_compose_json = Some (Inr sample_config), a_env_file = None,
     a_verify_remote = False, a_live = False, a_allow_example_values = False\<rparr>"

definition no_remote :: remote where
  "no_remote = \<lparr>fetch = (\<lambda>_. Inl OSError), toml = (\<lambda>_. Inl ValueError), json = (\<lambda>_. Inl JSONDecodeError)\<rparr>"

theorem deploy_exit_zero_witness:
  "\<exists>lock. load_json (a_source_lock sample_args) = Inr lock \<and> validate_source_lock sample_host lock = Inr []"
proof -
  have "is_dict sample_config" "is_dict sample_lock" by (simp_all add: sample_config_def sample_lock_def)
  then have "deploy_main sample_host no_remote sample_args = Inr 0"
    using sample_compose_ok sample_lock_ok
    by (simp add: deploy_main_def deploy_errors_def sample_args_def load_json_def)
  from deploy_exit_zero [OF this] show ?thesis by blast
qed

end
