(* ===== verification/Paper_Sample.thy ===== *)
theory Paper_Sample
  imports Paper_Gate Deployment_Sample
begin

text \<open>
  A paper lock and model that validate, evaluated by the kernel part by part, and the witnesses of
  the properties of the paper validator.
\<close>

section \<open>The sample\<close>

definition paper_lock_entry :: "string \<Rightarrow> pyval" where
  "paper_lock_entry name = PDict
     ([(''repository'', PStr (the (map_of PAPER_REPOSITORIES name))), (''revision'', PStr (replicate 40 (CHR ''a''))),
       (''package_dir'', PStr ''p''), (''command'', PStr (the (map_of PAPER_COMMANDS name)))]
      @ (if name = ''execution-engine'' then [(''extra'', PStr ''evedex'')]
         else if name = ''strategy-engine'' then [(''extra'', PStr ''runtime'')] else []))"

definition paper_lock_services :: items where
  "paper_lock_services = map (\<lambda>n. (n, paper_lock_entry n)) PAPER_SOURCE_SERVICES"

definition paper_lock :: pyval where
  "paper_lock = PDict
     [(''schema_version'', PInt 1),
      (''build'', PDict [(''python'', PStr ''3.11.15''), (''uv'', PStr ''0.12.3''), (''node'', PStr ''22'')]),
      (''dependencies'', PDict (map (\<lambda>n. (n, PStr (replicate 40 (CHR ''a'')))) [''kairos-core'', ''kairos-persistence''])),
      (''infrastructure'', PDict [(''redis'', PDict [(''image'', PStr EXPECTED_REDIS_IMAGE),
         (''required_feature'', PStr EXPECTED_REDIS_FEATURE)])]),
      (''services'', PDict paper_lock_services)]"

definition paper_env_value :: "string \<Rightarrow> string \<Rightarrow> string" where
  "paper_env_value name key =
     (case map_of (PAPER_COMMON_ENVIRONMENT @ PAPER_ENDPOINTS @ expected_quant
         @ [(''KAIROS_SECRET_BINDINGS'', join '','' (map (\<lambda>(k, p). k @ ''='' @ p) PAPER_COMMON_BINDINGS)),
            (''KAIROS_TRADING_MODE'', ''PAPER''), (''KAIROS_ENABLED_STRATEGY_IDS'', ''[]''),
            (''KAIROS_EVEDEX_PROFILE'', ''DEV''), (''KAIROS_PAPER_STRATEGY_ALLOWLIST'', CANARY_ALLOWLIST),
            (''KAIROS_PAPER_ACCOUNT_ID'', ''kairos-paper-dev-a''), (''KAIROS_ACCOUNT_ID'', ''kairos-paper-dev-a''),
            (''KAIROS_EXCHANGE'', ''evedex''), (''KAIROS_EVEDEX_DEV_SYMBOL_MAP'', PAPER_DEV_SYMBOL_MAP),
            (''KAIROS_EVEDEX_DEV_API_KEY_FILE'', ''/run/secrets/evedex_dev_api_key''),
            (''KAIROS_EVEDEX_DEV_PRIVATE_KEY_FILE'', ''/run/secrets/evedex_dev_private_key''),
            (''KAIROS_EVEDEX_SIDECAR_NODE'', PAPER_SIDECAR_NODE_RUNTIME)]) key of
        None \<Rightarrow> ''true'' | Some v \<Rightarrow> v)"

definition paper_build :: "string \<Rightarrow> pyval" where
  "paper_build name =
     (let repository = the (map_of PAPER_REPOSITORIES name); revision = replicate 40 (CHR ''a'') in PDict
      [(''context'', PStr ''.''), (''dockerfile'', PStr (paper_dockerfile name)), (''pull'', PBool True),
       (''additional_contexts'', PDict [(''service'', PStr (repository @ ''.git#'' @ revision))]),
       (''args'', PDict
         [(''SOURCE_REVISION'', PStr revision), (''SOURCE_REPOSITORY'', PStr repository), (''PACKAGE_DIR'', PStr ''p''),
          (''SERVICE_EXTRA'', PStr (if name = ''execution-engine'' then ''evedex''
             else if name = ''strategy-engine'' then ''runtime'' else ''''))])])"

definition paper_service :: "string \<Rightarrow> pyval" where
  "paper_service name = PDict
     ([(''build'', paper_build name), (''command'', PList [PStr (the (map_of PAPER_COMMANDS name))]),
       (''environment'', PDict (map (\<lambda>k. (k, PStr (paper_env_value name k))) (the (map_of PAPER_SOURCE_ENVIRONMENT_KEYS name)))),
       (''secrets'', sample_secrets (paper_secret_names name)), (''read_only'', PBool True), (''init'', PBool True),
       (''cap_drop'', PList [PStr ''ALL'']), (''security_opt'', PList [PStr ''no-new-privileges:true'']),
       (''depends_on'', PDict [(''redis'', healthy), (''timescaledb'', healthy)]),
       (''networks'', PDict (map (\<lambda>n. (n, PNone)) (paper_networks name)))]
      @ (if name = ''canary-controller'' then [(''profiles'', PList [PStr ''canary'']), (''restart'', PStr ''no'')] else []))"

definition paper_infrastructure :: "string \<Rightarrow> items \<Rightarrow> string \<times> pyval" where
  "paper_infrastructure name extra = (name, PDict
     (extra @ [(''networks'', PDict (map (\<lambda>n. (n, PNone)) (paper_networks name))),
        (''environment'', PDict (map (\<lambda>k. (k, PStr (if k = ''POSTGRES_PASSWORD_FILE''
            then ''/run/secrets/paper_postgres_password'' else ''x''))) (the (map_of PAPER_INFRASTRUCTURE_ENVIRONMENT_KEYS name)))),
        (''secrets'', sample_secrets (the (map_of paper_infrastructure_secrets name))),
        (''volumes'', PList (map sample_volume (the (map_of paper_volume_targets name))))]))"

definition paper_rest :: items where
  "paper_rest =
     [paper_infrastructure ''redis'' [(''image'', PStr EXPECTED_REDIS_IMAGE), (''user'', PStr ''redis:redis'')],
      paper_infrastructure ''timescaledb'' [(''image'', sample_image ''timescale:1''), (''user'', PStr ''postgres:postgres'')],
      paper_infrastructure ''prometheus''
        [(''image'', sample_image ''prometheus:1''), (''ports'', PList [PDict [(''host_ip'', PStr ''127.0.0.1'')]])],
      paper_infrastructure ''grafana'' [(''image'', sample_image ''grafana:1'')]]"

definition paper_services :: items where
  "paper_services = map (\<lambda>n. (n, paper_service n)) PAPER_SOURCE_SERVICES @ paper_rest"

definition paper_config :: pyval where
  "paper_config = PDict
     [(''name'', PStr ''kairos-paper''), (''services'', PDict paper_services),
      (''secrets'', PDict (map (\<lambda>(n, b). (n, PDict [(''file'', PStr (''/srv/Paper/'' @ b))])) PAPER_SECRET_FILES)),
      (''volumes'', PDict (map (\<lambda>n. (n, PNone)) paper_named_volumes)),
      (''networks'', PDict (map (\<lambda>n. (n, PDict [(''internal'', PBool True)])) PAPER_INTERNAL_NETWORKS
         @ [(''paper-egress'', PDict [])]))]"

section \<open>Evaluation, part by part\<close>

definition paper_common_ok :: "string \<Rightarrow> bool" where
  "paper_common_ok n \<longleftrightarrow> paper_common_checks sample_host (n, paper_service n) = Inr []"

definition paper_source_ok :: "string \<Rightarrow> bool" where
  "paper_source_ok n \<longleftrightarrow>
     paper_source_checks sample_host (PDict [(n, paper_service n)]) (PDict [(n, paper_lock_entry n)]) n = Inr []"

lemma paper_common_ok1: "paper_common_ok ''canary-controller''" by code_simp
lemma paper_common_ok2: "paper_common_ok ''execution-engine''" by code_simp
lemma paper_common_ok3: "paper_common_ok ''ops-exporter''" by code_simp
lemma paper_common_ok4: "paper_common_ok ''quant-scouts''" by code_simp
lemma paper_common_ok5: "paper_common_ok ''risk-manager''" by code_simp
lemma paper_common_ok6: "paper_common_ok ''strategy-engine''" by code_simp

lemma paper_source_ok1: "paper_source_ok ''canary-controller''" by code_simp
lemma paper_source_ok2: "paper_source_ok ''execution-engine''" by code_simp
lemma paper_source_ok3: "paper_source_ok ''ops-exporter''" by code_simp
lemma paper_source_ok4: "paper_source_ok ''quant-scouts''" by code_simp
lemma paper_source_ok5: "paper_source_ok ''risk-manager''" by code_simp
lemma paper_source_ok6: "paper_source_ok ''strategy-engine''" by code_simp

lemmas paper_oks = paper_common_ok1 paper_common_ok2 paper_common_ok3 paper_common_ok4 paper_common_ok5
  paper_common_ok6 paper_source_ok1 paper_source_ok2 paper_source_ok3 paper_source_ok4 paper_source_ok5 paper_source_ok6

lemma paper_names:
  "n \<in> set PAPER_SOURCE_SERVICES \<longleftrightarrow> n = ''canary-controller'' \<or> n = ''execution-engine'' \<or> n = ''ops-exporter''
     \<or> n = ''quant-scouts'' \<or> n = ''risk-manager'' \<or> n = ''strategy-engine''"
  by (simp add: PAPER_SOURCE_SERVICES_def)

lemma paper_lookup:
  assumes "n \<in> set PAPER_SOURCE_SERVICES"
  shows "map_of paper_services n = Some (paper_service n)" "map_of paper_lock_services n = Some (paper_lock_entry n)"
proof -
  have look: "map_of (map (\<lambda>n. (n, f n)) PAPER_SOURCE_SERVICES) n = Some (f n)" for f :: "string \<Rightarrow> pyval"
    using assms by (simp add: map_of_map_restrict)
  show "map_of paper_lock_services n = Some (paper_lock_entry n)" unfolding paper_lock_services_def by (rule look)
  show "map_of paper_services n = Some (paper_service n)"
    unfolding paper_services_def map_of_append by (simp add: look map_add_Some_iff)
qed

lemma paper_source_all_ok:
  assumes "n \<in> set PAPER_SOURCE_SERVICES"
  shows "paper_source_checks sample_host (PDict paper_services) (PDict paper_lock_services) n = Inr []"
proof -
  have "paper_source_ok n" using assms paper_oks unfolding paper_names by blast
  moreover have "sub (PDict paper_services) n = sub (PDict [(n, paper_service n)]) n"
    by (rule sub_lookup) (simp add: paper_lookup assms)
  ultimately show ?thesis
    by (simp add: paper_source_ok_def paper_source_checks_def dict_get_default_def paper_lookup assms)
qed

lemma paper_rest_ok: "list_all (\<lambda>x. paper_common_checks sample_host x = Inr []) paper_rest" by code_simp

lemma paper_common_all_ok: "x \<in> set paper_services \<Longrightarrow> paper_common_checks sample_host x = Inr []"
proof -
  assume "x \<in> set paper_services"
  then consider n where "n \<in> set PAPER_SOURCE_SERVICES" "x = (n, paper_service n)" | "x \<in> set paper_rest"
    unfolding paper_services_def set_append set_map by blast
  then show ?thesis
  proof cases
    case 1
    then have "paper_common_ok n" using paper_oks unfolding paper_names by blast
    then show ?thesis using 1(2) by (simp add: paper_common_ok_def)
  next
    case 2
    then show ?thesis using paper_rest_ok unfolding list_all_iff by blast
  qed
qed

lemma paper_keys_ok: "keys_differ (PDict paper_services) PAPER_EXPECTED_SERVICES = Inr False" by code_simp
lemma paper_forbidden_ok: "py_bind (py_set (PDict paper_services)) (\<lambda>ks. Inr (meet_strs FORBIDDEN_PAPER_SERVICES ks \<noteq> [])) = Inr False"
  by code_simp
lemma paper_users_ok: "gather (map (\<lambda>(name, user). err_if (py_bind (sub (PDict paper_services) name) (\<lambda>s. get_ne s ''user'' user))
    (name @ '': must run as the pinned non-root image user'')) PAPER_INFRASTRUCTURE_USERS) = Inr []"
  by code_simp
lemma paper_mode_ok: "gather (map (mode_checks sample_host (PDict paper_services))
    [''strategy-engine'', ''risk-manager'', ''canary-controller'', ''execution-engine'']) = Inr []"
  by code_simp
lemma paper_alpha_ok: "py_bind (paper_env (PDict paper_services) ''strategy-engine'') (\<lambda>env.
    get_ne env ''KAIROS_ENABLED_STRATEGY_IDS'' ''[]'') = Inr False"
  by code_simp
lemma paper_risk_ok: "risk_checks sample_host (PDict paper_services) = Inr []" by code_simp
lemma paper_canary_ok: "canary_checks sample_host (PDict paper_services) = Inr []" by code_simp
lemma paper_quant_ok: "quant_checks sample_host (PDict paper_services) = Inr []" by code_simp
lemma paper_venue_ok: "venue_checks sample_host (PDict paper_services) = Inr []" by code_simp
lemma paper_secret_ok: "paper_secret_checks sample_host paper_config = Inr []" by code_simp
lemma paper_infra_ok: "paper_infrastructure_checks sample_host (PDict paper_services) = Inr []" by code_simp
lemma paper_volume_ok: "paper_volume_checks sample_host (PDict paper_services) = Inr []" by code_simp
lemma paper_named_ok: "paper_named_volume_checks paper_config = Inr []" by code_simp
lemma paper_database_ok: "paper_database_checks sample_host (PDict paper_services) = Inr []" by code_simp
lemma paper_network_ok: "paper_network_checks paper_config = Inr []" by code_simp
lemma paper_ports_ok: "gather (map (paper_port_checks sample_host (PDict paper_services))
    [''ops-exporter'', ''prometheus'', ''grafana'']) = Inr []"
  by code_simp
lemma paper_lock_ok: "validate_paper_source_lock sample_host paper_lock = Inr []" by code_simp

lemma paper_compose_ok: "validate_paper_compose sample_host paper_config paper_lock = Inr []"
proof -
  have names: "py_get paper_config ''name'' = Inr (PStr ''kairos-paper'')" by code_simp
  have services: "sub paper_config ''services'' = Inr (PDict paper_services)"
    by (simp add: paper_config_def sub_def dict_get_default_def or_empty_def paper_services_def PAPER_SOURCE_SERVICES_def)
  have lock: "sub paper_lock ''services'' = Inr (PDict paper_lock_services)"
    by (simp add: paper_lock_def sub_def dict_get_default_def or_empty_def paper_lock_services_def PAPER_SOURCE_SERVICES_def)
  have common: "py_bind (py_items (PDict paper_services)) (\<lambda>ms. gather (map (paper_common_checks sample_host) ms)) = Inr []"
    by (simp add: gather_Nil paper_common_all_ok)
  have sources: "gather (map (paper_source_checks sample_host (PDict paper_services) (PDict paper_lock_services))
      PAPER_SOURCE_SERVICES) = Inr []"
    by (intro gather_mapI paper_source_all_ok)
  show ?thesis
    unfolding validate_paper_compose_def names services lock py_bind.simps gather_parts_Nil err_if_Nil
    by (intro conjI common sources paper_keys_ok [unfolded keys_differ_def] paper_keys_ok paper_forbidden_ok
        paper_forbidden_ok [unfolded py_bind.simps] paper_users_ok paper_mode_ok paper_alpha_ok paper_risk_ok
        paper_canary_ok paper_quant_ok paper_venue_ok paper_secret_ok paper_infra_ok paper_volume_ok paper_named_ok
        paper_database_ok paper_network_ok paper_ports_ok refl) simp_all
qed

section \<open>Witnesses\<close>

theorem paper_network_isolation_witness:
  "\<exists>ms ns. sub paper_config ''services'' = Inr (PDict ms) \<and> sub paper_config ''networks'' = Inr (PDict ns)
    \<and> (\<forall>(name, service) \<in> set ms. \<exists>nets. network_set service = Inr nets
         \<and> (\<forall>v \<in> set nets. \<exists>k. v = PStr k
              \<and> (internal_network ns k \<or> k = ''paper-egress'' \<and> name \<in> set PAPER_EGRESS_SERVICES)))"
  by (rule paper_network_isolation [OF paper_compose_ok])


theorem paper_dev_venue_only_witness:
  "\<exists>services env. sub paper_config ''services'' = Inr services \<and> paper_env services ''execution-engine'' = Inr env
     \<and> get_text sample_host env ''KAIROS_EVEDEX_CHAIN_ID'' = Inr ''16182''"
proof -
  have "(''KAIROS_EVEDEX_CHAIN_ID'', ''16182'') \<in> set PAPER_ENDPOINTS" by (simp add: PAPER_ENDPOINTS_def)
  with paper_dev_venue_only [OF paper_compose_ok] show ?thesis by fast
qed

theorem paper_secrets_in_one_directory_witness:
  "\<exists>defs directory. sub paper_config ''secrets'' = Inr defs
    \<and> (\<forall>(name, basename) \<in> set PAPER_SECRET_FILES. \<exists>p. secret_path sample_host defs name = Inr p
         \<and> casefold_points p = directory @ 47 # casefold_points basename)
    \<and> rsplit_last (rstrip_slash directory) \<noteq> map of_char ''secrets''"
  by (rule paper_secrets_in_one_directory [OF paper_compose_ok])

definition paper_sample_args :: paper_args where
  "paper_sample_args = \<lparr>p_source_lock = Inr paper_lock, p_compose_json = Some (Inr paper_config), p_env_file = None,
     p_verify_remote = False, p_allow_example_values = False\<rparr>"

theorem paper_exit_status_witness: "paper_main sample_host no_remote paper_sample_args = Inr 0"
proof -
  have "is_dict paper_config" "is_dict paper_lock" by (simp_all add: paper_config_def paper_lock_def)
  then show ?thesis
    using paper_exit_status [of sample_host no_remote paper_sample_args] paper_compose_ok paper_lock_ok
    by (simp add: paper_sample_args_def load_json_def)
qed

end
