(* ===== verification/Soak.thy ===== *)
theory Soak
  imports Py_Check "HOL-Library.AList" "HOL-Library.While_Combinator"
begin

text \<open>
  \<^verbatim>\<open>src/scripts/soak_reconnect.py\<close>: the soak that samples the metrics of the runtime until a
  deadline, restarts Redis once when asked to, and turns the samples into a verdict. A run is the
  iteration of one step over a schedule: for every turn of the loop the three clock readings, the
  outcome of the restart command and the outcome of the request. A loop that does not end has no
  value. The text of a float is read by a parameter, as the language reads it.
\<close>

type_synonym metrics = "(string \<times> pyfloat) list"

section \<open>Metrics and their health\<close>

definition REQUIRED_METRICS :: "string list" where
  "REQUIRED_METRICS =
     [''kairos_persistence_up'', ''kairos_redis_up'', ''kairos_outbox_pending'', ''kairos_outbox_dead_lettered_total'',
      ''kairos_inbox_failed'', ''kairos_inbox_processing_oldest_age_seconds'', ''kairos_inbox_processing_expired'',
      ''kairos_execution_effects_prepared'', ''kairos_execution_effects_failed'', ''kairos_outbox_oldest_age_seconds'']"

definition ZERO_REQUIRED :: "string list" where
  "ZERO_REQUIRED =
     [''kairos_outbox_dead_lettered_total'', ''kairos_inbox_failed'', ''kairos_inbox_processing_expired'',
      ''kairos_execution_effects_prepared'', ''kairos_execution_effects_failed'']"

definition MAX_OUTBOX_AGE_SECONDS :: pyfloat where "MAX_OUTBOX_AGE_SECONDS = FFin 60"

definition PAPER_REQUIRED_METRICS :: "string list" where
  "PAPER_REQUIRED_METRICS =
     [''kairos_closed_bar_gaps_24h'', ''kairos_closed_bar_symbols_24h'',
      ''kairos_closed_bar_minimum_coverage_ratio_24h'', ''kairos_closed_bar_latest_age_seconds'',
      ''kairos_venue_measurements_24h'', ''kairos_venue_availability_ratio_24h'', ''kairos_venue_poll_expected_24h'',
      ''kairos_venue_poll_attempted_24h'', ''kairos_venue_poll_succeeded_24h'', ''kairos_venue_poll_failed_24h'',
      ''kairos_venue_blocked_24h'', ''kairos_venue_p95_abs_basis_bps'', ''kairos_venue_p95_spread_bps'',
      ''kairos_venue_p95_slippage_bps'', ''kairos_venue_max_book_age_ms'', ''kairos_venue_max_timestamp_skew_ms'',
      ''kairos_venue_p95_latency_ms'', ''kairos_venue_latest_age_seconds'', ''kairos_paper_active_trades'',
      ''kairos_paper_unprotected_trades'', ''kairos_paper_recovery_blocked'', ''kairos_execution_p95_shortfall_bps'',
      ''kairos_paper_account_latest_age_seconds'', ''kairos_api_spend_month_usd'',
      ''kairos_execution_runtime_health_age_seconds'', ''kairos_evedex_auth_age_seconds'',
      ''kairos_evedex_auth_expires_in_seconds'', ''kairos_evedex_local_mutation_reserve'',
      ''kairos_evedex_local_mutation_capacity'', ''kairos_evedex_local_mutation_compensation_reserve'',
      ''kairos_evedex_local_mutation_window_seconds'', ''kairos_evedex_venue_rate_limit_observable'',
      ''kairos_evedex_venue_rate_limit_reserve'']"

definition PAPER_ZERO_REQUIRED :: "string list" where
  "PAPER_ZERO_REQUIRED = [''kairos_closed_bar_gaps_24h'', ''kairos_paper_unprotected_trades'']"

definition PAPER_WINDOW_READINESS_ERRORS :: "string list" where
  "PAPER_WINDOW_READINESS_ERRORS =
     [''venue_measurements_missing'', ''closed_bar_symbol_coverage_incomplete'', ''closed_bar_coverage_below_0.999'',
      ''venue_availability_below_0.99'', ''venue_poll_schedule_incomplete'']"

definition IRREVERSIBLE_QUALIFICATION_ERRORS :: "string list" where
  "IRREVERSIBLE_QUALIFICATION_ERRORS =
     [''nonzero:kairos_outbox_dead_lettered_total'', ''nonzero:kairos_inbox_failed'',
      ''nonzero:kairos_execution_effects_failed'', ''nonzero:kairos_closed_bar_gaps_24h'',
      ''nonzero:kairos_paper_unprotected_trades'', ''venue_poll_fact_counts_inconsistent'',
      ''api_qualification_budget_exceeded'', ''evedex_mutation_budget_unsafe'']"

definition is_window_readiness_error :: "string \<Rightarrow> bool" where
  "is_window_readiness_error error \<longleftrightarrow> error \<in> set PAPER_WINDOW_READINESS_ERRORS \<or> startswith error ''threshold:''"

definition sample_availability_errors :: "string list \<Rightarrow> bool \<Rightarrow> string list" where
  "sample_availability_errors errors paper =
     (if \<not> paper then errors else filter (\<lambda>e. \<not> is_window_readiness_error e) errors)"

definition metric_line :: "(string \<Rightarrow> pyfloat py) \<Rightarrow> metrics \<Rightarrow> string \<Rightarrow> metrics" where
  "metric_line tf result raw =
     (let line = strip raw in
      if line = [] \<or> startswith line ''#'' then result
      else case words line of
             [name, value] \<Rightarrow>
               if CHR ''{'' \<in> set name then result
               else (case tf value of Inl _ \<Rightarrow> result | Inr f \<Rightarrow> AList.update name f result)
           | _ \<Rightarrow> result)"

definition parse_metrics :: "(string \<Rightarrow> pyfloat py) \<Rightarrow> string \<Rightarrow> metrics" where
  "parse_metrics tf payload = foldl (metric_line tf) [] (splitlines payload)"

text \<open>\<^verbatim>\<open>metrics.get(name, default)\<close>, and a message under a condition.\<close>

definition metric :: "metrics \<Rightarrow> string \<Rightarrow> pyfloat \<Rightarrow> pyfloat" where
  "metric m name d = (case map_of m name of None \<Rightarrow> d | Some f \<Rightarrow> f)"

definition flag :: "bool \<Rightarrow> string \<Rightarrow> string list" where
  "flag b msg = (if b then [msg] else [])"

lemma flag_Nil [simp]: "flag b msg = [] \<longleftrightarrow> \<not> b"
  by (simp add: flag_def)

lemma set_flag [simp]: "set (flag b msg) = (if b then {msg} else {})"
  by (simp add: flag_def)

definition missing_metrics :: "string list \<Rightarrow> metrics \<Rightarrow> string list" where
  "missing_metrics names m = concat (map (\<lambda>name. flag (map_of m name = None) (''missing:'' @ name)) names)"

definition nonzero_metrics :: "string list \<Rightarrow> metrics \<Rightarrow> string list" where
  "nonzero_metrics names m =
     concat (map (\<lambda>name. flag (case map_of m name of None \<Rightarrow> False | Some f \<Rightarrow> \<not> float_eq f (FFin 0))
       (''nonzero:'' @ name)) names)"

definition base_errors :: "metrics \<Rightarrow> string list" where
  "base_errors m =
     missing_metrics REQUIRED_METRICS m
     @ flag (\<not> float_eq (metric m ''kairos_persistence_up'' FNan) (FFin 1)) ''persistence_unavailable''
     @ flag (\<not> float_eq (metric m ''kairos_redis_up'' FNan) (FFin 1)) ''redis_unavailable''
     @ nonzero_metrics ZERO_REQUIRED m
     @ flag (float_lt MAX_OUTBOX_AGE_SECONDS (metric m ''kairos_outbox_oldest_age_seconds'' (FFin 0))) ''outbox_backlog_stale''"

definition market_errors :: "metrics \<Rightarrow> string list" where
  "market_errors m =
     flag (float_lt (metric m ''kairos_venue_measurements_24h'' (FFin 0)) (FFin 1)) ''venue_measurements_missing''
     @ flag (\<not> float_eq (metric m ''kairos_closed_bar_symbols_24h'' (FFin 0)) (FFin 5)) ''closed_bar_symbol_coverage_incomplete''
     @ flag (float_lt (metric m ''kairos_closed_bar_minimum_coverage_ratio_24h'' (FFin 0)) (round_double (999 / 1000)))
         ''closed_bar_coverage_below_0.999''
     @ flag (float_lt (FFin 90) (metric m ''kairos_closed_bar_latest_age_seconds'' (FFin 0))) ''closed_bar_stream_stale''
     @ flag (float_lt (metric m ''kairos_venue_availability_ratio_24h'' (FFin 0)) (round_double (99 / 100)))
         ''venue_availability_below_0.99''
     @ flag (\<not> float_eq (metric m ''kairos_venue_poll_expected_24h'' (FFin 0)) (FFin 14400)) ''venue_poll_schedule_incomplete''
     @ flag (float_lt (metric m ''kairos_venue_poll_attempted_24h'' (FFin 0))
               (float_add (metric m ''kairos_venue_poll_succeeded_24h'' (FFin 0)) (metric m ''kairos_venue_poll_failed_24h'' (FFin 0))))
         ''venue_poll_fact_counts_inconsistent''
     @ flag (float_lt (FFin 60) (metric m ''kairos_venue_latest_age_seconds'' (FFin 0))) ''venue_measurement_stale''"

definition THRESHOLDS :: "(string \<times> pyfloat) list" where
  "THRESHOLDS =
     [(''kairos_venue_p95_abs_basis_bps'', FFin 25), (''kairos_venue_p95_spread_bps'', FFin 25),
      (''kairos_venue_p95_slippage_bps'', FFin 25), (''kairos_execution_p95_shortfall_bps'', FFin 25),
      (''kairos_venue_max_book_age_ms'', FFin 5000), (''kairos_venue_max_timestamp_skew_ms'', FFin 2000),
      (''kairos_venue_p95_latency_ms'', FFin 5000)]"

definition threshold_errors :: "metrics \<Rightarrow> string list" where
  "threshold_errors m =
     concat (map (\<lambda>(name, maximum). flag (float_lt maximum (metric m name (FFin 0))) (''threshold:'' @ name)) THRESHOLDS)"

definition between :: "pyfloat \<Rightarrow> pyfloat \<Rightarrow> pyfloat \<Rightarrow> bool" where
  "between low x high \<longleftrightarrow> float_le low x \<and> float_le x high"

definition account_errors :: "metrics \<Rightarrow> string list" where
  "account_errors m =
     flag (\<not> float_eq (metric m ''kairos_paper_recovery_blocked'' (FFin 0)) (FFin 0)) ''paper_recovery_blocked''
     @ flag (\<not> between (FFin 0) (metric m ''kairos_paper_account_latest_age_seconds'' (FFin (-1))) (FFin 60))
         ''paper_account_snapshot_stale''
     @ flag (float_lt (FFin 15) (metric m ''kairos_api_spend_month_usd'' (FFin 0))) ''api_qualification_budget_exceeded''
     @ flag (\<not> between (FFin 0) (metric m ''kairos_execution_runtime_health_age_seconds'' (FFin (-1))) (FFin 60))
         ''execution_runtime_health_missing_or_stale''
     @ flag (float_lt (metric m ''kairos_evedex_auth_age_seconds'' (FFin (-1))) (FFin 0)) ''evedex_auth_age_unknown''
     @ flag (float_lt (metric m ''kairos_evedex_auth_expires_in_seconds'' (FFin (-1))) (FFin 60))
         ''evedex_auth_expired_or_near_expiry''"

definition venue_errors :: "metrics \<Rightarrow> string list" where
  "venue_errors m =
     (let capacity = metric m ''kairos_evedex_local_mutation_capacity'' (FFin (-1));
          reserve = metric m ''kairos_evedex_local_mutation_reserve'' (FFin (-1));
          compensation = metric m ''kairos_evedex_local_mutation_compensation_reserve'' (FFin (-1));
          window = metric m ''kairos_evedex_local_mutation_window_seconds'' (FFin (-1));
          venue_observable = metric m ''kairos_evedex_venue_rate_limit_observable'' (FFin (-1));
          venue_reserve = metric m ''kairos_evedex_venue_rate_limit_reserve'' (FFin (-1))
      in flag (\<not> float_eq capacity (FFin 30) \<or> float_lt compensation (FFin 4) \<or> float_lt window (FFin 60))
           ''evedex_mutation_budget_unsafe''
         @ flag (float_lt reserve compensation) ''evedex_compensation_reserve_exhausted''
         @ flag (\<not> (float_eq venue_observable (FFin 0) \<or> float_eq venue_observable (FFin 1)))
             ''evedex_venue_rate_limit_observability_unknown''
         @ flag (float_eq venue_observable (FFin 1) \<and> float_lt venue_reserve (FFin 1)) ''evedex_venue_rate_limit_exhausted'')"

definition health_errors :: "metrics \<Rightarrow> bool \<Rightarrow> string list" where
  "health_errors m paper =
     base_errors m
     @ (if \<not> paper then []
        else missing_metrics PAPER_REQUIRED_METRICS m @ nonzero_metrics PAPER_ZERO_REQUIRED m @ market_errors m
             @ threshold_errors m @ account_errors m @ venue_errors m)"

section \<open>The run\<close>

record soak_tick =
  guard_at :: pyfloat
  elapsed_at :: pyfloat
  sleep_at :: pyfloat
  restart_result :: "unit py"
  response :: "string py"

record soak_args =
  metrics_url :: "string option"
  metrics_command :: "string list option"
  duration_s :: pyfloat
  interval_s :: pyfloat
  restart_at_s :: "pyfloat option"
  restart_command :: "string list"
  paper_gate :: bool
  minimum_availability :: pyfloat

text \<open>\<^verbatim>\<open>urlsplit(url).scheme\<close>\<close>

definition scheme_char :: "char \<Rightarrow> bool" where
  "scheme_char c \<longleftrightarrow> is_lower c \<or> is_upper c \<or> is_digit c \<or> c = CHR ''+'' \<or> c = CHR ''-'' \<or> c = CHR ''.''"

definition url_scheme :: "string \<Rightarrow> string" where
  "url_scheme url =
     (case partition_at (CHR '':'') (filter (\<lambda>c. code c \<noteq> 9 \<and> code c \<noteq> 10 \<and> code c \<noteq> 13) (dropWhile (\<lambda>c. code c \<le> 32) url)) of
        (scheme, found, _) \<Rightarrow>
          if found \<and> scheme \<noteq> [] \<and> (is_lower (hd scheme) \<or> is_upper (hd scheme)) \<and> list_all scheme_char scheme
          then str_lower scheme else [])"

definition fetch_metrics :: "(string \<Rightarrow> pyfloat py) \<Rightarrow> string \<Rightarrow> string py \<Rightarrow> metrics py" where
  "fetch_metrics tf url answer =
     (if url_scheme url \<notin> {''http'', ''https''} then Inl ValueError
      else py_bind answer (\<lambda>payload. Inr (parse_metrics tf payload)))"

definition fetch_metrics_command :: "(string \<Rightarrow> pyfloat py) \<Rightarrow> string list \<Rightarrow> string py \<Rightarrow> metrics py" where
  "fetch_metrics_command tf command answer =
     (if command = [] then Inl ValueError else py_bind answer (\<lambda>payload. Inr (parse_metrics tf payload)))"

definition soak_fetch :: "(string \<Rightarrow> pyfloat py) \<Rightarrow> soak_args \<Rightarrow> soak_tick \<Rightarrow> metrics py" where
  "soak_fetch tf args t =
     (case metrics_url args of
        Some url \<Rightarrow> fetch_metrics tf url (response t)
      | None \<Rightarrow> fetch_metrics_command tf (case metrics_command args of None \<Rightarrow> [] | Some c \<Rightarrow> c) (response t))"

text \<open>\<^verbatim>\<open>except (OSError, subprocess.SubprocessError, TimeoutError)\<close>; a timeout is an \<^verbatim>\<open>OSError\<close>.\<close>

fun soak_caught :: "exn \<Rightarrow> bool" where
  "soak_caught OSError = True"
| "soak_caught SubprocessError = True"
| "soak_caught _ = False"

text \<open>\<^verbatim>\<open>time.sleep\<close> refuses what is not a number, is negative or exceeds the clock.\<close>

fun sleep_error :: "pyfloat \<Rightarrow> exn option" where
  "sleep_error FNan = Some ValueError"
| "sleep_error (FInf s) = Some (if s then ValueError else OverflowError)"
| "sleep_error FNegZero = None"
| "sleep_error (FFin q) = (if q < 0 then Some ValueError else if 2 ^ 63 \<le> q * 10 ^ 9 then Some OverflowError else None)"

record soak_state =
  tick_no :: nat
  samples :: nat
  healthy :: nat
  transport_errors :: nat
  restarted :: bool
  recovered :: bool
  durable_failures :: "string list"
  last_errors :: "string list"
  raised :: "exn option"

definition soak_init :: soak_state where
  "soak_init = \<lparr>tick_no = 0, samples = 0, healthy = 0, transport_errors = 0, restarted = False, recovered = False,
     durable_failures = [], last_errors = [''no_samples''], raised = None\<rparr>"

definition float_sub :: "pyfloat \<Rightarrow> pyfloat \<Rightarrow> pyfloat" where
  "float_sub x y = float_add x (float_neg y)"

definition restart_due :: "soak_args \<Rightarrow> pyfloat \<Rightarrow> soak_tick \<Rightarrow> bool" where
  "restart_due args started t \<longleftrightarrow>
     (case restart_at_s args of None \<Rightarrow> False | Some r \<Rightarrow> float_le r (float_sub (elapsed_at t) started))"

definition soak_observe :: "(string \<Rightarrow> pyfloat py) \<Rightarrow> soak_args \<Rightarrow> soak_tick \<Rightarrow> soak_state \<Rightarrow> soak_state" where
  "soak_observe tf args t s =
     (case soak_fetch tf args t of
        Inl e \<Rightarrow>
          if soak_caught e
          then s\<lparr>transport_errors := Suc (transport_errors s), last_errors := [''metrics_unavailable'']\<rparr>
          else s\<lparr>raised := Some e\<rparr>
      | Inr m \<Rightarrow>
          let errors = health_errors m (paper_gate args);
              good = (sample_availability_errors errors (paper_gate args) = [])
          in s\<lparr>samples := Suc (samples s), last_errors := errors,
               durable_failures := durable_failures s @ filter (\<lambda>e. e \<in> set IRREVERSIBLE_QUALIFICATION_ERRORS) errors,
               healthy := (if good then Suc (healthy s) else healthy s),
               recovered := (recovered s \<or> good \<and> restarted s)\<rparr>)"

definition soak_sleep :: "soak_args \<Rightarrow> pyfloat \<Rightarrow> soak_tick \<Rightarrow> soak_state \<Rightarrow> soak_state" where
  "soak_sleep args started t s =
     (if raised s = None \<and> float_lt (float_sub (sleep_at t) started) (duration_s args)
      then s\<lparr>raised := sleep_error (interval_s args)\<rparr> else s)"

definition soak_step :: "(string \<Rightarrow> pyfloat py) \<Rightarrow> soak_args \<Rightarrow> pyfloat \<Rightarrow> (nat \<Rightarrow> soak_tick) \<Rightarrow> soak_state \<Rightarrow> soak_state" where
  "soak_step tf args started ticks s =
     (let t = ticks (tick_no s);
          due = (restart_due args started t \<and> \<not> restarted s);
          next = s\<lparr>tick_no := Suc (tick_no s), restarted := (restarted s \<or> due)\<rparr>
      in if due \<and> restart_command args = [] then s\<lparr>raised := Some ValueError\<rparr>
         else case (if due then restart_result t else Inr ()) of
                Inl e \<Rightarrow> s\<lparr>raised := Some e\<rparr>
              | Inr _ \<Rightarrow> soak_sleep args started t (soak_observe tf args t next))"

definition soak_guard :: "soak_args \<Rightarrow> pyfloat \<Rightarrow> (nat \<Rightarrow> soak_tick) \<Rightarrow> soak_state \<Rightarrow> bool" where
  "soak_guard args started ticks s \<longleftrightarrow> raised s = None
     \<and> (float_lt (float_sub (guard_at (ticks (tick_no s))) started) (duration_s args) \<or> samples s = 0)"

section \<open>The summary\<close>

record soak_summary =
  sm_samples :: nat
  sm_healthy :: nat
  sm_transport_errors :: nat
  sm_restart_executed :: bool
  sm_recovered :: bool
  sm_minimum :: pyfloat
  sm_measured :: pyfloat
  sm_paper :: bool
  sm_terminal_errors :: "string list"

text \<open>\<^verbatim>\<open>f"{x:.4f}"\<close> of a finite number in the unit interval.\<close>

definition four_digits :: "nat \<Rightarrow> string" where
  "four_digits n = (let s = show_nat n in replicate (4 - length s) (CHR ''0'') @ s)"

definition format_4f :: "pyfloat \<Rightarrow> string" where
  "format_4f x =
     (let n = nat (round_half_even ((case finite_value x of None \<Rightarrow> 0 | Some q \<Rightarrow> q) * 10000))
      in show_nat (n div 10000) @ ''.'' @ four_digits (n mod 10000))"

definition measured_availability :: "nat \<Rightarrow> nat \<Rightarrow> pyfloat" where
  "measured_availability good attempts = (if attempts = 0 then FFin 0 else round_double (of_nat good / of_nat attempts))"

definition soak_finish :: "soak_args \<Rightarrow> soak_state \<Rightarrow> soak_summary" where
  "soak_finish args s =
     (let measured = measured_availability (healthy s) (samples s + transport_errors s);
          failures = durable_failures s
            @ flag (float_lt measured (minimum_availability args)) (''availability_below_'' @ format_4f (minimum_availability args))
      in \<lparr>sm_samples = samples s, sm_healthy = healthy s, sm_transport_errors = transport_errors s,
          sm_restart_executed = restarted s, sm_recovered = (if restarted s then recovered s else True),
          sm_minimum = minimum_availability args, sm_measured = measured, sm_paper = paper_gate args,
          sm_terminal_errors = sorted_set (failures @ last_errors s)\<rparr>)"

definition run_soak :: "(string \<Rightarrow> pyfloat py) \<Rightarrow> soak_args \<Rightarrow> pyfloat \<Rightarrow> (nat \<Rightarrow> soak_tick) \<Rightarrow> soak_summary py option" where
  "run_soak tf args started ticks =
     (if \<not> (float_lt (FFin 0) (minimum_availability args) \<and> float_le (minimum_availability args) (FFin 1))
      then Some (Inl ValueError)
      else if (metrics_url args = None) = (metrics_command args = None) then Some (Inl ValueError)
      else map_option (\<lambda>s. case raised s of Some e \<Rightarrow> Inl e | None \<Rightarrow> Inr (soak_finish args s))
             (while_option (soak_guard args started ticks) (soak_step tf args started ticks) soak_init))"

section \<open>The entry point\<close>

record soak_options =
  o_metrics_url :: "string option"
  o_metrics_via_compose :: bool
  o_duration_s :: pyfloat
  o_interval_s :: pyfloat
  o_restart_at_s :: "pyfloat option"
  o_restart_redis :: bool
  o_paper :: bool
  o_minimum_availability :: pyfloat
  o_compose_project :: string
  o_compose_file :: string
  o_env_file :: string

definition compose_prefix :: "soak_options \<Rightarrow> string list" where
  "compose_prefix opts =
     [''docker'', ''compose'', ''-p'', o_compose_project opts, ''--env-file'', o_env_file opts, ''-f'', o_compose_file opts]"

definition METRICS_PROGRAM :: string where
  "METRICS_PROGRAM = ''import urllib.request; print(urllib.request.urlopen('' @ [CHR 0x27] @ ''http://127.0.0.1:9108/metrics''
     @ [CHR 0x27] @ '', timeout=5).read().decode(), end='' @ [CHR 0x27, CHR 0x27] @ '')''"

text \<open>Argument errors end the program with status 2 before anything runs.\<close>

definition soak_options_bad :: "soak_options \<Rightarrow> bool" where
  "soak_options_bad opts \<longleftrightarrow>
     (o_metrics_url opts \<noteq> None \<and> o_metrics_via_compose opts)
     \<or> float_le (o_duration_s opts) (FFin 0) \<or> float_le (o_interval_s opts) (FFin 0)
     \<or> (o_restart_at_s opts \<noteq> None \<and> \<not> o_restart_redis opts)
     \<or> (o_restart_redis opts \<and> o_restart_at_s opts = None)"

definition soak_arguments :: "soak_options \<Rightarrow> soak_args" where
  "soak_arguments opts =
     \<lparr>metrics_url = (if o_metrics_via_compose opts then o_metrics_url opts
                     else Some (case o_metrics_url opts of None \<Rightarrow> ''http://127.0.0.1:9108/metrics'' | Some u \<Rightarrow> u)),
      metrics_command = (if o_metrics_via_compose opts
        then Some (compose_prefix opts @ [''exec'', ''-T'', ''ops-exporter'', ''python'', ''-c'', METRICS_PROGRAM]) else None),
      duration_s = o_duration_s opts, interval_s = o_interval_s opts, restart_at_s = o_restart_at_s opts,
      restart_command = (if o_restart_redis opts then compose_prefix opts @ [''restart'', ''redis''] else []),
      paper_gate = o_paper opts, minimum_availability = o_minimum_availability opts\<rparr>"

definition soak_main :: "(string \<Rightarrow> pyfloat py) \<Rightarrow> soak_options \<Rightarrow> pyfloat \<Rightarrow> (nat \<Rightarrow> soak_tick) \<Rightarrow> int py option" where
  "soak_main tf opts started ticks =
     (if soak_options_bad opts then Some (Inr 2)
      else map_option (\<lambda>r. py_bind r (\<lambda>summary.
             Inr (if sm_terminal_errors summary = [] \<and> sm_recovered summary then 0 else 1)))
           (run_soak tf (soak_arguments opts) started ticks))"

end
