(* ===== verification/Soak_Gate.thy ===== *)
theory Soak_Gate
  imports Soak
begin

text \<open>
  The verdict of a soak as a function of its observations, when the run ends and when it does not,
  and what a sample without errors says about its metrics.
\<close>

section \<open>The specification of a run\<close>

text \<open>What one turn of the loop observes, whether its sample is healthy, and what it records.\<close>

definition obs_good :: "bool \<Rightarrow> metrics py \<Rightarrow> bool" where
  "obs_good paper ob \<longleftrightarrow> (case ob of Inl _ \<Rightarrow> False
     | Inr m \<Rightarrow> sample_availability_errors (health_errors m paper) paper = [])"

definition obs_errors :: "bool \<Rightarrow> metrics py \<Rightarrow> string list" where
  "obs_errors paper ob = (case ob of Inl _ \<Rightarrow> [''metrics_unavailable''] | Inr m \<Rightarrow> health_errors m paper)"

definition obs_irreversible :: "bool \<Rightarrow> metrics py \<Rightarrow> string set" where
  "obs_irreversible paper ob = (case ob of Inl _ \<Rightarrow> {}
     | Inr m \<Rightarrow> set (health_errors m paper) \<inter> set IRREVERSIBLE_QUALIFICATION_ERRORS)"

text \<open>The state after \<open>n\<close> turns, read off the observations alone.\<close>

definition soak_spec :: "(string \<Rightarrow> pyfloat py) \<Rightarrow> soak_args \<Rightarrow> pyfloat \<Rightarrow> (nat \<Rightarrow> soak_tick) \<Rightarrow> soak_state \<Rightarrow> bool" where
  "soak_spec tf args started ticks s \<longleftrightarrow>
     (let n = tick_no s; ob = (\<lambda>i. soak_fetch tf args (ticks i)); paper = paper_gate args in
      samples s = length (filter (\<lambda>i. \<not> isl (ob i)) [0..<n])
      \<and> transport_errors s = length (filter (\<lambda>i. isl (ob i)) [0..<n])
      \<and> healthy s = length (filter (\<lambda>i. obs_good paper (ob i)) [0..<n])
      \<and> (restarted s \<longleftrightarrow> (\<exists>i < n. restart_due args started (ticks i)))
      \<and> (recovered s \<longleftrightarrow> (\<exists>i < n. obs_good paper (ob i) \<and> (\<exists>j \<le> i. restart_due args started (ticks j))))
      \<and> set (durable_failures s) = (\<Union>i < n. obs_irreversible paper (ob i))
      \<and> last_errors s = (if n = 0 then [''no_samples''] else obs_errors paper (ob (n - 1))))"

lemma soak_spec_init: "soak_spec tf args started ticks soak_init"
  by (simp add: soak_spec_def soak_init_def)

lemma lessThan_Suc_ex: "(\<exists>i < Suc n. P i) \<longleftrightarrow> (\<exists>i < n. P i) \<or> P n"
  using less_Suc_eq by auto

lemma sleep_fields [simp]:
  "tick_no (soak_sleep args started t s) = tick_no s" "samples (soak_sleep args started t s) = samples s"
  "transport_errors (soak_sleep args started t s) = transport_errors s" "healthy (soak_sleep args started t s) = healthy s"
  "restarted (soak_sleep args started t s) = restarted s" "recovered (soak_sleep args started t s) = recovered s"
  "durable_failures (soak_sleep args started t s) = durable_failures s"
  "last_errors (soak_sleep args started t s) = last_errors s"
  by (simp_all add: soak_sleep_def)

lemma soak_spec_sleep [simp]: "soak_spec tf args started ticks (soak_sleep a b t s) = soak_spec tf args started ticks s"
  by (simp add: soak_spec_def)

lemma soak_spec_observe:
  assumes "soak_spec tf args started ticks s" "t = ticks (tick_no s)"
    and "s' = s\<lparr>tick_no := Suc (tick_no s), restarted := restarted s \<or> restart_due args started t\<rparr>"
    and "raised (soak_observe tf args t s') = None"
  shows "soak_spec tf args started ticks (soak_observe tf args t s')"
proof (cases "soak_fetch tf args t")
  case (Inl e)
  then have "soak_caught e" using assms(4) by (simp add: soak_observe_def split: if_splits)
  with Inl assms(1-3) show ?thesis
    by (simp add: soak_observe_def soak_spec_def Let_def obs_good_def obs_errors_def obs_irreversible_def
        lessThan_Suc_ex lessThan_Suc)
next
  case (Inr m)
  have "(\<exists>j \<le> tick_no s. restart_due args started (ticks j)) \<longleftrightarrow> (\<exists>j < Suc (tick_no s). restart_due args started (ticks j))"
    by (simp add: less_Suc_eq_le)
  with Inr assms(1-3) show ?thesis
    by (auto simp: soak_observe_def soak_spec_def Let_def obs_good_def obs_errors_def obs_irreversible_def
        lessThan_Suc_ex lessThan_Suc)
qed

lemma raised_sleep: "raised (soak_sleep a b t s) = None \<Longrightarrow> raised s = None"
  by (auto simp: soak_sleep_def split: if_splits)

lemma soak_spec_step:
  assumes "soak_spec tf args started ticks s" "raised (soak_step tf args started ticks s) = None"
  shows "soak_spec tf args started ticks (soak_step tf args started ticks s)
    \<and> tick_no (soak_step tf args started ticks s) = Suc (tick_no s)"
proof -
  let ?t = "ticks (tick_no s)"
  let ?due = "restart_due args started ?t \<and> \<not> restarted s"
  let ?s1 = "s\<lparr>tick_no := Suc (tick_no s), restarted := restarted s \<or> restart_due args started ?t\<rparr>"
  have same: "s\<lparr>tick_no := Suc (tick_no s), restarted := restarted s \<or> ?due\<rparr> = ?s1" by (simp add: disj_conj_distribL)
  have step: "soak_step tf args started ticks s = soak_sleep args started ?t (soak_observe tf args ?t ?s1)"
    using assms(2) by (auto simp: soak_step_def Let_def same split: if_splits sum.splits)
  have r: "raised (soak_observe tf args ?t ?s1) = None"
    using assms(2) unfolding step by (rule raised_sleep)
  have "tick_no (soak_observe tf args ?t ?s1) = Suc (tick_no s)"
    by (simp add: soak_observe_def Let_def split: sum.splits)
  then show ?thesis unfolding step soak_spec_sleep sleep_fields
    using soak_spec_observe [OF assms(1) refl refl r] by blast
qed

lemma soak_loop_spec:
  assumes "while_option (soak_guard args started ticks) (soak_step tf args started ticks) soak_init = Some s"
    and "raised s = None"
  shows "soak_spec tf args started ticks s" "\<not> soak_guard args started ticks s"
proof -
  have "raised s = None \<longrightarrow> soak_spec tf args started ticks s"
    by (rule while_option_rule [OF _ assms(1)])
      (auto simp: soak_spec_init soak_guard_def dest: soak_spec_step)
  with assms(2) show "soak_spec tf args started ticks s" by blast
  show "\<not> soak_guard args started ticks s" using assms(1) by (rule while_option_stop)
qed

text \<open>
  C17: a run that returns is the function of its observations the specification describes. It makes
  some number of turns; the counters count answered, healthy and failed requests among them, the
  restart is executed when some turn was at or past its time, recovery means a healthy sample at or
  after that turn, and the terminal errors are the irreversible errors of all samples, those of the
  last turn and the availability shortfall. It stops only with a sample, at a reading that is not
  below the duration.
\<close>

theorem soak_refines_spec:
  assumes "run_soak tf args started ticks = Some (Inr summary)"
  shows "\<exists>n. let ob = (\<lambda>i. soak_fetch tf args (ticks i)); paper = paper_gate args;
        answered = length (filter (\<lambda>i. \<not> isl (ob i)) [0..<n]);
        good = length (filter (\<lambda>i. obs_good paper (ob i)) [0..<n]);
        below = float_lt (measured_availability good n) (minimum_availability args) in
      0 < answered \<and> \<not> float_lt (float_sub (guard_at (ticks n)) started) (duration_s args)
      \<and> sm_samples summary = answered \<and> sm_healthy summary = good \<and> sm_transport_errors summary = n - answered
      \<and> (sm_restart_executed summary \<longleftrightarrow> (\<exists>i < n. restart_due args started (ticks i)))
      \<and> (sm_recovered summary \<longleftrightarrow> (\<forall>i < n. \<not> restart_due args started (ticks i))
           \<or> (\<exists>i < n. obs_good paper (ob i) \<and> (\<exists>j \<le> i. restart_due args started (ticks j))))
      \<and> set (sm_terminal_errors summary) = (\<Union>i < n. obs_irreversible paper (ob i)) \<union> set (obs_errors paper (ob (n - 1)))
           \<union> (if below then {''availability_below_'' @ format_4f (minimum_availability args)} else {})"
proof -
  obtain s where w: "while_option (soak_guard args started ticks) (soak_step tf args started ticks) soak_init = Some s"
    and r: "raised s = None" and fin: "summary = soak_finish args s"
    using assms by (auto simp: run_soak_def split: if_splits option.splits)
  note spec = soak_loop_spec(1) [OF w r] and stop = soak_loop_spec(2) [OF w r]
  have pos: "samples s \<noteq> 0" and late: "\<not> float_lt (float_sub (guard_at (ticks (tick_no s))) started) (duration_s args)"
    using stop r by (simp_all add: soak_guard_def)
  have n0: "tick_no s \<noteq> 0" using pos spec by (auto simp: soak_spec_def Let_def)
  have split: "length (filter P [0..<n]) + length (filter (\<lambda>i. \<not> P i) [0..<n]) = n" for P and n :: nat
    using sum_length_filter_compl [of P "[0..<n]"] by simp
  have all: "samples s + transport_errors s = tick_no s"
    using spec split [of "\<lambda>i. \<not> isl (soak_fetch tf args (ticks i))" "tick_no s"] by (simp add: soak_spec_def Let_def)
  then have transport: "transport_errors s = tick_no s - samples s" by simp
  show ?thesis
    using spec pos late n0 transport all
    by (intro exI [of _ "tick_no s"]) (auto simp: fin soak_finish_def soak_spec_def Let_def)
qed

section \<open>What a healthy sample says\<close>

lemma missing_metrics_Nil: "missing_metrics names m = [] \<longleftrightarrow> (\<forall>name \<in> set names. map_of m name \<noteq> None)"
  by (simp add: missing_metrics_def)

lemma nonzero_metrics_Nil:
  "nonzero_metrics names m = [] \<longleftrightarrow> (\<forall>name \<in> set names. \<forall>f. map_of m name = Some f \<longrightarrow> float_eq f (FFin 0))"
  by (auto simp: nonzero_metrics_def split: option.splits)

lemma not_float_lt: "\<not> float_lt x y \<longleftrightarrow> float_le y x \<or> x = FNan \<or> y = FNan"
  by (cases x; cases y) auto

text \<open>
  C31: the meaning of a sample without errors in the base profile, and its gap. Every required
  metric is present, both availability gauges equal one and the five failure counters are zero; but
  the age of the oldest undelivered message only has to be at most a minute or not a number: a
  gauge that reads NaN is accepted.
\<close>

theorem health_base_iff:
  "health_errors m False = [] \<longleftrightarrow>
     (\<forall>name \<in> set REQUIRED_METRICS. map_of m name \<noteq> None)
     \<and> (\<forall>name \<in> {''kairos_persistence_up'', ''kairos_redis_up''}. \<exists>f. map_of m name = Some f \<and> float_eq f (FFin 1))
     \<and> (\<forall>name \<in> set ZERO_REQUIRED. \<exists>f. map_of m name = Some f \<and> float_eq f (FFin 0))
     \<and> (\<exists>f. map_of m ''kairos_outbox_oldest_age_seconds'' = Some f \<and> (float_le f (FFin 60) \<or> f = FNan))"
proof -
  have req: "''kairos_outbox_oldest_age_seconds'' \<in> set REQUIRED_METRICS" "set ZERO_REQUIRED \<subseteq> set REQUIRED_METRICS"
    by (simp_all add: REQUIRED_METRICS_def ZERO_REQUIRED_def)
  have up: "float_eq (metric m name FNan) (FFin 1) \<longleftrightarrow> (\<exists>f. map_of m name = Some f \<and> float_eq f (FFin 1))" for name
    by (cases "map_of m name") (simp_all add: metric_def)
  have age: "\<not> float_lt (FFin 60) (metric m ''kairos_outbox_oldest_age_seconds'' (FFin 0)) \<longleftrightarrow>
      (\<exists>f. map_of m ''kairos_outbox_oldest_age_seconds'' = Some f \<and> (float_le f (FFin 60) \<or> f = FNan))"
    if "map_of m ''kairos_outbox_oldest_age_seconds'' \<noteq> None"
    using that by (cases "map_of m ''kairos_outbox_oldest_age_seconds''") (auto simp: metric_def not_float_lt)
  show ?thesis
    unfolding health_errors_def base_errors_def append_is_Nil_conv flag_Nil not_not up missing_metrics_Nil
      nonzero_metrics_Nil MAX_OUTBOX_AGE_SECONDS_def
    using req age by (auto simp del: float_eq.simps float_lt.simps float_eq_FFin float_lt_FFin) blast+
qed

section \<open>The verdict\<close>

text \<open>
  C32: exit status zero. Some turn is the last one, its sample has no error at all, no sample of the
  run had an irreversible error, the share of healthy turns is not below the required availability,
  and if Redis was restarted a healthy sample followed.
\<close>

theorem soak_exit_zero:
  assumes "soak_main tf opts started ticks = Some (Inr 0)"
  shows "\<exists>n m. let args = soak_arguments opts; ob = (\<lambda>i. soak_fetch tf args (ticks i)); paper = o_paper opts in
      ob n = Inr m \<and> health_errors m paper = []
      \<and> (\<forall>i \<le> n. \<forall>m'. ob i = Inr m' \<longrightarrow> set (health_errors m' paper) \<inter> set IRREVERSIBLE_QUALIFICATION_ERRORS = {})
      \<and> \<not> float_lt (measured_availability (length (filter (\<lambda>i. obs_good paper (ob i)) [0..<Suc n])) (Suc n))
            (o_minimum_availability opts)
      \<and> ((\<exists>j \<le> n. restart_due args started (ticks j)) \<longrightarrow>
           (\<exists>i \<le> n. obs_good paper (ob i) \<and> (\<exists>j \<le> i. restart_due args started (ticks j))))"
proof -
  let ?args = "soak_arguments opts"
  let ?ob = "\<lambda>i. soak_fetch tf ?args (ticks i)"
  have p: "paper_gate ?args = o_paper opts" "minimum_availability ?args = o_minimum_availability opts"
    by (simp_all add: soak_arguments_def)
  obtain summary where run: "run_soak tf ?args started ticks = Some (Inr summary)"
    and ok: "sm_terminal_errors summary = []" "sm_recovered summary"
    using assms by (auto simp: soak_main_def py_bind_Inr_iff split: if_splits)
  obtain s where w: "while_option (soak_guard ?args started ticks) (soak_step tf ?args started ticks) soak_init = Some s"
    and r: "raised s = None" and fin: "summary = soak_finish ?args s"
    using run by (auto simp: run_soak_def split: if_splits option.splits)
  note spec = soak_loop_spec(1) [OF w r]
  have "samples s \<noteq> 0" using soak_loop_spec(2) [OF w r] r by (simp add: soak_guard_def)
  then have "tick_no s \<noteq> 0" using spec by (auto simp: soak_spec_def Let_def)
  then obtain n where n: "tick_no s = Suc n" by (cases "tick_no s") auto
  have split: "length (filter P [0..<k]) + length (filter (\<lambda>i. \<not> P i) [0..<k]) = k" for P and k :: nat
    using sum_length_filter_compl [of P "[0..<k]"] by simp
  have total: "samples s + transport_errors s = Suc n"
    using spec split [of "\<lambda>i. \<not> isl (?ob i)" "Suc n"] by (simp add: soak_spec_def Let_def n)
  have empty: "last_errors s = []" "durable_failures s = []"
    "\<not> float_lt (measured_availability (healthy s) (Suc n)) (o_minimum_availability opts)"
    using ok(1) by (simp_all add: fin soak_finish_def Let_def total p)
  have irr: "obs_irreversible (o_paper opts) (?ob i) = {}" if "i \<le> n" for i
    using spec empty(2) that by (auto simp: soak_spec_def Let_def n p less_Suc_eq_le)
  have "obs_errors (o_paper opts) (?ob n) = []" using spec empty(1) by (simp add: soak_spec_def Let_def n p)
  then obtain m where "?ob n = Inr m" "health_errors m (o_paper opts) = []"
    by (cases "?ob n") (auto simp: obs_errors_def)
  moreover have "\<forall>i \<le> n. \<forall>m'. ?ob i = Inr m' \<longrightarrow> set (health_errors m' (o_paper opts)) \<inter> set IRREVERSIBLE_QUALIFICATION_ERRORS = {}"
    using irr by (fastforce simp: obs_irreversible_def)
  moreover have "healthy s = length (filter (\<lambda>i. obs_good (o_paper opts) (?ob i)) [0..<Suc n])"
    using spec by (simp add: soak_spec_def Let_def n p del: upt_Suc)
  moreover have "(\<exists>j \<le> n. restart_due ?args started (ticks j)) \<longrightarrow>
      (\<exists>i \<le> n. obs_good (o_paper opts) (?ob i) \<and> (\<exists>j \<le> i. restart_due ?args started (ticks j)))"
    using spec ok(2) by (auto simp: fin soak_finish_def Let_def soak_spec_def n p less_Suc_eq_le split: if_splits)
  ultimately show ?thesis using empty(3) by (intro exI [of _ n] exI [of _ m]) (simp add: Let_def del: upt_Suc)
qed

section \<open>When the run ends\<close>

text \<open>The state after \<open>k\<close> turns of a run that keeps going.\<close>

lemma step_samples:
  assumes "raised (soak_step tf args started ticks s) = None"
  shows "samples s \<le> samples (soak_step tf args started ticks s)"
    "\<not> isl (soak_fetch tf args (ticks (tick_no s))) \<Longrightarrow> 0 < samples (soak_step tf args started ticks s)"
  using assms by (auto simp: soak_step_def soak_observe_def Let_def split: if_splits sum.splits)

lemma while_option_Some_iff_stop:
  "(\<exists>t. while_option b c s = Some t) \<longleftrightarrow> (\<exists>k. \<not> b ((c ^^ k) s))"
  by (auto simp: while_option_def)

lemma soak_loop_diverges:
  assumes "\<And>i. \<exists>e. soak_fetch tf args (ticks i) = Inl e \<and> soak_caught e" "restart_at_s args = None"
    and "sleep_error (interval_s args) = None"
  shows "while_option (soak_guard args started ticks) (soak_step tf args started ticks) soak_init = None"
proof -
  let ?s = "\<lambda>k. (soak_step tf args started ticks ^^ k) soak_init"
  have step: "raised (soak_step tf args started ticks s) = None \<and> samples (soak_step tf args started ticks s) = 0"
    if "raised s = None" "samples s = 0" for s
    using assms(1) [of "tick_no s"] assms(2,3) that
    by (auto simp: soak_step_def soak_observe_def soak_sleep_def restart_due_def Let_def)
  have "raised (?s k) = None \<and> samples (?s k) = 0" for k
    by (induction k) (use step in \<open>auto simp: soak_init_def\<close>)
  then have "soak_guard args started ticks (?s k)" for k by (simp add: soak_guard_def)
  then show ?thesis using while_option_Some_iff_stop
    [of "soak_guard args started ticks" "soak_step tf args started ticks" soak_init] by (metis not_None_eq)
qed


text \<open>
  C34: otherwise it ends. If from some turn on the clock is not below the duration and some request
  is answered, the run returns a summary or raises.
\<close>

theorem soak_ends:
  assumes "\<And>i. N \<le> i \<Longrightarrow> \<not> float_lt (float_sub (guard_at (ticks i)) started) (duration_s args)"
    and "\<not> isl (soak_fetch tf args (ticks k))"
  shows "\<exists>r. run_soak tf args started ticks = Some r"
proof -
  let ?b = "soak_guard args started ticks" and ?c = "soak_step tf args started ticks"
  have "\<exists>j. \<not> ?b ((?c ^^ j) soak_init)"
  proof (rule ccontr)
    assume "\<nexists>j. \<not> ?b ((?c ^^ j) soak_init)"
    then have go: "?b ((?c ^^ j) soak_init)" for j by blast
    then have r: "raised ((?c ^^ j) soak_init) = None" for j by (simp add: soak_guard_def)
    have spec: "soak_spec tf args started ticks ((?c ^^ j) soak_init) \<and> tick_no ((?c ^^ j) soak_init) = j" for j
    proof (induction j)
      case 0
      show ?case by (simp add: soak_spec_init) (simp add: soak_init_def)
    next
      case (Suc j)
      then show ?case using soak_spec_step [of tf args started ticks "(?c ^^ j) soak_init"] r [of "Suc j"] by simp
    qed
    define j where "j = max N (Suc k)"
    have "samples ((?c ^^ j) soak_init) = length (filter (\<lambda>i. \<not> isl (soak_fetch tf args (ticks i))) [0..<j])"
      using spec [of j] by (simp add: soak_spec_def Let_def)
    moreover have "k \<in> set (filter (\<lambda>i. \<not> isl (soak_fetch tf args (ticks i))) [0..<j])"
      using assms(2) by (simp add: j_def)
    ultimately have "samples ((?c ^^ j) soak_init) \<noteq> 0" by (metis length_0_conv empty_iff list.set(1))
    moreover have "\<not> float_lt (float_sub (guard_at (ticks j)) started) (duration_s args)"
      using assms(1) [of j] by (simp add: j_def)
    ultimately have "\<not> ?b ((?c ^^ j) soak_init)" using spec [of j] by (simp add: soak_guard_def)
    with go show False by blast
  qed
  then obtain t where "while_option ?b ?c soak_init = Some t" using while_option_Some_iff_stop by metis
  then show ?thesis by (simp add: run_soak_def)
qed

section \<open>Witnesses\<close>

definition nan_metrics :: metrics where
  "nan_metrics = map (\<lambda>name. (name, if name \<in> {''kairos_persistence_up'', ''kairos_redis_up''} then FFin 1
     else if name = ''kairos_outbox_oldest_age_seconds'' then FNan else FFin 0)) REQUIRED_METRICS"

theorem health_base_iff_witness: "health_errors nan_metrics False = []"
  by (subst health_base_iff) (simp add: nan_metrics_def REQUIRED_METRICS_def ZERO_REQUIRED_def)

definition digit_float :: "string \<Rightarrow> pyfloat py" where
  "digit_float t = (if t = ''1'' then Inr (FFin 1) else if t = ''0'' then Inr (FFin 0) else Inl ValueError)"

definition healthy_page :: string where
  "healthy_page = concat (map (\<lambda>name. name @ '' '' @
     (if name \<in> {''kairos_persistence_up'', ''kairos_redis_up''} then ''1'' else ''0'') @ [CHR 0x0A]) REQUIRED_METRICS)"

definition sample_options :: soak_options where
  "sample_options = \<lparr>o_metrics_url = None, o_metrics_via_compose = False, o_duration_s = FFin 5, o_interval_s = FFin 1,
     o_restart_at_s = None, o_restart_redis = False, o_paper = False, o_minimum_availability = FFin (1 / 2),
     o_compose_project = ''kairos'', o_compose_file = ''c'', o_env_file = ''e''\<rparr>"

definition sample_tick :: "nat \<Rightarrow> soak_tick" where
  "sample_tick i = \<lparr>guard_at = FFin (10 * of_nat i), elapsed_at = FFin 1, sleep_at = FFin 1,
     restart_result = Inr (), response = Inr healthy_page\<rparr>"

definition dead_tick :: "nat \<Rightarrow> soak_tick" where
  "dead_tick i = (sample_tick i)\<lparr>response := Inl OSError\<rparr>"

lemma healthy_page_parsed: "health_errors (parse_metrics digit_float healthy_page) False = []"
  by code_simp

lemma sample_scheme: "url_scheme ''http://127.0.0.1:9108/metrics'' = ''http''" by code_simp

lemma sample_fetch: "soak_fetch digit_float (soak_arguments sample_options) (sample_tick i) = Inr (parse_metrics digit_float healthy_page)"
  by (simp add: soak_fetch_def soak_arguments_def sample_options_def sample_tick_def fetch_metrics_def sample_scheme)

lemma soak_sample_run:
  "while_option (soak_guard (soak_arguments sample_options) (FFin 0) sample_tick)
     (soak_step digit_float (soak_arguments sample_options) (FFin 0) sample_tick) soak_init
   = Some (soak_init\<lparr>tick_no := 1, samples := 1, healthy := 1, last_errors := []\<rparr>)"
proof -
  have "soak_guard (soak_arguments sample_options) (FFin 0) sample_tick soak_init"
    by (simp add: soak_guard_def soak_init_def)
  moreover have "soak_step digit_float (soak_arguments sample_options) (FFin 0) sample_tick soak_init
      = soak_init\<lparr>tick_no := 1, samples := 1, healthy := 1, last_errors := []\<rparr>" (is "_ = ?s")
    by (simp add: soak_step_def soak_observe_def soak_sleep_def sample_fetch healthy_page_parsed sample_availability_errors_def
        Let_def restart_due_def) (simp add: soak_arguments_def sample_options_def soak_init_def)
  moreover have "\<not> soak_guard (soak_arguments sample_options) (FFin 0) sample_tick ?s"
    by (simp add: soak_guard_def sample_tick_def soak_arguments_def sample_options_def float_sub_def)
  ultimately show ?thesis by (simp add: while_option_unfold)
qed

lemma round_double_1: "round_double 1 = FFin 1"
proof -
  have l: "ilog2 1 = 0" using ilog2_power [of 0] by simp
  have "round_half_even 4503599627370496 = 4503599627370496"
    using round_half_even_int [of 4503599627370496] by simp
  then show ?thesis by (simp add: round_double_def l exp2_def)
qed

lemma sample_run_soak:
  "run_soak digit_float (soak_arguments sample_options) (FFin 0) sample_tick
   = Some (Inr (soak_finish (soak_arguments sample_options) (soak_init\<lparr>tick_no := 1, samples := 1, healthy := 1, last_errors := []\<rparr>)))"
  unfolding run_soak_def soak_sample_run
  by (simp add: soak_arguments_def sample_options_def soak_init_def)

theorem soak_refines_spec_witness:
  "\<exists>n. 0 < length (filter (\<lambda>i. \<not> isl (soak_fetch digit_float (soak_arguments sample_options) (sample_tick i))) [0..<n])"
  using soak_refines_spec [OF sample_run_soak] by (auto simp: Let_def)

theorem soak_exit_zero_witness:
  "\<exists>n m. soak_fetch digit_float (soak_arguments sample_options) (sample_tick n) = Inr m \<and> health_errors m False = []"
proof -
  have "soak_main digit_float sample_options (FFin 0) sample_tick = Some (Inr 0)"
    unfolding soak_main_def sample_run_soak
    by (simp add: soak_options_bad_def sample_options_def soak_finish_def soak_arguments_def soak_init_def
        measured_availability_def round_double_1)
  from soak_exit_zero [OF this] show ?thesis by (auto simp: Let_def sample_options_def)
qed


theorem soak_ends_witness:
  "\<exists>r. run_soak digit_float (soak_arguments sample_options) (FFin 0) sample_tick = Some r"
proof (rule soak_ends [where N = 1 and k = 0])
  show "\<not> float_lt (float_sub (guard_at (sample_tick i)) (FFin 0)) (duration_s (soak_arguments sample_options))" if "1 \<le> i" for i
  proof -
    have "(10::rat) * 1 \<le> 10 * of_nat i" using that by (intro mult_left_mono) simp_all
    then show ?thesis by (simp add: sample_tick_def soak_arguments_def sample_options_def float_sub_def)
  qed
qed (simp add: sample_fetch)

end
