(* ===== verification/Py_Json.thy ===== *)
theory Py_Json
  imports Py_Check Text_Codec
begin

text \<open>
  \<^verbatim>\<open>json.dumps(value, sort_keys=True, separators=(",", ":"), ensure_ascii=False)\<close>, with and without
  \<^verbatim>\<open>allow_nan=False\<close>, and the UTF-8 encoding of its text. The text of a finite float is a parameter.
\<close>

definition json_char :: "char \<Rightarrow> string" where
  "json_char c =
     (if c = CHR 0x22 then [CHR 0x5C, CHR 0x22]
      else if c = CHR 0x5C then [CHR 0x5C, CHR 0x5C]
      else if code c = 8 then [CHR 0x5C, CHR ''b'']
      else if code c = 9 then [CHR 0x5C, CHR ''t'']
      else if code c = 10 then [CHR 0x5C, CHR ''n'']
      else if code c = 12 then [CHR 0x5C, CHR ''f'']
      else if code c = 13 then [CHR 0x5C, CHR ''r'']
      else if code c < 32 then [CHR 0x5C] @ ''u00'' @ [hex_digit (code c div 16), hex_digit (code c mod 16)]
      else [c])"

definition json_string :: "string \<Rightarrow> string" where
  "json_string s = [CHR 0x22] @ concat (map json_char s) @ [CHR 0x22]"

fun key_insort :: "string \<times> 'a \<Rightarrow> (string \<times> 'a) list \<Rightarrow> (string \<times> 'a) list" where
  "key_insort x [] = [x]"
| "key_insort x (y # ys) = (if str_lt (fst y) (fst x) then y # key_insort x ys else x # y # ys)"

definition json_members :: "(string \<times> string) list \<Rightarrow> string" where
  "json_members ms = ''{'' @ join '','' (map (\<lambda>(k, t). json_string k @ '':'' @ t) (foldr key_insort ms [])) @ ''}''"

text \<open>The two treatments of the numbers JSON does not have.\<close>

definition strict_float :: "(pyfloat \<Rightarrow> string) \<Rightarrow> pyfloat \<Rightarrow> string py" where
  "strict_float ft f = (case f of FNan \<Rightarrow> Inl ValueError | FInf _ \<Rightarrow> Inl ValueError | _ \<Rightarrow> Inr (ft f))"

definition lenient_float :: "(pyfloat \<Rightarrow> string) \<Rightarrow> pyfloat \<Rightarrow> string py" where
  "lenient_float ft f =
     (case f of FNan \<Rightarrow> Inr ''NaN'' | FInf negative \<Rightarrow> Inr (if negative then ''-Infinity'' else ''Infinity'') | _ \<Rightarrow> Inr (ft f))"

fun json_text :: "(pyfloat \<Rightarrow> string py) \<Rightarrow> pyval \<Rightarrow> string py"
  and json_list :: "(pyfloat \<Rightarrow> string py) \<Rightarrow> pyval list \<Rightarrow> string list py"
  and json_items :: "(pyfloat \<Rightarrow> string py) \<Rightarrow> items \<Rightarrow> (string \<times> string) list py" where
  "json_text ft PNone = Inr ''null''"
| "json_text ft (PBool b) = Inr (if b then ''true'' else ''false'')"
| "json_text ft (PInt i) = (if 4300 < length (show_nat (nat \<bar>i\<bar>)) then Inl ValueError else Inr (show_int i))"
| "json_text ft (PFloat f) = ft f"
| "json_text ft (PStr s) = Inr (json_string s)"
| "json_text ft (PList xs) = py_bind (json_list ft xs) (\<lambda>ts. Inr (''['' @ join '','' ts @ '']''))"
| "json_text ft (PDict m) = py_bind (json_items ft m) (\<lambda>ts. Inr (json_members ts))"
| "json_list ft [] = Inr []"
| "json_list ft (x # xs) = py_bind (json_text ft x) (\<lambda>t. py_bind (json_list ft xs) (\<lambda>ts. Inr (t # ts)))"
| "json_items ft [] = Inr []"
| "json_items ft ((k, v) # m) =
     py_bind (json_text ft v) (\<lambda>t. py_bind (json_items ft m) (\<lambda>ts. Inr ((k, t) # ts)))"

text \<open>Every character of the model has a code point below 256 and hence an encoding.\<close>

definition utf8_text :: "string \<Rightarrow> bytes" where
  "utf8_text s = concat (map (\<lambda>c. the (utf8_encode_point (code c))) s)"

section \<open>The size of an encoding\<close>

lemma length_json_char: "length (json_char c) \<le> 6"
  by (simp add: json_char_def)

lemma length_json_string: "length (json_string s) \<le> 6 * length s + 2"
proof -
  have "length (concat (map json_char s)) \<le> 6 * length s"
    by (induction s) (use length_json_char in \<open>auto intro: add_mono\<close>)
  then show ?thesis by (simp add: json_string_def)
qed

lemma length_join: "length (join '','' ts) \<le> sum_list (map (\<lambda>t. Suc (length t)) ts)"
  by (induction "'',''" ts rule: join.induct) auto

lemma sum_key_insort: "sum_list (map f (key_insort x ys)) = f x + (sum_list (map f ys) :: nat)"
  by (induction ys) auto

lemma sum_key_sort: "sum_list (map f (foldr key_insort ms [])) = (sum_list (map f ms) :: nat)"
  by (induction ms) (simp_all add: sum_key_insort)

lemma length_json_members: "length (json_members ms) \<le> 2 + sum_list (map (\<lambda>(k, t). 6 * length k + length t + 4) ms)"
proof -
  let ?f = "\<lambda>(k, t). json_string k @ '':'' @ t" and ?size = "\<lambda>(k, t :: string). 6 * length k + length t + 4"
  let ?ms = "foldr key_insort ms []"
  have "Suc (length (?f m)) \<le> ?size m" for m
    using length_json_string [of "fst m"] by (cases m) simp
  then have "sum_list (map (\<lambda>m. Suc (length (?f m))) ?ms) \<le> sum_list (map ?size ?ms)"
    by (intro sum_list_mono) simp
  also have "\<dots> = sum_list (map ?size ms)"
    by (rule sum_key_sort)
  finally show ?thesis using length_join [of "map ?f ?ms"] by (simp add: json_members_def comp_def)
qed

lemma length_utf8_text: "length (utf8_text s) \<le> 2 * length s"
proof (induction s)
  case (Cons c s)
  have "code c < 2048" by (rule less_trans [of _ 256]) simp_all
  then have "length (the (utf8_encode_point (code c))) \<le> 2" by (simp add: utf8_encode_point_def)
  with Cons show ?case by (simp add: utf8_text_def)
qed (simp add: utf8_text_def)

section \<open>What an encoding contains\<close>

lemma set_key_insort [simp]: "set (key_insort x ys) = insert x (set ys)"
  by (induction ys) auto

lemma set_key_sort [simp]: "set (foldr key_insort ms []) = set ms"
  by (induction ms) auto

lemma distinct_key_sort: "distinct (map fst ms) \<Longrightarrow> distinct (map fst (foldr key_insort ms []))"
proof (induction ms)
  case (Cons m ms)
  have "distinct (map fst (key_insort m ys)) \<longleftrightarrow> fst m \<notin> fst ` set ys \<and> distinct (map fst ys)" for ys :: "(string \<times> 'a) list"
    by (induction ys) auto
  with Cons show ?case by simp
qed simp

lemma map_of_key_sort: "distinct (map fst ms) \<Longrightarrow> map_of (foldr key_insort ms []) = map_of ms"
  by (simp add: map_of_inject_set distinct_key_sort)

text \<open>No control character is left in the text, whatever the strings of the value contain.\<close>

fun float_free :: "pyval \<Rightarrow> bool"
  and float_free_list :: "pyval list \<Rightarrow> bool"
  and float_free_items :: "items \<Rightarrow> bool" where
  "float_free (PFloat _) = False"
| "float_free (PList xs) = float_free_list xs"
| "float_free (PDict m) = float_free_items m"
| "float_free _ = True"
| "float_free_list [] = True"
| "float_free_list (x # xs) = (float_free x \<and> float_free_list xs)"
| "float_free_items [] = True"
| "float_free_items ((k, v) # m) = (float_free v \<and> float_free_items m)"

definition no_control :: "string \<Rightarrow> bool" where
  "no_control s \<longleftrightarrow> (\<forall>c \<in> set s. 32 \<le> code c)"

lemma no_control_append [simp]: "no_control (s @ t) \<longleftrightarrow> no_control s \<and> no_control t"
  by (auto simp: no_control_def)

lemma no_control_Nil [simp]: "no_control []"
  by (simp add: no_control_def)

lemma no_control_Cons [simp]: "no_control (c # s) \<longleftrightarrow> 32 \<le> code c \<and> no_control s"
  by (auto simp: no_control_def)

lemma hex_digit_printable: "n < 16 \<Longrightarrow> 32 \<le> code (hex_digit n)"
  by (simp add: hex_digit_def)

lemma no_control_json_char: "no_control (json_char c)"
  by (auto simp: json_char_def hex_digit_printable)

lemma no_control_concat: "(\<And>s. s \<in> set ss \<Longrightarrow> no_control s) \<Longrightarrow> no_control (concat ss)"
  by (induction ss) auto

lemma no_control_json_string: "no_control (json_string s)"
  by (auto simp: json_string_def no_control_json_char intro!: no_control_concat)

lemma no_control_show_nat: "no_control (show_nat n)"
  using show_nat_digits [of n] by (auto simp: no_control_def list_all_iff is_digit_def)

lemma no_control_show_int: "no_control (show_int i)"
  using no_control_show_nat by (auto simp: show_int_def)

lemma no_control_join: "(\<And>t. t \<in> set ts \<Longrightarrow> no_control t) \<Longrightarrow> no_control (join '','' ts)"
  by (induction "'',''" ts rule: join.induct) auto

lemma no_control_members: "(\<And>k t. (k, t) \<in> set ms \<Longrightarrow> no_control t) \<Longrightarrow> no_control (json_members ms)"
  by (auto simp: json_members_def no_control_json_string intro!: no_control_join)

lemma no_control_json:
  "json_text ft v = Inr t \<Longrightarrow> float_free v \<Longrightarrow> no_control t"
  "json_list ft vs = Inr ts \<Longrightarrow> float_free_list vs \<Longrightarrow> (\<forall>t \<in> set ts. no_control t)"
  "json_items ft m = Inr ms \<Longrightarrow> float_free_items m \<Longrightarrow> (\<forall>(k, t) \<in> set ms. no_control t)"
proof (induction ft v and ft vs and ft m arbitrary: t and ts and ms rule: json_text_json_list_json_items.induct)
  case (6 ft xs)
  then show ?case by (auto simp: py_bind_Inr_iff intro!: no_control_join)
next
  case (7 ft m)
  then show ?case by (fastforce simp: py_bind_Inr_iff intro!: no_control_members)
qed (auto simp: no_control_json_string no_control_show_int py_bind_Inr_iff split: if_splits)

lemma no_control_utf8: "no_control s \<Longrightarrow> no_control (utf8_text s)"
proof (induction s)
  case (Cons c s)
  have "code c < 2048" by (rule less_trans [of _ 256]) simp_all
  then have "no_control (the (utf8_encode_point (code c)))" using Cons.prems
    by (auto simp: utf8_encode_point_def no_control_def)
  with Cons show ?case by (simp add: utf8_text_def)
qed (simp add: utf8_text_def)

section \<open>The encoding is injective\<close>

lemma utf8_point_latin:
  "the (utf8_encode_point (code c)) = (if code c < 128 then [c] else [char_of (192 + code c div 64), char_of (128 + code c mod 64)])"
proof -
  have "code c < 2048" by (rule less_trans [of _ 256]) simp_all
  then show ?thesis by (simp add: utf8_encode_point_def)
qed

lemma utf8_point_inject:
  assumes "the (utf8_encode_point (code c)) @ u = the (utf8_encode_point (code d)) @ v"
  shows "c = d \<and> u = v"
proof -
  have n: "code (char_of x) = x" if "x < 256" for x :: nat using that by simp
  have lead: "192 + code c div 64 < 256" "128 + code c mod 64 < 256" for c :: char
  proof -
    have "code c div 64 < 4" by (rule less_mult_imp_div_less) simp
    then show "192 + code c div 64 < 256" by simp
    have "code c mod 64 < 64" by simp
    then show "128 + code c mod 64 < 256" by linarith
  qed
  show ?thesis
  proof (cases "code c < 128"; cases "code d < 128")
    assume "\<not> code c < 128" "\<not> code d < 128"
    then have "char_of (192 + code c div 64) = (char_of (192 + code d div 64) :: char)"
      "char_of (128 + code c mod 64) = (char_of (128 + code d mod 64) :: char)" and u: "u = v"
      using assms by (simp_all add: utf8_point_latin)
    then have "code c div 64 = code d div 64" "code c mod 64 = code d mod 64"
      using n [OF lead(1)] n [OF lead(2)] by (metis add_left_cancel)+
    then show ?thesis using u by (metis div_mult_mod_eq of_char_eq_iff)
  next
    assume "\<not> code c < 128" "code d < 128"
    then show ?thesis using assms n [OF lead(1) [of c]] by (auto simp: utf8_point_latin)
  next
    assume "code c < 128" "\<not> code d < 128"
    then show ?thesis using assms n [OF lead(1) [of d]] by (auto simp: utf8_point_latin)
  qed (use assms in \<open>simp add: utf8_point_latin\<close>)
qed

lemma utf8_text_inject: "utf8_text s = utf8_text t \<longleftrightarrow> s = t"
proof
  have nonempty: "the (utf8_encode_point (code c)) \<noteq> []" for c by (simp add: utf8_point_latin)
  show "utf8_text s = utf8_text t \<Longrightarrow> s = t"
  proof (induction s arbitrary: t)
    case Nil
    then show ?case by (cases t) (simp_all add: utf8_text_def nonempty)
  next
    case (Cons c s)
    then obtain d u where t: "t = d # u" by (cases t) (simp_all add: utf8_text_def nonempty)
    have "c = d \<and> utf8_text s = utf8_text u"
      using Cons.prems unfolding t by (intro utf8_point_inject) (simp add: utf8_text_def)
    then show ?case using Cons.IH t by simp
  qed
qed simp

text \<open>With \<^verbatim>\<open>ensure_ascii=True\<close> everything that is not printable ASCII is escaped in addition.\<close>

definition ascii_json :: "string \<Rightarrow> string" where
  "ascii_json s =
     concat (map (\<lambda>c. if code c < 127 then [c] else [CHR 0x5C] @ ''u00'' @ [hex_digit (code c div 16), hex_digit (code c mod 16)]) s)"

end
