(* ===== verification/History_Seed.thy ===== *)
theory History_Seed
  imports Py_Json
begin

text \<open>
  \<^verbatim>\<open>src/scripts/runtime_epoch_history_seed.py\<close>: the audit-only seed of closed one-minute bars
  into a new runtime epoch. The accumulator validates one exported row at a time against what it
  has seen; the seed inserts the validated rows in batches inside one transaction of the target.
  SHA-256, JSON parsing, the ISO timestamps of the standard library and the optional encoder
  \<^verbatim>\<open>orjson\<close> are fields of \<open>seed_host\<close>; a clock reading is the answer whether the time bound is
  exceeded.
\<close>

section \<open>Constants and data\<close>

definition SEED_TOPIC :: string where "SEED_TOPIC = ''kairos.market.closed_bar.v1''"
definition SOURCE :: string where "SOURCE = ''kairos-quant-scouts''"
definition SCHEMA_VERSION :: string where "SCHEMA_VERSION = ''1.0''"
definition CONTRACT_VERSION :: string where "CONTRACT_VERSION = ''closed-bar.v1''"
definition SYMBOLS :: "string list" where
  "SYMBOLS = [''BTCUSDT'', ''ETHUSDT'', ''SOLUSDT'', ''BNBUSDT'', ''XRPUSDT'']"
definition MINUTE_MS :: int where "MINUTE_MS = 60000"
definition MAX_ROWS :: int where "MAX_ROWS = 200000"
definition SEED_MAX_TOTAL_BYTES :: int where "SEED_MAX_TOTAL_BYTES = 512 * 1024 * 1024"
definition SEED_MAX_ROW_BYTES :: int where "SEED_MAX_ROW_BYTES = 1 * 1024 * 1024"
definition MAX_SECONDS :: int where "MAX_SECONDS = 900"

text \<open>\<^verbatim>\<open>^kairos_epoch_[a-f0-9]{12}$\<close>\<close>

definition NEW_EPOCH_DB_RE :: "string \<Rightarrow> bool" where
  "NEW_EPOCH_DB_RE s \<longleftrightarrow> startswith s ''kairos_epoch_'' \<and> hex_lower_n 12 (drop 13 s)"

definition PAYLOAD_FIELDS :: "string list" where
  "PAYLOAD_FIELDS =
     [''schema_version'', ''message_id'', ''correlation_id'', ''causation_id'', ''produced_at'', ''source'',
      ''contract_version'', ''venue'', ''symbol'', ''timeframe'', ''open_time_ms'', ''close_time_ms'', ''open'', ''high'',
      ''low'', ''close'', ''base_volume'', ''quote_volume'', ''taker_buy_base_volume'', ''taker_buy_quote_volume'',
      ''is_closed'', ''bar_sha256'']"

definition BAR_IDENTITY_FIELDS :: "string list" where
  "BAR_IDENTITY_FIELDS =
     [''base_volume'', ''close'', ''close_time_ms'', ''contract_version'', ''high'', ''is_closed'', ''low'', ''open'',
      ''open_time_ms'', ''quote_volume'', ''symbol'', ''taker_buy_base_volume'', ''taker_buy_quote_volume'',
      ''timeframe'', ''venue'']"

text \<open>
  A column of an exported row: a value, or a timestamp of the driver, in microseconds with its
  offset when it has one.
\<close>

datatype raw_value = Raw pyval | Stamp int "int option"

type_synonym seed_row = "(string \<times> raw_value) list"

record seed_host =
  sha256 :: "bytes \<Rightarrow> string"
  orjson_dumps :: "(items \<Rightarrow> bytes py) option"
  fromisoformat :: "string \<Rightarrow> (int \<times> int option) py"
  isoformat :: "int \<Rightarrow> string"
  loads :: "string \<Rightarrow> pyval py"
  repr_float :: "pyfloat \<Rightarrow> string"

section \<open>Canonical encodings and fields\<close>

definition canonical_json :: "seed_host \<Rightarrow> pyval \<Rightarrow> bytes py" where
  "canonical_json h v =
     (case json_text (strict_float (repr_float h)) v of
        Inl _ \<Rightarrow> Inl (SeedError ''history row is not canonical JSON data'')
      | Inr t \<Rightarrow> Inr (utf8_text t))"

definition normalized_zero :: "pyval \<Rightarrow> pyval" where
  "normalized_zero v = (case v of PFloat f \<Rightarrow> if float_eq f (FFin 0) then PFloat (FFin 0) else v | _ \<Rightarrow> v)"

definition contract_canonical_json :: "seed_host \<Rightarrow> items \<Rightarrow> bytes py" where
  "contract_canonical_json h m =
     (let normalized = map (\<lambda>(k, v). (k, normalized_zero v)) m in
      case orjson_dumps h of
        Some dumps \<Rightarrow>
          (case dumps normalized of
             Inl e \<Rightarrow> if e = TypeError \<or> e = ValueError
               then Inl (SeedError ''closed-bar identity is not canonical JSON data'') else Inl e
           | Inr bs \<Rightarrow> Inr bs)
      | None \<Rightarrow> canonical_json h (PDict normalized))"

definition aware_utc :: "string \<Rightarrow> int \<Rightarrow> int option \<Rightarrow> int py" where
  "aware_utc label t offset =
     (case offset of
        None \<Rightarrow> Inl (SeedError (label @ '' must be timezone-aware''))
      | Some d \<Rightarrow>
          if t - d < - 62135596800000000 \<or> 253402300799999999 < t - d then Inl OverflowError else Inr (t - d))"

definition utc_datetime :: "seed_host \<Rightarrow> raw_value \<Rightarrow> string \<Rightarrow> int py" where
  "utc_datetime h v label =
     (case v of
        Raw (PStr s) \<Rightarrow>
          (case fromisoformat h (concat (map (\<lambda>c. if c = CHR ''Z'' then ''+00:00'' else [c]) s)) of
             Inl e \<Rightarrow> if e = ValueError then Inl (SeedError (label @ '' is not an ISO-8601 timestamp'')) else Inl e
           | Inr (t, offset) \<Rightarrow> aware_utc label t offset)
      | Stamp t offset \<Rightarrow> aware_utc label t offset
      | Raw _ \<Rightarrow> Inl (SeedError (label @ '' must be timezone-aware'')))"

definition parsed_json :: "seed_host \<Rightarrow> raw_value \<Rightarrow> raw_value py" where
  "parsed_json h v =
     (case v of
        Raw (PStr s) \<Rightarrow>
          (case loads h s of
             Inl e \<Rightarrow> if e = ValueError \<or> e = JSONDecodeError
               then Inl (SeedError ''history payload is not valid JSON'') else Inl e
           | Inr w \<Rightarrow> Inr (Raw w))
      | _ \<Rightarrow> Inr v)"

definition payload_of :: "seed_host \<Rightarrow> raw_value \<Rightarrow> items py" where
  "payload_of h v =
     py_bind (parsed_json h v) (\<lambda>w.
       case w of
         Raw (PDict m) \<Rightarrow> if keys_are m PAYLOAD_FIELDS then Inr m
           else Inl (SeedError ''history payload does not match the exact CLOSED_BAR v1 envelope'')
       | _ \<Rightarrow> Inl (SeedError ''history payload does not match the exact CLOSED_BAR v1 envelope''))"

text \<open>
  \<^verbatim>\<open>_finite_number\<close>: \<^verbatim>\<open>math.isfinite\<close> converts an integer first, which raises beyond the
  double range.
\<close>

definition finite_number :: "items \<Rightarrow> string \<Rightarrow> bool \<Rightarrow> pyfloat py" where
  "finite_number payload name positive =
     (let v = dict_get payload name in
      if is_bool v \<or> num_of v = None then Inl (SeedError ''history OHLCV values must be finite numbers'')
      else py_bind (py_float v) (\<lambda>f.
        if finite_value f = None then Inl (SeedError ''history OHLCV values must be finite numbers'')
        else if positive \<and> float_le f (FFin 0) then Inl (SeedError ''history OHLC values must be positive'')
        else if \<not> positive \<and> float_lt f (FFin 0) then Inl (SeedError ''history volumes must be non-negative'')
        else Inr f))"

definition float_max :: "pyfloat \<Rightarrow> pyfloat \<Rightarrow> pyfloat" where
  "float_max x y = (if float_lt x y then y else x)"

definition float_min :: "pyfloat \<Rightarrow> pyfloat \<Rightarrow> pyfloat" where
  "float_min x y = (if float_lt y x then y else x)"

section \<open>Identities and expectations\<close>

record source_identity =
  src_database :: string
  src_epoch :: string
  read_only :: bool
  pinned_snapshot :: bool

record target_identity =
  tgt_database :: string
  tgt_epoch :: string
  schema_verified :: bool
  fresh_non_trading_epoch :: bool
  protected_source_or_shadow :: bool

record anchor =
  anchor_count :: nat
  first_open_time_ms :: int
  last_open_time_ms :: int
  last_close_time_ms :: int

record seed_expectation =
  anchors :: "(string \<times> anchor) list"
  ordered_digest_sha256 :: string

record seed_limits =
  maximum_rows :: int
  maximum_bytes :: int
  maximum_seconds :: int

definition DEFAULT_SEED_LIMITS :: seed_limits where
  "DEFAULT_SEED_LIMITS = \<lparr>maximum_rows = MAX_ROWS, maximum_bytes = SEED_MAX_TOTAL_BYTES, maximum_seconds = MAX_SECONDS\<rparr>"

definition validate_epoch_pair :: "source_identity \<Rightarrow> target_identity \<Rightarrow> unit py" where
  "validate_epoch_pair source target =
     (if \<not> read_only source \<or> \<not> pinned_snapshot source
      then Inl (SeedError ''source must be read-only and pinned to one epoch snapshot'')
      else if src_database source = [] \<or> src_epoch source = []
      then Inl (SeedError ''pinned source database and epoch identities are required'')
      else if tgt_database target = src_database source \<or> tgt_epoch target = src_epoch source
      then Inl (SeedError ''target must be a separately named database and epoch'')
      else if \<not> NEW_EPOCH_DB_RE (tgt_database target)
      then Inl (SeedError ''target database must have an explicitly new epoch name'')
      else if tgt_epoch target = [] \<or> \<not> schema_verified target \<or> \<not> fresh_non_trading_epoch target
      then Inl (SeedError ''target must be a verified, fresh non-trading epoch'')
      else if protected_source_or_shadow target
      then Inl (SeedError ''primary and preserved shadow targets are forbidden'')
      else Inr ())"

section \<open>The accumulator\<close>

record seed_acc =
  acc_rows :: nat
  acc_bytes :: nat
  acc_hashed :: bytes
  seen_ids :: "string list"
  previous :: "string \<Rightarrow> int option"
  first_open :: "string \<Rightarrow> int option"
  last_bar :: "string \<Rightarrow> (int \<times> int) option"
  acc_counts :: "string \<Rightarrow> nat"

definition acc_start :: seed_acc where
  "acc_start = \<lparr>acc_rows = 0, acc_bytes = 0, acc_hashed = [], seen_ids = [], previous = (\<lambda>_. None),
     first_open = (\<lambda>_. None), last_bar = (\<lambda>_. None), acc_counts = (\<lambda>_. 0)\<rparr>"

definition acc_new :: "(string \<times> anchor) list \<Rightarrow> string option \<Rightarrow> seed_limits \<Rightarrow> seed_acc py" where
  "acc_new expected_anchors expected_digest limits =
     (if set (map fst expected_anchors) \<noteq> set SYMBOLS
      then Inl (SeedError ''exact expected anchors for all five symbols are required'')
      else if (case expected_digest of None \<Rightarrow> False | Some d \<Rightarrow> \<not> hex_lower_n 64 d)
      then Inl (SeedError ''expected ordered source digest is invalid'')
      else if maximum_rows limits \<le> 0 \<or> maximum_bytes limits \<le> 0 \<or> maximum_seconds limits \<le> 0
      then Inl (SeedError ''positive bounded seed limits are required'')
      else Inr acc_start)"

definition REQUIRED_COLUMNS :: "string list" where
  "REQUIRED_COLUMNS =
     [''produced_at'', ''message_id'', ''topic'', ''source'', ''schema_version'', ''correlation_id'', ''causation_id'',
      ''payload'', ''outbox_count'', ''outbox_topic'', ''outbox_producer'', ''outbox_payload'', ''stored_payload_sha256'']"

definition column :: "seed_row \<Rightarrow> string \<Rightarrow> raw_value" where
  "column raw k = (case map_of raw k of None \<Rightarrow> Raw PNone | Some v \<Rightarrow> v)"

definition raw_eq :: "pyval \<Rightarrow> raw_value \<Rightarrow> bool" where
  "raw_eq v r = (case r of Raw w \<Rightarrow> py_eq v w | Stamp _ _ \<Rightarrow> False)"

record seed_bar =
  sb_symbol :: string
  sb_open :: int
  sb_close :: int
  sb_payload :: items
  sb_produced :: int

text \<open>The envelope of the payload repeats the audit row.\<close>

definition envelope_differs :: "seed_host \<Rightarrow> seed_row \<Rightarrow> items \<Rightarrow> int \<Rightarrow> bool py" where
  "envelope_differs h raw payload produced_at =
     py_or
       [Inr (dict_get payload ''schema_version'' \<noteq> PStr SCHEMA_VERSION),
        Inr (dict_get payload ''source'' \<noteq> PStr SOURCE),
        Inr (dict_get payload ''contract_version'' \<noteq> PStr CONTRACT_VERSION),
        Inr (dict_get payload ''venue'' \<noteq> PStr ''BINANCE_UM''),
        Inr (dict_get payload ''timeframe'' \<noteq> PStr ''1m''),
        Inr (dict_get payload ''is_closed'' \<noteq> PBool True),
        Inr (\<not> raw_eq (dict_get payload ''schema_version'') (column raw ''schema_version'')),
        Inr (\<not> raw_eq (dict_get payload ''message_id'') (column raw ''message_id'')),
        Inr (\<not> raw_eq (dict_get payload ''correlation_id'') (column raw ''correlation_id'')),
        Inr (\<not> raw_eq (dict_get payload ''causation_id'') (column raw ''causation_id'')),
        py_bind (utc_datetime h (Raw (dict_get payload ''produced_at'')) ''payload produced_at'') (\<lambda>t.
          Inr (t \<noteq> produced_at))]"

definition bar_symbol :: "items \<Rightarrow> string py" where
  "bar_symbol payload =
     (case dict_get payload ''symbol'' of
        PStr s \<Rightarrow> if s \<in> set SYMBOLS then Inr s
          else Inl (SeedError ''CLOSED_BAR symbol is outside the fixed five-symbol scope'')
      | _ \<Rightarrow> Inl (SeedError ''CLOSED_BAR symbol is outside the fixed five-symbol scope''))"

definition bar_times :: "items \<Rightarrow> (int \<times> int) py" where
  "bar_times payload =
     (case (dict_get payload ''open_time_ms'', dict_get payload ''close_time_ms'') of
        (PInt open_ms, PInt close_ms) \<Rightarrow>
          if open_ms < 0 \<or> open_ms mod MINUTE_MS \<noteq> 0 \<or> close_ms \<noteq> open_ms + MINUTE_MS - 1
          then Inl (SeedError ''bar timestamps must be minute-aligned and final'') else Inr (open_ms, close_ms)
      | _ \<Rightarrow> Inl (SeedError ''bar timestamps must be integer milliseconds''))"

definition bar_geometry :: "items \<Rightarrow> unit py" where
  "bar_geometry payload =
     py_bind (finite_number payload ''open'' True) (\<lambda>open_price.
     py_bind (finite_number payload ''high'' True) (\<lambda>high.
     py_bind (finite_number payload ''low'' True) (\<lambda>low.
     py_bind (finite_number payload ''close'' True) (\<lambda>close.
     py_bind (finite_number payload ''base_volume'' False) (\<lambda>base.
     py_bind (finite_number payload ''quote_volume'' False) (\<lambda>quote.
     py_bind (finite_number payload ''taker_buy_base_volume'' False) (\<lambda>taker_base.
     py_bind (finite_number payload ''taker_buy_quote_volume'' False) (\<lambda>taker_quote.
       if float_lt high (float_max open_price close) \<or> float_lt (float_min open_price close) low \<or> float_lt high low
       then Inl (SeedError ''bar OHLC geometry is invalid'')
       else if float_lt base taker_base \<or> float_lt quote taker_quote
       then Inl (SeedError ''bar taker-buy volume exceeds total volume'')
       else Inr ()))))))))"

definition bar_identity :: "seed_host \<Rightarrow> seed_row \<Rightarrow> items \<Rightarrow> string py" where
  "bar_identity h raw payload =
     py_bind (contract_canonical_json h (map (\<lambda>name. (name, dict_get payload name)) BAR_IDENTITY_FIELDS)) (\<lambda>encoded.
       let bar_hash = sha256 h encoded in
       if dict_get payload ''bar_sha256'' \<noteq> PStr bar_hash \<or> column raw ''message_id'' \<noteq> Raw (PStr bar_hash)
       then Inl (SeedError ''bar identity hash or message_id differs'')
       else if bar_hash = [] then Inl (SeedError ''source message_id is invalid'')
       else Inr bar_hash)"

definition check_bar :: "seed_host \<Rightarrow> seed_row \<Rightarrow> (string \<times> seed_bar) py" where
  "check_bar h raw =
     (if \<not> list_all (\<lambda>k. map_of raw k \<noteq> None) REQUIRED_COLUMNS then Inl (SeedError ''source export row is incomplete'')
      else if column raw ''topic'' \<noteq> Raw (PStr SEED_TOPIC) \<or> column raw ''source'' \<noteq> Raw (PStr SOURCE)
        \<or> column raw ''schema_version'' \<noteq> Raw (PStr SCHEMA_VERSION)
      then Inl (SeedError ''source audit identity is not canonical CLOSED_BAR v1'')
      else
        py_bind (utc_datetime h (column raw ''produced_at'') ''audit produced_at'') (\<lambda>produced_at.
        py_bind (payload_of h (column raw ''payload'')) (\<lambda>payload.
        py_bind (reject_if (envelope_differs h raw payload produced_at)
          (SeedError ''payload envelope does not match the source audit identity'')) (\<lambda>_.
        py_bind (bar_symbol payload) (\<lambda>symbol.
        py_bind (bar_times payload) (\<lambda>(open_ms, close_ms).
        py_bind (bar_geometry payload) (\<lambda>_.
        py_bind (bar_identity h raw payload) (\<lambda>message_id.
          Inr (message_id, \<lparr>sb_symbol = symbol, sb_open = open_ms, sb_close = close_ms, sb_payload = payload,
            sb_produced = produced_at\<rparr>)))))))))"

definition check_outbox :: "seed_host \<Rightarrow> seed_row \<Rightarrow> items \<Rightarrow> string py" where
  "check_outbox h raw payload =
     (if column raw ''outbox_count'' \<noteq> Raw (PInt 1)
      then Inl (SeedError ''source row must have exactly one immutable legacy outbox identity'')
      else if column raw ''outbox_topic'' \<noteq> Raw (PStr SEED_TOPIC) \<or> column raw ''outbox_producer'' \<noteq> Raw (PStr SOURCE)
      then Inl (SeedError ''legacy outbox identity is not the matching CLOSED_BAR producer'')
      else
        py_bind (payload_of h (column raw ''outbox_payload'')) (\<lambda>outbox_payload.
        if \<not> py_eq (PDict outbox_payload) (PDict payload)
        then Inl (SeedError ''legacy outbox and event audit payloads differ'')
        else
          py_bind (canonical_json h (PDict payload)) (\<lambda>encoded.
          case column raw ''stored_payload_sha256'' of
            Raw (PStr stored_hash) \<Rightarrow>
              if hex_lower_n 64 stored_hash \<and> stored_hash = sha256 h encoded then Inr stored_hash
              else Inl (SeedError ''canonical payload hash differs from the stored outbox hash'')
          | _ \<Rightarrow> Inl (SeedError ''canonical payload hash differs from the stored outbox hash''))))"

text \<open>A driver timestamp in one of the identifier columns is no JSON value.\<close>

definition json_column :: "seed_row \<Rightarrow> string \<Rightarrow> pyval py" where
  "json_column raw k =
     (case column raw k of Raw v \<Rightarrow> Inr v | Stamp _ _ \<Rightarrow> Inl (SeedError ''history row is not canonical JSON data''))"

definition digest_row :: "seed_host \<Rightarrow> seed_row \<Rightarrow> string \<Rightarrow> seed_bar \<Rightarrow> string \<Rightarrow> bytes py" where
  "digest_row h raw message_id bar stored_hash =
     py_bind (json_column raw ''correlation_id'') (\<lambda>correlation_id.
     py_bind (json_column raw ''causation_id'') (\<lambda>causation_id.
       canonical_json h (PDict
         [(''produced_at'', PStr (isoformat h (sb_produced bar))), (''message_id'', PStr message_id),
          (''topic'', PStr SEED_TOPIC), (''source'', PStr SOURCE), (''schema_version'', PStr SCHEMA_VERSION),
          (''correlation_id'', correlation_id), (''causation_id'', causation_id),
          (''payload'', PDict (sb_payload bar)), (''stored_payload_sha256'', PStr stored_hash)])))"

text \<open>The columns of the inserted audit row.\<close>

record seed_out =
  out_produced_at :: int
  out_message_id :: string
  out_correlation_id :: raw_value
  out_causation_id :: raw_value
  out_payload :: bytes

definition acc_admit :: "seed_acc \<Rightarrow> string \<Rightarrow> seed_bar \<Rightarrow> bytes \<Rightarrow> seed_acc" where
  "acc_admit acc message_id bar encoded =
     (let symbol = sb_symbol bar in
      acc\<lparr>acc_rows := Suc (acc_rows acc), acc_bytes := acc_bytes acc + length encoded,
          acc_hashed := acc_hashed acc @ to_bytes_be 8 (length encoded) @ encoded,
          seen_ids := message_id # seen_ids acc,
          first_open := (first_open acc)(symbol \<mapsto> (case first_open acc symbol of None \<Rightarrow> sb_open bar | Some t \<Rightarrow> t)),
          last_bar := (last_bar acc)(symbol \<mapsto> (sb_open bar, sb_close bar)),
          previous := (previous acc)(symbol \<mapsto> sb_open bar),
          acc_counts := (acc_counts acc)(symbol := Suc (acc_counts acc symbol))\<rparr>)"

definition acc_add :: "seed_host \<Rightarrow> seed_limits \<Rightarrow> seed_acc \<Rightarrow> bool \<times> seed_row \<Rightarrow> (seed_acc \<times> seed_out) py" where
  "acc_add h limits acc = (\<lambda>(late, raw).
     if late then Inl (SeedError ''history seed exceeded its time bound'')
     else
       py_bind (check_bar h raw) (\<lambda>(message_id, bar).
       if message_id \<in> set (seen_ids acc) then Inl (SeedError ''source message_id is duplicated'')
       else if (case previous acc (sb_symbol bar) of None \<Rightarrow> False | Some p \<Rightarrow> sb_open bar \<noteq> p + MINUTE_MS)
       then Inl (SeedError ''per-symbol CLOSED_BAR sequence is not contiguous'')
       else
         py_bind (check_outbox h raw (sb_payload bar)) (\<lambda>stored_hash.
         py_bind (digest_row h raw message_id bar stored_hash) (\<lambda>encoded.
         if int (Suc (acc_rows acc)) > maximum_rows limits \<or> int (acc_bytes acc + length encoded) > maximum_bytes limits
           \<or> int (length encoded) > SEED_MAX_ROW_BYTES
         then Inl (SeedError ''history seed exceeded its row or byte bound'')
         else
           py_bind (canonical_json h (PDict (sb_payload bar))) (\<lambda>payload.
             Inr (acc_admit acc message_id bar encoded,
               \<lparr>out_produced_at = sb_produced bar, out_message_id = message_id,
                out_correlation_id = column raw ''correlation_id'', out_causation_id = column raw ''causation_id'',
                out_payload = payload\<rparr>))))))"

definition actual_anchor :: "seed_acc \<Rightarrow> string \<Rightarrow> anchor py" where
  "actual_anchor acc symbol =
     (if acc_counts acc symbol = 0 then Inl (SeedError ''source history is incomplete for a required symbol'')
      else case (last_bar acc symbol, first_open acc symbol) of
             (Some (last_open, last_close), Some first_ms) \<Rightarrow>
               Inr \<lparr>anchor_count = acc_counts acc symbol, first_open_time_ms = first_ms, last_open_time_ms = last_open,
                 last_close_time_ms = last_close\<rparr>
           | _ \<Rightarrow> Inl KeyError)"

definition acc_finish ::
  "seed_host \<Rightarrow> (string \<times> anchor) list \<Rightarrow> string option \<Rightarrow> bool \<Rightarrow> seed_acc \<Rightarrow> (string \<times> (string \<times> anchor) list) py" where
  "acc_finish h expected_anchors expected_digest late acc =
     (if late then Inl (SeedError ''history seed exceeded its time bound'')
      else py_bind (py_map (\<lambda>symbol. py_bind (actual_anchor acc symbol) (\<lambda>a. Inr (symbol, a))) SYMBOLS) (\<lambda>actual.
        let digest = sha256 h (acc_hashed acc) in
        if map_of actual \<noteq> map_of expected_anchors
          \<or> (case expected_digest of None \<Rightarrow> False | Some d \<Rightarrow> digest \<noteq> d)
        then Inl (SeedError ''source history counts, final anchors, or ordered digest differ'')
        else Inr (digest, actual)))"

section \<open>Measuring and seeding\<close>

definition measure_history ::
  "seed_host \<Rightarrow> (bool \<times> seed_row) list \<Rightarrow> (string \<times> anchor) list \<Rightarrow> seed_limits \<Rightarrow> bool \<Rightarrow> seed_expectation py" where
  "measure_history h rows expected_anchors limits late =
     py_bind (acc_new expected_anchors None limits) (\<lambda>acc0.
     py_bind (py_run (\<lambda>acc row. py_bind (acc_add h limits acc row) (\<lambda>(acc', _). Inr acc')) acc0 rows) (\<lambda>acc.
     py_bind (acc_finish h expected_anchors None late acc) (\<lambda>(digest, actual).
       Inr \<lparr>anchors = actual, ordered_digest_sha256 = digest\<rparr>)))"

text \<open>
  The target: its two tables that the seed looks at, and what the driver answers to the successive
  inserts and to the commit.
\<close>

record seed_target =
  event_audit :: "seed_out list"
  outbox_rows :: nat

record seed_io =
  insert_result :: "nat \<Rightarrow> unit py"
  commit_result :: "unit py"

record seed_state =
  st_acc :: seed_acc
  st_batch :: "seed_out list"
  st_inserted :: nat
  st_calls :: nat
  st_target :: seed_target

definition flush :: "seed_io \<Rightarrow> seed_state \<Rightarrow> seed_state py" where
  "flush io st =
     py_bind (insert_result io (st_calls st)) (\<lambda>_.
       Inr (st\<lparr>st_batch := [], st_inserted := st_inserted st + length (st_batch st), st_calls := Suc (st_calls st),
         st_target := (st_target st)\<lparr>event_audit := event_audit (st_target st) @ st_batch st\<rparr>\<rparr>))"

definition flush_rest :: "seed_io \<Rightarrow> seed_state \<Rightarrow> seed_state py" where
  "flush_rest io st = (if st_batch st \<noteq> [] then flush io st else Inr st)"

definition seed_step ::
  "seed_host \<Rightarrow> seed_limits \<Rightarrow> seed_io \<Rightarrow> nat \<Rightarrow> seed_state \<Rightarrow> bool \<times> seed_row \<Rightarrow> seed_state py" where
  "seed_step h limits io batch_size st row =
     py_bind (acc_add h limits (st_acc st) row) (\<lambda>(acc', out).
       let st' = st\<lparr>st_acc := acc', st_batch := st_batch st @ [out]\<rparr> in
       if length (st_batch st') = batch_size then flush io st' else Inr st')"

record seed_receipt =
  rc_rows :: nat
  rc_bytes :: nat
  rc_digest :: string
  rc_anchors :: "(string \<times> anchor) list"
  rc_database :: string
  rc_epoch :: string
  rc_outbox_rows_after :: nat

definition seed_transaction ::
  "seed_host \<Rightarrow> (bool \<times> seed_row) list \<Rightarrow> seed_target \<Rightarrow> target_identity \<Rightarrow> seed_expectation \<Rightarrow> seed_limits \<Rightarrow> seed_io
    \<Rightarrow> nat \<Rightarrow> bool \<Rightarrow> seed_acc \<Rightarrow> (seed_receipt \<times> seed_target) py" where
  "seed_transaction h rows target tid expected limits io batch_size late acc0 =
     (if event_audit target \<noteq> [] \<or> outbox_rows target \<noteq> 0
      then Inl (SeedError ''fresh target must start with empty event_audit and message_outbox'')
      else
        py_bind (py_run (seed_step h limits io batch_size)
          \<lparr>st_acc = acc0, st_batch = [], st_inserted = 0, st_calls = 0, st_target = target\<rparr> rows) (\<lambda>st.
        py_bind (flush_rest io st) (\<lambda>st.
        py_bind (acc_finish h (anchors expected) (Some (ordered_digest_sha256 expected)) late (st_acc st)) (\<lambda>(digest, actual).
        if st_inserted st \<noteq> acc_rows (st_acc st) then Inl (SeedError ''target audit insertion count is incomplete'')
        else if length (event_audit (st_target st)) \<noteq> st_inserted st \<or> outbox_rows (st_target st) \<noteq> 0
        then Inl (SeedError ''target post-seed audit/outbox counts differ'')
        else
          py_bind (commit_result io) (\<lambda>_.
            Inr (\<lparr>rc_rows = st_inserted st, rc_bytes = acc_bytes (st_acc st), rc_digest = digest, rc_anchors = actual,
                 rc_database = tgt_database tid, rc_epoch = tgt_epoch tid, rc_outbox_rows_after = 0\<rparr>, st_target st))))))"

text \<open>An exception inside the transaction leaves the target as it was.\<close>

definition seed_history ::
  "seed_host \<Rightarrow> (bool \<times> seed_row) list \<Rightarrow> seed_target \<Rightarrow> source_identity \<Rightarrow> target_identity \<Rightarrow> seed_expectation
    \<Rightarrow> seed_limits \<Rightarrow> seed_io \<Rightarrow> int \<Rightarrow> bool \<Rightarrow> seed_receipt py \<times> seed_target" where
  "seed_history h rows target source tid expected limits io batch_size late =
     (case py_bind (validate_epoch_pair source tid) (\<lambda>_.
           if \<not> (1 \<le> batch_size \<and> batch_size \<le> 1000)
           then Inl (SeedError ''target insert batch must be bounded to 1..1000 rows'')
           else py_bind (acc_new (anchors expected) (Some (ordered_digest_sha256 expected)) limits) (\<lambda>acc0.
             seed_transaction h rows target tid expected limits io (nat batch_size) late acc0)) of
        Inl e \<Rightarrow> (Inl e, target)
      | Inr (receipt, target') \<Rightarrow> (Inr receipt, target'))"

end
