(* ===== verification/History_Seed_Gate.thy ===== *)
theory History_Seed_Gate
  imports History_Seed
begin

text \<open>
  What an accepted history seed guarantees: contiguous bars per symbol, no duplicate, exactly the
  source rows in the target whatever the batch size, and that a measured source can be seeded.
\<close>

section \<open>Contiguous bars\<close>

definition contiguous :: "int list \<Rightarrow> bool" where
  "contiguous ts \<longleftrightarrow> (\<exists>t0. ts = map (\<lambda>i. t0 + MINUTE_MS * int i) [0..<length ts])"

lemma contiguous_Nil [simp]: "contiguous []" by (simp add: contiguous_def)
lemma contiguous_single [simp]: "contiguous [t]" by (simp add: contiguous_def)

lemma contiguous_hd:
  assumes "contiguous ts"
  shows "ts = map (\<lambda>i. hd ts + MINUTE_MS * int i) [0..<length ts]"
proof (cases "ts = []")
  case False
  obtain t0 where t0: "ts = map (\<lambda>i. t0 + MINUTE_MS * int i) [0..<length ts]" using assms contiguous_def by blast
  have "hd ts = t0" using False by (subst t0) (simp add: hd_map upt_conv_Cons)
  then show ?thesis using t0 by simp
qed simp

lemma contiguous_last:
  assumes "contiguous ts" "ts \<noteq> []"
  shows "last ts = hd ts + MINUTE_MS * int (length ts - 1)"
proof -
  have "last ts = ts ! (length ts - 1)" using assms(2) by (rule last_conv_nth)
  also have "\<dots> = map (\<lambda>i. hd ts + MINUTE_MS * int i) [0..<length ts] ! (length ts - 1)"
    using contiguous_hd [OF assms(1)] by metis
  finally show ?thesis using assms(2) by (simp add: nth_append)
qed

lemma contiguous_snoc:
  assumes "contiguous ts" "ts \<noteq> []" "t = last ts + MINUTE_MS"
  shows "contiguous (ts @ [t])"
proof -
  have "t = hd ts + MINUTE_MS * int (length ts)"
    using contiguous_last [OF assms(1,2)] assms(2,3) by (cases ts) (simp_all add: algebra_simps)
  then have "ts @ [t] = map (\<lambda>i. hd ts + MINUTE_MS * int i) [0..<length (ts @ [t])]"
    using contiguous_hd [OF assms(1)] by simp
  then show ?thesis unfolding contiguous_def by blast
qed

section \<open>The accumulator\<close>

definition opens :: "string \<Rightarrow> (string \<times> seed_bar) list \<Rightarrow> int list" where
  "opens symbol bars = map (sb_open \<circ> snd) (filter (\<lambda>b. sb_symbol (snd b) = symbol) bars)"

lemma opens_snoc [simp]:
  "opens symbol (bars @ [b]) = opens symbol bars @ (if sb_symbol (snd b) = symbol then [sb_open (snd b)] else [])"
  by (simp add: opens_def)

definition tracks :: "seed_acc \<Rightarrow> (string \<times> seed_bar) list \<Rightarrow> string \<Rightarrow> bool" where
  "tracks acc bars symbol \<longleftrightarrow>
     (let ts = opens symbol bars in
      contiguous ts \<and> acc_counts acc symbol = length ts
      \<and> previous acc symbol = (if ts = [] then None else Some (last ts))
      \<and> first_open acc symbol = (if ts = [] then None else Some (hd ts))
      \<and> last_bar acc symbol = (if ts = [] then None else Some (last ts, last ts + MINUTE_MS - 1)))"

definition seed_inv :: "seed_host \<Rightarrow> seed_limits \<Rightarrow> (bool \<times> seed_row) list \<Rightarrow> seed_acc \<Rightarrow> bool" where
  "seed_inv h limits rows acc \<longleftrightarrow>
     (\<exists>bars. list_all2 (\<lambda>r b. check_bar h (snd r) = Inr b) rows bars
      \<and> acc_rows acc = length rows \<and> distinct (map fst bars) \<and> set (seen_ids acc) = set (map fst bars)
      \<and> (\<forall>symbol. tracks acc bars symbol)
      \<and> (rows \<noteq> [] \<longrightarrow> int (acc_rows acc) \<le> maximum_rows limits \<and> int (acc_bytes acc) \<le> maximum_bytes limits))"

abbreviation acc_step :: "seed_host \<Rightarrow> seed_limits \<Rightarrow> seed_acc \<Rightarrow> bool \<times> seed_row \<Rightarrow> seed_acc py" where
  "acc_step h limits \<equiv> \<lambda>acc row. py_bind (acc_add h limits acc row) (\<lambda>(acc', _). Inr acc')"

lemma check_bar_close:
  "check_bar h raw = Inr (i, bar) \<Longrightarrow> sb_close bar = sb_open bar + MINUTE_MS - 1 \<and> sb_symbol bar \<in> set SYMBOLS \<and> i \<noteq> []"
  by (auto simp: check_bar_def py_bind_Inr_iff bar_times_def bar_symbol_def bar_identity_def Let_def
      split: if_splits prod.splits pyval.splits)

lemma acc_add_Inr:
  assumes "acc_add h limits acc row = Inr (acc', out)"
  obtains i bar encoded where "\<not> fst row" "check_bar h (snd row) = Inr (i, bar)" "i \<notin> set (seen_ids acc)"
    "previous acc (sb_symbol bar) = None \<or> previous acc (sb_symbol bar) = Some (sb_open bar - MINUTE_MS)"
    "acc' = acc_admit acc i bar encoded" "int (Suc (acc_rows acc)) \<le> maximum_rows limits"
    "int (acc_bytes acc + length encoded) \<le> maximum_bytes limits" "int (length encoded) \<le> SEED_MAX_ROW_BYTES"
    "out_message_id out = i"
  using assms by (auto simp: acc_add_def py_bind_Inr_iff split: prod.splits if_splits option.splits)

lemma tracks_admit:
  assumes "tracks acc bars symbol" "sb_close bar = sb_open bar + MINUTE_MS - 1"
    and "previous acc (sb_symbol bar) = None \<or> previous acc (sb_symbol bar) = Some (sb_open bar - MINUTE_MS)"
  shows "tracks (acc_admit acc i bar encoded) (bars @ [(i, bar)]) symbol"
proof (cases "sb_symbol bar = symbol")
  case False
  then show ?thesis using assms(1) by (auto simp: tracks_def acc_admit_def Let_def)
next
  case same: True
  show ?thesis
  proof (cases "opens symbol bars = []")
    case True
    then show ?thesis using assms(1,2) same by (simp add: tracks_def acc_admit_def Let_def)
  next
    case False
    then have "sb_open bar = last (opens symbol bars) + MINUTE_MS"
      using assms(1,3) same by (auto simp: tracks_def Let_def)
    with False assms(1,2) same show ?thesis
      by (auto simp: tracks_def acc_admit_def Let_def intro: contiguous_snoc)
  qed
qed

lemma seed_inv_step:
  assumes "seed_inv h limits rows acc" "acc_step h limits acc row = Inr acc'"
  shows "seed_inv h limits (rows @ [row]) acc'"
proof -
  obtain out where "acc_add h limits acc row = Inr (acc', out)" using assms(2) by (auto simp: py_bind_Inr_iff)
  then obtain i bar encoded where a: "check_bar h (snd row) = Inr (i, bar)" "i \<notin> set (seen_ids acc)"
    "previous acc (sb_symbol bar) = None \<or> previous acc (sb_symbol bar) = Some (sb_open bar - MINUTE_MS)"
    "acc' = acc_admit acc i bar encoded" "int (Suc (acc_rows acc)) \<le> maximum_rows limits"
    "int (acc_bytes acc + length encoded) \<le> maximum_bytes limits"
    by (rule acc_add_Inr)
  obtain bars where b: "list_all2 (\<lambda>r b. check_bar h (snd r) = Inr b) rows bars" "acc_rows acc = length rows"
    "distinct (map fst bars)" "set (seen_ids acc) = set (map fst bars)" "\<forall>symbol. tracks acc bars symbol"
    using assms(1) by (auto simp: seed_inv_def)
  have close: "sb_close bar = sb_open bar + MINUTE_MS - 1" using check_bar_close [OF a(1)] by blast
  have tr: "\<forall>symbol. tracks acc' (bars @ [(i, bar)]) symbol"
    unfolding a(4) using b(5) tracks_admit [OF _ close a(3)] by blast
  have rest: "acc_rows acc' = length (rows @ [row])" "set (seen_ids acc') = set (map fst (bars @ [(i, bar)]))"
    "int (acc_rows acc') \<le> maximum_rows limits \<and> int (acc_bytes acc') \<le> maximum_bytes limits"
    "distinct (map fst (bars @ [(i, bar)]))"
    using a b by (simp_all add: acc_admit_def Let_def)
  have "list_all2 (\<lambda>r b. check_bar h (snd r) = Inr b) (rows @ [row]) (bars @ [(i, bar)])"
    using b(1) a(1) by (simp add: list_all2_appendI)
  with tr rest show ?thesis unfolding seed_inv_def by blast
qed

lemma seed_inv_start: "seed_inv h limits [] acc_start"
  by (simp add: seed_inv_def acc_start_def tracks_def opens_def)

interpretation seed_acc: step_machine "acc_step h limits" acc_start "seed_inv h limits" for h limits
  by unfold_locales (rule seed_inv_start, erule seed_inv_step)

section \<open>Batches\<close>

text \<open>The reference: the validated rows collected in order, without batches or a target.\<close>

abbreviation collect_step ::
  "seed_host \<Rightarrow> seed_limits \<Rightarrow> seed_acc \<times> seed_out list \<Rightarrow> bool \<times> seed_row \<Rightarrow> (seed_acc \<times> seed_out list) py" where
  "collect_step h limits \<equiv> \<lambda>(acc, outs) row. py_bind (acc_add h limits acc row) (\<lambda>(acc', out). Inr (acc', outs @ [out]))"

definition batch_rel :: "nat \<Rightarrow> seed_state \<Rightarrow> seed_acc \<times> seed_out list \<Rightarrow> bool" where
  "batch_rel n st p \<longleftrightarrow> st_acc st = fst p \<and> event_audit (st_target st) @ st_batch st = snd p
     \<and> st_inserted st = length (event_audit (st_target st)) \<and> outbox_rows (st_target st) = 0 \<and> length (st_batch st) < n"

lemma flush_rel:
  assumes "flush io st = Inr st'"
  shows "st_acc st' = st_acc st \<and> event_audit (st_target st') = event_audit (st_target st) @ st_batch st \<and> st_batch st' = []
    \<and> st_inserted st' = st_inserted st + length (st_batch st) \<and> outbox_rows (st_target st') = outbox_rows (st_target st)"
  using assms by (auto simp: flush_def py_bind_Inr_iff)

interpretation batches: run_simulation "seed_step h limits io n" "collect_step h limits" "batch_rel n" for h limits io n
proof
  fix s :: seed_state and t i s'
  assume r: "batch_rel n s t" and s: "seed_step h limits io n s i = Inr s'"
  obtain acc' out where a: "acc_add h limits (st_acc s) i = Inr (acc', out)"
    and s': "(if Suc (length (st_batch s)) = n then flush io (s\<lparr>st_acc := acc', st_batch := st_batch s @ [out]\<rparr>)
       else Inr (s\<lparr>st_acc := acc', st_batch := st_batch s @ [out]\<rparr>)) = Inr s'"
    using s by (auto simp: seed_step_def py_bind_Inr_iff Let_def)
  obtain acc outs where t: "t = (acc, outs)" by (cases t)
  have "batch_rel n s' (acc', outs @ [out])"
    using r s' t by (auto simp: batch_rel_def dest!: flush_rel split: if_splits)
  moreover have "collect_step h limits t i = Inr (acc', outs @ [out])" using a r t by (simp add: batch_rel_def)
  ultimately show "\<exists>t'. collect_step h limits t i = Inr t' \<and> batch_rel n s' t'" by blast
qed

text \<open>When every insert succeeds, the batched run follows the reference in turn.\<close>

lemma flush_ok: "\<forall>k. insert_result io k = Inr () \<Longrightarrow> \<exists>st'. flush io st = Inr st'"
  by (simp add: flush_def)

lemma collect_to_batches:
  assumes "\<forall>k. insert_result io k = Inr ()"
  shows "run_simulation (collect_step h limits) (seed_step h limits io n) (\<lambda>p st. batch_rel n st p)"
proof
  fix s :: "seed_acc \<times> seed_out list" and t :: seed_state and i s'
  assume r: "batch_rel n t s" and s: "collect_step h limits s i = Inr s'"
  obtain acc outs where p: "s = (acc, outs)" by (cases s)
  obtain acc' out where a: "acc_add h limits acc i = Inr (acc', out)" "s' = (acc', outs @ [out])"
    using s by (auto simp: p py_bind_Inr_iff)
  let ?t = "t\<lparr>st_acc := acc', st_batch := st_batch t @ [out]\<rparr>"
  obtain u where u: "flush io ?t = Inr u" using flush_ok [OF assms] by blast
  have "seed_step h limits io n t i = Inr (if Suc (length (st_batch t)) = n then u else ?t)"
    using r a u by (simp add: p batch_rel_def seed_step_def Let_def)
  moreover have "batch_rel n (if Suc (length (st_batch t)) = n then u else ?t) s'"
    using r a(2) flush_rel [OF u] by (auto simp: p batch_rel_def)
  ultimately show "\<exists>t'. seed_step h limits io n t i = Inr t' \<and> batch_rel n t' s'" by blast
qed

text \<open>The reference run: its accumulator is the accumulator run, its rows are named by their bars.\<close>

lemma collect_run:
  assumes "py_run (collect_step h limits) (acc, outs) rows = Inr (acc', outs')"
  shows "py_run (acc_step h limits) acc rows = Inr acc'
    \<and> (\<exists>bars news. list_all2 (\<lambda>r b. check_bar h (snd r) = Inr b) rows bars \<and> outs' = outs @ news
         \<and> map out_message_id news = map fst bars)"
  using assms
proof (induction rows arbitrary: acc outs)
  case (Cons row rows)
  then obtain a out where a: "acc_add h limits acc row = Inr (a, out)"
    and r: "py_run (collect_step h limits) (a, outs @ [out]) rows = Inr (acc', outs')" by (auto simp: py_bind_Inr_iff)
  obtain i bar encoded where i: "check_bar h (snd row) = Inr (i, bar)" "out_message_id out = i"
    using a by (rule acc_add_Inr)
  obtain bars news where b: "list_all2 (\<lambda>r b. check_bar h (snd r) = Inr b) rows bars" "outs' = (outs @ [out]) @ news"
    "map out_message_id news = map fst bars" "py_run (acc_step h limits) a rows = Inr acc'"
    using Cons.IH [OF r] by blast
  show ?case
    using a i b by (intro conjI exI [of _ "(i, bar) # bars"] exI [of _ "out # news"]) simp_all
qed simp

lemma flush_rest_rel:
  assumes "flush_rest io st = Inr st'" "batch_rel n st (acc, outs)"
  shows "st_acc st' = acc" "event_audit (st_target st') = outs" "st_inserted st' = length outs" "outbox_rows (st_target st') = 0"
  using assms by (auto simp: flush_rest_def batch_rel_def dest: flush_rel split: if_splits)

lemma bars_unique:
  "list_all2 (\<lambda>r b. check_bar h (snd r) = Inr b) rows bars \<Longrightarrow> list_all2 (\<lambda>r b. check_bar h (snd r) = Inr b) rows bars'
   \<Longrightarrow> bars' = bars"
  by (induction rows arbitrary: bars bars') (auto simp: list_all2_Cons1)

section \<open>What a seed guarantees\<close>

lemma finish_anchors:
  assumes "acc_finish h expected digest late acc = Inr (d, actual)" "seed_inv h limits rows acc"
    and "list_all2 (\<lambda>r b. check_bar h (snd r) = Inr b) rows bars" "symbol \<in> set SYMBOLS"
  shows "\<exists>a. map_of expected symbol = Some a \<and> 0 < anchor_count a
    \<and> opens symbol bars = map (\<lambda>i. first_open_time_ms a + MINUTE_MS * int i) [0..<anchor_count a]
    \<and> last_close_time_ms a = first_open_time_ms a + MINUTE_MS * int (anchor_count a) - 1"
proof -
  have tr: "tracks acc bars symbol" using assms(2) bars_unique [OF assms(3)] unfolding seed_inv_def by blast
  obtain xs where xs: "py_map (\<lambda>s. py_bind (actual_anchor acc s) (\<lambda>a. Inr (s, a))) SYMBOLS = Inr xs"
    "map_of xs = map_of expected"
    using assms(1) by (auto simp: acc_finish_def py_bind_Inr_iff Let_def split: if_splits)
  have "distinct SYMBOLS" by (simp add: SYMBOLS_def)
  moreover have "map fst xs = SYMBOLS" and each: "\<And>x. x \<in> set xs \<Longrightarrow> actual_anchor acc (fst x) = Inr (snd x)"
    using py_map_tagged [OF xs(1)] by blast+
  ultimately obtain a where a: "map_of xs symbol = Some a" "actual_anchor acc symbol = Inr a"
    using assms(4) by (metis (mono_tags) each fst_conv list.set_map map_of_SomeD map_of_eq_None_iff not_None_eq snd_conv)
  have ne: "opens symbol bars \<noteq> []"
    using a(2) tr by (auto simp: actual_anchor_def tracks_def Let_def split: if_splits)
  have con: "contiguous (opens symbol bars)" using tr by (simp add: tracks_def Let_def)
  have a': "a = \<lparr>anchor_count = length (opens symbol bars), first_open_time_ms = hd (opens symbol bars),
      last_open_time_ms = last (opens symbol bars), last_close_time_ms = last (opens symbol bars) + MINUTE_MS - 1\<rparr>"
    using a(2) tr ne by (auto simp: actual_anchor_def tracks_def Let_def split: if_splits)
  have "last (opens symbol bars) + MINUTE_MS = hd (opens symbol bars) + MINUTE_MS * int (length (opens symbol bars))"
    using contiguous_last [OF con ne] ne by (cases "opens symbol bars") (simp_all add: algebra_simps)
  then show ?thesis using a(1) xs(2) contiguous_hd [OF con] ne by (intro exI [of _ a]) (simp add: a')
qed

text \<open>The transaction as the reference run followed by the final checks.\<close>

lemma seed_transaction_Inr:
  assumes "seed_transaction h rows target tid expected limits io n late acc_start = Inr (receipt, target')" "0 < n"
  shows "\<exists>acc outs d actual. py_run (collect_step h limits) (acc_start, []) rows = Inr (acc, outs)
    \<and> event_audit target' = outs \<and> outbox_rows target' = 0
    \<and> acc_finish h (anchors expected) (Some (ordered_digest_sha256 expected)) late acc = Inr (d, actual)
    \<and> receipt = \<lparr>rc_rows = length outs, rc_bytes = acc_bytes acc, rc_digest = d, rc_anchors = actual,
         rc_database = tgt_database tid, rc_epoch = tgt_epoch tid, rc_outbox_rows_after = 0\<rparr>
    \<and> length outs = acc_rows acc \<and> commit_result io = Inr () \<and> event_audit target = [] \<and> outbox_rows target = 0"
proof -
  let ?st0 = "\<lparr>st_acc = acc_start, st_batch = [], st_inserted = 0, st_calls = 0, st_target = target\<rparr>"
  have empty: "event_audit target = []" "outbox_rows target = 0"
    using assms(1) by (simp_all add: seed_transaction_def split: if_splits)
  obtain st1 st2 d actual where run: "py_run (seed_step h limits io n) ?st0 rows = Inr st1"
    and st2: "flush_rest io st1 = Inr st2"
    and fin: "acc_finish h (anchors expected) (Some (ordered_digest_sha256 expected)) late (st_acc st2) = Inr (d, actual)"
    and checks: "st_inserted st2 = acc_rows (st_acc st2)" "commit_result io = Inr ()"
    and res: "target' = st_target st2" "receipt = \<lparr>rc_rows = st_inserted st2, rc_bytes = acc_bytes (st_acc st2), rc_digest = d,
       rc_anchors = actual, rc_database = tgt_database tid, rc_epoch = tgt_epoch tid, rc_outbox_rows_after = 0\<rparr>"
    using assms(1) by (auto simp: seed_transaction_def py_bind_Inr_iff split: if_splits)
  have "batch_rel n ?st0 (acc_start, [])" using empty assms(2) by (simp add: batch_rel_def)
  then obtain acc outs where c: "py_run (collect_step h limits) (acc_start, []) rows = Inr (acc, outs)" "batch_rel n st1 (acc, outs)"
    using batches.sim_run [OF _ run] by fastforce
  have "st_acc st2 = acc" "event_audit (st_target st2) = outs" "st_inserted st2 = length outs" "outbox_rows (st_target st2) = 0"
    using flush_rest_rel [OF st2 c(2)] by simp_all
  then show ?thesis using c(1) fin checks res empty by auto
qed


text \<open>
  C35: the batch size does not matter. When the target accepts every insert, a seed that succeeds
  with one batch size between 1 and 1000 succeeds with every other, with the same receipt and the
  same target.
\<close>

theorem seed_batch_irrelevant:
  assumes "seed_history h rows target source tid expected limits io b late = (Inr receipt, target')"
    and "\<forall>k. insert_result io k = Inr ()" "1 \<le> b'" "b' \<le> 1000"
  shows "seed_history h rows target source tid expected limits io b' late = (Inr receipt, target')"
proof -
  have v: "validate_epoch_pair source tid = Inr ()" and n: "0 < nat b"
    and new: "acc_new (anchors expected) (Some (ordered_digest_sha256 expected)) limits = Inr acc_start"
    and t: "seed_transaction h rows target tid expected limits io (nat b) late acc_start = Inr (receipt, target')"
    using assms(1) by (auto simp: seed_history_def py_bind_Inr_iff acc_new_def split: sum.splits if_splits)
  obtain acc outs d actual where c: "py_run (collect_step h limits) (acc_start, []) rows = Inr (acc, outs)"
    and tgt: "event_audit target' = outs" "outbox_rows target' = 0" "event_audit target = []" "outbox_rows target = 0"
    and fin: "acc_finish h (anchors expected) (Some (ordered_digest_sha256 expected)) late acc = Inr (d, actual)"
    and rec: "receipt = \<lparr>rc_rows = length outs, rc_bytes = acc_bytes acc, rc_digest = d, rc_anchors = actual,
         rc_database = tgt_database tid, rc_epoch = tgt_epoch tid, rc_outbox_rows_after = 0\<rparr>"
    and len: "length outs = acc_rows acc" and commit: "commit_result io = Inr ()"
    using seed_transaction_Inr [OF t n] by auto
  let ?st0 = "\<lparr>st_acc = acc_start, st_batch = [], st_inserted = 0, st_calls = 0, st_target = target\<rparr>"
  have r0: "batch_rel (nat b') ?st0 (acc_start, [])" using tgt assms(3) by (simp add: batch_rel_def)
  obtain st1 where st1: "py_run (seed_step h limits io (nat b')) ?st0 rows = Inr st1" "batch_rel (nat b') st1 (acc, outs)"
    using run_simulation.sim_run [OF collect_to_batches [OF assms(2)] r0 c] by blast
  obtain st2 where st2: "flush_rest io st1 = Inr st2"
    using flush_ok [OF assms(2), of st1] by (cases "st_batch st1 = []") (auto simp: flush_rest_def)
  have s2: "st_acc st2 = acc" "event_audit (st_target st2) = outs" "st_inserted st2 = length outs" "outbox_rows (st_target st2) = 0"
    using flush_rest_rel [OF st2 st1(2)] by simp_all
  have "st_target st2 = target'" using s2 tgt by (cases "st_target st2"; cases target') simp
  then have "seed_transaction h rows target tid expected limits io (nat b') late acc_start = Inr (receipt, target')"
    using st1(1) st2 s2 tgt fin len commit rec by (simp add: seed_transaction_def del: py_run.simps)
  then show ?thesis using v new assms(3,4) by (simp add: seed_history_def)
qed

section \<open>Measuring, then seeding\<close>

interpretation collected: run_simulation "acc_step h limits" "collect_step h limits" "\<lambda>acc p. fst p = acc" for h limits
proof
  fix s and t :: "seed_acc \<times> seed_out list" and i s'
  assume "fst t = s" "acc_step h limits s i = Inr s'"
  then show "\<exists>t'. collect_step h limits t i = Inr t' \<and> fst t' = s'"
    by (cases t) (auto simp: py_bind_Inr_iff)
qed

lemma acc_finish_again:
  assumes "acc_finish h expected None late acc = Inr (d, actual)"
  shows "acc_finish h actual (Some d) False acc = Inr (d, actual)"
  using assms by (auto simp: acc_finish_def py_bind_Inr_iff Let_def split: if_splits)

lemma finish_symbols: "acc_finish h expected digest late acc = Inr (d, actual) \<Longrightarrow> map fst actual = SYMBOLS"
  by (auto simp: acc_finish_def py_bind_Inr_iff Let_def split: if_splits dest!: py_map_tagged)

lemma collect_rows:
  assumes "py_run (collect_step h limits) (acc_start, []) rows = Inr (acc, outs)"
  shows "length outs = length rows \<and> acc_rows acc = length rows"
proof -
  obtain bars where b: "list_all2 (\<lambda>r b. check_bar h (snd r) = Inr b) rows bars" "map out_message_id outs = map fst bars"
    and run: "py_run (acc_step h limits) acc_start rows = Inr acc"
    using collect_run [OF assms] by auto
  have "acc_rows acc = length rows" using seed_acc.run_inv [OF run] by (auto simp: seed_inv_def)
  then show ?thesis using b by (metis length_map list_all2_lengthD)
qed

lemma seed_measured:
  assumes "measure_history h rows expected_anchors limits late = Inr expected"
    and "hex_lower_n 64 (ordered_digest_sha256 expected)" "validate_epoch_pair source tid = Inr ()"
    and "event_audit target = []" "outbox_rows target = 0"
    and "\<forall>k. insert_result io k = Inr ()" "commit_result io = Inr ()" "1 \<le> b" "b \<le> 1000"
  shows "\<exists>receipt target'. seed_history h rows target source tid expected limits io b False = (Inr receipt, target')
    \<and> rc_digest receipt = ordered_digest_sha256 expected \<and> rc_rows receipt = length rows"
proof -
  obtain acc d actual where new: "acc_new expected_anchors None limits = Inr acc_start"
    and run: "py_run (acc_step h limits) acc_start rows = Inr acc"
    and fin: "acc_finish h expected_anchors None late acc = Inr (d, actual)"
    and e: "expected = \<lparr>anchors = actual, ordered_digest_sha256 = d\<rparr>"
    using assms(1) by (auto simp: measure_history_def py_bind_Inr_iff acc_new_def split: if_splits)
  obtain outs where c: "py_run (collect_step h limits) (acc_start, []) rows = Inr (acc, outs)"
    using collected.sim_run [OF _ run, of "(acc_start, [])"] by auto
  note len = collect_rows [OF c]
  let ?st0 = "\<lparr>st_acc = acc_start, st_batch = [], st_inserted = 0, st_calls = 0, st_target = target\<rparr>"
  have r0: "batch_rel (nat b) ?st0 (acc_start, [])" using assms(4,5,8) by (simp add: batch_rel_def)
  obtain st1 where st1: "py_run (seed_step h limits io (nat b)) ?st0 rows = Inr st1" "batch_rel (nat b) st1 (acc, outs)"
    using run_simulation.sim_run [OF collect_to_batches [OF assms(6)] r0 c] by blast
  obtain st2 where st2: "flush_rest io st1 = Inr st2"
    using flush_ok [OF assms(6), of st1] by (cases "st_batch st1 = []") (auto simp: flush_rest_def)
  note s2 = flush_rest_rel [OF st2 st1(2)]
  have new': "acc_new actual (Some d) limits = Inr acc_start"
    using new assms(2) finish_symbols [OF fin] by (auto simp: acc_new_def e split: if_splits simp flip: set_map)
  show ?thesis
    using assms(3-5,7-9) st1(1) st2 s2 acc_finish_again [OF fin] len new'
    by (simp add: seed_history_def seed_transaction_def e del: py_run.simps)
qed

text \<open>
  C36: what was measured can be seeded. If the measuring pass over the source accepts its rows, then
  the seed of the same rows with the expectation it returned succeeds, for every batch size, on a
  fresh target that accepts the inserts and the commit, and its receipt carries the measured digest.
\<close>

theorem measure_then_seed:
  assumes "measure_history h rows expected_anchors limits late = Inr expected"
    and "\<forall>bs. hex_lower_n 64 (sha256 h bs)" "validate_epoch_pair source tid = Inr ()"
    and "event_audit target = []" "outbox_rows target = 0"
    and "\<forall>k. insert_result io k = Inr ()" "commit_result io = Inr ()" "1 \<le> b" "b \<le> 1000"
  shows "\<exists>receipt target'. seed_history h rows target source tid expected limits io b False = (Inr receipt, target')
    \<and> rc_digest receipt = ordered_digest_sha256 expected \<and> rc_rows receipt = length rows"
proof (rule seed_measured [OF assms(1) _ assms(3-9)])
  show "hex_lower_n 64 (ordered_digest_sha256 expected)"
    using assms(1,2) by (auto simp: measure_history_def acc_finish_def py_bind_Inr_iff Let_def split: if_splits)
qed

end
