(* ===== verification/History_Seed_Sample.thy ===== *)
theory History_Seed_Sample
  imports History_Seed_Gate
begin

text \<open>A complete measuring and seeding run, at which the theorems on the history seed apply.\<close>

section \<open>The sample\<close>

text \<open>One bar for each symbol; the hash of the sample tells the symbols apart and nothing else.\<close>

definition toy_sha :: "bytes \<Rightarrow> string" where
  "toy_sha bs = replicate 64 (if bs = ''BTCUSDT'' then CHR ''a'' else if bs = ''ETHUSDT'' then CHR ''b''
     else if bs = ''SOLUSDT'' then CHR ''c'' else if bs = ''BNBUSDT'' then CHR ''d'' else if bs = ''XRPUSDT'' then CHR ''e''
     else CHR ''0'')"

definition toy_host :: seed_host where
  "toy_host = \<lparr>sha256 = toy_sha,
     orjson_dumps = Some (\<lambda>m. case dict_get m ''symbol'' of PStr s \<Rightarrow> Inr s | _ \<Rightarrow> Inl TypeError),
     fromisoformat = (\<lambda>_. Inr (0, Some 0)), isoformat = (\<lambda>_. ''t''), loads = (\<lambda>_. Inl JSONDecodeError),
     repr_float = (\<lambda>_. ''1.0'')\<rparr>"

definition toy_payload :: "string \<Rightarrow> pyval" where
  "toy_payload symbol = PDict
     [(''schema_version'', PStr SCHEMA_VERSION), (''message_id'', PStr (toy_sha symbol)), (''correlation_id'', PNone),
      (''causation_id'', PNone), (''produced_at'', PStr ''t''), (''source'', PStr SOURCE),
      (''contract_version'', PStr CONTRACT_VERSION), (''venue'', PStr ''BINANCE_UM''), (''symbol'', PStr symbol),
      (''timeframe'', PStr ''1m''), (''open_time_ms'', PInt 0), (''close_time_ms'', PInt 59999),
      (''open'', PFloat (FFin 1)), (''high'', PFloat (FFin 1)), (''low'', PFloat (FFin 1)), (''close'', PFloat (FFin 1)),
      (''base_volume'', PFloat (FFin 1)), (''quote_volume'', PFloat (FFin 1)), (''taker_buy_base_volume'', PFloat (FFin 1)),
      (''taker_buy_quote_volume'', PFloat (FFin 1)), (''is_closed'', PBool True), (''bar_sha256'', PStr (toy_sha symbol))]"

definition toy_row :: "string \<Rightarrow> seed_row" where
  "toy_row symbol =
     [(''produced_at'', Stamp 0 (Some 0)), (''message_id'', Raw (PStr (toy_sha symbol))), (''topic'', Raw (PStr SEED_TOPIC)),
      (''source'', Raw (PStr SOURCE)), (''schema_version'', Raw (PStr SCHEMA_VERSION)), (''correlation_id'', Raw PNone),
      (''causation_id'', Raw PNone), (''payload'', Raw (toy_payload symbol)), (''outbox_count'', Raw (PInt 1)),
      (''outbox_topic'', Raw (PStr SEED_TOPIC)), (''outbox_producer'', Raw (PStr SOURCE)),
      (''outbox_payload'', Raw (toy_payload symbol)), (''stored_payload_sha256'', Raw (PStr (toy_sha [])))]"

definition toy_rows :: "(bool \<times> seed_row) list" where
  "toy_rows = map (\<lambda>symbol. (False, toy_row symbol)) SYMBOLS"

definition toy_anchors :: "(string \<times> anchor) list" where
  "toy_anchors = map (\<lambda>symbol. (symbol, \<lparr>anchor_count = 1, first_open_time_ms = 0, last_open_time_ms = 0,
     last_close_time_ms = 59999\<rparr>)) SYMBOLS"

section \<open>Its rows are admitted\<close>

lemma toy_host_sha [simp]: "sha256 toy_host = toy_sha"
  by (simp add: toy_host_def)

lemma toy_sha_hex [simp]: "hex_lower_n 64 (toy_sha bs)"
proof -
  have "is_hex_lower c \<Longrightarrow> hex_lower_n 64 (replicate 64 c)" for c
    by (simp add: hex_lower_n_def list_all_iff)
  then show ?thesis by (simp add: toy_sha_def is_hex_lower_def is_digit_def)
qed

lemma length_toy_sha [simp]: "length (toy_sha bs) = 64"
  by (simp add: toy_sha_def)

lemma toy_sha_nonempty [simp]: "toy_sha bs \<noteq> []"
  by (simp add: toy_sha_def)

abbreviation toy_items :: "string \<Rightarrow> items" where
  "toy_items symbol \<equiv> (case toy_payload symbol of PDict m \<Rightarrow> m | _ \<Rightarrow> [])"

lemma toy_json_payload:
  assumes "length symbol = 7"
  shows "\<exists>t. json_text (strict_float (\<lambda>_. ''1.0'')) (toy_payload symbol) = Inr t \<and> length t \<le> 10000"
proof -
  have n: "length (show_nat 0) = 1" "length (show_nat 59999) = 5"
    by (simp_all add: show_nat.simps)
  have "\<exists>ts. json_items (strict_float (\<lambda>_. ''1.0'')) (toy_items symbol) = Inr ts
    \<and> sum_list (map (\<lambda>(k, t). 6 * length k + length t + 4) ts) \<le> 9000"
    using assms length_json_string [of symbol] length_json_string [of "toy_sha symbol"]
      length_json_string [of SCHEMA_VERSION] length_json_string [of SOURCE] length_json_string [of CONTRACT_VERSION] 
      length_json_string [of "''t''"] length_json_string [of "''BINANCE_UM''"] length_json_string [of "''1m''"] 
    by (simp add: toy_payload_def strict_float_def show_int_def n SCHEMA_VERSION_def SOURCE_def CONTRACT_VERSION_def)
  then obtain ts where "json_items (strict_float (\<lambda>_. ''1.0'')) (toy_items symbol) = Inr ts"
    "sum_list (map (\<lambda>(k, t). 6 * length k + length t + 4) ts) \<le> 9000"
    by blast
  then show ?thesis using length_json_members [of ts] by (auto simp: toy_payload_def)
qed

lemma toy_bar:
  assumes "symbol \<in> set SYMBOLS"
  shows "check_bar toy_host (toy_row symbol) = Inr (toy_sha symbol, \<lparr>sb_symbol = symbol, sb_open = 0, sb_close = 59999,
     sb_payload = toy_items symbol, sb_produced = 0\<rparr>)"
proof -
  have "payload_of toy_host (Raw (toy_payload symbol)) = Inr (toy_items symbol)"
    by (simp add: payload_of_def parsed_json_def keys_are_def PAYLOAD_FIELDS_def toy_payload_def)
  moreover have "bar_symbol (toy_items symbol) = Inr symbol"
    using assms by (simp add: bar_symbol_def toy_payload_def dict_get_def)
  moreover have "bar_times (toy_items symbol) = Inr (0, 59999)"
    by (simp add: bar_times_def toy_payload_def dict_get_def MINUTE_MS_def)
  moreover have "bar_geometry (toy_items symbol) = Inr ()"
    by (simp add: bar_geometry_def finite_number_def toy_payload_def dict_get_def float_max_def float_min_def)
  moreover have "envelope_differs toy_host (toy_row symbol) (toy_items symbol) 0 = Inr False"
    by (simp add: envelope_differs_def toy_payload_def dict_get_def toy_row_def column_def raw_eq_def utc_datetime_def
        toy_host_def aware_utc_def)
  moreover have "bar_identity toy_host (toy_row symbol) (toy_items symbol) = Inr (toy_sha symbol)"
    by (simp add: bar_identity_def contract_canonical_json_def BAR_IDENTITY_FIELDS_def toy_payload_def dict_get_def
        toy_host_def toy_row_def column_def normalized_zero_def Let_def)
  moreover have "utc_datetime toy_host (column (toy_row symbol) ''produced_at'') ''audit produced_at'' = Inr 0"
    by (simp add: toy_row_def column_def utc_datetime_def aware_utc_def)
  moreover have "list_all (\<lambda>k. map_of (toy_row symbol) k \<noteq> None) REQUIRED_COLUMNS"
    by (simp add: toy_row_def REQUIRED_COLUMNS_def)
  moreover have "column (toy_row symbol) ''topic'' = Raw (PStr SEED_TOPIC)" "column (toy_row symbol) ''source'' = Raw (PStr SOURCE)"
    "column (toy_row symbol) ''schema_version'' = Raw (PStr SCHEMA_VERSION)"
    "column (toy_row symbol) ''payload'' = Raw (toy_payload symbol)"
    by (simp_all add: toy_row_def column_def)
  ultimately show ?thesis by (simp add: check_bar_def reject_if_def)
qed

lemma toy_canonical:
  assumes "length symbol = 7"
  shows "\<exists>bs. canonical_json toy_host (toy_payload symbol) = Inr bs"
  using toy_json_payload [OF assms] by (auto simp: canonical_json_def toy_host_def)

lemma toy_sha_json: "toy_sha (utf8_text (json_members ts)) = toy_sha []"
proof -
  have "char_of (123 :: nat) = CHR ''{''" by code_simp
  then have "utf8_text (json_members ts) = CHR ''{'' # utf8_text (tl (json_members ts))"
    by (simp add: json_members_def utf8_text_def utf8_encode_point_def)
  then show ?thesis by (simp add: toy_sha_def)
qed

lemma toy_outbox:
  assumes "length symbol = 7"
  shows "check_outbox toy_host (toy_row symbol) (toy_items symbol) = Inr (toy_sha [])"
proof -
  obtain ts where "canonical_json toy_host (toy_payload symbol) = Inr (utf8_text (json_members ts))"
    using toy_json_payload [OF assms] by (auto simp: canonical_json_def toy_host_def toy_payload_def py_bind_Inr_iff)
  moreover have "py_eq (toy_payload symbol) (toy_payload symbol)"
    by (simp add: toy_payload_def)
  moreover have "payload_of toy_host (Raw (toy_payload symbol)) = Inr (toy_items symbol)"
    by (simp add: payload_of_def parsed_json_def keys_are_def PAYLOAD_FIELDS_def toy_payload_def)
  moreover have "PDict (toy_items symbol) = toy_payload symbol" by (simp add: toy_payload_def)
  ultimately show ?thesis
    by (simp add: check_outbox_def toy_row_def column_def toy_sha_json del: py_eq.simps)
qed

lemma toy_digest:
  assumes "length symbol = 7" "sb_payload bar = toy_items symbol"
  shows "\<exists>encoded. digest_row toy_host (toy_row symbol) (toy_sha symbol) bar (toy_sha []) = Inr encoded \<and> length encoded \<le> 40000"
proof -
  obtain t where t: "json_text (strict_float (\<lambda>_. ''1.0'')) (toy_payload symbol) = Inr t" "length t \<le> 10000"
    using toy_json_payload [OF assms(1)] by blast
  let ?ts = "[(''produced_at'', json_string ''t''), (''message_id'', json_string (toy_sha symbol)), (''topic'', json_string SEED_TOPIC),
    (''source'', json_string SOURCE), (''schema_version'', json_string SCHEMA_VERSION), (''correlation_id'', ''null''),
    (''causation_id'', ''null''), (''payload'', t), (''stored_payload_sha256'', json_string (toy_sha []))]"
  have "PDict (toy_items symbol) = toy_payload symbol" by (simp add: toy_payload_def)
  then have "digest_row toy_host (toy_row symbol) (toy_sha symbol) bar (toy_sha []) = Inr (utf8_text (json_members ?ts))"
    using t by (simp add: digest_row_def assms(2) json_column_def column_def toy_row_def canonical_json_def toy_host_def)
  moreover have "length (json_members ?ts) \<le> 20000"
    using length_json_members [of ?ts] t(2) length_json_string [of "''t''"] length_json_string [of "toy_sha symbol"]
      length_json_string [of SEED_TOPIC] length_json_string [of SOURCE] length_json_string [of SCHEMA_VERSION]
      length_json_string [of "toy_sha []"]
    by (simp add: SEED_TOPIC_def SOURCE_def SCHEMA_VERSION_def)
  ultimately show ?thesis using length_utf8_text [of "json_members ?ts"] by auto
qed

lemma toy_add:
  assumes "symbol \<in> set SYMBOLS" "toy_sha symbol \<notin> set (seen_ids acc)" "previous acc symbol = None"
    and "acc_rows acc \<le> 10" "acc_bytes acc \<le> 400000"
  shows "\<exists>payload encoded. length encoded \<le> 40000
    \<and> acc_step toy_host DEFAULT_SEED_LIMITS acc (False, toy_row symbol) = Inr (acc_admit acc (toy_sha symbol)
        \<lparr>sb_symbol = symbol, sb_open = 0, sb_close = 59999, sb_payload = payload, sb_produced = 0\<rparr> encoded)"
proof -
  let ?bar = "\<lparr>sb_symbol = symbol, sb_open = 0, sb_close = 59999, sb_payload = toy_items symbol, sb_produced = 0\<rparr>"
  have len: "length symbol = 7" using assms(1) by (auto simp: SYMBOLS_def)
  obtain encoded where e: "digest_row toy_host (toy_row symbol) (toy_sha symbol) ?bar (toy_sha []) = Inr encoded"
    "length encoded \<le> 40000"
    using toy_digest [OF len, of ?bar] by auto
  moreover obtain bs where "canonical_json toy_host (PDict (toy_items symbol)) = Inr bs"
    using toy_canonical [OF len] by (auto simp: toy_payload_def)
  ultimately have "acc_step toy_host DEFAULT_SEED_LIMITS acc (False, toy_row symbol) = Inr (acc_admit acc (toy_sha symbol) ?bar encoded)"
    using assms toy_bar [OF assms(1)] toy_outbox [OF len]
    by (simp add: acc_add_def DEFAULT_SEED_LIMITS_def MAX_ROWS_def SEED_MAX_TOTAL_BYTES_def SEED_MAX_ROW_BYTES_def)
  with e(2) show ?thesis by blast
qed

definition toy_state :: "string list \<Rightarrow> seed_acc \<Rightarrow> bool" where
  "toy_state admitted acc \<longleftrightarrow> seen_ids acc = rev (map toy_sha admitted) \<and> acc_rows acc = length admitted \<and> acc_bytes acc \<le> 40000 * length admitted
     \<and> (\<forall>symbol. if symbol \<in> set admitted
          then acc_counts acc symbol = 1 \<and> first_open acc symbol = Some 0 \<and> last_bar acc symbol = Some (0, 59999)
          else acc_counts acc symbol = 0 \<and> previous acc symbol = None \<and> first_open acc symbol = None)"

lemma toy_state_step:
  assumes "toy_state admitted acc" "symbol \<in> set SYMBOLS" "toy_sha symbol \<notin> toy_sha ` set admitted" "length admitted \<le> 5"
  shows "\<exists>acc'. acc_step toy_host DEFAULT_SEED_LIMITS acc (False, toy_row symbol) = Inr acc' \<and> toy_state (admitted @ [symbol]) acc'"
proof -
  have "symbol \<notin> set admitted" using assms(3) by blast
  then obtain payload encoded where "length encoded \<le> 40000"
    "acc_step toy_host DEFAULT_SEED_LIMITS acc (False, toy_row symbol) = Inr (acc_admit acc (toy_sha symbol)
        \<lparr>sb_symbol = symbol, sb_open = 0, sb_close = 59999, sb_payload = payload, sb_produced = 0\<rparr> encoded)"
    using toy_add [OF assms(2), of acc] assms(1,3,4) by (auto simp: toy_state_def)
  then show ?thesis using assms(1) \<open>symbol \<notin> set admitted\<close>
    by (auto simp: toy_state_def acc_admit_def Let_def)
qed

lemma toy_run:
  assumes "toy_state admitted acc" "set todo \<subseteq> set SYMBOLS" "distinct (map toy_sha (admitted @ todo))" "length (admitted @ todo) \<le> 5"
  shows "\<exists>acc'. py_run (acc_step toy_host DEFAULT_SEED_LIMITS) acc (map (\<lambda>symbol. (False, toy_row symbol)) todo) = Inr acc'
    \<and> toy_state (admitted @ todo) acc'"
  using assms
proof (induction todo arbitrary: admitted acc)
  case (Cons symbol todo)
  then obtain acc1 where a: "acc_step toy_host DEFAULT_SEED_LIMITS acc (False, toy_row symbol) = Inr acc1" "toy_state (admitted @ [symbol]) acc1"
    using toy_state_step [of "admitted" acc symbol] by auto
  then show ?case using Cons.IH [of "admitted @ [symbol]" acc1] Cons.prems by auto
qed simp

lemma toy_measured:
  "\<exists>expected. measure_history toy_host toy_rows toy_anchors DEFAULT_SEED_LIMITS False = Inr expected"
proof -
  have "toy_state [] acc_start" by (simp add: toy_state_def acc_start_def)
  moreover have "distinct (map toy_sha SYMBOLS)"
    by (simp add: SYMBOLS_def toy_sha_def replicate_eq_replicate)
  ultimately obtain acc where "py_run (acc_step toy_host DEFAULT_SEED_LIMITS) acc_start toy_rows = Inr acc" "toy_state SYMBOLS acc"
    using toy_run [of "[]" acc_start SYMBOLS] by (auto simp: toy_rows_def SYMBOLS_def)
  then show ?thesis
    by (simp add: measure_history_def acc_new_def toy_anchors_def DEFAULT_SEED_LIMITS_def MAX_ROWS_def
        SEED_MAX_TOTAL_BYTES_def MAX_SECONDS_def acc_finish_def actual_anchor_def toy_state_def SYMBOLS_def)
qed

section \<open>Witnesses\<close>

definition toy_source :: source_identity where
  "toy_source = \<lparr>src_database = ''kairos'', src_epoch = ''old'', read_only = True, pinned_snapshot = True\<rparr>"

definition toy_tid :: target_identity where
  "toy_tid = \<lparr>tgt_database = ''kairos_epoch_0123456789ab'', tgt_epoch = ''new'', schema_verified = True,
     fresh_non_trading_epoch = True, protected_source_or_shadow = False\<rparr>"

definition toy_target :: seed_target where "toy_target = \<lparr>event_audit = [], outbox_rows = 0\<rparr>"
definition toy_io :: seed_io where "toy_io = \<lparr>insert_result = (\<lambda>_. Inr ()), commit_result = Inr ()\<rparr>"

lemma toy_pair: "validate_epoch_pair toy_source toy_tid = Inr ()"
  by code_simp

lemma toy_fresh: "event_audit toy_target = []" "outbox_rows toy_target = 0" "\<forall>k. insert_result toy_io k = Inr ()" "commit_result toy_io = Inr ()"
  by (simp_all add: toy_target_def toy_io_def)

lemma toy_seeded:
  "\<exists>expected receipt target'. measure_history toy_host toy_rows toy_anchors DEFAULT_SEED_LIMITS False = Inr expected
    \<and> seed_history toy_host toy_rows toy_target toy_source toy_tid expected DEFAULT_SEED_LIMITS toy_io 2 False = (Inr receipt, target')"
proof -
  obtain expected where e: "measure_history toy_host toy_rows toy_anchors DEFAULT_SEED_LIMITS False = Inr expected"
    using toy_measured by blast
  then have "hex_lower_n 64 (ordered_digest_sha256 expected)"
    by (auto simp: measure_history_def acc_finish_def py_bind_Inr_iff Let_def split: if_splits)
  with e show ?thesis using seed_measured [OF e _ toy_pair toy_fresh, of 2] by auto
qed


theorem seed_batch_irrelevant_witness:
  "\<exists>expected receipt target'.
     seed_history toy_host toy_rows toy_target toy_source toy_tid expected DEFAULT_SEED_LIMITS toy_io 2 False = (Inr receipt, target')
   \<and> seed_history toy_host toy_rows toy_target toy_source toy_tid expected DEFAULT_SEED_LIMITS toy_io 1000 False = (Inr receipt, target')"
  using toy_seeded seed_batch_irrelevant [OF _ toy_fresh(3), where ?b' = 1000] by fastforce

theorem measure_then_seed_witness:
  "\<exists>expected receipt target'. measure_history toy_host toy_rows toy_anchors DEFAULT_SEED_LIMITS False = Inr expected
   \<and> seed_history toy_host toy_rows toy_target toy_source toy_tid expected DEFAULT_SEED_LIMITS toy_io 3 False = (Inr receipt, target')
   \<and> rc_digest receipt = ordered_digest_sha256 expected \<and> rc_rows receipt = length toy_rows"
proof -
  obtain expected where e: "measure_history toy_host toy_rows toy_anchors DEFAULT_SEED_LIMITS False = Inr expected"
    using toy_measured by blast
  then show ?thesis using measure_then_seed [OF e _ toy_pair toy_fresh, of 3] by auto
qed

end
