(* ===== verification/Alert_Delivery.thy ===== *)
theory Alert_Delivery
  imports Py_Json
begin

text \<open>
  \<^verbatim>\<open>src/scripts/alert_delivery.py\<close>: the notification policy and the files rendered from it, the
  guarded test send of one Telegram message with its journal, and the operator's acknowledgement
  of that message. A qualification is a process that moves from one interaction with its
  environment to the next, over the two receipt files and the requests sent so far; what the
  environment answers at a step is an input of the step. SHA-256, the JSON reader, the ISO
  timestamps and the digest of the module's own file are fields of \<open>delivery_host\<close>.
\<close>

section \<open>Constants and encodings\<close>

definition EXPECTED_BOT :: string where "EXPECTED_BOT = ''KairosCryptoAI_bot''"
definition EXPECTED_CHAT :: int where "EXPECTED_CHAT = - 5155583216"
definition EXPECTED_TEST_CHAT :: int where "EXPECTED_TEST_CHAT = - 100447580288"
definition ALERTMANAGER_IMAGE :: string where
  "ALERTMANAGER_IMAGE =
     ''prom/alertmanager:v0.34.1@sha256:e9733bafb1bdef9b00e25a21f8f99dc26a22224bf16641ad754d1649f4c3357a''"
definition MAX_RESPONSE :: int where "MAX_RESPONSE = 65536"
definition MAX_QUALIFICATION_JOURNAL_BYTES :: int where "MAX_QUALIFICATION_JOURNAL_BYTES = 128 * 1024"
definition MAX_QUALIFICATION_JOURNAL_LINES :: nat where "MAX_QUALIFICATION_JOURNAL_LINES = 8"
definition ACK_CONFIRMATION :: string where "ACK_CONFIRMATION = ''OWNER_SAW_QUALIFICATION_MESSAGE''"

text \<open>The message is Cyrillic text, given by its code points.\<close>

definition TEST_MESSAGE :: code_points where
  "TEST_MESSAGE = map code ''[KAIROS QUALIFICATION TEST] '' @
     [1055, 1088, 1086, 1074, 1077, 1088, 1082, 1072, 32, 1072, 1074, 1072, 1088, 1080, 1081, 1085, 1086, 1075, 1086,
      32, 1082, 1072, 1085, 1072, 1083, 1072, 46, 32, 1069, 1090, 1086, 32, 1090, 1077, 1089, 1090, 44, 32, 1085, 1077,
      32, 1090, 1086, 1088, 1075, 1086, 1074, 1099, 1081, 32, 1089, 1080, 1075, 1085, 1072, 1083, 32, 1080, 32, 1085,
      1077, 32, 1088, 1072, 1079, 1088, 1077, 1096, 1077, 1085, 1080, 1077, 32, 76, 73, 86, 69, 46]"

definition POLICY_FIELDS :: "string list" where
  "POLICY_FIELDS =
     [''schema_version'', ''enabled'', ''receiver'', ''profile'', ''source_sha256'', ''expected_bot_username'',
      ''expected_chat_id'', ''group_wait_seconds'', ''group_interval_seconds'', ''repeat_interval_seconds'']"

text \<open>
  What the JSON reader builds before its hooks: objects with their pairs in the order of the text,
  and the three constants that are not JSON.
\<close>

datatype jtree =
    JNull
  | JBool bool
  | JInt int
  | JFloat pyfloat
  | JConst string
  | JStr string
  | JArr "jtree list"
  | JObj "(string \<times> jtree) list"

record delivery_host =
  d_sha256 :: "bytes \<Rightarrow> string"
  d_json :: "bytes \<Rightarrow> jtree py"
  d_fromisoformat :: "string \<Rightarrow> (int \<times> int option) py"
  d_isoformat :: "int \<Rightarrow> string"
  d_repr_float :: "pyfloat \<Rightarrow> string"
  d_implementation :: string

definition canonical :: "delivery_host \<Rightarrow> pyval \<Rightarrow> bytes py" where
  "canonical h v = py_bind (json_text (lenient_float (d_repr_float h)) v) (\<lambda>t. Inr (utf8_text t))"

text \<open>\<^verbatim>\<open>json.loads(s)\<close>: the last binding of a repeated key counts.\<close>

definition const_float :: "string \<Rightarrow> pyfloat" where
  "const_float c = (if c = ''NaN'' then FNan else FInf (c = ''-Infinity''))"

fun plain_value :: "jtree \<Rightarrow> pyval"
  and plain_list :: "jtree list \<Rightarrow> pyval list"
  and plain_pairs :: "(string \<times> jtree) list \<Rightarrow> items" where
  "plain_value JNull = PNone"
| "plain_value (JBool b) = PBool b"
| "plain_value (JInt i) = PInt i"
| "plain_value (JFloat f) = PFloat f"
| "plain_value (JConst c) = PFloat (const_float c)"
| "plain_value (JStr s) = PStr s"
| "plain_value (JArr ts) = PList (plain_list ts)"
| "plain_value (JObj ps) = PDict (rev (plain_pairs ps))"
| "plain_list [] = []"
| "plain_list (t # ts) = plain_value t # plain_list ts"
| "plain_pairs [] = []"
| "plain_pairs ((k, t) # ps) = (k, plain_value t) # plain_pairs ps"

text \<open>
  \<^verbatim>\<open>unique_pairs\<close> as \<^verbatim>\<open>object_pairs_hook\<close>, with the \<^verbatim>\<open>parse_constant\<close> hook that raises.
\<close>

definition unique_pairs :: "items \<Rightarrow> items py" where
  "unique_pairs pairs = (if distinct (map fst pairs) then Inr pairs else Inl ValueError)"

fun unique_value :: "jtree \<Rightarrow> pyval py"
  and unique_list :: "jtree list \<Rightarrow> pyval list py"
  and unique_items :: "(string \<times> jtree) list \<Rightarrow> items py" where
  "unique_value JNull = Inr PNone"
| "unique_value (JBool b) = Inr (PBool b)"
| "unique_value (JInt i) = Inr (PInt i)"
| "unique_value (JFloat f) = Inr (PFloat f)"
| "unique_value (JConst c) = Inl ValueError"
| "unique_value (JStr s) = Inr (PStr s)"
| "unique_value (JArr ts) = py_bind (unique_list ts) (\<lambda>vs. Inr (PList vs))"
| "unique_value (JObj ps) = py_bind (unique_items ps) (\<lambda>m. py_bind (unique_pairs m) (\<lambda>m. Inr (PDict m)))"
| "unique_list [] = Inr []"
| "unique_list (t # ts) = py_bind (unique_value t) (\<lambda>v. py_bind (unique_list ts) (\<lambda>vs. Inr (v # vs)))"
| "unique_items [] = Inr []"
| "unique_items ((k, t) # ps) = py_bind (unique_value t) (\<lambda>v. py_bind (unique_items ps) (\<lambda>m. Inr ((k, v) # m)))"

section \<open>Policy and rendering\<close>

definition POLICY_LIMITS :: "(string \<times> string \<times> int \<times> int) list" where
  "POLICY_LIMITS =
     [(''group_wait_seconds'', ''INVALID_GROUP_WAIT_SECONDS'', 1, 300),
      (''group_interval_seconds'', ''INVALID_GROUP_INTERVAL_SECONDS'', 1, 3600),
      (''repeat_interval_seconds'', ''INVALID_REPEAT_INTERVAL_SECONDS'', 1, 86400)]"

fun int_between :: "int \<Rightarrow> pyval \<Rightarrow> int \<Rightarrow> bool" where
  "int_between low (PInt i) high = (low \<le> i \<and> i \<le> high)"
| "int_between low _ high = False"

fun int_less :: "pyval \<Rightarrow> pyval \<Rightarrow> bool" where
  "int_less (PInt i) (PInt j) = (i < j)"
| "int_less _ _ = False"

definition enabled_errors :: "pyval \<Rightarrow> string list" where
  "enabled_errors v = (case v of PBool b \<Rightarrow> if b then [] else [''DELIVERY_DISABLED''] | _ \<Rightarrow> [''INVALID_ENABLED''])"

definition source_unbound :: "delivery_host \<Rightarrow> bytes \<Rightarrow> pyval \<Rightarrow> bool" where
  "source_unbound h baseline v =
     (case v of PStr s \<Rightarrow> \<not> hex_lower_n 64 s \<or> s \<noteq> d_sha256 h baseline | _ \<Rightarrow> True)"

definition policy_errors :: "delivery_host \<Rightarrow> bytes py \<Rightarrow> pyval \<Rightarrow> string list py" where
  "policy_errors h baseline policy =
     (case policy of
        PDict m \<Rightarrow>
          if \<not> keys_are m POLICY_FIELDS then Inr [''INVALID_POLICY_FIELDS'']
          else gather
            ([err_if (Inr (\<not> py_eq (dict_get m ''schema_version'') (PInt 1) \<or> \<not> type_is_int (dict_get m ''schema_version'')))
                ''INVALID_POLICY_VERSION'',
              Inr (enabled_errors (dict_get m ''enabled'')),
              err_if (Inr (dict_get m ''receiver'' \<noteq> PStr ''telegram'' \<or> dict_get m ''expected_bot_username'' \<noteq> PStr EXPECTED_BOT
                  \<or> \<not> py_eq (dict_get m ''expected_chat_id'') (PInt EXPECTED_CHAT) \<or> \<not> type_is_int (dict_get m ''expected_chat_id'')))
                ''RECEIVER_IDENTITY_MISMATCH'',
              err_if (Inr (dict_get m ''profile'' \<notin> {PStr ''base'', PStr ''paper''})) ''INVALID_PROFILE'',
              py_bind baseline (\<lambda>bs. err_if (Inr (source_unbound h bs (dict_get m ''source_sha256''))) ''PROMETHEUS_SOURCE_UNBOUND'')]
             @ map (\<lambda>(key, msg, low, high). err_if (Inr (\<not> int_between low (dict_get m key) high)) msg) POLICY_LIMITS
             @ [err_if (Inr (list_all (\<lambda>(key, _). type_is_int (dict_get m key)) POLICY_LIMITS
                    \<and> int_less (dict_get m ''repeat_interval_seconds'') (dict_get m ''group_interval_seconds'')))
                  ''REPEAT_BEFORE_GROUP_INTERVAL''])
      | _ \<Rightarrow> Inr [''INVALID_POLICY_FIELDS''])"

definition accepted_policy :: "delivery_host \<Rightarrow> bytes py \<Rightarrow> pyval \<Rightarrow> items py" where
  "accepted_policy h baseline policy =
     py_bind (policy_errors h baseline policy) (\<lambda>errors.
       case errors of
         e # _ \<Rightarrow> Inl (DeliveryError e)
       | [] \<Rightarrow> (case policy of PDict m \<Rightarrow> Inr m | _ \<Rightarrow> Inl TypeError))"

text \<open>\<^verbatim>\<open>s.replace(old, new)\<close> and \<^verbatim>\<open>s.count(old)\<close> for a text \<open>old\<close> that is not empty.\<close>

fun replace_all :: "string \<Rightarrow> string \<Rightarrow> string \<Rightarrow> string" where
  "replace_all old new [] = []"
| "replace_all old new (c # cs) =
     (if old \<noteq> [] \<and> take (length old) (c # cs) = old then new @ replace_all old new (drop (length old - 1) cs)
      else c # replace_all old new cs)"

fun count_of :: "string \<Rightarrow> string \<Rightarrow> nat" where
  "count_of old [] = 0"
| "count_of old (c # cs) =
     (if old \<noteq> [] \<and> take (length old) (c # cs) = old then Suc (count_of old (drop (length old - 1) cs))
      else count_of old cs)"

fun replace_first :: "string \<Rightarrow> string \<Rightarrow> string \<Rightarrow> string" where
  "replace_first old new [] = []"
| "replace_first old new (c # cs) =
     (if take (length old) (c # cs) = old then new @ drop (length old) (c # cs) else c # replace_first old new cs)"

fun text_of :: "pyval \<Rightarrow> string" where
  "text_of (PStr s) = s"
| "text_of (PInt i) = show_int i"
| "text_of _ = []"

definition replacements :: "items \<Rightarrow> (string \<times> string) list" where
  "replacements m =
     [(''@@CHAT_ID@@'', show_int EXPECTED_CHAT), (''@@GROUP_WAIT@@'', text_of (dict_get m ''group_wait_seconds'')),
      (''@@GROUP_INTERVAL@@'', text_of (dict_get m ''group_interval_seconds'')),
      (''@@REPEAT_INTERVAL@@'', text_of (dict_get m ''repeat_interval_seconds''))]"

definition render_alertmanager :: "delivery_host \<Rightarrow> bytes py \<Rightarrow> string py \<Rightarrow> pyval \<Rightarrow> string py" where
  "render_alertmanager h baseline template policy =
     py_bind (accepted_policy h baseline policy) (\<lambda>m.
     py_bind template (\<lambda>t.
       let rendered = fold (\<lambda>(name, v) s. replace_all name v s) (replacements m) t in
       if contains ''@@'' rendered then Inl (DeliveryError ''INVALID_NATIVE_TEMPLATE'') else Inr rendered))"

definition newline :: string where "newline = [CHR 0x0A]"

definition GLOBAL_STANZA :: string where "GLOBAL_STANZA = ''global:'' @ newline"

definition external_labels :: "items \<Rightarrow> string" where
  "external_labels m =
     ''global:'' @ newline @ ''  external_labels:'' @ newline @ ''    kairos_project: kairos'' @ newline
     @ ''    kairos_environment: '' @ text_of (dict_get m ''profile'') @ newline
     @ ''    kairos_source_sha256: '' @ text_of (dict_get m ''source_sha256'') @ newline"

definition NOTIFIER_STANZA :: string where
  "NOTIFIER_STANZA =
     newline @ ''alerting:'' @ newline @ ''  alertmanagers:'' @ newline @ ''    - api_version: v2'' @ newline
     @ ''      static_configs:'' @ newline @ ''        - targets: [kairos-ops-alertmanager:9093]'' @ newline"

definition render_prometheus :: "delivery_host \<Rightarrow> bytes py \<Rightarrow> string py \<Rightarrow> pyval \<Rightarrow> string py" where
  "render_prometheus h baseline source policy =
     py_bind (accepted_policy h baseline policy) (\<lambda>m.
     py_bind source (\<lambda>s.
       if count_of GLOBAL_STANZA s \<noteq> 1 \<or> contains ''alerting:'' s \<or> contains ''external_labels:'' s
       then Inl (DeliveryError ''PROMETHEUS_BASELINE_DRIFT'')
       else Inr (replace_first GLOBAL_STANZA (external_labels m) s @ NOTIFIER_STANZA)))"

section \<open>Checks of paths and access\<close>

text \<open>
  One component of a path, as \<^verbatim>\<open>lstat\<close> sees it: whether it is there, whether it is a link, and
  its file attributes.
\<close>

record path_info =
  present :: bool
  is_link :: bool
  file_attributes :: nat

definition no_reparse :: "path_info list \<Rightarrow> unit py" where
  "no_reparse items =
     (if list_ex (\<lambda>i. present i \<and> (is_link i \<or> odd (file_attributes i div 1024))) items
      then Inl (DeliveryError ''REPARSE_PATH_REJECTED'') else Inr ())"

text \<open>The file mode, or the outcome of the command that reads the access list.\<close>

datatype acl_probe = Posix_mode "nat py" | Access_command "(int \<times> string) py"

definition private_acl :: "acl_probe \<Rightarrow> unit py" where
  "private_acl probe =
     (case probe of
        Posix_mode m \<Rightarrow> py_bind m (\<lambda>mode. if mode mod 64 \<noteq> 0 then Inl (DeliveryError ''PROTECTED_ACL_REQUIRED'') else Inr ())
      | Access_command c \<Rightarrow>
          (case c of
             Inl e \<Rightarrow> if e = OSError \<or> e = SubprocessError then Inl (DeliveryError ''ACL_VERIFICATION_FAILED'') else Inl e
           | Inr (returncode, stdout) \<Rightarrow>
               if returncode \<noteq> 0 \<or> strip stdout \<noteq> ''SAFE'' then Inl (DeliveryError ''PROTECTED_ACL_REQUIRED'') else Inr ()))"

record preflight =
  ops_path :: "path_info list"
  token_path :: "path_info list"
  token_is_dedicated :: "bool py"
  token_is_file :: bool
  ops_acl :: acl_probe
  token_acl :: acl_probe
  receipts_path :: "path_info list"
  mkdir :: "unit py"
  receipts_acl :: acl_probe

definition check_preflight :: "preflight \<Rightarrow> unit py" where
  "check_preflight f =
     py_bind (no_reparse (ops_path f)) (\<lambda>_.
     py_bind (no_reparse (token_path f)) (\<lambda>_.
     py_bind (token_is_dedicated f) (\<lambda>dedicated.
     if \<not> dedicated \<or> \<not> token_is_file f then Inl (DeliveryError ''DEDICATED_TOKEN_FILE_REQUIRED'')
     else
       py_bind (private_acl (ops_acl f)) (\<lambda>_.
       py_bind (private_acl (token_acl f)) (\<lambda>_.
       py_bind (no_reparse (receipts_path f)) (\<lambda>_.
       py_bind (mkdir f) (\<lambda>_.
         private_acl (receipts_acl f))))))))"

section \<open>Requests\<close>

datatype telegram_request = GetMe | GetChat int | SendMessage int code_points bool bool

datatype http_answer = Http_raises exn | Http_response int bytes

definition transport_caught :: "exn \<Rightarrow> bool" where
  "transport_caught e \<longleftrightarrow>
     e \<in> {OSError, FileExistsError, ValueError, JSONDecodeError, UnicodeDecodeError, UnicodeEncodeError}"

definition http_body :: "delivery_host \<Rightarrow> http_answer \<Rightarrow> pyval py" where
  "http_body h answer =
     (case answer of
        Http_raises e \<Rightarrow> Inl e
      | Http_response status body \<Rightarrow>
          if status \<noteq> 200 then Inl (DeliveryError ''HTTP_REJECTED'')
          else if int (length body) > MAX_RESPONSE then Inl (DeliveryError ''RESPONSE_TOO_LARGE'')
          else py_bind (d_json h body) (\<lambda>t. Inr (plain_value t)))"

definition transport_call :: "delivery_host \<Rightarrow> http_answer \<Rightarrow> items py" where
  "transport_call h answer =
     (case http_body h answer of
        Inl e \<Rightarrow> Inl (if transport_caught e then DeliveryError ''TRANSPORT_FAILED'' else e)
      | Inr parsed \<Rightarrow>
          (case parsed of
             PDict m \<Rightarrow>
               (case (dict_get m ''ok'', dict_get m ''result'') of
                  (PBool True, PDict result) \<Rightarrow> Inr result
                | _ \<Rightarrow> Inl (DeliveryError ''API_REJECTED''))
           | _ \<Rightarrow> Inl (DeliveryError ''API_REJECTED'')))"

section \<open>The qualification process\<close>

text \<open>The two receipt files, and the requests handed to the transport so far.\<close>

record delivery_world =
  journal_file :: "bytes option"
  ack_file :: "bytes option"
  posts :: "telegram_request list"

record qual_result =
  q_stage :: string
  q_attempts :: int
  q_get_me :: int
  q_get_chat :: int
  q_send_message :: int
  q_accepted :: bool
  q_error :: "string option option"
  q_message :: "int option"

definition result_start :: qual_result where
  "result_start = \<lparr>q_stage = ''PRECHECK_STARTED'', q_attempts = 0, q_get_me = 0, q_get_chat = 0, q_send_message = 0,
     q_accepted = False, q_error = None, q_message = None\<rparr>"

definition test_message_sha256 :: "delivery_host \<Rightarrow> string" where
  "test_message_sha256 h = d_sha256 h (the (utf8_encode TEST_MESSAGE))"

definition result_items :: "delivery_host \<Rightarrow> qual_result \<Rightarrow> items" where
  "result_items h r =
     [(''schema_version'', PInt 1), (''implementation_sha256'', PStr (d_implementation h)),
      (''test_message_sha256'', PStr (test_message_sha256 h)), (''expected_bot_username'', PStr EXPECTED_BOT),
      (''expected_chat_id'', PInt EXPECTED_TEST_CHAT), (''recipient_purpose'', PStr ''qualification_test_only''),
      (''stage'', PStr (q_stage r)), (''send_attempts'', PInt (q_attempts r)),
      (''http_method_counts'', PDict [(''getMe'', PInt (q_get_me r)), (''getChat'', PInt (q_get_chat r)),
         (''sendMessage'', PInt (q_send_message r))]),
      (''transport_accepted'', PBool (q_accepted r)), (''human_acknowledged'', PBool False), (''trading_authority'', PBool False)]
     @ (case q_error r of None \<Rightarrow> [] | Some e \<Rightarrow> [(''error_category'', case e of None \<Rightarrow> PNone | Some s \<Rightarrow> PStr s)])
     @ (case q_message r of None \<Rightarrow> [] | Some i \<Rightarrow> [(''message_id'', PInt i)])"

text \<open>
  How a write ends: all of it is on disk, or it fails after some of its bytes reached the file.
\<close>

datatype write_answer = Written | Write_fails nat exn

definition appended :: "bytes \<Rightarrow> bytes \<Rightarrow> write_answer \<Rightarrow> bytes \<times> unit py" where
  "appended content bs answer =
     (case answer of Written \<Rightarrow> (content @ bs, Inr ()) | Write_fails n e \<Rightarrow> (content @ take n bs, Inl e))"

definition json_line :: "delivery_host \<Rightarrow> items \<Rightarrow> bytes py" where
  "json_line h m = py_bind (canonical h (PDict m)) (\<lambda>bs. Inr (bs @ newline))"

text \<open>What the environment answers at one step.\<close>

record qual_env =
  env_preflight :: preflight
  env_open :: "unit py"
  env_write :: write_answer
  env_acl :: acl_probe
  env_token_size :: "int py"
  env_token :: "string py"
  env_http :: http_answer
  env_now :: int

datatype qual_point =
    Start
  | Create
  | Fill
  | Guard
  | Token
  | Get_me
  | Get_chat
  | Identity
  | Reserve
  | Send
  | Accept
  | Refused string
  | Broken
  | Returned
  | Raised exn

record qual_proc =
  point :: qual_point
  authorize_one_test :: bool
  res :: qual_result
  sending :: bool

definition qual_start :: "bool \<Rightarrow> qual_proc" where
  "qual_start authorize = \<lparr>point = Start, authorize_one_test = authorize, res = result_start, sending = False\<rparr>"

text \<open>\<^verbatim>\<open>record(stage, error)\<close>: the result is updated, then the entry is appended to the journal.\<close>

definition record_entry ::
  "delivery_host \<Rightarrow> qual_env \<Rightarrow> string \<Rightarrow> string option \<Rightarrow> delivery_world \<Rightarrow> qual_proc \<Rightarrow> delivery_world \<times> qual_proc \<times> unit py" where
  "record_entry h env stage error w p =
     (let p' = p\<lparr>res := (res p)\<lparr>q_stage := stage, q_error := Some error\<rparr>\<rparr> in
      case json_line h (result_items h (res p') @ [(''observed_at_utc'', PStr (d_isoformat h (env_now env)))]) of
        Inl e \<Rightarrow> (w, p', Inl e)
      | Inr line \<Rightarrow>
          (case appended (case journal_file w of None \<Rightarrow> [] | Some c \<Rightarrow> c) line (env_write env) of
             (content, outcome) \<Rightarrow> (w\<lparr>journal_file := Some content\<rparr>, p', outcome)))"

text \<open>An exception inside the guarded part leads to one of the two handlers.\<close>

definition failed :: "qual_proc \<Rightarrow> exn \<Rightarrow> qual_proc" where
  "failed p e = p\<lparr>point := (case e of DeliveryError category \<Rightarrow> Refused category | _ \<Rightarrow> Broken)\<rparr>"

definition advance_to :: "qual_point \<Rightarrow> delivery_world \<times> qual_proc \<times> unit py \<Rightarrow> delivery_world \<times> qual_proc" where
  "advance_to next_point = (\<lambda>(w, p, outcome).
     case outcome of Inl e \<Rightarrow> (w, failed p e) | Inr _ \<Rightarrow> (w, p\<lparr>point := next_point\<rparr>))"

text \<open>\<^verbatim>\<open>[0-9]{5,20}:[A-Za-z0-9_-]{30,100}\<close>\<close>

definition token_char :: "char \<Rightarrow> bool" where
  "token_char c \<longleftrightarrow> is_upper c \<or> is_lower c \<or> is_digit c \<or> c = CHR ''_'' \<or> c = CHR ''-''"

definition valid_token :: "string \<Rightarrow> bool" where
  "valid_token s =
     (case partition_at (CHR '':'') s of (a, found, b) \<Rightarrow>
        found \<and> 5 \<le> length a \<and> length a \<le> 20 \<and> list_all is_digit a
        \<and> 30 \<le> length b \<and> length b \<le> 100 \<and> list_all token_char b)"

definition check_token :: "int py \<Rightarrow> string py \<Rightarrow> unit py" where
  "check_token file_size content =
     py_bind file_size (\<lambda>n.
     if n > 256 then Inl (DeliveryError ''INVALID_TOKEN_FILE'')
     else py_bind content (\<lambda>s. if valid_token (strip s) then Inr () else Inl (DeliveryError ''INVALID_TOKEN_FILE'')))"

definition check_identity :: "items \<Rightarrow> unit py" where
  "check_identity identity =
     (if dict_get identity ''is_bot'' \<noteq> PBool True \<or> dict_get identity ''username'' \<noteq> PStr EXPECTED_BOT
      then Inl (DeliveryError ''BOT_IDENTITY_MISMATCH'') else Inr ())"

text \<open>Membership in a set hashes its left side first.\<close>

definition check_chat :: "items \<Rightarrow> unit py" where
  "check_chat chat =
     (if dict_get chat ''id'' \<noteq> PInt EXPECTED_TEST_CHAT then Inl (DeliveryError ''CHAT_IDENTITY_MISMATCH'')
      else if \<not> hashable (dict_get chat ''type'') then Inl TypeError
      else if dict_get chat ''type'' \<notin> {PStr ''group'', PStr ''supergroup''} then Inl (DeliveryError ''CHAT_IDENTITY_MISMATCH'')
      else Inr ())"

definition check_sent :: "items \<Rightarrow> int py" where
  "check_sent sent =
     (case (dict_get sent ''chat'', dict_get sent ''message_id'') of
        (PDict chat, PInt i) \<Rightarrow>
          if dict_get chat ''id'' \<noteq> PInt EXPECTED_TEST_CHAT \<or> i \<le> 0
          then Inl (DeliveryError ''SEND_RESPONSE_IDENTITY_MISMATCH'') else Inr i
      | _ \<Rightarrow> Inl (DeliveryError ''SEND_RESPONSE_IDENTITY_MISMATCH''))"

definition exclusive_open :: "bytes option \<Rightarrow> unit py \<Rightarrow> unit py" where
  "exclusive_open file answer = (case file of Some _ \<Rightarrow> Inl FileExistsError | None \<Rightarrow> answer)"

definition step_start :: "qual_env \<Rightarrow> qual_proc \<Rightarrow> qual_proc" where
  "step_start env p =
     (if \<not> authorize_one_test p then p\<lparr>point := Raised (DeliveryError ''EXPLICIT_TEST_AUTHORIZATION_REQUIRED'')\<rparr>
      else case check_preflight (env_preflight env) of
             Inl e \<Rightarrow> p\<lparr>point := Raised e\<rparr> | Inr _ \<Rightarrow> p\<lparr>point := Create\<rparr>)"

definition step_create :: "delivery_host \<Rightarrow> qual_env \<Rightarrow> delivery_world \<Rightarrow> qual_proc \<Rightarrow> delivery_world \<times> qual_proc" where
  "step_create h env w p =
     (case json_line h (result_items h (res p)) of
        Inl e \<Rightarrow> (w, p\<lparr>point := Raised e\<rparr>)
      | Inr _ \<Rightarrow>
          (case exclusive_open (journal_file w) (env_open env) of
             Inl e \<Rightarrow> (w, p\<lparr>point := Raised (if e = FileExistsError
               then DeliveryError ''EXISTING_QUALIFICATION_REQUIRES_REVIEW'' else e)\<rparr>)
           | Inr _ \<Rightarrow> (w\<lparr>journal_file := Some []\<rparr>, p\<lparr>point := Fill\<rparr>)))"

definition step_fill :: "delivery_host \<Rightarrow> qual_env \<Rightarrow> delivery_world \<Rightarrow> qual_proc \<Rightarrow> delivery_world \<times> qual_proc" where
  "step_fill h env w p =
     (case json_line h (result_items h (res p)) of
        Inl e \<Rightarrow> (w, p\<lparr>point := Raised e\<rparr>)
      | Inr line \<Rightarrow>
          (case appended (case journal_file w of None \<Rightarrow> [] | Some c \<Rightarrow> c) line (env_write env) of
             (content, outcome) \<Rightarrow>
               (w\<lparr>journal_file := Some content\<rparr>,
                p\<lparr>point := (case outcome of Inl e \<Rightarrow> Raised (if e = FileExistsError
                  then DeliveryError ''EXISTING_QUALIFICATION_REQUIRES_REVIEW'' else e) | Inr _ \<Rightarrow> Guard)\<rparr>)))"

definition requested :: "telegram_request \<Rightarrow> delivery_world \<Rightarrow> delivery_world" where
  "requested r w = w\<lparr>posts := posts w @ [r]\<rparr>"

definition step_get_me :: "delivery_host \<Rightarrow> qual_env \<Rightarrow> delivery_world \<Rightarrow> qual_proc \<Rightarrow> delivery_world \<times> qual_proc" where
  "step_get_me h env w p =
     (let p = p\<lparr>res := (res p)\<lparr>q_get_me := 1\<rparr>\<rparr> in
      advance_to Get_chat (requested GetMe w, p, py_bind (transport_call h (env_http env)) check_identity))"

definition step_get_chat :: "delivery_host \<Rightarrow> qual_env \<Rightarrow> delivery_world \<Rightarrow> qual_proc \<Rightarrow> delivery_world \<times> qual_proc" where
  "step_get_chat h env w p =
     (let p = p\<lparr>res := (res p)\<lparr>q_get_chat := 1\<rparr>\<rparr> in
      advance_to Identity (requested (GetChat EXPECTED_TEST_CHAT) w, p, py_bind (transport_call h (env_http env)) check_chat))"

definition step_reserve :: "delivery_host \<Rightarrow> qual_env \<Rightarrow> delivery_world \<Rightarrow> qual_proc \<Rightarrow> delivery_world \<times> qual_proc" where
  "step_reserve h env w p =
     advance_to Send (record_entry h env ''SEND_RESERVED'' None w (p\<lparr>res := (res p)\<lparr>q_attempts := 1\<rparr>\<rparr>))"

definition step_send :: "delivery_host \<Rightarrow> qual_env \<Rightarrow> delivery_world \<Rightarrow> qual_proc \<Rightarrow> delivery_world \<times> qual_proc" where
  "step_send h env w p =
     (let p = p\<lparr>sending := True, res := (res p)\<lparr>q_send_message := 1\<rparr>\<rparr>;
          w = requested (SendMessage EXPECTED_TEST_CHAT TEST_MESSAGE False True) w in
      case py_bind (transport_call h (env_http env)) check_sent of
        Inl e \<Rightarrow> (w, failed p e)
      | Inr i \<Rightarrow> (w, p\<lparr>point := Accept, res := (res p)\<lparr>q_accepted := True, q_message := Some i\<rparr>\<rparr>))"

text \<open>The handler of a refusal records it; an exception of that record is not handled again.\<close>

definition failed_stage :: "qual_proc \<Rightarrow> string" where
  "failed_stage p = (if sending p then ''SEND_OUTCOME_UNKNOWN'' else ''PRECHECK_FAILED'')"

definition step_refused ::
  "delivery_host \<Rightarrow> qual_env \<Rightarrow> string \<Rightarrow> delivery_world \<Rightarrow> qual_proc \<Rightarrow> delivery_world \<times> qual_proc" where
  "step_refused h env category w p =
     (case record_entry h env (failed_stage p) (Some category) w p of
        (w', p', outcome) \<Rightarrow> (w', p'\<lparr>point := (case outcome of Inl e \<Rightarrow> Raised e | Inr _ \<Rightarrow> Returned)\<rparr>))"

definition step_broken :: "delivery_host \<Rightarrow> qual_env \<Rightarrow> delivery_world \<Rightarrow> qual_proc \<Rightarrow> delivery_world \<times> qual_proc" where
  "step_broken h env w p =
     (case record_entry h env (failed_stage p) (Some ''LOCAL_FAILURE'') w (p\<lparr>res := (res p)\<lparr>q_accepted := False\<rparr>\<rparr>) of
        (w', p', outcome) \<Rightarrow>
          (w', p'\<lparr>point := (case outcome of
             Inl e \<Rightarrow> if e = OSError \<or> e = FileExistsError then Returned else Raised e | Inr _ \<Rightarrow> Returned)\<rparr>))"

definition qual_step :: "delivery_host \<Rightarrow> qual_env \<Rightarrow> delivery_world \<Rightarrow> qual_proc \<Rightarrow> delivery_world \<times> qual_proc" where
  "qual_step h env w p =
     (case point p of
        Start \<Rightarrow> (w, step_start env p)
      | Create \<Rightarrow> step_create h env w p
      | Fill \<Rightarrow> step_fill h env w p
      | Guard \<Rightarrow> (w, p\<lparr>point := (case private_acl (env_acl env) of Inl e \<Rightarrow> Raised e | Inr _ \<Rightarrow> Token)\<rparr>)
      | Token \<Rightarrow> advance_to Get_me (w, p, check_token (env_token_size env) (env_token env))
      | Get_me \<Rightarrow> step_get_me h env w p
      | Get_chat \<Rightarrow> step_get_chat h env w p
      | Identity \<Rightarrow> advance_to Reserve (record_entry h env ''IDENTITY_VERIFIED'' None w p)
      | Reserve \<Rightarrow> step_reserve h env w p
      | Send \<Rightarrow> step_send h env w p
      | Accept \<Rightarrow> advance_to Returned (record_entry h env ''TRANSPORT_ACCEPTED'' None w p)
      | Refused category \<Rightarrow> step_refused h env category w p
      | Broken \<Rightarrow> step_broken h env w p
      | Returned \<Rightarrow> (w, p)
      | Raised e \<Rightarrow> (w, p))"

text \<open>Every step gets closer to the end.\<close>

fun remaining :: "qual_point \<Rightarrow> nat" where
  "remaining Start = 12"
| "remaining Create = 11"
| "remaining Fill = 10"
| "remaining Guard = 9"
| "remaining Token = 8"
| "remaining Get_me = 7"
| "remaining Get_chat = 6"
| "remaining Identity = 5"
| "remaining Reserve = 4"
| "remaining Send = 3"
| "remaining Accept = 2"
| "remaining (Refused _) = 1"
| "remaining Broken = 1"
| "remaining Returned = 0"
| "remaining (Raised _) = 0"

lemmas step_defs = step_start_def step_create_def step_fill_def step_get_me_def step_get_chat_def step_reserve_def
  step_send_def step_refused_def step_broken_def advance_to_def record_entry_def failed_def appended_def

lemma remaining_less: "remaining (point p) \<noteq> 0 \<Longrightarrow> remaining (point (snd (qual_step h env w p))) < remaining (point p)"
  by (cases "point p") (auto simp: qual_step_def step_defs Let_def split: sum.splits write_answer.splits exn.splits)

text \<open>A run takes the answers of its environment one after the other.\<close>

function qual_run ::
  "delivery_host \<Rightarrow> (nat \<Rightarrow> qual_env) \<Rightarrow> nat \<Rightarrow> delivery_world \<Rightarrow> qual_proc \<Rightarrow> delivery_world \<times> qual_proc" where
  "qual_run h env k w p =
     (if remaining (point p) = 0 then (w, p)
      else case qual_step h (env k) w p of (w', p') \<Rightarrow> qual_run h env (Suc k) w' p')"
  by pat_completeness auto
termination
proof (relation "measure (\<lambda>(h, env, k, w, p). remaining (point p))")
  fix h env and k :: nat and w p w' p'
  assume "remaining (point p) \<noteq> 0" and s: "(w', p') = qual_step h (env k) w p"
  then have "remaining (point (snd (w', p'))) < remaining (point p)"
    unfolding s by (intro remaining_less)
  then show "((h, env, Suc k, w', p'), h, env, k, w, p) \<in> measure (\<lambda>(h, env, k, w, p). remaining (point p))" by simp
qed simp

declare qual_run.simps [simp del]

definition qualify ::
  "delivery_host \<Rightarrow> (nat \<Rightarrow> qual_env) \<Rightarrow> bool \<Rightarrow> delivery_world \<Rightarrow> items py \<times> delivery_world" where
  "qualify h env authorize w =
     (case qual_run h env 0 w (qual_start authorize) of
        (w', p) \<Rightarrow> ((case point p of Raised e \<Rightarrow> Inl e | _ \<Rightarrow> Inr (result_items h (res p))), w'))"

section \<open>The journal of an accepted send\<close>

definition caught_value_error :: "exn \<Rightarrow> bool" where
  "caught_value_error e \<longleftrightarrow> e \<in> {ValueError, JSONDecodeError, UnicodeDecodeError, UnicodeEncodeError}"

definition strict_loads :: "delivery_host \<Rightarrow> string \<Rightarrow> bytes \<Rightarrow> pyval py" where
  "strict_loads h category bs =
     (case py_bind (d_json h bs) unique_value of
        Inl e \<Rightarrow> Inl (if caught_value_error e then DeliveryError category else e)
      | Inr v \<Rightarrow> Inr v)"

definition journal_object :: "delivery_host \<Rightarrow> bytes \<Rightarrow> items py" where
  "journal_object h line =
     py_bind (strict_loads h ''QUALIFICATION_JOURNAL_INVALID'' line) (\<lambda>v.
       case v of PDict m \<Rightarrow> Inr m | _ \<Rightarrow> Inl (DeliveryError ''QUALIFICATION_JOURNAL_INVALID''))"

definition STAGES :: "string list" where
  "STAGES = [''PRECHECK_STARTED'', ''IDENTITY_VERIFIED'', ''SEND_RESERVED'', ''TRANSPORT_ACCEPTED'']"

definition common_fields :: "delivery_host \<Rightarrow> items" where
  "common_fields h =
     [(''schema_version'', PInt 1), (''test_message_sha256'', PStr (test_message_sha256 h)),
      (''expected_bot_username'', PStr EXPECTED_BOT), (''expected_chat_id'', PInt EXPECTED_TEST_CHAT),
      (''recipient_purpose'', PStr ''qualification_test_only'')]"

definition base_keys :: "string list" where
  "base_keys =
     [''schema_version'', ''test_message_sha256'', ''expected_bot_username'', ''expected_chat_id'', ''recipient_purpose'',
      ''implementation_sha256'', ''human_acknowledged'', ''trading_authority'', ''stage'', ''send_attempts'',
      ''http_method_counts'', ''transport_accepted'']"

definition entry_keys :: "nat \<Rightarrow> string list" where
  "entry_keys index =
     base_keys @ (if index = 0 then [] else [''error_category'', ''observed_at_utc''])
       @ (if index = 3 then [''message_id''] else [])"

definition expected_counts :: "nat \<Rightarrow> items" where
  "expected_counts index =
     [(''getMe'', PInt (if index = 0 then 0 else 1)), (''getChat'', PInt (if index = 0 then 0 else 1)),
      (''sendMessage'', PInt (if index = 3 then 1 else 0))]"

definition field_differs :: "string list \<Rightarrow> items \<Rightarrow> string \<times> pyval \<Rightarrow> bool" where
  "field_differs integers entry = (\<lambda>(key, v).
     \<not> py_eq (dict_get entry key) v \<or> (key \<in> set integers \<and> \<not> type_is_int (dict_get entry key)))"

definition hex_text :: "pyval \<Rightarrow> bool" where
  "hex_text v = (case v of PStr s \<Rightarrow> hex_lower_n 64 s | _ \<Rightarrow> False)"

definition counts_differ :: "nat \<Rightarrow> pyval \<Rightarrow> bool" where
  "counts_differ index v \<longleftrightarrow>
     \<not> py_eq v (PDict (expected_counts index))
     \<or> (case v of PDict m \<Rightarrow> list_ex (\<lambda>(_, n). \<not> type_is_int n) m | _ \<Rightarrow> False)"

definition parse_utc_timestamp :: "delivery_host \<Rightarrow> pyval \<Rightarrow> string \<Rightarrow> int py" where
  "parse_utc_timestamp h v error =
     (case v of
        PStr s \<Rightarrow>
          (case d_fromisoformat h s of
             Inl e \<Rightarrow> Inl (if e = ValueError then DeliveryError error else e)
           | Inr (t, offset) \<Rightarrow> if offset = Some 0 then Inr t else Inl (DeliveryError error))
      | _ \<Rightarrow> Inl (DeliveryError error))"

definition entry_flags :: "delivery_host \<Rightarrow> int \<Rightarrow> nat \<Rightarrow> items \<Rightarrow> unit py" where
  "entry_flags h message_id index entry =
     (if \<not> keys_are entry (entry_keys index) then Inl (DeliveryError ''QUALIFICATION_JOURNAL_SEQUENCE_REJECTED'')
      else if \<not> hex_text (dict_get entry ''implementation_sha256'')
        \<or> list_ex (field_differs [''schema_version'', ''expected_chat_id''] entry) (common_fields h)
      then Inl (DeliveryError ''QUALIFICATION_JOURNAL_IDENTITY_REJECTED'')
      else if dict_get entry ''human_acknowledged'' \<noteq> PBool False \<or> dict_get entry ''trading_authority'' \<noteq> PBool False
      then Inl (DeliveryError ''QUALIFICATION_JOURNAL_FLAGS_REJECTED'')
      else if dict_get entry ''stage'' \<noteq> PStr (STAGES ! index) \<or> dict_get entry ''send_attempts'' \<noteq> PInt (if 2 \<le> index then 1 else 0)
      then Inl (DeliveryError ''QUALIFICATION_JOURNAL_SEQUENCE_REJECTED'')
      else if counts_differ index (dict_get entry ''http_method_counts'')
      then Inl (DeliveryError ''QUALIFICATION_JOURNAL_COUNTERS_REJECTED'')
      else if dict_get entry ''transport_accepted'' \<noteq> PBool (index = 3)
      then Inl (DeliveryError ''QUALIFICATION_JOURNAL_FLAGS_REJECTED'')
      else if index = 3 \<and> dict_get entry ''message_id'' \<noteq> PInt message_id then Inl (DeliveryError ''MESSAGE_ID_MISMATCH'')
      else if index \<noteq> 3 \<and> map_of entry ''message_id'' \<noteq> None then Inl (DeliveryError ''QUALIFICATION_JOURNAL_SEQUENCE_REJECTED'')
      else if index = 0 \<and> map_of entry ''error_category'' \<noteq> None then Inl (DeliveryError ''QUALIFICATION_JOURNAL_SEQUENCE_REJECTED'')
      else if index \<noteq> 0 \<and> dict_get entry ''error_category'' \<noteq> PNone then Inl (DeliveryError ''QUALIFICATION_JOURNAL_NOT_SUCCESSFUL'')
      else Inr ())"

definition check_entry :: "delivery_host \<Rightarrow> int \<Rightarrow> int option \<Rightarrow> nat \<times> items \<Rightarrow> int option py" where
  "check_entry h message_id previous = (\<lambda>(index, entry).
     py_bind (entry_flags h message_id index entry) (\<lambda>_.
     if index = 0 then Inr previous
     else
       py_bind (parse_utc_timestamp h (dict_get entry ''observed_at_utc'') ''QUALIFICATION_JOURNAL_SEQUENCE_REJECTED'') (\<lambda>t.
       if (case previous of None \<Rightarrow> False | Some earlier \<Rightarrow> t < earlier)
       then Inl (DeliveryError ''QUALIFICATION_JOURNAL_TIME_ORDER_REJECTED'') else Inr (Some t))))"

definition FINGERPRINT_FIELDS :: "string list" where
  "FINGERPRINT_FIELDS =
     [''implementation_sha256'', ''test_message_sha256'', ''expected_bot_username'', ''expected_chat_id'', ''recipient_purpose'']"

definition drifted :: "items list \<Rightarrow> bool" where
  "drifted entries =
     (case entries of
        [] \<Rightarrow> False
      | first_entry # later \<Rightarrow>
          list_ex (\<lambda>entry. list_ex (\<lambda>key. \<not> py_eq (dict_get entry key) (dict_get first_entry key)) FINGERPRINT_FIELDS) later)"

definition validated_terminal_journal :: "delivery_host \<Rightarrow> bytes \<Rightarrow> int \<Rightarrow> items list py" where
  "validated_terminal_journal h raw message_id =
     (if message_id \<le> 0 then Inl (DeliveryError ''MESSAGE_ID_REQUIRED'')
      else if \<not> endswith raw newline then Inl (DeliveryError ''QUALIFICATION_JOURNAL_SEQUENCE_REJECTED'')
      else let lines = byte_lines_from [] raw in
        if length lines \<noteq> 4 \<or> length lines > MAX_QUALIFICATION_JOURNAL_LINES
        then Inl (DeliveryError ''QUALIFICATION_JOURNAL_SEQUENCE_REJECTED'')
        else
          py_bind (py_map (journal_object h) lines) (\<lambda>entries.
          py_bind (py_run (check_entry h message_id) None (zip [0..<4] entries)) (\<lambda>_.
          if drifted entries then Inl (DeliveryError ''QUALIFICATION_JOURNAL_DRIFT'') else Inr entries)))"

section \<open>The acknowledgement\<close>

text \<open>
  Reading a protected file: its content is that of the world, the checks and the size reported
  are answers of the environment.
\<close>

record file_answers =
  fa_path :: "path_info list"
  fa_acl :: acl_probe
  fa_size :: "int \<Rightarrow> int py"
  fa_read :: "unit py"

definition read_protected_file :: "file_answers \<Rightarrow> bytes option \<Rightarrow> int \<Rightarrow> bytes py" where
  "read_protected_file f file maximum =
     py_bind (no_reparse (fa_path f)) (\<lambda>_.
     case file of
       None \<Rightarrow> Inl (DeliveryError ''QUALIFICATION_JOURNAL_REQUIRED'')
     | Some content \<Rightarrow>
         py_bind (private_acl (fa_acl f)) (\<lambda>_.
         py_bind (fa_size f (int (length content))) (\<lambda>n.
         if \<not> (0 < n \<and> n \<le> maximum) then Inl (DeliveryError ''QUALIFICATION_JOURNAL_SIZE_REJECTED'')
         else
           case fa_read f of
             Inl e \<Rightarrow> Inl (if e = OSError \<or> e = FileExistsError then DeliveryError ''QUALIFICATION_JOURNAL_READ_FAILED'' else e)
           | Inr _ \<Rightarrow>
               if int (length content) \<noteq> n \<or> int (length content) > maximum
               then Inl (DeliveryError ''QUALIFICATION_JOURNAL_CHANGED_DURING_READ'') else Inr content)))"

definition qualification_scope :: "delivery_host \<Rightarrow> string py" where
  "qualification_scope h =
     py_bind (canonical h (PDict [(''bot'', PStr EXPECTED_BOT), (''chat'', PInt EXPECTED_TEST_CHAT)])) (\<lambda>bs. Inr (d_sha256 h bs))"

definition expected_receipt :: "string \<Rightarrow> string \<Rightarrow> int \<Rightarrow> items" where
  "expected_receipt scope journal_sha256 message_id =
     [(''schema_version'', PInt 1), (''kind'', PStr ''kairos.telegram.local-operator-attestation.v1''),
      (''status'', PStr ''RECORDED_LOCAL_OPERATOR_ATTESTATION''), (''basis'', PStr ''LOCAL_OPERATOR_ATTESTATION''),
      (''bot_username'', PStr EXPECTED_BOT), (''chat_id'', PInt EXPECTED_TEST_CHAT),
      (''recipient_purpose'', PStr ''qualification_test_only''), (''scope_sha256'', PStr scope),
      (''qualification_journal_sha256'', PStr journal_sha256), (''message_id'', PInt message_id),
      (''confirmation'', PStr ACK_CONFIRMATION), (''human_acknowledged'', PBool True),
      (''telegram_user_authenticated'', PBool False), (''operationally_qualified'', PBool False),
      (''trading_authority'', PBool False)]"

definition BOOLEAN_FIELDS :: "(string \<times> bool) list" where
  "BOOLEAN_FIELDS = [(''human_acknowledged'', True), (''telegram_user_authenticated'', False),
     (''operationally_qualified'', False), (''trading_authority'', False)]"

definition receipt_mismatch :: "items \<Rightarrow> items \<Rightarrow> bool" where
  "receipt_mismatch expected receipt \<longleftrightarrow>
     list_ex (field_differs [''schema_version'', ''chat_id'', ''message_id''] receipt) expected
     \<or> list_ex (\<lambda>(key, b). dict_get receipt key \<noteq> PBool b) BOOLEAN_FIELDS
     \<or> \<not> keys_are receipt (map fst expected @ [''attested_at_utc''])"

record read_env =
  re_ops_path :: "path_info list"
  re_receipts_path :: "path_info list"
  re_receipts_is_dir :: bool
  re_ops_acl :: acl_probe
  re_receipts_acl :: acl_probe
  re_journal :: file_answers
  re_ack :: file_answers
  re_ack_name :: string

definition check_arguments :: "string \<Rightarrow> int \<Rightarrow> unit py" where
  "check_arguments expected_journal_sha256 message_id =
     (if \<not> hex_lower_n 64 expected_journal_sha256 then Inl (DeliveryError ''EXPECTED_JOURNAL_SHA256_REQUIRED'')
      else if message_id \<le> 0 then Inl (DeliveryError ''MESSAGE_ID_REQUIRED'') else Inr ())"

definition bound_journal :: "delivery_host \<Rightarrow> file_answers \<Rightarrow> delivery_world \<Rightarrow> string \<Rightarrow> int \<Rightarrow> items list py" where
  "bound_journal h f w expected_journal_sha256 message_id =
     py_bind (read_protected_file f (journal_file w) MAX_QUALIFICATION_JOURNAL_BYTES) (\<lambda>raw.
     if d_sha256 h raw \<noteq> expected_journal_sha256 then Inl (DeliveryError ''QUALIFICATION_JOURNAL_SHA256_MISMATCH'')
     else validated_terminal_journal h raw message_id)"

definition terminal_time :: "delivery_host \<Rightarrow> items list \<Rightarrow> int py" where
  "terminal_time h entries =
     (if entries = [] then Inl IndexError
      else py_bind (py_item (PDict (last entries)) ''observed_at_utc'') (\<lambda>v.
        parse_utc_timestamp h v ''QUALIFICATION_JOURNAL_SEQUENCE_REJECTED''))"

definition read_acknowledgement ::
  "delivery_host \<Rightarrow> read_env \<Rightarrow> delivery_world \<Rightarrow> string \<Rightarrow> int \<Rightarrow> items py" where
  "read_acknowledgement h env w expected_journal_sha256 message_id =
     py_bind (check_arguments expected_journal_sha256 message_id) (\<lambda>_.
     py_bind (no_reparse (re_ops_path env)) (\<lambda>_.
     py_bind (no_reparse (re_receipts_path env)) (\<lambda>_.
     py_bind (private_acl (re_ops_acl env)) (\<lambda>_.
     py_bind (private_acl (re_receipts_acl env)) (\<lambda>_.
     py_bind (bound_journal h (re_journal env) w expected_journal_sha256 message_id) (\<lambda>entries.
     py_bind (read_protected_file (re_ack env) (ack_file w) (16 * 1024)) (\<lambda>raw.
     py_bind (strict_loads h ''ACKNOWLEDGEMENT_RECEIPT_INVALID'' raw) (\<lambda>v.
     py_bind (qualification_scope h) (\<lambda>scope.
       let expected = expected_receipt scope expected_journal_sha256 message_id in
       case v of
         PDict receipt \<Rightarrow>
           if receipt_mismatch expected receipt then Inl (DeliveryError ''ACKNOWLEDGEMENT_RECEIPT_MISMATCH'')
           else
             py_bind (parse_utc_timestamp h (dict_get receipt ''attested_at_utc'') ''ACKNOWLEDGEMENT_RECEIPT_MISMATCH'') (\<lambda>attested_at.
             py_bind (terminal_time h entries) (\<lambda>terminal_at.
             if attested_at < terminal_at then Inl (DeliveryError ''ACKNOWLEDGEMENT_TIME_ORDER_REJECTED'')
             else Inr (expected @ [(''attested_at_utc'', dict_get receipt ''attested_at_utc''), (''receipt_path'', PStr (re_ack_name env))])))
       | _ \<Rightarrow> Inl (DeliveryError ''ACKNOWLEDGEMENT_RECEIPT_MISMATCH''))))))))))"

record ack_env =
  ae_read :: read_env
  ae_now :: int
  ae_ack_path :: "path_info list"
  ae_open :: "unit py"
  ae_write :: write_answer
  ae_acl :: acl_probe
  ae_readback :: read_env

text \<open>The checks and the receipt text, before anything is written.\<close>

definition attestation ::
  "delivery_host \<Rightarrow> ack_env \<Rightarrow> delivery_world \<Rightarrow> string \<Rightarrow> int \<Rightarrow> string \<Rightarrow> bytes py" where
  "attestation h env w expected_journal_sha256 message_id confirmation =
     (if confirmation \<noteq> ACK_CONFIRMATION then Inl (DeliveryError ''EXPLICIT_ACKNOWLEDGEMENT_REQUIRED'')
      else
        py_bind (check_arguments expected_journal_sha256 message_id) (\<lambda>_.
        py_bind (no_reparse (re_ops_path (ae_read env))) (\<lambda>_.
        py_bind (no_reparse (re_receipts_path (ae_read env))) (\<lambda>_.
        if \<not> re_receipts_is_dir (ae_read env) then Inl (DeliveryError ''QUALIFICATION_JOURNAL_REQUIRED'')
        else
          py_bind (private_acl (re_ops_acl (ae_read env))) (\<lambda>_.
          py_bind (private_acl (re_receipts_acl (ae_read env))) (\<lambda>_.
          py_bind (bound_journal h (re_journal (ae_read env)) w expected_journal_sha256 message_id) (\<lambda>entries.
          py_bind (terminal_time h entries) (\<lambda>terminal_at.
          if ae_now env < terminal_at then Inl (DeliveryError ''ACKNOWLEDGEMENT_TIME_ORDER_REJECTED'')
          else
            py_bind (no_reparse (ae_ack_path env)) (\<lambda>_.
            py_bind (qualification_scope h) (\<lambda>scope.
              json_line h (expected_receipt scope expected_journal_sha256 message_id
                @ [(''attested_at_utc'', PStr (d_isoformat h (ae_now env)))])))))))))))"

definition existing_ack :: "exn \<Rightarrow> exn" where
  "existing_ack e = (if e = FileExistsError then DeliveryError ''EXISTING_ACKNOWLEDGEMENT_REQUIRES_REVIEW'' else e)"

definition acknowledge ::
  "delivery_host \<Rightarrow> ack_env \<Rightarrow> delivery_world \<Rightarrow> string \<Rightarrow> int \<Rightarrow> string \<Rightarrow> items py \<times> delivery_world" where
  "acknowledge h env w expected_journal_sha256 message_id confirmation =
     (case attestation h env w expected_journal_sha256 message_id confirmation of
        Inl e \<Rightarrow> (Inl e, w)
      | Inr line \<Rightarrow>
          (case exclusive_open (ack_file w) (ae_open env) of
             Inl e \<Rightarrow> (Inl (existing_ack e), w)
           | Inr _ \<Rightarrow>
               (case appended [] line (ae_write env) of
                  (content, outcome) \<Rightarrow>
                    (let w' = w\<lparr>ack_file := Some content\<rparr> in
                     case outcome of
                       Inl e \<Rightarrow> (Inl (existing_ack e), w')
                     | Inr _ \<Rightarrow>
                         (py_bind (private_acl (ae_acl env)) (\<lambda>_.
                            read_acknowledgement h (ae_readback env) w' expected_journal_sha256 message_id), w')))))"

section \<open>Rendering to files\<close>

text \<open>
  What the environment gives to a rendering: the size and the parsed text of the policy file, each
  read of the baseline and of the template, the state of the output directory, and how the two
  exclusive writes end. The second component of the result is the content of the directory.
\<close>

record render_env =
  rv_policy_size :: "int py"
  rv_policy :: "pyval py"
  rv_baseline :: "bool \<Rightarrow> bytes py"
  rv_template :: "string py"
  rv_source :: "string py"
  rv_dir_path :: "path_info list"
  rv_dir_exists :: bool
  rv_mkdir :: "unit py"
  rv_open :: "string \<Rightarrow> unit py"
  rv_write :: "string \<Rightarrow> write_answer"

type_synonym rendered = "(string \<times> bytes) list"

definition exclusive :: "render_env \<Rightarrow> string \<Rightarrow> bytes \<Rightarrow> rendered \<Rightarrow> rendered \<times> unit py" where
  "exclusive env name bs files =
     (case exclusive_open (map_of files name) (rv_open env name) of
        Inl e \<Rightarrow> (files, Inl e)
      | Inr _ \<Rightarrow> (case appended [] bs (rv_write env name) of (content, outcome) \<Rightarrow> (files @ [(name, content)], outcome)))"

definition prepared_texts :: "delivery_host \<Rightarrow> render_env \<Rightarrow> pyval \<Rightarrow> (string \<times> string) py" where
  "prepared_texts h env policy =
     py_bind (render_alertmanager h (rv_baseline env False) (rv_template env) policy) (\<lambda>native.
     py_bind (render_prometheus h (rv_baseline env True) (rv_source env) policy) (\<lambda>prometheus.
     py_bind (no_reparse (rv_dir_path env)) (\<lambda>_.
       if rv_dir_exists env then Inl (DeliveryError ''OUTPUT_MUST_BE_NEW'')
       else py_bind (rv_mkdir env) (\<lambda>_. Inr (native, prometheus)))))"

definition render_summary :: "delivery_host \<Rightarrow> pyval \<Rightarrow> string \<Rightarrow> string \<Rightarrow> items py" where
  "render_summary h policy native prometheus =
     py_bind (canonical h policy) (\<lambda>bs.
       Inr [(''status'', PStr ''PREPARED_CONFIG_ONLY''), (''policy_sha256'', PStr (d_sha256 h bs)),
            (''alertmanager_sha256'', PStr (d_sha256 h (utf8_text native))),
            (''prometheus_sha256'', PStr (d_sha256 h (utf8_text prometheus))),
            (''image'', PStr ALERTMANAGER_IMAGE), (''operationally_qualified'', PBool False)])"

definition render_files :: "delivery_host \<Rightarrow> render_env \<Rightarrow> pyval \<Rightarrow> items py \<times> rendered" where
  "render_files h env policy =
     (case prepared_texts h env policy of
        Inl e \<Rightarrow> (Inl e, [])
      | Inr (native, prometheus) \<Rightarrow>
          (case exclusive env ''alertmanager.yml'' (utf8_text native) [] of
             (files, Inl e) \<Rightarrow> (Inl e, files)
           | (files, Inr _) \<Rightarrow>
               (case exclusive env ''prometheus.yml'' (utf8_text prometheus) files of
                  (files', Inl e) \<Rightarrow> (Inl e, files')
                | (files', Inr _) \<Rightarrow> (render_summary h policy native prometheus, files'))))"

definition render_action :: "delivery_host \<Rightarrow> render_env \<Rightarrow> items py \<times> rendered" where
  "render_action h env =
     (case py_bind (rv_policy_size env) (\<lambda>n.
             if n > 8192 then Inl (DeliveryError ''POLICY_TOO_LARGE'') else rv_policy env) of
        Inl e \<Rightarrow> (Inl e, [])
      | Inr policy \<Rightarrow> render_files h env policy)"

section \<open>Exit status\<close>

definition result_status :: "items py \<Rightarrow> int" where
  "result_status result =
     (case result of
        Inl _ \<Rightarrow> 2
      | Inr m \<Rightarrow> if dict_get m ''stage'' \<in> {PNone, PStr ''TRANSPORT_ACCEPTED''}
                  \<or> dict_get m ''status'' = PStr ''RECORDED_LOCAL_OPERATOR_ATTESTATION'' then 0 else 2)"

datatype delivery_action =
    Render render_env
  | Qualify "nat \<Rightarrow> qual_env" bool
  | Acknowledge ack_env string int string
  | Verify_ack read_env string int

definition delivery_main :: "delivery_host \<Rightarrow> delivery_action \<Rightarrow> delivery_world \<Rightarrow> int \<times> delivery_world" where
  "delivery_main h action w =
     (case action of
        Render env \<Rightarrow> (result_status (fst (render_action h env)), w)
      | Qualify env authorize \<Rightarrow> (case qualify h env authorize w of (r, w') \<Rightarrow> (result_status r, w'))
      | Acknowledge env sha i confirmation \<Rightarrow> (case acknowledge h env w sha i confirmation of (r, w') \<Rightarrow> (result_status r, w'))
      | Verify_ack env sha i \<Rightarrow> (result_status (read_acknowledgement h env w sha i), w))"

end
