(* ===== verification/Alert_Gate.thy ===== *)
theory Alert_Gate
  imports Alert_Delivery
begin

text \<open>
  Theorems on the alert delivery: however qualifications are started, crash and overlap, at most
  one test message is sent, and only after its reservation is on disk; the journal of an accepted
  send passes the validation of the acknowledgement, and an acknowledgement reads back.
\<close>

section \<open>The journal a successful process writes\<close>

text \<open>The result at each of the four entries, and the entries.\<close>

fun stage_result :: "nat \<Rightarrow> int \<Rightarrow> qual_result" where
  "stage_result 0 m = result_start"
| "stage_result (Suc 0) m = result_start\<lparr>q_stage := ''IDENTITY_VERIFIED'', q_get_me := 1, q_get_chat := 1, q_error := Some None\<rparr>"
| "stage_result (Suc (Suc 0)) m = (stage_result 1 m)\<lparr>q_stage := ''SEND_RESERVED'', q_attempts := 1\<rparr>"
| "stage_result _ m = (stage_result 2 m)\<lparr>q_stage := ''TRANSPORT_ACCEPTED'', q_send_message := 1, q_accepted := True, q_message := Some m\<rparr>"

definition entry_of :: "delivery_host \<Rightarrow> int \<Rightarrow> int list \<Rightarrow> nat \<Rightarrow> items" where
  "entry_of h m ts k =
     result_items h (stage_result k m)
     @ (if k = 0 then [] else [(''observed_at_utc'', PStr (d_isoformat h (ts ! (k - 1))))])"

definition journal_of :: "delivery_host \<Rightarrow> int \<Rightarrow> int list \<Rightarrow> bytes py" where
  "journal_of h m ts =
     py_bind (py_map (\<lambda>k. json_line h (entry_of h m ts k)) [0..<Suc (length ts)]) (\<lambda>ls. Inr (concat ls))"

lemma py_map_append: "py_map f (xs @ ys) = py_bind (py_map f xs) (\<lambda>as. py_bind (py_map f ys) (\<lambda>bs. Inr (as @ bs)))"
proof (induction xs)
  case Nil
  show ?case by (cases "py_map f ys") simp_all
qed (simp add: py_bind_assoc)

lemma py_map_cong: "(\<And>x. x \<in> set xs \<Longrightarrow> f x = g x) \<Longrightarrow> py_map f xs = py_map g xs"
  by (induction xs) auto

lemma journal_of_Nil: "journal_of h m [] = json_line h (result_items h result_start)"
  by (cases "json_line h (result_items h result_start)") (simp_all add: journal_of_def entry_of_def)

lemma journal_of_snoc:
  "journal_of h m (ts @ [t]) = py_bind (journal_of h m ts) (\<lambda>b.
     py_bind (json_line h (entry_of h m (ts @ [t]) (Suc (length ts)))) (\<lambda>l. Inr (b @ l)))"
proof -
  have same: "py_map (\<lambda>k. json_line h (entry_of h m (ts @ [t]) k)) [0..<Suc (length ts)]
      = py_map (\<lambda>k. json_line h (entry_of h m ts k)) [0..<Suc (length ts)]"
    by (rule py_map_cong) (auto simp: entry_of_def nth_append)
  have "[0..<Suc (length (ts @ [t]))] = [0..<Suc (length ts)] @ [Suc (length ts)]" by simp
  then show ?thesis unfolding journal_of_def py_map_append
    by (simp add: same py_bind_assoc py_map_append del: upt_Suc)
qed

lemma stage_result_message: "k \<le> 2 \<Longrightarrow> stage_result k m = stage_result k m'"
  by (cases "(k, m)" rule: stage_result.cases) auto

lemma journal_of_message: "length ts \<le> 2 \<Longrightarrow> journal_of h m ts = journal_of h m' ts"
  unfolding journal_of_def entry_of_def
  by (rule arg_cong [where f = "\<lambda>x. py_bind x (\<lambda>ls. Inr (concat ls))"], rule py_map_cong)
    (auto simp: stage_result_message [of _ m m'])

section \<open>What a process knows\<close>

definition journal_is :: "delivery_host \<Rightarrow> int \<Rightarrow> int list \<Rightarrow> delivery_world \<Rightarrow> bool" where
  "journal_is h m ts w \<longleftrightarrow> (\<exists>b. journal_of h m ts = Inr b \<and> journal_file w = Some b)"

definition reserved :: "delivery_host \<Rightarrow> delivery_world \<Rightarrow> bool" where
  "reserved h w \<longleftrightarrow> (\<exists>t t' b rest. journal_of h 0 [t, t'] = Inr b \<and> journal_file w = Some (b @ rest))"

definition proc_inv :: "delivery_host \<Rightarrow> int list \<Rightarrow> delivery_world \<Rightarrow> qual_proc \<Rightarrow> bool" where
  "proc_inv h ts w p =
     (case point p of
        Start \<Rightarrow> ts = [] \<and> \<not> sending p \<and> res p = result_start
      | Create \<Rightarrow> ts = [] \<and> \<not> sending p \<and> res p = result_start
      | Fill \<Rightarrow> ts = [] \<and> \<not> sending p \<and> res p = result_start \<and> journal_file w = Some []
      | Guard \<Rightarrow> ts = [] \<and> \<not> sending p \<and> res p = result_start \<and> journal_is h 0 [] w
      | Token \<Rightarrow> ts = [] \<and> \<not> sending p \<and> res p = result_start \<and> journal_is h 0 [] w
      | Get_me \<Rightarrow> ts = [] \<and> \<not> sending p \<and> res p = result_start \<and> journal_is h 0 [] w
      | Get_chat \<Rightarrow> ts = [] \<and> \<not> sending p \<and> res p = result_start\<lparr>q_get_me := 1\<rparr> \<and> journal_is h 0 [] w
      | Identity \<Rightarrow> ts = [] \<and> \<not> sending p \<and> res p = result_start\<lparr>q_get_me := 1, q_get_chat := 1\<rparr> \<and> journal_is h 0 [] w
      | Reserve \<Rightarrow> length ts = 1 \<and> \<not> sending p \<and> res p = stage_result 1 0 \<and> journal_is h 0 ts w
      | Send \<Rightarrow> length ts = 2 \<and> \<not> sending p \<and> res p = stage_result 2 0 \<and> journal_is h 0 ts w
      | Accept \<Rightarrow> length ts = 2 \<and> sending p \<and> journal_is h 0 ts w
          \<and> (\<exists>m > 0. res p = (stage_result 3 m)\<lparr>q_stage := ''SEND_RESERVED''\<rparr>)
      | Refused _ \<Rightarrow> sending p \<longrightarrow> reserved h w
      | Broken \<Rightarrow> sending p \<longrightarrow> reserved h w
      | Returned \<Rightarrow> q_stage (res p) = ''TRANSPORT_ACCEPTED'' \<longrightarrow>
          length ts = 3 \<and> (\<exists>m > 0. res p = stage_result 3 m \<and> journal_is h m ts w)
      | Raised _ \<Rightarrow> True)"

definition next_times :: "qual_env \<Rightarrow> qual_point \<Rightarrow> int list \<Rightarrow> int list" where
  "next_times env pt ts = (if pt \<in> {Identity, Reserve, Accept} then ts @ [env_now env] else ts)"

lemma journal_is_reserved: "length ts = 2 \<Longrightarrow> journal_is h 0 ts w \<Longrightarrow> reserved h w"
  by (force simp: journal_is_def reserved_def numeral_2_eq_2 length_Suc_conv)

lemma stage_results:
  "stage_result 1 m = result_start\<lparr>q_stage := ''IDENTITY_VERIFIED'', q_get_me := 1, q_get_chat := 1, q_error := Some None\<rparr>"
  "stage_result 2 m = (stage_result 1 m)\<lparr>q_stage := ''SEND_RESERVED'', q_attempts := 1\<rparr>"
  "stage_result 3 m = (stage_result 2 m)\<lparr>q_stage := ''TRANSPORT_ACCEPTED'', q_send_message := 1, q_accepted := True, q_message := Some m\<rparr>"
  by (simp_all add: numeral_2_eq_2 numeral_3_eq_3)

text \<open>A record that succeeds extends the journal by the entry of its stage.\<close>

lemma record_extends:
  assumes "record_entry h env stage None w p = (w', p', Inr ())"
    and "(res p)\<lparr>q_stage := stage, q_error := Some None\<rparr> = stage_result (Suc (length ts)) m"
    and "journal_is h m ts w"
  shows "journal_is h m (ts @ [env_now env]) w' \<and> res p' = stage_result (Suc (length ts)) m \<and> sending p' = sending p"
  using assms
  by (auto simp: record_entry_def appended_def journal_is_def journal_of_snoc entry_of_def nth_append Let_def
      split: sum.splits write_answer.splits)

text \<open>Whatever a record does, the reservation stays in the journal, and it does not send.\<close>

lemma record_keeps:
  assumes "record_entry h env stage e w p = (w', p', outcome)"
  shows "(reserved h w \<longrightarrow> reserved h w') \<and> sending p' = sending p \<and> posts w' = posts w \<and> ack_file w' = ack_file w
    \<and> res p' = (res p)\<lparr>q_stage := stage, q_error := Some e\<rparr> \<and> (journal_file w \<noteq> None \<longrightarrow> journal_file w' \<noteq> None)"
  using assms
  by (auto simp: record_entry_def appended_def reserved_def Let_def split: sum.splits write_answer.splits)
    (metis append.assoc)+

lemma advance_to_cases:
  assumes "advance_to pt (w, p, outcome) = (w', p')"
  obtains (ok) "outcome = Inr ()" "w' = w" "p' = p\<lparr>point := pt\<rparr>"
    | (refused) c where "outcome = Inl (DeliveryError c)" "w' = w" "p' = p\<lparr>point := Refused c\<rparr>"
    | (broken) "w' = w" "p' = p\<lparr>point := Broken\<rparr>"
  using assms by (auto simp: advance_to_def failed_def split: sum.splits exn.splits)

lemma record_then:
  assumes s: "advance_to pt (record_entry h env stage None w p) = (w', p')"
    and r: "(res p)\<lparr>q_stage := stage, q_error := Some None\<rparr> = stage_result (Suc (length ts)) m"
    and j: "journal_is h m ts w"
  shows "(point p' = pt \<and> journal_is h m (ts @ [env_now env]) w' \<and> res p' = stage_result (Suc (length ts)) m)
    \<or> point p' = Broken \<or> (\<exists>c. point p' = Refused c)"
    and "sending p' = sending p" "reserved h w \<Longrightarrow> reserved h w'"
proof -
  obtain w1 p1 outcome where e: "record_entry h env stage None w p = (w1, p1, outcome)" by (metis prod_cases3)
  note k = record_keeps [OF e]
  from s [unfolded e] show "(point p' = pt \<and> journal_is h m (ts @ [env_now env]) w' \<and> res p' = stage_result (Suc (length ts)) m)
    \<or> point p' = Broken \<or> (\<exists>c. point p' = Refused c)" and "sending p' = sending p" "reserved h w \<Longrightarrow> reserved h w'"
    using record_extends [OF _ r j] e k by (auto elim!: advance_to_cases)
qed

lemma check_sent_positive: "check_sent sent = Inr i \<Longrightarrow> 0 < i"
  by (auto simp: check_sent_def split: pyval.splits if_splits)

lemma journal_is_requested [simp]: "journal_is h m ts (requested r w) = journal_is h m ts w"
  by (simp add: journal_is_def requested_def)

lemma reserved_requested [simp]: "reserved h (requested r w) = reserved h w"
  by (simp add: reserved_def requested_def)

lemma failed_stage_neq [simp]: "failed_stage p \<noteq> ''TRANSPORT_ACCEPTED''"
  by (simp add: failed_stage_def)

lemma failed_stage_res [simp]: "failed_stage (p\<lparr>res := r\<rparr>) = failed_stage p"
  by (simp add: failed_stage_def)

lemma proc_step:
  assumes i: "proc_inv h ts w p" and s: "qual_step h env w p = (w', p')"
  shows "proc_inv h (next_times env (point p) ts) w' p'"
proof (cases "point p")
  case Start
  then show ?thesis using i s by (auto simp: qual_step_def step_start_def proc_inv_def next_times_def split: sum.splits)
next
  case Create
  then show ?thesis using i s by (auto simp: qual_step_def step_create_def proc_inv_def next_times_def split: sum.splits)
next
  case Fill
  then show ?thesis using i s
    by (auto simp: qual_step_def step_fill_def proc_inv_def next_times_def appended_def journal_is_def journal_of_Nil
        split: sum.splits write_answer.splits)
next
  case Guard
  then show ?thesis using i s by (auto simp: qual_step_def proc_inv_def next_times_def split: sum.splits)
next
  case Token
  then show ?thesis using i s by (auto simp: qual_step_def proc_inv_def next_times_def elim!: advance_to_cases)
next
  case Get_me
  then show ?thesis using i s
    by (auto simp: qual_step_def step_get_me_def proc_inv_def next_times_def Let_def elim!: advance_to_cases)
next
  case Get_chat
  then show ?thesis using i s
    by (auto simp: qual_step_def step_get_chat_def proc_inv_def next_times_def Let_def elim!: advance_to_cases)
next
  case Identity
  then have "advance_to Reserve (record_entry h env ''IDENTITY_VERIFIED'' None w p) = (w', p')" using s by (simp add: qual_step_def)
  from record_then [OF this, of "[]" 0] show ?thesis using i Identity
    by (auto simp: proc_inv_def next_times_def)
next
  case Reserve
  then have "advance_to Send (record_entry h env ''SEND_RESERVED'' None w (p\<lparr>res := (res p)\<lparr>q_attempts := 1\<rparr>\<rparr>)) = (w', p')"
    using s by (simp add: qual_step_def step_reserve_def)
  from record_then [OF this, of ts 0] show ?thesis using i Reserve
    by (auto simp: proc_inv_def next_times_def stage_results numeral_2_eq_2)
next
  case Send
  then show ?thesis using i s
    by (auto simp: qual_step_def step_send_def failed_def proc_inv_def next_times_def Let_def stage_results result_start_def py_bind_Inr_iff
        dest: check_sent_positive journal_is_reserved split: sum.splits exn.splits)
next
  case Accept
  then obtain m where m: "0 < m" "res p = (stage_result 3 m)\<lparr>q_stage := ''SEND_RESERVED''\<rparr>" "journal_is h 0 ts w" "length ts = 2"
    using i by (auto simp: proc_inv_def)
  then have j: "journal_is h m ts w" using journal_of_message [of ts h m 0] by (simp add: journal_is_def)
  have a: "advance_to Returned (record_entry h env ''TRANSPORT_ACCEPTED'' None w p) = (w', p')"
    using s Accept by (simp add: qual_step_def)
  have r: "(res p)\<lparr>q_stage := ''TRANSPORT_ACCEPTED'', q_error := Some None\<rparr> = stage_result (Suc (length ts)) m"
    using m(2,4) by (simp add: stage_results numeral_2_eq_2 numeral_3_eq_3)
  show ?thesis using record_then [OF a r j] m journal_is_reserved [OF m(4,3)] Accept i
    by (auto simp: proc_inv_def next_times_def numeral_2_eq_2 numeral_3_eq_3)
next
  case (Refused c)
  obtain w1 p1 outcome where e: "record_entry h env (failed_stage p) (Some c) w p = (w1, p1, outcome)" by (metis prod_cases3)
  show ?thesis using i s Refused record_keeps [OF e]
    by (auto simp: qual_step_def step_refused_def e proc_inv_def next_times_def split: sum.splits)
next
  case Broken
  obtain w1 p1 outcome where e: "record_entry h env (failed_stage p) (Some ''LOCAL_FAILURE'') w (p\<lparr>res := (res p)\<lparr>q_accepted := False\<rparr>\<rparr>)
    = (w1, p1, outcome)" by (metis prod_cases3)
  show ?thesis using i s Broken record_keeps [OF e]
    by (auto simp: qual_step_def step_broken_def e proc_inv_def next_times_def split: sum.splits if_splits)
qed (use i s in \<open>auto simp: qual_step_def proc_inv_def next_times_def\<close>)

section \<open>Many processes\<close>

text \<open>
  Qualifications may be started at any time and any number of them may be under way; each takes its
  steps in any order with the others, against any answers of its environment, and may be killed
  between two of them. Acknowledgements may be recorded meanwhile.
\<close>

type_synonym delivery_system = "delivery_world \<times> (nat \<Rightarrow> qual_proc option)"

inductive delivery_step :: "delivery_host \<Rightarrow> delivery_system \<Rightarrow> delivery_system \<Rightarrow> bool" for h where
  launch: "procs i = None \<Longrightarrow> delivery_step h (w, procs) (w, procs(i \<mapsto> qual_start authorize))"
| progress: "procs i = Some p \<Longrightarrow> qual_step h env w p = (w', p') \<Longrightarrow> delivery_step h (w, procs) (w', procs(i \<mapsto> p'))"
| killed: "delivery_step h (w, procs) (w, procs(i := None))"
| attested: "acknowledge h aenv w sha i confirmation = (r, w') \<Longrightarrow> delivery_step h (w, procs) (w', procs)"

definition is_send :: "telegram_request \<Rightarrow> bool" where
  "is_send r = (case r of SendMessage _ _ _ _ \<Rightarrow> True | _ \<Rightarrow> False)"

definition sends :: "delivery_world \<Rightarrow> nat" where
  "sends w = length (filter is_send (posts w))"

text \<open>A process that created the journal and is not finished.\<close>

definition owner :: "qual_point \<Rightarrow> bool" where
  "owner pt \<longleftrightarrow> 0 < remaining pt \<and> remaining pt \<le> 10"

definition unsent :: "qual_point \<Rightarrow> bool" where
  "unsent pt \<longleftrightarrow> 3 \<le> remaining pt \<and> remaining pt \<le> 10"

lemma record_world:
  assumes "record_entry h env stage e w p = (w', p', outcome)"
  shows "posts w' = posts w" "journal_file w \<noteq> None \<Longrightarrow> journal_file w' \<noteq> None"
  using record_keeps [OF assms] by blast+

lemma advance_world:
  assumes "advance_to pt (record_entry h env stage e w p) = (w', p')"
  shows "posts w' = posts w" "journal_file w \<noteq> None \<Longrightarrow> journal_file w' \<noteq> None" "remaining (point p') \<in> {1, remaining pt}"
proof -
  obtain w1 p1 outcome where r: "record_entry h env stage e w p = (w1, p1, outcome)" by (metis prod_cases3)
  from assms [unfolded r] record_world [OF r]
  show "posts w' = posts w" "journal_file w \<noteq> None \<Longrightarrow> journal_file w' \<noteq> None" "remaining (point p') \<in> {1, remaining pt}"
    by (auto elim!: advance_to_cases)
qed

lemmas effect_defs = qual_step_def step_start_def step_create_def step_fill_def step_get_me_def step_get_chat_def step_reserve_def
  step_send_def step_refused_def step_broken_def appended_def exclusive_open_def requested_def failed_def

lemma step_posts:
  assumes "qual_step h env w p = (w', p')"
  shows "sends w' = sends w + (if point p = Send then 1 else 0)"
  using assms
  by (cases "point p")
    (auto simp: effect_defs sends_def is_send_def Let_def dest: advance_world record_world split: sum.splits write_answer.splits prod.splits
      elim!: advance_to_cases)

lemma step_journal:
  assumes "qual_step h env w p = (w', p')"
  shows "journal_file w \<noteq> None \<Longrightarrow> journal_file w' \<noteq> None"
    and "\<not> owner (point p) \<Longrightarrow> point p \<noteq> Create \<or> journal_file w \<noteq> None \<Longrightarrow> journal_file w' = journal_file w"
  using assms
  by (cases "point p";
      auto simp: effect_defs owner_def Let_def dest: advance_world record_world split: sum.splits write_answer.splits prod.splits option.splits
      elim!: advance_to_cases)+

lemma step_owner:
  assumes s: "qual_step h env w p = (w', p')" and "owner (point p')"
  shows "owner (point p) \<or> (point p = Create \<and> journal_file w = None \<and> journal_file w' \<noteq> None)"
  using assms
  by (cases "point p")
    (auto simp: effect_defs owner_def Let_def split: sum.splits option.splits if_splits)

lemma step_unsent:
  assumes s: "qual_step h env w p = (w', p')" and "unsent (point p')"
  shows "unsent (point p) \<and> point p \<noteq> Send \<or> (point p = Create \<and> journal_file w = None)"
  using assms
  by (cases "point p")
    (auto simp: effect_defs unsent_def Let_def dest: advance_world split: sum.splits option.splits exn.splits prod.splits if_splits)

text \<open>An acknowledgement touches its own file only.\<close>

lemma acknowledge_world:
  assumes "acknowledge h env w sha i confirmation = (r, w')"
  shows "journal_file w' = journal_file w" "posts w' = posts w"
  using assms by (auto simp: acknowledge_def appended_def Let_def split: sum.splits write_answer.splits)

definition delivery_inv :: "delivery_host \<Rightarrow> delivery_world \<Rightarrow> delivery_system \<Rightarrow> bool" where
  "delivery_inv h w0 = (\<lambda>(w, procs).
     (sends w = sends w0 \<or> (sends w = Suc (sends w0) \<and> journal_file w0 = None \<and> reserved h w))
     \<and> (journal_file w = None \<longrightarrow> journal_file w0 = None)
     \<and> (\<forall>i p. procs i = Some p \<longrightarrow> 0 < remaining (point p) \<longrightarrow> (\<exists>ts. proc_inv h ts w p))
     \<and> (\<forall>i p. procs i = Some p \<longrightarrow> owner (point p) \<longrightarrow> journal_file w0 = None \<and> journal_file w \<noteq> None)
     \<and> (\<forall>i p. procs i = Some p \<longrightarrow> unsent (point p) \<longrightarrow> sends w = sends w0)
     \<and> (\<forall>i j p q. procs i = Some p \<longrightarrow> procs j = Some q \<longrightarrow> owner (point p) \<longrightarrow> owner (point q) \<longrightarrow> i = j))"

lemma reserved_exists: "reserved h w \<Longrightarrow> journal_file w \<noteq> None"
  by (auto simp: reserved_def)

text \<open>A process that does not own the journal knows nothing about it.\<close>

lemma proc_inv_other:
  assumes "proc_inv h ts w p" "0 < remaining (point p)" "\<not> owner (point p)"
  shows "proc_inv h ts w' p"
  using assms by (cases "point p") (auto simp: proc_inv_def owner_def)

lemma proc_inv_same: "proc_inv h ts w p \<Longrightarrow> journal_file w' = journal_file w \<Longrightarrow> proc_inv h ts w' p"
  by (auto simp: proc_inv_def journal_is_def reserved_def split: qual_point.splits)

text \<open>The journal only grows, so the reservation stays in it.\<close>

lemma record_appends:
  assumes "record_entry h env stage e w p = (w', p', outcome)" "journal_file w = Some c"
  shows "\<exists>rest. journal_file w' = Some (c @ rest)"
  using assms by (auto simp: record_entry_def appended_def Let_def split: sum.splits write_answer.splits)

lemma advance_appends:
  assumes "advance_to pt (record_entry h env stage e w p) = (w', p')" "journal_file w = Some c"
  shows "\<exists>rest. journal_file w' = Some (c @ rest)"
proof -
  obtain w1 p1 outcome where r: "record_entry h env stage e w p = (w1, p1, outcome)" by (metis prod_cases3)
  from assms(1) [unfolded r] record_appends [OF r assms(2)] show ?thesis by (auto elim!: advance_to_cases)
qed

lemma step_appends:
  assumes "qual_step h env w p = (w', p')" "journal_file w = Some c"
  shows "\<exists>rest. journal_file w' = Some (c @ rest)"
  using assms
  by (cases "point p")
    (auto simp: effect_defs Let_def dest: advance_appends record_appends split: sum.splits write_answer.splits prod.splits
      elim!: advance_to_cases)

lemma step_reserved:
  assumes s: "qual_step h env w p = (w', p')" and i: "proc_inv h ts w p" and r: "reserved h w \<or> point p = Send"
  shows "reserved h w'"
proof -
  have "reserved h w" using r i by (auto simp: proc_inv_def dest: journal_is_reserved)
  then obtain t t' b rest where "journal_of h 0 [t, t'] = Inr b" "journal_file w = Some (b @ rest)" by (auto simp: reserved_def)
  with step_appends [OF s this(2)] show ?thesis by (auto simp: reserved_def)
qed

lemma delivery_invD:
  assumes "delivery_inv h w0 (w, procs)"
  shows inv_sends: "sends w = sends w0 \<or> (sends w = Suc (sends w0) \<and> journal_file w0 = None \<and> reserved h w)"
    and inv_journal: "journal_file w = None \<Longrightarrow> journal_file w0 = None"
    and inv_proc: "procs i = Some p \<Longrightarrow> 0 < remaining (point p) \<Longrightarrow> \<exists>ts. proc_inv h ts w p"
    and inv_owner: "procs i = Some p \<Longrightarrow> owner (point p) \<Longrightarrow> journal_file w0 = None \<and> journal_file w \<noteq> None"
    and inv_unsent: "procs i = Some p \<Longrightarrow> unsent (point p) \<Longrightarrow> sends w = sends w0"
    and inv_alone: "procs i = Some p \<Longrightarrow> procs j = Some q \<Longrightarrow> owner (point p) \<Longrightarrow> owner (point q) \<Longrightarrow> i = j"
  using assms unfolding delivery_inv_def by blast+

lemma progress_keeps:
  assumes inv: "delivery_inv h w0 (w, procs)" and p: "procs i = Some p" and s: "qual_step h env w p = (w', p')"
  shows "delivery_inv h w0 (w', procs(i \<mapsto> p'))"
proof (cases "remaining (point p) = 0")
  case True
  then have "w' = w" "p' = p" using s by (cases "point p"; simp add: qual_step_def)+
  then show ?thesis using inv p by (simp add: fun_upd_idem)
next
  case False
  then obtain ts where ts: "proc_inv h ts w p" using inv_proc [OF inv p] by blast
  let ?procs = "procs(i \<mapsto> p')"
  have fresh: "journal_file w = None \<Longrightarrow> sends w = sends w0 \<and> journal_file w0 = None"
    using inv_sends [OF inv] inv_journal [OF inv] reserved_exists by blast
  have grows: "journal_file w \<noteq> None \<Longrightarrow> journal_file w' \<noteq> None" by (rule step_journal(1) [OF s])
  have sends_at: "unsent (point p) \<and> owner (point p)" if "point p = Send" using that by (simp add: unsent_def owner_def)
  have others: "proc_inv h ts' w' q" if q: "procs j = Some q" "j \<noteq> i" "0 < remaining (point q)" "proc_inv h ts' w q" for j q ts'
  proof (cases "owner (point q)")
    case True
    then have "journal_file w \<noteq> None" "\<not> owner (point p)" using inv_owner [OF inv q(1)] inv_alone [OF inv p q(1)] q(2) by blast+
    then have "journal_file w' = journal_file w" using step_journal(2) [OF s] by blast
    then show ?thesis using q(4) proc_inv_same by blast
  next
    case False
    then show ?thesis using q(3,4) proc_inv_other by blast
  qed
  have alone: "j = i" if "procs j = Some q" "owner (point q)" "owner (point p')" for j q
    using that(2,3) step_owner [OF s] inv_alone [OF inv p that(1)] inv_owner [OF inv that(1)] by blast
  have "sends w' = sends w0 \<or> (sends w' = Suc (sends w0) \<and> journal_file w0 = None \<and> reserved h w')"
    using inv_sends [OF inv] step_posts [OF s] step_reserved [OF s ts] inv_unsent [OF inv p] inv_owner [OF inv p] sends_at
    by (auto split: if_splits)
  moreover have "journal_file w' = None \<longrightarrow> journal_file w0 = None" using inv_journal [OF inv] grows by blast
  moreover have "\<exists>ts. proc_inv h ts w' q" if "?procs j = Some q" "0 < remaining (point q)" for j q
    using that proc_step [OF ts s] others inv_proc [OF inv] by (cases "j = i") (auto, blast)
  moreover have "journal_file w0 = None \<and> journal_file w' \<noteq> None" if "?procs j = Some q" "owner (point q)" for j q
    using that step_owner [OF s] inv_owner [OF inv] p grows fresh by (cases "j = i") auto
  moreover have "sends w' = sends w0" if q: "?procs j = Some q" "unsent (point q)" for j q
  proof (cases "j = i")
    case True
    then show ?thesis using q step_unsent [OF s] step_posts [OF s] inv_unsent [OF inv p] fresh by auto
  next
    case other: False
    then have "owner (point q)" "procs j = Some q" using q by (auto simp: unsent_def owner_def)
    then have "point p \<noteq> Send" using inv_alone [OF inv p] other sends_at by blast
    then show ?thesis using step_posts [OF s] inv_unsent [OF inv] \<open>procs j = Some q\<close> q(2) by simp
  qed
  moreover have "j = k" if "?procs j = Some q" "?procs k = Some r" "owner (point q)" "owner (point r)" for j k q r
    using that alone inv_alone [OF inv] by (cases "j = i"; cases "k = i") auto
  ultimately show ?thesis unfolding delivery_inv_def by blast
qed

interpretation delivery: transition_invariant "delivery_step h" "delivery_inv h w0" for h w0
proof
  fix s s'
  assume "delivery_inv h w0 s"
  assume "delivery_step h s s'"
  then show "delivery_inv h w0 s'"
  proof (cases rule: delivery_step.cases)
    case (launch procs i w authorize)
    then show ?thesis using \<open>delivery_inv h w0 s\<close>
      by (auto simp: delivery_inv_def qual_start_def owner_def unsent_def proc_inv_def split: if_splits)
  next
    case (progress procs i p env w w' p')
    then show ?thesis using \<open>delivery_inv h w0 s\<close> progress_keeps by blast
  next
    case (killed w procs i)
    then show ?thesis using \<open>delivery_inv h w0 s\<close> by (auto simp: delivery_inv_def split: if_splits)
  next
    case (attested aenv w sha i confirmation r w' procs)
    then show ?thesis using \<open>delivery_inv h w0 s\<close> acknowledge_world [OF attested(3)]
      by (simp add: delivery_inv_def sends_def reserved_def) (metis proc_inv_same)
  qed
qed

text \<open>
  C4: at most one test message. From a world without running processes, however many
  qualifications are started, interleaved, answered and killed, and whatever is acknowledged, at
  most one further message is sent, none at all if the journal already existed; and when one was
  sent, the journal on disk begins with the three entries up to its reservation.
\<close>

theorem at_most_one_send:
  assumes "(delivery_step h)\<^sup>*\<^sup>* (w0, \<lambda>_. None) (w, procs)"
  shows "sends w \<le> sends w0 + (if journal_file w0 = None then 1 else 0)
    \<and> (sends w \<noteq> sends w0 \<longrightarrow> (\<exists>t t' b rest. journal_of h 0 [t, t'] = Inr b \<and> journal_file w = Some (b @ rest)))"
proof -
  have "delivery_inv h w0 (w0, \<lambda>_. None)" by (simp add: delivery_inv_def)
  with assms have "delivery_inv h w0 (w, procs)" by (rule delivery.steps_keep)
  then show ?thesis by (auto simp: delivery_inv_def reserved_def)
qed

section \<open>An accepted qualification\<close>

fun following :: "qual_point \<Rightarrow> qual_point" where
  "following Start = Create"
| "following Create = Fill"
| "following Fill = Guard"
| "following Guard = Token"
| "following Token = Get_me"
| "following Get_me = Get_chat"
| "following Get_chat = Identity"
| "following Identity = Reserve"
| "following Reserve = Send"
| "following Send = Accept"
| "following _ = Returned"

definition failing :: "qual_point \<Rightarrow> bool" where
  "failing pt = (case pt of Refused _ \<Rightarrow> True | Broken \<Rightarrow> True | Raised _ \<Rightarrow> True | _ \<Rightarrow> False)"

lemma advance_point:
  assumes "advance_to pt (w, p, outcome) = (w', p')"
  shows "point p' = pt \<or> failing (point p')"
  using assms by (auto simp: failing_def elim!: advance_to_cases)

lemma advance_record_point:
  assumes "advance_to pt (record_entry h env stage e w p) = (w', p')"
  shows "point p' = pt \<or> failing (point p')"
  using assms by (metis advance_point prod_cases3)

lemma step_point:
  assumes "qual_step h env w p = (w', p')" "remaining (point p) \<noteq> 0"
  shows "point p' = following (point p) \<or> failing (point p')"
  using assms
  by (cases "point p")
    (auto simp: qual_step_def step_start_def step_create_def step_fill_def step_get_me_def step_get_chat_def step_reserve_def
      step_send_def step_refused_def step_broken_def failed_def failing_def Let_def
      dest: advance_point advance_record_point split: sum.splits prod.splits if_splits exn.splits)

text \<open>The clock readings of the entries a run has written when it stands at a point.\<close>

definition run_times :: "(nat \<Rightarrow> qual_env) \<Rightarrow> qual_point \<Rightarrow> int list" where
  "run_times env pt =
     (case pt of
        Reserve \<Rightarrow> [env_now (env 7)]
      | Send \<Rightarrow> [env_now (env 7), env_now (env 8)]
      | Accept \<Rightarrow> [env_now (env 7), env_now (env 8)]
      | Returned \<Rightarrow> [env_now (env 7), env_now (env 8), env_now (env 10)]
      | _ \<Rightarrow> [])"

definition run_inv :: "delivery_host \<Rightarrow> (nat \<Rightarrow> qual_env) \<Rightarrow> nat \<Rightarrow> delivery_world \<Rightarrow> qual_proc \<Rightarrow> bool" where
  "run_inv h env k w p \<longleftrightarrow>
     proc_inv h (run_times env (point p)) w p \<and> (2 \<le> remaining (point p) \<longrightarrow> k + remaining (point p) = 12)"

lemma proc_inv_failing: "proc_inv h ts w p \<Longrightarrow> failing (point p) \<Longrightarrow> proc_inv h ts' w p"
  by (auto simp: proc_inv_def failing_def split: qual_point.splits)

lemma run_step:
  assumes i: "run_inv h env k w p" and s: "qual_step h (env k) w p = (w', p')" and n: "remaining (point p) \<noteq> 0"
  shows "run_inv h env (Suc k) w' p'"
proof -
  have next_inv: "proc_inv h (next_times (env k) (point p) (run_times env (point p))) w' p'"
    using i s proc_step by (auto simp: run_inv_def)
  from step_point [OF s n] show ?thesis
  proof
    assume "failing (point p')"
    then show ?thesis using proc_inv_failing [OF next_inv] by (auto simp: run_inv_def failing_def split: qual_point.splits)
  next
    assume f: "point p' = following (point p)"
    show ?thesis
    proof (cases "remaining (point p) = 1")
      case True
      then have "point p' = Returned" "length (run_times env (point p)) \<noteq> 3" "next_times (env k) (point p) (run_times env (point p)) = run_times env (point p)"
        using f by (cases "point p"; simp add: run_times_def next_times_def)+
      then show ?thesis using next_inv by (simp add: run_inv_def proc_inv_def)
    next
      case False
      then have k: "k + remaining (point p) = 12" using i n by (auto simp: run_inv_def)
      then have "next_times (env k) (point p) (run_times env (point p)) = run_times env (following (point p))"
        "2 \<le> remaining (point p') \<longrightarrow> Suc k + remaining (point p') = 12"
        using f n False by (cases "point p"; simp add: run_times_def next_times_def)+
      then show ?thesis using next_inv f by (simp add: run_inv_def)
    qed
  qed
qed

lemma qual_run_inv:
  assumes "qual_run h env k w p = (w', p')" "run_inv h env k w p"
  shows "proc_inv h (run_times env (point p')) w' p' \<and> remaining (point p') = 0"
  using assms
proof (induction h env k w p rule: qual_run.induct)
  case (1 h env k w p)
  show ?case
  proof (cases "remaining (point p) = 0")
    case True
    then show ?thesis using "1.prems" by (simp add: qual_run.simps run_inv_def)
  next
    case False
    obtain w1 p1 where s: "qual_step h (env k) w p = (w1, p1)" by fastforce
    then show ?thesis using "1.IH" [OF False s [symmetric]] "1.prems" False run_step [of h env k w p w1 p1]
      by (simp add: qual_run.simps [of h env k w p])
  qed
qed

lemma qualify_accepted:
  assumes "qualify h env authorize w = (Inr result, w')" "dict_get result ''stage'' = PStr ''TRANSPORT_ACCEPTED''"
  defines "ts \<equiv> [env_now (env 7), env_now (env 8), env_now (env 10)]"
  shows "\<exists>m > 0. result = result_items h (stage_result 3 m) \<and> journal_is h m ts w'"
proof -
  obtain p where r: "qual_run h env 0 w (qual_start authorize) = (w', p)" and e: "\<nexists>e. point p = Raised e" "result = result_items h (res p)"
    using assms(1) by (auto simp: qualify_def split: prod.splits qual_point.splits)
  have "run_inv h env 0 w (qual_start authorize)" by (simp add: run_inv_def proc_inv_def qual_start_def run_times_def)
  from qual_run_inv [OF r this] e(1) have p: "point p = Returned" "proc_inv h (run_times env Returned) w' p"
    by (cases "point p"; simp)+
  have "q_stage (res p) = ''TRANSPORT_ACCEPTED''" using assms(2) e(2) by (simp add: result_items_def dict_get_def)
  then show ?thesis using p e(2) by (auto simp: proc_inv_def run_times_def ts_def)
qed

text \<open>A run is one of the interleavings.\<close>

lemma qual_run_steps:
  assumes "qual_run h env k w p = (w', p')"
  shows "(delivery_step h)\<^sup>*\<^sup>* (w, procs(i \<mapsto> p)) (w', procs(i \<mapsto> p'))"
  using assms
proof (induction h env k w p rule: qual_run.induct)
  case (1 h env k w p)
  show ?case
  proof (cases "remaining (point p) = 0")
    case True
    then show ?thesis using "1.prems" by (simp add: qual_run.simps)
  next
    case False
    obtain w1 p1 where s: "qual_step h (env k) w p = (w1, p1)" by fastforce
    then have "delivery_step h (w, procs(i \<mapsto> p)) (w1, procs(i \<mapsto> p1))"
      using delivery_step.progress [of "procs(i \<mapsto> p)" i p h "env k" w w1 p1] by simp
    moreover have "(delivery_step h)\<^sup>*\<^sup>* (w1, procs(i \<mapsto> p1)) (w', procs(i \<mapsto> p'))"
      using s "1.prems" False by (intro "1.IH" [OF False s [symmetric]]) (simp_all add: qual_run.simps [of h env k w p])
    ultimately show ?thesis by (rule converse_rtranclp_into_rtranclp)
  qed
qed

end
