(* ===== verification/Alert_Journal.thy ===== *)
theory Alert_Journal
  imports Alert_Gate
begin

text \<open>
  The journal read back: its lines are the entries that were written, and the validation that
  precedes an acknowledgement accepts the journal of an accepted send for its message identifier
  only. Conversely, every field of a journal it accepts has the type and value prescribed.
\<close>

section \<open>Reading what was written\<close>

text \<open>The value with the keys of its dictionaries in order, and its tree.\<close>

fun sorted_value :: "pyval \<Rightarrow> pyval"
  and sorted_list :: "pyval list \<Rightarrow> pyval list"
  and sorted_pairs :: "items \<Rightarrow> items" where
  "sorted_value (PList xs) = PList (sorted_list xs)"
| "sorted_value (PDict m) = PDict (foldr key_insort (sorted_pairs m) [])"
| "sorted_value v = v"
| "sorted_list [] = []"
| "sorted_list (x # xs) = sorted_value x # sorted_list xs"
| "sorted_pairs [] = []"
| "sorted_pairs ((k, v) # m) = (k, sorted_value v) # sorted_pairs m"

fun tree_of :: "pyval \<Rightarrow> jtree"
  and tree_list :: "pyval list \<Rightarrow> jtree list"
  and tree_items :: "items \<Rightarrow> (string \<times> jtree) list" where
  "tree_of PNone = JNull"
| "tree_of (PBool b) = JBool b"
| "tree_of (PInt i) = JInt i"
| "tree_of (PFloat f) = JFloat f"
| "tree_of (PStr s) = JStr s"
| "tree_of (PList xs) = JArr (tree_list xs)"
| "tree_of (PDict m) = JObj (tree_items m)"
| "tree_list [] = []"
| "tree_list (x # xs) = tree_of x # tree_list xs"
| "tree_items [] = []"
| "tree_items ((k, v) # m) = (k, tree_of v) # tree_items m"

text \<open>The JSON reader gives back what the JSON writer wrote.\<close>

definition reads_back :: "delivery_host \<Rightarrow> pyval \<Rightarrow> bool" where
  "reads_back h v \<longleftrightarrow> (\<forall>bs. canonical h v = Inr bs \<longrightarrow> d_json h bs = Inr (tree_of (sorted_value v)))"

fun distinct_keys :: "pyval \<Rightarrow> bool"
  and distinct_keys_list :: "pyval list \<Rightarrow> bool"
  and distinct_keys_items :: "items \<Rightarrow> bool" where
  "distinct_keys (PList xs) = distinct_keys_list xs"
| "distinct_keys (PDict m) = (distinct (map fst m) \<and> distinct_keys_items m)"
| "distinct_keys _ = True"
| "distinct_keys_list [] = True"
| "distinct_keys_list (x # xs) = (distinct_keys x \<and> distinct_keys_list xs)"
| "distinct_keys_items [] = True"
| "distinct_keys_items ((k, v) # m) = (distinct_keys v \<and> distinct_keys_items m)"

lemma distinct_keys_items_iff: "distinct_keys_items m \<longleftrightarrow> (\<forall>(k, v) \<in> set m. distinct_keys v)"
  by (induction m) auto

lemma map_fst_sorted_pairs [simp]: "map fst (sorted_pairs m) = map fst m"
  by (induction m) auto

lemma map_of_sorted_pairs: "map_of (sorted_pairs m) k = map_option sorted_value (map_of m k)"
  by (induction m) auto

lemma distinct_keys_sorted:
  "distinct_keys v \<Longrightarrow> distinct_keys (sorted_value v)"
  "distinct_keys_list vs \<Longrightarrow> distinct_keys_list (sorted_list vs)"
  "distinct_keys_items m \<Longrightarrow> distinct_keys_items (sorted_pairs m)"
  by (induction v and vs and m rule: sorted_value_sorted_list_sorted_pairs.induct)
    (auto simp: distinct_key_sort distinct_keys_items_iff)

lemma unique_tree:
  "distinct_keys v \<Longrightarrow> unique_value (tree_of v) = Inr v"
  "distinct_keys_list vs \<Longrightarrow> unique_list (tree_list vs) = Inr vs"
  "distinct_keys_items m \<Longrightarrow> unique_items (tree_items m) = Inr m"
  by (induction v and vs and m rule: tree_of_tree_list_tree_items.induct) (auto simp: unique_pairs_def)

lemma strict_loads_canonical:
  assumes "reads_back h v" "distinct_keys v" "canonical h v = Inr bs"
  shows "strict_loads h category bs = Inr (sorted_value v)"
  using assms unique_tree(1) [OF distinct_keys_sorted(1)] by (simp add: reads_back_def strict_loads_def)

text \<open>Look-ups do not see the order of the keys.\<close>

abbreviation sorted_items :: "items \<Rightarrow> items" where
  "sorted_items m \<equiv> foldr key_insort (sorted_pairs m) []"

lemma map_of_sorted_items: "distinct (map fst m) \<Longrightarrow> map_of (sorted_items m) k = map_option sorted_value (map_of m k)"
  by (simp add: map_of_key_sort map_of_sorted_pairs)

lemma dict_get_sorted: "distinct (map fst m) \<Longrightarrow> dict_get (sorted_items m) k = sorted_value (dict_get m k)"
  by (cases "map_of m k") (simp_all add: dict_get_def map_of_sorted_items)

lemma keys_are_sorted: "keys_are (sorted_items m) ks = keys_are m ks"
  unfolding keys_are_def by (metis map_fst_sorted_pairs set_key_sort set_map)

section \<open>Its lines\<close>

lemma byte_lines_line:
  assumes "no_control l"
  shows "byte_lines_from cur (l @ newline @ rest) = (rev cur @ l) # byte_lines_from [] rest"
  using assms by (induction l arbitrary: cur) (auto simp: newline_def)

lemma byte_lines_concat: "list_all no_control ls \<Longrightarrow> byte_lines_from [] (concat (map (\<lambda>l. l @ newline) ls)) = ls"
  by (induction ls) (auto simp: byte_lines_line)

lemma json_line_clean:
  assumes "json_line h m = Inr l" "float_free_items m"
  obtains bs where "l = bs @ newline" "canonical h (PDict m) = Inr bs" "no_control bs"
  using assms no_control_json(1) [of _ "PDict m"] no_control_utf8
  by (auto simp: json_line_def canonical_def py_bind_Inr_iff)

lemma entry_float_free: "float_free_items (entry_of h m ts k)"
  by (cases "(k, m)" rule: stage_result.cases) (auto simp: entry_of_def result_items_def result_start_def stage_results)

lemma entry_distinct: "distinct_keys (PDict (entry_of h m ts k))"
  by (cases "(k, m)" rule: stage_result.cases) (auto simp: entry_of_def result_items_def result_start_def stage_results)

lemma journal_lines:
  assumes "journal_of h m ts = Inr raw"
  obtains ls where "py_map (\<lambda>k. canonical h (PDict (entry_of h m ts k))) [0..<Suc (length ts)] = Inr ls"
    "byte_lines_from [] raw = ls" "endswith raw newline"
proof -
  have lines: "\<exists>bss. ls = map (\<lambda>l. l @ newline) bss \<and> list_all no_control bss
      \<and> py_map (\<lambda>k. canonical h (PDict (entry_of h m ts k))) ks = Inr bss"
    if "py_map (\<lambda>k. json_line h (entry_of h m ts k)) ks = Inr ls" for ks ls
    using that
  proof (induction ks arbitrary: ls)
    case (Cons k ks)
    then obtain l ls' where l: "json_line h (entry_of h m ts k) = Inr l" "ls = l # ls'"
      "py_map (\<lambda>k. json_line h (entry_of h m ts k)) ks = Inr ls'"
      by (auto simp: py_bind_Inr_iff)
    obtain bs where "l = bs @ newline" "canonical h (PDict (entry_of h m ts k)) = Inr bs" "no_control bs"
      using json_line_clean [OF l(1) entry_float_free] .
    moreover obtain bss where "ls' = map (\<lambda>l. l @ newline) bss" "list_all no_control bss"
      "py_map (\<lambda>k. canonical h (PDict (entry_of h m ts k))) ks = Inr bss"
      using Cons.IH [OF l(3)] by blast
    ultimately show ?case using l(2) by (intro exI [of _ "bs # bss"]) simp
  qed simp
  from assms obtain ls where ls: "py_map (\<lambda>k. json_line h (entry_of h m ts k)) [0..<Suc (length ts)] = Inr ls" "raw = concat ls"
    by (auto simp: journal_of_def py_bind_Inr_iff)
  from lines [OF ls(1)] obtain bss where b: "ls = map (\<lambda>l. l @ newline) bss" "list_all no_control bss"
    "py_map (\<lambda>k. canonical h (PDict (entry_of h m ts k))) [0..<Suc (length ts)] = Inr bss" by blast
  have "bss \<noteq> []" using b(3) by (auto simp: py_map_append py_bind_Inr_iff)
  then have "endswith raw newline"
    unfolding ls(2) b(1) by (induction bss rule: rev_induct) (auto simp: endswith_def newline_def)
  then show ?thesis using that b(3) byte_lines_concat [OF b(2)] ls(2) b(1) by simp
qed

section \<open>The validation accepts it\<close>

lemma counts_sorted:
  "\<not> counts_differ k (sorted_value (PDict [(''getMe'', PInt a), (''getChat'', PInt a), (''sendMessage'', PInt b)]))"
  if "a = (if k = 0 then 0 else 1)" "b = (if k = 3 then 1 else 0)"
  using that by (simp add: counts_differ_def expected_counts_def)

lemma result_lookup:
  "dict_get (result_items h r @ e) ''schema_version'' = PInt 1"
  "dict_get (result_items h r @ e) ''implementation_sha256'' = PStr (d_implementation h)"
  "dict_get (result_items h r @ e) ''test_message_sha256'' = PStr (test_message_sha256 h)"
  "dict_get (result_items h r @ e) ''expected_bot_username'' = PStr EXPECTED_BOT"
  "dict_get (result_items h r @ e) ''expected_chat_id'' = PInt EXPECTED_TEST_CHAT"
  "dict_get (result_items h r @ e) ''recipient_purpose'' = PStr ''qualification_test_only''"
  "dict_get (result_items h r @ e) ''stage'' = PStr (q_stage r)"
  "dict_get (result_items h r @ e) ''send_attempts'' = PInt (q_attempts r)"
  "dict_get (result_items h r @ e) ''http_method_counts'' = PDict [(''getMe'', PInt (q_get_me r)), (''getChat'', PInt (q_get_chat r)),
     (''sendMessage'', PInt (q_send_message r))]"
  "dict_get (result_items h r @ e) ''transport_accepted'' = PBool (q_accepted r)"
  "dict_get (result_items h r @ e) ''human_acknowledged'' = PBool False"
  "dict_get (result_items h r @ e) ''trading_authority'' = PBool False"
  by (simp_all add: dict_get_def result_items_def)

lemma entry_flagsI:
  assumes "keys_are e (entry_keys k)" "hex_text (dict_get e ''implementation_sha256'')"
    and "\<not> list_ex (field_differs [''schema_version'', ''expected_chat_id''] e) (common_fields h)"
    and "dict_get e ''human_acknowledged'' = PBool False" "dict_get e ''trading_authority'' = PBool False"
    and "dict_get e ''stage'' = PStr (STAGES ! k)" "dict_get e ''send_attempts'' = PInt (if 2 \<le> k then 1 else 0)"
    and "\<not> counts_differ k (dict_get e ''http_method_counts'')" "dict_get e ''transport_accepted'' = PBool (k = 3)"
    and "k = 3 \<Longrightarrow> dict_get e ''message_id'' = PInt m" "k \<noteq> 3 \<Longrightarrow> map_of e ''message_id'' = None"
    and "k = 0 \<Longrightarrow> map_of e ''error_category'' = None" "k \<noteq> 0 \<Longrightarrow> dict_get e ''error_category'' = PNone"
  shows "entry_flags h m k e = Inr ()"
  using assms by (cases "k = 0"; cases "k = 3") (simp_all add: entry_flags_def)

lemma entry_flags_ok:
  assumes "k < 4" "hex_lower_n 64 (d_implementation h)"
  shows "entry_flags h m k (sorted_items (entry_of h m ts k)) = Inr ()"
proof -
  have d: "distinct (map fst (entry_of h m ts j))" for j using entry_distinct [of h m ts j] by simp
  have k: "k = 0 \<or> k = 1 \<or> k = 2 \<or> k = 3" using assms(1) by linarith
  then have keys: "keys_are (entry_of h m ts k) (entry_keys k)"
    by (elim disjE) (auto simp: keys_are_def entry_keys_def base_keys_def entry_of_def result_items_def stage_results result_start_def)
  have stage: "q_stage (stage_result k m) = STAGES ! k" "q_attempts (stage_result k m) = (if 2 \<le> k then 1 else 0)"
    "q_get_me (stage_result k m) = (if k = 0 then 0 else 1)" "q_get_chat (stage_result k m) = (if k = 0 then 0 else 1)"
    "q_send_message (stage_result k m) = (if k = 3 then 1 else 0)" "q_accepted (stage_result k m) = (k = 3)"
    using k by (elim disjE; simp add: STAGES_def stage_results result_start_def)+
  have last: "k = 3 \<Longrightarrow> dict_get (entry_of h m ts k) ''message_id'' = PInt m" "k \<noteq> 3 \<Longrightarrow> map_of (entry_of h m ts k) ''message_id'' = None"
    "k = 0 \<Longrightarrow> map_of (entry_of h m ts k) ''error_category'' = None" "k \<noteq> 0 \<Longrightarrow> dict_get (entry_of h m ts k) ''error_category'' = PNone"
    using k by (elim disjE; simp add: entry_of_def result_items_def dict_get_def stage_results result_start_def)+
  have lookup: "dict_get (entry_of h m ts k) key = dict_get (result_items h (stage_result k m)
      @ (if k = 0 then [] else [(''observed_at_utc'', PStr (d_isoformat h (ts ! (k - 1))))])) key" for key
    by (simp only: entry_of_def)
  note found = result_lookup [of h "stage_result k m" "if k = 0 then [] else [(''observed_at_utc'', PStr (d_isoformat h (ts ! (k - 1))))]",
      folded lookup]
  have counts: "\<not> counts_differ k (sorted_value (dict_get (entry_of h m ts k) ''http_method_counts''))"
    unfolding found stage by (rule counts_sorted) simp_all
  have "\<not> list_ex (field_differs [''schema_version'', ''expected_chat_id''] (sorted_items (entry_of h m ts k))) (common_fields h)"
    by (simp add: field_differs_def common_fields_def dict_get_sorted [OF d] found)
  then show ?thesis using keys last counts assms(2)
    by (intro entry_flagsI)
      (simp_all add: keys_are_sorted dict_get_sorted [OF d] map_of_sorted_items [OF d] found stage hex_text_def del: foldr.simps)
qed

lemma journal_object_entry:
  assumes "reads_back h (PDict (entry_of h m ts k))" "canonical h (PDict (entry_of h m ts k)) = Inr bs"
  shows "journal_object h bs = Inr (sorted_items (entry_of h m ts k))"
  using strict_loads_canonical [OF assms(1) entry_distinct assms(2)] by (simp add: journal_object_def)

lemma entry_time:
  assumes "k \<noteq> 0" "d_fromisoformat h (d_isoformat h (ts ! (k - 1))) = Inr (ts ! (k - 1), Some 0)"
  shows "parse_utc_timestamp h (dict_get (sorted_items (entry_of h m ts k)) ''observed_at_utc'') e = Inr (ts ! (k - 1))"
proof -
  have d: "distinct (map fst (entry_of h m ts k))" using entry_distinct [of h m ts k] by simp
  have "dict_get (entry_of h m ts k) ''observed_at_utc'' = PStr (d_isoformat h (ts ! (k - 1)))"
    using assms(1) by (cases "q_error (stage_result k m)"; cases "q_message (stage_result k m)")
      (simp_all add: entry_of_def result_items_def dict_get_def)
  then show ?thesis using assms(2) by (simp add: parse_utc_timestamp_def dict_get_sorted [OF d])
qed

lemma fingerprints_agree:
  assumes "key \<in> set FINGERPRINT_FIELDS"
  shows "py_eq (dict_get (sorted_items (entry_of h m ts k)) key) (dict_get (sorted_items (entry_of h m ts 0)) key)"
proof -
  have d: "distinct (map fst (entry_of h m ts j))" for j using entry_distinct [of h m ts j] by simp
  from assms show ?thesis unfolding dict_get_sorted [OF d]
    by (auto simp: FINGERPRINT_FIELDS_def entry_of_def result_lookup result_lookup [where ?e = "[]", simplified])
qed

text \<open>The validation of a journal whose four entries are those of a send with increasing times.\<close>

lemma journal_validates:
  assumes raw: "journal_of h m ts = Inr raw" and ts: "length ts = 3" "sorted ts"
    and "\<forall>k \<le> 3. reads_back h (PDict (entry_of h m ts k))" "hex_lower_n 64 (d_implementation h)"
    and iso: "\<forall>t \<in> set ts. d_fromisoformat h (d_isoformat h t) = Inr (t, Some 0)" and m: "0 < m"
  shows "validated_terminal_journal h raw m = Inr (map (\<lambda>k. sorted_items (entry_of h m ts k)) [0..<4])"
proof -
  obtain ls where ls: "py_map (\<lambda>k. canonical h (PDict (entry_of h m ts k))) [0..<4] = Inr ls"
    "byte_lines_from [] raw = ls" "endswith raw newline"
    using journal_lines [OF raw] ts(1) by (auto simp: numeral_eq_Suc)
  have len: "length ls = 4" using ls(1) by (auto simp: py_map_Inr dest: list_all2_lengthD)
  let ?e = "\<lambda>k. sorted_items (entry_of h m ts k)"
  have "list_all2 (\<lambda>l e. journal_object h l = Inr e) ls (map ?e [0..<4])"
    using ls(1) assms(4) journal_object_entry by (auto simp: py_map_Inr list_all2_conv_all_nth)
  then have objects: "py_map (journal_object h) ls = Inr (map ?e [0..<4])" by (simp add: py_map_Inr)
  obtain t1 t2 t3 where t: "ts = [t1, t2, t3]" using ts(1) by (auto simp: numeral_3_eq_3 length_Suc_conv)
  have flags: "entry_flags h m k (?e k) = Inr ()" if "k < 4" for k using that assms(5) by (rule entry_flags_ok)
  have time: "parse_utc_timestamp h (dict_get (?e k) ''observed_at_utc'') c = Inr (ts ! (k - 1))" if "k \<noteq> 0" "k < 4" for k c
    using that ts(1) iso by (intro entry_time) auto
  have "check_entry h m None (0, ?e 0) = Inr None" using flags [of 0] by (simp add: check_entry_def)
  moreover have "check_entry h m None (1, ?e 1) = Inr (Some t1)" using flags [of 1] time [of 1] t by (simp add: check_entry_def)
  moreover have "check_entry h m (Some t1) (2, ?e 2) = Inr (Some t2)" using flags [of 2] time [of 2] t ts(2) by (simp add: check_entry_def)
  moreover have "check_entry h m (Some t2) (3, ?e 3) = Inr (Some t3)" using flags [of 3] time [of 3] t ts(2) by (simp add: check_entry_def)
  ultimately have run: "py_run (check_entry h m) None (zip [0..<4] (map ?e [0..<4])) = Inr (Some t3)"
    by (simp add: upt_conv_Cons numeral_2_eq_2 numeral_3_eq_3 del: foldr.simps)
  have "\<not> drifted (map ?e [0..<4])"
    using fingerprints_agree [of _ h m ts] by (auto simp: drifted_def list_ex_iff upt_conv_Cons simp del: foldr.simps)
  then show ?thesis using m ls(2,3) len objects run
    by (simp add: validated_terminal_journal_def MAX_QUALIFICATION_JOURNAL_LINES_def Let_def del: foldr.simps)
qed

section \<open>What an accepted journal contains\<close>

abbreviation entry_instant :: "delivery_host \<Rightarrow> items \<Rightarrow> int \<Rightarrow> bool" where
  "entry_instant h e t \<equiv>
     parse_utc_timestamp h (dict_get e ''observed_at_utc'') ''QUALIFICATION_JOURNAL_SEQUENCE_REJECTED'' = Inr t"

lemma four_entries:
  assumes "length entries = 4"
  obtains e0 e1 e2 e3 where "entries = [e0, e1, e2, e3]"
  using assms by (auto simp: numeral_eq_Suc length_Suc_conv)

lemma check_entriesD:
  assumes "py_run (check_entry h m) None (zip [0..<4] [e0, e1, e2, e3]) = Inr r"
  shows "entry_flags h m 0 e0 = Inr () \<and> entry_flags h m 1 e1 = Inr () \<and> entry_flags h m 2 e2 = Inr () \<and> entry_flags h m 3 e3 = Inr ()
     \<and> (\<exists>t1 t2 t3. entry_instant h e1 t1 \<and> entry_instant h e2 t2 \<and> entry_instant h e3 t3 \<and> t1 \<le> t2 \<and> t2 \<le> t3)"
proof -
  have "[0..<4] = [0, 1, 2, 3 :: nat]" by (simp add: upt_conv_Cons)
  then show ?thesis using assms by (auto simp: check_entry_def py_bind_Inr_iff not_less split: if_splits)
qed

lemma validated_terminalE:
  assumes "validated_terminal_journal h raw m = Inr entries"
  obtains e0 e1 e2 e3 t1 t2 t3 where "entries = [e0, e1, e2, e3]" "0 < m" "endswith raw newline"
    "length (byte_lines_from [] raw) = 4" "py_map (journal_object h) (byte_lines_from [] raw) = Inr entries"
    "entry_flags h m 0 e0 = Inr ()" "entry_flags h m 1 e1 = Inr ()" "entry_flags h m 2 e2 = Inr ()" "entry_flags h m 3 e3 = Inr ()"
    "entry_instant h e1 t1" "entry_instant h e2 t2" "entry_instant h e3 t3" "t1 \<le> t2" "t2 \<le> t3" "\<not> drifted entries"
proof -
  from assms obtain r where v: "0 < m" "endswith raw newline" "length (byte_lines_from [] raw) = 4"
    "py_map (journal_object h) (byte_lines_from [] raw) = Inr entries"
    "py_run (check_entry h m) None (zip [0..<4] entries) = Inr r" "\<not> drifted entries"
    by (auto simp: validated_terminal_journal_def py_bind_Inr_iff Let_def split: if_splits)
  have "length entries = 4" using v(3,4) by (auto simp: py_map_Inr dest: list_all2_lengthD)
  then obtain e0 e1 e2 e3 where e: "entries = [e0, e1, e2, e3]" by (rule four_entries)
  from check_entriesD [OF v(5) [unfolded e]] show ?thesis using that [OF e v(1-4)] v(6) by blast
qed

lemma reject_Inr: "(if c then Inl x else f) = Inr y \<longleftrightarrow> \<not> c \<and> f = Inr y"
  by simp

lemma entry_flags_iff:
  "entry_flags h m k e = Inr () \<longleftrightarrow>
     keys_are e (entry_keys k) \<and> hex_text (dict_get e ''implementation_sha256'')
     \<and> \<not> list_ex (field_differs [''schema_version'', ''expected_chat_id''] e) (common_fields h)
     \<and> dict_get e ''human_acknowledged'' = PBool False \<and> dict_get e ''trading_authority'' = PBool False
     \<and> dict_get e ''stage'' = PStr (STAGES ! k) \<and> dict_get e ''send_attempts'' = PInt (if 2 \<le> k then 1 else 0)
     \<and> \<not> counts_differ k (dict_get e ''http_method_counts'') \<and> dict_get e ''transport_accepted'' = PBool (k = 3)
     \<and> (k = 3 \<longrightarrow> dict_get e ''message_id'' = PInt m) \<and> (k \<noteq> 3 \<longrightarrow> map_of e ''message_id'' = None)
     \<and> (k = 0 \<longrightarrow> map_of e ''error_category'' = None) \<and> (k \<noteq> 0 \<longrightarrow> dict_get e ''error_category'' = PNone)"
  unfolding entry_flags_def reject_Inr by argo

lemma entry_flags_other:
  assumes "entry_flags h m k e = Inr ()" "m' \<noteq> m"
  shows "entry_flags h m' k e = (if k = 3 then Inl (DeliveryError ''MESSAGE_ID_MISMATCH'') else Inr ())"
  using assms(2) assms(1) [unfolded entry_flags_iff] by (cases "k = 0"; cases "k = 3") (simp_all add: entry_flags_def)

lemma validated_unique:
  assumes v: "validated_terminal_journal h raw m = Inr entries" and "m' \<noteq> m"
  shows "\<exists>c. validated_terminal_journal h raw m' = Inl (DeliveryError c)"
  using v
proof (rule validated_terminalE)
  fix e0 e1 e2 e3 t1 t2 t3
  assume e: "entries = [e0, e1, e2, e3]" and lines: "endswith raw newline" "length (byte_lines_from [] raw) = 4"
    "py_map (journal_object h) (byte_lines_from [] raw) = Inr entries"
    and f: "entry_flags h m 0 e0 = Inr ()" "entry_flags h m 1 e1 = Inr ()" "entry_flags h m 2 e2 = Inr ()" "entry_flags h m 3 e3 = Inr ()"
    and t: "entry_instant h e1 t1" "entry_instant h e2 t2" "entry_instant h e3 t3" "t1 \<le> t2" "t2 \<le> t3"
  have "[0..<4] = [0, 1, 2, 3 :: nat]" by (simp add: upt_conv_Cons)
  then have "py_run (check_entry h m') None (zip [0..<4] entries) = Inl (DeliveryError ''MESSAGE_ID_MISMATCH'')"
    using f [THEN entry_flags_other, OF assms(2)] t by (simp add: e check_entry_def)
  then show ?thesis using lines
    by (auto simp: validated_terminal_journal_def MAX_QUALIFICATION_JOURNAL_LINES_def Let_def)
qed

lemma unique_value_distinct:
  "unique_value t = Inr v \<Longrightarrow> distinct_keys v"
  "unique_list ts = Inr vs \<Longrightarrow> distinct_keys_list vs"
  "unique_items ps = Inr m \<Longrightarrow> distinct_keys_items m"
  by (induction t and ts and ps arbitrary: v and vs and m rule: unique_value_unique_list_unique_items.induct)
    (auto simp: py_bind_Inr_iff unique_pairs_def split: if_splits)

lemma journal_object_distinct:
  assumes "journal_object h l = Inr e"
  shows "distinct (map fst e) \<and> distinct_keys (dict_get e k)"
proof -
  have "distinct_keys (PDict e)"
    using assms by (auto simp: journal_object_def strict_loads_def py_bind_Inr_iff dest!: unique_value_distinct(1) split: sum.splits pyval.splits)
  then show ?thesis by (auto simp: dict_get_def distinct_keys_items_iff dest: map_of_SomeD split: option.splits)
qed

lemma int_field: "py_eq v (PInt i) \<and> type_is_int v \<longleftrightarrow> v = PInt i"
  by (cases v) (auto simp: py_eq_PInt)

text \<open>With distinct keys, the counts are the three integers.\<close>

lemma py_eq_items_iff: "py_eq_items m n \<longleftrightarrow> (\<forall>(k, v) \<in> set m. \<exists>w. map_of n k = Some w \<and> py_eq v w)"
  by (induction m) (auto split: option.splits)

lemma counts_exact:
  assumes "\<not> counts_differ k v" "distinct_keys v"
  shows "\<exists>m. v = PDict m \<and> map_of m = map_of (expected_counts k)"
proof -
  from assms(1) obtain m where v: "v = PDict m" "length m = 3" "py_eq_items m (expected_counts k)"
    by (cases v) (auto simp: counts_differ_def expected_counts_def)
  have ints: "(n, w) \<in> set m \<Longrightarrow> type_is_int w" for n w
    using assms(1) v(1) by (auto simp: counts_differ_def list_ex_iff)
  have expected: "map_of (expected_counts k) n = Some w \<Longrightarrow> \<exists>i. w = PInt i" for n w
    by (auto simp: expected_counts_def split: if_splits)
  have same: "map_of (expected_counts k) n = Some w" if nw: "(n, w) \<in> set m" for n w
  proof -
    obtain u where "map_of (expected_counts k) n = Some u" "py_eq w u" using v(3) nw by (auto simp: py_eq_items_iff)
    then show ?thesis using expected int_field ints [OF nw] by metis
  qed
  have d: "distinct (map fst m)" using assms(2) v(1) by simp
  have "fst ` set m \<subseteq> dom (map_of (expected_counts k))" using same by force
  moreover have "dom (map_of (expected_counts k)) = {''getMe'', ''getChat'', ''sendMessage''}"
    by (auto simp: expected_counts_def split: if_splits)
  moreover have "card (fst ` set m) = 3" using d v(2) by (metis distinct_card length_map set_map)
  ultimately have keys: "fst ` set m = dom (map_of (expected_counts k))" by (intro card_subset_eq) auto
  have "map_of m n = map_of (expected_counts k) n" for n
  proof (cases "map_of m n")
    case None
    then show ?thesis using keys by (metis domIff map_of_eq_None_iff)
  next
    case (Some w)
    then show ?thesis using same [OF map_of_SomeD] by simp
  qed
  then show ?thesis using v(1) by blast
qed

text \<open>
  C37: what a qualification wrote can be acknowledged. If a qualification reports an accepted
  transport, the JSON reader gives back the lines written, the clock did not run backwards and its
  timestamps parse as UTC, then the journal on disk passes the validation that precedes an
  acknowledgement for the message identifier reported, and for no other one.
\<close>

theorem qualification_validates:
  assumes "qualify h env authorize w = (Inr result, w')" "dict_get result ''stage'' = PStr ''TRANSPORT_ACCEPTED''"
    and "dict_get result ''message_id'' = PInt m" "ts = [env_now (env 7), env_now (env 8), env_now (env 10)]" "sorted ts"
    and "\<forall>k \<le> 3. reads_back h (PDict (entry_of h m ts k))" "hex_lower_n 64 (d_implementation h)"
    and "\<forall>t \<in> set ts. d_fromisoformat h (d_isoformat h t) = Inr (t, Some 0)"
  shows "\<exists>raw. journal_file w' = Some raw
    \<and> validated_terminal_journal h raw m = Inr (map (\<lambda>k. sorted_items (entry_of h m ts k)) [0..<4])
    \<and> (\<forall>m'. m' \<noteq> m \<longrightarrow> (\<exists>c. validated_terminal_journal h raw m' = Inl (DeliveryError c)))"
proof -
  obtain m1 where m1: "0 < m1" "result = result_items h (stage_result 3 m1)" "journal_is h m1 ts w'"
    using qualify_accepted [OF assms(1,2)] assms(4) by blast
  then have [simp]: "m1 = m" using assms(3) by (simp add: result_items_def dict_get_def stage_results result_start_def)
  from m1(3) obtain raw where raw: "journal_of h m ts = Inr raw" "journal_file w' = Some raw" by (auto simp: journal_is_def)
  have ok: "validated_terminal_journal h raw m = Inr (map (\<lambda>k. sorted_items (entry_of h m ts k)) [0..<4])"
    using journal_validates [OF raw(1)] assms(4-8) m1(1) by simp
  moreover have "\<exists>c. validated_terminal_journal h raw m' = Inl (DeliveryError c)" if "m' \<noteq> m" for m'
    using validated_unique [OF ok that] .
  ultimately show ?thesis using raw(2) by blast
qed

lemma entry_fields:
  assumes "entry_flags h m k e = Inr ()" "journal_object h l = Inr e"
  shows "dict_get e ''schema_version'' = PInt 1 \<and> dict_get e ''expected_chat_id'' = PInt EXPECTED_TEST_CHAT
    \<and> dict_get e ''expected_bot_username'' = PStr EXPECTED_BOT \<and> dict_get e ''recipient_purpose'' = PStr ''qualification_test_only''
    \<and> dict_get e ''test_message_sha256'' = PStr (test_message_sha256 h)
    \<and> (\<exists>s. dict_get e ''implementation_sha256'' = PStr s \<and> hex_lower_n 64 s)
    \<and> (\<exists>c. dict_get e ''http_method_counts'' = PDict c \<and> map_of c = map_of (expected_counts k))"
proof -
  note f = assms(1) [unfolded entry_flags_iff]
  have "\<not> field_differs [''schema_version'', ''expected_chat_id''] e kv" if "kv \<in> set (common_fields h)" for kv
    using f that by (auto simp: list_ex_iff)
  then have "dict_get e ''schema_version'' = PInt 1" "dict_get e ''expected_chat_id'' = PInt EXPECTED_TEST_CHAT"
    "dict_get e ''expected_bot_username'' = PStr EXPECTED_BOT" "dict_get e ''recipient_purpose'' = PStr ''qualification_test_only''"
    "dict_get e ''test_message_sha256'' = PStr (test_message_sha256 h)"
    using int_field by (force simp: common_fields_def field_differs_def)+
  moreover have "\<exists>s. dict_get e ''implementation_sha256'' = PStr s \<and> hex_lower_n 64 s"
    using f by (auto simp: hex_text_def split: pyval.splits)
  moreover have "\<exists>c. dict_get e ''http_method_counts'' = PDict c \<and> map_of c = map_of (expected_counts k)"
    using f journal_object_distinct [OF assms(2)] by (intro counts_exact) blast+
  ultimately show ?thesis by blast
qed

text \<open>An entry of the journal with every field of the type and value of its stage.\<close>

definition typed_entry :: "delivery_host \<Rightarrow> int \<Rightarrow> nat \<Rightarrow> items \<Rightarrow> bool" where
  "typed_entry h m k e \<longleftrightarrow>
     keys_are e (entry_keys k)
     \<and> dict_get e ''schema_version'' = PInt 1 \<and> dict_get e ''expected_chat_id'' = PInt EXPECTED_TEST_CHAT
     \<and> dict_get e ''expected_bot_username'' = PStr EXPECTED_BOT
     \<and> dict_get e ''test_message_sha256'' = PStr (test_message_sha256 h)
     \<and> dict_get e ''human_acknowledged'' = PBool False \<and> dict_get e ''trading_authority'' = PBool False
     \<and> dict_get e ''stage'' = PStr (STAGES ! k)
     \<and> dict_get e ''send_attempts'' = PInt (if 2 \<le> k then 1 else 0)
     \<and> dict_get e ''transport_accepted'' = PBool (k = 3)
     \<and> (\<exists>c. dict_get e ''http_method_counts'' = PDict c \<and> map_of c = map_of (expected_counts k))
     \<and> dict_get e ''error_category'' = PNone
     \<and> (map_of e ''message_id'' = (if k = 3 then Some (PInt m) else None))"

lemma instant_text: "entry_instant h e t \<Longrightarrow> \<exists>s. dict_get e ''observed_at_utc'' = PStr s \<and> d_fromisoformat h s = Inr (t, Some 0)"
  by (auto simp: parse_utc_timestamp_def split: pyval.splits sum.splits if_splits)

text \<open>
  C38: an accepted journal is well typed. It has exactly four objects, one for each stage, each with
  exactly the prescribed keys; numbers are integers and never booleans, flags are booleans, the
  counters are the three of the stage, no entry carries an error, the last one alone carries the
  message identifier, the four come from one implementation, and their UTC times do not decrease.
\<close>

theorem journal_typed:
  assumes "validated_terminal_journal h raw m = Inr entries"
  shows "0 < m \<and> length entries = 4
    \<and> (\<forall>k < 4. typed_entry h m k (entries ! k))
    \<and> (\<exists>s. hex_lower_n 64 s \<and> (\<forall>k < 4. dict_get (entries ! k) ''implementation_sha256'' = PStr s))
    \<and> (\<exists>ts. length ts = 3 \<and> sorted ts
        \<and> (\<forall>k < 3. \<exists>s. dict_get (entries ! Suc k) ''observed_at_utc'' = PStr s \<and> d_fromisoformat h s = Inr (ts ! k, Some 0)))"
  using assms
proof (rule validated_terminalE)
  fix e0 e1 e2 e3 t1 t2 t3
  assume e: "entries = [e0, e1, e2, e3]" and m: "0 < m"
    and objects: "length (byte_lines_from [] raw) = 4" "py_map (journal_object h) (byte_lines_from [] raw) = Inr entries"
    and f: "entry_flags h m 0 e0 = Inr ()" "entry_flags h m 1 e1 = Inr ()" "entry_flags h m 2 e2 = Inr ()" "entry_flags h m 3 e3 = Inr ()"
    and t: "entry_instant h e1 t1" "entry_instant h e2 t2" "entry_instant h e3 t3" "t1 \<le> t2" "t2 \<le> t3" and drift: "\<not> drifted entries"
  have flags: "entry_flags h m k (entries ! k) = Inr ()" if "k < 4" for k
    using that f e by (auto simp: numeral_eq_Suc less_Suc_eq)
  have object: "\<exists>l. journal_object h l = Inr (entries ! k)" if "k < 4" for k
    using objects that by (auto simp: py_map_Inr list_all2_conv_all_nth)
  have typed: "typed_entry h m k (entries ! k)" if k: "k < 4" for k
    using flags [OF k, unfolded entry_flags_iff] entry_fields [OF flags [OF k]] object [OF k] dict_get_present [of "entries ! k" "''message_id''"]
    by (auto simp: typed_entry_def dict_get_def split: if_splits)
  obtain s where s: "dict_get e0 ''implementation_sha256'' = PStr s" "hex_lower_n 64 s"
    using entry_fields [OF f(1)] object [of 0] e by auto
  have "dict_get (entries ! k) ''implementation_sha256'' = PStr s" if "k < 4" for k
    using drift s(1) that by (auto simp: e drifted_def list_ex_iff FINGERPRINT_FIELDS_def numeral_eq_Suc less_Suc_eq)
  moreover have "\<forall>k < 3. \<exists>s. dict_get (entries ! Suc k) ''observed_at_utc'' = PStr s \<and> d_fromisoformat h s = Inr ([t1, t2, t3] ! k, Some 0)"
    using t(1-3) [THEN instant_text] by (auto simp: e numeral_3_eq_3 less_Suc_eq)
  ultimately show ?thesis using m e typed s(2) t(4,5) by (intro conjI exI [of _ "[t1, t2, t3]"]) auto
qed

section \<open>Acknowledgements\<close>

lemma attestation_Inr:
  assumes "attestation h env w sha m confirmation = Inr line"
  shows "confirmation = ACK_CONFIRMATION
    \<and> (\<exists>raw entries t. journal_file w = Some raw \<and> d_sha256 h raw = sha \<and> validated_terminal_journal h raw m = Inr entries
        \<and> terminal_time h entries = Inr t \<and> t \<le> ae_now env)"
  using assms
  by (auto simp: attestation_def bound_journal_def read_protected_file_def py_bind_Inr_iff not_less
      split: if_splits option.splits sum.splits)

lemma read_acknowledgement_Inr:
  assumes "read_acknowledgement h env w sha m = Inr receipt"
  shows "\<exists>scope v. receipt = expected_receipt scope sha m @ [(''attested_at_utc'', v), (''receipt_path'', PStr (re_ack_name env))]"
proof -
  obtain entries raw v scope where "qualification_scope h = Inr scope"
    "(case v of PDict receipt \<Rightarrow>
        if receipt_mismatch (expected_receipt scope sha m) receipt then Inl (DeliveryError ''ACKNOWLEDGEMENT_RECEIPT_MISMATCH'')
        else py_bind (parse_utc_timestamp h (dict_get receipt ''attested_at_utc'') ''ACKNOWLEDGEMENT_RECEIPT_MISMATCH'') (\<lambda>attested_at.
          py_bind (terminal_time h entries) (\<lambda>terminal_at.
          if attested_at < terminal_at then Inl (DeliveryError ''ACKNOWLEDGEMENT_TIME_ORDER_REJECTED'')
          else Inr (expected_receipt scope sha m @ [(''attested_at_utc'', dict_get receipt ''attested_at_utc''),
            (''receipt_path'', PStr (re_ack_name env))])))
      | _ \<Rightarrow> Inl (DeliveryError ''ACKNOWLEDGEMENT_RECEIPT_MISMATCH'')) = Inr receipt"
    using assms unfolding read_acknowledgement_def Let_def py_bind_Inr_iff by blast
  then show ?thesis by (cases v) (auto simp: py_bind_Inr_iff split: if_splits)
qed

text \<open>
  C39: acknowledgements. Recording one never touches the journal or the requests; where one is
  recorded already, it raises and changes nothing; and when it returns, the operator gave the exact
  confirmation, the journal on disk has the digest given and is valid for the message identifier,
  the attestation is not earlier than the last entry, and what it returns, which is what was read
  back, grants neither operational qualification nor trading authority.
\<close>

theorem acknowledge_sound:
  assumes "acknowledge h env w sha m confirmation = (r, w')"
  shows "journal_file w' = journal_file w \<and> posts w' = posts w
    \<and> (ack_file w \<noteq> None \<longrightarrow> w' = w \<and> (\<exists>e. r = Inl e))
    \<and> (\<forall>receipt. r = Inr receipt \<longrightarrow>
        confirmation = ACK_CONFIRMATION \<and> read_acknowledgement h (ae_readback env) w' sha m = Inr receipt
        \<and> (\<exists>raw entries t. journal_file w = Some raw \<and> d_sha256 h raw = sha \<and> validated_terminal_journal h raw m = Inr entries
            \<and> terminal_time h entries = Inr t \<and> t \<le> ae_now env)
        \<and> dict_get receipt ''qualification_journal_sha256'' = PStr sha \<and> dict_get receipt ''message_id'' = PInt m
        \<and> dict_get receipt ''human_acknowledged'' = PBool True \<and> dict_get receipt ''operationally_qualified'' = PBool False
        \<and> dict_get receipt ''trading_authority'' = PBool False)"
proof (intro conjI impI allI)
  show "journal_file w' = journal_file w" "posts w' = posts w" using acknowledge_world [OF assms] by simp_all
next
  assume "ack_file w \<noteq> None"
  then show "w' = w" "\<exists>e. r = Inl e"
    using assms by (auto simp: acknowledge_def exclusive_open_def split: sum.splits)
next
  fix receipt
  assume r: "r = Inr receipt"
  then obtain line where a: "attestation h env w sha m confirmation = Inr line"
    and b: "read_acknowledgement h (ae_readback env) w' sha m = Inr receipt"
    using assms by (auto simp: acknowledge_def appended_def Let_def py_bind_Inr_iff split: sum.splits write_answer.splits)
  show "confirmation = ACK_CONFIRMATION" "read_acknowledgement h (ae_readback env) w' sha m = Inr receipt"
    "\<exists>raw entries t. journal_file w = Some raw \<and> d_sha256 h raw = sha \<and> validated_terminal_journal h raw m = Inr entries
      \<and> terminal_time h entries = Inr t \<and> t \<le> ae_now env"
    using attestation_Inr [OF a] b by auto
  obtain scope v where "receipt = expected_receipt scope sha m @ [(''attested_at_utc'', v), (''receipt_path'', PStr (re_ack_name (ae_readback env)))]"
    using read_acknowledgement_Inr [OF b] by blast
  then show "dict_get receipt ''qualification_journal_sha256'' = PStr sha" "dict_get receipt ''message_id'' = PInt m"
    "dict_get receipt ''human_acknowledged'' = PBool True" "dict_get receipt ''operationally_qualified'' = PBool False"
    "dict_get receipt ''trading_authority'' = PBool False"
    by (simp_all add: expected_receipt_def dict_get_def)
qed

section \<open>The notification policy\<close>

text \<open>
  The policies that render. Exactly the enabled policies of the fixed receiver, bound to the
  digest of the baseline, whose three intervals are integers within their bounds, the repetition
  not shorter than the grouping.
\<close>

theorem policy_bounds:
  "policy_errors h baseline policy = Inr [] \<longleftrightarrow>
     (\<exists>m bs wait group repeat profile. policy = PDict m \<and> baseline = Inr bs \<and> keys_are m POLICY_FIELDS
       \<and> dict_get m ''schema_version'' = PInt 1 \<and> dict_get m ''enabled'' = PBool True \<and> dict_get m ''receiver'' = PStr ''telegram''
       \<and> dict_get m ''expected_bot_username'' = PStr EXPECTED_BOT \<and> dict_get m ''expected_chat_id'' = PInt EXPECTED_CHAT
       \<and> dict_get m ''profile'' = PStr profile \<and> profile \<in> {''base'', ''paper''}
       \<and> dict_get m ''source_sha256'' = PStr (d_sha256 h bs) \<and> hex_lower_n 64 (d_sha256 h bs)
       \<and> dict_get m ''group_wait_seconds'' = PInt wait \<and> 1 \<le> wait \<and> wait \<le> 300
       \<and> dict_get m ''group_interval_seconds'' = PInt group \<and> 1 \<le> group \<and> group \<le> 3600
       \<and> dict_get m ''repeat_interval_seconds'' = PInt repeat \<and> group \<le> repeat \<and> repeat \<le> 86400)"
proof -
  have between: "int_between low v high \<longleftrightarrow> (\<exists>i. v = PInt i \<and> low \<le> i \<and> i \<le> high)" for low v high by (cases v) auto
  have enabled: "enabled_errors v = [] \<longleftrightarrow> v = PBool True" for v by (cases v) (auto simp: enabled_errors_def)
  have source: "source_unbound h bs v \<longleftrightarrow> \<not> (v = PStr (d_sha256 h bs) \<and> hex_lower_n 64 (d_sha256 h bs))" for bs v
    by (cases v) (auto simp: source_unbound_def)
  have int: "py_eq v (PInt i) \<Longrightarrow> type_is_int v \<Longrightarrow> v = PInt i" for v i using int_field by blast
  show ?thesis
    by (cases policy; cases baseline)
      (auto simp: policy_errors_def gather_Nil between enabled source POLICY_LIMITS_def simp del: gather.simps dest: int)
qed

end
