(* ===== verification/Alert_Sample.thy ===== *)
theory Alert_Sample
  imports Alert_Journal
begin

text \<open>
  A complete qualification with its acknowledgement, at which the theorems on the alert delivery
  apply. The JSON reader of the sample knows the three answers of the service and the four lines
  of the journal.
\<close>

section \<open>The sample\<close>

definition sample_entry :: "delivery_host \<Rightarrow> nat \<Rightarrow> pyval" where
  "sample_entry h k = PDict (entry_of h 7 [0, 0, 0] k)"

definition plain_host :: delivery_host where
  "plain_host = \<lparr>d_sha256 = (\<lambda>_. replicate 64 (CHR ''b'')), d_json = (\<lambda>_. Inl JSONDecodeError), d_fromisoformat = (\<lambda>_. Inr (0, Some 0)),
     d_isoformat = (\<lambda>_. ''t''), d_repr_float = (\<lambda>_. ''1.0''), d_implementation = replicate 64 (CHR ''a'')\<rparr>"

definition sample_sha :: string where "sample_sha = replicate 64 (CHR ''b'')"

definition sample_receipt :: items where
  "sample_receipt = expected_receipt sample_sha sample_sha 7 @ [(''attested_at_utc'', PStr ''t'')]"

definition sample_json :: "bytes \<Rightarrow> jtree py" where
  "sample_json bs =
     (if bs = ''me'' then Inr (JObj [(''ok'', JBool True), (''result'', JObj [(''is_bot'', JBool True), (''username'', JStr EXPECTED_BOT)])])
      else if bs = ''chat'' then Inr (JObj [(''ok'', JBool True), (''result'', JObj [(''id'', JInt EXPECTED_TEST_CHAT), (''type'', JStr ''group'')])])
      else if bs = ''sent'' then Inr (JObj [(''ok'', JBool True),
        (''result'', JObj [(''chat'', JObj [(''id'', JInt EXPECTED_TEST_CHAT)]), (''message_id'', JInt 7)])])
      else if json_line plain_host sample_receipt = Inr bs then Inr (tree_of (sorted_value (PDict sample_receipt)))
      else case find (\<lambda>k. canonical plain_host (sample_entry plain_host k) = Inr bs) [0..<4] of
             Some k \<Rightarrow> Inr (tree_of (sorted_value (sample_entry plain_host k)))
           | None \<Rightarrow> Inl JSONDecodeError)"

definition sample_host :: delivery_host where
  "sample_host = plain_host\<lparr>d_json := sample_json\<rparr>"

lemma short_numbers: "show_int 0 = ''0''" "show_int 1 = ''1''" "show_int 7 = ''7''"
  by (code_simp)+

lemma key_orders: "json_string ''expected_bot_username'' @ s \<noteq> json_string ''error_category'' @ t"
  "json_string ''message_id'' @ s \<noteq> json_string ''observed_at_utc'' @ t"
  by (simp_all add: json_string_def json_char_def)

lemma small_length: "n < 10 ^ 12 \<Longrightarrow> \<not> 4300 < length (show_nat n)"
  using show_nat_length [of n 12] by simp

lemma sample_lengths: "\<not> 4300 < length (show_nat 0)" "\<not> 4300 < length (show_nat (Suc 0))" "\<not> 4300 < length (show_nat 7)"
  "\<not> 4300 < length (show_nat (nat \<bar>EXPECTED_TEST_CHAT\<bar>))"
  by (rule small_length, simp add: EXPECTED_TEST_CHAT_def)+

lemmas sample_texts = entry_of_def result_items_def stage_results result_start_def json_members_def short_numbers sample_lengths
  sample_entry_def

lemma below4: "k < 4 \<longleftrightarrow> k = 0 \<or> k = 1 \<or> k = 2 \<or> k = (3 :: nat)"
  by linarith

lemma sample_text: "k < 4 \<Longrightarrow> \<exists>t. json_text ft (sample_entry h k) = Inr (CHR ''{'' # t)"
  unfolding below4 by (elim disjE) (simp_all add: sample_texts)

lemma sample_distinct:
  assumes "j < 4" "k < 4" "json_text ft (sample_entry plain_host j) = json_text ft (sample_entry plain_host k)"
  shows "j = k"
proof -
  have d: "json_text ft (sample_entry plain_host 0) \<noteq> json_text ft (sample_entry plain_host 1)"
    "json_text ft (sample_entry plain_host 0) \<noteq> json_text ft (sample_entry plain_host 2)"
    "json_text ft (sample_entry plain_host 0) \<noteq> json_text ft (sample_entry plain_host 3)"
    "json_text ft (sample_entry plain_host 1) \<noteq> json_text ft (sample_entry plain_host 2)"
    "json_text ft (sample_entry plain_host 1) \<noteq> json_text ft (sample_entry plain_host 3)"
    "json_text ft (sample_entry plain_host 2) \<noteq> json_text ft (sample_entry plain_host 3)"
    by (simp_all add: sample_texts key_orders key_orders [symmetric] plain_host_def)
  show ?thesis using assms d unfolding below4 by metis
qed

lemma sample_canonical:
  assumes "k < 4"
  shows "\<exists>t. canonical h (sample_entry g k) = Inr (CHR ''{'' # t)"
proof -
  obtain t where t: "json_text (lenient_float (d_repr_float h)) (sample_entry g k) = Inr (CHR ''{'' # t)" using sample_text [OF assms] by blast
  have "char_of (123 :: nat) = CHR ''{''" by code_simp
  then have "utf8_text (CHR ''{'' # t) = CHR ''{'' # utf8_text t" by (simp add: utf8_text_def utf8_encode_point_def)
  with t show ?thesis by (simp add: canonical_def)
qed

lemma sample_host_entry [simp]: "sample_entry sample_host k = sample_entry plain_host k"
  by (simp add: sample_entry_def entry_of_def result_items_def test_message_sha256_def sample_host_def plain_host_def)

lemma sample_host_canonical [simp]: "canonical sample_host = canonical plain_host"
  by (simp add: canonical_def fun_eq_iff sample_host_def)

lemma sample_canonical_distinct:
  assumes "j < 4" "k < 4" "canonical plain_host (sample_entry plain_host j) = canonical plain_host (sample_entry plain_host k)"
  shows "j = k"
proof (rule sample_distinct [OF assms(1,2)])
  let ?text = "\<lambda>k. json_text (lenient_float (d_repr_float plain_host)) (sample_entry plain_host k)"
  obtain s t where "?text j = Inr s" "?text k = Inr t" using assms(1,2) sample_text by blast
  then show "?text j = ?text k" using assms(3) by (simp add: canonical_def utf8_text_inject)
qed

lemma sample_reads_back:
  assumes "k < 4"
  shows "reads_back sample_host (sample_entry plain_host k)"
  unfolding reads_back_def
proof (intro allI impI)
  fix bs
  assume "canonical sample_host (sample_entry plain_host k) = Inr bs"
  then have bs: "canonical plain_host (sample_entry plain_host k) = Inr bs" by simp
  then obtain t where t: "bs = CHR ''{'' # t" using sample_canonical [OF assms, of plain_host plain_host] by auto
  have "no_control bs"
    using bs no_control_json(1) [of _ "sample_entry plain_host k"] no_control_utf8 entry_float_free
    by (auto simp: canonical_def py_bind_Inr_iff sample_entry_def)
  then have not_receipt: "json_line plain_host sample_receipt \<noteq> Inr bs" by (auto simp: json_line_def newline_def py_bind_Inr_iff)
  have "find (\<lambda>j. canonical plain_host (sample_entry plain_host j) = Inr bs) [0..<4] = Some k"
    unfolding find_Some_iff
  proof (intro exI [of _ k] conjI allI impI)
    fix j
    assume "j < k"
    then show "canonical plain_host (sample_entry plain_host ([0..<4] ! j)) \<noteq> Inr bs"
      using assms bs sample_canonical_distinct [of j k] by auto
  qed (use assms bs in simp_all)
  then show "d_json sample_host bs = Inr (tree_of (sorted_value (sample_entry plain_host k)))"
    using not_receipt by (simp add: sample_host_def sample_json_def t)
qed

section \<open>Its run\<close>

definition sample_files :: preflight where
  "sample_files = \<lparr>ops_path = [], token_path = [], token_is_dedicated = Inr True, token_is_file = True,
     ops_acl = Posix_mode (Inr 448), token_acl = Posix_mode (Inr 384), receipts_path = [], mkdir = Inr (),
     receipts_acl = Posix_mode (Inr 448)\<rparr>"

definition sample_env :: "nat \<Rightarrow> qual_env" where
  "sample_env k = \<lparr>env_preflight = sample_files, env_open = Inr (), env_write = Written, env_acl = Posix_mode (Inr 384),
     env_token_size = Inr 40, env_token = Inr (''123456:'' @ replicate 35 (CHR ''A'')),
     env_http = Http_response 200 (if k = 5 then ''me'' else if k = 6 then ''chat'' else ''sent''), env_now = 0\<rparr>"

definition fresh_world :: delivery_world where
  "fresh_world = \<lparr>journal_file = None, ack_file = None, posts = []\<rparr>"

lemma sample_preflight: "check_preflight sample_files = Inr ()"
  by (simp add: check_preflight_def sample_files_def no_reparse_def private_acl_def)

lemma sample_token: "check_token (Inr 40) (Inr (''123456:'' @ replicate 35 (CHR ''A''))) = Inr ()"
  by code_simp

lemma sample_calls:
  "py_bind (transport_call sample_host (Http_response 200 ''me'')) check_identity = Inr ()"
  "py_bind (transport_call sample_host (Http_response 200 ''chat'')) check_chat = Inr ()"
  "py_bind (transport_call sample_host (Http_response 200 ''sent'')) check_sent = Inr 7"
  by (simp_all add: transport_call_def http_body_def MAX_RESPONSE_def sample_host_def sample_json_def check_identity_def check_chat_def
      check_sent_def dict_get_def)

lemma sample_lines:
  "\<exists>l. json_line sample_host (result_items sample_host result_start) = Inr l"
  "k \<in> {1, 2, 3} \<Longrightarrow> \<exists>l. json_line sample_host (result_items sample_host (stage_result k 7)
     @ [(''observed_at_utc'', PStr (d_isoformat sample_host 0))]) = Inr l"
proof -
  have e: "\<exists>l. json_line sample_host (entry_of sample_host 7 [0, 0, 0] k) = Inr l" if "k < 4" for k
    using sample_canonical [OF that, of sample_host sample_host] unfolding sample_entry_def by (auto simp: json_line_def)
  show "\<exists>l. json_line sample_host (result_items sample_host result_start) = Inr l"
    using e [of 0] by (simp add: entry_of_def)
  show "\<exists>l. json_line sample_host (result_items sample_host (stage_result k 7)
     @ [(''observed_at_utc'', PStr (d_isoformat sample_host 0))]) = Inr l" if "k \<in> {1, 2, 3}"
    using that e [of k] by (auto simp: entry_of_def)
qed

definition sample_proc :: "qual_point \<Rightarrow> qual_result \<Rightarrow> bool \<Rightarrow> qual_proc" where
  "sample_proc pt r s = \<lparr>point = pt, authorize_one_test = True, res = r, sending = s\<rparr>"

lemma sample_proc_simps [simp]:
  "point (sample_proc pt r s) = pt" "res (sample_proc pt r s) = r" "sending (sample_proc pt r s) = s" "authorize_one_test (sample_proc pt r s)"
  "(sample_proc pt r s)\<lparr>point := pt'\<rparr> = sample_proc pt' r s" "(sample_proc pt r s)\<lparr>res := r'\<rparr> = sample_proc pt r' s"
  "(sample_proc pt r s)\<lparr>sending := s'\<rparr> = sample_proc pt r s'"
  by (simp_all add: sample_proc_def)

lemma sample_record:
  assumes "r\<lparr>q_stage := stage, q_error := Some None\<rparr> = stage_result k 7" "k \<in> {1, 2, 3}"
  obtains c where "record_entry sample_host (sample_env i) stage None (fresh_world\<lparr>journal_file := Some b, posts := ps\<rparr>) (sample_proc pt r s)
    = (fresh_world\<lparr>journal_file := Some c, posts := ps\<rparr>, sample_proc pt (stage_result k 7) s, Inr ())"
  using sample_lines(2) [OF assms(2)] assms(1)
  by (auto simp: record_entry_def sample_env_def appended_def fresh_world_def Let_def)

lemma sample_run_step:
  "qual_step sample_host (sample_env k) w p = (w', p') \<Longrightarrow> remaining (point p) \<noteq> 0
    \<Longrightarrow> qual_run sample_host sample_env k w p = qual_run sample_host sample_env (Suc k) w' p'"
  by (simp add: qual_run.simps [of _ _ k])

lemma sample_done: "remaining (point p) = 0 \<Longrightarrow> qual_run h env k w p = (w, p)"
  by (simp add: qual_run.simps)

text \<open>Up to the first request.\<close>

lemma sample_start: "\<exists>c. qual_run sample_host sample_env 0 fresh_world (qual_start True)
  = qual_run sample_host sample_env 5 (fresh_world\<lparr>journal_file := Some c\<rparr>) (sample_proc Get_me result_start False)"
proof -
  let ?p = "\<lambda>pt. sample_proc pt result_start False" and ?w = "\<lambda>c. fresh_world\<lparr>journal_file := Some c\<rparr>"
  obtain l where l: "json_line sample_host (result_items sample_host result_start) = Inr l" using sample_lines(1) by blast
  have "qual_start True = ?p Start" by (simp add: qual_start_def sample_proc_def)
  moreover have "qual_step sample_host (sample_env 0) fresh_world (?p Start) = (fresh_world, ?p Create)"
    by (simp add: qual_step_def step_start_def sample_env_def sample_preflight)
  moreover have "qual_step sample_host (sample_env 1) fresh_world (?p Create) = (?w [], ?p Fill)"
    by (simp add: qual_step_def step_create_def l exclusive_open_def sample_env_def fresh_world_def)
  moreover have "qual_step sample_host (sample_env 2) (?w []) (?p Fill) = (?w l, ?p Guard)"
    by (simp add: qual_step_def step_fill_def l appended_def sample_env_def)
  moreover have "qual_step sample_host (sample_env 3) (?w l) (?p Guard) = (?w l, ?p Token)"
    by (simp add: qual_step_def private_acl_def sample_env_def)
  moreover have "qual_step sample_host (sample_env 4) (?w l) (?p Token) = (?w l, ?p Get_me)"
    using sample_token by (simp add: qual_step_def advance_to_def sample_env_def)
  ultimately show ?thesis
    by (intro exI [of _ l]) (simp add: sample_run_step eval_nat_numeral)
qed

text \<open>The two requests that identify, and the reservation.\<close>

lemma sample_middle: "\<exists>c. qual_run sample_host sample_env 5 (fresh_world\<lparr>journal_file := Some b\<rparr>) (sample_proc Get_me result_start False)
  = qual_run sample_host sample_env 9 (fresh_world\<lparr>journal_file := Some c, posts := [GetMe, GetChat EXPECTED_TEST_CHAT]\<rparr>)
      (sample_proc Send (stage_result 2 7) False)"
proof -
  let ?r1 = "result_start\<lparr>q_get_me := 1\<rparr>" and ?r2 = "result_start\<lparr>q_get_me := 1, q_get_chat := 1\<rparr>"
  let ?w = "\<lambda>c. fresh_world\<lparr>journal_file := Some c, posts := [GetMe, GetChat EXPECTED_TEST_CHAT]\<rparr>"
  have a: "qual_step sample_host (sample_env 5) (fresh_world\<lparr>journal_file := Some b\<rparr>) (sample_proc Get_me result_start False)
      = (fresh_world\<lparr>journal_file := Some b, posts := [GetMe]\<rparr>, sample_proc Get_chat ?r1 False)"
    by (simp add: qual_step_def step_get_me_def advance_to_def requested_def sample_env_def sample_calls fresh_world_def)
  have b: "qual_step sample_host (sample_env 6) (fresh_world\<lparr>journal_file := Some b, posts := [GetMe]\<rparr>) (sample_proc Get_chat ?r1 False)
      = (?w b, sample_proc Identity ?r2 False)"
    by (simp add: qual_step_def step_get_chat_def advance_to_def requested_def sample_env_def sample_calls fresh_world_def)
  obtain c where c: "record_entry sample_host (sample_env 7) ''IDENTITY_VERIFIED'' None (?w b) (sample_proc Identity ?r2 False)
      = (?w c, sample_proc Identity (stage_result 1 7) False, Inr ())"
    by (rule sample_record [where ?r = "?r2" and ?stage = "''IDENTITY_VERIFIED''" and ?k = 1]) (simp_all add: stage_results result_start_def)
  obtain d where d: "record_entry sample_host (sample_env 8) ''SEND_RESERVED'' None (?w c)
      (sample_proc Reserve ((stage_result 1 7)\<lparr>q_attempts := 1\<rparr>) False) = (?w d, sample_proc Reserve (stage_result 2 7) False, Inr ())"
    by (rule sample_record [where ?r = "(stage_result 1 7)\<lparr>q_attempts := 1\<rparr>" and ?stage = "''SEND_RESERVED''" and ?k = 2]) (simp_all add: stage_results result_start_def)
  have "qual_step sample_host (sample_env 7) (?w b) (sample_proc Identity ?r2 False) = (?w c, sample_proc Reserve (stage_result 1 7) False)"
    using c by (simp add: qual_step_def advance_to_def)
  moreover have "qual_step sample_host (sample_env 8) (?w c) (sample_proc Reserve (stage_result 1 7) False)
      = (?w d, sample_proc Send (stage_result 2 7) False)"
    using d by (simp add: qual_step_def step_reserve_def advance_to_def)
  ultimately show ?thesis using a b by (intro exI [of _ d]) (simp add: sample_run_step eval_nat_numeral)
qed

text \<open>The message.\<close>

lemma sample_end: "\<exists>c. qual_run sample_host sample_env 9 (fresh_world\<lparr>journal_file := Some b, posts := [GetMe, GetChat EXPECTED_TEST_CHAT]\<rparr>)
    (sample_proc Send (stage_result 2 7) False)
  = (fresh_world\<lparr>journal_file := Some c, posts := [GetMe, GetChat EXPECTED_TEST_CHAT, SendMessage EXPECTED_TEST_CHAT TEST_MESSAGE False True]\<rparr>,
     sample_proc Returned (stage_result 3 7) True)"
proof -
  let ?w = "\<lambda>c. fresh_world\<lparr>journal_file := Some c,
    posts := [GetMe, GetChat EXPECTED_TEST_CHAT, SendMessage EXPECTED_TEST_CHAT TEST_MESSAGE False True]\<rparr>"
  let ?r = "(stage_result 3 7)\<lparr>q_stage := ''SEND_RESERVED''\<rparr>"
  have a: "qual_step sample_host (sample_env 9) (fresh_world\<lparr>journal_file := Some b, posts := [GetMe, GetChat EXPECTED_TEST_CHAT]\<rparr>)
      (sample_proc Send (stage_result 2 7) False) = (?w b, sample_proc Accept ?r True)"
    by (simp add: qual_step_def step_send_def requested_def sample_env_def sample_calls fresh_world_def stage_results result_start_def)
  obtain c where c: "record_entry sample_host (sample_env 10) ''TRANSPORT_ACCEPTED'' None (?w b) (sample_proc Accept ?r True)
      = (?w c, sample_proc Accept (stage_result 3 7) True, Inr ())"
    by (rule sample_record [where ?r = "?r" and ?stage = "''TRANSPORT_ACCEPTED''" and ?k = 3]) (simp_all add: stage_results result_start_def)
  have "qual_step sample_host (sample_env 10) (?w b) (sample_proc Accept ?r True) = (?w c, sample_proc Returned (stage_result 3 7) True)"
    using c by (simp add: qual_step_def advance_to_def)
  with a show ?thesis by (intro exI [of _ c]) (simp add: sample_run_step sample_done eval_nat_numeral)
qed

lemma sample_qual_run: "\<exists>c. qual_run sample_host sample_env 0 fresh_world (qual_start True)
  = (fresh_world\<lparr>journal_file := Some c, posts := [GetMe, GetChat EXPECTED_TEST_CHAT, SendMessage EXPECTED_TEST_CHAT TEST_MESSAGE False True]\<rparr>,
     sample_proc Returned (stage_result 3 7) True)"
  using sample_start sample_middle sample_end by metis

section \<open>Witnesses\<close>

lemma sample_qualified:
  "\<exists>c. qualify sample_host sample_env True fresh_world = (Inr (result_items sample_host (stage_result 3 7)),
     fresh_world\<lparr>journal_file := Some c, posts := [GetMe, GetChat EXPECTED_TEST_CHAT, SendMessage EXPECTED_TEST_CHAT TEST_MESSAGE False True]\<rparr>)"
  using sample_qual_run by (auto simp: qualify_def)

theorem at_most_one_send_witness:
  "\<exists>w procs. (delivery_step sample_host)\<^sup>*\<^sup>* (fresh_world, \<lambda>_. None) (w, procs) \<and> sends w = 1 \<and> sends fresh_world = 0
    \<and> (\<exists>t t' b rest. journal_of sample_host 0 [t, t'] = Inr b \<and> journal_file w = Some (b @ rest))"
proof -
  obtain c where run: "qual_run sample_host sample_env 0 fresh_world (qual_start True)
    = (fresh_world\<lparr>journal_file := Some c, posts := [GetMe, GetChat EXPECTED_TEST_CHAT, SendMessage EXPECTED_TEST_CHAT TEST_MESSAGE False True]\<rparr>,
       sample_proc Returned (stage_result 3 7) True)" (is "_ = (?w, ?p)") using sample_qual_run by blast
  have "delivery_step sample_host (fresh_world, \<lambda>_. None) (fresh_world, (\<lambda>_. None)(0 \<mapsto> qual_start True))"
    by (rule delivery_step.launch) simp
  also note qual_run_steps [OF run, of "\<lambda>_. None" 0]
  finally have s: "(delivery_step sample_host)\<^sup>*\<^sup>* (fresh_world, \<lambda>_. None) (?w, (\<lambda>_. None)(0 \<mapsto> ?p))" .
  moreover have "sends ?w = 1" "sends fresh_world = 0" by (simp_all add: sends_def is_send_def fresh_world_def)
  ultimately show ?thesis using at_most_one_send [OF s] by (metis zero_neq_one)
qed

lemma sample_reads: "\<forall>k \<le> 3. reads_back sample_host (PDict (entry_of sample_host 7 [env_now (sample_env 7), env_now (sample_env 8), env_now (sample_env 10)] k))"
proof (intro allI impI)
  fix k :: nat
  assume "k \<le> 3"
  then have "k < 4" by linarith
  from sample_reads_back [OF this] show "reads_back sample_host (PDict (entry_of sample_host 7 [env_now (sample_env 7), env_now (sample_env 8), env_now (sample_env 10)] k))"
    using sample_host_entry [of k] unfolding sample_entry_def by (simp add: sample_env_def)
qed

lemma sample_hosts: "hex_lower_n 64 (d_implementation sample_host)" "d_fromisoformat sample_host s = Inr (0, Some 0)"
  "d_sha256 sample_host bs = replicate 64 (CHR ''b'')"
  by (simp_all add: sample_host_def plain_host_def hex_lower_n_def list_all_iff is_hex_lower_def)

theorem qualification_validates_witness:
  "\<exists>result w' raw. qualify sample_host sample_env True fresh_world = (Inr result, w')
    \<and> dict_get result ''message_id'' = PInt 7 \<and> journal_file w' = Some raw
    \<and> (\<exists>entries. validated_terminal_journal sample_host raw 7 = Inr entries)
    \<and> (\<exists>c. validated_terminal_journal sample_host raw 8 = Inl (DeliveryError c))"
proof -
  obtain w' where q: "qualify sample_host sample_env True fresh_world = (Inr (result_items sample_host (stage_result 3 7)), w')"
    using sample_qualified by blast
  have r: "dict_get (result_items sample_host (stage_result 3 7)) ''stage'' = PStr ''TRANSPORT_ACCEPTED''"
    "dict_get (result_items sample_host (stage_result 3 7)) ''message_id'' = PInt 7"
    by (simp_all add: result_items_def dict_get_def stage_results result_start_def)
  have "\<forall>t \<in> set [env_now (sample_env 7), env_now (sample_env 8), env_now (sample_env 10)].
      d_fromisoformat sample_host (d_isoformat sample_host t) = Inr (t, Some 0)"
    and "sorted [env_now (sample_env 7), env_now (sample_env 8), env_now (sample_env 10)]"
    by (simp_all add: sample_hosts sample_env_def)
  from qualification_validates [OF q r refl this(2) sample_reads sample_hosts(1) this(1)]
  obtain raw where "journal_file w' = Some raw" "\<exists>entries. validated_terminal_journal sample_host raw 7 = Inr entries"
    and other: "\<forall>m'. m' \<noteq> 7 \<longrightarrow> (\<exists>c. validated_terminal_journal sample_host raw m' = Inl (DeliveryError c))"
    by blast
  moreover have "\<exists>c. validated_terminal_journal sample_host raw 8 = Inl (DeliveryError c)" using other by simp
  ultimately show ?thesis using q r(2) by blast
qed

text \<open>The journal of the sample, for the theorems on journals.\<close>

lemma sample_journal:
  "\<exists>raw entries. journal_of sample_host 7 [0, 0, 0] = Inr raw \<and> validated_terminal_journal sample_host raw 7 = Inr entries
    \<and> entries = map (\<lambda>k. sorted_items (entry_of sample_host 7 [0, 0, 0] k)) [0..<4]"
proof -
  obtain w' where q: "qualify sample_host sample_env True fresh_world = (Inr (result_items sample_host (stage_result 3 7)), w')"
    using sample_qualified by blast
  have m: "dict_get (result_items sample_host (stage_result 3 i)) ''message_id'' = PInt i" for i
    by (simp add: result_items_def dict_get_def stage_results result_start_def)
  have "dict_get (result_items sample_host (stage_result 3 7)) ''stage'' = PStr ''TRANSPORT_ACCEPTED''"
    by (simp add: result_items_def dict_get_def stage_results result_start_def)
  from qualify_accepted [OF q this] obtain i where i: "result_items sample_host (stage_result 3 7) = result_items sample_host (stage_result 3 i)"
    and j: "journal_is sample_host i [env_now (sample_env 7), env_now (sample_env 8), env_now (sample_env 10)] w'"
    by blast
  have "i = 7" using m [of 7] m [of i] unfolding i by (metis pyval.inject(2))
  moreover have "env_now (sample_env k) = 0" for k by (simp add: sample_env_def)
  ultimately obtain raw where raw: "journal_of sample_host 7 [0, 0, 0] = Inr raw" using j unfolding journal_is_def by metis
  have "\<forall>k \<le> 3. reads_back sample_host (PDict (entry_of sample_host 7 [0, 0, 0] k))" using sample_reads by (simp add: sample_env_def)
  then have "validated_terminal_journal sample_host raw 7 = Inr (map (\<lambda>k. sorted_items (entry_of sample_host 7 [0, 0, 0] k)) [0..<4])"
    by (intro journal_validates [OF raw _ _ _ sample_hosts(1)]) (simp_all only: sample_hosts(2) list.set list.size, auto)
  then show ?thesis using raw by blast
qed

theorem journal_typed_witness:
  "\<exists>raw entries. validated_terminal_journal sample_host raw 7 = Inr entries \<and> length entries = 4
    \<and> dict_get (entries ! 3) ''stage'' = PStr ''TRANSPORT_ACCEPTED'' \<and> map_of (entries ! 3) ''message_id'' = Some (PInt 7)"
proof -
  obtain raw entries where v: "validated_terminal_journal sample_host raw 7 = Inr entries" using sample_journal by blast
  from journal_typed [OF this] have "typed_entry sample_host 7 3 (entries ! 3)" "length entries = 4" by auto
  with v show ?thesis by (auto simp: typed_entry_def STAGES_def)
qed

section \<open>Its acknowledgement\<close>

definition sample_file :: file_answers where
  "sample_file = \<lparr>fa_path = [], fa_acl = Posix_mode (Inr 384), fa_size = Inr, fa_read = Inr ()\<rparr>"

definition sample_read_env :: read_env where
  "sample_read_env = \<lparr>re_ops_path = [], re_receipts_path = [], re_receipts_is_dir = True, re_ops_acl = Posix_mode (Inr 448),
     re_receipts_acl = Posix_mode (Inr 448), re_journal = sample_file, re_ack = sample_file, re_ack_name = ''ack.json''\<rparr>"

definition sample_ack_env :: ack_env where
  "sample_ack_env = \<lparr>ae_read = sample_read_env, ae_now = 0, ae_ack_path = [], ae_open = Inr (), ae_write = Written,
     ae_acl = Posix_mode (Inr 384), ae_readback = sample_read_env\<rparr>"

lemma sample_read_file:
  "c \<noteq> [] \<Longrightarrow> int (length c) \<le> n \<Longrightarrow> read_protected_file sample_file (Some c) n = Inr c"
  by (simp add: read_protected_file_def sample_file_def no_reparse_def private_acl_def)

lemma json_line_size:
  assumes "json_items (lenient_float (d_repr_float h)) m = Inr ms" "sum_list (map (\<lambda>(k, t). 6 * length k + length t + 4) ms) \<le> n"
  shows "\<exists>t. json_line h m = Inr (CHR ''{'' # t) \<and> length t \<le> 2 * n + 4"
proof -
  have "char_of (123 :: nat) = CHR ''{''" by code_simp
  then obtain t where t: "utf8_text (json_members ms) = CHR ''{'' # t" by (simp add: json_members_def utf8_text_def utf8_encode_point_def)
  have "length (utf8_text (json_members ms)) \<le> 2 * (2 + n)"
    using length_utf8_text [of "json_members ms"] length_json_members [of ms] assms(2) by simp
  then show ?thesis using assms(1) t by (simp add: json_line_def canonical_def newline_def)
qed

lemma chat_length: "length (show_int EXPECTED_TEST_CHAT) \<le> 13"
  using show_nat_length [of 100447580288 12] by (simp add: show_int_def EXPECTED_TEST_CHAT_def)

lemma sample_receipt_line:
  "\<exists>t. json_line sample_host sample_receipt = Inr (CHR ''{'' # t) \<and> length t \<le> 16000"
proof -
  have "\<exists>ms. json_items (lenient_float (d_repr_float sample_host)) sample_receipt = Inr ms
      \<and> sum_list (map (\<lambda>(k, t). 6 * length k + length t + 4) ms) \<le> 7000"
    using length_json_string [of sample_sha] length_json_string [of EXPECTED_BOT] length_json_string [of ACK_CONFIRMATION] chat_length
      length_json_string [of "''t''"] length_json_string [of "''qualification_test_only''"] length_json_string [of "''LOCAL_OPERATOR_ATTESTATION''"]
      length_json_string [of "''RECORDED_LOCAL_OPERATOR_ATTESTATION''"] length_json_string [of "''kairos.telegram.local-operator-attestation.v1''"]
    by (simp add: sample_receipt_def expected_receipt_def short_numbers sample_lengths EXPECTED_BOT_def ACK_CONFIRMATION_def
        sample_sha_def)
  then show ?thesis using json_line_size [of sample_host sample_receipt _ 7000] by fastforce
qed

lemma sample_entry_line:
  assumes "k < 4"
  shows "\<exists>l. json_line sample_host (entry_of sample_host 7 [0, 0, 0] k) = Inr l \<and> l \<noteq> [] \<and> length l \<le> 16000"
proof -
  have h: "test_message_sha256 sample_host = sample_sha" "d_implementation sample_host = replicate 64 (CHR ''a'')" "d_isoformat sample_host t = ''t''" for t
    by (simp_all add: test_message_sha256_def sample_host_def plain_host_def sample_sha_def)
  have "\<exists>ms. json_items (lenient_float (d_repr_float sample_host)) (entry_of sample_host 7 [0, 0, 0] k) = Inr ms
      \<and> sum_list (map (\<lambda>(k, t). 6 * length k + length t + 4) ms) \<le> 7000"
    using assms length_json_string [of sample_sha] length_json_string [of EXPECTED_BOT] chat_length
      length_json_string [of "replicate 64 (CHR ''a'')"] length_json_string [of "''t''"] length_json_string [of "''qualification_test_only''"]
      length_json_string [of "''PRECHECK_STARTED''"] length_json_string [of "''IDENTITY_VERIFIED''"]
      length_json_string [of "''SEND_RESERVED''"] length_json_string [of "''TRANSPORT_ACCEPTED''"]
      length_json_string [of "''getMe''"] length_json_string [of "''getChat''"] length_json_string [of "''sendMessage''"]
    unfolding below4
    by (elim disjE)
      (simp_all add: entry_of_def result_items_def stage_results result_start_def h short_numbers sample_lengths EXPECTED_BOT_def
        sample_sha_def json_members_def)
  then obtain ms where "json_items (lenient_float (d_repr_float sample_host)) (entry_of sample_host 7 [0, 0, 0] k) = Inr ms"
    "sum_list (map (\<lambda>(k, t). 6 * length k + length t + 4) ms) \<le> 7000" by blast
  from json_line_size [OF this] show ?thesis by auto
qed

lemma sample_journal_size:
  assumes "journal_of sample_host 7 [0, 0, 0] = Inr raw"
  shows "raw \<noteq> [] \<and> int (length raw) \<le> MAX_QUALIFICATION_JOURNAL_BYTES"
proof -
  have "[0..<Suc (length [0, 0, 0 :: int])] = [0, 1, 2, 3]" by (simp add: upt_conv_Cons numeral_2_eq_2 numeral_3_eq_3)
  then show ?thesis
    using assms sample_entry_line [of 0] sample_entry_line [of "Suc 0"] sample_entry_line [of "Suc (Suc 0)"] sample_entry_line [of "Suc (Suc (Suc 0))"]
    by (auto simp: journal_of_def py_bind_Inr_iff MAX_QUALIFICATION_JOURNAL_BYTES_def)
qed

lemma sample_terminal: "terminal_time sample_host (map (\<lambda>k. sorted_items (entry_of sample_host 7 [0, 0, 0] k)) [0..<4]) = Inr 0"
proof -
  have d: "distinct (map fst (entry_of sample_host 7 [0, 0, 0] 3))" using entry_distinct [of sample_host 7 "[0, 0, 0]" 3] by simp
  have "map_of (entry_of sample_host 7 [0, 0, 0] 3) ''observed_at_utc'' = Some (PStr (d_isoformat sample_host 0))"
    by (simp add: entry_of_def result_items_def stage_results result_start_def)
  moreover have "last (map (\<lambda>k. sorted_items (entry_of sample_host 7 [0, 0, 0] k)) [0..<4]) = sorted_items (entry_of sample_host 7 [0, 0, 0] 3)"
    by (simp add: last_map del: foldr.simps)
  ultimately show ?thesis
    by (simp add: terminal_time_def map_of_sorted_items [OF d] parse_utc_timestamp_def sample_hosts(2) del: foldr.simps)
qed

definition sample_world :: "bytes \<Rightarrow> delivery_world" where
  "sample_world raw = fresh_world\<lparr>journal_file := Some raw\<rparr>"

lemma sample_bound_journal:
  assumes "journal_of sample_host 7 [0, 0, 0] = Inr raw" "journal_file w = Some raw"
  shows "bound_journal sample_host sample_file w sample_sha 7 = Inr (map (\<lambda>k. sorted_items (entry_of sample_host 7 [0, 0, 0] k)) [0..<4])"
proof -
  have "read_protected_file sample_file (Some raw) MAX_QUALIFICATION_JOURNAL_BYTES = Inr raw"
    using sample_journal_size [OF assms(1)] by (intro sample_read_file) simp_all
  moreover have "validated_terminal_journal sample_host raw 7 = Inr (map (\<lambda>k. sorted_items (entry_of sample_host 7 [0, 0, 0] k)) [0..<4])"
    using sample_journal assms(1) by auto
  ultimately show ?thesis using assms(2) by (simp only: bound_journal_def sample_hosts(3) sample_sha_def py_bind.simps) simp
qed

lemma sample_scope: "qualification_scope sample_host = Inr sample_sha"
  by (simp add: qualification_scope_def canonical_def sample_lengths sample_hosts(3) sample_sha_def)

lemma sample_arguments: "check_arguments sample_sha 7 = Inr ()"
  by (simp add: check_arguments_def sample_sha_def hex_lower_n_def list_all_iff is_hex_lower_def)

lemma sample_attestation:
  assumes "journal_of sample_host 7 [0, 0, 0] = Inr raw"
  shows "attestation sample_host sample_ack_env (sample_world raw) sample_sha 7 ACK_CONFIRMATION = json_line sample_host sample_receipt"
proof -
  have "d_isoformat sample_host 0 = ''t''" by (simp add: sample_host_def plain_host_def)
  moreover have "bound_journal sample_host sample_file (sample_world raw) sample_sha 7
      = Inr (map (\<lambda>k. sorted_items (entry_of sample_host 7 [0, 0, 0] k)) [0..<4])"
    using assms by (intro sample_bound_journal) (simp_all add: sample_world_def)
  ultimately show ?thesis using sample_terminal
    by (simp add: attestation_def sample_arguments sample_ack_env_def sample_read_env_def no_reparse_def private_acl_def sample_scope
        sample_receipt_def del: foldr.simps upt_Suc list.map)
qed

lemma receipt_distinct: "distinct (map fst sample_receipt)" "distinct_keys (PDict sample_receipt)"
  by (simp_all add: sample_receipt_def expected_receipt_def)

lemma sample_receipt_read:
  assumes "json_line sample_host sample_receipt = Inr (CHR ''{'' # t)"
  shows "strict_loads sample_host c (CHR ''{'' # t) = Inr (PDict (sorted_items sample_receipt))"
proof -
  have "json_line plain_host sample_receipt = Inr (CHR ''{'' # t)" using assms by (simp add: json_line_def)
  then have "d_json sample_host (CHR ''{'' # t) = Inr (tree_of (sorted_value (PDict sample_receipt)))"
    by (simp add: sample_host_def sample_json_def)
  then show ?thesis using unique_tree(1) [OF distinct_keys_sorted(1) [OF receipt_distinct(2)]] by (simp add: strict_loads_def)
qed

lemma sample_receipt_matches:
  "\<not> receipt_mismatch (expected_receipt sample_sha sample_sha 7) (sorted_items sample_receipt)"
  unfolding receipt_mismatch_def keys_are_sorted
  by (simp add: field_differs_def dict_get_sorted [OF receipt_distinct(1)] BOOLEAN_FIELDS_def)
    (simp add: sample_receipt_def expected_receipt_def dict_get_def keys_are_def)

lemma sample_acknowledgement:
  assumes j: "journal_of sample_host 7 [0, 0, 0] = Inr raw"
  shows "\<exists>receipt w'. acknowledge sample_host sample_ack_env (sample_world raw) sample_sha 7 ACK_CONFIRMATION = (Inr receipt, w')"
proof -
  obtain t where t: "json_line sample_host sample_receipt = Inr (CHR ''{'' # t)" "length t \<le> 16000" using sample_receipt_line by blast
  let ?line = "CHR ''{'' # t" and ?w = "(sample_world raw)\<lparr>ack_file := Some (CHR ''{'' # t)\<rparr>"
  have "bound_journal sample_host sample_file ?w sample_sha 7 = Inr (map (\<lambda>k. sorted_items (entry_of sample_host 7 [0, 0, 0] k)) [0..<4])"
    using j by (intro sample_bound_journal) (simp_all add: sample_world_def)
  moreover have "read_protected_file sample_file (ack_file ?w) (16 * 1024) = Inr ?line" using t(2) by (simp add: sample_read_file)
  moreover have "parse_utc_timestamp sample_host (dict_get (sorted_items sample_receipt) ''attested_at_utc'') c = Inr 0" for c
    unfolding dict_get_sorted [OF receipt_distinct(1)]
    by (simp add: sample_receipt_def expected_receipt_def dict_get_def parse_utc_timestamp_def sample_hosts(2))
  ultimately have "\<exists>receipt. read_acknowledgement sample_host sample_read_env ?w sample_sha 7 = Inr receipt"
    using sample_receipt_read [OF t(1)] sample_receipt_matches sample_terminal
    by (simp add: read_acknowledgement_def sample_arguments sample_read_env_def no_reparse_def private_acl_def sample_scope
        del: foldr.simps upt_Suc list.map)
  moreover have "ack_file (sample_world raw) = None" by (simp add: sample_world_def fresh_world_def)
  moreover have "ae_open sample_ack_env = Inr ()" "ae_write sample_ack_env = Written" "ae_acl sample_ack_env = Posix_mode (Inr 384)"
    "ae_readback sample_ack_env = sample_read_env"
    by (simp_all add: sample_ack_env_def)
  ultimately show ?thesis
    unfolding acknowledge_def sample_attestation [OF j] t(1) by (auto simp: exclusive_open_def appended_def private_acl_def Let_def)
qed

theorem acknowledge_sound_witness:
  "\<exists>raw receipt w'. acknowledge sample_host sample_ack_env (sample_world raw) sample_sha 7 ACK_CONFIRMATION = (Inr receipt, w')
    \<and> posts w' = [] \<and> journal_file w' = Some raw \<and> d_sha256 sample_host raw = sample_sha
    \<and> dict_get receipt ''message_id'' = PInt 7 \<and> dict_get receipt ''operationally_qualified'' = PBool False"
proof -
  obtain raw where "journal_of sample_host 7 [0, 0, 0] = Inr raw" using sample_journal by blast
  from sample_acknowledgement [OF this] obtain receipt w'
    where a: "acknowledge sample_host sample_ack_env (sample_world raw) sample_sha 7 ACK_CONFIRMATION = (Inr receipt, w')" by blast
  from acknowledge_sound [OF this] have "posts w' = posts (sample_world raw)" "journal_file w' = journal_file (sample_world raw)"
    "dict_get receipt ''message_id'' = PInt 7" "dict_get receipt ''operationally_qualified'' = PBool False"
    "\<exists>b. journal_file (sample_world raw) = Some b \<and> d_sha256 sample_host b = sample_sha" by blast+
  with a show ?thesis by (auto simp: sample_world_def fresh_world_def)
qed

end
