(* ===== verification/Epoch_Feed.thy ===== *)
theory Epoch_Feed
  imports Py_Json
begin

text \<open>
  The feed of \<^verbatim>\<open>src/scripts/runtime_epoch_worker.py\<close>: how far one cycle of the epoch runtime catches
  up, how the public source is read and retried, which failures only make the runtime wait, and
  the recovery of the five symbols in one cycle. What the exchange, the database and the recovery
  routine of the trading package answer is an input.
\<close>

section \<open>Constants\<close>

definition FEED_SYMBOLS :: "string list" where
  "FEED_SYMBOLS = [''BTCUSDT'', ''ETHUSDT'', ''SOLUSDT'', ''BNBUSDT'', ''XRPUSDT'']"

definition MINUTE :: int where "MINUTE = 60000"
definition MAX_BARS :: int where "MAX_BARS = 150000"
definition MAX_PENDING :: int where "MAX_PENDING = 100"
definition RECOVERY_PAGE_SIZE :: int where "RECOVERY_PAGE_SIZE = 200"
definition FINALITY_MS :: int where "FINALITY_MS = 5000"
definition FETCH_ATTEMPTS :: nat where "FETCH_ATTEMPTS = 3"
definition FETCH_RETRY_SECONDS :: "nat list" where "FETCH_RETRY_SECONDS = [2, 4]"
definition SOURCE_WAIT_SECONDS :: "nat list" where "SOURCE_WAIT_SECONDS = [5, 15, 30, 60]"
definition MAX_UNPUBLISHED_CONFIRMATION_RETRIES :: nat where "MAX_UNPUBLISHED_CONFIRMATION_RETRIES = 2"

section \<open>The interval of a cycle\<close>

text \<open>A closed bar, with the bytes \<^verbatim>\<open>canonical_bar_bytes\<close> gives for it; the last bar of each symbol.\<close>

record closed_bar =
  cb_symbol :: string
  cb_open :: int
  cb_close :: int
  cb_bytes :: bytes

type_synonym bar_anchors = "(string \<times> closed_bar) list"

abbreviation epoch_fail :: "string \<Rightarrow> 'a py" where
  "epoch_fail m \<equiv> Inl (EpochError m)"

definition five_symbols :: "(string \<times> 'a) list \<Rightarrow> bool" where
  "five_symbols values_of \<longleftrightarrow> set (map fst values_of) = set FEED_SYMBOLS"

definition required_bars :: "bar_anchors \<Rightarrow> int \<Rightarrow> int py" where
  "required_bars bars end =
     (let intervals = map (\<lambda>(_, e). end - cb_close e - 1) bars in
      if \<not> five_symbols bars \<or> list_ex (\<lambda>n. n < 0 \<or> n mod MINUTE \<noteq> 0) intervals
      then epoch_fail ''FIXED_CATCHUP_INTERVAL_REQUIRED''
      else Inr (sum_list (map (\<lambda>n. n div MINUTE) intervals)))"

definition bounded_runtime_end :: "bar_anchors \<Rightarrow> int \<Rightarrow> int py" where
  "bounded_runtime_end bars target =
     (if \<not> five_symbols bars \<or> target mod MINUTE \<noteq> 0 then epoch_fail ''FIXED_CATCHUP_INTERVAL_REQUIRED''
      else
        let latest = Max (set (map (\<lambda>(_, e). cb_close e + 1) bars)) in
        if latest > target then epoch_fail ''FINALITY_CLOCK_REGRESSION''
        else
          py_bind (required_bars bars latest) (\<lambda>baseline.
          if baseline > MAX_PENDING then epoch_fail ''RUNTIME_WATERMARK_SKEW_EXCEEDS_PENDING_CAP''
          else
            let capacity_minutes = (MAX_PENDING - baseline) div int (length FEED_SYMBOLS);
                end = min target (latest + capacity_minutes * MINUTE) in
            py_bind (required_bars bars end) (\<lambda>n.
            if n > MAX_PENDING then epoch_fail ''EPOCH_INTERVAL_EXCEEDS_FIXED_CAP'' else Inr end)))"

text \<open>\<^verbatim>\<open>target\<close> of a cycle: the last minute boundary that is final at \<open>now_ms\<close>.\<close>

definition finalized_target :: "int \<Rightarrow> int" where
  "finalized_target now_ms = (now_ms - FINALITY_MS) div MINUTE * MINUTE"

section \<open>Failures of the source\<close>

text \<open>What a task group raises: an exception, or a group of such.\<close>

datatype fault = Leaf exn | Group "fault list"

definition TIMEOUT_REASON :: string where "TIMEOUT_REASON = ''OFFICIAL_CLOSED_BAR_FETCH_TIMEOUT''"
definition DNS_REASON :: string where "DNS_REASON = ''OFFICIAL_CLOSED_BAR_FETCH_DNS_FAILURE''"

fun source_wait_reason :: "fault \<Rightarrow> string option" where
  "source_wait_reason (Group faults) =
     (let reasons = map source_wait_reason faults in
      case reasons of
        Some r # _ \<Rightarrow> if list_all (\<lambda>reason. reason = Some r) reasons then Some r else None
      | _ \<Rightarrow> None)"
| "source_wait_reason (Leaf e) =
     (if e = EpochError TIMEOUT_REASON then Some TIMEOUT_REASON
      else if e = EpochError DNS_REASON then Some DNS_REASON else None)"

record source_circuit =
  timeouts :: int
  dns_failures :: int
  recoveries :: int
  consecutive :: int
  consecutive_timeouts :: int
  consecutive_dns_failures :: int

definition circuit_start :: source_circuit where
  "circuit_start = \<lparr>timeouts = 0, dns_failures = 0, recoveries = 0, consecutive = 0, consecutive_timeouts = 0,
     consecutive_dns_failures = 0\<rparr>"

definition circuit_failed :: "source_circuit \<Rightarrow> fault \<Rightarrow> fault + string \<times> source_circuit" where
  "circuit_failed c err =
     (case source_wait_reason err of
        None \<Rightarrow> Inl err
      | Some reason \<Rightarrow>
          let c' = c\<lparr>consecutive := consecutive c + 1\<rparr> in
          Inr (reason,
            if reason = DNS_REASON
            then c'\<lparr>dns_failures := dns_failures c + 1, consecutive_dns_failures := consecutive_dns_failures c + 1,
                   consecutive_timeouts := 0\<rparr>
            else c'\<lparr>timeouts := timeouts c + 1, consecutive_timeouts := consecutive_timeouts c + 1,
                   consecutive_dns_failures := 0\<rparr>))"

definition circuit_succeeded :: "source_circuit \<Rightarrow> source_circuit" where
  "circuit_succeeded c =
     (if consecutive c \<noteq> 0 then c\<lparr>recoveries := recoveries c + 1\<rparr> else c)
       \<lparr>consecutive := 0, consecutive_timeouts := 0, consecutive_dns_failures := 0\<rparr>"

definition circuit_snapshot :: "source_circuit \<Rightarrow> items" where
  "circuit_snapshot c =
     [(''timeout_rounds'', PInt (timeouts c)), (''recoveries'', PInt (recoveries c)),
      (''consecutive_timeout_rounds'', PInt (consecutive_timeouts c))]
     @ (if dns_failures c \<noteq> 0
        then [(''dns_failure_rounds'', PInt (dns_failures c)),
              (''consecutive_dns_failure_rounds'', PInt (consecutive_dns_failures c))]
        else [])"

definition wait_delay :: "source_circuit \<Rightarrow> nat" where
  "wait_delay c = SOURCE_WAIT_SECONDS ! min (nat (max (consecutive c - 1) 0)) (length SOURCE_WAIT_SECONDS - 1)"

section \<open>Reading one page\<close>

text \<open>
  What one request meets: it may fail before or while its body is read, by a timeout, by a DNS
  failure of the connector, or otherwise.
\<close>

datatype fetch_failure = Timeout | Dns_failure | Other_failure exn

datatype fetch_answer =
    Fetch_fails fetch_failure
  | Fetch_response int "int option" "bytes list" "fetch_failure option"

definition MAX_BODY :: int where "MAX_BODY = 2000000"

fun read_chunks :: "int \<Rightarrow> bytes \<Rightarrow> bytes list \<Rightarrow> fetch_failure option \<Rightarrow> fetch_failure + bytes" where
  "read_chunks n body [] failure = (case failure of Some f \<Rightarrow> Inl f | None \<Rightarrow> Inr body)"
| "read_chunks n body (chunk # chunks) failure =
     (let n = n + int (length chunk) in
      if n > MAX_BODY then Inl (Other_failure (EpochError ''REST_RESPONSE_BOUND_EXCEEDED''))
      else read_chunks n (body @ chunk) chunks failure)"

definition one_fetch :: "(bytes \<Rightarrow> pyval py) \<Rightarrow> fetch_answer \<Rightarrow> fetch_failure + pyval" where
  "one_fetch json answer =
     (case answer of
        Fetch_fails f \<Rightarrow> Inl f
      | Fetch_response status content_length chunks failure \<Rightarrow>
          if status \<noteq> 200 \<or> (case content_length of None \<Rightarrow> False | Some n \<Rightarrow> n > MAX_BODY)
          then Inl (Other_failure (EpochError ''OFFICIAL_CLOSED_BAR_FETCH_FAILED''))
          else
            py_bind (read_chunks 0 [] chunks failure) (\<lambda>body.
              case json body of Inl e \<Rightarrow> Inl (Other_failure e) | Inr v \<Rightarrow> Inr v))"

text \<open>The attempts from number \<open>k\<close> on, with the seconds slept between them.\<close>

function fetch_from :: "(bytes \<Rightarrow> pyval py) \<Rightarrow> (nat \<Rightarrow> fetch_answer) \<Rightarrow> nat \<Rightarrow> pyval py \<times> nat list" where
  "fetch_from json answers k =
     (if k \<ge> FETCH_ATTEMPTS then (epoch_fail TIMEOUT_REASON, [])
      else
        case one_fetch json (answers k) of
          Inr v \<Rightarrow> (Inr v, [])
        | Inl (Other_failure e) \<Rightarrow> (Inl e, [])
        | Inl failure \<Rightarrow>
            if k + 1 = FETCH_ATTEMPTS
            then (epoch_fail (if failure = Timeout then TIMEOUT_REASON else DNS_REASON), [])
            else case fetch_from json answers (Suc k) of (r, slept) \<Rightarrow> (r, FETCH_RETRY_SECONDS ! k # slept))"
  by pat_completeness auto
termination by (relation "measure (\<lambda>(_, _, k). FETCH_ATTEMPTS - k)") (auto simp: FETCH_ATTEMPTS_def)

declare fetch_from.simps [simp del]

definition fetch_closed_bar_page :: "(bytes \<Rightarrow> pyval py) \<Rightarrow> (nat \<Rightarrow> fetch_answer) \<Rightarrow> pyval py \<times> nat list" where
  "fetch_closed_bar_page json answers = fetch_from json answers 0"

section \<open>Confirming a symbol\<close>

text \<open>One request of a round, and the last two of them.\<close>

type_synonym observation = "string \<times> int \<times> int \<times> pyval"

definition observe :: "observation list \<Rightarrow> observation \<Rightarrow> observation list" where
  "observe seen x = (let seen = seen @ [x] in if length seen > 2 then tl seen else seen)"

definition mutable_pages :: "closed_bar \<Rightarrow> closed_bar list \<Rightarrow> closed_bar list \<Rightarrow> bool" where
  "mutable_pages anchor page1 page2 \<longleftrightarrow>
     \<not> (length page1 < 2 \<or> length page1 \<noteq> length page2)
     \<and> \<not> (cb_bytes (hd page1) \<noteq> cb_bytes anchor \<or> cb_bytes (hd page2) \<noteq> cb_bytes anchor)
     \<and> map cb_bytes (tl page1) \<noteq> map cb_bytes (tl page2)"

definition safe_unpublished_confirmation ::
  "(pyval \<Rightarrow> string \<Rightarrow> int \<Rightarrow> int \<Rightarrow> closed_bar list py) \<Rightarrow> observation list \<Rightarrow> string \<Rightarrow> closed_bar \<Rightarrow> int \<Rightarrow> bool" where
  "safe_unpublished_confirmation parse_page observations symbol anchor end_exclusive =
     (case observations of
        [(symbol1, start1, end1, raw1), (symbol2, start2, end2, raw2)] \<Rightarrow>
          if (symbol1, start1, end1) \<noteq> (symbol2, start2, end2) \<or> symbol1 \<noteq> symbol \<or> start1 \<noteq> cb_open anchor
             \<or> end1 \<noteq> min end_exclusive (start1 + RECOVERY_PAGE_SIZE * MINUTE)
          then False
          else
            (case (parse_page raw1 symbol start1 end1, parse_page raw2 symbol start2 end2) of
               (Inr page1, Inr page2) \<Rightarrow> mutable_pages anchor page1 page2
             | _ \<Rightarrow> False)
      | _ \<Rightarrow> False)"

text \<open>
  How one call of the recovery routine ends: the number of bars, or an exception with the phase and
  the bars appended that the status object then shows. \<open>fetches\<close> are the pages it requested.
\<close>

record round_failure =
  rf_exn :: exn
  rf_cancelled :: bool
  rf_recovery_error :: bool
  rf_phase :: string
  rf_appended :: "int option"

datatype recovery_round = Recovered int | Round_failed round_failure "observation list"

definition retryable ::
  "(pyval \<Rightarrow> string \<Rightarrow> int \<Rightarrow> int \<Rightarrow> closed_bar list py) \<Rightarrow> string \<Rightarrow> closed_bar \<Rightarrow> int \<Rightarrow> nat \<Rightarrow> round_failure
   \<Rightarrow> observation list \<Rightarrow> bool" where
  "retryable parse_page symbol anchor end_exclusive deferred f fetches \<longleftrightarrow>
     \<not> rf_cancelled f
     \<and> \<not> (deferred \<ge> MAX_UNPUBLISHED_CONFIRMATION_RETRIES \<or> rf_phase f \<noteq> ''CONFIRMATION_COMPARE''
          \<or> rf_appended f \<noteq> Some 0 \<or> \<not> rf_recovery_error f
          \<or> \<not> safe_unpublished_confirmation parse_page (foldl observe [] fetches) symbol anchor end_exclusive)"

function confirm_from ::
  "(pyval \<Rightarrow> string \<Rightarrow> int \<Rightarrow> int \<Rightarrow> closed_bar list py) \<Rightarrow> string \<Rightarrow> closed_bar \<Rightarrow> int \<Rightarrow> (nat \<Rightarrow> recovery_round) \<Rightarrow> nat
   \<Rightarrow> (round_failure + int) \<times> nat" where
  "confirm_from parse_page symbol anchor end_exclusive rounds deferred =
     (case rounds deferred of
        Recovered count \<Rightarrow> (Inr count, deferred)
      | Round_failed f fetches \<Rightarrow>
          if retryable parse_page symbol anchor end_exclusive deferred f fetches
          then confirm_from parse_page symbol anchor end_exclusive rounds (Suc deferred)
          else (Inl f, deferred))"
  by pat_completeness auto
termination
  by (relation "measure (\<lambda>(_, _, _, _, _, deferred). MAX_UNPUBLISHED_CONFIRMATION_RETRIES - deferred)")
    (auto simp: retryable_def)

declare confirm_from.simps [simp del]

section \<open>The anchors\<close>

text \<open>
  A row of the anchor query: a symbol with the number of its bars, of their distinct times, their
  least and greatest time, and the last of them as the contract of the core package reads it.
\<close>

record anchor_row =
  ar_symbol :: string
  ar_n :: int
  ar_u :: int
  ar_lo :: int
  ar_hi :: int
  ar_event :: "closed_bar py"

definition chains_required :: "'a py" where
  "chains_required = epoch_fail ''FIVE_UNIQUE_CONTIGUOUS_CHAINS_REQUIRED''"

definition anchor_of :: "anchor_row \<Rightarrow> (string \<times> closed_bar) py" where
  "anchor_of row = py_bind (ar_event row) (\<lambda>e. if cb_symbol e \<noteq> ar_symbol row then chains_required else Inr (ar_symbol row, e))"

definition anchors :: "anchor_row list \<Rightarrow> bar_anchors py" where
  "anchors rows =
     (let symbols = map ar_symbol rows in
      if length rows \<noteq> length FEED_SYMBOLS \<or> card (set symbols) \<noteq> length FEED_SYMBOLS \<or> set symbols \<noteq> set FEED_SYMBOLS
      then chains_required
      else if list_ex (\<lambda>row. ar_n row = 0 \<or> ar_n row \<noteq> ar_u row \<or> ar_hi row - ar_lo row \<noteq> (ar_n row - 1) * MINUTE) rows
      then chains_required
      else py_map anchor_of rows)"

section \<open>Recovering the five symbols\<close>

text \<open>What the task group raises once every task has ended.\<close>

fun leaves :: "fault \<Rightarrow> exn list" where
  "leaves (Leaf e) = [e]"
| "leaves (Group faults) = concat (map leaves faults)"

fun first_leaf :: "fault \<Rightarrow> exn" where
  "first_leaf (Leaf e) = e"
| "first_leaf (Group []) = IndexError"
| "first_leaf (Group (f # _)) = first_leaf f"

definition raised_of :: "fault \<Rightarrow> fault" where
  "raised_of errors =
     (let leaf_reasons = map (\<lambda>e. source_wait_reason (Leaf e)) (leaves errors);
          admitted_reasons = set leaf_reasons - {None} in
      if admitted_reasons \<noteq> {} \<and> (None \<in> set leaf_reasons \<or> card admitted_reasons \<noteq> 1)
      then errors else Leaf (first_leaf errors))"

text \<open>Digests and chains the database shows before and after a recovery at boot.\<close>

record table_digest =
  td_count :: int
  td_sha256 :: string

record chain_state =
  ch_count :: int
  ch_first_open :: int
  ch_last_open :: int
  ch_last_close :: int

record boot_snapshot =
  bs_audit :: table_digest
  bs_outbox :: table_digest
  bs_anchors :: "(string \<times> chain_state) list"
  bs_prefix :: items

definition chain_of :: "boot_snapshot \<Rightarrow> string \<Rightarrow> chain_state" where
  "chain_of snap symbol =
     (case map_of (bs_anchors snap) symbol of Some c \<Rightarrow> c | None \<Rightarrow> \<lparr>ch_count = 0, ch_first_open = 0, ch_last_open = 0, ch_last_close = 0\<rparr>)"

definition prestate_differs :: "boot_snapshot \<Rightarrow> boot_snapshot \<Rightarrow> bool" where
  "prestate_differs before expected \<longleftrightarrow>
     bs_audit before \<noteq> bs_audit expected \<or> bs_outbox before \<noteq> bs_outbox expected
     \<or> set (bs_anchors before) \<noteq> set (bs_anchors expected) \<or> set (bs_prefix before) \<noteq> set (bs_prefix expected)"

definition poststate_differs :: "boot_snapshot \<Rightarrow> boot_snapshot \<Rightarrow> (string \<times> int) list \<Rightarrow> int \<Rightarrow> bool" where
  "poststate_differs before after totals end \<longleftrightarrow>
     bs_outbox after \<noteq> bs_outbox before \<or> set (bs_prefix after) \<noteq> set (bs_prefix before)
     \<or> td_count (bs_audit after) \<noteq> td_count (bs_audit before) + sum_list (map snd totals)
     \<or> list_ex (\<lambda>symbol.
          ch_count (chain_of after symbol) \<noteq> ch_count (chain_of before symbol) + the (map_of totals symbol)
          \<or> ch_first_open (chain_of after symbol) \<noteq> ch_first_open (chain_of before symbol)
          \<or> ch_last_open (chain_of after symbol) \<noteq> end - MINUTE) FEED_SYMBOLS"

text \<open>
  The answers one recovery meets: \<open>fe_rounds s k\<close> is round \<open>k\<close> of symbol \<open>s\<close>, and \<open>fe_order\<close> the order
  in which the five tasks end.
\<close>

record recover_env =
  fe_schema :: "unit py"
  fe_lock :: bool
  fe_before :: "boot_snapshot py"
  fe_rows :: "anchor_row list"
  fe_rounds :: "string \<Rightarrow> nat \<Rightarrow> recovery_round"
  fe_order :: "string list"
  fe_outbox_rows :: int
  fe_after :: "boot_snapshot py"
  fe_audit_prefix :: "unit py"

record recover_report =
  rr_state :: string
  rr_appended :: "(string \<times> int) list"
  rr_deferred :: "(string \<times> nat) list"
  rr_through :: int
  rr_maximum :: int
  rr_boot :: "(int \<times> int) option"

definition lift_leaf :: "'a py \<Rightarrow> fault + 'a" where
  "lift_leaf r = (case r of Inl e \<Rightarrow> Inl (Leaf e) | Inr x \<Rightarrow> Inr x)"

definition symbol_outcomes ::
  "(pyval \<Rightarrow> string \<Rightarrow> int \<Rightarrow> int \<Rightarrow> closed_bar list py) \<Rightarrow> recover_env \<Rightarrow> bar_anchors \<Rightarrow> int
   \<Rightarrow> (string \<times> (round_failure + int) \<times> nat) list" where
  "symbol_outcomes parse_page env bars end =
     map (\<lambda>s. (s, confirm_from parse_page s (the (map_of bars s)) end (fe_rounds env s) 0)) (fe_order env)"

definition group_faults :: "(string \<times> (round_failure + int) \<times> nat) list \<Rightarrow> fault list" where
  "group_faults outcomes =
     concat (map (\<lambda>(_, r, _). case r of Inl f \<Rightarrow> if rf_cancelled f then [] else [Leaf (rf_exn f)] | Inr _ \<Rightarrow> []) outcomes)"

definition cancellations :: "(string \<times> (round_failure + int) \<times> nat) list \<Rightarrow> exn list" where
  "cancellations outcomes =
     concat (map (\<lambda>(_, r, _). case r of Inl f \<Rightarrow> if rf_cancelled f then [rf_exn f] else [] | Inr _ \<Rightarrow> []) outcomes)"

definition run_group :: "(string \<times> (round_failure + int) \<times> nat) list \<Rightarrow> fault + (string \<times> int) list" where
  "run_group outcomes =
     (case group_faults outcomes of
        f # fs \<Rightarrow> Inl (raised_of (Group (f # fs)))
      | [] \<Rightarrow>
          (case cancellations outcomes of
             e # _ \<Rightarrow> Inl (Leaf e)
           | [] \<Rightarrow> Inr (concat (map (\<lambda>(s, r, _). case r of Inr n \<Rightarrow> [(s, n)] | Inl _ \<Rightarrow> []) outcomes))))"

text \<open>The receipt written for a symbol whose recovery failed.\<close>

definition failure_receipt :: "string \<Rightarrow> string \<Rightarrow> round_failure \<Rightarrow> nat \<Rightarrow> items" where
  "failure_receipt symbol error_type f deferred =
     [(''state'', PStr ''FAILED_CLOSED''), (''symbol'', PStr symbol), (''phase'', PStr (rf_phase f)),
      (''error_type'', PStr error_type),
      (''appended_bars'', case rf_appended f of None \<Rightarrow> PNone | Some n \<Rightarrow> PInt n),
      (''deferred_confirmation_rounds'', PInt (int deferred)),
      (''publish_outcome_unknown'', PBool (rf_phase f = ''DURABLE_PUBLISH'')), (''trading_started'', PBool False)]"

definition recover ::
  "(pyval \<Rightarrow> string \<Rightarrow> int \<Rightarrow> int \<Rightarrow> closed_bar list py) \<Rightarrow> recover_env \<Rightarrow> bool \<Rightarrow> boot_snapshot option \<Rightarrow> int
   \<Rightarrow> fault + recover_report" where
  "recover parse_page env publish boot_expected end =
     py_bind (lift_leaf (fe_schema env)) (\<lambda>_.
     if \<not> fe_lock env then Inl (Leaf (EpochError ''EPOCH_WRITER_ALREADY_RUNNING''))
     else
       py_bind (case boot_expected of
           None \<Rightarrow> Inr None
         | Some expected \<Rightarrow>
             py_bind (lift_leaf (fe_before env)) (\<lambda>before.
               if prestate_differs before expected then Inl (Leaf (EpochError ''BOOT_CATCHUP_PRESTATE_CONFLICT''))
               else Inr (Some before))) (\<lambda>boot_before.
       py_bind (lift_leaf (anchors (fe_rows env))) (\<lambda>bars.
       py_bind (lift_leaf (required_bars bars end)) (\<lambda>required.
       if required > (if publish then MAX_PENDING else MAX_BARS)
       then Inl (Leaf (EpochError ''EPOCH_INTERVAL_EXCEEDS_FIXED_CAP''))
       else
         let outcomes = symbol_outcomes parse_page env bars end in
         py_bind (run_group outcomes) (\<lambda>totals.
         if sum_list (map snd totals) \<noteq> required then Inl (Leaf (EpochError ''EXACT_APPEND_COUNT_REQUIRED''))
         else if \<not> publish \<and> boot_expected = None \<and> fe_outbox_rows env \<noteq> 0
         then Inl (Leaf (EpochError ''HISTORY_CREATED_OUTBOX_REJECTED''))
         else
           py_bind (case boot_before of
               None \<Rightarrow> Inr None
             | Some before \<Rightarrow>
                 py_bind (lift_leaf (fe_after env)) (\<lambda>after.
                 py_bind (lift_leaf (fe_audit_prefix env)) (\<lambda>_.
                   if poststate_differs before after totals end
                   then Inl (Leaf (EpochError ''BOOT_CATCHUP_POSTSTATE_CONFLICT''))
                   else Inr (Some (td_count (bs_audit before), td_count (bs_audit after)))))) (\<lambda>boot.
           Inr \<lparr>rr_state = (if publish then ''CURRENT_BARS_APPENDED'' else ''AUDIT_ONLY_CATCHUP_COMPLETE''),
                rr_appended = totals,
                rr_deferred = filter (\<lambda>(_, n). n > 0) (map (\<lambda>(s, _, n). (s, n)) outcomes),
                rr_through = end, rr_maximum = (if publish then MAX_PENDING else MAX_BARS), rr_boot = boot\<rparr>))))))"

end
