(* ===== verification/Epoch_Outbox.thy ===== *)
theory Epoch_Outbox
  imports Epoch_Feed
begin

text \<open>
  Publication in \<^verbatim>\<open>src/scripts/runtime_epoch_worker.py\<close>: the script that Redis runs for one message,
  the dispatcher that empties the outbox through it, and the system of any number of dispatchers over one
  database and one Redis, in which a dispatcher may be killed at any point, may lose an answer
  after its effect, and may lose its advisory lock.
\<close>

section \<open>The publication script\<close>

text \<open>
  The stream with its entries in order, and the ledger of receipts. The text of a receipt is what
  \<^verbatim>\<open>cjson\<close> makes of it: its encoder and decoder are fields of \<open>lua_host\<close>, and so is
  \<^verbatim>\<open>canonical_payload\<close> of the persistence package, a payload's text with its digest.
\<close>

record lua_host =
  lh_encode :: "string \<Rightarrow> string \<Rightarrow> string"
  lh_decode :: "string \<Rightarrow> (string \<times> string) option"
  lh_canonical :: "pyval \<Rightarrow> string \<times> string"

record redis =
  stream :: "(string \<times> (string \<times> string) list) list"
  ledger :: "string \<Rightarrow> string option"

text \<open>\<open>new_id\<close> is the identifier that \<^verbatim>\<open>XADD\<close> would assign.\<close>

definition publication_lua ::
  "lua_host \<Rightarrow> string \<Rightarrow> string \<Rightarrow> string \<Rightarrow> string \<Rightarrow> redis \<Rightarrow> (string + string) \<times> redis" where
  "publication_lua h new_id message_id digest encoded r =
     (case ledger r message_id of
        Some prior \<Rightarrow>
          (case lh_decode h prior of
             None \<Rightarrow> (Inl ''ERR cjson'', r)
           | Some (p1, p2) \<Rightarrow>
               if p1 \<noteq> digest then (Inl ''EPOCH_IDENTITY_CONFLICT'', r)
               else
                 (case filter (\<lambda>(i, _). i = p2) (stream r) of
                    [(_, entry)] \<Rightarrow>
                      if entry \<noteq> [(''data'', encoded)] then (Inl ''EPOCH_STREAM_PAYLOAD_CONFLICT'', r)
                      else (Inr p2, r)
                  | _ \<Rightarrow> (Inl ''EPOCH_RECEIPT_WITHOUT_STREAM'', r)))
      | None \<Rightarrow>
          (Inr new_id, r\<lparr>stream := stream r @ [(new_id, [(''data'', encoded)])],
                        ledger := (ledger r)(message_id \<mapsto> lh_encode h digest new_id)\<rparr>))"

section \<open>The outbox\<close>

record outbox_row =
  ob_id :: int
  ob_message_id :: string
  ob_topic :: string
  ob_payload :: pyval
  ob_sha256 :: string
  ob_producer :: string
  ob_reconciliation :: string
  ob_dead :: bool
  ob_published :: bool
  ob_attempts :: int

text \<open>\<^verbatim>\<open>WHERE published_at IS NULL ORDER BY id LIMIT n\<close>.\<close>

fun by_id :: "outbox_row \<Rightarrow> outbox_row list \<Rightarrow> outbox_row list" where
  "by_id r [] = [r]"
| "by_id r (s # rows) = (if ob_id r \<le> ob_id s then r # s # rows else s # by_id r rows)"

definition pending_rows :: "nat \<Rightarrow> outbox_row list \<Rightarrow> outbox_row list" where
  "pending_rows n rows = take n (foldr by_id (filter (\<lambda>r. \<not> ob_published r) rows) [])"

definition mark_published :: "int \<Rightarrow> outbox_row list \<Rightarrow> outbox_row list" where
  "mark_published i rows =
     map (\<lambda>r. if ob_id r = i \<and> \<not> ob_published r then r\<lparr>ob_published := True, ob_attempts := ob_attempts r + 1\<rparr> else r) rows"

definition FEED_TOPIC :: string where "FEED_TOPIC = ''kairos.market.closed_bar.v1''"
definition FEED_SOURCE :: string where "FEED_SOURCE = ''kairos-quant-scouts''"

text \<open>
  The checks on a row before it is published; the text and the digest of its payload. The
  \<^verbatim>\<open>.get\<close> of a payload that is not an object raises.
\<close>

definition check_row :: "lua_host \<Rightarrow> outbox_row \<Rightarrow> (string \<times> string) py" where
  "check_row h row =
     (if ob_topic row \<noteq> FEED_TOPIC \<or> ob_producer row \<noteq> FEED_SOURCE \<or> ob_reconciliation row \<noteq> ''NONE'' \<or> ob_dead row
      then epoch_fail ''NON_BAR_OUTBOX_REJECTED''
      else
        case lh_canonical h (ob_payload row) of (encoded, digest) \<Rightarrow>
          if digest \<noteq> ob_sha256 row then epoch_fail ''OUTBOX_HASH_CONFLICT''
          else
            (case ob_payload row of
               PDict m \<Rightarrow>
                 if dict_get m ''message_id'' \<noteq> PStr (ob_message_id row) then epoch_fail ''OUTBOX_HASH_CONFLICT''
                 else Inr (encoded, digest)
             | _ \<Rightarrow> Inl AttributeError))"

text \<open>\<^verbatim>\<open>[0-9]+-[0-9]+\<close>\<close>

definition receipt_text :: "string \<Rightarrow> bool" where
  "receipt_text s \<longleftrightarrow>
     (case split_at (CHR ''-'') s of [a, b] \<Rightarrow> a \<noteq> [] \<and> b \<noteq> [] \<and> list_all is_digit a \<and> list_all is_digit b | _ \<Rightarrow> False)"

section \<open>A dispatcher\<close>

text \<open>
  Where a run of \<^verbatim>\<open>flush\<close> is: before the lock, before the query, before the rows still to
  publish, with the receipt of a row that is still to be marked, before the unlock with the outcome it
  carries, or at its end.
\<close>

datatype flush_point =
    Lock
  | Query
  | Rows "outbox_row list" int
  | Mark outbox_row "outbox_row list" int
  | Unlock "int py"
  | Ended "int py"

text \<open>
  How the environment answers an effect: it is applied and answered, or the call raises with the
  effect applied or not.
\<close>

datatype effect_answer = Answered | Lost exn | Refused exn

record flush_env =
  ff_new_id :: string
  ff_answer :: effect_answer
  ff_reply :: exn

record epoch_world =
  outbox :: "outbox_row list"
  redis_of :: redis
  lock_holder :: "nat option"

text \<open>Redis answers the script with a stream identifier or with an error, which the client raises.\<close>

definition step_publish ::
  "lua_host \<Rightarrow> flush_env \<Rightarrow> epoch_world \<Rightarrow> outbox_row \<Rightarrow> outbox_row list \<Rightarrow> int \<Rightarrow> epoch_world \<times> flush_point" where
  "step_publish h env w row rows count =
     (case check_row h row of
        Inl e \<Rightarrow> (w, Unlock (Inl e))
      | Inr (encoded, digest) \<Rightarrow>
          (case ff_answer env of
             Refused e \<Rightarrow> (w, Unlock (Inl e))
           | answer \<Rightarrow>
               (case publication_lua h (ff_new_id env) (ob_message_id row) digest encoded (redis_of w) of
                  (reply, r) \<Rightarrow>
                    (w\<lparr>redis_of := r\<rparr>,
                     case (answer, reply) of
                       (Lost e, _) \<Rightarrow> Unlock (Inl e)
                     | (_, Inl _) \<Rightarrow> Unlock (Inl (ff_reply env))
                     | (_, Inr receipt) \<Rightarrow>
                         if receipt_text receipt then Mark row rows count
                         else Unlock (epoch_fail ''POSITIVE_REDIS_RECEIPT_REQUIRED'')))))"

definition step_mark ::
  "flush_env \<Rightarrow> epoch_world \<Rightarrow> outbox_row \<Rightarrow> outbox_row list \<Rightarrow> int \<Rightarrow> epoch_world \<times> flush_point" where
  "step_mark env w row rows count =
     (case ff_answer env of
        Refused e \<Rightarrow> (w, Unlock (Inl e))
      | Lost e \<Rightarrow> (w\<lparr>outbox := mark_published (ob_id row) (outbox w)\<rparr>, Unlock (Inl e))
      | Answered \<Rightarrow> (w\<lparr>outbox := mark_published (ob_id row) (outbox w)\<rparr>, Rows rows (count + 1)))"

definition flush_step :: "lua_host \<Rightarrow> nat \<Rightarrow> flush_env \<Rightarrow> epoch_world \<Rightarrow> flush_point \<Rightarrow> epoch_world \<times> flush_point" where
  "flush_step h pid env w p =
     (case p of
        Lock \<Rightarrow>
          (case ff_answer env of
             Refused e \<Rightarrow> (w, Ended (Inl e))
           | Lost e \<Rightarrow> (w, Ended (Inl e))
           | Answered \<Rightarrow>
               if lock_holder w \<noteq> None then (w, Ended (epoch_fail ''EPOCH_DISPATCHER_ALREADY_RUNNING''))
               else (w\<lparr>lock_holder := Some pid\<rparr>, Query))
      | Query \<Rightarrow>
          (case ff_answer env of
             Answered \<Rightarrow>
               (let records = pending_rows (nat MAX_PENDING + 1) (outbox w) in
                (w, if int (length records) > MAX_PENDING then Unlock (epoch_fail ''NEW_EPOCH_PENDING_CAP_EXCEEDED'')
                    else Rows records 0))
           | Lost e \<Rightarrow> (w, Unlock (Inl e))
           | Refused e \<Rightarrow> (w, Unlock (Inl e)))
      | Rows [] count \<Rightarrow> (w, Unlock (Inr count))
      | Rows (row # rows) count \<Rightarrow> step_publish h env w row rows count
      | Mark row rows count \<Rightarrow> step_mark env w row rows count
      | Unlock r \<Rightarrow>
          (w\<lparr>lock_holder := (if lock_holder w = Some pid then None else lock_holder w)\<rparr>,
           case ff_answer env of Answered \<Rightarrow> Ended r | Lost e \<Rightarrow> Ended (Inl e) | Refused e \<Rightarrow> Ended (Inl e))
      | Ended r \<Rightarrow> (w, Ended r))"

section \<open>The system\<close>

text \<open>
  Rows are enqueued with a fresh key; dispatchers start, move, are killed, and lose the session that
  holds their lock. \<^verbatim>\<open>XADD\<close> assigns an identifier that the stream does not have yet.
\<close>

type_synonym dispatch_system = "epoch_world \<times> (nat \<Rightarrow> flush_point option)"

definition fresh_stream_id :: "string \<Rightarrow> redis \<Rightarrow> bool" where
  "fresh_stream_id i r \<longleftrightarrow> i \<notin> set (map fst (stream r)) \<and> receipt_text i"

inductive dispatch_step :: "lua_host \<Rightarrow> dispatch_system \<Rightarrow> dispatch_system \<Rightarrow> bool" for h where
  enqueue: "ob_id row \<notin> set (map ob_id (outbox w)) \<Longrightarrow> \<not> ob_published row
    \<Longrightarrow> dispatch_step h (w, procs) (w\<lparr>outbox := outbox w @ [row]\<rparr>, procs)"
| launch: "procs pid = None \<Longrightarrow> dispatch_step h (w, procs) (w, procs(pid \<mapsto> Lock))"
| progress: "procs pid = Some p \<Longrightarrow> fresh_stream_id (ff_new_id env) (redis_of w) \<Longrightarrow> flush_step h pid env w p = (w', p')
    \<Longrightarrow> dispatch_step h (w, procs) (w', procs(pid \<mapsto> p'))"
| kill: "dispatch_step h (w, procs) (w, procs(pid := None))"
| lose_lock: "dispatch_step h (w, procs) (w\<lparr>lock_holder := None\<rparr>, procs)"

inductive_cases dispatch_stepE: "dispatch_step h (w, procs) s'"

end
