(* ===== verification/Epoch_Gate.thy ===== *)
theory Epoch_Gate
  imports Epoch_Outbox
begin

text \<open>
  What the epoch runtime guarantees: publication is exactly once however dispatchers interleave,
  die and lose answers, a cycle is bounded and cycles reach the finalized minute, and only failures of
  the public source make the runtime wait.
\<close>

section \<open>Receipts\<close>

lemma unique_entry: "distinct (map fst xs) \<Longrightarrow> (i, f) \<in> set xs \<Longrightarrow> filter (\<lambda>x. fst x = i) xs = [(i, f)]"
proof (induction xs)
  case (Cons x xs)
  show ?case
  proof (cases "x = (i, f)")
    case True
    with Cons.prems(1) show ?thesis by (auto simp: filter_empty_conv rev_image_eqI)
  next
    case False
    with Cons.prems have "(i, f) \<in> set xs" "fst x \<noteq> i" by (auto simp: rev_image_eqI)
    with Cons show ?thesis by simp
  qed
qed simp

definition cjson_law :: "lua_host \<Rightarrow> bool" where
  "cjson_law h \<longleftrightarrow> (\<forall>d i. lh_decode h (lh_encode h d i) = Some (d, i))"

definition receipt :: "lua_host \<Rightarrow> redis \<Rightarrow> string \<Rightarrow> string \<Rightarrow> string \<Rightarrow> bool" where
  "receipt h r message_id digest i \<longleftrightarrow> ledger r message_id = Some (lh_encode h digest i)"

definition ledger_ok :: "lua_host \<Rightarrow> redis \<Rightarrow> bool" where
  "ledger_ok h r \<longleftrightarrow>
     distinct (map fst (stream r))
     \<and> (\<forall>m t. ledger r m = Some t \<longrightarrow> (\<exists>d i e. t = lh_encode h d i \<and> (i, [(''data'', e)]) \<in> set (stream r)))
     \<and> (\<forall>m m' d d' i. receipt h r m d i \<longrightarrow> receipt h r m' d' i \<longrightarrow> m = m')"

definition extends :: "redis \<Rightarrow> redis \<Rightarrow> bool" where
  "extends r r' \<longleftrightarrow> ledger r \<subseteq>\<^sub>m ledger r' \<and> (\<exists>rest. stream r' = stream r @ rest)"

lemma extends_refl [simp]: "extends r r"
  by (simp add: extends_def)

lemma extends_trans: "extends r r' \<Longrightarrow> extends r' r'' \<Longrightarrow> extends r r''"
  by (auto simp: extends_def intro: map_le_trans)

lemma extends_receipt: "extends r r' \<Longrightarrow> receipt h r m d i \<Longrightarrow> receipt h r' m d i"
  by (auto simp: extends_def receipt_def map_le_def dom_def)

lemma extends_stream: "extends r r' \<Longrightarrow> x \<in> set (stream r) \<Longrightarrow> x \<in> set (stream r')"
  by (auto simp: extends_def)

text \<open>Every entry appended since \<open>r0\<close> is the receipt of exactly one message.\<close>

definition owned_since :: "lua_host \<Rightarrow> redis \<Rightarrow> redis \<Rightarrow> bool" where
  "owned_since h r0 r \<longleftrightarrow> ledger r0 \<subseteq>\<^sub>m ledger r
     \<and> (\<exists>rest. stream r = stream r0 @ rest \<and> (\<forall>x \<in> set rest. \<exists>m d. receipt h r m d (fst x)))"

lemma publication_old:
  assumes "cjson_law h" "ledger_ok h r" "ledger r m = Some prior" "publication_lua h i m d e r = (reply, r')"
  shows "r' = r \<and> (\<forall>j. reply = Inr j \<longrightarrow> receipt h r m d j \<and> (j, [(''data'', e)]) \<in> set (stream r))"
proof -
  obtain d' i' where p: "prior = lh_encode h d' i'" using assms(2,3) unfolding ledger_ok_def by blast
  with assms(1) have dec: "lh_decode h prior = Some (d', i')" by (simp add: cjson_law_def)
  have "r' = r" using assms(3,4) dec by (auto simp: publication_lua_def split: if_splits list.splits prod.splits)
  moreover have "receipt h r m d j \<and> (j, [(''data'', e)]) \<in> set (stream r)" if "reply = Inr j" for j
  proof -
    from that assms(3,4) dec have "d' = d" "j = i'" "filter (\<lambda>(k, _). k = i') (stream r) = [(i', [(''data'', e)])]"
      by (auto simp: publication_lua_def split: if_splits list.splits prod.splits dest: filter_eq_ConsD)
    moreover from this(3) have "(i', [(''data'', e)]) \<in> set (filter (\<lambda>(k, _). k = i') (stream r))" by simp
    then have "(i', [(''data'', e)]) \<in> set (stream r)" unfolding set_filter by blast
    ultimately show ?thesis using assms(3) p by (simp add: receipt_def)
  qed
  ultimately show ?thesis by blast
qed

lemma publication_new:
  assumes "cjson_law h" "ledger_ok h r" "ledger r m = None" "fresh_stream_id i r"
    and r': "r' = r\<lparr>stream := stream r @ [(i, [(''data'', e)])], ledger := (ledger r)(m \<mapsto> lh_encode h d i)\<rparr>"
  shows "ledger_ok h r'" "extends r r'" "receipt h r' m d i" "(i, [(''data'', e)]) \<in> set (stream r')"
proof -
  have inj: "lh_encode h a b = lh_encode h a' b' \<longleftrightarrow> a = a' \<and> b = b'" for a b a' b'
    using assms(1) unfolding cjson_law_def by (metis option.inject prod.inject)
  have i: "i \<notin> fst ` set (stream r)" using assms(4) by (simp add: fresh_stream_id_def)
  have used: "j \<in> fst ` set (stream r)" if "receipt h r m' d' j" for m' d' j
  proof -
    have "ledger r m' = Some (lh_encode h d' j)" using that by (simp add: receipt_def)
    then obtain d'' j' e' where "lh_encode h d' j = lh_encode h d'' j'" "(j', [(''data'', e')]) \<in> set (stream r)"
      using assms(2) unfolding ledger_ok_def by blast
    then show ?thesis unfolding inj by force
  qed
  have cases: "receipt h r' m' d' j \<longleftrightarrow> (if m' = m then d' = d \<and> j = i else receipt h r m' d' j)" for m' d' j
    by (auto simp: receipt_def r' inj)
  show "receipt h r' m d i" by (simp add: cases)
  show "(i, [(''data'', e)]) \<in> set (stream r')" by (simp add: r')
  show "extends r r'" using assms(3) by (auto simp: extends_def r' map_le_def)
  show "ledger_ok h r'"
    unfolding ledger_ok_def
  proof (intro conjI allI impI)
    show "distinct (map fst (stream r'))" using assms(2) i by (auto simp: ledger_ok_def r')
    show "\<exists>d i e. t = lh_encode h d i \<and> (i, [(''data'', e)]) \<in> set (stream r')" if "ledger r' m' = Some t" for m' t
      using that assms(2) by (auto simp: r' ledger_ok_def split: if_splits) blast+
    show "m1 = m2" if "receipt h r' m1 d1 j" "receipt h r' m2 d2 j" for m1 m2 d1 d2 j
      using that assms(2) used i unfolding cases ledger_ok_def by (metis (full_types))
  qed
qed

lemma publication_step:
  assumes "cjson_law h" "ledger_ok h r" "fresh_stream_id i r" "owned_since h r0 r" "publication_lua h i m d e r = (reply, r')"
  shows "ledger_ok h r' \<and> extends r r' \<and> owned_since h r0 r'
    \<and> (\<forall>j. reply = Inr j \<longrightarrow> receipt h r' m d j \<and> (j, [(''data'', e)]) \<in> set (stream r'))"
proof (cases "ledger r m")
  case None
  then have r': "r' = r\<lparr>stream := stream r @ [(i, [(''data'', e)])], ledger := (ledger r)(m \<mapsto> lh_encode h d i)\<rparr>" "reply = Inr i"
    using assms(5) by (auto simp: publication_lua_def)
  note new = publication_new [OF assms(1,2) None assms(3) r'(1)]
  obtain rest where rest: "stream r = stream r0 @ rest" "\<forall>x \<in> set rest. \<exists>m d. receipt h r m d (fst x)" "ledger r0 \<subseteq>\<^sub>m ledger r"
    using assms(4) by (auto simp: owned_since_def)
  have "owned_since h r0 r'"
    unfolding owned_since_def
  proof (intro conjI exI)
    show "ledger r0 \<subseteq>\<^sub>m ledger r'" using rest(3) new(2) by (auto simp: extends_def intro: map_le_trans)
    show "stream r' = stream r0 @ (rest @ [(i, [(''data'', e)])])" by (simp add: r' rest(1))
    show "\<forall>x \<in> set (rest @ [(i, [(''data'', e)])]). \<exists>m d. receipt h r' m d (fst x)"
      using rest(2) extends_receipt [OF new(2)] new(3) by fastforce
  qed
  with new r'(2) show ?thesis by auto
next
  case (Some prior)
  with publication_old [OF assms(1,2) _ assms(5)] assms(2,4) show ?thesis by auto
qed

section \<open>Rows\<close>

text \<open>What identifies a row, apart from its publication, and a row whose receipt is in the ledger.\<close>

definition row_core :: "outbox_row \<Rightarrow> outbox_row" where
  "row_core row = row\<lparr>ob_published := False, ob_attempts := 0\<rparr>"

definition known :: "outbox_row list \<Rightarrow> outbox_row \<Rightarrow> bool" where
  "known rows row \<longleftrightarrow> row_core row \<in> row_core ` set rows"

definition receipted :: "lua_host \<Rightarrow> redis \<Rightarrow> outbox_row \<Rightarrow> bool" where
  "receipted h r row \<longleftrightarrow> (\<exists>encoded i. check_row h row = Inr (encoded, ob_sha256 row)
     \<and> receipt h r (ob_message_id row) (ob_sha256 row) i \<and> (i, [(''data'', encoded)]) \<in> set (stream r))"

lemma core_fields: "row_core row = row_core row' \<Longrightarrow> ob_id row = ob_id row'"
  by (cases row; cases row') (simp add: row_core_def)

lemma receipted_core: "row_core row = row_core row' \<Longrightarrow> receipted h r row = receipted h r row'"
proof -
  have "check_row h (row_core row) = check_row h row" for row
    by (simp add: check_row_def row_core_def cong: if_cong prod.case_cong pyval.case_cong)
  then have "receipted h r (row_core row) = receipted h r row" for row by (simp add: receipted_def) (simp add: row_core_def)
  then show "row_core row = row_core row' \<Longrightarrow> receipted h r row = receipted h r row'" by metis
qed

lemma receipted_extends: "extends r r' \<Longrightarrow> receipted h r row \<Longrightarrow> receipted h r' row"
  unfolding receipted_def using extends_receipt extends_stream by blast

lemma core_mark [simp]: "map row_core (mark_published i rows) = map row_core rows"
  by (simp add: mark_published_def row_core_def comp_def)

lemma ids_mark [simp]: "map ob_id (mark_published i rows) = map ob_id rows"
  by (simp add: mark_published_def comp_def cong: if_cong)

lemma known_mark [simp]: "known (mark_published i rows) = known rows"
  unfolding known_def by (metis core_mark list.set_map)

lemma known_append: "known rows row \<Longrightarrow> known (rows @ rows2) row"
  by (auto simp: known_def)

lemma set_by_id [simp]: "set (by_id r rows) = insert r (set rows)"
  by (induction rows) auto

lemma set_sorted_rows [simp]: "set (foldr by_id rows []) = set rows"
  by (induction rows) auto

lemma pending_known: "row \<in> set (pending_rows n rows) \<Longrightarrow> known rows row"
  by (auto simp: pending_rows_def known_def dest!: in_set_takeD)

lemma marked_row:
  assumes "row' \<in> set (mark_published (ob_id row) rows)" "known rows row" "distinct (map ob_id rows)"
  shows "row' \<in> set rows \<or> row_core row' = row_core row"
proof -
  obtain s where s: "s \<in> set rows" "row' = (if ob_id s = ob_id row \<and> \<not> ob_published s
      then s\<lparr>ob_published := True, ob_attempts := ob_attempts s + 1\<rparr> else s)"
    using assms(1) by (auto simp: mark_published_def)
  obtain t where t: "t \<in> set rows" "row_core t = row_core row" using assms(2) by (auto simp: known_def)
  from t(2) have "ob_id t = ob_id row" by (rule core_fields)
  then have "ob_id s = ob_id row \<Longrightarrow> s = t" using assms(3) s(1) t(1) by (auto simp: distinct_map inj_on_def)
  with s t(2) show ?thesis by (auto simp: row_core_def)
qed

section \<open>The invariant of the system\<close>

fun point_ok :: "lua_host \<Rightarrow> epoch_world \<Rightarrow> flush_point \<Rightarrow> bool" where
  "point_ok h w (Rows rows n) \<longleftrightarrow> (\<forall>row \<in> set rows. known (outbox w) row)"
| "point_ok h w (Mark row rows n) \<longleftrightarrow>
     known (outbox w) row \<and> receipted h (redis_of w) row \<and> (\<forall>row \<in> set rows. known (outbox w) row)"
| "point_ok h w _ \<longleftrightarrow> True"

definition world_ok :: "lua_host \<Rightarrow> epoch_world \<Rightarrow> epoch_world \<Rightarrow> bool" where
  "world_ok h w0 w \<longleftrightarrow> ledger_ok h (redis_of w) \<and> owned_since h (redis_of w0) (redis_of w) \<and> distinct (map ob_id (outbox w))
     \<and> (\<forall>row \<in> set (outbox w). ob_published row \<longrightarrow> row \<in> set (outbox w0) \<or> receipted h (redis_of w) row)"

definition dispatch_inv :: "lua_host \<Rightarrow> epoch_world \<Rightarrow> dispatch_system \<Rightarrow> bool" where
  "dispatch_inv h w0 = (\<lambda>(w, procs). cjson_law h \<and> world_ok h w0 w \<and> (\<forall>pid p. procs pid = Some p \<longrightarrow> point_ok h w p))"

text \<open>How a step may change the world: the ledger only grows and the rows keep what identifies them.\<close>

definition grows :: "epoch_world \<Rightarrow> epoch_world \<Rightarrow> bool" where
  "grows w w' \<longleftrightarrow> extends (redis_of w) (redis_of w') \<and> (\<forall>row. known (outbox w) row \<longrightarrow> known (outbox w') row)"

lemma point_ok_grows: "grows w w' \<Longrightarrow> point_ok h w p \<Longrightarrow> point_ok h w' p"
  by (cases p) (auto simp: grows_def intro: receipted_extends)

lemma publish_keeps:
  assumes "cjson_law h" "world_ok h w0 w" "fresh_stream_id (ff_new_id env) (redis_of w)" "\<forall>row \<in> set (row # rows). known (outbox w) row"
    and "step_publish h env w row rows n = (w', p')"
  shows "world_ok h w0 w' \<and> grows w w' \<and> point_ok h w' p'"
proof (cases "check_row h row")
  case (Inl e)
  then show ?thesis using assms(2,5) by (auto simp: step_publish_def grows_def)
next
  case (Inr p)
  then obtain encoded digest where c: "check_row h row = Inr (encoded, digest)" by (cases p) auto
  then have d: "digest = ob_sha256 row" by (auto simp: check_row_def split: if_splits prod.splits pyval.splits)
  obtain reply r where q: "publication_lua h (ff_new_id env) (ob_message_id row) digest encoded (redis_of w) = (reply, r)" by fastforce
  have ok: "ledger_ok h (redis_of w)" "owned_since h (redis_of w0) (redis_of w)" using assms(2) by (simp_all add: world_ok_def)
  note s = publication_step [OF assms(1) ok(1) assms(3) ok(2) q]
  have w: "w' = w \<or> w' = w\<lparr>redis_of := r\<rparr>" and p: "p' = Mark row rows n \<Longrightarrow> redis_of w' = r \<and> (\<exists>j. reply = Inr j)"
    and p': "p' = Mark row rows n \<or> (\<exists>x. p' = Unlock x)"
    using assms(5) c q by (auto simp: step_publish_def split: effect_answer.splits sum.splits if_splits)
  have "extends (redis_of w) r" using s by blast
  then have "world_ok h w0 (w\<lparr>redis_of := r\<rparr>) \<and> grows w (w\<lparr>redis_of := r\<rparr>)"
    using assms(2) s receipted_extends by (auto simp: world_ok_def grows_def)
  moreover have "world_ok h w0 w \<and> grows w w" using assms(2) by (simp add: grows_def)
  moreover have "receipted h r row" if "reply = Inr j" for j
    using that s c d unfolding receipted_def by blast
  ultimately show ?thesis using w p p' assms(4) by auto
qed

lemma mark_keeps:
  assumes "world_ok h w0 w" "point_ok h w (Mark row rows n)" "step_mark env w row rows n = (w', p')"
  shows "world_ok h w0 w' \<and> grows w w' \<and> point_ok h w' p'"
proof -
  let ?w = "w\<lparr>outbox := mark_published (ob_id row) (outbox w)\<rparr>"
  have "ob_published row' \<longrightarrow> row' \<in> set (outbox w0) \<or> receipted h (redis_of w) row'"
    if "row' \<in> set (mark_published (ob_id row) (outbox w))" for row'
    using marked_row [OF that] assms(1,2) receipted_core [of row' row h "redis_of w"] by (auto simp: world_ok_def)
  then have "world_ok h w0 ?w" using assms(1) by (auto simp: world_ok_def)
  then show ?thesis using assms by (auto simp: step_mark_def grows_def split: effect_answer.splits)
qed

lemma flush_keeps:
  assumes "cjson_law h" "world_ok h w0 w" "point_ok h w p" "fresh_stream_id (ff_new_id env) (redis_of w)"
    and "flush_step h pid env w p = (w', p')"
  shows "world_ok h w0 w' \<and> grows w w' \<and> point_ok h w' p'"
proof (cases p)
  case Query
  then show ?thesis using assms(2,5) pending_known by (auto simp: flush_step_def grows_def Let_def split: effect_answer.splits)
next
  case (Rows rows n)
  show ?thesis
  proof (cases rows)
    case Nil
    with Rows assms(2,5) show ?thesis by (auto simp: flush_step_def grows_def)
  next
    case (Cons row rest)
    with Rows assms(5) have "step_publish h env w row rest n = (w', p')" by (simp add: flush_step_def)
    moreover have "\<forall>row \<in> set (row # rest). known (outbox w) row" using Rows Cons assms(3) by simp
    ultimately show ?thesis using publish_keeps [OF assms(1,2,4)] by blast
  qed
next
  case (Mark row rows n)
  with assms show ?thesis by (simp add: flush_step_def mark_keeps)
qed (use assms in \<open>auto simp: flush_step_def world_ok_def grows_def split: effect_answer.splits if_splits\<close>)

lemma dispatch_keeps:
  assumes "dispatch_inv h w0 s" "dispatch_step h s s'"
  shows "dispatch_inv h w0 s'"
  using assms(2,1)
proof cases
  case (enqueue row w procs)
  have "grows w (w\<lparr>outbox := outbox w @ [row]\<rparr>)" by (auto simp: grows_def intro: known_append)
  with enqueue assms(1) show ?thesis by (auto simp: dispatch_inv_def world_ok_def intro: point_ok_grows)
next
  case (progress procs pid p env w w' p')
  with assms(1) flush_keeps [of h w0 w p env pid w' p'] show ?thesis
    by (auto simp: dispatch_inv_def intro: point_ok_grows)
next
  case (lose_lock w procs)
  have "grows w (w\<lparr>lock_holder := None\<rparr>)" by (simp add: grows_def)
  with lose_lock assms(1) show ?thesis by (auto simp: dispatch_inv_def world_ok_def intro: point_ok_grows)
qed (use assms(1) in \<open>auto simp: dispatch_inv_def\<close>)

interpretation dispatch: transition_invariant "dispatch_step h" "dispatch_inv h w0"
  by unfold_locales (rule dispatch_keeps)

section \<open>Exactly once\<close>

text \<open>
  C3: publication is exactly once. Let any number of dispatchers be started, be killed at any
  point, lose answers after the effect, lose the advisory lock and interleave with each other and
  with new rows, over a Redis whose ledger is sound. Then the ledger stays sound and only grows,
  every stream entry that was added is the receipt of exactly one message, and every row that has
  become published has passed the checks and its receipt, for its digest, names the one entry that
  holds its payload.
\<close>

theorem publication_exactly_once:
  assumes "cjson_law h" "ledger_ok h (redis_of w0)" "distinct (map ob_id (outbox w0))"
    and "(dispatch_step h)\<^sup>*\<^sup>* (w0, \<lambda>_. None) (w, procs)"
  shows "ledger_ok h (redis_of w) \<and> ledger (redis_of w0) \<subseteq>\<^sub>m ledger (redis_of w)
    \<and> (\<exists>rest. stream (redis_of w) = stream (redis_of w0) @ rest
        \<and> (\<forall>x \<in> set rest. \<exists>!m. \<exists>d. ledger (redis_of w) m = Some (lh_encode h d (fst x))))
    \<and> (\<forall>row \<in> set (outbox w). ob_published row \<longrightarrow> row \<in> set (outbox w0)
        \<or> (\<exists>encoded i. check_row h row = Inr (encoded, ob_sha256 row)
            \<and> ledger (redis_of w) (ob_message_id row) = Some (lh_encode h (ob_sha256 row) i)
            \<and> filter (\<lambda>x. fst x = i) (stream (redis_of w)) = [(i, [(''data'', encoded)])]))"
proof -
  have "dispatch_inv h w0 (w0, \<lambda>_. None)"
    using assms(1-3) by (auto simp: dispatch_inv_def world_ok_def owned_since_def)
  from dispatch.steps_keep [OF assms(4) this] have inv: "world_ok h w0 w" by (simp add: dispatch_inv_def)
  then have ok: "ledger_ok h (redis_of w)" and owned: "owned_since h (redis_of w0) (redis_of w)" by (simp_all add: world_ok_def)
  obtain rest where rest: "stream (redis_of w) = stream (redis_of w0) @ rest" "\<forall>x \<in> set rest. \<exists>m d. receipt h (redis_of w) m d (fst x)"
    and le: "ledger (redis_of w0) \<subseteq>\<^sub>m ledger (redis_of w)" using owned by (auto simp: owned_since_def)
  have "\<exists>!m. \<exists>d. ledger (redis_of w) m = Some (lh_encode h d (fst x))" if "x \<in> set rest" for x
    using rest(2) that ok unfolding ledger_ok_def receipt_def by blast
  moreover have "filter (\<lambda>x. fst x = i) (stream (redis_of w)) = [(i, f)]" if "(i, f) \<in> set (stream (redis_of w))" for i f
    using ok that by (auto simp: ledger_ok_def intro: unique_entry)
  ultimately show ?thesis using ok le rest(1) inv unfolding world_ok_def receipted_def receipt_def by blast
qed

section \<open>Cycles\<close>

text \<open>
  The anchors after a recovery through \<open>end\<close>, and what successive cycles of the runtime append
  while the finalized minute stays at \<open>target\<close>: the bars of each batch and the anchors at the end.
\<close>

definition advanced :: "bar_anchors \<Rightarrow> int \<Rightarrow> bar_anchors" where
  "advanced bars end = map (\<lambda>(s, e). (s, e\<lparr>cb_open := end - MINUTE, cb_close := end - 1\<rparr>)) bars"

fun catch_up :: "nat \<Rightarrow> int \<Rightarrow> bar_anchors \<Rightarrow> (int list \<times> bar_anchors) py" where
  "catch_up 0 target bars = Inr ([], bars)"
| "catch_up (Suc k) target bars =
     py_bind (bounded_runtime_end bars target) (\<lambda>end.
     py_bind (required_bars bars end) (\<lambda>n.
     py_bind (catch_up k target (advanced bars end)) (\<lambda>(ns, bars'). Inr (n # ns, bars'))))"

text \<open>The first minute a symbol misses; anchors that a recovery may start from.\<close>

definition missing :: "bar_anchors \<Rightarrow> int list" where
  "missing bars = map (\<lambda>(_, e). cb_close e + 1) bars"

definition aligned :: "bar_anchors \<Rightarrow> bool" where
  "aligned bars \<longleftrightarrow> distinct (map fst bars) \<and> five_symbols bars \<and> (\<forall>x \<in> set (missing bars). MINUTE dvd x)"

lemma missing_advanced [simp]: "missing (advanced bars end) = map (\<lambda>_. end) bars"
  by (auto simp: missing_def advanced_def)

lemma aligned_advanced: "aligned bars \<Longrightarrow> MINUTE dvd end \<Longrightarrow> aligned (advanced bars end)"
  by (auto simp: aligned_def five_symbols_def advanced_def missing_def case_prod_unfold comp_def image_image)

lemma aligned_length:
  assumes "aligned bars"
  shows "length bars = 5" "length (missing bars) = 5"
proof -
  have "length bars = card (set (map fst bars))" using assms distinct_card [of "map fst bars"] by (simp add: aligned_def)
  also have "\<dots> = 5" using assms by (simp add: aligned_def five_symbols_def FEED_SYMBOLS_def)
  finally show "length bars = 5" .
  then show "length (missing bars) = 5" by (simp add: missing_def)
qed

lemma required_aligned:
  assumes "aligned bars" "MINUTE dvd end" "\<forall>x \<in> set (missing bars). x \<le> end"
  shows "required_bars bars end = Inr (sum_list (map (\<lambda>x. (end - x) div MINUTE) (missing bars)))"
proof -
  have d: "MINUTE dvd end - x \<and> 0 \<le> end - x" if "x \<in> set (missing bars)" for x
    using that assms by (auto simp: aligned_def)
  have m: "map (\<lambda>(_, e). end - cb_close e - 1) bars = map (\<lambda>x. end - x) (missing bars)" by (simp add: missing_def comp_def case_prod_unfold algebra_simps)
  have "\<not> list_ex (\<lambda>n. n < 0 \<or> n mod MINUTE \<noteq> 0) (map (\<lambda>x. end - x) (missing bars))"
    using d by (fastforce simp: list_ex_iff mod_eq_0_iff_dvd)
  then show ?thesis using assms(1) by (simp add: required_bars_def m aligned_def comp_def)
qed

lemma required_step:
  assumes "\<forall>x \<in> set xs. MINUTE dvd latest - x" "MINUTE dvd end - latest"
  shows "sum_list (map (\<lambda>x. (end - x) div MINUTE) xs)
    = sum_list (map (\<lambda>x. (latest - x) div MINUTE) xs) + int (length xs) * ((end - latest) div MINUTE)"
  using assms(1)
proof (induction xs)
  case (Cons x xs)
  have "(end - x) div MINUTE = (latest - x) div MINUTE + (end - latest) div MINUTE"
    using assms(2) Cons.prems div_add [of MINUTE "latest - x" "end - latest"] by simp
  with Cons show ?case by (simp add: algebra_simps)
qed simp

text \<open>The batch of a cycle: never above the cap, and only empty when nothing is missing.\<close>

lemma bounded_end_aligned:
  assumes a: "aligned bars" "MINUTE dvd target" "\<forall>x \<in> set (missing bars). x \<le> target"
    and latest: "latest = Max (set (missing bars))"
    and b: "required_bars bars latest = Inr b" "b \<le> MAX_PENDING"
  shows "\<exists>end n. bounded_runtime_end bars target = Inr end \<and> end = min target (latest + (MAX_PENDING - b) div 5 * MINUTE)
    \<and> required_bars bars end = Inr n \<and> n \<le> MAX_PENDING \<and> latest \<le> end \<and> MINUTE dvd end"
proof -
  let ?c = "(MAX_PENDING - b) div 5" and ?fin = "min target (latest + (MAX_PENDING - b) div 5 * MINUTE)"
  have ne: "set (missing bars) \<noteq> {}" using aligned_length(2) [OF a(1)] by auto
  have l: "latest \<in> set (missing bars)" "\<forall>x \<in> set (missing bars). x \<le> latest" using ne by (simp_all add: latest)
  have d: "MINUTE dvd latest" "latest \<le> target" using l(1) a(1,3) by (auto simp: aligned_def)
  have c: "0 \<le> ?c" using b(2) by simp
  have e: "MINUTE dvd ?fin" "latest \<le> ?fin" "\<forall>x \<in> set (missing bars). x \<le> ?fin"
    using d a(2) c l(2) by (auto simp: min_def MINUTE_def)
  have dv: "MINUTE dvd ?fin - latest" using e(1) d(1) by (rule dvd_diff)
  have "b = sum_list (map (\<lambda>x. (latest - x) div MINUTE) (missing bars))"
    using required_aligned [OF a(1) d(1) l(2)] b(1) by simp
  moreover have "\<forall>x \<in> set (missing bars). MINUTE dvd latest - x" using a(1) d(1) by (auto simp: aligned_def)
  ultimately have n: "required_bars bars ?fin = Inr (b + 5 * ((?fin - latest) div MINUTE))"
    using required_aligned [OF a(1) e(1,3)] required_step [OF _ dv] aligned_length(2) [OF a(1)] by simp
  have "(?fin - latest) div MINUTE \<le> (?c * MINUTE) div MINUTE" by (rule zdiv_mono1) (auto simp: MINUTE_def)
  also have "\<dots> = ?c" by (simp add: MINUTE_def)
  finally have bound: "b + 5 * ((?fin - latest) div MINUTE) \<le> MAX_PENDING" using b(2) by linarith
  have m: "Max (set (map (\<lambda>(_, e). cb_close e + 1) bars)) = latest" unfolding latest missing_def ..
  have "target mod MINUTE = 0" "five_symbols bars" using a(1,2) by (simp_all add: aligned_def)
  moreover have "int (length FEED_SYMBOLS) = 5" by (simp add: FEED_SYMBOLS_def)
  ultimately have "bounded_runtime_end bars target = Inr ?fin"
    using d(2) b n bound unfolding bounded_runtime_end_def m Let_def by simp
  with n bound e show ?thesis by blast
qed

lemma level_advanced: "aligned bars \<Longrightarrow> set (missing (advanced bars e)) = {e}"
  using aligned_length(1) [of bars] by (cases bars) auto

lemma required_level:
  assumes "aligned bars" "set (missing bars) = {e}" "MINUTE dvd end" "e \<le> end"
  shows "required_bars bars end = Inr (5 * ((end - e) div MINUTE))"
proof -
  have "missing bars = replicate 5 e"
    using assms(2) aligned_length(2) [OF assms(1)] by (metis replicate_eqI singletonD)
  then show ?thesis using required_aligned [OF assms(1,3)] assms(2,4) by (simp add: map_replicate sum_list_replicate)
qed

lemma catch_up_level:
  assumes "aligned bars" "set (missing bars) = {e}" "MINUTE dvd target" "e \<le> target" "target - e \<le> int k * (20 * MINUTE)"
  shows "\<exists>ns bars'. catch_up k target bars = Inr (ns, bars') \<and> set (missing bars') = {target}
    \<and> (\<forall>n \<in> set ns. n \<le> MAX_PENDING) \<and> sum_list ns = 5 * ((target - e) div MINUTE)"
  using assms
proof (induction k arbitrary: bars e)
  case 0
  then show ?case by simp
next
  case (Suc k)
  have d: "MINUTE dvd e" using Suc.prems(1,2) by (simp add: aligned_def)
  have z: "required_bars bars e = Inr 0" "(0 :: int) \<le> MAX_PENDING" "(MAX_PENDING - 0) div 5 * MINUTE = 20 * MINUTE"
    using required_level [OF Suc.prems(1,2) d] by (simp_all add: MAX_PENDING_def)
  have all: "\<forall>x \<in> set (missing bars). x \<le> target" "e = Max (set (missing bars))" using Suc.prems(2,4) by simp_all
  obtain fin n where b: "bounded_runtime_end bars target = Inr fin" "fin = min target (e + 20 * MINUTE)"
    "required_bars bars fin = Inr n" "n \<le> MAX_PENDING" "e \<le> fin" "MINUTE dvd fin"
    using bounded_end_aligned [OF Suc.prems(1,3) all z(1,2)] unfolding z(3) by blast
  have n: "n = 5 * ((fin - e) div MINUTE)" using required_level [OF Suc.prems(1,2) b(6,5)] b(3) by simp
  have "target - fin \<le> int k * (20 * MINUTE)" using Suc.prems(5) b(2) by (auto simp: min_def algebra_simps MINUTE_def)
  moreover have "set (missing (advanced bars fin)) = {fin}" using Suc.prems(1) by (rule level_advanced)
  ultimately obtain ns bars' where ih: "catch_up k target (advanced bars fin) = Inr (ns, bars')" "set (missing bars') = {target}"
    "\<forall>n \<in> set ns. n \<le> MAX_PENDING" "sum_list ns = 5 * ((target - fin) div MINUTE)"
    using Suc.IH [OF aligned_advanced [OF Suc.prems(1) b(6)] _ Suc.prems(3), of fin] b(2) by auto
  have "(target - e) div MINUTE = (fin - e) div MINUTE + (target - fin) div MINUTE"
    using div_add [of MINUTE "fin - e" "target - fin"] b(6) d Suc.prems(3) by simp
  with ih b n show ?case by (simp add: algebra_simps)
qed


section \<open>Failures that only make the runtime wait\<close>

text \<open>A task group is never empty, and neither is a group inside it.\<close>

fun group_ok :: "fault \<Rightarrow> bool" where
  "group_ok (Leaf _) \<longleftrightarrow> True"
| "group_ok (Group faults) \<longleftrightarrow> faults \<noteq> [] \<and> list_all group_ok faults"

lemma leaves_nonempty: "group_ok f \<Longrightarrow> leaves f \<noteq> []"
proof (induction f)
  case (Group faults)
  then show ?case by (cases faults) auto
qed simp

lemma source_wait_leaves:
  "group_ok f \<Longrightarrow> source_wait_reason f = Some r \<longleftrightarrow> (\<forall>e \<in> set (leaves f). source_wait_reason (Leaf e) = Some r)"
proof (induction f)
  case (Group faults)
  have ih: "source_wait_reason g = Some r \<longleftrightarrow> (\<forall>e \<in> set (leaves g). source_wait_reason (Leaf e) = Some r)" if "g \<in> set faults" for g
    using Group that by (simp add: list_all_iff)
  obtain g gs where f: "faults = g # gs" using Group.prems by (cases faults) auto
  have "source_wait_reason (Group faults) = Some r \<longleftrightarrow> (\<forall>g \<in> set faults. source_wait_reason g = Some r)"
    by (auto simp: f list_all_iff simp del: source_wait_reason.simps(2) split: option.splits)
  also have "\<dots> \<longleftrightarrow> (\<forall>e \<in> set (leaves (Group faults)). source_wait_reason (Leaf e) = Some r)" using ih by auto
  finally show ?case .
qed simp

lemma first_leaf_in: "group_ok f \<Longrightarrow> first_leaf f \<in> set (leaves f)"
  by (induction f rule: first_leaf.induct) auto

text \<open>A failed recovery makes the runtime wait only when every task failed for the same admitted reason.\<close>

lemma raised_wait_iff:
  assumes "group_ok f"
  shows "source_wait_reason (raised_of f) = Some r \<longleftrightarrow> (\<forall>e \<in> set (leaves f). source_wait_reason (Leaf e) = Some r)"
proof -
  define reason where "reason = (\<lambda>e. source_wait_reason (Leaf e))"
  let ?rs = "reason ` set (leaves f)"
  have r: "raised_of f = (if ?rs - {None} \<noteq> {} \<and> (None \<in> ?rs \<or> card (?rs - {None}) \<noteq> 1) then f else Leaf (first_leaf f))"
    unfolding raised_of_def Let_def reason_def by (simp only: set_map)
  have m: "reason (first_leaf f) \<in> ?rs" using first_leaf_in [OF assms] by (rule imageI)
  have "source_wait_reason (raised_of f) = Some r \<longleftrightarrow> (\<forall>e \<in> set (leaves f). reason e = Some r)"
  proof (cases "?rs - {None} \<noteq> {} \<and> (None \<in> ?rs \<or> card (?rs - {None}) \<noteq> 1)")
    case True
    then have "raised_of f = f" unfolding r by simp
    then show ?thesis using source_wait_leaves [OF assms] by (simp only: reason_def)
  next
    case False
    then have raised: "source_wait_reason (raised_of f) = reason (first_leaf f)" unfolding r by (simp only: if_False reason_def)
    have "?rs = {Some r}" if "Some r \<in> ?rs"
    proof -
      have "None \<notin> ?rs" "card (?rs - {None}) = 1" using False that by auto
      then show ?thesis using that by (metis Diff_empty Diff_insert0 card_1_singletonE singletonD)
    qed
    then have "reason (first_leaf f) = Some r \<Longrightarrow> ?rs = {Some r}" using m by simp
    moreover have "?rs = {Some r} \<Longrightarrow> reason (first_leaf f) = Some r" using m by simp
    ultimately have "reason (first_leaf f) = Some r \<longleftrightarrow> ?rs = {Some r}" by (rule iffI)
    also have "\<dots> \<longleftrightarrow> ?rs \<subseteq> {Some r}" unfolding subset_singleton_iff using m by (metis empty_iff)
    also have "\<dots> \<longleftrightarrow> (\<forall>e \<in> set (leaves f). reason e = Some r)" by (simp only: image_subset_iff singleton_iff)
    finally show ?thesis unfolding raised .
  qed
  then show ?thesis by (simp only: reason_def)
qed

end
