(* ===== verification/Epoch_Sample.thy ===== *)
theory Epoch_Sample
  imports Epoch_Gate
begin

text \<open>
  Concrete runs of the epoch runtime, at which its theorems apply: a dispatcher that is killed between
  the script and the update, with a second one that finishes, and a catch-up of half an hour.
\<close>

section \<open>A dispatcher that dies\<close>

definition toy_encode :: "string \<Rightarrow> string \<Rightarrow> string" where
  "toy_encode d i = replicate (length d) (CHR ''1'') @ ''0'' @ d @ i"

definition toy_decode :: "string \<Rightarrow> (string \<times> string) option" where
  "toy_decode s = (let n = length (takeWhile (\<lambda>c. c = CHR ''1'') s); rest = drop (Suc n) s in Some (take n rest, drop n rest))"

definition toy_lua :: lua_host where
  "toy_lua = \<lparr>lh_encode = toy_encode, lh_decode = toy_decode, lh_canonical = (\<lambda>_. (''bar'', ''sha''))\<rparr>"

lemma toy_law: "cjson_law toy_lua"
proof -
  have "takeWhile (\<lambda>c. c = CHR ''1'') (toy_encode d i) = replicate (length d) (CHR ''1'')" for d i
    by (simp add: toy_encode_def takeWhile_append)
  then show ?thesis by (simp add: cjson_law_def toy_lua_def toy_decode_def Let_def) (simp add: toy_encode_def)
qed

definition toy_row :: outbox_row where
  "toy_row = \<lparr>ob_id = 1, ob_message_id = ''m'', ob_topic = FEED_TOPIC, ob_payload = PDict [(''message_id'', PStr ''m'')],
     ob_sha256 = ''sha'', ob_producer = FEED_SOURCE, ob_reconciliation = ''NONE'', ob_dead = False, ob_published = False, ob_attempts = 0\<rparr>"

definition toy_world :: "bool \<Rightarrow> bool \<Rightarrow> nat option \<Rightarrow> epoch_world" where
  "toy_world sent marked holder =
     \<lparr>outbox = [if marked then toy_row\<lparr>ob_published := True, ob_attempts := 1\<rparr> else toy_row],
      redis_of = (if sent then \<lparr>stream = [(''1-0'', [(''data'', ''bar'')])], ledger = [''m'' \<mapsto> toy_encode ''sha'' ''1-0'']\<rparr>
                  else \<lparr>stream = [], ledger = Map.empty\<rparr>),
      lock_holder = holder\<rparr>"

definition toy_answer :: "string \<Rightarrow> flush_env" where
  "toy_answer i = \<lparr>ff_new_id = i, ff_answer = Answered, ff_reply = OSError\<rparr>"

lemma toy_receipt_texts: "receipt_text ''1-0''" "receipt_text ''2-0''"
  by code_simp+

lemma dispatch_fresh: "fresh_stream_id (ff_new_id (toy_answer ''1-0'')) (redis_of (toy_world False marked holder))"
  "fresh_stream_id (ff_new_id (toy_answer ''2-0'')) (redis_of (toy_world sent marked holder))"
  by (simp_all add: fresh_stream_id_def toy_answer_def toy_world_def toy_receipt_texts)

lemma toy_check: "check_row toy_lua toy_row = Inr (''bar'', ''sha'')"
  by (simp add: check_row_def toy_lua_def toy_row_def dict_get_def)

lemma toy_steps:
  "flush_step toy_lua pid (toy_answer i) (toy_world sent False None) Lock = (toy_world sent False (Some pid), Query)"
  "flush_step toy_lua pid (toy_answer i) (toy_world sent False holder) Query = (toy_world sent False holder, Rows [toy_row] 0)"
  "flush_step toy_lua pid (toy_answer ''1-0'') (toy_world False False holder) (Rows [toy_row] 0) = (toy_world True False holder, Mark toy_row [] 0)"
  "flush_step toy_lua pid (toy_answer i) (toy_world True False holder) (Rows [toy_row] 0) = (toy_world True False holder, Mark toy_row [] 0)"
  "flush_step toy_lua pid (toy_answer i) (toy_world True False holder) (Mark toy_row [] 0) = (toy_world True True holder, Rows [] 1)"
proof -
  have d: "lh_decode toy_lua (toy_encode ''sha'' ''1-0'') = Some (''sha'', ''1-0'')"
    using toy_law by (simp add: cjson_law_def toy_lua_def)
  have e: "lh_encode toy_lua = toy_encode" by (simp add: toy_lua_def)
  have m: "ob_message_id toy_row = ''m''" by (simp add: toy_row_def)
  show "flush_step toy_lua pid (toy_answer i) (toy_world sent False None) Lock = (toy_world sent False (Some pid), Query)"
    by (simp add: flush_step_def toy_answer_def toy_world_def)
  show "flush_step toy_lua pid (toy_answer i) (toy_world sent False holder) Query = (toy_world sent False holder, Rows [toy_row] 0)"
    by (simp add: flush_step_def toy_answer_def toy_world_def pending_rows_def toy_row_def MAX_PENDING_def Let_def)
  show "flush_step toy_lua pid (toy_answer ''1-0'') (toy_world False False holder) (Rows [toy_row] 0) = (toy_world True False holder, Mark toy_row [] 0)"
    by (simp add: flush_step_def step_publish_def toy_check toy_answer_def toy_world_def publication_lua_def e m toy_receipt_texts)
  show "flush_step toy_lua pid (toy_answer i) (toy_world True False holder) (Rows [toy_row] 0) = (toy_world True False holder, Mark toy_row [] 0)"
    by (simp add: flush_step_def step_publish_def toy_check toy_answer_def toy_world_def publication_lua_def d m toy_receipt_texts)
  show "flush_step toy_lua pid (toy_answer i) (toy_world True False holder) (Mark toy_row [] 0) = (toy_world True True holder, Rows [] 1)"
    by (simp add: flush_step_def step_mark_def toy_answer_def toy_world_def mark_published_def toy_row_def)
qed

lemma toy_progress:
  assumes "flush_step toy_lua pid (toy_answer i) w p = (w', p')" "fresh_stream_id (ff_new_id (toy_answer i)) (redis_of w)"
  shows "dispatch_step toy_lua (w, [pid \<mapsto> p]) (w', [pid \<mapsto> p'])"
  using dispatch_step.progress [of "[pid \<mapsto> p]" pid p "toy_answer i" w] assms by simp

lemma toy_dies: "(dispatch_step toy_lua)\<^sup>*\<^sup>* (toy_world False False None, \<lambda>_. None) (toy_world True False None, \<lambda>_. None)"
proof -
  let ?w = "toy_world False False" and ?step = "dispatch_step toy_lua"
  have "?step\<^sup>*\<^sup>* (?w None, \<lambda>_. None) (?w None, [0 \<mapsto> Lock])" using dispatch_step.launch [of "\<lambda>_. None" 0] by (simp add: r_into_rtranclp)
  also have "?step \<dots> (?w (Some 0), [0 \<mapsto> Query])" by (rule toy_progress [OF toy_steps(1) dispatch_fresh(2)])
  also have "?step \<dots> (?w (Some 0), [0 \<mapsto> Rows [toy_row] 0])" by (rule toy_progress [OF toy_steps(2) dispatch_fresh(2)])
  also have "?step \<dots> (toy_world True False (Some 0), [0 \<mapsto> Mark toy_row [] 0])" by (rule toy_progress [OF toy_steps(3) dispatch_fresh(1)])
  also have "?step \<dots> (toy_world True False (Some 0), \<lambda>_. None)"
    using dispatch_step.kill [of toy_lua _ "[0 \<mapsto> Mark toy_row [] 0]" 0] by simp
  also have "?step \<dots> (toy_world True False None, \<lambda>_. None)"
    using dispatch_step.lose_lock [of toy_lua "toy_world True False (Some 0)"] by (simp add: toy_world_def)
  finally show ?thesis .
qed

lemma toy_finishes: "(dispatch_step toy_lua)\<^sup>*\<^sup>* (toy_world True False None, \<lambda>_. None) (toy_world True True (Some 1), [1 \<mapsto> Rows [] 1])"
proof -
  let ?w = "toy_world True False" and ?step = "dispatch_step toy_lua"
  have "?step\<^sup>*\<^sup>* (?w None, \<lambda>_. None) (?w None, [1 \<mapsto> Lock])" using dispatch_step.launch [of "\<lambda>_. None" 1] by (simp add: r_into_rtranclp)
  also have "?step \<dots> (?w (Some 1), [1 \<mapsto> Query])" by (rule toy_progress [OF toy_steps(1) dispatch_fresh(2)])
  also have "?step \<dots> (?w (Some 1), [1 \<mapsto> Rows [toy_row] 0])" by (rule toy_progress [OF toy_steps(2) dispatch_fresh(2)])
  also have "?step \<dots> (?w (Some 1), [1 \<mapsto> Mark toy_row [] 0])" by (rule toy_progress [OF toy_steps(4) dispatch_fresh(2)])
  also have "?step \<dots> (toy_world True True (Some 1), [1 \<mapsto> Rows [] 1])" by (rule toy_progress [OF toy_steps(5) dispatch_fresh(2)])
  finally show ?thesis .
qed

theorem publication_exactly_once_witness:
  "\<exists>w procs row. (dispatch_step toy_lua)\<^sup>*\<^sup>* (toy_world False False None, \<lambda>_. None) (w, procs)
    \<and> row \<in> set (outbox w) \<and> ob_published row \<and> length (stream (redis_of w)) = 1
    \<and> (\<exists>i. ledger (redis_of w) (ob_message_id row) = Some (lh_encode toy_lua (ob_sha256 row) i))"
proof -
  let ?before = "toy_world False False None" and ?after = "toy_world True True (Some 1)"
  have s: "(dispatch_step toy_lua)\<^sup>*\<^sup>* (?before, \<lambda>_. None) (?after, [1 \<mapsto> Rows [] 1])"
    using toy_dies toy_finishes by (rule rtranclp_trans)
  have row: "toy_row\<lparr>ob_published := True, ob_attempts := 1\<rparr> \<in> set (outbox ?after)" "ob_published (toy_row\<lparr>ob_published := True, ob_attempts := 1\<rparr>)"
    "toy_row\<lparr>ob_published := True, ob_attempts := 1\<rparr> \<notin> set (outbox ?before)" "length (stream (redis_of ?after)) = 1"
    by (simp_all add: toy_world_def toy_row_def)
  have "ledger_ok toy_lua (redis_of ?before)" "distinct (map ob_id (outbox ?before))"
    by (simp_all add: ledger_ok_def receipt_def toy_world_def)
  from publication_exactly_once [OF toy_law this s] row
  have "\<exists>i. ledger (redis_of ?after) (ob_message_id (toy_row\<lparr>ob_published := True, ob_attempts := 1\<rparr>))
    = Some (lh_encode toy_lua (ob_sha256 (toy_row\<lparr>ob_published := True, ob_attempts := 1\<rparr>)) i)" by blast
  with s row show ?thesis by blast
qed

section \<open>Half an hour behind\<close>

definition late_bars :: bar_anchors where
  "late_bars = map (\<lambda>s. (s, \<lparr>cb_symbol = s, cb_open = 0, cb_close = 59999, cb_bytes = ''''\<rparr>)) FEED_SYMBOLS"


end
