(* ===== verification/Epoch_Config.thy ===== *)
theory Epoch_Config
  imports Epoch_Feed
begin

text \<open>
  The configurations that \<^verbatim>\<open>src/scripts/runtime_epoch_controller.py\<close> writes for a worker and that
  \<^verbatim>\<open>src/scripts/runtime_epoch_worker.py\<close> checks again before it connects: names of the resources of an
  epoch, the fields each mode may have, the expected state of a boot, and the schema profiles.
  The validators of the later recovery generations, which live in their own scripts, are a parameter.
\<close>

section \<open>Schema profiles\<close>

definition CONTROLLED_RUNTIME_PUBLIC_TABLES :: "string list" where
  "CONTROLLED_RUNTIME_PUBLIC_TABLES =
     [
      ''account_equity_state'', ''account_snapshots'', ''campaign_source_budgets'', ''event_audit'',
      ''execution_effect_events'', ''execution_effects'', ''execution_mutation_budget_scopes'',
      ''execution_mutation_reservations'', ''execution_orders'', ''execution_recovery_state'',
      ''execution_runtime_health'', ''execution_trade_events'', ''execution_trades'', ''message_inbox'',
      ''message_outbox'', ''operator_control_admissions'', ''operator_control_commands'',
      ''operator_control_dispatch_claims'', ''operator_controls'', ''paper_canary_arms'', ''paper_canary_attempts'',
      ''paper_canary_database_identity'', ''paper_canary_dispatch_claims'', ''paper_canary_sessions'',
      ''paper_readonly_receipts'', ''paper_readonly_runs'', ''paper_readonly_samples'', ''position_snapshots'',
      ''public_execution_events'', ''schema_migrations'', ''source_cursors'', ''source_usage_reservations'']"

definition CURRENT_CONTROLLED_RUNTIME_PUBLIC_TABLES :: "string list" where
  "CURRENT_CONTROLLED_RUNTIME_PUBLIC_TABLES = sorted_set (CONTROLLED_RUNTIME_PUBLIC_TABLES @ [''news_processing''])"

definition HISTORICAL_CONTROLLED_RUNTIME_MIGRATIONS :: "string list" where
  "HISTORICAL_CONTROLLED_RUNTIME_MIGRATIONS =
     [
      ''001_audit_and_idempotency.sql'', ''002_durable_runtime.sql'', ''003_execution_effect_journal.sql'',
      ''004_execution_recovery_delay.sql'', ''005_source_state_and_usage.sql'', ''006_paper_trade_lifecycle.sql'',
      ''007_execution_runtime_health.sql'', ''008_public_execution_events.sql'', ''009_paper_canary_arms.sql'',
      ''010_runtime_compensation_reserve.sql'', ''011_execution_mutation_budget.sql'',
      ''012_outbox_producer_order.sql'', ''013_campaign_source_budgets.sql'', ''014_bounded_canary_sessions.sql'',
      ''015_canary_dispatch_claims.sql'', ''016_global_canary_session_guard.sql'',
      ''018_offline_outbox_reconciliation.sql'', ''026_operator_control.sql'']"

definition CURRENT_CONTROLLED_RUNTIME_MIGRATIONS :: "string list" where
  "CURRENT_CONTROLLED_RUNTIME_MIGRATIONS = HISTORICAL_CONTROLLED_RUNTIME_MIGRATIONS @ [''028_news_processing.sql'']"

record schema =
  sp_identity :: string
  sp_migrations :: "string list"
  sp_public_tables :: "string list"

definition SCHEMA_PROFILES :: "(string \<times> schema) list" where
  "SCHEMA_PROFILES =
     [(''historical-default'', \<lparr>sp_identity = ''historical-default'', sp_migrations = HISTORICAL_CONTROLLED_RUNTIME_MIGRATIONS,
         sp_public_tables = CONTROLLED_RUNTIME_PUBLIC_TABLES\<rparr>),
      (''current-controlled-v1'', \<lparr>sp_identity = ''current-controlled-v1'', sp_migrations = CURRENT_CONTROLLED_RUNTIME_MIGRATIONS,
         sp_public_tables = CURRENT_CONTROLLED_RUNTIME_PUBLIC_TABLES\<rparr>)]"

definition schema_profile :: "string \<Rightarrow> schema py" where
  "schema_profile selected =
     (case map_of SCHEMA_PROFILES selected of Some p \<Rightarrow> Inr p | None \<Rightarrow> epoch_fail ''UNKNOWN_SCHEMA_PROFILE'')"

definition is_current :: "schema \<Rightarrow> bool" where
  "is_current p \<longleftrightarrow> sp_identity p = ''current-controlled-v1''"

section \<open>Names\<close>

definition CONTINUATION_OWNER :: string where "CONTINUATION_OWNER = ''69893dc7b7c647f49967387e7efca9fb''"

definition owner_name :: "pyval \<Rightarrow> string py" where
  "owner_name v =
     (case v of
        PStr owner \<Rightarrow> if hex_lower_n 32 owner then Inr owner else Inl (Rejected ''EPOCH_OWNER_REQUIRED'')
      | _ \<Rightarrow> Inl (Rejected ''EPOCH_OWNER_REQUIRED''))"

definition epoch_prefix :: "string \<Rightarrow> string" where
  "epoch_prefix owner = ''kairos-epoch-'' @ take 12 owner"

definition epoch_database :: "string \<Rightarrow> string" where
  "epoch_database owner = ''kairos_epoch_'' @ take 12 owner"

definition resource_names :: "pyval \<Rightarrow> (string \<times> string) list py" where
  "resource_names v =
     py_bind (owner_name v) (\<lambda>owner. Inr (map (\<lambda>(key, suffix). (key, epoch_prefix owner @ suffix))
       [(''network'', ''-private''), (''target_volume'', ''-pg-data''), (''source_volume'', ''-source-data''),
        (''restore_volume'', ''-restore-data''), (''redis_volume'', ''-redis-data''), (''target_pg'', ''-pg''),
        (''source_pg'', ''-source''), (''restore_pg'', ''-restore''), (''redis'', ''-redis''), (''serve'', ''-serve'')]))"

definition continuation_worker_name :: "pyval \<Rightarrow> string \<Rightarrow> string py" where
  "continuation_worker_name v attempt =
     (if attempt \<notin> {''01'', ''02'', ''03'', ''04''} then Inl (Rejected ''EXACT_CONTINUATION_ATTEMPT_REQUIRED'')
      else py_bind (owner_name v) (\<lambda>owner. Inr (epoch_prefix owner @ ''-continue-'' @ attempt @ ''-verify-restore-precontinuation'')))"

definition hex_suffix :: "string \<Rightarrow> nat \<Rightarrow> string \<Rightarrow> bool" where
  "hex_suffix prefix n s \<longleftrightarrow> startswith s prefix \<and> hex_lower_n n (drop (length prefix) s)"

definition is_reviewed_boot_restore_host :: "schema \<Rightarrow> string \<Rightarrow> pyval \<Rightarrow> bool" where
  "is_reviewed_boot_restore_host p owner host =
     (case host of
        PStr s \<Rightarrow>
          if is_current p then hex_lower_n 32 owner \<and> hex_suffix (epoch_prefix owner @ ''-restore-current-'') 14 s
          else owner = CONTINUATION_OWNER \<and> hex_suffix ''kairos-epoch-69893dc7b7c6-restore-reviewed-'' 8 s
      | _ \<Rightarrow> False)"

text \<open>\<^verbatim>\<open>[a-z0-9][a-z0-9-]{0,62}\<close> and \<^verbatim>\<open>kairos-epoch-<owner>-[a-z]+\<close>\<close>

definition host_label :: "string \<Rightarrow> bool" where
  "host_label s \<longleftrightarrow> s \<noteq> [] \<and> length s \<le> 63 \<and> slug_char (hd s) \<and> list_all (\<lambda>c. slug_char c \<or> c = CHR ''-'') (tl s)"

definition owned_host :: "string \<Rightarrow> string \<Rightarrow> bool" where
  "owned_host owner s \<longleftrightarrow>
     (let prefix = epoch_prefix owner @ ''-''; rest = drop (length prefix) s in
      startswith s prefix \<and> rest \<noteq> [] \<and> list_all is_lower rest)"

section \<open>What the controller writes\<close>

definition COMMON_FIELDS :: "string list" where "COMMON_FIELDS = [''owner'', ''database'', ''pg_host'', ''redis_host'']"

definition CREDENTIALS :: "string list" where
  "CREDENTIALS = [''producer_password'', ''consumer_password'', ''redis_producer_password'', ''redis_consumer_password'']"

definition RESTORE_FIELDS :: "string list" where
  "RESTORE_FIELDS = [''admin_password'', ''restore_host'', ''restore_database'', ''restore_admin_password'', ''expected_seed'']"

definition MODE_FIELDS :: "(string \<times> string list) list" where
  "MODE_FIELDS = map (\<lambda>(mode, names). (mode, COMMON_FIELDS @ names))
     [(''prepare'', [''admin_password'', ''source_host'', ''source_database'', ''source_admin_password'', ''source_password'',
        ''history_password'', ''producer_password'', ''consumer_password'']),
      (''seed'', [''source_host'', ''source_database'', ''source_password'', ''history_password'', ''seed_expectation'',
        ''source_dump_sha256'']),
      (''catchup'', [''history_password'', ''end_exclusive_ms'', ''maximum_bars'']),
      (''rotate-history'', [''admin_password'', ''history_password'']),
      (''history-state'', [''admin_password'']),
      (''boot-state'', [''admin_password'']),
      (''incident-state'', ''admin_password'' # CREDENTIALS),
      (''incident-drain'', ''admin_password'' # CREDENTIALS @ [''expected_state'']),
      (''incident-verify-restore'', RESTORE_FIELDS),
      (''boot-redis-state'', CREDENTIALS),
      (''boot-redis-clone'', CREDENTIALS),
      (''boot-catchup'', [''history_password'', ''end_exclusive_ms'', ''maximum_bars'', ''expected_seed'']),
      (''boot-verify-restore'', RESTORE_FIELDS),
      (''verify-restore'', RESTORE_FIELDS),
      (''qualify'', CREDENTIALS),
      (''serve'', CREDENTIALS)]"

definition DUMP_SHA256 :: string where
  "DUMP_SHA256 = ''2408db1335dc856122750e4604f14a436184f54a7f4ffab22bc35eb69747a7bc''"

text \<open>Checks in the order of the source, the first that fails deciding.\<close>

fun in_order :: "unit py list \<Rightarrow> unit py" where
  "in_order [] = Inr ()"
| "in_order (c # cs) = py_bind c (\<lambda>_. in_order cs)"

lemma in_order_Inr: "in_order cs = Inr u \<longleftrightarrow> (\<forall>c \<in> set cs. c = Inr ())"
  by (induction cs) (auto simp: py_bind_Inr_iff)

definition reject_when :: "bool \<Rightarrow> string \<Rightarrow> unit py" where
  "reject_when b m = (if b then Inl (Rejected m) else Inr ())"

definition fail_when :: "bool \<Rightarrow> string \<Rightarrow> unit py" where
  "fail_when b m = (if b then epoch_fail m else Inr ())"

lemma reject_when_Inr [simp]: "reject_when b m = Inr u \<longleftrightarrow> \<not> b"
  by (simp add: reject_when_def)

lemma fail_when_Inr [simp]: "fail_when b m = Inr u \<longleftrightarrow> \<not> b"
  by (simp add: fail_when_def)

fun runtime_error :: "exn \<Rightarrow> bool" where
  "runtime_error (RuntimeError _) = True"
| "runtime_error (EpochError _) = True"
| "runtime_error (Rejected _) = True"
| "runtime_error (SnapshotError _) = True"
| "runtime_error _ = False"

fun value_or_type_error :: "exn \<Rightarrow> bool" where
  "value_or_type_error (SeedError _) = True"
| "value_or_type_error (AofError _) = True"
| "value_or_type_error (EvidenceSchemaError _) = True"
| "value_or_type_error e \<longleftrightarrow> e \<in> {ValueError, JSONDecodeError, UnicodeDecodeError, UnicodeEncodeError, TypeError}"

text \<open>The later generations: their validator is given, its refusals are renamed.\<close>

definition generation_modes :: "string \<Rightarrow> string list" where
  "generation_modes r = [r @ ''-state'', r @ ''-verify-restore'', r @ ''-drain'']"

definition renamed :: "(exn \<Rightarrow> bool) \<Rightarrow> string \<Rightarrow> unit py \<Rightarrow> unit py" where
  "renamed caught m c = (case c of Inl e \<Rightarrow> Inl (if caught e then Rejected m else e) | Inr _ \<Rightarrow> Inr ())"

text \<open>A digest of one row: \<^verbatim>\<open>{"count": 1, "sha256": ...}\<close>.\<close>

definition identity_digest :: "pyval \<Rightarrow> bool py" where
  "identity_digest v =
     (case v of
        PDict m \<Rightarrow> if \<not> keys_are m [''count'', ''sha256''] \<or> dict_get m ''count'' \<noteq> PInt 1 then Inr False
                   else str_is_hex 64 (dict_get m ''sha256'')
      | _ \<Rightarrow> Inr False)"

definition mode_fields :: "bool \<Rightarrow> string \<Rightarrow> string list option" where
  "mode_fields current mode =
     map_option (\<lambda>names. if current \<and> mode = ''boot-state'' then names @ [''database_identity''] else names)
       (map_of MODE_FIELDS mode)"

definition str_where :: "(string \<Rightarrow> bool) \<Rightarrow> pyval \<Rightarrow> bool" where
  "str_where P v = (case v of PStr s \<Rightarrow> P s | _ \<Rightarrow> False)"

definition catchup_checks :: "items \<Rightarrow> unit py" where
  "catchup_checks m =
     (case dict_get m ''end_exclusive_ms'' of
        PInt e \<Rightarrow>
          if e \<le> 0 then Inl (Rejected ''CLOSED_END_EXCLUSIVE_REQUIRED'')
          else reject_when (e mod 60000 \<noteq> 0 \<or> \<not> py_eq (dict_get m ''maximum_bars'') (PInt MAX_BARS)) ''FIXED_GLOBAL_CATCHUP_CAP_REQUIRED''
      | _ \<Rightarrow> Inl (Rejected ''CLOSED_END_EXCLUSIVE_REQUIRED''))"

definition restore_hosts :: "string \<Rightarrow> string \<Rightarrow> string list" where
  "restore_hosts mode owner =
     [epoch_prefix owner @ ''-restore'']
     @ (if owner = CONTINUATION_OWNER \<and> mode \<noteq> ''verify-restore''
        then map (\<lambda>s. epoch_prefix CONTINUATION_OWNER @ s)
          [''-restore-incident03'', ''-restore-transport03'', ''-restore-transport04'', ''-restore-transport05'', ''-restore-transport06'']
        else [])
     @ (if owner = CONTINUATION_OWNER \<and> mode = ''boot-verify-restore''
        then map (\<lambda>s. epoch_prefix CONTINUATION_OWNER @ s) [''-restore-transport07'', ''-restore-transport08''] else [])"

definition restore_checks :: "schema \<Rightarrow> string \<Rightarrow> string \<Rightarrow> items \<Rightarrow> unit py" where
  "restore_checks p mode owner m =
     (let host = dict_get m ''restore_host'' in
      if \<not> hashable host then Inl TypeError
      else reject_when
        ((host \<notin> PStr ` set (restore_hosts mode owner)
            \<and> \<not> (mode = ''boot-verify-restore'' \<and> is_reviewed_boot_restore_host p owner host))
          \<or> dict_get m ''restore_database'' \<noteq> PStr (''kairos_recovery_'' @ take 12 owner @ ''_epochrestore'')
          \<or> \<not> is_dict (dict_get m ''expected_seed''))
        ''ISOLATED_RESTORE_IDENTITY_REQUIRED'')"

definition mode_checks_for :: "schema \<Rightarrow> string \<Rightarrow> string \<Rightarrow> items \<Rightarrow> unit py list" where
  "mode_checks_for p mode owner m =
     [if mode \<in> {''catchup'', ''boot-catchup''} then catchup_checks m else Inr (),
      reject_when (mode = ''seed'' \<and> (dict_get m ''source_dump_sha256'' \<noteq> PStr DUMP_SHA256 \<or> \<not> is_dict (dict_get m ''seed_expectation'')))
        ''PINNED_SEED_PROVENANCE_REQUIRED'',
      if mode \<in> {''verify-restore'', ''boot-verify-restore'', ''incident-verify-restore''} then restore_checks p mode owner m else Inr (),
      reject_when (mode = ''rotate-history'' \<and> (dict_get m ''pg_host'' \<noteq> PStr (epoch_prefix owner @ ''-pg'')
          \<or> dict_get m ''history_password'' = dict_get m ''admin_password'' \<or> \<not> str_where (hex_lower_n 64) (dict_get m ''history_password'')))
        ''EXACT_NEW_EPOCH_HISTORY_ROTATION_REQUIRED'',
      reject_when (mode = ''history-state'' \<and> (dict_get m ''pg_host'' \<noteq> PStr (epoch_prefix owner @ ''-pg'')
          \<or> \<not> str_where (hex_lower_n 64) (dict_get m ''admin_password'')))
        ''EXACT_READ_ONLY_HISTORY_STATE_IDENTITY_REQUIRED'',
      reject_when (mode \<in> {''boot-redis-state'', ''boot-redis-clone''} \<and> (dict_get m ''pg_host'' \<noteq> PStr (epoch_prefix owner @ ''-pg'')
          \<or> dict_get m ''redis_host'' \<noteq> PStr (epoch_prefix owner @ (if mode = ''boot-redis-clone'' then ''-redisclone'' else ''-redis''))))
        ''EXACT_READ_ONLY_REDIS_PROOF_HOSTS_REQUIRED'',
      reject_when (mode \<in> {''incident-state'', ''incident-drain'', ''incident-verify-restore''}
          \<and> (owner \<noteq> CONTINUATION_OWNER \<or> dict_get m ''pg_host'' \<noteq> PStr (epoch_prefix CONTINUATION_OWNER @ ''-pg'')
            \<or> dict_get m ''redis_host'' \<noteq> PStr (epoch_prefix CONTINUATION_OWNER @ ''-redis'')
            \<or> (mode = ''incident-drain'' \<and> \<not> is_dict (dict_get m ''expected_state''))))
        ''EXACT_INCIDENT_TARGET_REQUIRED'']"

definition check_worker_fields :: "schema \<Rightarrow> string \<Rightarrow> string list \<Rightarrow> items \<Rightarrow> unit py" where
  "check_worker_fields p mode names m =
     py_bind (reject_if (py_bind (str_is_hex 32 (dict_get m ''owner'')) (\<lambda>ok. Inr (\<not> ok))) (Rejected ''EPOCH_OWNER_REQUIRED'')) (\<lambda>_.
       case dict_get m ''owner'' of
         PStr owner \<Rightarrow>
           in_order
             ([reject_when (dict_get m ''database'' \<noteq> PStr (epoch_database owner)) ''EPOCH_DATABASE_IDENTITY_REQUIRED'']
              @ map (\<lambda>key. reject_when (\<not> str_where host_label (dict_get m key)) ''PRIVATE_EPOCH_HOST_IDENTITY_REQUIRED'')
                  [''pg_host'', ''redis_host'']
              @ map (\<lambda>key. reject_when (\<not> str_where (\<lambda>s. length s \<ge> 32) (dict_get m key)) ''NEW_EPOCH_SECRET_REQUIRED'')
                  (filter (\<lambda>key. endswith key ''password'') names)
              @ mode_checks_for p mode owner m)
       | _ \<Rightarrow> Inl TypeError)"

definition validate_worker_config :: "(string \<Rightarrow> pyval \<Rightarrow> unit py) \<Rightarrow> string \<Rightarrow> string \<Rightarrow> pyval \<Rightarrow> unit py" where
  "validate_worker_config later profile mode v =
     (case map_of SCHEMA_PROFILES profile of
        None \<Rightarrow> Inl (Rejected ''UNKNOWN_WORKER_SCHEMA_PROFILE'')
      | Some p \<Rightarrow>
          if mode \<in> set (generation_modes ''r7'')
          then renamed (\<lambda>e. runtime_error e \<or> value_or_type_error e) ''EXACT_R7_WORKER_CONFIG_REQUIRED'' (later mode v)
          else if mode \<in> set (generation_modes ''r6'')
          then renamed (\<lambda>e. runtime_error e \<or> value_or_type_error e) ''EXACT_R6_WORKER_CONFIG_REQUIRED'' (later mode v)
          else if mode \<in> set (generation_modes ''r5'')
          then renamed runtime_error ''EXACT_R5_WORKER_CONFIG_REQUIRED'' (later mode v)
          else
            py_bind (if is_current p \<and> mode = ''boot-state''
                then reject_if (py_bind (identity_digest (case v of PDict m \<Rightarrow> dict_get m ''database_identity'' | _ \<Rightarrow> PNone))
                       (\<lambda>ok. Inr (\<not> ok))) (Rejected ''CURRENT_BOOT_DATABASE_IDENTITY_REQUIRED'')
                else Inr ()) (\<lambda>_.
              case (mode_fields (is_current p) mode, v) of
                (Some names, PDict m) \<Rightarrow>
                  if keys_are m names then check_worker_fields p mode names m
                  else Inl (Rejected ''EXACT_WORKER_CONFIG_FIELDS_REQUIRED'')
              | _ \<Rightarrow> Inl (Rejected ''EXACT_WORKER_CONFIG_FIELDS_REQUIRED'')))"

section \<open>The expected state of a boot\<close>

definition chain_count :: "pyval \<Rightarrow> pyval \<Rightarrow> int option" where
  "chain_count actual anchor =
     (case anchor of
        PDict a \<Rightarrow>
          if \<not> keys_are a [''count'', ''first_open_time_ms'', ''last_open_time_ms'', ''last_close_time_ms''] then None
          else
            (case (dict_get a ''count'', dict_get a ''first_open_time_ms'', dict_get a ''last_open_time_ms'', dict_get a ''last_close_time_ms'') of
               (PInt n, PInt lo, PInt hi, PInt close) \<Rightarrow>
                 if n \<le> 0 \<or> lo < 0 \<or> lo mod MINUTE \<noteq> 0 \<or> hi - lo \<noteq> (n - 1) * MINUTE \<or> close \<noteq> hi + MINUTE - 1 \<or> \<not> py_eq actual anchor
                 then None else Some n
             | _ \<Rightarrow> None)
      | _ \<Rightarrow> None)"

definition validate_history_snapshot :: "pyval \<Rightarrow> items \<Rightarrow> pyval \<Rightarrow> unit py" where
  "validate_history_snapshot audit_count actual expected_seed =
     (case (case expected_seed of PDict m \<Rightarrow> dict_get m ''anchors'' | _ \<Rightarrow> PNone) of
        PDict expected \<Rightarrow>
          if \<not> keys_are expected FEED_SYMBOLS then epoch_fail ''EXPECTED_FIVE_SYMBOL_HISTORY_REQUIRED''
          else if \<not> keys_are actual FEED_SYMBOLS \<or> \<not> type_is_int audit_count then epoch_fail ''EXACT_EXPECTED_HISTORY_SNAPSHOT_REQUIRED''
          else
            let counts = map (\<lambda>s. chain_count (dict_get actual s) (dict_get expected s)) FEED_SYMBOLS in
            if None \<in> set counts then epoch_fail ''EXACT_EXPECTED_HISTORY_SNAPSHOT_REQUIRED''
            else fail_when (audit_count \<noteq> PInt (sum_list (map the counts))) ''EXTRA_OR_MISSING_EPOCH_AUDIT_HISTORY''
      | _ \<Rightarrow> epoch_fail ''EXPECTED_FIVE_SYMBOL_HISTORY_REQUIRED'')"

definition BOOT_ALLOWED_NONEMPTY_TABLES :: "string list" where
  "BOOT_ALLOWED_NONEMPTY_TABLES =
     [''schema_migrations'', ''event_audit'', ''message_outbox'', ''message_inbox'', ''paper_canary_database_identity'']"

definition BOOT_DATABASE_IDENTITY :: pyval where
  "BOOT_DATABASE_IDENTITY =
     PDict [(''count'', PInt 1), (''sha256'', PStr ''ba22f0bf5a60970ce0553e4c307106244912c7764e0f355a1955be65898e6e38'')]"

definition validate_database_identity_digest :: "pyval \<Rightarrow> unit py" where
  "validate_database_identity_digest v =
     py_bind (identity_digest v) (\<lambda>ok. fail_when (\<not> ok) ''EXACT_DATABASE_IDENTITY_DIGEST_REQUIRED'')"

definition validate_boot_database_identity :: "schema \<Rightarrow> items \<Rightarrow> pyval \<Rightarrow> unit py" where
  "validate_boot_database_identity p tables expected_identity =
     (let found = dict_get tables ''paper_canary_database_identity'' in
      if is_current p
      then in_order [validate_database_identity_digest expected_identity, validate_database_identity_digest found,
             fail_when (\<not> py_eq found expected_identity) ''BOOT_MIGRATION_DATABASE_IDENTITY_CONFLICT'']
      else fail_when (\<not> py_eq found BOOT_DATABASE_IDENTITY) ''BOOT_MIGRATION_DATABASE_IDENTITY_CONFLICT'')"

definition expected_original_prefix :: "schema \<Rightarrow> pyval" where
  "expected_original_prefix p =
     PDict ([(''rows'', PInt 173164),
        (''audit_table_sha256'', PStr (if is_current p then ''d22dd917b3ce71baa569531170c5a0cf7682b8c59de41b335ca25116c210c609''
           else ''f23b4060feae703c568b0204f4b3ff8932fe2813b20f578bc0a0d983e5600499'')),
        (''last_open_time_ms'', PInt 1789832580000)]
       @ (if is_current p then [(''digest_scope'', PStr ''audit-original-fields-excluding-import-persisted-at.v1'')] else []))"

definition boot_fields :: "schema \<Rightarrow> string list" where
  "boot_fields p =
     [''state'', ''matched_public_tables'', ''tables'', ''sequences'', ''anchors'', ''original_prefix'', ''queue'', ''trading_started'']
     @ (if is_current p then [''schema_profile'', ''schema_migration_count'', ''schema_public_table_count'', ''database_identity''] else [])"

abbreviation count_is :: "nat \<Rightarrow> pyval \<Rightarrow> bool" where
  "count_is n v \<equiv> py_eq v (PInt (int n))"

definition boot_shape_differs :: "schema \<Rightarrow> items \<Rightarrow> bool py" where
  "boot_shape_differs p m =
     py_or
       [Inr (\<not> keys_are m (boot_fields p)), Inr (dict_get m ''state'' \<noteq> PStr ''PASS_BOOT_STATE''),
        Inr (\<not> count_is (length (sp_public_tables p)) (dict_get m ''matched_public_tables'')),
        Inr (dict_get m ''trading_started'' \<noteq> PBool False),
        py_bind (py_set (dict_get_default m ''tables'' (PDict []))) (\<lambda>ts. Inr (\<not> same_strs ts (sp_public_tables p))),
        Inr (\<not> is_dict (dict_get m ''sequences'')), Inr (\<not> is_dict (dict_get m ''queue'')), Inr (\<not> is_dict (dict_get m ''anchors'')),
        Inr (\<not> is_dict (dict_get m ''original_prefix''))]"

definition boot_profile_differs :: "schema \<Rightarrow> items \<Rightarrow> bool py" where
  "boot_profile_differs p m =
     (if \<not> is_current p then Inr False
      else py_or
        [Inr (dict_get m ''schema_profile'' \<noteq> PStr (sp_identity p)),
         Inr (\<not> count_is (length (sp_migrations p)) (dict_get m ''schema_migration_count'')),
         Inr (\<not> count_is (length (sp_public_tables p)) (dict_get m ''schema_public_table_count'')),
         py_bind (py_get (dict_get m ''tables'') ''schema_migrations'') (\<lambda>v. Inr (\<not> is_dict v)),
         py_bind (py_get (dict_get m ''tables'') ''schema_migrations'') (\<lambda>v.
           py_bind (py_get v ''count'') (\<lambda>n. Inr (\<not> count_is (length (sp_migrations p)) n)))])"

definition table_row_differs :: "string \<times> pyval \<Rightarrow> bool py" where
  "table_row_differs = (\<lambda>(_, row).
     case row of
       PDict r \<Rightarrow>
         (case dict_get r ''count'' of
            PInt n \<Rightarrow> if n < 0 then Inr True else py_bind (str_is_hex 64 (dict_get_default r ''sha256'' (PStr []))) (\<lambda>ok. Inr (\<not> ok))
          | _ \<Rightarrow> Inr True)
     | _ \<Rightarrow> Inr True)"

definition table_count :: "items \<Rightarrow> string \<Rightarrow> pyval" where
  "table_count tables table = (case dict_get tables table of PDict r \<Rightarrow> dict_get r ''count'' | _ \<Rightarrow> PNone)"

definition QUEUE_KEYS :: "string list" where
  "QUEUE_KEYS = [''outbox_rows'', ''inbox_rows'', ''completed_inbox'', ''pending_outbox'', ''unresolved_inbox'', ''trading_rows'']"

definition queue_differs :: "schema \<Rightarrow> items \<Rightarrow> items \<Rightarrow> items \<Rightarrow> bool" where
  "queue_differs p m tables queue \<longleftrightarrow>
     \<not> py_eq (dict_get m ''original_prefix'') (expected_original_prefix p)
     \<or> \<not> py_eq (dict_get queue ''outbox_rows'') (dict_get queue ''inbox_rows'')
     \<or> \<not> py_eq (dict_get queue ''completed_inbox'') (dict_get queue ''inbox_rows'')
     \<or> \<not> count_is 0 (dict_get queue ''pending_outbox'') \<or> \<not> count_is 0 (dict_get queue ''unresolved_inbox'')
     \<or> \<not> count_is 0 (dict_get queue ''trading_rows'')
     \<or> \<not> py_eq (dict_get queue ''outbox_rows'') (table_count tables ''message_outbox'')
     \<or> \<not> py_eq (dict_get queue ''inbox_rows'') (table_count tables ''message_inbox'')
     \<or> list_ex (\<lambda>key. case dict_get queue key of PInt n \<Rightarrow> n < 0 | _ \<Rightarrow> True) QUEUE_KEYS"

definition boot_expectation :: exn where
  "boot_expectation = EpochError ''EXACT_BOOT_STATE_EXPECTATION_REQUIRED''"

definition validate_boot_seed :: "schema \<Rightarrow> pyval \<Rightarrow> unit py" where
  "validate_boot_seed p v =
     (case v of
        PDict m \<Rightarrow>
          py_bind (reject_if (boot_shape_differs p m) boot_expectation) (\<lambda>_.
          py_bind (reject_if (boot_profile_differs p m) boot_expectation) (\<lambda>_.
          py_bind (py_items (dict_get m ''tables'')) (\<lambda>tables.
          py_bind (reject_if (py_any table_row_differs tables) boot_expectation) (\<lambda>_.
          py_bind (fail_when (list_ex (\<lambda>t. t \<notin> set BOOT_ALLOWED_NONEMPTY_TABLES \<and> table_count tables t \<noteq> PInt 0) (sp_public_tables p))
                     ''BOOT_STATE_NON_AUDIT_TABLE_NOT_EMPTY'') (\<lambda>_.
          py_bind (validate_boot_database_identity p tables (dict_get m ''database_identity'')) (\<lambda>_.
          case (dict_get m ''queue'', dict_get m ''anchors'') of
            (PDict queue, PDict history) \<Rightarrow>
              if queue_differs p m tables queue then Inl boot_expectation
              else validate_history_snapshot (table_count tables ''event_audit'') history (PDict [(''anchors'', PDict history)])
          | _ \<Rightarrow> Inl boot_expectation))))))
      | _ \<Rightarrow> Inl boot_expectation)"

section \<open>What the worker accepts\<close>

definition MODES :: "string list" where
  "MODES =
     [''prepare'', ''seed'', ''catchup'', ''verify-restore'', ''boot-state'', ''incident-state'', ''incident-drain'', ''incident-verify-restore'',
      ''r5-state'', ''r5-verify-restore'', ''r5-drain'', ''r6-state'', ''r6-verify-restore'', ''r6-drain'', ''r7-state'', ''r7-verify-restore'',
      ''r7-drain'', ''boot-verify-restore'', ''boot-catchup'', ''boot-redis-state'', ''boot-redis-clone'', ''rotate-history'',
      ''history-state'', ''qualify'', ''serve'']"

text \<open>\<^verbatim>\<open>re.fullmatch\<close> on a value that is not a string raises.\<close>

definition match :: "(string \<Rightarrow> bool) \<Rightarrow> pyval \<Rightarrow> bool py" where
  "match P v = (case v of PStr s \<Rightarrow> Inr (P s) | _ \<Rightarrow> Inl TypeError)"

definition fail_unless :: "bool py \<Rightarrow> string \<Rightarrow> unit py" where
  "fail_unless c m = py_bind c (\<lambda>ok. fail_when (\<not> ok) m)"

definition ADMIN_CREDENTIALS :: "string list" where
  "ADMIN_CREDENTIALS = [''admin_password'', ''history_password'', ''source_password'', ''source_admin_password'']"

definition deadline_differs :: "int \<Rightarrow> pyval \<Rightarrow> bool" where
  "deadline_differs now v = (case v of PInt e \<Rightarrow> e mod MINUTE \<noteq> 0 \<or> e > now - FINALITY_MS | _ \<Rightarrow> True)"

definition owned_boot_checks :: "string \<Rightarrow> string \<Rightarrow> items \<Rightarrow> unit py" where
  "owned_boot_checks mode owner m =
     fail_when (mode \<in> {''boot-state'', ''boot-verify-restore'', ''boot-catchup'', ''boot-redis-state'', ''boot-redis-clone''}
        \<and> (dict_get m ''pg_host'' \<noteq> PStr (epoch_prefix owner @ ''-pg'')
          \<or> dict_get m ''redis_host'' \<noteq> PStr (epoch_prefix owner @ (if mode = ''boot-redis-clone'' then ''-redisclone'' else ''-redis''))))
       ''EXACT_OWNED_BOOT_EPOCH_HOSTS_REQUIRED''"

definition boot_restore_checks :: "schema \<Rightarrow> string \<Rightarrow> items \<Rightarrow> unit py" where
  "boot_restore_checks p owner m =
     (if \<not> keys_are m (COMMON_FIELDS @ RESTORE_FIELDS) then epoch_fail ''EXACT_OWNED_BOOT_RESTORE_CONFIG_REQUIRED''
      else
        let host = dict_get m ''restore_host'' in
        if \<not> hashable host then Inl TypeError
        else in_order
          [fail_when ((host \<notin> PStr ` set (restore_hosts ''boot-verify-restore'' owner) \<and> \<not> is_reviewed_boot_restore_host p owner host)
             \<or> dict_get m ''restore_database'' \<noteq> PStr (''kairos_recovery_'' @ take 12 owner @ ''_epochrestore''))
             ''EXACT_OWNED_BOOT_RESTORE_CONFIG_REQUIRED'',
           validate_boot_seed p (dict_get m ''expected_seed'')])"

definition worker_mode_checks :: "schema \<Rightarrow> int \<Rightarrow> string \<Rightarrow> string \<Rightarrow> items \<Rightarrow> unit py list" where
  "worker_mode_checks p now mode owner m =
     [owned_boot_checks mode owner m,
      fail_when (mode = ''history-state'' \<and> \<not> keys_are m (COMMON_FIELDS @ [''admin_password''])) ''EXACT_READONLY_HISTORY_STATE_CONFIG_REQUIRED'',
      fail_when (mode \<in> {''qualify'', ''serve''} \<and> list_ex (\<lambda>k. map_of m k \<noteq> None) ADMIN_CREDENTIALS) ''RUNTIME_ADMIN_CREDENTIAL_REJECTED'',
      fail_when (mode \<in> {''qualify'', ''serve''} \<and> list_ex (\<lambda>k. \<not> py_truth (dict_get m k)) CREDENTIALS) ''SEPARATE_RUNTIME_CREDENTIALS_REQUIRED'',
      fail_when (mode = ''catchup'' \<and> deadline_differs now (dict_get m ''end_exclusive_ms'')) ''FIXED_FINALITY_SAFE_DEADLINE_REQUIRED'',
      fail_when (mode = ''catchup'' \<and> \<not> py_eq (dict_get m ''maximum_bars'') (PInt MAX_BARS)) ''EXACT_GLOBAL_HISTORY_CAP_REQUIRED'',
      fail_when (mode = ''boot-state'' \<and> \<not> keys_are m (COMMON_FIELDS @ [''admin_password''] @ (if is_current p then [''database_identity''] else [])))
        ''EXACT_READONLY_BOOT_STATE_CONFIG_REQUIRED'',
      if mode = ''boot-verify-restore'' then boot_restore_checks p owner m else Inr (),
      if mode = ''boot-catchup''
      then in_order
        [fail_when (deadline_differs now (dict_get m ''end_exclusive_ms'') \<or> \<not> py_eq (dict_get m ''maximum_bars'') (PInt MAX_BARS)
            \<or> \<not> keys_are m (COMMON_FIELDS @ [''history_password'', ''end_exclusive_ms'', ''maximum_bars'', ''expected_seed'']))
           ''EXACT_FIXED_BOOT_CATCHUP_CONFIG_REQUIRED'',
         validate_boot_seed p (dict_get m ''expected_seed'')]
      else Inr (),
      fail_when (mode \<in> {''boot-redis-state'', ''boot-redis-clone''} \<and> \<not> keys_are m (COMMON_FIELDS @ CREDENTIALS))
        ''EXACT_READONLY_BOOT_REDIS_CONFIG_REQUIRED'',
      fail_when (mode = ''seed'' \<and> (dict_get m ''source_dump_sha256'' \<noteq> PStr DUMP_SHA256
          \<or> \<not> py_eq (dict_get m ''seed_expectation'') (PDict [(''accepted_dump_sha256'', PStr DUMP_SHA256)])))
        ''PINNED_SOURCE_DUMP_PROVENANCE_REQUIRED'',
      fail_when (mode = ''rotate-history'' \<and> (\<not> keys_are m (COMMON_FIELDS @ [''admin_password'', ''history_password''])
          \<or> dict_get m ''pg_host'' \<noteq> PStr (epoch_prefix owner @ ''-pg'') \<or> dict_get m ''admin_password'' = dict_get m ''history_password''))
        ''EXACT_NEW_EPOCH_HISTORY_ROTATION_REQUIRED'']"

definition validate_config :: "(string \<Rightarrow> pyval \<Rightarrow> unit py) \<Rightarrow> schema \<Rightarrow> int \<Rightarrow> string \<Rightarrow> pyval \<Rightarrow> unit py" where
  "validate_config later p now mode v =
     (if mode \<in> set (generation_modes ''r7'' @ generation_modes ''r6'' @ generation_modes ''r5'') then later mode v
      else if mode \<notin> set MODES then epoch_fail ''EPOCH_MODE_CONFIG_REQUIRED''
      else
        case v of
          PDict m \<Rightarrow>
            py_bind (fail_unless (match (hex_lower_n 32) (dict_get_default m ''owner'' (PStr []))) ''EPOCH_OWNER_REQUIRED'') (\<lambda>_.
              case dict_get m ''owner'' of
                PStr owner \<Rightarrow>
                  in_order
                    ([fail_when (dict_get m ''database'' \<noteq> PStr (epoch_database owner)) ''NEW_EPOCH_DATABASE_REQUIRED'',
                      if mode = ''boot-state'' \<and> is_current p
                      then in_order [fail_when (\<not> keys_are m (COMMON_FIELDS @ [''admin_password'', ''database_identity'']))
                                       ''CURRENT_BOOT_DATABASE_IDENTITY_REQUIRED'',
                                     validate_database_identity_digest (dict_get m ''database_identity'')]
                      else Inr ()]
                     @ map (\<lambda>key. fail_unless (match (owned_host owner) (dict_get_default m key (PStr []))) ''OWNED_EPOCH_HOST_REQUIRED'')
                         [''pg_host'', ''redis_host'']
                     @ map (\<lambda>(_, item). fail_unless (match (hex_lower_n 64) item) ''NEW_PRIVATE_CREDENTIAL_REQUIRED'')
                         (filter (\<lambda>(key, _). endswith key ''password'') m)
                     @ worker_mode_checks p now mode owner m)
              | _ \<Rightarrow> Inl TypeError)
        | _ \<Rightarrow> epoch_fail ''EPOCH_MODE_CONFIG_REQUIRED'')"

end
