(* ===== verification/Epoch_Policy.thy ===== *)
theory Epoch_Policy
  imports Epoch_Config Redis_Aof "HOL-Library.While_Combinator"
begin

text \<open>
  Decisions of \<^verbatim>\<open>src/scripts/runtime_epoch_controller.py\<close> that need no container: the end of a
  catch-up within the append cap, the access-control file of the epoch's Redis, the command and mounts of a
  worker, the running status of the serving worker, and the identity of a build.
\<close>

section \<open>The end of a catch-up\<close>

text \<open>The first minute a symbol needs, from the anchor of its seed.\<close>

definition anchor_start :: "pyval \<Rightarrow> int py" where
  "anchor_start v =
     (case v of
        PDict m \<Rightarrow>
          (case (dict_get m ''last_open_time_ms'', dict_get m ''last_close_time_ms'', dict_get m ''count'') of
             (PInt last_open, PInt last_close, PInt n) \<Rightarrow>
               if n < 1 \<or> last_open mod MINUTE \<noteq> 0 \<or> last_close \<noteq> last_open + MINUTE - 1
               then Inl (Rejected ''SEED_ANCHOR_FINALITY_REQUIRED'') else Inr (last_close + 1)
           | _ \<Rightarrow> Inl (Rejected ''SEED_ANCHOR_FINALITY_REQUIRED''))
      | _ \<Rightarrow> Inl (Rejected ''SEED_ANCHOR_SHAPE_REQUIRED''))"

definition seed_starts :: "pyval \<Rightarrow> int list py" where
  "seed_starts seed =
     (case (case seed of PDict m \<Rightarrow> dict_get m ''anchors'' | _ \<Rightarrow> PNone) of
        PDict records \<Rightarrow>
          if \<not> keys_are records FEED_SYMBOLS then Inl (Rejected ''EXACT_FIVE_SYMBOL_SEED_ANCHORS_REQUIRED'')
          else py_map (\<lambda>(_, record_of). anchor_start record_of) records
      | _ \<Rightarrow> Inl (Rejected ''EXACT_FIVE_SYMBOL_SEED_ANCHORS_REQUIRED''))"

definition required_through :: "int list \<Rightarrow> int \<Rightarrow> int" where
  "required_through starts proposed = sum_list (map (\<lambda>start. max 0 ((proposed - start) div MINUTE)) starts)"

text \<open>The value is \<open>None\<close> when the loop does not end.\<close>

definition catchup_end_exclusive_ms :: "pyval \<Rightarrow> pyval \<Rightarrow> pyval \<Rightarrow> int py option" where
  "catchup_end_exclusive_ms seed target append_limit =
     (case append_limit of
        PInt limit \<Rightarrow>
          if \<not> (1 \<le> limit \<and> limit \<le> MAX_BARS) then Some (Inl (Rejected ''FIXED_GLOBAL_CATCHUP_CAP_REQUIRED''))
          else
            (case target of
               PInt target_end \<Rightarrow>
                 if target_end \<le> 0 \<or> target_end mod MINUTE \<noteq> 0 then Some (Inl (Rejected ''CLOSED_END_EXCLUSIVE_REQUIRED''))
                 else
                   (case seed_starts seed of
                      Inl e \<Rightarrow> Some (Inl e)
                    | Inr starts \<Rightarrow>
                        let earliest = Min (set starts) in
                        map_option (\<lambda>proposed. if proposed \<le> earliest then Inl (Rejected ''CATCHUP_MADE_NO_BOUNDED_PROGRESS'') else Inr proposed)
                          (while_option (\<lambda>proposed. required_through starts proposed > limit) (\<lambda>proposed. proposed - MINUTE)
                            (min target_end (earliest + limit div int (length FEED_SYMBOLS) * MINUTE))))
             | _ \<Rightarrow> Some (Inl (Rejected ''CLOSED_END_EXCLUSIVE_REQUIRED'')))
      | _ \<Rightarrow> Some (Inl (Rejected ''FIXED_GLOBAL_CATCHUP_CAP_REQUIRED'')))"

section \<open>The access-control file\<close>

definition acl_rule :: "(bytes \<Rightarrow> string) \<Rightarrow> string \<Rightarrow> string \<Rightarrow> string list \<Rightarrow> string list \<Rightarrow> string" where
  "acl_rule sha user password keys commands =
     ''user '' @ user @ '' on #'' @ sha password @ '' '' @ join '' '' keys @ '' '' @ join '' '' (map (\<lambda>cmd. ''+'' @ cmd) commands)"

definition PRODUCER_COMMANDS :: "string list" where
  "PRODUCER_COMMANDS = [''auth'', ''hello'', ''client|setinfo'', ''ping'', ''eval'', ''hget'', ''hset'', ''xadd'', ''xrange'', ''xlen'', ''xinfo|groups'']"

definition CONSUMER_COMMANDS :: "string list" where
  "CONSUMER_COMMANDS =
     [''auth'', ''hello'', ''client|setinfo'', ''ping'', ''xgroup|create'', ''xreadgroup'', ''xautoclaim'', ''xpending'', ''xack'']"

definition epoch_rules :: "(bytes \<Rightarrow> string) \<Rightarrow> string \<Rightarrow> string \<Rightarrow> string \<Rightarrow> string \<Rightarrow> string list" where
  "epoch_rules sha owner admin_password producer_password consumer_password =
     [acl_rule sha ''kairos_epoch_admin'' admin_password [''~*''] [''@all''],
      acl_rule sha ''kairos_epoch_producer'' producer_password [''~'' @ TOPIC, ''~'' @ publication_key owner] PRODUCER_COMMANDS,
      acl_rule sha ''kairos_epoch_consumer'' consumer_password [''~'' @ TOPIC] CONSUMER_COMMANDS]"

definition redis_acl_text :: "(bytes \<Rightarrow> string) \<Rightarrow> string \<Rightarrow> pyval \<Rightarrow> pyval \<Rightarrow> pyval \<Rightarrow> string py" where
  "redis_acl_text sha owner admin_password producer_password consumer_password =
     py_bind (owner_name (PStr owner)) (\<lambda>owner.
       case (admin_password, producer_password, consumer_password) of
         (PStr a, PStr p, PStr c) \<Rightarrow>
           if \<not> hex_lower_n 64 a \<or> \<not> hex_lower_n 64 p \<or> \<not> hex_lower_n 64 c \<or> card {a, p, c} \<noteq> 3
           then Inl (Rejected ''DISTINCT_NEW_EPOCH_SECRETS_REQUIRED'')
           else py_bind (replay_default_acl owner) (\<lambda>default.
             Inr (concat (map (\<lambda>line. line @ [CHR 0x0A]) (default # epoch_rules sha owner a p c))))
       | _ \<Rightarrow> Inl (Rejected ''DISTINCT_NEW_EPOCH_SECRETS_REQUIRED''))"

section \<open>The worker container\<close>

definition WORKER_PATH_IN_IMAGE :: string where "WORKER_PATH_IN_IMAGE = ''/operator/runtime_epoch_worker.py''"
definition CONFIG_PATH_IN_CONTAINER :: string where "CONFIG_PATH_IN_CONTAINER = ''/config/epoch.json''"
definition OUTPUT_PATH_IN_CONTAINER :: string where "OUTPUT_PATH_IN_CONTAINER = ''/output''"

definition build_worker_argv :: "string \<Rightarrow> string \<Rightarrow> string \<Rightarrow> string list py" where
  "build_worker_argv mode config_path output_path =
     (if mode \<notin> set MODES then Inl (Rejected ''WORKER_MODE_REQUIRED'')
      else if config_path \<noteq> CONFIG_PATH_IN_CONTAINER \<or> output_path \<noteq> OUTPUT_PATH_IN_CONTAINER
      then Inl (Rejected ''FIXED_WORKER_PATHS_REQUIRED'')
      else Inr [''python'', ''-B'', WORKER_PATH_IN_IMAGE, ''--mode'', mode, ''--config'', config_path, ''--output'', output_path])"

definition TMPFS :: "(string \<times> string list) list" where
  "TMPFS = [(''/tmp'', [''rw'', ''nosuid'', ''nodev'', ''noexec'', ''size=64m'']),
            (''/runtime-libs'', [''rw'', ''nosuid'', ''nodev'', ''exec'', ''size=128m''])]"

definition validate_worker_tmpfs :: "(pyfloat \<Rightarrow> string) \<Rightarrow> pyval \<Rightarrow> unit py" where
  "validate_worker_tmpfs ft v =
     (case v of
        PDict m \<Rightarrow>
          if \<not> keys_are m (map fst TMPFS) then Inl (Rejected ''EXACT_WORKER_TMPFS_SET_REQUIRED'')
          else in_order (map (\<lambda>(destination, tokens).
            reject_when (set (split_at (CHR '','') (py_str ft (dict_get m destination))) \<noteq> set tokens)
              ''EXECUTABLE_LIBRARY_TMPFS_REQUIRED'') TMPFS)
      | _ \<Rightarrow> Inl (Rejected ''EXACT_WORKER_TMPFS_SET_REQUIRED''))"

definition private_worker_projection :: "(string \<Rightarrow> pyval \<Rightarrow> unit py) \<Rightarrow> string \<Rightarrow> pyval \<Rightarrow> pyval py" where
  "private_worker_projection later mode config =
     py_bind (validate_worker_config later ''historical-default'' mode config) (\<lambda>_. Inr config)"

definition epoch_config :: "string \<Rightarrow> string \<Rightarrow> string \<Rightarrow> string \<Rightarrow> items \<Rightarrow> items" where
  "epoch_config owner database pg_host redis_host secrets_map =
     foldl (\<lambda>m (key, v). AList.update key v m)
       [(''owner'', PStr owner), (''database'', PStr database), (''pg_host'', PStr pg_host), (''redis_host'', PStr redis_host)] secrets_map"

definition mount_key :: "pyval \<Rightarrow> string option" where
  "mount_key row =
     (case row of PDict r \<Rightarrow> (case dict_get r ''Destination'' of PStr s \<Rightarrow> if s = [] then None else Some s | _ \<Rightarrow> None) | _ \<Rightarrow> None)"

definition normalize_container_metadata :: "(pyval \<Rightarrow> string py) \<Rightarrow> pyval \<Rightarrow> items py" where
  "normalize_container_metadata dumps v =
     (case v of
        PDict m \<Rightarrow>
          (case dict_get m ''mounts'' of
             PList mounts \<Rightarrow>
               if list_ex (\<lambda>row. mount_key row = None) mounts \<or> \<not> distinct (map mount_key mounts)
               then Inl (Rejected ''EXACT_CONTAINER_MOUNT_INVENTORY_REQUIRED'')
               else py_bind (py_map dumps mounts) (\<lambda>keys.
                 Inr (AList.update ''mounts'' (PList (map snd (foldr key_insort (zip keys mounts) []))) m))
           | _ \<Rightarrow> Inl (Rejected ''EXACT_CONTAINER_MOUNT_INVENTORY_REQUIRED''))
      | _ \<Rightarrow> Inl (Rejected ''EXACT_CONTAINER_MOUNT_INVENTORY_REQUIRED''))"

section \<open>The serving worker\<close>

text \<open>
  A timestamp as microseconds, with \<open>True\<close> when it has an offset; times with and without one cannot be
  compared. \<open>now\<close> is the current instant.
\<close>

type_synonym iso_parser = "string \<Rightarrow> (int \<times> bool) py"

fun replace_Z :: "string \<Rightarrow> string" where
  "replace_Z [] = []"
| "replace_Z (c # cs) = (if c = CHR ''Z'' then ''+00:00'' @ replace_Z cs else c # replace_Z cs)"

definition observed_at :: "iso_parser \<Rightarrow> items \<Rightarrow> (int \<times> bool) py" where
  "observed_at parse_iso m =
     (case map_of m ''observed_at_utc'' of
        None \<Rightarrow> Inl KeyError
      | Some (PStr s) \<Rightarrow> parse_iso (replace_Z s)
      | Some _ \<Rightarrow> Inl AttributeError)"

definition timestamp_caught :: "exn \<Rightarrow> bool" where
  "timestamp_caught e \<longleftrightarrow> e \<in> {KeyError, AttributeError, TypeError, ValueError}"

definition status_time :: "iso_parser \<Rightarrow> int \<Rightarrow> items \<Rightarrow> (int \<times> int) py" where
  "status_time parse_iso now m =
     (case py_bind (observed_at parse_iso m) (\<lambda>(t, aware). if aware then Inr (t, now - t) else Inl TypeError) of
        Inl e \<Rightarrow> Inl (if timestamp_caught e then Rejected ''SERVE_STATUS_TIMESTAMP_REQUIRED'' else e)
      | Inr x \<Rightarrow> Inr x)"

definition status_watermarks :: "pyval \<Rightarrow> items option" where
  "status_watermarks v =
     (case v of
        PDict w \<Rightarrow> if keys_are w FEED_SYMBOLS \<and> list_all (\<lambda>(_, x). case x of PInt i \<Rightarrow> i > 0 | _ \<Rightarrow> False) w then Some w else None
      | _ \<Rightarrow> None)"

definition boundary_differs :: "items \<Rightarrow> bool" where
  "boundary_differs m \<longleftrightarrow>
     dict_get m ''PAPER_QUALIFIED'' \<noteq> PBool False \<or> dict_get m ''ALPHA_READY'' \<noteq> PBool False \<or> dict_get m ''LIVE_READY'' \<noteq> PBool False
     \<or> dict_get m ''STRATEGY_POLICY'' \<noteq> PStr ''REJECT_ALL''
     \<or> \<not> count_is 0 (dict_get m ''pending_outbox'') \<or> \<not> count_is 0 (dict_get m ''unresolved_inbox'')
     \<or> \<not> count_is 0 (dict_get m ''uncompleted_publications'')"

definition advance_checks :: "iso_parser \<Rightarrow> items \<Rightarrow> int \<Rightarrow> items \<Rightarrow> unit py" where
  "advance_checks parse_iso w t previous =
     (case dict_get previous ''watermarks_ms'' of
        PDict old \<Rightarrow>
          if \<not> keys_are old FEED_SYMBOLS then Inl (Rejected ''SERVE_RESTART_WATERMARK_ADVANCE_REQUIRED'')
          else
            py_bind (py_any (\<lambda>s. py_bind (py_lt (dict_get old s) (dict_get w s)) (\<lambda>lt. Inr (\<not> lt))) FEED_SYMBOLS) (\<lambda>stale.
            if stale then Inl (Rejected ''SERVE_RESTART_WATERMARK_ADVANCE_REQUIRED'')
            else
              (case observed_at parse_iso previous of
                 Inl e \<Rightarrow> Inl (if timestamp_caught e then Rejected ''PREVIOUS_SERVE_TIMESTAMP_REQUIRED'' else e)
               | Inr (t', aware) \<Rightarrow>
                   if \<not> aware then Inl TypeError
                   else reject_when (t \<le> t') ''SERVE_RESTART_FRESH_STATUS_REQUIRED''))
      | _ \<Rightarrow> Inl (Rejected ''SERVE_RESTART_WATERMARK_ADVANCE_REQUIRED''))"

definition validate_running_status :: "iso_parser \<Rightarrow> int \<Rightarrow> string \<Rightarrow> items option \<Rightarrow> pyval \<Rightarrow> unit py" where
  "validate_running_status parse_iso now owner previous v =
     (case v of
        PDict m \<Rightarrow>
          if dict_get m ''state'' \<noteq> PStr ''RUNNING_NONTRADING'' \<or> dict_get m ''owner'' \<noteq> PStr owner
          then Inl (Rejected ''NONTRADING_SERVE_STATUS_REQUIRED'')
          else
            (case status_watermarks (dict_get m ''watermarks_ms'') of
               None \<Rightarrow> Inl (Rejected ''FIVE_SYMBOL_SERVE_WATERMARKS_REQUIRED'')
             | Some w \<Rightarrow>
                 if boundary_differs m then Inl (Rejected ''NONTRADING_SERVE_HEALTH_BOUNDARY_REQUIRED'')
                 else
                   py_bind (status_time parse_iso now m) (\<lambda>(t, age).
                   if age < - 5000000 \<or> age > 120000000 then Inl (Rejected ''SERVE_STATUS_FRESHNESS_REQUIRED'')
                   else case previous of None \<Rightarrow> Inr () | Some old \<Rightarrow> advance_checks parse_iso w t old))
      | _ \<Rightarrow> Inl (Rejected ''NONTRADING_SERVE_STATUS_REQUIRED''))"

section \<open>The identity of a build\<close>

record build_profile =
  bp_worker_image :: string
  bp_wheel_manifest_sha256 :: string
  bp_core_revision :: string
  bp_persistence_revision :: string
  bp_quant_revision :: string
  bp_schema_profile :: string

definition check_build_profile :: "build_profile \<Rightarrow> unit py" where
  "check_build_profile b =
     reject_when (\<not> hex_suffix ''sha256:'' 64 (bp_worker_image b) \<or> \<not> hex_lower_n 64 (bp_wheel_manifest_sha256 b)
         \<or> list_ex (\<lambda>r. \<not> hex_lower_n 40 r) [bp_core_revision b, bp_persistence_revision b, bp_quant_revision b]
         \<or> bp_schema_profile b \<noteq> ''current-controlled-v1'')
       ''EXACT_CURRENT_BUILD_PROFILE_REQUIRED''"

definition wheel_revisions :: "build_profile \<Rightarrow> (string \<times> string) list" where
  "wheel_revisions b = [(''kairos-core'', bp_core_revision b), (''kairos-persistence'', bp_persistence_revision b)]"

end
