(* ===== verification/Epoch_Policy_Gate.thy ===== *)
theory Epoch_Policy_Gate
  imports Epoch_Policy
begin

text \<open>
  The controller's decisions: the end of a catch-up in closed form, the agreement of the two
  validators on a serving worker's configuration, and what an accepted running status shows.
\<close>

section \<open>The end of a catch-up\<close>

lemma seed_starts_aligned:
  assumes "seed_starts seed = Inr starts" "x \<in> set starts"
  shows "MINUTE dvd x"
proof -
  have a: "MINUTE dvd y" if "anchor_start v = Inr y" for v y
    using that by (auto simp: anchor_start_def dvd_eq_mod_eq_0 [symmetric] split: pyval.splits if_splits)
  obtain records :: items where "py_map (\<lambda>(_, v). anchor_start v) records = Inr starts"
    using assms(1) by (simp add: seed_starts_def split: pyval.splits if_splits)
  then have "list_all2 (\<lambda>r y. anchor_start (snd r) = Inr y) records starts" by (simp add: py_map_Inr case_prod_unfold)
  then obtain r where "anchor_start (snd r) = Inr x" using assms(2) by (auto simp: list_all2_conv_all_nth in_set_conv_nth)
  then show ?thesis by (rule a)
qed

lemma required_through_bound:
  assumes "\<forall>x \<in> set starts. earliest \<le> x" "proposed \<le> earliest + c * MINUTE" "0 \<le> c"
  shows "required_through starts proposed \<le> int (length starts) * c"
  using assms(1)
proof (induction starts)
  case Nil
  then show ?case by (simp add: required_through_def)
next
  case (Cons x xs)
  have "(proposed - x) div MINUTE \<le> (c * MINUTE) div MINUTE"
    using Cons.prems assms(2) by (intro zdiv_mono1) (auto simp: MINUTE_def)
  then have "max 0 ((proposed - x) div MINUTE) \<le> c" using assms(3) by (simp add: MINUTE_def)
  moreover have "required_through xs proposed \<le> int (length xs) * c" using Cons by simp
  moreover have "int (length (x # xs)) * c = c + int (length xs) * c" by (simp add: algebra_simps)
  moreover have "required_through (x # xs) proposed = max 0 ((proposed - x) div MINUTE) + required_through xs proposed"
    by (simp add: required_through_def)
  ultimately show ?case by linarith
qed

text \<open>
  C26: the end of a catch-up is the earlier of the target and a fifth of the append cap, in minutes,
  after the earliest missing minute. The loop that would lower it further always stops at once,
  because that end never needs more bars than the cap; the end is a minute boundary, and it is
  refused exactly when the target is not ahead of the earliest symbol or the cap leaves no
  minute per symbol.
\<close>

theorem catchup_end_exact:
  assumes "seed_starts seed = Inr starts" "length starts = length FEED_SYMBOLS" "1 \<le> limit" "limit \<le> MAX_BARS"
    and "0 < target" "MINUTE dvd target"
  defines "earliest \<equiv> Min (set starts)"
  defines "fin \<equiv> min target (earliest + limit div 5 * MINUTE)"
  shows "catchup_end_exclusive_ms seed (PInt target) (PInt limit)
      = Some (if target \<le> earliest \<or> limit < 5 then Inl (Rejected ''CATCHUP_MADE_NO_BOUNDED_PROGRESS'') else Inr fin)
    \<and> required_through starts fin \<le> limit \<and> MINUTE dvd fin"
proof -
  have five: "length starts = 5" using assms(2) by (simp add: FEED_SYMBOLS_def)
  then have ne: "set starts \<noteq> {}" by auto
  have "earliest \<in> set starts" "\<forall>x \<in> set starts. earliest \<le> x" using ne by (simp_all add: earliest_def)
  note e = this seed_starts_aligned [OF assms(1) this(1)]
  have "required_through starts fin \<le> int (length starts) * (limit div 5)"
    using assms(3) by (intro required_through_bound [OF e(2)]) (auto simp: fin_def)
  also have "\<dots> \<le> limit" using five by simp
  finally have r: "required_through starts fin \<le> limit" .
  have w: "while_option (\<lambda>p. required_through starts p > limit) (\<lambda>p. p - MINUTE) fin = Some fin"
    using r by (subst while_option_unfold) simp
  have "fin \<le> earliest \<longleftrightarrow> target \<le> earliest \<or> limit div 5 * MINUTE \<le> 0" unfolding fin_def by linarith
  also have "limit div 5 * MINUTE \<le> 0 \<longleftrightarrow> limit < 5" using assms(3) by (auto simp: MINUTE_def mult_le_0_iff)
  finally have p: "fin \<le> earliest \<longleftrightarrow> target \<le> earliest \<or> limit < 5" .
  have "catchup_end_exclusive_ms seed (PInt target) (PInt limit)
      = Some (if fin \<le> earliest then Inl (Rejected ''CATCHUP_MADE_NO_BOUNDED_PROGRESS'') else Inr fin)"
    using assms(1,3-6) w by (simp add: catchup_end_exclusive_ms_def FEED_SYMBOLS_def earliest_def fin_def Let_def)
  moreover have "MINUTE dvd fin" using assms(6) e(3) by (auto simp: fin_def min_def)
  ultimately show ?thesis using r p by simp
qed

section \<open>A serving worker's configuration\<close>

lemma serve_modes:
  assumes "mode \<in> {''qualify'', ''serve''}"
  shows "mode \<notin> set (generation_modes ''r7'')" "mode \<notin> set (generation_modes ''r6'')" "mode \<notin> set (generation_modes ''r5'')"
    "mode \<in> set MODES" "mode_fields current mode = Some (COMMON_FIELDS @ CREDENTIALS)"
    "list_all (\<lambda>c. c = Inr ()) (mode_checks_for p mode owner m)"
  using assms unfolding insert_iff empty_iff
  by (elim disjE FalseE; simp add: generation_modes_def MODES_def mode_fields_def MODE_FIELDS_def mode_checks_for_def reject_when_def)+

lemma serve_worker_checks:
  assumes "mode \<in> {''qualify'', ''serve''}"
  shows "in_order (worker_mode_checks p now mode owner m) = Inr () \<longleftrightarrow>
    \<not> list_ex (\<lambda>k. map_of m k \<noteq> None) ADMIN_CREDENTIALS \<and> \<not> list_ex (\<lambda>k. \<not> py_truth (dict_get m k)) CREDENTIALS"
  using assms unfolding insert_iff empty_iff
  by (elim disjE FalseE; simp add: worker_mode_checks_def owned_boot_checks_def fail_when_def)

lemma serve_accepted:
  assumes "mode \<in> {''qualify'', ''serve''}" "validate_worker_config later profile mode (PDict m) = Inr ()"
  obtains owner where "keys_are m (COMMON_FIELDS @ CREDENTIALS)" "dict_get m ''owner'' = PStr owner" "hex_lower_n 32 owner"
    "dict_get m ''database'' = PStr (epoch_database owner)"
proof -
  obtain p where p: "map_of SCHEMA_PROFILES profile = Some p" using assms(2) by (auto simp: validate_worker_config_def split: option.splits)
  have s: "mode \<noteq> ''boot-state''" using assms(1) by auto
  have k: "keys_are m (COMMON_FIELDS @ CREDENTIALS)" and c: "check_worker_fields p mode (COMMON_FIELDS @ CREDENTIALS) m = Inr ()"
    using assms(2) p s serve_modes(1-3,5) [OF assms(1)] by (simp_all add: validate_worker_config_def split: if_splits)
  obtain owner where o: "dict_get m ''owner'' = PStr owner" using c by (auto simp: check_worker_fields_def py_bind_Inr_iff split: pyval.splits)
  with c have "hex_lower_n 32 owner" "dict_get m ''database'' = PStr (epoch_database owner)"
    by (auto simp: check_worker_fields_def py_bind_Inr_iff reject_if_Inr in_order_Inr)
  with that k o show ?thesis by blast
qed

lemma in_order_append: "in_order (cs @ ds) = py_bind (in_order cs) (\<lambda>_. in_order ds)"
  by (induction cs) (simp_all add: py_bind_assoc)

lemma password_fields: "filter (\<lambda>key. endswith key ''password'') (COMMON_FIELDS @ CREDENTIALS) = CREDENTIALS"
  by code_simp

lemma credential_items:
  assumes "keys_are m (COMMON_FIELDS @ CREDENTIALS)" "distinct (map fst m)"
  shows "(\<forall>x \<in> set (filter (\<lambda>(key, _). endswith key ''password'') m). P (snd x)) \<longleftrightarrow> (\<forall>k \<in> set CREDENTIALS. P (dict_get m k))"
proof -
  have get: "dict_get m k = v" if "(k, v) \<in> set m" for k v using map_of_is_SomeI [OF assms(2) that] by (rule py_item_get)
  have "fst ` set (filter (\<lambda>(key, _). endswith key ''password'') m) = set (filter (\<lambda>key. endswith key ''password'') (COMMON_FIELDS @ CREDENTIALS))"
  proof -
    have "fst ` {x \<in> set m. endswith (fst x) ''password''} = {k \<in> fst ` set m. endswith k ''password''}" by blast
    also have "fst ` set m = set (COMMON_FIELDS @ CREDENTIALS)" using assms(1) by (simp add: keys_are_def)
    finally show ?thesis unfolding set_filter by (simp add: case_prod_unfold)
  qed
  then have keys: "fst ` set (filter (\<lambda>(key, _). endswith key ''password'') m) = set CREDENTIALS" unfolding password_fields .
  have "(\<forall>k \<in> set CREDENTIALS. P (dict_get m k)) \<longleftrightarrow> (\<forall>x \<in> set (filter (\<lambda>(key, _). endswith key ''password'') m). P (dict_get m (fst x)))"
    unfolding keys [symmetric] by blast
  then show ?thesis using get by auto
qed

lemma hex_truth: "str_where (hex_lower_n 64) v \<Longrightarrow> py_truth v"
  by (cases v) (auto simp: str_where_def hex_lower_n_def)

text \<open>
  C21: the two validators of a serving worker's configuration agree. What the controller
  accepts names an owner and that owner's database and carries no administrative, history or
  source credential; the worker accepts it exactly when both hosts belong to the owner's epoch and
  the four credentials are full-length keys.
\<close>

theorem serve_config_contract:
  assumes "mode \<in> {''qualify'', ''serve''}" "validate_worker_config later profile mode (PDict m) = Inr ()" "distinct (map fst m)"
  shows "\<exists>owner. dict_get m ''owner'' = PStr owner \<and> hex_lower_n 32 owner \<and> dict_get m ''database'' = PStr (epoch_database owner)
    \<and> (\<forall>k \<in> set ADMIN_CREDENTIALS. map_of m k = None)
    \<and> (validate_config later p now mode (PDict m) = Inr () \<longleftrightarrow>
        str_where (owned_host owner) (dict_get m ''pg_host'') \<and> str_where (owned_host owner) (dict_get m ''redis_host'')
        \<and> (\<forall>k \<in> set CREDENTIALS. str_where (hex_lower_n 64) (dict_get m k)))"
proof -
  obtain owner where o: "keys_are m (COMMON_FIELDS @ CREDENTIALS)" "dict_get m ''owner'' = PStr owner" "hex_lower_n 32 owner"
    "dict_get m ''database'' = PStr (epoch_database owner)"
    using serve_accepted [OF assms(1,2)] .
  have none: "map_of m k = None" if "k \<in> set ADMIN_CREDENTIALS" for k
  proof -
    have "k \<notin> set (COMMON_FIELDS @ CREDENTIALS)" using that by (auto simp: ADMIN_CREDENTIALS_def COMMON_FIELDS_def CREDENTIALS_def)
    then show ?thesis using o(1) by (auto simp: keys_are_def map_of_eq_None_iff)
  qed
  have found: "map_of m k = Some (dict_get m k)" if "k \<in> set (COMMON_FIELDS @ CREDENTIALS)" for k
    using o(1) that by (rule keys_are_lookup)
  have look: "dict_get_default m k d = dict_get m k" if "k \<in> set COMMON_FIELDS" for k d
    using found [of k] that by (simp add: dict_get_default_def)
  have passwords: "(\<forall>x \<in> set (filter (\<lambda>(key, _). endswith key ''password'') m). P (snd x)) \<longleftrightarrow> (\<forall>k \<in> set CREDENTIALS. P (dict_get m k))" for P
    by (rule credential_items [OF o(1) assms(3)])
  have fu: "fail_unless (match Q v) e = Inr () \<longleftrightarrow> str_where Q v" for Q v e
    by (cases v) (auto simp: fail_unless_def match_def str_where_def)
  have owner: "str_where (hex_lower_n 32) (PStr owner)" using o(3) by (simp add: str_where_def)
  have mode: "mode \<noteq> ''boot-state''" using assms(1) by auto
  have "validate_config later p now mode (PDict m) = Inr () \<longleftrightarrow>
      str_where (owned_host owner) (dict_get m ''pg_host'') \<and> str_where (owned_host owner) (dict_get m ''redis_host'')
      \<and> (\<forall>x \<in> set (filter (\<lambda>(key, _). endswith key ''password'') m). str_where (hex_lower_n 64) (snd x))
      \<and> in_order (worker_mode_checks p now mode owner m) = Inr ()"
    using o(2-4) owner mode serve_modes(1-4) [OF assms(1)]
    by (simp add: validate_config_def look COMMON_FIELDS_def fu in_order_append in_order_Inr py_bind_Inr_iff split_beta ball_conj_distrib)
  also have "\<dots> \<longleftrightarrow> str_where (owned_host owner) (dict_get m ''pg_host'') \<and> str_where (owned_host owner) (dict_get m ''redis_host'')
      \<and> (\<forall>k \<in> set CREDENTIALS. str_where (hex_lower_n 64) (dict_get m k))"
    unfolding passwords serve_worker_checks [OF assms(1)]
    using none hex_truth by (auto simp: list_ex_iff)
  finally show ?thesis using o(2-4) none by blast
qed

end
