(* ===== verification/Epoch_Policy_Sample.thy ===== *)
theory Epoch_Policy_Sample
  imports Epoch_Policy_Gate
begin

text \<open>
  Concrete inputs of the controller's decisions: five anchors, one symbol an hour behind the
  others, and the configuration of a serving worker.
\<close>

section \<open>A catch-up\<close>

definition sample_anchor :: "int \<Rightarrow> pyval" where
  "sample_anchor minute =
     PDict [(''count'', PInt 10), (''last_open_time_ms'', PInt (minute * MINUTE)),
       (''last_close_time_ms'', PInt (minute * MINUTE + MINUTE - 1))]"

definition sample_seed :: pyval where
  "sample_seed = PDict [(''anchors'', PDict (zip FEED_SYMBOLS (map sample_anchor [160, 100, 160, 160, 160])))]"

lemma sample_seed_starts: "seed_starts sample_seed = Inr (map (\<lambda>i. (i + 1) * MINUTE) [160, 100, 160, 160, 160])"
  by code_simp

theorem catchup_end_exact_witness:
  "catchup_end_exclusive_ms sample_seed (PInt (161 * MINUTE)) (PInt 200) = Some (Inr (141 * MINUTE))"
  using catchup_end_exact [of sample_seed _ 200 "161 * MINUTE", OF sample_seed_starts]
  by (simp add: FEED_SYMBOLS_def MAX_BARS_def MINUTE_def)

section \<open>A serving worker\<close>

definition sample_owner :: string where "sample_owner = ''0123456789abcdef0123456789abcdef''"

definition sample_serve :: items where
  "sample_serve =
     [(''owner'', PStr sample_owner), (''database'', PStr (epoch_database sample_owner)),
      (''pg_host'', PStr (epoch_prefix sample_owner @ ''-pg'')), (''redis_host'', PStr (epoch_prefix sample_owner @ ''-redis''))]
     @ zip CREDENTIALS (map (\<lambda>c. PStr (replicate 64 c)) ''abcd'')"

lemma sample_serve_accepted: "validate_worker_config later ''current-controlled-v1'' ''serve'' (PDict sample_serve) = Inr ()"
  by code_simp

lemma sample_serve_shape: "distinct (map fst sample_serve)"
  "dict_get sample_serve ''owner'' = PStr sample_owner"
  "str_where (owned_host sample_owner) (dict_get sample_serve ''pg_host'')"
  "str_where (owned_host sample_owner) (dict_get sample_serve ''redis_host'')"
  "\<forall>k \<in> set CREDENTIALS. str_where (hex_lower_n 64) (dict_get sample_serve k)"
  by code_simp+

theorem serve_config_contract_witness:
  "validate_config (\<lambda>_ _. Inr ()) (snd (SCHEMA_PROFILES ! 1)) 0 ''serve'' (PDict sample_serve) = Inr ()"
proof -
  have "''serve'' \<in> {''qualify'', ''serve''}" by simp
  from serve_config_contract [OF this sample_serve_accepted sample_serve_shape(1), of "\<lambda>_ _. Inr ()" "snd (SCHEMA_PROFILES ! 1)" 0]
  show ?thesis using sample_serve_shape by auto
qed

end
