(* ===== verification/Cold_Copy.thy ===== *)
theory Cold_Copy
  imports Py_Json "HOL-Library.AList" "HOL-Library.List_Lexorder" "HOL-Library.Char_ord"
begin

text \<open>
  \<^verbatim>\<open>src/scripts/runtime_epoch_cold_snapshot.py\<close>: the bounded copy of a stopped volume into an empty one,
  checked by comparing inventories of the source before, of the source after and of the target.
  The source is what its scans observe_tree, which may differ from scan to scan and from the copy in between;
  the target is a file tree that only the copy writes. SHA-256 is a parameter.
\<close>

section \<open>What a scan observes\<close>

type_synonym path = "string list"

record fstat =
  st_ino :: int
  st_size :: nat
  st_mtime_ns :: int

text \<open>
  Opening and reading one file: the state when it is opened, the blocks read, and the state at the end. An
  opening or a read that raises is the exception in place of the state.
\<close>

record file_read =
  fr_opened :: "fstat py"
  fr_blocks :: "bytes list"
  fr_ended :: fstat

text \<open>
  An entry as one scan sees it. A link may point to a directory, in which case \<^verbatim>\<open>os.walk\<close> lists it
  among the directories; an entry may be gone when it is looked at.
\<close>

datatype seen =
    SDir int "(string \<times> seen) list"
  | SFile int fstat file_read
  | SLink bool
  | SSpecial
  | SGone

fun among_dirs :: "seen \<Rightarrow> bool" where
  "among_dirs (SDir _ _) = True"
| "among_dirs (SLink to_dir) = to_dir"
| "among_dirs _ = False"

text \<open>The clock answers, for an entry, whether the deadline has passed at the check before it and after each block.\<close>

type_synonym clock = "path \<Rightarrow> nat \<Rightarrow> bool"

section \<open>The inventory\<close>

definition COLD_MAX_BYTES :: nat where "COLD_MAX_BYTES = 4 * 1024 ^ 3"
definition COLD_MAX_FILES :: nat where "COLD_MAX_FILES = 50000"

datatype row =
    DRow (row_path: path) int
  | FRow (row_path: path) int nat int string

definition row_text :: "row \<Rightarrow> string" where
  "row_text r = join ''/'' (row_path r)"

record inventory =
  inv_rows :: "row list"
  inv_bytes :: nat
  inv_entries :: nat

definition cold_fail :: "string \<Rightarrow> 'a py" where
  "cold_fail m = Inl (SnapshotError m)"

text \<open>The blocks of one file, with the deadline looked at after each.\<close>

fun read_blocks :: "(nat \<Rightarrow> bool) \<Rightarrow> nat \<Rightarrow> bytes list \<Rightarrow> bytes py" where
  "read_blocks late k [] = Inr []"
| "read_blocks late k (b # bs) =
     (if late k then cold_fail ''COLD_COPY_DEADLINE'' else py_bind (read_blocks late (Suc k) bs) (\<lambda>rest. Inr (b @ rest)))"

definition file_digest :: "(bytes \<Rightarrow> string) \<Rightarrow> (nat \<Rightarrow> bool) \<Rightarrow> fstat \<Rightarrow> file_read \<Rightarrow> string py" where
  "file_digest sha late info f =
     py_bind (fr_opened f) (\<lambda>opened.
       if opened \<noteq> info then cold_fail ''COLD_SOURCE_CHANGED''
       else py_bind (read_blocks late 1 (fr_blocks f)) (\<lambda>data.
         if (st_size (fr_ended f), st_mtime_ns (fr_ended f)) \<noteq> (st_size opened, st_mtime_ns opened)
         then cold_fail ''COLD_SOURCE_CHANGED'' else Inr (sha data)))"

definition scan_entry :: "(bytes \<Rightarrow> string) \<Rightarrow> clock \<Rightarrow> path \<Rightarrow> row list \<times> nat \<Rightarrow> string \<times> seen \<Rightarrow> (row list \<times> nat) py" where
  "scan_entry sha late directory s e =
     (let p = directory @ [fst e] in
      if snd e = SGone then Inl OSError
      else if late p 0 then cold_fail ''COLD_COPY_DEADLINE''
      else
        case snd e of
          SDir mode _ \<Rightarrow> Inr (fst s @ [DRow p mode], snd s)
        | SFile mode info f \<Rightarrow>
            let n = snd s + st_size info in
            if n > COLD_MAX_BYTES \<or> length (fst s) \<ge> COLD_MAX_FILES then cold_fail ''COLD_COPY_SIZE_BOUND''
            else py_bind (file_digest sha (late p) info f) (\<lambda>d.
              Inr (fst s @ [FRow p mode (st_size info) (st_mtime_ns info) d], n))
        | _ \<Rightarrow> cold_fail ''COLD_LINK_OR_SPECIAL_FILE_REJECTED'')"

text \<open>
  \<^verbatim>\<open>os.walk\<close>, top down: for every directory its sorted directories and then its sorted other entries.
  A directory that cannot be listed is passed over in silence, like an empty one.
\<close>

definition listed :: "(string \<times> 'a) list \<Rightarrow> (string \<times> 'a) list" where
  "listed entries = sort_key fst entries"

definition walk_order :: "(string \<times> seen) list \<Rightarrow> (string \<times> seen) list" where
  "walk_order entries = listed (filter (among_dirs \<circ> snd) entries) @ listed (filter (Not \<circ> among_dirs \<circ> snd) entries)"

primrec os_walk :: "seen \<Rightarrow> path \<Rightarrow> (path \<times> (string \<times> seen) list) list" where
  "os_walk (SDir mode entries) p =
     (p, walk_order entries) # concat (map (\<lambda>(name, walked). walked (p @ [name])) (listed (map (map_prod id os_walk) entries)))"
| "os_walk (SFile mode info f) p = []"
| "os_walk (SLink to_dir) p = []"
| "os_walk SSpecial p = []"
| "os_walk SGone p = []"

definition scan_dir :: "(bytes \<Rightarrow> string) \<Rightarrow> clock \<Rightarrow> row list \<times> nat \<Rightarrow> path \<times> (string \<times> seen) list \<Rightarrow> (row list \<times> nat) py" where
  "scan_dir sha late s d =
     (if length (fst s) + length (snd d) > COLD_MAX_FILES then cold_fail ''COLD_COPY_FILE_BOUND''
      else py_bind (py_run (scan_entry sha late (fst d)) s (snd d)) (\<lambda>s'.
        if length (fst s') > COLD_MAX_FILES then cold_fail ''COLD_COPY_FILE_BOUND'' else Inr s'))"

definition manifest :: "(bytes \<Rightarrow> string) \<Rightarrow> clock \<Rightarrow> seen \<Rightarrow> inventory py" where
  "manifest sha late base =
     (case base of
        SDir _ _ \<Rightarrow>
          py_bind (py_run (scan_dir sha late) ([], 0) (os_walk base [])) (\<lambda>s.
            if fst s = [] \<or> snd s = 0 then cold_fail ''COLD_NONEMPTY_SOURCE_REQUIRED''
            else Inr \<lparr>inv_rows = sort_key row_text (fst s), inv_bytes = snd s, inv_entries = length (fst s)\<rparr>)
      | _ \<Rightarrow> cold_fail ''COLD_REGULAR_DIRECTORY_REQUIRED'')"

section \<open>File trees\<close>

text \<open>A directory that cannot be listed is marked; the inode of a file distinguishes it from a replacement.\<close>

datatype tree =
    TDir int bool "(string \<times> tree) list"
  | TFile int int int bytes
  | TLink bool
  | TSpecial

definition BLOCK :: nat where "BLOCK = 1024 ^ 2"

function blocks_of :: "bytes \<Rightarrow> bytes list" where
  "blocks_of b = (if b = [] then [] else take BLOCK b # blocks_of (drop BLOCK b))"
  by auto
termination by (relation "measure length") (auto simp: BLOCK_def)

declare blocks_of.simps [simp del]

text \<open>What a scan observes of a tree that does not change while it is read.\<close>

primrec observe_tree :: "tree \<Rightarrow> seen" where
  "observe_tree (TDir mode readable entries) = SDir mode (if readable then map (map_prod id observe_tree) entries else [])"
| "observe_tree (TFile mode ino mtime data) =
     (let info = \<lparr>st_ino = ino, st_size = length data, st_mtime_ns = mtime\<rparr> in
      SFile mode info \<lparr>fr_opened = Inr info, fr_blocks = blocks_of data, fr_ended = info\<rparr>)"
| "observe_tree (TLink to_dir) = SLink to_dir"
| "observe_tree TSpecial = SSpecial"

text \<open>
  \<^verbatim>\<open>mkdir(parents=True, exist_ok=True)\<close>: missing directories get the default mode. Making a directory below a file,
  or where there is a file, raises.
\<close>

fun mkdir_parents :: "int \<Rightarrow> path \<Rightarrow> tree \<Rightarrow> tree py" where
  "mkdir_parents umode [] (TDir mode readable entries) = Inr (TDir mode readable entries)"
| "mkdir_parents umode (n # p) (TDir mode readable entries) =
     py_bind (mkdir_parents umode p (case map_of entries n of None \<Rightarrow> TDir umode True [] | Some t \<Rightarrow> t))
       (\<lambda>t. Inr (TDir mode readable (AList.update n t entries)))"
| "mkdir_parents umode _ _ = Inl OSError"

text \<open>An operation on the entry a path names, which raises where there is none.\<close>

fun at_path :: "(tree option \<Rightarrow> tree py) \<Rightarrow> path \<Rightarrow> tree \<Rightarrow> tree py" where
  "at_path f [] t = f (Some t)"
| "at_path f [n] (TDir mode readable entries) =
     py_bind (f (map_of entries n)) (\<lambda>t. Inr (TDir mode readable (AList.update n t entries)))"
| "at_path f (n # m # p) (TDir mode readable entries) =
     (case map_of entries n of
        None \<Rightarrow> Inl OSError
      | Some t \<Rightarrow> py_bind (at_path f (m # p) t) (\<lambda>t'. Inr (TDir mode readable (AList.update n t' entries))))"
| "at_path f (n # p) _ = Inl OSError"

definition chmod :: "int \<Rightarrow> tree option \<Rightarrow> tree py" where
  "chmod mode t =
     (case t of
        Some (TDir _ readable entries) \<Rightarrow> Inr (TDir mode readable entries)
      | Some (TFile _ ino mtime data) \<Rightarrow> Inr (TFile mode ino mtime data)
      | _ \<Rightarrow> Inl OSError)"

text \<open>
  \<^verbatim>\<open>open("xb")\<close>, the writes, \<^verbatim>\<open>chmod\<close> and \<^verbatim>\<open>utime\<close>: the file must be new. It is made before the first block is
  read and has its content, mode and time when the row is done.
\<close>

definition new_file :: "int \<Rightarrow> int \<Rightarrow> int \<Rightarrow> bytes \<Rightarrow> tree option \<Rightarrow> tree py" where
  "new_file mode ino mtime data t = (case t of None \<Rightarrow> Inr (TFile mode ino mtime data) | Some _ \<Rightarrow> Inl FileExistsError)"

section \<open>The copy\<close>

text \<open>
  Around the copy: whether both paths resolve to the same place, the mode of directories made on the way, the
  inodes of new files, and, for every file, what reading it for the copy returns.
\<close>

record copy_env =
  ce_same :: bool
  ce_umode :: int
  ce_ino :: "path \<Rightarrow> int"
  ce_read :: "path \<Rightarrow> file_read"
  ce_late :: clock

text \<open>One file: the bytes written, and the count of all bytes copied, within the row's size and the bound.\<close>

fun copy_blocks :: "(nat \<Rightarrow> bool) \<Rightarrow> nat \<Rightarrow> nat \<Rightarrow> bytes \<Rightarrow> nat \<Rightarrow> bytes list \<Rightarrow> (bytes \<times> nat) py" where
  "copy_blocks late k nbytes written copied [] = Inr (written, copied)"
| "copy_blocks late k nbytes written copied (b # bs) =
     (if late k then cold_fail ''COLD_COPY_DEADLINE''
      else if length written + length b > nbytes \<or> copied + length b > COLD_MAX_BYTES then cold_fail ''COLD_COPY_SIZE_BOUND''
      else copy_blocks late (Suc k) nbytes (written @ b) (copied + length b) bs)"

definition copy_row :: "copy_env \<Rightarrow> nat \<times> tree \<Rightarrow> row \<Rightarrow> (nat \<times> tree) py" where
  "copy_row env s r =
     (case r of
        DRow p mode \<Rightarrow>
          py_bind (mkdir_parents (ce_umode env) p (snd s)) (\<lambda>t.
          py_bind (at_path (chmod mode) p t) (\<lambda>t'. Inr (fst s, t')))
      | FRow p mode nbytes mtime _ \<Rightarrow>
          py_bind (mkdir_parents (ce_umode env) (butlast p) (snd s)) (\<lambda>t.
          py_bind (fr_opened (ce_read env p)) (\<lambda>info.
            if st_size info \<noteq> nbytes \<or> st_mtime_ns info \<noteq> mtime then cold_fail ''COLD_SOURCE_CHANGED''
            else
              py_bind (at_path (new_file mode (ce_ino env p) mtime []) p t) (\<lambda>_.
              py_bind (copy_blocks (ce_late env p) 0 nbytes [] (fst s) (fr_blocks (ce_read env p))) (\<lambda>(data, copied).
              py_bind (at_path (new_file mode (ce_ino env p) mtime data) p t) (\<lambda>t'. Inr (copied, t')))))))"

text \<open>\<^verbatim>\<open>json.dumps(..., sort_keys=True, separators=(",", ":"))\<close> of an inventory, with characters beyond ASCII escaped.\<close>

definition row_value :: "row \<Rightarrow> pyval" where
  "row_value r =
     (case r of
        DRow p mode \<Rightarrow> PList [PStr (row_text r), PStr ''d'', PInt mode]
      | FRow p mode nbytes mtime digest \<Rightarrow>
          PList [PStr (row_text r), PStr ''f'', PInt mode, PInt (int nbytes), PInt mtime, PStr digest])"

definition cold_canonical :: "inventory \<Rightarrow> bytes py" where
  "cold_canonical m =
     py_bind (json_text (lenient_float (\<lambda>_. [])) (PDict [(''rows'', PList (map row_value (inv_rows m))),
         (''bytes'', PInt (int (inv_bytes m))), (''entries'', PInt (int (inv_entries m)))])) (\<lambda>t. Inr (ascii_json t))"

definition cold_report :: "(bytes \<Rightarrow> string) \<Rightarrow> inventory \<Rightarrow> items py" where
  "cold_report sha m =
     py_bind (cold_canonical m) (\<lambda>encoded. Inr
       [(''state'', PStr ''PASS_COLD_BYTE_COPY''), (''content_sha256'', PStr (sha encoded)), (''bytes'', PInt (int (inv_bytes m))),
        (''entries'', PInt (int (inv_entries m))), (''source_unchanged'', PBool True), (''source_readonly'', PBool True),
        (''restore_proven'', PBool False), (''trading_started'', PBool False)])"

text \<open>
  The scans of the source before and after and the tree of the target before; the result has the tree of
  the target after. What a refused copy leaves in the target is not described.
\<close>

definition copy_snapshot ::
  "(bytes \<Rightarrow> string) \<Rightarrow> copy_env \<Rightarrow> clock \<times> seen \<Rightarrow> clock \<times> seen \<Rightarrow> clock \<Rightarrow> tree \<Rightarrow> (items \<times> tree) py" where
  "copy_snapshot sha env first second late target =
     (case target of
        TDir mode readable entries \<Rightarrow>
          if ce_same env then cold_fail ''COLD_SEPARATE_TARGET_REQUIRED''
          else if \<not> readable then Inl OSError
          else if entries \<noteq> [] then cold_fail ''COLD_EMPTY_TARGET_REQUIRED''
          else
            py_bind (manifest sha (fst first) (snd first)) (\<lambda>before.
            py_bind (py_run (copy_row env) (0, target) (inv_rows before)) (\<lambda>s.
            py_bind (manifest sha (fst second) (snd second)) (\<lambda>after.
            py_bind (manifest sha late (observe_tree (snd s))) (\<lambda>copied.
              if before \<noteq> after \<or> before \<noteq> copied then cold_fail ''COLD_COPY_CONTENT_OR_SOURCE_CONFLICT''
              else py_bind (cold_report sha before) (\<lambda>report. Inr (report, snd s))))))
      | _ \<Rightarrow> cold_fail ''COLD_SEPARATE_TARGET_REQUIRED'')"

section \<open>The command\<close>

definition cold_main :: "bool \<Rightarrow> (items \<times> tree) py \<Rightarrow> items \<times> nat" where
  "cold_main copy_owned_cold_volume outcome =
     (if \<not> copy_owned_cold_volume then ([(''state'', PStr ''PLAN_ONLY''), (''trading_started'', PBool False)], 0)
      else
        case outcome of
          Inr (report, _) \<Rightarrow> (report, 0)
        | Inl e \<Rightarrow>
            ([(''state'', PStr ''FAILED_CLOSED''),
              (''reason'', PStr (case e of SnapshotError m \<Rightarrow> m | _ \<Rightarrow> ''COLD_COPY_OPERATION_FAILED''))], 1))"

end
