(* ===== verification/Cold_Gate.thy ===== *)
theory Cold_Gate
  imports Cold_Copy "HOL-Library.Multiset"
begin

text \<open>
  What the bounded copy guarantees: an inventory lists exactly the entries of the tree that is scanned, so
  equal inventories are equal trees up to collisions of the digest; and the copy of a tree that stays as it is,
  within the bounds and in time, succeeds.
\<close>

section \<open>The entries of a tree\<close>

fun node_at :: "seen \<Rightarrow> path \<Rightarrow> seen option" where
  "node_at s [] = Some s"
| "node_at (SDir _ entries) (n # p) = (case map_of entries n of None \<Rightarrow> None | Some c \<Rightarrow> node_at c p)"
| "node_at _ (n # p) = None"

primrec distinct_names :: "seen \<Rightarrow> bool" where
  "distinct_names (SDir _ entries) \<longleftrightarrow> distinct (map fst entries) \<and> list_all snd (map (map_prod id distinct_names) entries)"
| "distinct_names (SFile _ _ _) \<longleftrightarrow> True"
| "distinct_names (SLink _) \<longleftrightarrow> True"
| "distinct_names SSpecial \<longleftrightarrow> True"
| "distinct_names SGone \<longleftrightarrow> True"

lemma distinct_names_SDir [simp]:
  "distinct_names (SDir m entries) \<longleftrightarrow> distinct (map fst entries) \<and> (\<forall>(n, c) \<in> set entries. distinct_names c)"
  by (auto simp: list_all_iff)

declare distinct_names.simps(1) [simp del]

definition flat :: "(path \<times> (string \<times> seen) list) list \<Rightarrow> (path \<times> seen) list" where
  "flat visits = concat (map (\<lambda>(d, es). map (\<lambda>(n, c). (d @ [n], c)) es) visits)"

lemma flat_simps [simp]: "flat [] = []" "flat ((d, es) # vs) = map (\<lambda>(n, c). (d @ [n], c)) es @ flat vs" "flat (vs @ ws) = flat vs @ flat ws"
  by (simp_all add: flat_def)

lemma set_walk_order [simp]: "set (walk_order es) = set es"
  by (auto simp: walk_order_def listed_def)

lemma flat_concat: "flat (concat vss) = concat (map flat vss)"
  by (induction vss) simp_all

lemma flat_dir: "set (flat (os_walk (SDir m es) p)) = (\<Union>(n, c) \<in> set es. insert (p @ [n], c) (set (flat (os_walk c (p @ [n])))))"
  by (auto simp: flat_concat listed_def)

text \<open>A walk visits every entry below its start.\<close>

definition entries_below :: "path \<Rightarrow> seen \<Rightarrow> (path \<times> seen) set" where
  "entries_below p s = {(p @ q, c) | q c. q \<noteq> [] \<and> node_at s q = Some c}"

lemma entries_below_SDir:
  assumes "distinct (map fst es)"
  shows "entries_below p (SDir m es) = (\<Union>(n, c) \<in> set es. insert (p @ [n], c) (entries_below (p @ [n]) c))"
proof (intro set_eqI iffI)
  fix x assume "x \<in> entries_below p (SDir m es)"
  then obtain n q d where x: "x = (p @ n # q, d)" "node_at (SDir m es) (n # q) = Some d" by (auto simp: entries_below_def neq_Nil_conv)
  then obtain c where "map_of es n = Some c" "node_at c q = Some d" by (auto split: option.splits)
  with x show "x \<in> (\<Union>(n, c) \<in> set es. insert (p @ [n], c) (entries_below (p @ [n]) c))"
    by (cases q) (force simp: entries_below_def dest: map_of_SomeD)+
next
  fix x assume "x \<in> (\<Union>(n, c) \<in> set es. insert (p @ [n], c) (entries_below (p @ [n]) c))"
  then obtain n c where c: "(n, c) \<in> set es" "x = (p @ [n], c) \<or> x \<in> entries_below (p @ [n]) c" by auto
  then obtain q d where "x = (p @ n # q, d)" "node_at c q = Some d" by (cases "x = (p @ [n], c)") (auto simp: entries_below_def)
  moreover have "map_of es n = Some c" using assms c(1) by simp
  ultimately show "x \<in> entries_below p (SDir m es)" by (auto simp: entries_below_def)
qed

lemma walk_entries: "distinct_names s \<Longrightarrow> set (flat (os_walk s p)) = entries_below p s"
proof (induction s arbitrary: p)
  case (SDir m es)
  have "set (flat (os_walk c (p @ [n]))) = entries_below (p @ [n]) c" if "(n, c) \<in> set es" for n c
    using SDir that by auto
  moreover have "distinct (map fst es)" using SDir.prems by simp
  ultimately show ?case unfolding flat_dir by (subst entries_below_SDir) (auto intro!: SUP_cong)
qed (auto simp: entries_below_def neq_Nil_conv)

section \<open>What an inventory lists\<close>

definition row_for :: "(bytes \<Rightarrow> string) \<Rightarrow> path \<times> seen \<Rightarrow> row option" where
  "row_for sha e =
     (case snd e of
        SDir mode _ \<Rightarrow> Some (DRow (fst e) mode)
      | SFile mode info f \<Rightarrow> Some (FRow (fst e) mode (st_size info) (st_mtime_ns info) (sha (concat (fr_blocks f))))
      | _ \<Rightarrow> None)"

fun row_bytes :: "row \<Rightarrow> nat" where
  "row_bytes (DRow _ _) = 0"
| "row_bytes (FRow _ _ n _ _) = n"

lemma row_for_path: "row_for sha e = Some r \<Longrightarrow> row_path r = fst e"
  by (auto simp: row_for_def split: seen.splits)

lemma read_blocks_concat: "read_blocks late k bs = Inr data \<Longrightarrow> data = concat bs"
  by (induction late k bs arbitrary: data rule: read_blocks.induct) (auto simp: py_bind_Inr_iff cold_fail_def split: if_splits)

lemma file_digest_concat: "file_digest sha late info f = Inr d \<Longrightarrow> d = sha (concat (fr_blocks f))"
  by (auto simp: file_digest_def py_bind_Inr_iff cold_fail_def split: if_splits dest: read_blocks_concat)

text \<open>The state of a scan: the rows of the entries so far, their bytes, and the bounds.\<close>

definition scan_rel :: "(bytes \<Rightarrow> string) \<Rightarrow> (path \<times> seen) list \<Rightarrow> row list \<times> nat \<Rightarrow> bool" where
  "scan_rel sha es s \<longleftrightarrow> list_all2 (\<lambda>e r. row_for sha e = Some r) es (fst s) \<and> snd s = sum_list (map row_bytes (fst s)) \<and> snd s \<le> COLD_MAX_BYTES"

lemma scan_entry_Inr:
  assumes "scan_entry sha late d s e = Inr s'"
  obtains r where "row_for sha (d @ [fst e], snd e) = Some r" "s' = (fst s @ [r], snd s + row_bytes r)" "snd s \<le> COLD_MAX_BYTES \<Longrightarrow> snd s' \<le> COLD_MAX_BYTES"
  using assms by (auto simp: scan_entry_def Let_def row_for_def py_bind_Inr_iff cold_fail_def
    dest: file_digest_concat split: if_splits seen.splits)

lemma scan_entry_rel:
  assumes "scan_rel sha es s" "scan_entry sha late d s e = Inr s'"
  shows "scan_rel sha (es @ [(d @ [fst e], snd e)]) s'"
  using assms(2)
proof (rule scan_entry_Inr)
  fix r assume "row_for sha (d @ [fst e], snd e) = Some r" "s' = (fst s @ [r], snd s + row_bytes r)" "snd s \<le> COLD_MAX_BYTES \<Longrightarrow> snd s' \<le> COLD_MAX_BYTES"
  with assms(1) show ?thesis by (simp add: scan_rel_def list_all2_appendI)
qed

lemma scan_entries_rel:
  "scan_rel sha es s \<Longrightarrow> py_run (scan_entry sha late d) s xs = Inr s' \<Longrightarrow> scan_rel sha (es @ map (\<lambda>(n, c). (d @ [n], c)) xs) s'"
proof (induction xs arbitrary: es s)
  case (Cons x xs)
  then obtain u where u: "scan_entry sha late d s x = Inr u" "py_run (scan_entry sha late d) u xs = Inr s'" by (auto simp: py_bind_Inr_iff)
  from Cons.IH [OF scan_entry_rel [OF Cons.prems(1) u(1)] u(2)] show ?case by (simp add: case_prod_unfold)
qed simp

definition scan_inv :: "(bytes \<Rightarrow> string) \<Rightarrow> (path \<times> (string \<times> seen) list) list \<Rightarrow> row list \<times> nat \<Rightarrow> bool" where
  "scan_inv sha vs s \<longleftrightarrow> scan_rel sha (flat vs) s \<and> length (fst s) \<le> COLD_MAX_FILES"

interpretation scan: step_machine "scan_dir sha late" "([], 0)" "scan_inv sha" for sha late
proof
  show "scan_inv sha [] ([], 0)" by (simp add: scan_inv_def scan_rel_def)
  show "scan_inv sha (vs @ [d]) s'" if "scan_inv sha vs s" "scan_dir sha late s d = Inr s'" for vs s d s'
  proof -
    have "py_run (scan_entry sha late (fst d)) s (snd d) = Inr s'" "length (fst s') \<le> COLD_MAX_FILES"
      using that(2) by (auto simp: scan_dir_def py_bind_Inr_iff cold_fail_def split: if_splits)
    moreover have "scan_rel sha (flat vs) s" using that(1) by (simp add: scan_inv_def)
    ultimately show ?thesis using scan_entries_rel by (cases d) (simp add: scan_inv_def)
  qed
qed

lemma manifest_Inr:
  assumes "manifest sha late s = Inr m"
  obtains rs where "scan_rel sha (flat (os_walk s [])) (rs, inv_bytes m)" "inv_rows m = sort_key row_text rs" "inv_entries m = length rs"
    "rs \<noteq> []" "length rs \<le> COLD_MAX_FILES" "0 < inv_bytes m"
proof -
  obtain rs n where r: "py_run (scan_dir sha late) ([], 0) (os_walk s []) = Inr (rs, n)" "rs \<noteq> []" "0 < n"
    "m = \<lparr>inv_rows = sort_key row_text rs, inv_bytes = n, inv_entries = length rs\<rparr>"
    using assms by (auto simp: manifest_def py_bind_Inr_iff cold_fail_def split: seen.splits if_splits)
  with scan.run_inv [OF r(1)] show ?thesis by (intro that [of rs]) (simp_all add: scan_inv_def)
qed

lemma list_all2_in_set: "list_all2 P xs ys \<Longrightarrow> x \<in> set xs \<Longrightarrow> \<exists>y \<in> set ys. P x y"
  by (induction rule: list_all2_induct) auto

lemma list_all2_swap_in_set: "list_all2 P xs ys \<Longrightarrow> y \<in> set ys \<Longrightarrow> \<exists>x \<in> set xs. P x y"
  by (induction rule: list_all2_induct) auto

lemma manifest_rows:
  assumes "manifest sha late s = Inr m"
  shows "\<forall>e \<in> set (flat (os_walk s [])). row_for sha e \<noteq> None"
    and "set (inv_rows m) = {r. \<exists>e \<in> set (flat (os_walk s [])). row_for sha e = Some r}"
proof -
  obtain rs where r: "scan_rel sha (flat (os_walk s [])) (rs, inv_bytes m)" "inv_rows m = sort_key row_text rs"
    using manifest_Inr [OF assms] by blast
  then have l: "list_all2 (\<lambda>e r. row_for sha e = Some r) (flat (os_walk s [])) rs" by (simp add: scan_rel_def)
  then show "\<forall>e \<in> set (flat (os_walk s [])). row_for sha e \<noteq> None" using list_all2_in_set by fastforce
  have "r \<in> set rs \<longleftrightarrow> (\<exists>e \<in> set (flat (os_walk s [])). row_for sha e = Some r)" for r
  proof
    assume "r \<in> set rs"
    with l show "\<exists>e \<in> set (flat (os_walk s [])). row_for sha e = Some r" by (rule list_all2_swap_in_set)
  next
    assume "\<exists>e \<in> set (flat (os_walk s [])). row_for sha e = Some r"
    then obtain e where e: "e \<in> set (flat (os_walk s []))" "row_for sha e = Some r" by blast
    from list_all2_in_set [OF l e(1)] e(2) show "r \<in> set rs" by simp
  qed
  then show "set (inv_rows m) = {r. \<exists>e \<in> set (flat (os_walk s [])). row_for sha e = Some r}" using r(2) by auto
qed

lemma manifest_bounds:
  assumes "manifest sha late s = Inr m"
  shows "inv_entries m = length (inv_rows m)" "inv_bytes m = sum_list (map row_bytes (inv_rows m))"
    and "0 < inv_entries m" "inv_entries m \<le> COLD_MAX_FILES" "0 < inv_bytes m" "inv_bytes m \<le> COLD_MAX_BYTES"
proof -
  obtain rs where r: "scan_rel sha (flat (os_walk s [])) (rs, inv_bytes m)" "inv_rows m = sort_key row_text rs" "inv_entries m = length rs"
    "rs \<noteq> []" "length rs \<le> COLD_MAX_FILES" "0 < inv_bytes m"
    using manifest_Inr [OF assms] .
  then show "inv_entries m = length (inv_rows m)" "0 < inv_entries m" "inv_entries m \<le> COLD_MAX_FILES" "0 < inv_bytes m" "inv_bytes m \<le> COLD_MAX_BYTES"
    by (auto simp: scan_rel_def)
  have "sum_list (map row_bytes (sort_key row_text rs)) = sum_list (map row_bytes rs)"
    by (metis mset_map mset_sort sum_mset_sum_list)
  with r show "inv_bytes m = sum_list (map row_bytes (inv_rows m))" by (simp add: scan_rel_def)
qed

text \<open>The row of one entry, if it has one; two trees with the same inventory agree on every entry.\<close>

definition row_at :: "(bytes \<Rightarrow> string) \<Rightarrow> seen \<Rightarrow> path \<Rightarrow> row option" where
  "row_at sha s q = Option.bind (node_at s q) (\<lambda>c. row_for sha (q, c))"

lemma row_at_path: "row_at sha s q = Some r \<Longrightarrow> row_path r = q"
  by (auto simp: row_at_def bind_eq_Some_conv dest: row_for_path)

lemma manifest_row_at:
  assumes "manifest sha late s = Inr m" "distinct_names s"
  shows "r \<in> set (inv_rows m) \<longleftrightarrow> row_path r \<noteq> [] \<and> row_at sha s (row_path r) = Some r"
    and "q \<noteq> [] \<Longrightarrow> node_at s q = Some c \<Longrightarrow> row_at sha s q \<noteq> None"
proof -
  have w: "set (flat (os_walk s [])) = {(q, c) | q c. q \<noteq> [] \<and> node_at s q = Some c}"
    using walk_entries [OF assms(2), of "[]"] by (simp add: entries_below_def)
  show "r \<in> set (inv_rows m) \<longleftrightarrow> row_path r \<noteq> [] \<and> row_at sha s (row_path r) = Some r"
    using manifest_rows(2) [OF assms(1)] row_for_path [of sha _ r] by (fastforce simp: w row_at_def bind_eq_Some_conv)
  show "row_at sha s q \<noteq> None" if "q \<noteq> []" "node_at s q = Some c"
    using manifest_rows(1) [OF assms(1)] that by (auto simp: w row_at_def)
qed

lemma manifest_agree:
  assumes "manifest sha late s = Inr m" "manifest sha late' s' = Inr m" "distinct_names s" "distinct_names s'" "q \<noteq> []"
  shows "row_at sha s q = row_at sha s' q"
proof -
  have "row_at sha s q = Some r \<longleftrightarrow> row_at sha s' q = Some r" for r
    using manifest_row_at(1) [OF assms(1,3), of r] manifest_row_at(1) [OF assms(2,4), of r] assms(5) row_at_path by metis
  then show ?thesis by (metis not_None_eq)
qed

section \<open>What a tree holds\<close>

text \<open>The part of a tree that a scan can list, and what is kept at a path: modes, times and contents, not inodes.\<close>

primrec visible :: "tree \<Rightarrow> tree" where
  "visible (TDir mode readable entries) = TDir mode readable (if readable then map (map_prod id visible) entries else [])"
| "visible (TFile mode ino mtime data) = TFile mode ino mtime data"
| "visible (TLink to_dir) = TLink to_dir"
| "visible TSpecial = TSpecial"

datatype kept = KDir int | KFile int int bytes | KOther

fun head_of :: "tree \<Rightarrow> kept" where
  "head_of (TDir mode _ _) = KDir mode"
| "head_of (TFile mode _ mtime data) = KFile mode mtime data"
| "head_of _ = KOther"

fun kept_at :: "tree \<Rightarrow> path \<Rightarrow> kept option" where
  "kept_at t [] = Some (head_of t)"
| "kept_at (TDir _ _ entries) (n # p) = (case map_of entries n of None \<Rightarrow> None | Some c \<Rightarrow> kept_at c p)"
| "kept_at _ (n # p) = None"

primrec proper_tree :: "tree \<Rightarrow> bool" where
  "proper_tree (TDir _ _ entries) \<longleftrightarrow> distinct (map fst entries) \<and> list_all snd (map (map_prod id proper_tree) entries)"
| "proper_tree (TFile _ _ _ _) \<longleftrightarrow> True"
| "proper_tree (TLink _) \<longleftrightarrow> True"
| "proper_tree TSpecial \<longleftrightarrow> True"

lemma proper_TDir [simp]:
  "proper_tree (TDir m r entries) \<longleftrightarrow> distinct (map fst entries) \<and> (\<forall>(n, c) \<in> set entries. proper_tree c)"
  by (auto simp: list_all_iff)

declare proper_tree.simps(1) [simp del]

lemma concat_blocks_of [simp]: "concat (blocks_of b) = b"
  by (induction b rule: blocks_of.induct) (subst blocks_of.simps, simp)

lemma map_of_map_prod: "map_of (map (map_prod id f) es) n = map_option f (map_of es n)"
  by (induction es) auto

lemma distinct_observe: "proper_tree t \<Longrightarrow> distinct_names (observe_tree t)"
  by (induction t) (auto simp: Let_def)

fun kept_row :: "(bytes \<Rightarrow> string) \<Rightarrow> path \<Rightarrow> kept \<Rightarrow> row option" where
  "kept_row sha q (KDir mode) = Some (DRow q mode)"
| "kept_row sha q (KFile mode mtime data) = Some (FRow q mode (length data) mtime (sha data))"
| "kept_row sha q KOther = None"

lemma node_at_observe:
  "Option.bind (node_at (observe_tree t) q) (\<lambda>c. row_for sha (p, c)) = Option.bind (kept_at (visible t) q) (kept_row sha p)"
proof (induction q arbitrary: t)
  case Nil
  then show ?case by (cases t) (simp_all add: row_for_def Let_def)
next
  case (Cons n q)
  show ?case
  proof (cases t)
    case (TDir m r es)
    then show ?thesis using Cons.IH by (cases "map_of es n") (simp_all add: map_of_map_prod)
  qed (simp_all add: Let_def)
qed

lemma row_at_observe: "row_at sha (observe_tree t) q = Option.bind (kept_at (visible t) q) (kept_row sha q)"
  by (simp add: row_at_def node_at_observe)

lemma node_at_None: "node_at (observe_tree t) q = None \<longleftrightarrow> kept_at (visible t) q = None"
proof (induction q arbitrary: t)
  case (Cons n q)
  show ?case
  proof (cases t)
    case (TDir m r es)
    then show ?thesis using Cons.IH by (cases "map_of es n") (simp_all add: map_of_map_prod)
  qed (simp_all add: Let_def)
qed simp

text \<open>The contents of the files of a tree, among which the digest is to have no collision.\<close>

definition file_data :: "tree \<Rightarrow> bytes set" where
  "file_data t = {data. \<exists>q mode mtime. kept_at t q = Some (KFile mode mtime data)}"

lemma kept_row_inj:
  assumes "kept_row sha q k = Some r" "kept_row sha q k' = Some r" "inj_on sha D"
    and "\<And>m t d. k = KFile m t d \<Longrightarrow> d \<in> D" "\<And>m t d. k' = KFile m t d \<Longrightarrow> d \<in> D"
  shows "k = k'"
  using assms by (cases k; cases k') (auto dest: inj_onD)

section \<open>A copy that is accepted\<close>

lemma set_update_alist: "x \<in> set (AList.update n t es) \<Longrightarrow> x = (n, t) \<or> x \<in> set es"
  by (induction es) (auto split: if_splits)

lemma proper_update: "proper_tree (TDir m r es) \<Longrightarrow> proper_tree t \<Longrightarrow> proper_tree (TDir m r (AList.update n t es))"
  by (auto simp: distinct_update dest: set_update_alist)

lemma proper_lookup: "proper_tree (TDir m r es) \<Longrightarrow> map_of es n = Some c \<Longrightarrow> proper_tree c"
  by (auto dest: map_of_SomeD)

lemma mkdir_proper: "mkdir_parents u p t = Inr t' \<Longrightarrow> proper_tree t \<Longrightarrow> proper_tree t'"
proof (induction u p t arbitrary: t' rule: mkdir_parents.induct)
  case (2 u n p mode readable entries)
  let ?c = "case map_of entries n of None \<Rightarrow> TDir u True [] | Some t \<Rightarrow> t"
  obtain c where c: "mkdir_parents u p ?c = Inr c" "t' = TDir mode readable (AList.update n c entries)"
    using 2(2) by (auto simp: py_bind_Inr_iff)
  have "proper_tree ?c" using proper_lookup [OF 2(3)] by (auto split: option.splits)
  with 2(1) [OF c(1)] 2(3) show ?case unfolding c(2) by (intro proper_update)
qed auto

text \<open>An operation on one entry that gives a proper tree there.\<close>

definition keeps_proper :: "(tree option \<Rightarrow> tree py) \<Rightarrow> bool" where
  "keeps_proper f \<longleftrightarrow> (\<forall>x y. f x = Inr y \<longrightarrow> (\<forall>t. x = Some t \<longrightarrow> proper_tree t) \<longrightarrow> proper_tree y)"

lemma keeps_chmod: "keeps_proper (chmod mode)"
  by (auto simp: keeps_proper_def chmod_def split: option.splits tree.splits)

lemma keeps_new_file: "keeps_proper (new_file mode ino mtime data)"
  by (auto simp: keeps_proper_def new_file_def split: option.splits)

lemma at_path_proper: "keeps_proper f \<Longrightarrow> at_path f p t = Inr t' \<Longrightarrow> proper_tree t \<Longrightarrow> proper_tree t'"
proof (induction f p t arbitrary: t' rule: at_path.induct)
  case (2 f n mode readable entries)
  obtain c where c: "f (map_of entries n) = Inr c" "t' = TDir mode readable (AList.update n c entries)"
    using 2(2) by (auto simp: py_bind_Inr_iff)
  have "proper_tree c" using c(1) 2(1) proper_lookup [OF 2(3)] by (auto simp: keeps_proper_def)
  with 2(3) show ?case unfolding c(2) by (intro proper_update)
next
  case (3 f n m p mode readable entries)
  obtain c c' where c: "map_of entries n = Some c" "at_path f (m # p) c = Inr c'" "t' = TDir mode readable (AList.update n c' entries)"
    using 3(3) by (auto simp: py_bind_Inr_iff split: option.splits)
  have "proper_tree c'" using 3(1) [OF c(1) 3(2) c(2)] proper_lookup [OF 3(4) c(1)] by simp
  with 3(4) show ?case unfolding c(3) by (intro proper_update)
qed (auto simp: keeps_proper_def)

interpretation copying: step_machine "copy_row env" "(0, TDir mode True [])" "\<lambda>_ s. proper_tree (snd s)" for env mode
proof
  show "proper_tree (snd s')" if "proper_tree (snd s)" "copy_row env s r = Inr s'" for s r s'
    using that by (cases r) (auto simp: copy_row_def py_bind_Inr_iff cold_fail_def split: if_splits
      intro: mkdir_proper at_path_proper keeps_chmod keeps_new_file)
qed simp

lemma copy_snapshot_Inr:
  assumes "copy_snapshot sha env first second late target = Inr (report, copy)"
  obtains mode m where "target = TDir mode True []" "\<not> ce_same env" "manifest sha (fst first) (snd first) = Inr m"
    "manifest sha (fst second) (snd second) = Inr m" "manifest sha late (observe_tree copy) = Inr m" "cold_report sha m = Inr report" "proper_tree copy"
proof -
  obtain mode m n where t: "target = TDir mode True []" "\<not> ce_same env" "manifest sha (fst first) (snd first) = Inr m"
    "py_run (copy_row env) (0, target) (inv_rows m) = Inr (n, copy)"
    "manifest sha (fst second) (snd second) = Inr m" "manifest sha late (observe_tree copy) = Inr m" "cold_report sha m = Inr report"
    using assms by (auto simp: copy_snapshot_def py_bind_Inr_iff cold_fail_def split: tree.splits if_splits)
  have "proper_tree copy" using copying.run_inv [of env mode "inv_rows m" "(n, copy)"] t(1,4) by simp
  with t that show ?thesis by blast
qed

text \<open>
  C8: a copy that is accepted. The target was an empty directory; the scans of the source before and after
  list the same entries; and when the source is a tree at the first scan, whatever is read of it later, the
  target holds at every path what the visible part of that tree holds there, with its modes, times and
  contents, unless the digest collides on the files involved. The report carries the number of bytes and
  entries, which are within the bounds.
\<close>

theorem cold_copy_sound:
  assumes "copy_snapshot sha env (early, observe_tree source) (final, again) late target = Inr (report, copy)"
    and "proper_tree source" "distinct_names again" "inj_on sha (file_data (visible source) \<union> file_data (visible copy))"
  shows "(\<exists>mode. target = TDir mode True [])
    \<and> (\<forall>q. q \<noteq> [] \<longrightarrow> kept_at (visible copy) q = kept_at (visible source) q \<and> row_at sha again q = row_at sha (observe_tree source) q)
    \<and> (\<exists>nbytes nrows. 0 < nbytes \<and> nbytes \<le> COLD_MAX_BYTES \<and> 0 < nrows \<and> nrows \<le> COLD_MAX_FILES
        \<and> dict_get report ''bytes'' = PInt (int nbytes) \<and> dict_get report ''entries'' = PInt (int nrows))"
proof -
  obtain mode m where m: "target = TDir mode True []" "manifest sha early (observe_tree source) = Inr m" "manifest sha final again = Inr m"
    "manifest sha late (observe_tree copy) = Inr m" "cold_report sha m = Inr report" "proper_tree copy"
    using copy_snapshot_Inr [OF assms(1)] by (metis fst_conv snd_conv)
  have d: "distinct_names (observe_tree source)" "distinct_names (observe_tree copy)" using assms(2) m(6) distinct_observe by auto
  have same: "kept_at (visible copy) q = kept_at (visible source) q" if q: "q \<noteq> []" for q
  proof -
    have r: "row_at sha (observe_tree copy) q = row_at sha (observe_tree source) q" by (rule manifest_agree [OF m(4,2) d(2,1) q])
    show ?thesis
    proof (cases "kept_at (visible source) q")
      case None
      then have "row_at sha (observe_tree copy) q = None" using r by (simp add: row_at_observe)
      then have "node_at (observe_tree copy) q = None" using manifest_row_at(2) [OF m(4) d(2) q] by (metis not_None_eq)
      with None show ?thesis by (simp add: node_at_None)
    next
      case (Some k)
      then obtain c where "node_at (observe_tree source) q = Some c" using node_at_None by (metis not_None_eq option.distinct(1))
      then obtain r where r1: "row_at sha (observe_tree source) q = Some r" using manifest_row_at(2) [OF m(2) d(1) q] by blast
      with r obtain k' where k': "kept_at (visible copy) q = Some k'" "kept_row sha q k' = Some r"
        by (auto simp: row_at_observe bind_eq_Some_conv)
      have "kept_row sha q k = Some r" using r1 Some by (simp add: row_at_observe)
      from kept_row_inj [OF k'(2) this assms(4)] Some k'(1) show ?thesis by (fastforce simp: file_data_def)
    qed
  qed
  have again: "row_at sha again q = row_at sha (observe_tree source) q" if "q \<noteq> []" for q by (rule manifest_agree [OF m(3,2) assms(3) d(1) that])
  have report: "dict_get report ''bytes'' = PInt (int (inv_bytes m))" "dict_get report ''entries'' = PInt (int (inv_entries m))"
    using m(5) by (auto simp: cold_report_def py_bind_Inr_iff dict_get_def)
  show ?thesis using m(1) same again report manifest_bounds [OF m(2)] by blast
qed

end
