(* ===== verification/Cold_Progress.thy ===== *)
theory Cold_Progress
  imports Cold_Gate
begin

text \<open>
  That the bounded copy makes progress: a source that stays as it is, whose inventory is accepted and whose
  copy is in time, is copied, and the target then holds the visible part of the source.
\<close>

section \<open>Inventories that succeed\<close>

definition never :: "clock \<Rightarrow> bool" where
  "never late \<longleftrightarrow> (\<forall>p k. \<not> late p k)"

definition quiet :: "seen \<Rightarrow> bool" where
  "quiet c \<longleftrightarrow> (\<exists>t. c = observe_tree t)"

lemma quiet_node: "quiet s \<Longrightarrow> node_at s q = Some c \<Longrightarrow> quiet c"
proof (induction s q rule: node_at.induct)
  case (2 m es n p)
  then obtain t where t: "observe_tree t = SDir m es" by (auto simp: quiet_def)
  obtain d where d: "map_of es n = Some d" "node_at d p = Some c" using 2(3) by (auto split: option.splits)
  have "quiet d" using t d(1) by (cases t) (auto simp: quiet_def Let_def map_of_map_prod split: if_splits)
  then show ?case using 2(1) [OF d(1)] d(2) by simp
qed (auto simp: quiet_def)

lemma read_blocks_ok: "\<forall>k. \<not> late k \<Longrightarrow> read_blocks late k bs = Inr (concat bs)"
  by (induction late k bs rule: read_blocks.induct) auto

lemma scan_entry_ok:
  assumes "never late" "quiet c" "row_for sha (d @ [n], c) = Some r" "k + row_bytes r \<le> COLD_MAX_BYTES" "length rs < COLD_MAX_FILES"
  shows "scan_entry sha late d (rs, k) (n, c) = Inr (rs @ [r], k + row_bytes r)"
proof -
  obtain t where "c = observe_tree t" using assms(2) by (auto simp: quiet_def)
  then show ?thesis using assms(1,3-5)
    by (cases t) (auto simp: scan_entry_def Let_def row_for_def never_def file_digest_def read_blocks_ok)
qed

lemma scan_entries_ok:
  assumes "never late"
  shows "list_all2 (\<lambda>e r. row_for sha e = Some r) (map (\<lambda>(n, c). (d @ [n], c)) es) new \<Longrightarrow> (\<forall>(n, c) \<in> set es. quiet c)
    \<Longrightarrow> k + sum_list (map row_bytes new) \<le> COLD_MAX_BYTES \<Longrightarrow> length rs + length new \<le> COLD_MAX_FILES
    \<Longrightarrow> py_run (scan_entry sha late d) (rs, k) es = Inr (rs @ new, k + sum_list (map row_bytes new))"
proof (induction es arbitrary: new rs k)
  case (Cons e es)
  obtain n c where e: "e = (n, c)" by (cases e)
  obtain r new' where new: "new = r # new'" "row_for sha (d @ [n], c) = Some r"
    "list_all2 (\<lambda>e r. row_for sha e = Some r) (map (\<lambda>(n, c). (d @ [n], c)) es) new'"
    using Cons.prems(1) e by (auto simp: list_all2_Cons1)
  have "scan_entry sha late d (rs, k) (n, c) = Inr (rs @ [r], k + row_bytes r)"
    using Cons.prems e new by (intro scan_entry_ok [OF assms]) auto
  moreover have "py_run (scan_entry sha late d) (rs @ [r], k + row_bytes r) es
      = Inr ((rs @ [r]) @ new', k + row_bytes r + sum_list (map row_bytes new'))"
    using Cons.prems new by (intro Cons.IH) auto
  ultimately show ?case using e new by simp
qed simp

lemma scan_dirs_ok:
  assumes "never late"
  shows "list_all2 (\<lambda>e r. row_for sha e = Some r) (flat vs) new \<Longrightarrow> (\<forall>(p, c) \<in> set (flat vs). quiet c)
    \<Longrightarrow> k + sum_list (map row_bytes new) \<le> COLD_MAX_BYTES \<Longrightarrow> length rs + length new \<le> COLD_MAX_FILES
    \<Longrightarrow> py_run (scan_dir sha late) (rs, k) vs = Inr (rs @ new, k + sum_list (map row_bytes new))"
proof (induction vs arbitrary: new rs k)
  case (Cons v vs)
  obtain d es where v: "v = (d, es)" by (cases v)
  obtain a b where new: "new = a @ b" "list_all2 (\<lambda>e r. row_for sha e = Some r) (map (\<lambda>(n, c). (d @ [n], c)) es) a"
    "list_all2 (\<lambda>e r. row_for sha e = Some r) (flat vs) b"
    using Cons.prems(1) v by (auto simp: list_all2_append1)
  have len: "length es = length a" using list_all2_lengthD [OF new(2)] by simp
  have "py_run (scan_entry sha late d) (rs, k) es = Inr (rs @ a, k + sum_list (map row_bytes a))"
    using Cons.prems(2-4) new v by (intro scan_entries_ok [OF assms new(2)]) auto
  then have "scan_dir sha late (rs, k) v = Inr (rs @ a, k + sum_list (map row_bytes a))"
    using Cons.prems(4) new(1) len v by (simp add: scan_dir_def)
  moreover have "py_run (scan_dir sha late) (rs @ a, k + sum_list (map row_bytes a)) vs
      = Inr ((rs @ a) @ b, k + sum_list (map row_bytes a) + sum_list (map row_bytes b))"
    using Cons.prems(2-4) new v by (intro Cons.IH) auto
  ultimately show ?case using new(1) by (simp add: add.assoc)
qed simp

lemma manifest_ok:
  assumes "never late" "distinct_names (observe_tree t)" "observe_tree t = SDir m es"
    and "list_all2 (\<lambda>e r. row_for sha e = Some r) (flat (os_walk (observe_tree t) [])) rs"
    and "rs \<noteq> []" "length rs \<le> COLD_MAX_FILES" "0 < sum_list (map row_bytes rs)" "sum_list (map row_bytes rs) \<le> COLD_MAX_BYTES"
  shows "manifest sha late (observe_tree t)
    = Inr \<lparr>inv_rows = sort_key row_text rs, inv_bytes = sum_list (map row_bytes rs), inv_entries = length rs\<rparr>"
proof -
  have "\<forall>(p, c) \<in> set (flat (os_walk (observe_tree t) [])). quiet c"
    using quiet_node [of "observe_tree t"] by (auto simp: walk_entries [OF assms(2)] entries_below_def quiet_def)
  from scan_dirs_ok [OF assms(1,4) this, of 0 "[]"] assms(3-8) show ?thesis
    by (simp add: manifest_def del: os_walk.simps sum_list_eq_0_iff)
qed

section \<open>An inventory is determined by its entries\<close>

lemma distinct_names_mset: "mset xs = mset ys \<Longrightarrow> distinct (map fst ys) \<Longrightarrow> distinct (map fst xs)"
  by (metis mset_eq_imp_distinct_iff mset_map)

lemma distinct_listed: "distinct (map fst es) \<Longrightarrow> distinct (map fst (listed es))"
  by (rule distinct_names_mset) (simp_all add: listed_def)

lemma distinct_walk_order: "distinct (map fst es) \<Longrightarrow> distinct (map fst (walk_order es))"
  by (rule distinct_names_mset) (simp_all add: walk_order_def listed_def)

lemma distinct_concat_map:
  assumes "distinct (map fst xs)" "\<And>x. x \<in> set xs \<Longrightarrow> distinct (f x)"
    "\<And>x y z. x \<in> set xs \<Longrightarrow> y \<in> set xs \<Longrightarrow> z \<in> set (f x) \<Longrightarrow> z \<in> set (f y) \<Longrightarrow> fst x = fst y"
  shows "distinct (concat (map f xs))"
  using assms
proof (induction xs)
  case (Cons x xs)
  have "z \<notin> set (f y)" if "z \<in> set (f x)" "y \<in> set xs" for y z
  proof
    assume "z \<in> set (f y)"
    then have "fst x = fst y" using that Cons.prems(3) [of x y z] by simp
    with that(2) Cons.prems(1) show False by (auto simp: image_iff)
  qed
  then have "set (f x) \<inter> set (concat (map f xs)) = {}" by auto
  moreover have "distinct (concat (map f xs))" 
  proof (rule Cons.IH)
    show "distinct (map fst xs)" "\<And>y. y \<in> set xs \<Longrightarrow> distinct (f y)" using Cons.prems(1,2) by simp_all
    show "fst y = fst w" if "y \<in> set xs" "w \<in> set xs" "z \<in> set (f y)" "z \<in> set (f w)" for y w z
      using that Cons.prems(3) [of y w z] by simp
  qed
  ultimately show ?case using Cons.prems(2) by simp
qed simp

lemma walk_prefix: "distinct_names s \<Longrightarrow> q \<in> fst ` set (flat (os_walk s p)) \<Longrightarrow> \<exists>r. q = p @ r \<and> r \<noteq> []"
  by (auto simp: walk_entries entries_below_def)

lemma distinct_walk: "distinct_names s \<Longrightarrow> distinct (map fst (flat (os_walk s p)))"
proof (induction s arbitrary: p)
  case (SDir m es)
  let ?sub = "\<lambda>(n, w). map fst (flat (w (p @ [n])))"
  let ?ws = "listed (map (map_prod id os_walk) es)"
  have names: "distinct (map fst es)" and each: "\<And>n c. (n, c) \<in> set es \<Longrightarrow> distinct_names c" using SDir.prems by auto
  have ws: "set ?ws = map_prod id os_walk ` set es" by (simp add: listed_def)
  have own: "distinct (map fst (map (\<lambda>(n, c). (p @ [n], c)) (walk_order es)))"
  proof -
    have "map fst (map (\<lambda>(n, c). (p @ [n], c)) (walk_order es)) = map (\<lambda>n. p @ [n]) (map fst (walk_order es))" by (simp add: case_prod_unfold)
    then show ?thesis using distinct_walk_order [OF names] by (simp add: distinct_map inj_on_def del: map_map)
  qed
  have deeper: "\<exists>r. q = p @ n # r \<and> r \<noteq> []" if x: "(n, w) \<in> set ?ws" and z: "q \<in> set (?sub (n, w))" for n w q
  proof -
    obtain c where c: "(n, c) \<in> set es" "w = os_walk c" using x unfolding ws by auto
    then have "q \<in> fst ` set (flat (os_walk c (p @ [n])))" using z by simp
    from walk_prefix [OF each [OF c(1)] this] show ?thesis by auto
  qed
  have "distinct (concat (map ?sub ?ws))"
  proof (rule distinct_concat_map)
    show "distinct (map fst ?ws)" using names by (intro distinct_listed) (simp add: comp_def)
    show "distinct (?sub x)" if "x \<in> set ?ws" for x using that SDir.IH each by (auto simp: ws)
    show "fst x = fst y" if "x \<in> set ?ws" "y \<in> set ?ws" "z \<in> set (?sub x)" "z \<in> set (?sub y)" for x y z
      using that deeper [of "fst x" "snd x" z] deeper [of "fst y" "snd y" z] by auto
  qed
  moreover have "map fst (flat (os_walk (SDir m es) p)) = map fst (map (\<lambda>(n, c). (p @ [n], c)) (walk_order es)) @ concat (map ?sub ?ws)"
    by (simp add: flat_concat map_concat comp_def case_prod_unfold)
  moreover have "set (map fst (map (\<lambda>(n, c). (p @ [n], c)) (walk_order es))) \<inter> set (concat (map ?sub ?ws)) = {}"
    using deeper by (force simp: case_prod_unfold)
  ultimately show ?case using own by simp
qed auto

text \<open>Texts of paths whose names are not empty and have no separator determine the path.\<close>

definition plain_path :: "path \<Rightarrow> bool" where
  "plain_path p \<longleftrightarrow> (\<forall>n \<in> set p. n \<noteq> [] \<and> CHR ''/'' \<notin> set n)"

lemma first_separator: "CHR ''/'' \<notin> set a \<Longrightarrow> CHR ''/'' \<notin> set b \<Longrightarrow> a @ CHR ''/'' # x = b @ CHR ''/'' # y \<Longrightarrow> a = b \<and> x = y"
  by (induction a arbitrary: b) (case_tac b; auto)+

lemma join_plain_Nil: "plain_path p \<Longrightarrow> join sep p = [] \<longleftrightarrow> p = []"
  by (cases "(sep, p)" rule: join.cases) (auto simp: plain_path_def)

lemma join_plain_inj: "plain_path p \<Longrightarrow> plain_path q \<Longrightarrow> join ''/'' p = join ''/'' q \<Longrightarrow> p = q"
proof (induction p arbitrary: q)
  case Nil
  then show ?case using join_plain_Nil [of q "''/''"] by (metis join.simps(1))
next
  case (Cons a p)
  show ?case
  proof (cases q)
    case Nil
    then show ?thesis using Cons.prems join_plain_Nil [of "a # p" "''/''"] by simp
  next
    case q: (Cons b q')
    show ?thesis
    proof (cases "p = [] \<or> q' = []")
      case True
      then show ?thesis using Cons.prems q by (cases p; cases q') (auto simp: plain_path_def)
    next
      case False
      then obtain x ps y qs where "p = x # ps" "q' = y # qs" by (auto simp: neq_Nil_conv)
      then have "a @ CHR ''/'' # join ''/'' p = b @ CHR ''/'' # join ''/'' q'" using Cons.prems(3) q by simp
      then have "a = b \<and> join ''/'' p = join ''/'' q'" using Cons.prems(1,2) q by (intro first_separator) (auto simp: plain_path_def)
      then show ?thesis using Cons.IH [of q'] Cons.prems(1,2) q by (simp add: plain_path_def)
    qed
  qed
qed

lemma sort_rows_unique:
  assumes "set rs = set rs'" "distinct rs" "distinct rs'" "\<forall>r \<in> set rs. plain_path (row_path r)" "inj_on row_path (set rs)"
  shows "sort_key row_text rs = sort_key row_text rs'" "length rs = length rs'" "sum_list (map row_bytes rs) = sum_list (map row_bytes rs')"
proof -
  have m: "mset rs = mset rs'" using assms(1-3) by (simp add: set_eq_iff_mset_eq_distinct)
  have "inj_on row_text (set rs)"
    using assms(4,5) join_plain_inj by (auto simp: inj_on_def row_text_def)
  then show "sort_key row_text rs = sort_key row_text rs'"
    using m by (intro sort_key_inj_key_eq) (auto simp: sorted_sort_key)
  show "length rs = length rs'" using m by (rule mset_eq_length)
  show "sum_list (map row_bytes rs) = sum_list (map row_bytes rs')" using m by (metis mset_map sum_mset_sum_list)
qed

end
