(* ===== verification/Cold_Tree.thy ===== *)
theory Cold_Tree
  imports Cold_Progress
begin

text \<open>
  The operations of the copy on the target tree: making a directory or a file below an existing directory
  changes what is kept at its path and nowhere else.
\<close>

section \<open>Grafting a subtree\<close>

fun graft :: "path \<Rightarrow> tree \<Rightarrow> tree \<Rightarrow> tree" where
  "graft [] c t = c"
| "graft (n # p) c (TDir m r es) = TDir m r (AList.update n (case map_of es n of None \<Rightarrow> c | Some x \<Rightarrow> graft p c x) es)"
| "graft (n # p) c t = t"

fun sub :: "tree \<Rightarrow> path \<Rightarrow> tree option" where
  "sub t [] = Some t"
| "sub (TDir m r es) (n # p) = (case map_of es n of None \<Rightarrow> None | Some c \<Rightarrow> sub c p)"
| "sub _ (n # p) = None"

definition dir_at :: "tree \<Rightarrow> path \<Rightarrow> bool" where
  "dir_at t p \<longleftrightarrow> (\<exists>m. kept_at t p = Some (KDir m))"

lemma dir_at_Nil: "dir_at t [] \<longleftrightarrow> (\<exists>m r es. t = TDir m r es)"
  by (cases t) (auto simp: dir_at_def)

lemma dir_at_Cons: "dir_at t (n # p) \<longleftrightarrow> (\<exists>m r es c. t = TDir m r es \<and> map_of es n = Some c \<and> dir_at c p)"
  by (cases t) (auto simp: dir_at_def split: option.splits)

lemma sub_None: "sub t q = None \<longleftrightarrow> kept_at t q = None"
  by (induction t q rule: sub.induct) (auto split: option.splits)

lemma map_of_update: "map_of (AList.update n c es) = (map_of es)(n \<mapsto> c)"
  by (rule ext) (simp add: update_conv')

lemma update_same: "map_of es n = Some c \<Longrightarrow> AList.update n c es = es"
  by (induction es) (auto split: if_splits)

lemma sub_graft: "dir_at t p \<Longrightarrow> sub (graft (p @ [n]) c t) (p @ [n]) = Some c"
  by (induction p arbitrary: t) (auto simp: dir_at_Nil dir_at_Cons map_of_update split: option.splits)

lemma kept_graft:
  "dir_at t p \<Longrightarrow> kept_at (graft (p @ [n]) c t) q
    = (if take (Suc (length p)) q = p @ [n] then kept_at c (drop (Suc (length p)) q) else kept_at t q)"
proof (induction p arbitrary: t q)
  case Nil
  then show ?case by (cases q) (auto simp: dir_at_Nil map_of_update split: option.splits)
next
  case (Cons a p)
  then obtain m r es x where x: "t = TDir m r es" "map_of es a = Some x" "dir_at x p" by (auto simp: dir_at_Cons)
  then show ?case using Cons.IH [OF x(3)] by (cases q) (auto simp: map_of_update split: option.splits)
qed

lemma dir_graft: "dir_at t p \<Longrightarrow> dir_at (graft (p @ [n]) c t) p"
  by (simp add: dir_at_def kept_graft [unfolded dir_at_def])

lemma at_path_graft:
  "dir_at t p \<Longrightarrow> at_path f (p @ [n]) t = py_bind (f (sub t (p @ [n]))) (\<lambda>c. Inr (graft (p @ [n]) c t))"
proof (induction p arbitrary: t)
  case Nil
  then obtain m r es where "t = TDir m r es" by (auto simp: dir_at_Nil)
  then show ?case by (cases "map_of es n") simp_all
next
  case (Cons a p)
  then obtain m r es x where x: "t = TDir m r es" "map_of es a = Some x" "dir_at x p" by (auto simp: dir_at_Cons)
  obtain b bs where b: "p @ [n] = b # bs" by (cases "p @ [n]") auto
  show ?case using Cons.IH [OF x(3)] x(1,2) by (cases "f (sub x (p @ [n]))") (simp_all add: b)
qed

lemma mkdir_graft:
  "dir_at t p \<Longrightarrow> kept_at t (p @ [n]) = None \<Longrightarrow> mkdir_parents u (p @ [n]) t = Inr (graft (p @ [n]) (TDir u True []) t)"
  by (induction p arbitrary: t) (auto simp: dir_at_Nil dir_at_Cons split: option.splits)

lemma mkdir_same: "dir_at t p \<Longrightarrow> mkdir_parents u p t = Inr t"
  by (induction p arbitrary: t) (auto simp: dir_at_Nil dir_at_Cons update_same)

lemma kept_None_below: "kept_at t p = None \<Longrightarrow> kept_at t (p @ q) = None"
  by (induction t p rule: kept_at.induct) (auto split: option.splits)

section \<open>Trees that can be listed throughout\<close>

primrec listable :: "tree \<Rightarrow> bool" where
  "listable (TDir _ r entries) \<longleftrightarrow> r \<and> list_all snd (map (map_prod id listable) entries)"
| "listable (TFile _ _ _ _) \<longleftrightarrow> True"
| "listable (TLink _) \<longleftrightarrow> True"
| "listable TSpecial \<longleftrightarrow> True"

lemma listable_TDir [simp]: "listable (TDir m r es) \<longleftrightarrow> r \<and> (\<forall>(n, c) \<in> set es. listable c)"
  by (auto simp: list_all_iff)

declare listable.simps(1) [simp del]

lemma listable_visible: "listable t \<Longrightarrow> visible t = t"
  by (induction t) (auto intro!: map_idI)

definition clean :: "tree \<Rightarrow> bool" where
  "clean t \<longleftrightarrow> proper_tree t \<and> listable t"

lemma clean_graft: "clean t \<Longrightarrow> clean c \<Longrightarrow> clean (graft p c t)"
proof (induction p c t rule: graft.induct)
  case (2 n p c m r es)
  let ?x = "case map_of es n of None \<Rightarrow> c | Some x \<Rightarrow> graft p c x"
  have "clean x" if "map_of es n = Some x" for x using 2(2) map_of_SomeD [OF that] by (auto simp: clean_def)
  then have "clean ?x" using 2 by (auto split: option.splits)
  then show ?case using 2(2) by (auto simp: clean_def distinct_update dest: set_update_alist)
qed auto

text \<open>A leaf: an empty directory or a file.\<close>

definition leaf :: "tree \<Rightarrow> bool" where
  "leaf c \<longleftrightarrow> (\<forall>q. q \<noteq> [] \<longrightarrow> kept_at c q = None) \<and> clean c"

lemma leaves [simp]: "leaf (TDir m True [])" "leaf (TFile m i t d)"
  by (auto simp: leaf_def clean_def neq_Nil_conv)

lemma kept_graft_leaf:
  assumes "dir_at t p" "\<forall>q. q \<noteq> [] \<longrightarrow> kept_at t (p @ [n] @ q) = None" "leaf c"
  shows "kept_at (graft (p @ [n]) c t) q = (if q = p @ [n] then Some (head_of c) else kept_at t q)"
proof (cases "take (Suc (length p)) q = p @ [n]")
  case True
  then obtain r where q: "q = (p @ [n]) @ r" by (metis append_take_drop_id)
  have "kept_at (graft (p @ [n]) c t) q = kept_at c r" using True q kept_graft [OF assms(1)] by simp
  then show ?thesis using assms(2,3) q by (cases "r = []") (simp_all add: leaf_def)
qed (auto simp: kept_graft [OF assms(1)])

end
