(* ===== verification/Cold_Complete.thy ===== *)
theory Cold_Complete
  imports Cold_Tree
begin

text \<open>The copy of a source that stays as it is succeeds, with a concrete volume as the witness of both theorems.\<close>

section \<open>Copying the rows\<close>

text \<open>What is read of a file for the copy is the file as the source holds it.\<close>

definition reads_of :: "copy_env \<Rightarrow> tree \<Rightarrow> bool" where
  "reads_of env source \<longleftrightarrow>
     (\<forall>p mode mtime data. kept_at (visible source) p = Some (KFile mode mtime data) \<longrightarrow>
        (\<exists>info. fr_opened (ce_read env p) = Inr info \<and> st_size info = length data \<and> st_mtime_ns info = mtime)
        \<and> concat (fr_blocks (ce_read env p)) = data)"

lemma copy_blocks_ok:
  "\<forall>k. \<not> late k \<Longrightarrow> length w + length (concat bs) \<le> n \<Longrightarrow> copied + length (concat bs) \<le> COLD_MAX_BYTES
   \<Longrightarrow> copy_blocks late k n w copied bs = Inr (w @ concat bs, copied + length (concat bs))"
  by (induction late k n w copied bs rule: copy_blocks.induct) auto

lemma copy_row_ok:
  assumes "never (ce_late env)" "reads_of env source" "kept_at (visible source) (p @ [n]) = Some k" "kept_row sha (p @ [n]) k = Some r"
    and "clean t" "dir_at t p" "kept_at t (p @ [n]) = None" "copied + row_bytes r \<le> COLD_MAX_BYTES"
  obtains t' where "copy_row env (copied, t) r = Inr (copied + row_bytes r, t')" "clean t'"
    "\<And>q. kept_at t' q = (if q = p @ [n] then Some k else kept_at t q)"
proof -
  have empty: "sub t (p @ [n]) = None" "\<forall>q. q \<noteq> [] \<longrightarrow> kept_at t (p @ [n] @ q) = None"
    using assms(7) kept_None_below [OF assms(7)] by (simp_all add: sub_None)
  note put = at_path_graft [OF assms(6), of _ n]
  have leaf_put: "kept_at (graft (p @ [n]) c t) q = (if q = p @ [n] then Some (head_of c) else kept_at t q)" "clean (graft (p @ [n]) c t)"
    if "leaf c" for c q
    using kept_graft_leaf [OF assms(6) empty(2) that] clean_graft [OF assms(5)] that by (simp_all add: leaf_def)
  show ?thesis
  proof (cases k)
    case (KDir mode)
    let ?t = "graft (p @ [n]) (TDir (ce_umode env) True []) t"
    have d: "dir_at ?t p" by (rule dir_graft [OF assms(6)])
    have below: "\<forall>q. q \<noteq> [] \<longrightarrow> kept_at ?t (p @ [n] @ q) = None" using leaf_put(1) [of "TDir (ce_umode env) True []"] empty(2) by simp
    have r: "r = DRow (p @ [n]) mode" using assms(4) KDir by simp
    have "copy_row env (copied, t) r = Inr (copied, graft (p @ [n]) (TDir mode True []) ?t)"
      using mkdir_graft [OF assms(6,7)] at_path_graft [OF d, of _ n] sub_graft [OF assms(6)] r by (simp add: copy_row_def chmod_def)
    moreover have "kept_at (graft (p @ [n]) (TDir mode True []) ?t) q = (if q = p @ [n] then Some k else kept_at t q)" for q
      using kept_graft_leaf [OF d below, of "TDir mode True []" q] leaf_put(1) [of "TDir (ce_umode env) True []" q] KDir by simp
    moreover have "clean (graft (p @ [n]) (TDir mode True []) ?t)"
      using clean_graft [OF leaf_put(2) [OF leaves(1)], of "TDir mode True []"] leaves(1) [of mode] by (simp add: leaf_def)
    ultimately show ?thesis using that r by simp
  next
    case (KFile mode mtime data)
    have r: "r = FRow (p @ [n]) mode (length data) mtime (sha data)" using assms(4) KFile by simp
    obtain info where i: "fr_opened (ce_read env (p @ [n])) = Inr info" "st_size info = length data" "st_mtime_ns info = mtime"
      "concat (fr_blocks (ce_read env (p @ [n]))) = data"
      using assms(2) [unfolded reads_of_def, rule_format, OF assms(3) [unfolded KFile]] by blast
    have "copy_blocks (ce_late env (p @ [n])) 0 (length data) [] copied (fr_blocks (ce_read env (p @ [n]))) = Inr (data, copied + length data)"
      using copy_blocks_ok [of "ce_late env (p @ [n])" "[]" "fr_blocks (ce_read env (p @ [n]))" "length data" copied 0] assms(1,8) i r
      by (simp add: never_def)
    then have "copy_row env (copied, t) r = Inr (copied + length data, graft (p @ [n]) (TFile mode (ce_ino env (p @ [n])) mtime data) t)"
      using mkdir_same [OF assms(6)] put empty(1) i r by (simp add: copy_row_def new_file_def)
    moreover note leaf_put [of "TFile mode (ce_ino env (p @ [n])) mtime data"]
    ultimately show ?thesis using that r KFile by simp
  next
    case KOther
    then show ?thesis using assms(4) by simp
  qed
qed

text \<open>What the target holds when some of the rows are done.\<close>

definition copied_rel :: "tree \<Rightarrow> row list \<Rightarrow> tree \<Rightarrow> bool" where
  "copied_rel source done t \<longleftrightarrow> clean t \<and> dir_at t []
     \<and> (\<forall>q. q \<noteq> [] \<longrightarrow> kept_at t q = (if q \<in> row_path ` set done then kept_at (visible source) q else None))"

lemma copy_rows_ok:
  assumes "never (ce_late env)" "reads_of env source"
    and "\<forall>r \<in> set rows. row_path r \<noteq> [] \<and> (\<exists>k. kept_at (visible source) (row_path r) = Some k \<and> kept_row sha (row_path r) k = Some r)"
    and "distinct (map row_path rows)" "sum_list (map row_bytes rows) \<le> COLD_MAX_BYTES"
    and "\<And>ys r zs. rows = ys @ r # zs \<Longrightarrow> butlast (row_path r) = [] \<or> (\<exists>mode. DRow (butlast (row_path r)) mode \<in> set ys)"
  shows "rows = ys @ zs \<Longrightarrow> copied_rel source ys t \<Longrightarrow>
    \<exists>t'. py_run (copy_row env) (sum_list (map row_bytes ys), t) zs = Inr (sum_list (map row_bytes rows), t') \<and> copied_rel source rows t'"
proof (induction zs arbitrary: ys t)
  case (Cons r zs)
  obtain k where k: "row_path r \<noteq> []" "kept_at (visible source) (row_path r) = Some k" "kept_row sha (row_path r) k = Some r"
    using assms(3) Cons.prems(1) by auto
  obtain p n where p: "row_path r = p @ [n]" using k(1) by (metis append_butlast_last_id)
  have new: "row_path r \<notin> row_path ` set ys" using assms(4) Cons.prems(1) by auto
  then have none: "kept_at t (p @ [n]) = None" using Cons.prems(2) p by (simp add: copied_rel_def)
  have d: "dir_at t p"
  proof (cases "p = []")
    case False
    then obtain mode where m: "DRow p mode \<in> set ys" using assms(6) [OF Cons.prems(1)] p by auto
    then have "p \<in> row_path ` set ys" by force
    moreover obtain k' where "kept_at (visible source) p = Some k'" "kept_row sha p k' = Some (DRow p mode)"
      using bspec [OF assms(3), of "DRow p mode"] Cons.prems(1) m by auto
    moreover then have "k' = KDir mode" by (cases k') auto
    ultimately show ?thesis using Cons.prems(2) False by (auto simp: copied_rel_def dir_at_def)
  qed (use Cons.prems(2) in \<open>simp add: copied_rel_def\<close>)
  have c: "clean t" "sum_list (map row_bytes ys) + row_bytes r \<le> COLD_MAX_BYTES"
    using Cons.prems assms(5) by (simp_all add: copied_rel_def)
  obtain t' where t': "copy_row env (sum_list (map row_bytes ys), t) r = Inr (sum_list (map row_bytes ys) + row_bytes r, t')" "clean t'"
    "\<And>q. kept_at t' q = (if q = p @ [n] then Some k else kept_at t q)"
    using copy_row_ok [OF assms(1,2) k(2,3) [unfolded p] c(1) d none c(2)] by blast
  have "dir_at t' []" using Cons.prems(2) t'(3) [of "[]"] by (simp add: copied_rel_def dir_at_def del: kept_at.simps)
  then have "copied_rel source (ys @ [r]) t'"
    using Cons.prems(2) t'(2,3) p k(2) by (auto simp: copied_rel_def)
  with Cons.IH [of "ys @ [r]" t'] Cons.prems(1) t'(1) show ?case by simp
qed (auto simp: copied_rel_def)

text \<open>A directory comes before what is in it, in the order of the texts.\<close>

lemma less_longer: "(xs :: string) < xs @ c # ys"
  by (induction xs) simp_all

lemma join_snoc: "p \<noteq> [] \<Longrightarrow> join sep (p @ [n]) = join sep p @ sep @ n"
  by (induction p rule: induct_list012) auto

lemma parent_first:
  assumes "sorted (map row_text rows)" "rows = ys @ r # zs" "row_path r = p @ [n]" "p \<noteq> []" "DRow p mode \<in> set rows"
  shows "DRow p mode \<in> set ys"
proof (rule ccontr)
  assume "DRow p mode \<notin> set ys"
  then have "DRow p mode \<in> set (r # zs)" using assms(2,5) by auto
  then have "row_text r \<le> row_text (DRow p mode)" using assms(1,2) by (auto simp: sorted_append)
  moreover have "row_text (DRow p mode) < row_text r"
    using assms(3,4) less_longer by (simp add: row_text_def join_snoc)
  ultimately show False by simp
qed

lemma kept_parent: "kept_at t (p @ [n]) = Some k \<Longrightarrow> dir_at t p"
  by (induction p arbitrary: t) (auto simp: dir_at_Nil dir_at_Cons split: option.splits elim: kept_at.elims)

section \<open>The whole copy\<close>

lemma walk_rows:
  assumes "manifest sha late s = Inr m" "distinct_names s"
  obtains rs where "list_all2 (\<lambda>e r. row_for sha e = Some r) (flat (os_walk s [])) rs" "inv_rows m = sort_key row_text rs"
    "inv_bytes m = sum_list (map row_bytes rs)" "inv_entries m = length rs" "distinct (map row_path rs)" "rs \<noteq> []"
    "length rs \<le> COLD_MAX_FILES" "0 < sum_list (map row_bytes rs)" "sum_list (map row_bytes rs) \<le> COLD_MAX_BYTES"
proof -
  obtain rs where r: "scan_rel sha (flat (os_walk s [])) (rs, inv_bytes m)" "inv_rows m = sort_key row_text rs" "inv_entries m = length rs"
    "rs \<noteq> []" "length rs \<le> COLD_MAX_FILES" "0 < inv_bytes m"
    using manifest_Inr [OF assms(1)] .
  then have l: "list_all2 (\<lambda>e r. row_for sha e = Some r) (flat (os_walk s [])) rs" by (simp add: scan_rel_def)
  then have "map row_path rs = map fst (flat (os_walk s []))" by (induction rule: list_all2_induct) (auto dest: row_for_path)
  with r l distinct_walk [OF assms(2)] that show ?thesis by (simp add: scan_rel_def)
qed

text \<open>The inventory of a tree that stays as it is, from any list of its rows.\<close>

lemma walk_total:
  assumes "distinct_names s" "\<And>q c. q \<noteq> [] \<Longrightarrow> node_at s q = Some c \<Longrightarrow> row_at sha s q \<noteq> None"
  obtains rs where "list_all2 (\<lambda>e r. row_for sha e = Some r) (flat (os_walk s [])) rs" "distinct (map row_path rs)"
    "\<And>r. r \<in> set rs \<longleftrightarrow> row_path r \<noteq> [] \<and> row_at sha s (row_path r) = Some r"
proof -
  let ?es = "flat (os_walk s [])" and ?row = "\<lambda>e. the (row_for sha e)"
  have w: "set ?es = {(q, c) | q c. q \<noteq> [] \<and> node_at s q = Some c}" using walk_entries [OF assms(1), of "[]"] by (simp add: entries_below_def)
  have some: "row_for sha e = Some (?row e)" if "e \<in> set ?es" for e using that assms(2) by (auto simp: w row_at_def)
  have path: "row_path (?row e) = fst e" if "e \<in> set ?es" for e using row_for_path [OF some [OF that]] .
  have "list_all2 (\<lambda>e r. row_for sha e = Some r) ?es (map ?row ?es)" using some by (auto simp: list_all2_conv_all_nth)
  moreover have "map row_path (map ?row ?es) = map fst ?es" using path by simp
  then have "distinct (map row_path (map ?row ?es))" using distinct_walk [OF assms(1)] by metis
  moreover have "r \<in> set (map ?row ?es) \<longleftrightarrow> row_path r \<noteq> [] \<and> row_at sha s (row_path r) = Some r" for r
  proof
    assume "r \<in> set (map ?row ?es)"
    then obtain e where "e \<in> set ?es" "r = ?row e" by auto
    then show "row_path r \<noteq> [] \<and> row_at sha s (row_path r) = Some r" using some path by (auto simp: w row_at_def)
  next
    assume "row_path r \<noteq> [] \<and> row_at sha s (row_path r) = Some r"
    then obtain c where "(row_path r, c) \<in> set ?es" "row_for sha (row_path r, c) = Some r" by (auto simp: w row_at_def bind_eq_Some_conv)
    then show "r \<in> set (map ?row ?es)" using imageI [of "(row_path r, c)" "set ?es" ?row] by simp
  qed
  ultimately show ?thesis by (rule that)
qed

lemma copy_visible:
  assumes "manifest sha early (observe_tree source) = Inr m" "proper_tree source" "never (ce_late env)" "reads_of env source"
  obtains copy where "py_run (copy_row env) (0, TDir mode True []) (inv_rows m) = Inr (inv_bytes m, copy)" "clean copy" "dir_at copy []"
    "\<And>q. q \<noteq> [] \<Longrightarrow> kept_at copy q = kept_at (visible source) q"
proof -
  let ?rows = "inv_rows m"
  have d: "distinct_names (observe_tree source)" by (rule distinct_observe [OF assms(2)])
  note row = manifest_row_at(1) [OF assms(1) d]
  obtain rs where rs: "inv_rows m = sort_key row_text rs" "distinct (map row_path rs)" using walk_rows [OF assms(1) d] by metis
  have kept: "row_path r \<noteq> [] \<and> (\<exists>k. kept_at (visible source) (row_path r) = Some k \<and> kept_row sha (row_path r) k = Some r)" if "r \<in> set ?rows" for r
    using that row [of r] by (auto simp: row_at_observe bind_eq_Some_conv)
  have bytes: "sum_list (map row_bytes ?rows) = inv_bytes m" "sum_list (map row_bytes ?rows) \<le> COLD_MAX_BYTES"
    using manifest_bounds [OF assms(1)] by simp_all
  have paths: "distinct (map row_path ?rows)" unfolding rs(1) using rs(2) by (metis mset_eq_imp_distinct_iff mset_map mset_sort)
  have parents: "butlast (row_path r) = [] \<or> (\<exists>mode. DRow (butlast (row_path r)) mode \<in> set ys)" if rows: "?rows = ys @ r # zs" for ys r zs
  proof (cases "butlast (row_path r) = []")
    case False
    have r: "r \<in> set ?rows" using rows by simp
    obtain p n where p: "row_path r = p @ [n]" using kept [OF r] by (metis append_butlast_last_id)
    obtain k where "kept_at (visible source) (p @ [n]) = Some k" using kept [OF r] p by auto
    from kept_parent [OF this] obtain mode where "kept_at (visible source) p = Some (KDir mode)" by (auto simp: dir_at_def)
    then have "DRow p mode \<in> set ?rows" using row [of "DRow p mode"] False p by (simp add: row_at_observe)
    from parent_first [OF _ rows p _ this] False p rs(1) show ?thesis by auto
  qed simp
  have "\<exists>t'. py_run (copy_row env) (sum_list (map row_bytes []), TDir mode True []) ?rows = Inr (sum_list (map row_bytes ?rows), t')
    \<and> copied_rel source ?rows t'"
  proof (rule copy_rows_ok [OF assms(3,4) _ paths bytes(2)])
    show "\<forall>r \<in> set ?rows. row_path r \<noteq> [] \<and> (\<exists>k. kept_at (visible source) (row_path r) = Some k \<and> kept_row sha (row_path r) k = Some r)"
      using kept by blast
    show "butlast (row_path r) = [] \<or> (\<exists>mode. DRow (butlast (row_path r)) mode \<in> set ys)" if "?rows = ys @ r # zs" for ys r zs
      using that by (rule parents)
    show "copied_rel source [] (TDir mode True [])" by (auto simp: copied_rel_def clean_def dir_at_def neq_Nil_conv)
  qed simp
  then obtain copy where c: "py_run (copy_row env) (0, TDir mode True []) ?rows = Inr (inv_bytes m, copy)" "copied_rel source ?rows copy"
    using bytes(1) by auto
  have "kept_at copy q = kept_at (visible source) q" if q: "q \<noteq> []" for q
  proof (cases "q \<in> row_path ` set ?rows")
    case False
    have "kept_at (visible source) q = None"
    proof (rule ccontr)
      assume "kept_at (visible source) q \<noteq> None"
      then obtain c where "node_at (observe_tree source) q = Some c" using node_at_None by (metis not_None_eq)
      then obtain r where r: "row_at sha (observe_tree source) q = Some r" using manifest_row_at(2) [OF assms(1) d q] by blast
      with row [of r] row_at_path [OF r] q False show False by auto
    qed
    with False c(2) q show ?thesis by (simp add: copied_rel_def)
  qed (use c(2) q in \<open>simp add: copied_rel_def\<close>)
  with c that show ?thesis by (simp add: copied_rel_def)
qed

lemma manifest_copy:
  assumes "manifest sha early (observe_tree source) = Inr m" "proper_tree source" "\<And>q. kept_at (visible source) q \<noteq> None \<Longrightarrow> plain_path q"
    and "never late" "proper_tree copy" "dir_at copy []" "\<And>q. q \<noteq> [] \<Longrightarrow> kept_at (visible copy) q = kept_at (visible source) q"
  shows "manifest sha late (observe_tree copy) = Inr m"
proof -
  have d: "distinct_names (observe_tree source)" "distinct_names (observe_tree copy)" using assms(2,5) distinct_observe by auto
  have same: "row_at sha (observe_tree copy) q = row_at sha (observe_tree source) q" if "q \<noteq> []" for q using assms(7) that by (simp add: row_at_observe)
  obtain rs where rs: "list_all2 (\<lambda>e r. row_for sha e = Some r) (flat (os_walk (observe_tree source) [])) rs" "inv_rows m = sort_key row_text rs"
    "inv_bytes m = sum_list (map row_bytes rs)" "inv_entries m = length rs" "distinct (map row_path rs)" "rs \<noteq> []"
    "length rs \<le> COLD_MAX_FILES" "0 < sum_list (map row_bytes rs)" "sum_list (map row_bytes rs) \<le> COLD_MAX_BYTES"
    using walk_rows [OF assms(1) d(1)] .
  have in_rs: "r \<in> set rs \<longleftrightarrow> row_path r \<noteq> [] \<and> row_at sha (observe_tree source) (row_path r) = Some r" for r
    using manifest_row_at(1) [OF assms(1) d(1), of r] rs(2) by simp
  have some: "row_at sha (observe_tree copy) q \<noteq> None" if q: "q \<noteq> []" "node_at (observe_tree copy) q = Some c" for q c
  proof -
    have "node_at (observe_tree source) q \<noteq> None" using q assms(7) [OF q(1)] by (metis node_at_None option.distinct(1))
    then show ?thesis using manifest_row_at(2) [OF assms(1) d(1) q(1)] same [OF q(1)] by auto
  qed
  obtain rs' where rs': "list_all2 (\<lambda>e r. row_for sha e = Some r) (flat (os_walk (observe_tree copy) [])) rs'" "distinct (map row_path rs')"
    "\<And>r. r \<in> set rs' \<longleftrightarrow> row_path r \<noteq> [] \<and> row_at sha (observe_tree copy) (row_path r) = Some r"
    using walk_total [OF d(2), of sha] some by metis
  have sets: "set rs = set rs'" using in_rs rs'(3) same by auto
  have plain: "\<forall>r \<in> set rs. plain_path (row_path r)"
    using in_rs assms(3) by (fastforce simp: row_at_observe bind_eq_Some_conv)
  note u = sort_rows_unique [OF sets _ _ plain]
  have dist: "distinct rs" "distinct rs'" "inj_on row_path (set rs)" using rs(5) rs'(2) by (auto simp: distinct_map)
  obtain mo r es where c: "copy = TDir mo r es" using assms(6) by (auto simp: dir_at_Nil)
  have "rs' \<noteq> []" using sets rs(6) by auto
  from manifest_ok [OF assms(4) d(2) _ rs'(1) this] c u [OF dist] rs(7-9)
  have "manifest sha late (observe_tree copy) = Inr \<lparr>inv_rows = sort_key row_text rs, inv_bytes = sum_list (map row_bytes rs), inv_entries = length rs\<rparr>"
    by simp
  then show ?thesis using rs(2-4) by simp
qed

lemma copy_succeeds:
  assumes "manifest sha early (observe_tree source) = Inr m" "cold_report sha m = Inr report" "proper_tree source"
    and "\<forall>q. kept_at (visible source) q \<noteq> None \<longrightarrow> plain_path q" "reads_of env source" "\<not> ce_same env"
    and "never (ce_late env)" "never final" "never late"
  shows "\<exists>copy. copy_snapshot sha env (early, observe_tree source) (final, observe_tree source) late (TDir mode True []) = Inr (report, copy)
    \<and> (\<forall>q. q \<noteq> [] \<longrightarrow> kept_at copy q = kept_at (visible source) q)"
proof -
  obtain copy where c: "py_run (copy_row env) (0, TDir mode True []) (inv_rows m) = Inr (inv_bytes m, copy)" "clean copy" "dir_at copy []"
    "\<And>q. q \<noteq> [] \<Longrightarrow> kept_at copy q = kept_at (visible source) q"
    using copy_visible [OF assms(1,3,7,5), where mode = mode] by blast
  have v: "visible copy = copy" "proper_tree copy" using c(2) listable_visible by (auto simp: clean_def)
  have dir: "dir_at source []"
    using assms(1) by (cases source) (auto simp: manifest_def cold_fail_def dir_at_Nil Let_def)
  have "manifest sha final (observe_tree source) = Inr m"
    by (rule manifest_copy [OF assms(1,3) _ assms(8,3) dir]) (use assms(4) in auto)
  moreover have "manifest sha late (observe_tree copy) = Inr m"
    by (rule manifest_copy [OF assms(1,3) _ assms(9) v(2) c(3)]) (use assms(4) c(4) v(1) in auto)
  ultimately have "copy_snapshot sha env (early, observe_tree source) (final, observe_tree source) late (TDir mode True []) = Inr (report, copy)"
    using assms(1,2,6) c(1) by (simp add: copy_snapshot_def)
  with c(4) show ?thesis by blast
qed


section \<open>A volume\<close>

text \<open>A directory with a file, a file beside it, and a directory that cannot be listed.\<close>

definition volume :: tree where
  "volume = TDir 493 True
     [(''base'', TDir 448 True [(''1'', TFile 384 7 17 ''data'')]),
      (''lost'', TDir 448 False [(''2'', TFile 384 8 17 ''more'')]),
      (''PG_VERSION'', TFile 384 9 16 ''16'')]"

definition volume_inventory :: inventory where
  "volume_inventory = \<lparr>inv_rows = [FRow [''PG_VERSION''] 384 2 16 ''16'', DRow [''base''] 448,
       FRow [''base'', ''1''] 384 4 17 ''data'', DRow [''lost''] 448], inv_bytes = 6, inv_entries = 4\<rparr>"

definition volume_env :: copy_env where
  "volume_env = \<lparr>ce_same = False, ce_umode = 493, ce_ino = (\<lambda>_. 1),
     ce_read = (\<lambda>p. case p of [_] \<Rightarrow> \<lparr>fr_opened = Inr \<lparr>st_ino = 9, st_size = 2, st_mtime_ns = 16\<rparr>, fr_blocks = [''16''],
         fr_ended = \<lparr>st_ino = 9, st_size = 2, st_mtime_ns = 16\<rparr>\<rparr>
       | _ \<Rightarrow> \<lparr>fr_opened = Inr \<lparr>st_ino = 7, st_size = 4, st_mtime_ns = 17\<rparr>, fr_blocks = [''da'', ''ta''],
         fr_ended = \<lparr>st_ino = 7, st_size = 4, st_mtime_ns = 17\<rparr>\<rparr>),
     ce_late = (\<lambda>_ _. False)\<rparr>"

lemma blocks_of_short: "b \<noteq> [] \<Longrightarrow> length b \<le> 64 \<Longrightarrow> blocks_of b = [b]"
  by (subst blocks_of.simps) (simp add: BLOCK_def blocks_of.simps [of "[]"])

definition volume_seen :: seen where
  "volume_seen =
     (let file = (\<lambda>i data time. SFile 384 \<lparr>st_ino = i, st_size = length data, st_mtime_ns = time\<rparr>
        \<lparr>fr_opened = Inr \<lparr>st_ino = i, st_size = length data, st_mtime_ns = time\<rparr>, fr_blocks = [data],
         fr_ended = \<lparr>st_ino = i, st_size = length data, st_mtime_ns = time\<rparr>\<rparr>) in
      SDir 493 [(''base'', SDir 448 [(''1'', file 7 ''data'' 17)]), (''lost'', SDir 448 []),
        (''PG_VERSION'', file 9 ''16'' 16)])"

lemma volume_observe: "observe_tree volume = volume_seen"
  by (simp add: volume_def volume_seen_def Let_def blocks_of_short)

lemma volume_walk: "map fst (os_walk volume_seen []) = [[], [''base''], [''lost'']]"
  "map (map fst \<circ> snd) (os_walk volume_seen []) = [[''base'', ''lost'', ''PG_VERSION''], [''1''], []]"
  by code_simp+

lemma volume_walk': "os_walk volume_seen [] = map (\<lambda>(p, ns). (p, map (\<lambda>n. (n, the (node_at volume_seen (p @ [n])))) ns))
    [([], [''base'', ''lost'', ''PG_VERSION'']), ([''base''], [''1'']), ([''lost''], [])]"
  by code_simp

lemma volume_manifest: "manifest id (\<lambda>_ _. False) (observe_tree volume) = Inr volume_inventory"
  unfolding volume_observe manifest_def volume_walk'
  by (simp add: volume_seen_def Let_def scan_dir_def scan_entry_def file_digest_def COLD_MAX_BYTES_def COLD_MAX_FILES_def
      volume_inventory_def row_text_def less_char_def less_eq_char_def)

lemma volume_report: "\<not> isl (cold_report id volume_inventory)"
  by code_simp

lemma volume_proper: "proper_tree volume"
  by (simp add: volume_def)

lemma kept_file: "kept_at (TFile m i t d) q = Some k \<longleftrightarrow> q = [] \<and> k = KFile m t d"
  by (cases q) auto

lemma volume_kept: "kept_at (visible volume) q \<noteq> None \<Longrightarrow> q \<in> {[], [''base''], [''base'', ''1''], [''lost''], [''PG_VERSION'']}"
  by (cases q rule: list.exhaust [case_product list.exhaust [of "tl q"]])
    (auto simp: volume_def neq_Nil_conv kept_file split: if_splits)

lemma volume_plain: "kept_at (visible volume) q \<noteq> None \<longrightarrow> plain_path q"
  using volume_kept [of q] by (auto simp: plain_path_def)

lemma volume_reads: "reads_of volume_env volume"
  unfolding reads_of_def
proof (intro allI impI)
  fix p mode mtime data assume k: "kept_at (visible volume) p = Some (KFile mode mtime data)"
  then have "p \<in> {[], [''base''], [''base'', ''1''], [''lost''], [''PG_VERSION'']}" using volume_kept [of p] by simp
  with k show "(\<exists>info. fr_opened (ce_read volume_env p) = Inr info \<and> st_size info = length data \<and> st_mtime_ns info = mtime)
      \<and> concat (fr_blocks (ce_read volume_env p)) = data"
    by (auto simp: volume_def volume_env_def)
qed

abbreviation volume_copy :: "(items \<times> tree) py" where
  "volume_copy \<equiv> copy_snapshot id volume_env ((\<lambda>_ _. False), observe_tree volume) ((\<lambda>_ _. False), observe_tree volume) (\<lambda>_ _. False) (TDir 448 True [])"

lemma volume_run: "\<exists>report. cold_report id volume_inventory = Inr report" "\<not> ce_same volume_env" "never (ce_late volume_env)" "never (\<lambda>_ _. False)"
  using volume_report by (cases "cold_report id volume_inventory") (auto simp: volume_env_def never_def)

lemma volume_copied: "\<exists>report copy. volume_copy = Inr (report, copy)"
  using copy_succeeds [OF volume_manifest _ volume_proper _ volume_reads volume_run(2-4,4)] volume_run(1) volume_plain by blast


theorem cold_copy_sound_witness:
  "\<exists>report copy. volume_copy = Inr (report, copy) \<and> kept_at (visible copy) [''base'', ''1''] = Some (KFile 384 17 ''data'')"
proof -
  obtain report copy where c: "volume_copy = Inr (report, copy)" using volume_copied by blast
  have "kept_at (visible copy) [''base'', ''1''] = kept_at (visible volume) [''base'', ''1'']"
    using cold_copy_sound [OF c volume_proper distinct_observe [OF volume_proper] inj_on_id] by blast
  then show ?thesis using c by (auto simp: volume_def)
qed

end
