(* ===== verification/Alert_Topology.thy ===== *)
theory Alert_Topology
  imports Alert_Delivery "HOL-Library.AList"
begin

text \<open>
  \<^verbatim>\<open>src/scripts/validate_alert_delivery.py\<close> and \<^verbatim>\<open>src/scripts/alert_state.py\<close>: the exact Compose topology of the
  standalone Alertmanager, and the variant whose state is an external volume, which is accepted only
  when replacing the reviewed differences leaves a topology the first validator accepts.
\<close>

section \<open>The standalone topology\<close>

definition ALERT_COMMAND :: "string list" where
  "ALERT_COMMAND = [''--config.file=/etc/alertmanager/alertmanager.yml'', ''--storage.path=/alertmanager'', ''--web.listen-address=:9093'',
     ''--cluster.listen-address='', ''--data.retention=24h'']"

definition ALERT_TMPFS :: "string list" where
  "ALERT_TMPFS = [''/tmp:rw,noexec,nosuid,nodev,size=16m,mode=1777'',
     ''/alertmanager:rw,noexec,nosuid,nodev,size=8m,uid=65534,gid=65534,mode=0700'']"

definition SERVICE_KEYS :: "string list" where
  "SERVICE_KEYS = [''image'', ''platform'', ''profiles'', ''user'', ''read_only'', ''init'', ''restart'', ''mem_limit'', ''cpus'', ''pids_limit'',
     ''cap_drop'', ''security_opt'', ''command'', ''tmpfs'', ''volumes'', ''networks'']"

definition LEGACY_OMITTED_FALSE_COMPOSE_VERSIONS :: "string list" where
  "LEGACY_OMITTED_FALSE_COMPOSE_VERSIONS = [''2.38.2'', ''2.40.3'']"

definition safe_bind_options :: "pyval \<Rightarrow> string option \<Rightarrow> bool" where
  "safe_bind_options bind compose_version =
     (case bind of
        PDict b \<Rightarrow>
          if keys_are b [''create_host_path''] then dict_get b ''create_host_path'' = PBool False
          else b = [] \<and>
            (case compose_version of None \<Rightarrow> False
             | Some v \<Rightarrow> (if startswith v ''v'' then tl v else v) \<in> set LEGACY_OMITTED_FALSE_COMPOSE_VERSIONS)
      | _ \<Rightarrow> False)"

text \<open>
  What the file system says of a mount source: the path components for the link check, and the resolved
  path as its parts; and the resolved paths of the dedicated token and of the configuration directory.
\<close>

record mount_host =
  mh_infos :: "string \<Rightarrow> path_info list"
  mh_resolve :: "string \<Rightarrow> string list py"
  mh_token :: "string list py"
  mh_config :: "string list py"

definition strs_val :: "string list \<Rightarrow> pyval" where
  "strs_val ss = PList (map PStr ss)"

definition EXACT_SERVICE :: "items" where
  "EXACT_SERVICE =
     [(''image'', PStr ALERTMANAGER_IMAGE), (''platform'', PStr ''linux/amd64''), (''profiles'', strs_val [''alert-delivery'']),
      (''user'', PStr ''65534:65534''), (''read_only'', PBool True), (''init'', PBool True), (''restart'', PStr ''no''),
      (''pids_limit'', PInt 64), (''cap_drop'', strs_val [''ALL'']), (''security_opt'', strs_val [''no-new-privileges:true'']),
      (''command'', strs_val ALERT_COMMAND), (''tmpfs'', strs_val ALERT_TMPFS)]"

definition exact_differs :: "items \<Rightarrow> string \<Rightarrow> pyval \<Rightarrow> bool" where
  "exact_differs service key expected \<longleftrightarrow>
     \<not> py_eq (dict_get service key) expected
     \<or> (key \<in> {''read_only'', ''init''} \<and> \<not> is_bool (dict_get service key))
     \<or> (key = ''pids_limit'' \<and> \<not> type_is_int (dict_get service key))"

text \<open>\<^verbatim>\<open>math.isfinite\<close> converts an integer to a float, which raises beyond the range.\<close>

definition isfinite :: "pyval \<Rightarrow> bool py" where
  "isfinite v = py_bind (py_float v) (\<lambda>f. Inr (finite_value f \<noteq> None))"

definition resources_differ :: "items \<Rightarrow> bool py" where
  "resources_differ service =
     (let memory = dict_get service ''mem_limit''; cpus = dict_get service ''cpus'' in
      py_or
        [Inr (\<not> list_ex (py_eq memory) [PStr ''128m'', PStr ''134217728'', PInt 134217728]),
         Inr (\<not> is_str memory \<and> \<not> type_is_int memory),
         Inr (case cpus of PInt _ \<Rightarrow> False | PFloat _ \<Rightarrow> False | _ \<Rightarrow> True),
         py_bind (isfinite cpus) (\<lambda>ok. Inr (\<not> ok)),
         Inr (\<not> py_eq cpus (PFloat (FFin (1 / 4))))])"

definition input_network_name :: "string \<Rightarrow> string" where
  "input_network_name profile = (if profile = ''base'' then ''kairos_observability'' else ''kairos-paper_paper-observability'')"

definition allowed_inputs :: "string \<Rightarrow> pyval list" where
  "allowed_inputs profile =
     (let m = [(''external'', PBool True), (''name'', PStr (input_network_name profile))] in [PDict m, PDict (m @ [(''ipam'', PDict [])])])"

definition allowed_egress :: "pyval list" where
  "allowed_egress =
     (let n = (''name'', PStr ''kairos-ops-alerts_alert-egress''); d = (''driver'', PStr ''bridge'') in
      [PDict [d], PDict [n, d], PDict [n, d, (''ipam'', PDict [])]])"

definition network_errors :: "string \<Rightarrow> pyval \<Rightarrow> string list" where
  "network_errors profile networks =
     (case networks of
        PDict ns \<Rightarrow>
          if \<not> keys_are ns [''alert-input'', ''alert-egress''] then [''NETWORK_SET_CHANGED'']
          else
            let input_network = dict_get ns ''alert-input'' in
            (if \<not> list_ex (py_eq input_network) (allowed_inputs profile)
                \<or> \<not> (case input_network of PDict m \<Rightarrow> is_bool (dict_get m ''external'') | _ \<Rightarrow> False)
             then [''INPUT_NETWORK_IDENTITY_CHANGED''] else [])
            @ (if \<not> list_ex (py_eq (dict_get ns ''alert-egress'')) allowed_egress then [''EGRESS_NETWORK_CHANGED''] else [])
      | _ \<Rightarrow> [''NETWORK_SET_CHANGED''])"

definition TOKEN_TARGET :: string where "TOKEN_TARGET = ''/run/secrets/telegram_bot_token''"
definition CONFIG_TARGET :: string where "CONFIG_TARGET = ''/etc/alertmanager/alertmanager.yml''"

definition mount_targets :: "pyval list \<Rightarrow> pyval list" where
  "mount_targets mounts = concat (map (\<lambda>item. case item of PDict m \<Rightarrow> [dict_get m ''target''] | _ \<Rightarrow> []) mounts)"

definition mount_shape_ok :: "string option \<Rightarrow> items \<Rightarrow> bool" where
  "mount_shape_ok compose_version m \<longleftrightarrow>
     keys_are m [''type'', ''source'', ''target'', ''read_only'', ''bind''] \<and> dict_get m ''type'' = PStr ''bind''
     \<and> dict_get m ''read_only'' = PBool True \<and> safe_bind_options (dict_get m ''bind'') compose_version"

definition mount_errors :: "mount_host \<Rightarrow> string option \<Rightarrow> pyval \<Rightarrow> string list py" where
  "mount_errors h compose_version mount =
     (case mount of
        PDict m \<Rightarrow>
          if \<not> mount_shape_ok compose_version m then Inr [''UNSAFE_MOUNT'']
          else
            (case dict_get m ''source'' of
               PStr source \<Rightarrow>
                 (case no_reparse (mh_infos h source) of
                    Inl _ \<Rightarrow> Inr [''MOUNT_REPARSE_REJECTED'']
                  | Inr _ \<Rightarrow>
                      py_bind (mh_resolve h source) (\<lambda>parts.
                        if dict_get m ''target'' = PStr TOKEN_TARGET
                        then err_if (py_bind (mh_token h) (\<lambda>token. Inr (parts \<noteq> token))) ''DEDICATED_TOKEN_MOUNT_REQUIRED''
                        else err_if (py_bind (mh_config h) (\<lambda>config.
                               Inr (take (length config) parts \<noteq> config \<or> parts = [] \<or> last parts \<noteq> ''alertmanager.yml'')))
                             ''GENERATED_CONFIG_MOUNT_REQUIRED''))
             | _ \<Rightarrow> Inr [''INVALID_MOUNT_SOURCE''])
      | _ \<Rightarrow> Inr [''UNSAFE_MOUNT''])"

definition mounts_errors :: "mount_host \<Rightarrow> string option \<Rightarrow> pyval \<Rightarrow> string list py" where
  "mounts_errors h compose_version v =
     (case v of
        PList mounts \<Rightarrow>
          if length mounts \<noteq> 2 then Inr [''MOUNT_SET_CHANGED'']
          else gather
            (err_if (if list_all hashable (mount_targets mounts) then Inr (\<not> same_strs (mount_targets mounts) [CONFIG_TARGET, TOKEN_TARGET]) else Inl TypeError)
               ''MOUNT_TARGET_CHANGED''
             # map (mount_errors h compose_version) mounts)
      | _ \<Rightarrow> Inr [''MOUNT_SET_CHANGED''])"

definition service_capability_differs :: "items \<Rightarrow> bool" where
  "service_capability_differs service \<longleftrightarrow>
     (\<not> keys_are service SERVICE_KEYS \<and> \<not> keys_are service (SERVICE_KEYS @ [''entrypoint'']))
     \<or> dict_get service ''entrypoint'' \<noteq> PNone"

definition SERVICE_NETWORKS :: pyval where
  "SERVICE_NETWORKS = PDict [(''alert-input'', PDict [(''aliases'', strs_val [''kairos-ops-alertmanager''])]), (''alert-egress'', PDict [])]"

definition alert_validate :: "mount_host \<Rightarrow> string \<Rightarrow> string option \<Rightarrow> pyval \<Rightarrow> string list py" where
  "alert_validate h profile compose_version v =
     (case v of
        PDict config \<Rightarrow>
          if \<not> keys_are config [''name'', ''services'', ''networks''] then Inr [''INVALID_OPERATIONAL_TOPOLOGY'']
          else
            let project = err_if (Inr (profile \<notin> {''base'', ''paper''} \<or> \<not> py_eq (dict_get config ''name'') (PStr ''kairos-ops-alerts'')))
                  ''INVALID_OPERATIONAL_PROJECT'';
                refused = gather [project, Inr [''ONLY_NATIVE_ALERTMANAGER_PERMITTED'']] in
            (case dict_get config ''services'' of
               PDict ss \<Rightarrow>
                 if \<not> keys_are ss [''alertmanager''] then refused
                 else
                   (case dict_get ss ''alertmanager'' of
                      PDict service \<Rightarrow>
                        gather
                          ([project, err_if (Inr (service_capability_differs service)) ''UNAPPROVED_SERVICE_CAPABILITY'']
                           @ map (\<lambda>(key, expected). err_if (Inr (exact_differs service key expected)) (''INVALID_'' @ map to_upper key)) EXACT_SERVICE
                           @ [err_if (resources_differ service) ''RESOURCE_BOUNDS_CHANGED'',
                              err_if (Inr (\<not> py_eq (dict_get service ''networks'') SERVICE_NETWORKS)) ''SERVICE_NETWORKS_CHANGED'',
                              Inr (network_errors profile (dict_get config ''networks'')),
                              mounts_errors h compose_version (dict_get service ''volumes'')])
                    | _ \<Rightarrow> refused)
             | _ \<Rightarrow> refused)
      | _ \<Rightarrow> Inr [''INVALID_OPERATIONAL_TOPOLOGY''])"

section \<open>The durable variant\<close>

definition STATE_SCOPE :: string where "STATE_SCOPE = ''alertmanager-durable-state-v1''"

definition volume_name :: "pyval \<Rightarrow> bool" where
  "volume_name v =
     (case v of
        PStr s \<Rightarrow> startswith s ''kairos-ops-alerts-state-'' \<and> hex_lower_n 16 (drop (length ''kairos-ops-alerts-state-'') s)
      | _ \<Rightarrow> False)"

definition DURABLE_COMMAND :: "string list" where
  "DURABLE_COMMAND = ALERT_COMMAND @ [''--data.maintenance-interval=5s'', ''--silences.max-silences=100'',
     ''--silences.max-silence-size-bytes=4096'', ''--alerts.per-alertname-limit=100'']"

definition state_volumes :: "string \<Rightarrow> pyval list" where
  "state_volumes name =
     (let m = [(''external'', PBool True), (''name'', PStr name)] in
      [PDict [(''alert-state'', PDict m)], PDict [(''alert-state'', PDict (m @ [(''labels'', PDict [])]))]])"

definition STATE_MOUNT :: pyval where
  "STATE_MOUNT = PDict [(''type'', PStr ''volume''), (''source'', PStr ''alert-state''), (''target'', PStr ''/alertmanager''),
     (''read_only'', PBool False), (''volume'', PDict [(''nocopy'', PBool True)])]"

text \<open>\<^verbatim>\<open>type(v["alert-state"]["external"]) is bool\<close>, of a value equal to one of the two above.\<close>

definition external_is_bool :: "pyval \<Rightarrow> bool" where
  "external_is_bool v =
     (case v of PDict m \<Rightarrow> (case dict_get m ''alert-state'' of PDict a \<Rightarrow> is_bool (dict_get a ''external'') | _ \<Rightarrow> False) | _ \<Rightarrow> False)"

definition at_alertmanager :: "pyval \<Rightarrow> bool" where
  "at_alertmanager m = (case m of PDict d \<Rightarrow> dict_get d ''target'' = PStr ''/alertmanager'' | _ \<Rightarrow> False)"

definition state_mount_unsafe :: "pyval list \<Rightarrow> bool" where
  "state_mount_unsafe mounts =
     (case filter at_alertmanager mounts of
        [PDict s] \<Rightarrow>
          \<not> py_eq (PDict s) STATE_MOUNT \<or> \<not> is_bool (dict_get s ''read_only'')
          \<or> (case dict_get s ''volume'' of PDict v \<Rightarrow> dict_get v ''nocopy'' \<noteq> PBool True | _ \<Rightarrow> True)
      | _ \<Rightarrow> True)"

definition base_service :: "items \<Rightarrow> pyval list \<Rightarrow> items" where
  "base_service service mounts =
     AList.update ''profiles'' (strs_val [''alert-delivery''])
       (AList.update ''tmpfs'' (strs_val ALERT_TMPFS)
         (AList.update ''command'' (strs_val ALERT_COMMAND)
           (AList.update ''volumes'' (PList (filter (\<lambda>m. \<not> py_eq m STATE_MOUNT) mounts)) service)))"

definition base_topology :: "items \<Rightarrow> items \<Rightarrow> pyval list \<Rightarrow> items" where
  "base_topology config service mounts =
     AList.update ''services'' (PDict [(''alertmanager'', PDict (base_service service mounts))]) (filter (\<lambda>(k, _). k \<noteq> ''volumes'') config)"

definition validate_durable_topology :: "mount_host \<Rightarrow> string \<Rightarrow> pyval \<Rightarrow> string option \<Rightarrow> pyval \<Rightarrow> string list py" where
  "validate_durable_topology h profile state_volume compose_version v =
     (case state_volume of
        PStr volume \<Rightarrow>
          if \<not> volume_name state_volume then Inr [''EXACT_OWNED_STATE_VOLUME_REQUIRED'']
          else
            (case v of
               PDict config \<Rightarrow>
                 if \<not> keys_are config [''name'', ''services'', ''networks'', ''volumes''] then Inr [''INVALID_DURABLE_TOPOLOGY'']
                 else if \<not> list_ex (py_eq (dict_get config ''volumes'')) (state_volumes volume)
                     \<or> \<not> external_is_bool (dict_get config ''volumes'')
                 then Inr [''EXTERNAL_STATE_VOLUME_IDENTITY_CHANGED'']
                 else
                   (case dict_get config ''services'' of
                      PDict ss \<Rightarrow>
                        if \<not> keys_are ss [''alertmanager''] then Inr [''ONLY_NATIVE_ALERTMANAGER_PERMITTED'']
                        else
                          (case dict_get ss ''alertmanager'' of
                             PDict service \<Rightarrow>
                               if \<not> py_eq (dict_get service ''profiles'') (strs_val [''alert-delivery-durable''])
                               then Inr [''EXPLICIT_DURABLE_PROFILE_REQUIRED'']
                               else if \<not> py_eq (dict_get service ''command'') (strs_val DURABLE_COMMAND)
                                   \<or> \<not> py_eq (dict_get service ''tmpfs'') (strs_val (take 1 ALERT_TMPFS))
                               then Inr [''DURABLE_STORAGE_COMMAND_CHANGED'']
                               else
                                 (case dict_get service ''volumes'' of
                                    PList mounts \<Rightarrow>
                                      if length mounts \<noteq> 3 then Inr [''DURABLE_MOUNT_SET_CHANGED'']
                                      else if state_mount_unsafe mounts then Inr [''UNSAFE_DURABLE_STATE_MOUNT'']
                                      else alert_validate h profile compose_version (PDict (base_topology config service mounts))
                                  | _ \<Rightarrow> Inr [''DURABLE_MOUNT_SET_CHANGED''])
                           | _ \<Rightarrow> Inr [''INVALID_DURABLE_SERVICE''])
                    | _ \<Rightarrow> Inr [''ONLY_NATIVE_ALERTMANAGER_PERMITTED''])
             | _ \<Rightarrow> Inr [''INVALID_DURABLE_TOPOLOGY''])
      | _ \<Rightarrow> Inr [''EXACT_OWNED_STATE_VOLUME_REQUIRED''])"

definition STATE_LABELS :: "string list" where
  "STATE_LABELS = [''com.kairos.scope'', ''com.kairos.alert-policy-sha256'']"

definition validate_state_metadata :: "pyval \<Rightarrow> pyval \<Rightarrow> pyval \<Rightarrow> string list" where
  "validate_state_metadata v name policy_sha256 =
     (if \<not> volume_name name \<or> \<not> (case policy_sha256 of PStr s \<Rightarrow> hex_lower_n 64 s | _ \<Rightarrow> False) then [''INVALID_STATE_BINDING'']
      else
        case v of
          PDict m \<Rightarrow>
            if \<not> keys_are m [''Name'', ''Driver'', ''Scope'', ''Options'', ''Labels''] then [''INVALID_STATE_METADATA'']
            else if \<not> py_eq (dict_get m ''Name'') name \<or> \<not> py_eq (dict_get m ''Driver'') (PStr ''local'')
                \<or> \<not> py_eq (dict_get m ''Scope'') (PStr ''local'') \<or> dict_get m ''Options'' \<notin> {PNone, PDict []}
            then [''STATE_DRIVER_OR_IDENTITY_CHANGED'']
            else
              (case dict_get m ''Labels'' of
                 PDict labels \<Rightarrow>
                   if \<not> keys_are labels STATE_LABELS \<or> \<not> py_eq (dict_get labels ''com.kairos.scope'') (PStr STATE_SCOPE)
                      \<or> \<not> py_eq (dict_get labels ''com.kairos.alert-policy-sha256'') policy_sha256
                   then [''STATE_OWNERSHIP_OR_POLICY_CHANGED''] else []
               | _ \<Rightarrow> [''STATE_OWNERSHIP_OR_POLICY_CHANGED''])
        | _ \<Rightarrow> [''INVALID_STATE_METADATA''])"

section \<open>The two commands\<close>

text \<open>The size of the input and its parsed content; the exceptions the second command does not name escape.\<close>

definition topology_input :: "int py \<Rightarrow> pyval py \<Rightarrow> (pyval \<Rightarrow> string list py) \<Rightarrow> string list py" where
  "topology_input nbytes parsed check =
     py_bind nbytes (\<lambda>n. if n > 65536 then Inl ValueError else py_bind parsed check)"

definition any_caught :: "exn \<Rightarrow> bool" where "any_caught e \<longleftrightarrow> True"

definition durable_caught :: "exn \<Rightarrow> bool" where
  "durable_caught e \<longleftrightarrow>
     e \<in> {OSError, FileExistsError, ValueError, JSONDecodeError, UnicodeDecodeError, UnicodeEncodeError, TypeError, KeyError}"

definition blocked_report :: "string \<Rightarrow> string list \<Rightarrow> items \<Rightarrow> items" where
  "blocked_report passed errors flags =
     [(''status'', PStr (if errors \<noteq> [] then ''BLOCKED'' else passed)), (''errors'', strs_val errors)] @ flags"

definition blocked_main :: "(exn \<Rightarrow> bool) \<Rightarrow> string \<Rightarrow> string \<Rightarrow> items \<Rightarrow> string list py \<Rightarrow> (items \<times> int) py" where
  "blocked_main caught invalid passed flags outcome =
     py_bind (case outcome of Inl e \<Rightarrow> if caught e then Inr [invalid] else Inl e | Inr es \<Rightarrow> Inr es) (\<lambda>errors.
       Inr (blocked_report passed errors flags, if errors \<noteq> [] then 2 else 0))"

definition alert_topology_main :: "mount_host \<Rightarrow> string \<Rightarrow> string option \<Rightarrow> int py \<times> pyval py \<Rightarrow> (items \<times> int) py" where
  "alert_topology_main h profile compose_version = (\<lambda>(nbytes, parsed).
     blocked_main any_caught ''INVALID_COMPOSE_INPUT'' ''TOPOLOGY_ONLY_PASS'' [(''operationally_qualified'', PBool False)]
       (topology_input nbytes parsed (alert_validate h profile compose_version)))"

definition alert_state_main :: "mount_host \<Rightarrow> string \<Rightarrow> string \<Rightarrow> string option \<Rightarrow> int py \<times> pyval py \<Rightarrow> (items \<times> int) py" where
  "alert_state_main h profile state_volume compose_version = (\<lambda>(nbytes, parsed).
     blocked_main durable_caught ''INVALID_DURABLE_INPUT'' ''DURABLE_TOPOLOGY_ONLY_PASS''
       [(''operationally_qualified'', PBool False), (''exactly_once_delivery'', PBool False), (''host_loss_qualified'', PBool False),
        (''storage_hard_quota_qualified'', PBool False)]
       (topology_input nbytes parsed (validate_durable_topology h profile (PStr state_volume) compose_version)))"

end
