(* ===== verification/Alert_Topology_Gate.thy ===== *)
theory Alert_Topology_Gate
  imports Alert_Topology
begin

text \<open>
  What an accepted Alertmanager topology contains: one pinned service, two read-only files from the dedicated
  directory, and in the durable variant the one external state volume besides; and how both commands end.
\<close>

section \<open>Mounts\<close>

text \<open>A read-only bind mount of the dedicated token, or of a generated configuration file.\<close>

definition bind_confined :: "mount_host \<Rightarrow> pyval \<Rightarrow> bool" where
  "bind_confined h v \<longleftrightarrow>
     (\<exists>m source parts. v = PDict m \<and> dict_get m ''type'' = PStr ''bind'' \<and> dict_get m ''read_only'' = PBool True
        \<and> dict_get m ''source'' = PStr source \<and> no_reparse (mh_infos h source) = Inr () \<and> mh_resolve h source = Inr parts
        \<and> (dict_get m ''target'' = PStr TOKEN_TARGET \<and> mh_token h = Inr parts
           \<or> dict_get m ''target'' = PStr CONFIG_TARGET
             \<and> (\<exists>config. mh_config h = Inr config \<and> take (length config) parts = config \<and> parts \<noteq> [] \<and> last parts = ''alertmanager.yml'')))"

lemma mounts_Nil:
  assumes "mounts_errors h ver v = Inr []"
  obtains mounts where "v = PList mounts" "length mounts = 2" "\<forall>m \<in> set mounts. bind_confined h m"
    "set (mount_targets mounts) = {PStr CONFIG_TARGET, PStr TOKEN_TARGET}"
proof -
  obtain mounts where m: "v = PList mounts" "length mounts = 2" "same_strs (mount_targets mounts) [CONFIG_TARGET, TOKEN_TARGET]"
    "\<forall>x \<in> set mounts. mount_errors h ver x = Inr []"
    using assms by (auto simp: mounts_errors_def gather_parts_Nil gather_Nil simp del: gather.simps split: pyval.splits if_splits)
  have t: "set (mount_targets mounts) = {PStr CONFIG_TARGET, PStr TOKEN_TARGET}" using m(3) by (simp add: same_strs_def)
  have "bind_confined h x" if x: "x \<in> set mounts" for x
  proof -
    have e: "mount_errors h ver x = Inr []" using m(4) x by blast
    obtain d where d: "x = PDict d" using e by (cases x) (auto simp: mount_errors_def)
    have "dict_get d ''target'' \<in> set (mount_targets mounts)" using x d by (force simp: mount_targets_def)
    with t have "dict_get d ''target'' \<in> {PStr CONFIG_TARGET, PStr TOKEN_TARGET}" by simp
    with e d show ?thesis
      by (auto simp: mount_errors_def bind_confined_def mount_shape_ok_def py_bind_Inr_iff CONFIG_TARGET_def TOKEN_TARGET_def
          split: if_splits pyval.splits sum.splits)
  qed
  with m t that show ?thesis by blast
qed

section \<open>The service\<close>

definition pinned_service :: "items \<Rightarrow> bool" where
  "pinned_service service \<longleftrightarrow>
     dict_get service ''image'' = PStr ALERTMANAGER_IMAGE \<and> dict_get service ''user'' = PStr ''65534:65534''
     \<and> dict_get service ''read_only'' = PBool True \<and> dict_get service ''cap_drop'' = strs_val [''ALL'']
     \<and> dict_get service ''security_opt'' = strs_val [''no-new-privileges:true''] \<and> dict_get service ''restart'' = PStr ''no''
     \<and> py_eq (dict_get service ''networks'') SERVICE_NETWORKS"

lemma py_eq_strs_val: "py_eq v (strs_val ss) \<longleftrightarrow> v = strs_val ss"
  by (simp add: strs_val_def py_eq_strs)

lemma py_eq_true: "is_bool v \<Longrightarrow> py_eq v (PBool b) \<longleftrightarrow> v = PBool b"
  by (cases v) auto

lemma exact_pinned:
  assumes "\<forall>(key, expected) \<in> set EXACT_SERVICE. \<not> exact_differs service key expected" "py_eq (dict_get service ''networks'') SERVICE_NETWORKS"
  shows "pinned_service service"
  using assms by (auto simp: EXACT_SERVICE_def exact_differs_def pinned_service_def py_eq_strs_val py_eq_true)

lemma alert_validate_Nil:
  assumes "alert_validate h profile ver v = Inr []"
  obtains config ss service where "v = PDict config" "keys_are config [''name'', ''services'', ''networks'']"
    "dict_get config ''services'' = PDict ss" "keys_are ss [''alertmanager'']" "dict_get ss ''alertmanager'' = PDict service"
    "pinned_service service" "\<not> service_capability_differs service" "network_errors profile (dict_get config ''networks'') = []"
    "mounts_errors h ver (dict_get service ''volumes'') = Inr []"
proof -
  obtain config where c: "v = PDict config" "keys_are config [''name'', ''services'', ''networks'']"
    using assms by (auto simp: alert_validate_def split: pyval.splits if_splits)
  have refused: "gather [p, Inr [''ONLY_NATIVE_ALERTMANAGER_PERMITTED'']] \<noteq> Inr []" for p by (cases p) auto
  obtain ss service where s: "dict_get config ''services'' = PDict ss" "keys_are ss [''alertmanager'']" "dict_get ss ''alertmanager'' = PDict service"
    using assms c refused by (auto simp: alert_validate_def Let_def simp del: gather.simps split: pyval.splits if_splits)
  have g: "\<forall>(key, expected) \<in> set EXACT_SERVICE. \<not> exact_differs service key expected" "py_eq (dict_get service ''networks'') SERVICE_NETWORKS"
    "\<not> service_capability_differs service" "network_errors profile (dict_get config ''networks'') = []"
    "mounts_errors h ver (dict_get service ''volumes'') = Inr []"
    using assms c s by (auto simp: alert_validate_def Let_def gather_parts_Nil gather_Nil simp del: gather.simps)
  show ?thesis using that [OF c s exact_pinned [OF g(1,2)] g(3-5)] .
qed

text \<open>
  C27: the standalone topology that validates is one service with the pinned image, an unprivileged user, a
  read-only root, no capability and the two reviewed networks; its mounts are exactly two read-only files, the
  dedicated token and a generated configuration below the configuration directory.
\<close>

theorem alert_topology_confined:
  assumes "alert_validate h profile ver v = Inr []"
  shows "\<exists>config ss service mounts. v = PDict config \<and> dict_get config ''services'' = PDict ss \<and> keys_are ss [''alertmanager'']
    \<and> dict_get ss ''alertmanager'' = PDict service \<and> pinned_service service
    \<and> dict_get service ''volumes'' = PList mounts \<and> length mounts = 2 \<and> (\<forall>m \<in> set mounts. bind_confined h m)
    \<and> set (mount_targets mounts) = {PStr CONFIG_TARGET, PStr TOKEN_TARGET}"
  using assms by (elim alert_validate_Nil) (metis mounts_Nil)

section \<open>The durable variant\<close>

lemma dict_get_update: "dict_get (AList.update k v m) k' = (if k = k' then v else dict_get m k')"
  by (simp add: dict_get_def update_conv')

lemma dict_get_single: "dict_get [(k, v)] k = v"
  by (simp add: dict_get_def)

lemma pinned_base: "pinned_service (base_service service mounts) \<longleftrightarrow> pinned_service service"
  by (simp add: pinned_service_def base_service_def dict_get_update)

lemma base_parts:
  "dict_get (base_topology config service mounts) ''services'' = PDict [(''alertmanager'', PDict (base_service service mounts))]"
  "dict_get (base_service service mounts) ''volumes'' = PList (filter (\<lambda>m. \<not> py_eq m STATE_MOUNT) mounts)"
  by (simp_all add: base_topology_def base_service_def dict_get_update)

lemma durable_Nil:
  assumes "validate_durable_topology h profile name ver v = Inr []"
  obtains volume config ss service mounts where "name = PStr volume" "volume_name name" "v = PDict config"
    "list_ex (py_eq (dict_get config ''volumes'')) (state_volumes volume)" "dict_get config ''services'' = PDict ss" "keys_are ss [''alertmanager'']"
    "dict_get ss ''alertmanager'' = PDict service" "dict_get service ''volumes'' = PList mounts" "length mounts = 3"
    "alert_validate h profile ver (PDict (base_topology config service mounts)) = Inr []"
  using assms by (auto simp: validate_durable_topology_def split: pyval.splits if_splits)

text \<open>
  C30: a durable topology that validates differs from an accepted standalone one in the reviewed ways only: replacing
  them gives a topology the first validator accepts, the service is pinned in the same way, and its three mounts are
  one mount of the external volume that was named, and two read-only files as before.
\<close>

theorem durable_topology_confined:
  assumes "validate_durable_topology h profile name ver v = Inr []"
  shows "\<exists>volume config ss service mounts. name = PStr volume \<and> volume_name name \<and> v = PDict config
    \<and> (\<exists>x \<in> set (state_volumes volume). py_eq (dict_get config ''volumes'') x)
    \<and> dict_get config ''services'' = PDict ss \<and> keys_are ss [''alertmanager''] \<and> dict_get ss ''alertmanager'' = PDict service
    \<and> pinned_service service \<and> dict_get service ''volumes'' = PList mounts \<and> length mounts = 3
    \<and> length (filter (\<lambda>m. py_eq m STATE_MOUNT) mounts) = 1 \<and> (\<forall>m \<in> set mounts. py_eq m STATE_MOUNT \<or> bind_confined h m)
    \<and> alert_validate h profile ver (PDict (base_topology config service mounts)) = Inr []"
proof -
  obtain volume config ss service mounts where d: "name = PStr volume" "volume_name name" "v = PDict config"
    "list_ex (py_eq (dict_get config ''volumes'')) (state_volumes volume)" "dict_get config ''services'' = PDict ss" "keys_are ss [''alertmanager'']"
    "dict_get ss ''alertmanager'' = PDict service" "dict_get service ''volumes'' = PList mounts" "length mounts = 3"
    "alert_validate h profile ver (PDict (base_topology config service mounts)) = Inr []"
    using durable_Nil [OF assms] .
  let ?rest = "filter (\<lambda>m. \<not> py_eq m STATE_MOUNT) mounts"
  have b: "pinned_service service" "mounts_errors h ver (PList ?rest) = Inr []"
    using d(10) by (auto elim!: alert_validate_Nil simp: base_parts pinned_base dict_get_single)
  have r: "length ?rest = 2" "\<forall>m \<in> set ?rest. bind_confined h m" using mounts_Nil [OF b(2)] by auto
  have "length (filter (\<lambda>m. py_eq m STATE_MOUNT) mounts) = 1"
    using sum_length_filter_compl [of "\<lambda>m. py_eq m STATE_MOUNT" mounts] d(9) r(1) by simp
  with d b r show ?thesis by (auto simp: list_ex_iff)
qed

section \<open>How the commands end\<close>

text \<open>
  A command that reports every refusal as blocked: its status is zero exactly when the checks pass, and nothing
  but an exception it does not name ends it otherwise.
\<close>

locale blocking_command =
  fixes run :: "'a \<Rightarrow> (items \<times> int) py"
    and checks :: "'a \<Rightarrow> string list py"
    and caught :: "exn \<Rightarrow> bool"
    and invalid :: string
    and passed :: string
    and flags :: items
  assumes run_is: "run x = blocked_main caught invalid passed flags (checks x)"
begin

lemma passes_iff: "(\<exists>report. run x = Inr (report, 0)) \<longleftrightarrow> checks x = Inr []"
  by (auto simp: run_is blocked_main_def split: sum.splits)

lemma blocked_otherwise: "run x = Inr (report, n) \<Longrightarrow> (n = 0 \<and> dict_get report ''status'' = PStr passed) \<or> (n = 2 \<and> dict_get report ''status'' = PStr ''BLOCKED'')"
  by (auto simp: run_is blocked_main_def blocked_report_def dict_get_def split: sum.splits if_splits)

lemma escapes_iff: "run x = Inl e \<longleftrightarrow> checks x = Inl e \<and> \<not> caught e"
  by (auto simp: run_is blocked_main_def split: sum.splits)

end

interpretation base_alerts: blocking_command "alert_topology_main h profile ver"
  "\<lambda>(nbytes, parsed). topology_input nbytes parsed (alert_validate h profile ver)" any_caught "''INVALID_COMPOSE_INPUT''"
  "''TOPOLOGY_ONLY_PASS''" "[(''operationally_qualified'', PBool False)]" for h profile ver
  by unfold_locales (simp add: alert_topology_main_def split: prod.splits)

interpretation durable_alerts: blocking_command "alert_state_main h profile volume ver"
  "\<lambda>(nbytes, parsed). topology_input nbytes parsed (validate_durable_topology h profile (PStr volume) ver)" durable_caught
  "''INVALID_DURABLE_INPUT''" "''DURABLE_TOPOLOGY_ONLY_PASS''"
  "[(''operationally_qualified'', PBool False), (''exactly_once_delivery'', PBool False), (''host_loss_qualified'', PBool False),
    (''storage_hard_quota_qualified'', PBool False)]" for h profile volume ver
  by unfold_locales (simp add: alert_state_main_def split: prod.splits)

section \<open>A topology\<close>

definition sample_bind :: "string \<Rightarrow> string \<Rightarrow> pyval" where
  "sample_bind source goal = PDict [(''type'', PStr ''bind''), (''source'', PStr source), (''target'', PStr goal), (''read_only'', PBool True),
     (''bind'', PDict [(''create_host_path'', PBool False)])]"

definition sample_mounts :: mount_host where
  "sample_mounts = \<lparr>mh_infos = (\<lambda>_. []), mh_resolve = (\<lambda>s. Inr (split_at (CHR ''/'') s)),
     mh_token = Inr [''ops'', ''secrets'', ''telegram_bot_token''], mh_config = Inr [''ops'', ''config'']\<rparr>"

text \<open>The durable topology, with the number of processors as a parameter.\<close>

definition durable_service :: "pyval \<Rightarrow> items" where
  "durable_service cpus =
     AList.update ''profiles'' (strs_val [''alert-delivery-durable'']) (AList.update ''command'' (strs_val DURABLE_COMMAND)
       (AList.update ''tmpfs'' (strs_val (take 1 ALERT_TMPFS)) EXACT_SERVICE))
     @ [(''mem_limit'', PStr ''128m''), (''cpus'', cpus), (''networks'', SERVICE_NETWORKS),
        (''volumes'', PList [STATE_MOUNT, sample_bind ''ops/config/alertmanager.yml'' CONFIG_TARGET,
           sample_bind ''ops/secrets/telegram_bot_token'' TOKEN_TARGET])]"

definition sample_volume :: string where "sample_volume = ''kairos-ops-alerts-state-0123456789abcdef''"

definition durable_sample :: "pyval \<Rightarrow> pyval" where
  "durable_sample cpus = PDict
     [(''name'', PStr ''kairos-ops-alerts''), (''services'', PDict [(''alertmanager'', PDict (durable_service cpus))]),
      (''networks'', PDict [(''alert-input'', hd (allowed_inputs ''base'')), (''alert-egress'', hd allowed_egress)]),
      (''volumes'', hd (state_volumes sample_volume))]"

lemma durable_accepted: "validate_durable_topology sample_mounts ''base'' (PStr sample_volume) None (durable_sample (PFloat (FFin (1 / 4)))) = Inr []"
  by code_simp

theorem durable_topology_confined_witness:
  "\<exists>mounts. dict_get (durable_service (PFloat (FFin (1 / 4)))) ''volumes'' = PList mounts
    \<and> (\<forall>m \<in> set mounts. py_eq m STATE_MOUNT \<or> bind_confined sample_mounts m)"
  using durable_topology_confined [OF durable_accepted]
  by (auto simp: durable_sample_def dict_get_def)

definition base_sample :: pyval where
  "base_sample =
     (case durable_sample (PFloat (FFin (1 / 4))) of
        PDict config \<Rightarrow>
          PDict (base_topology config (durable_service (PFloat (FFin (1 / 4))))
            (case dict_get (durable_service (PFloat (FFin (1 / 4)))) ''volumes'' of PList ms \<Rightarrow> ms | _ \<Rightarrow> []))
      | _ \<Rightarrow> PNone)"

lemma base_accepted: "alert_validate sample_mounts ''base'' None base_sample = Inr []"
  by code_simp

theorem alert_topology_confined_witness:
  "\<exists>config ss service. base_sample = PDict config \<and> dict_get config ''services'' = PDict ss
    \<and> dict_get ss ''alertmanager'' = PDict service \<and> pinned_service service"
  using alert_topology_confined [OF base_accepted] by blast

lemma isfinite_overflow: "isfinite (PInt (2 ^ 1024)) = Inl OverflowError"
proof -
  have "round_double (of_int (2 ^ 1024)) = FInf False" using round_double_overflow [of 1024] by simp
  then show ?thesis by (simp add: isfinite_def del: of_int_power)
qed

lemma alert_validate_raises:
  assumes "keys_are config [''name'', ''services'', ''networks'']" "dict_get config ''services'' = PDict ss" "keys_are ss [''alertmanager'']"
    "dict_get ss ''alertmanager'' = PDict service" "resources_differ service = Inl e"
  shows "alert_validate h profile ver (PDict config) = Inl e"
proof -
  let ?before = "[err_if (Inr (profile \<notin> {''base'', ''paper''} \<or> \<not> py_eq (dict_get config ''name'') (PStr ''kairos-ops-alerts''))) ''INVALID_OPERATIONAL_PROJECT'',
      err_if (Inr (service_capability_differs service)) ''UNAPPROVED_SERVICE_CAPABILITY'']
     @ map (\<lambda>(key, expected). err_if (Inr (exact_differs service key expected)) (''INVALID_'' @ map to_upper key)) EXACT_SERVICE"
  have "\<forall>c \<in> set ?before. \<exists>es. c = Inr es" by (auto simp: err_if_def)
  then obtain es where "gather ?before = Inr es" using gather_Inr_iff by blast
  moreover have "alert_validate h profile ver (PDict config) = gather (?before
      @ [err_if (resources_differ service) ''RESOURCE_BOUNDS_CHANGED'',
         err_if (Inr (\<not> py_eq (dict_get service ''networks'') SERVICE_NETWORKS)) ''SERVICE_NETWORKS_CHANGED'',
         Inr (network_errors profile (dict_get config ''networks'')), mounts_errors h ver (dict_get service ''volumes'')])"
    using assms(1-4) by (simp add: alert_validate_def del: gather.simps)
  ultimately show ?thesis unfolding gather_append by (simp add: assms(5) err_if_def)
qed

abbreviation sample_config :: "pyval \<Rightarrow> items" where
  "sample_config cpus \<equiv> (case durable_sample cpus of PDict config \<Rightarrow> config | _ \<Rightarrow> [])"

abbreviation sample_base :: "pyval \<Rightarrow> items" where
  "sample_base cpus \<equiv> base_topology (sample_config cpus) (durable_service cpus)
     (case dict_get (durable_service cpus) ''volumes'' of PList ms \<Rightarrow> ms | _ \<Rightarrow> [])"

lemma durable_sample_reduces:
  "validate_durable_topology h ''base'' (PStr sample_volume) ver (durable_sample cpus) = alert_validate h ''base'' ver (PDict (sample_base cpus))"
proof -
  have a: "volume_name (PStr sample_volume)" "list_ex (py_eq (hd (state_volumes sample_volume))) (state_volumes sample_volume)"
    "external_is_bool (hd (state_volumes sample_volume))"
    "\<not> state_mount_unsafe [STATE_MOUNT, sample_bind ''ops/config/alertmanager.yml'' CONFIG_TARGET, sample_bind ''ops/secrets/telegram_bot_token'' TOKEN_TARGET]"
    by code_simp+
  have b: "dict_get (durable_service cpus) ''profiles'' = strs_val [''alert-delivery-durable'']"
    "dict_get (durable_service cpus) ''command'' = strs_val DURABLE_COMMAND" "dict_get (durable_service cpus) ''tmpfs'' = strs_val (take 1 ALERT_TMPFS)"
    "dict_get (durable_service cpus) ''volumes'' = PList [STATE_MOUNT, sample_bind ''ops/config/alertmanager.yml'' CONFIG_TARGET, sample_bind ''ops/secrets/telegram_bot_token'' TOKEN_TARGET]"
    by (simp_all add: durable_service_def EXACT_SERVICE_def dict_get_def)
  have c: "keys_are (sample_config cpus) [''name'', ''services'', ''networks'', ''volumes'']"
    "dict_get (sample_config cpus) ''volumes'' = hd (state_volumes sample_volume)"
    "dict_get (sample_config cpus) ''services'' = PDict [(''alertmanager'', PDict (durable_service cpus))]"
    by (auto simp: durable_sample_def keys_are_def dict_get_def)
  have d: "durable_sample cpus = PDict (sample_config cpus)" by (simp add: durable_sample_def)
  have k: "keys_are [(''alertmanager'', x)] [''alertmanager'']" for x :: pyval by (simp add: keys_are_def)
  show ?thesis by (subst d) (simp add: validate_durable_topology_def a b c k dict_get_single py_eq_strs_val)
qed

lemma overflow_checks:
  "alert_validate h profile ver (PDict (sample_base (PInt (2 ^ 1024)))) = Inl OverflowError"
proof -
  let ?cpus = "PInt (2 ^ 1024)"
  let ?service = "base_service (durable_service ?cpus) (case dict_get (durable_service ?cpus) ''volumes'' of PList ms \<Rightarrow> ms | _ \<Rightarrow> [])"
  have cpus: "dict_get ?service ''cpus'' = ?cpus" "dict_get ?service ''mem_limit'' = PStr ''128m''"
    by (simp_all add: base_service_def dict_get_update del: power_numeral) (simp_all add: durable_service_def EXACT_SERVICE_def dict_get_def del: power_numeral)
  have "resources_differ ?service = Inl OverflowError"
    unfolding resources_differ_def cpus Let_def by (simp add: isfinite_overflow del: power_numeral)
  moreover have "keys_are (sample_base ?cpus) [''name'', ''services'', ''networks'']"
    by (auto simp: base_topology_def durable_sample_def keys_are_def dom_update simp del: power_numeral)
  moreover have "keys_are [(''alertmanager'', x)] [''alertmanager'']" for x :: pyval by (simp add: keys_are_def)
  ultimately show ?thesis by (intro alert_validate_raises [OF _ base_parts(1) _ dict_get_single])
qed

lemma alert_commands_parts:
  "(\<exists>report. alert_topology_main h profile ver (nbytes, parsed) = Inr (report, 0))
      \<longleftrightarrow> topology_input nbytes parsed (alert_validate h profile ver) = Inr []"
  "(\<exists>report. alert_state_main h profile volume ver (nbytes, parsed) = Inr (report, 0))
      \<longleftrightarrow> topology_input nbytes parsed (validate_durable_topology h profile (PStr volume) ver) = Inr []"
  "alert_topology_main h profile ver (nbytes, parsed) \<noteq> Inl e"
  "alert_state_main h profile volume ver (nbytes, parsed) = Inl e
      \<longleftrightarrow> topology_input nbytes parsed (validate_durable_topology h profile (PStr volume) ver) = Inl e \<and> \<not> durable_caught e"
  "alert_state_main h ''base'' sample_volume ver (Inr 4096, Inr (durable_sample (PInt (2 ^ 1024)))) = Inl OverflowError"
proof -
  show "(\<exists>report. alert_topology_main h profile ver (nbytes, parsed) = Inr (report, 0))
      \<longleftrightarrow> topology_input nbytes parsed (alert_validate h profile ver) = Inr []"
    using base_alerts.passes_iff [of h profile ver "(nbytes, parsed)"] by simp
  show "(\<exists>report. alert_state_main h profile volume ver (nbytes, parsed) = Inr (report, 0))
      \<longleftrightarrow> topology_input nbytes parsed (validate_durable_topology h profile (PStr volume) ver) = Inr []"
    using durable_alerts.passes_iff [of h profile volume ver "(nbytes, parsed)"] by simp
  show "alert_topology_main h profile ver (nbytes, parsed) \<noteq> Inl e"
    using base_alerts.escapes_iff [of h profile ver "(nbytes, parsed)" e] by (simp add: any_caught_def)
  show escapes: "alert_state_main h profile volume ver (nbytes, parsed) = Inl e
      \<longleftrightarrow> topology_input nbytes parsed (validate_durable_topology h profile (PStr volume) ver) = Inl e \<and> \<not> durable_caught e"
    for profile volume nbytes parsed e
    using durable_alerts.escapes_iff [of h profile volume ver "(nbytes, parsed)" e] by simp
  show "alert_state_main h ''base'' sample_volume ver (Inr 4096, Inr (durable_sample (PInt (2 ^ 1024)))) = Inl OverflowError"
    unfolding escapes by (simp add: topology_input_def durable_sample_reduces overflow_checks durable_caught_def del: power_numeral)
qed

text \<open>
  C22: how the two commands end. Both have status zero exactly when their checks pass. The first reports every
  exception as blocked; the second lets through those it does not name, and \<^verbatim>\<open>math.isfinite\<close> raises one: a
  processor count beyond the double range ends it with \<^verbatim>\<open>OverflowError\<close> instead of a blocked report.
\<close>

theorem alert_commands_end:
  "((\<exists>report. alert_topology_main h profile ver input = Inr (report, 0))
      \<longleftrightarrow> topology_input (fst input) (snd input) (alert_validate h profile ver) = Inr [])
   \<and> ((\<exists>report. alert_state_main h profile volume ver input = Inr (report, 0))
      \<longleftrightarrow> topology_input (fst input) (snd input) (validate_durable_topology h profile (PStr volume) ver) = Inr [])
   \<and> (\<forall>e. alert_topology_main h profile ver input \<noteq> Inl e)
   \<and> (\<forall>e. alert_state_main h profile volume ver input = Inl e
      \<longleftrightarrow> topology_input (fst input) (snd input) (validate_durable_topology h profile (PStr volume) ver) = Inl e \<and> \<not> durable_caught e)
   \<and> alert_state_main h ''base'' sample_volume ver (Inr 4096, Inr (durable_sample (PInt (2 ^ 1024)))) = Inl OverflowError"
proof (cases input)
  case (Pair nbytes parsed)
  then show ?thesis by (simp only: fst_conv snd_conv) (intro conjI allI alert_commands_parts)
qed

end
