(* ===== verification/Recovery_State.thy ===== *)
theory Recovery_State
  imports Epoch_Config Epoch_Outbox Py_Json
begin

text \<open>
  The recovery of the inbox gaps of one incident, \<^verbatim>\<open>src/scripts/runtime_epoch_read_recovery_worker.py\<close> (R5),
  and its second use with other constants, \<^verbatim>\<open>src/scripts/runtime_epoch_r7_read_profile.py\<close> (R7), which runs a
  private copy of the first module with its globals replaced: the constants of either are a
  \<open>recovery_profile\<close>, an argument of every function. Here: configurations and the signed state a
  recovery must find. R7 translates its names to those of R5 and back.
\<close>

section \<open>Profiles\<close>

record recovery_target =
  rt_outbox_id :: int
  rt_symbol :: string
  rt_message_id :: string
  rt_sha256 :: string
  rt_open_time_ms :: int

record recovery_profile =
  rp_owner :: string
  rp_audit :: int
  rp_outbox :: int
  rp_inbox :: int
  rp_restore_host :: string
  rp_targets :: "recovery_target list"

abbreviation pinned_target :: "int \<Rightarrow> string \<Rightarrow> string \<Rightarrow> string \<Rightarrow> int \<Rightarrow> recovery_target" where
  "pinned_target i symbol message_id sha256 open_time \<equiv>
     \<lparr>rt_outbox_id = i, rt_symbol = symbol, rt_message_id = message_id, rt_sha256 = sha256, rt_open_time_ms = open_time\<rparr>"

definition R5_TARGETS :: "recovery_target list" where
  "R5_TARGETS =
     [pinned_target 5345 ''SOLUSDT'' ''91a0626659175b377d467a97dbf620bb1f91690506fa8941ffdb2017271b4f41'' ''8ff9c16fbb9c2ca1407a25b6ad7ef526e6e75c1a3606f3600a04bddc834b5fd1'' 1791791760000,
      pinned_target 5346 ''ETHUSDT'' ''ce850023d1162eecc0950d5f9156a4ed2f784c5885724a348d84ebab8f960a6e'' ''60ce58c2e32c365b32010d852795a12903548b5a777580a31a0abaf10e6d5809'' 1791791760000,
      pinned_target 5347 ''BTCUSDT'' ''11996f5f0d4cccdb650fae4bc7c01fd8e361e602bb2019a5935d1b1c13f2e8bb'' ''6162f0c715a97996b0cbb783e4b6186520112f5846cc0f29f2f3304029423525'' 1791791760000,
      pinned_target 5348 ''BNBUSDT'' ''2deea0c9d9acdef97066122b36c06d1410e416bede02b02d683a38d840ae25e6'' ''c06c835a94f0c3cbcb3f4c13612a9d9b74e44f03d5dd9f7c6f330c5522d1bc05'' 1791791760000,
      pinned_target 5349 ''XRPUSDT'' ''a13b7fc84c6a864060fcb63e73732047548f092c24fc893fa224e2de1839e1a1'' ''14438c5825cdfaacaf0d69889cacbe6d68cf8ff9fe3d6e6c92f04320802837b1'' 1791791760000]"

definition R7_TARGETS :: "recovery_target list" where
  "R7_TARGETS =
     [pinned_target 8049 ''XRPUSDT'' ''c41e6d19c64f40205a685e48b0022946217c5869d5135d8bdba837918afeab89'' ''b9f4239abfaca5a483ed5a3d370ca79f02d221d02a8a3808d796a578b0a36696'' 1791863100000,
      pinned_target 8050 ''XRPUSDT'' ''cd4ad6eb4dad60f7a28e9f48b4f3dd54acc07c2c8fe4431fb7242c2fb3b9600e'' ''a1442b10995616573f3ecb24d5bc63eb169bd6f6afbb3d9fea1557601fd7a3ce'' 1791863160000,
      pinned_target 8051 ''ETHUSDT'' ''3c705f6255d184b6608b0dd35cc8d3f144b84ec888539ad7a70aa0a3b0daf136'' ''0831a4500473eb2d989a74d558da50343e003e61c1144271e7f2a675056a6268'' 1791863100000,
      pinned_target 8052 ''ETHUSDT'' ''91af7a106ee4fa1cc9412427b6e9c400c93e3a60fe02b994ac73edee7fadaa59'' ''e875e183a904efe05a6f63525806c0fac5358cd2cdc0d6176b8b363bd9941ed9'' 1791863160000,
      pinned_target 8053 ''BNBUSDT'' ''a80fad93c2168230a494e5b9229cae1efe198724114c02e905d58ece63bd7e10'' ''0301e5175ddc007e734e9d8d8481110a68abdb9bd72df65e7cedbc04c0cbc166'' 1791863100000,
      pinned_target 8054 ''BTCUSDT'' ''f2c402415f8b409c48dc91540dcf1cf4b51275f5a086a69d4d52a721e1a31cf9'' ''a91b662f570ea7f7d9c30a4253adefd41efd6fc43fe71887ddf338599aaee2eb'' 1791863100000,
      pinned_target 8055 ''SOLUSDT'' ''4bdce726769e11f1563feacf6e1904d0aae3f0072d80b62262fc0e043d4169f5'' ''cd052a7ecfee9c72d6e3a249aafe5fe3a4c0056bf61cf3573cc374421d10e012'' 1791863100000,
      pinned_target 8056 ''BNBUSDT'' ''8fdccf94c0f1367b6c5cd88ddbfd6339a6315728ae9202046872fe5f1d5ef2ad'' ''399de6f047b892e02639a48f1205cc4ae0f73c3cdfec573c69d514ef2e8b1f80'' 1791863160000,
      pinned_target 8057 ''SOLUSDT'' ''3745642e0eb2a69c590567a2bde5f855735d597e51fed988c25fc9406ed53ea9'' ''9fdde50c7bf07545487bc60265fd784489fd9404f558e9f081b05b4e2c7ac66e'' 1791863160000,
      pinned_target 8058 ''BTCUSDT'' ''2ca7f4ec33a3eed06bcda76af84570e99adfbcc71397207c500806ab7e9cfb2d'' ''d56d0bf532ea739225a2ff2553b73891777e3cccc9210f244ea8f06103a04fc9'' 1791863160000]"

definition R5_PROFILE :: recovery_profile where
  "R5_PROFILE =
     \<lparr>rp_owner = CONTINUATION_OWNER, rp_audit = 336429, rp_outbox = 5336, rp_inbox = 5331,
      rp_restore_host = ''kairos-epoch-69893dc7b7c6-restore-transport05'', rp_targets = R5_TARGETS\<rparr>"

definition R7_PROFILE :: recovery_profile where
  "R7_PROFILE =
     \<lparr>rp_owner = CONTINUATION_OWNER, rp_audit = 342379, rp_outbox = 8045, rp_inbox = 8035,
      rp_restore_host = ''kairos-epoch-69893dc7b7c6-restore-transport07'', rp_targets = R7_TARGETS\<rparr>"

definition target_ids :: "recovery_profile \<Rightarrow> string list" where
  "target_ids r = map rt_message_id (rp_targets r)"

definition target_by_id :: "recovery_profile \<Rightarrow> string \<Rightarrow> recovery_target option" where
  "target_by_id r i = map_of (map (\<lambda>t. (rt_message_id t, t)) (rev (rp_targets r))) i"

definition consumer_service :: "recovery_profile \<Rightarrow> string" where
  "consumer_service r = ''kairos-epoch-consumer-'' @ take 12 (rp_owner r)"

definition restore_database :: "recovery_profile \<Rightarrow> string" where
  "restore_database r = ''kairos_recovery_'' @ take 12 (rp_owner r) @ ''_epochrestore''"

text \<open>What the recovery relies on: as many gaps as targets, all different.\<close>

definition profile_ok :: "recovery_profile \<Rightarrow> bool" where
  "profile_ok r \<longleftrightarrow> distinct (target_ids r) \<and> rp_targets r \<noteq> []
     \<and> rp_outbox r = rp_inbox r + int (length (rp_targets r)) \<and> 0 \<le> rp_inbox r"

lemma profiles_ok: "profile_ok R5_PROFILE" "profile_ok R7_PROFILE"
  by (simp_all add: profile_ok_def target_ids_def R5_PROFILE_def R7_PROFILE_def R5_TARGETS_def R7_TARGETS_def)

lemma target_by_id_Some: "target_by_id r i = Some t \<Longrightarrow> t \<in> set (rp_targets r) \<and> rt_message_id t = i"
  by (auto simp: target_by_id_def dest!: map_of_SomeD)

lemma target_by_id_None: "target_by_id r i = None \<longleftrightarrow> i \<notin> set (target_ids r)"
  by (simp add: target_by_id_def target_ids_def map_of_eq_None_iff image_image)

lemma target_by_id_in: "i \<in> set (target_ids r) \<longleftrightarrow> target_by_id r i \<noteq> None"
  by (simp add: target_by_id_None)

section \<open>The signed state\<close>

definition BINDING_KEYS :: "string list" where "BINDING_KEYS = [''owner'', ''mode'', ''new_epoch_database'']"

definition recovery_state_keys :: "bool \<Rightarrow> string list" where
  "recovery_state_keys include_redis =
     [''state'', ''matched_public_tables'', ''tables'', ''sequences'', ''anchors'', ''original_prefix'', ''queue'',
      ''preserved_queue_prefixes'', ''trading_started''] @ (if include_redis then [''redis''] else [])"

definition RECOVERY_PREFIX :: pyval where
  "RECOVERY_PREFIX =
     PDict [(''rows'', PInt 173164),
       (''audit_table_sha256'', PStr ''f23b4060feae703c568b0204f4b3ff8932fe2813b20f578bc0a0d983e5600499''),
       (''last_open_time_ms'', PInt 1789832580000)]"

definition recovery_shape_ok :: "bool \<Rightarrow> items \<Rightarrow> bool" where
  "recovery_shape_ok include_redis m \<longleftrightarrow>
     keys_are m (recovery_state_keys include_redis) \<and> dict_get m ''state'' = PStr ''PASS_R5_STATE''
     \<and> count_is (length CONTROLLED_RUNTIME_PUBLIC_TABLES) (dict_get m ''matched_public_tables'')
     \<and> dict_get m ''trading_started'' = PBool False
     \<and> (case dict_get m ''tables'' of PDict ts \<Rightarrow> keys_are ts CONTROLLED_RUNTIME_PUBLIC_TABLES | _ \<Rightarrow> False)
     \<and> is_dict (dict_get m ''sequences'') \<and> is_dict (dict_get m ''anchors'') \<and> is_dict (dict_get m ''queue'')
     \<and> is_dict (dict_get m ''preserved_queue_prefixes'')
     \<and> py_eq (dict_get m ''original_prefix'') RECOVERY_PREFIX"

definition recovery_counts_differ :: "recovery_profile \<Rightarrow> items \<Rightarrow> bool" where
  "recovery_counts_differ r tables \<longleftrightarrow>
     table_count tables ''event_audit'' \<noteq> PInt (rp_audit r) \<or> table_count tables ''message_outbox'' \<noteq> PInt (rp_outbox r)
     \<or> table_count tables ''message_inbox'' \<noteq> PInt (rp_inbox r)
     \<or> list_ex (\<lambda>t. t \<notin> set BOOT_ALLOWED_NONEMPTY_TABLES \<and> table_count tables t \<noteq> PInt 0) CONTROLLED_RUNTIME_PUBLIC_TABLES"

definition recovery_queue_ok :: "recovery_profile \<Rightarrow> items \<Rightarrow> bool" where
  "recovery_queue_ok r queue \<longleftrightarrow>
     keys_are queue (QUEUE_KEYS @ [''missing_inbox_message_ids''])
     \<and> dict_get queue ''outbox_rows'' = PInt (rp_outbox r) \<and> dict_get queue ''inbox_rows'' = PInt (rp_inbox r)
     \<and> dict_get queue ''completed_inbox'' = PInt (rp_inbox r) \<and> dict_get queue ''pending_outbox'' = PInt 0
     \<and> dict_get queue ''unresolved_inbox'' = PInt 0 \<and> dict_get queue ''trading_rows'' = PInt 0
     \<and> py_eq (dict_get queue ''missing_inbox_message_ids'') (PList (map PStr (sorted_set (target_ids r))))"

definition prefix_differs :: "string \<times> pyval \<Rightarrow> bool py" where
  "prefix_differs = (\<lambda>(_, v).
     case v of
       PDict d \<Rightarrow> if \<not> type_is_int (dict_get d ''n'') then Inr True
                  else py_bind (str_is_hex 64 (dict_get_default d ''sha'' (PStr []))) (\<lambda>ok. Inr (\<not> ok))
     | _ \<Rightarrow> Inr True)"

definition prefix_rows :: "items \<Rightarrow> string \<Rightarrow> pyval" where
  "prefix_rows prefixes table = (case dict_get prefixes table of PDict d \<Rightarrow> dict_get d ''n'' | _ \<Rightarrow> PNone)"

definition recovery_prefixes :: "recovery_profile \<Rightarrow> items \<Rightarrow> unit py" where
  "recovery_prefixes r prefixes =
     in_order
       [fail_when (\<not> keys_are prefixes [''message_outbox'', ''message_inbox'']) ''EXACT_R5_QUEUE_PREFIXES_REQUIRED'',
        reject_if (py_any prefix_differs prefixes) (EpochError ''EXACT_R5_QUEUE_PREFIXES_REQUIRED''),
        fail_when (prefix_rows prefixes ''message_outbox'' \<noteq> PInt (rp_outbox r - int (length (rp_targets r)))
            \<or> prefix_rows prefixes ''message_inbox'' \<noteq> PInt (rp_inbox r)) ''EXACT_R5_QUEUE_PREFIXES_REQUIRED'']"

definition REDIS_STATE_KEYS :: "string list" where
  "REDIS_STATE_KEYS =
     [''stream_entries'', ''publication_receipts'', ''publication_receipts_sha256'', ''publication_message_ids_sha256'',
      ''stream_sha256'', ''stream_last_id'', ''consumer_group'', ''last_delivered_id'', ''pending_deliveries'',
      ''pending_target_message_ids'', ''trading_started'']"

definition str_items :: "pyval \<Rightarrow> string list option" where
  "str_items v =
     (case v of PList xs \<Rightarrow> if list_all is_str xs then Some (map (\<lambda>x. case x of PStr s \<Rightarrow> s | _ \<Rightarrow> []) xs) else None | _ \<Rightarrow> None)"

definition redis_shape_ok :: "recovery_profile \<Rightarrow> items \<Rightarrow> bool" where
  "redis_shape_ok r m \<longleftrightarrow>
     keys_are m REDIS_STATE_KEYS \<and> dict_get m ''publication_receipts'' = PInt (rp_outbox r)
     \<and> dict_get m ''stream_entries'' = PInt (rp_outbox r + 1) \<and> dict_get m ''consumer_group'' = PStr ''bars''
     \<and> (case str_items (dict_get m ''pending_target_message_ids'') of
          Some ids \<Rightarrow> dict_get m ''pending_deliveries'' = PInt (int (length ids)) \<and> length ids \<le> length (rp_targets r)
             \<and> distinct ids \<and> set ids \<subseteq> set (target_ids r)
        | None \<Rightarrow> False)
     \<and> str_where receipt_text (dict_get m ''stream_last_id'') \<and> str_where receipt_text (dict_get m ''last_delivered_id'')
     \<and> dict_get m ''trading_started'' = PBool False"

definition validate_redis_state :: "recovery_profile \<Rightarrow> pyval \<Rightarrow> unit py" where
  "validate_redis_state r v =
     (case v of
        PDict m \<Rightarrow>
          if \<not> redis_shape_ok r m then epoch_fail ''EXACT_R5_REDIS_PRESTATE_REQUIRED''
          else reject_if
            (py_any (\<lambda>key. py_bind (str_is_hex 64 (dict_get m key)) (\<lambda>ok. Inr (\<not> ok)))
               [''publication_receipts_sha256'', ''publication_message_ids_sha256'', ''stream_sha256''])
            (EpochError ''EXACT_R5_REDIS_PRESTATE_REQUIRED'')
      | _ \<Rightarrow> epoch_fail ''EXACT_R5_REDIS_PRESTATE_REQUIRED'')"

text \<open>\<^verbatim>\<open>expected.pop(key, None)\<close> for the three binding keys.\<close>

definition without :: "string list \<Rightarrow> items \<Rightarrow> items" where
  "without ks m = filter (\<lambda>(k, _). k \<notin> set ks) m"

definition validate_expected_state :: "recovery_profile \<Rightarrow> schema \<Rightarrow> bool \<Rightarrow> items \<Rightarrow> items py" where
  "validate_expected_state r p include_redis v =
     (if dict_get v ''owner'' \<noteq> PStr (rp_owner r) \<or> dict_get v ''mode'' \<noteq> PStr ''r5-state''
         \<or> dict_get v ''new_epoch_database'' \<noteq> PStr (epoch_database (rp_owner r))
      then epoch_fail ''EXACT_R5_SIGNED_STATE_BINDING_REQUIRED''
      else
        let m = without BINDING_KEYS v in
        if \<not> recovery_shape_ok include_redis m then epoch_fail ''EXACT_R5_FULL_STATE_REQUIRED''
        else
          case (dict_get m ''tables'', dict_get m ''anchors'', dict_get m ''queue'', dict_get m ''preserved_queue_prefixes'') of
            (PDict tables, PDict history, PDict queue, PDict prefixes) \<Rightarrow>
              py_bind (in_order
                [reject_if (py_any table_row_differs tables) (EpochError ''EXACT_R5_TABLE_DIGESTS_REQUIRED''),
                 fail_when (recovery_counts_differ r tables) ''EXACT_R5_TABLE_COUNTS_REQUIRED'',
                 validate_boot_database_identity p tables PNone,
                 validate_history_snapshot (table_count tables ''event_audit'') history (PDict [(''anchors'', PDict history)]),
                 fail_when (\<not> recovery_queue_ok r queue) ''EXACT_R5_QUEUE_PRESTATE_REQUIRED'',
                 recovery_prefixes r prefixes,
                 if include_redis then validate_redis_state r (dict_get m ''redis'') else Inr ()]) (\<lambda>_. Inr m)
          | _ \<Rightarrow> epoch_fail ''EXACT_R5_FULL_STATE_REQUIRED'')"

section \<open>Configurations\<close>

definition R5_MODES :: "string list" where "R5_MODES = [''r5-state'', ''r5-verify-restore'', ''r5-drain'']"

definition state_fields :: "string list" where
  "state_fields = COMMON_FIELDS @ [''admin_password'']"

definition recovery_fields :: "string \<Rightarrow> string list" where
  "recovery_fields mode =
     (if mode = ''r5-verify-restore'' then state_fields @ [''restore_host'', ''restore_database'', ''restore_admin_password'', ''expected_seed'']
      else state_fields @ CREDENTIALS @ (if mode = ''r5-drain'' then [''expected_state''] else []))"

definition recovery_config_ok :: "recovery_profile \<Rightarrow> string \<Rightarrow> items \<Rightarrow> bool" where
  "recovery_config_ok r mode m \<longleftrightarrow>
     mode \<in> set R5_MODES \<and> keys_are m (recovery_fields mode) \<and> dict_get m ''owner'' = PStr (rp_owner r)
     \<and> dict_get m ''database'' = PStr (epoch_database (rp_owner r))
     \<and> dict_get m ''pg_host'' = PStr (epoch_prefix (rp_owner r) @ ''-pg'')
     \<and> dict_get m ''redis_host'' = PStr (epoch_prefix (rp_owner r) @ ''-redis'')
     \<and> list_all (\<lambda>key. str_where (hex_lower_n 64) (dict_get m key))
         (filter (\<lambda>key. endswith key ''password'') (recovery_fields mode))"

definition expected_under :: "recovery_profile \<Rightarrow> schema \<Rightarrow> pyval \<Rightarrow> string \<Rightarrow> unit py" where
  "expected_under r p v m =
     (case v of PDict e \<Rightarrow> py_bind (validate_expected_state r p True e) (\<lambda>_. Inr ()) | _ \<Rightarrow> epoch_fail m)"

definition recovery_validate_config :: "recovery_profile \<Rightarrow> schema \<Rightarrow> string \<Rightarrow> pyval \<Rightarrow> unit py" where
  "recovery_validate_config r p mode v =
     (case v of
        PDict m \<Rightarrow>
          if \<not> recovery_config_ok r mode m then epoch_fail ''EXACT_R5_PRIVATE_CONFIG_REQUIRED''
          else if mode = ''r5-drain'' then expected_under r p (dict_get m ''expected_state'') ''R5_FULL_PRESTATE_REQUIRED''
          else if mode = ''r5-verify-restore''
          then if dict_get m ''restore_host'' \<noteq> PStr (rp_restore_host r) \<or> dict_get m ''restore_database'' \<noteq> PStr (restore_database r)
               then epoch_fail ''EXACT_R5_DISPOSABLE_RESTORE_REQUIRED''
               else expected_under r p (dict_get m ''expected_seed'') ''EXACT_R5_DISPOSABLE_RESTORE_REQUIRED''
          else Inr ()
      | _ \<Rightarrow> epoch_fail ''EXACT_R5_PRIVATE_CONFIG_REQUIRED'')"

section \<open>The translation of R7\<close>

text \<open>\<^verbatim>\<open>d[k] = v\<close>: the value of a key is replaced in place, a new key goes to the end.\<close>

fun dict_set :: "'k \<Rightarrow> 'v \<Rightarrow> ('k \<times> 'v) list \<Rightarrow> ('k \<times> 'v) list" where
  "dict_set k v [] = [(k, v)]"
| "dict_set k v ((j, w) # m) = (if j = k then (j, v) # m else (j, w) # dict_set k v m)"

definition R7_MODES :: "string list" where "R7_MODES = [''r7-state'', ''r7-verify-restore'', ''r7-drain'']"

definition normalize_state :: "pyval \<Rightarrow> pyval py" where
  "normalize_state v =
     (case v of
        PDict m \<Rightarrow>
          if dict_get m ''owner'' \<noteq> PStr (rp_owner R7_PROFILE) \<or> dict_get m ''mode'' \<noteq> PStr ''r7-state''
             \<or> dict_get m ''new_epoch_database'' \<noteq> PStr (epoch_database (rp_owner R7_PROFILE))
             \<or> dict_get m ''state'' \<noteq> PStr ''PASS_R7_STATE''
          then epoch_fail ''EXACT_R7_SIGNED_STATE_BINDING_REQUIRED''
          else Inr (PDict (dict_set ''state'' (PStr ''PASS_R5_STATE'') (dict_set ''mode'' (PStr ''r5-state'') m)))
      | _ \<Rightarrow> epoch_fail ''EXACT_R7_FULL_STATE_REQUIRED'')"

definition r7_expected_state :: "schema \<Rightarrow> pyval \<Rightarrow> items py" where
  "r7_expected_state p v =
     py_bind (normalize_state v) (\<lambda>n. case n of PDict m \<Rightarrow> validate_expected_state R7_PROFILE p True m | _ \<Rightarrow> Inl TypeError)"

definition normalize_config :: "string \<Rightarrow> pyval \<Rightarrow> (string \<times> pyval) py" where
  "normalize_config mode v =
     (case v of
        PDict m \<Rightarrow>
          if mode \<notin> set R7_MODES then epoch_fail ''EXACT_R7_PRIVATE_CONFIG_REQUIRED''
          else
            let internal = ''r5-'' @ drop 3 mode in
            if mode = ''r7-drain''
            then py_bind (normalize_state (dict_get m ''expected_state'')) (\<lambda>s. Inr (internal, PDict (dict_set ''expected_state'' s m)))
            else if mode = ''r7-verify-restore''
            then py_bind (normalize_state (dict_get m ''expected_seed'')) (\<lambda>s. Inr (internal, PDict (dict_set ''expected_seed'' s m)))
            else Inr (internal, PDict m)
      | _ \<Rightarrow> epoch_fail ''EXACT_R7_PRIVATE_CONFIG_REQUIRED'')"

definition r7_validate_config :: "schema \<Rightarrow> string \<Rightarrow> pyval \<Rightarrow> unit py" where
  "r7_validate_config p mode v =
     py_bind (normalize_config mode v) (\<lambda>(internal, n). recovery_validate_config R7_PROFILE p internal n)"

definition translate_result :: "items \<Rightarrow> items py" where
  "translate_result m =
     (case dict_get m ''state'' of
        PStr s \<Rightarrow>
          (case map_of [(''PASS_R5_STATE'', ''PASS_R7_STATE''), (''PASS_R5_ISOLATED_RESTORE'', ''PASS_R7_ISOLATED_RESTORE''),
              (''PASS_EXACT_R5_INBOX_RECOVERY'', ''PASS_EXACT_R7_INBOX_RECOVERY'')] s of
             Some t \<Rightarrow> Inr (dict_set ''state'' (PStr t) m)
           | None \<Rightarrow> epoch_fail ''R7_UNEXPECTED_INTERNAL_RESULT_STATE'')
      | v \<Rightarrow> if hashable v then epoch_fail ''R7_UNEXPECTED_INTERNAL_RESULT_STATE'' else Inl TypeError)"

section \<open>The validator of the worker\<close>

text \<open>The recovery modes of \<^verbatim>\<open>validate_config\<close> of the worker; R6 has a script of its own.\<close>

definition recovery_later :: "(string \<Rightarrow> pyval \<Rightarrow> unit py) \<Rightarrow> schema \<Rightarrow> string \<Rightarrow> pyval \<Rightarrow> unit py" where
  "recovery_later r6 p mode v =
     (if mode \<in> set R7_MODES then r7_validate_config p mode v
      else if mode \<in> set (generation_modes ''r6'') then r6 mode v
      else recovery_validate_config R5_PROFILE p mode v)"

end
