(* ===== verification/Recovery_Queue.thy ===== *)
theory Recovery_Queue
  imports Recovery_State
begin

text \<open>
  \<^verbatim>\<open>validate_queue\<close> of \<^verbatim>\<open>src/scripts/runtime_epoch_read_recovery_worker.py\<close>: the outbox and the inbox
  of an epoch during the recovery of an inbox gap. Packages outside the repository validate a bar event
  and give the canonical text of a payload with its digest; they are fields of \<open>recovery_host\<close>.
\<close>

section \<open>Rows\<close>

record bar_event =
  be_message_id :: string
  be_source :: string
  be_symbol :: string
  be_open_time_ms :: int

record recovery_host =
  rh_loads :: "string \<Rightarrow> pyval py"
  rh_event :: "pyval \<Rightarrow> bar_event py"
  rh_canonical :: "pyval \<Rightarrow> (string \<times> string) py"
  rh_float_text :: "pyfloat \<Rightarrow> string"
  rh_sha256 :: "bytes \<Rightarrow> string"

text \<open>A column that may be \<^verbatim>\<open>NULL\<close> and is only tested for it is a flag, true when it has a value.\<close>

record queue_row =
  qr_id :: int
  qr_message_id :: string
  qr_topic :: string
  qr_payload :: pyval
  qr_sha256 :: string
  qr_producer :: string
  qr_published_at :: bool
  qr_attempts :: "int option"
  qr_last_error :: bool
  qr_lease_owner :: bool
  qr_lease_until :: bool
  qr_dead_lettered :: bool
  qr_reconciliation :: string

record inbox_row =
  ir_consumer :: string
  ir_topic :: string
  ir_message_id :: string
  ir_sha256 :: string
  ir_status :: string

definition row_payload :: "recovery_host \<Rightarrow> pyval \<Rightarrow> pyval py" where
  "row_payload h v = (case v of PStr s \<Rightarrow> rh_loads h s | _ \<Rightarrow> Inr v)"

section \<open>The validation\<close>

definition inbox_row_ok :: "recovery_profile \<Rightarrow> inbox_row \<Rightarrow> bool" where
  "inbox_row_ok r row \<longleftrightarrow>
     ir_consumer row = consumer_service r @ '':bars'' \<and> ir_topic row = FEED_TOPIC \<and> ir_status row = ''COMPLETED''"

fun index_inbox :: "recovery_profile \<Rightarrow> inbox_row list \<Rightarrow> inbox_row list \<Rightarrow> inbox_row list py" where
  "index_inbox r seen [] = Inr seen"
| "index_inbox r seen (row # rows) =
     (if \<not> inbox_row_ok r row \<or> ir_message_id row \<in> set (map ir_message_id seen)
      then epoch_fail ''R5_INBOX_IDENTITY_CONFLICT''
      else index_inbox r (seen @ [row]) rows)"

definition row_clean :: "queue_row \<Rightarrow> bar_event \<Rightarrow> bool" where
  "row_clean row event \<longleftrightarrow>
     qr_topic row = FEED_TOPIC \<and> qr_producer row = FEED_SOURCE \<and> qr_published_at row \<and> qr_attempts row = Some 1
     \<and> \<not> qr_last_error row \<and> \<not> qr_lease_owner row \<and> \<not> qr_lease_until row \<and> \<not> qr_dead_lettered row
     \<and> qr_reconciliation row = ''NONE'' \<and> qr_message_id row = be_message_id event \<and> be_source event = FEED_SOURCE
     \<and> be_symbol event \<in> set FEED_SYMBOLS"

definition target_matches :: "recovery_target \<Rightarrow> queue_row \<Rightarrow> bar_event \<Rightarrow> string \<Rightarrow> bool" where
  "target_matches t row event hashed \<longleftrightarrow>
     qr_id row = rt_outbox_id t \<and> hashed = rt_sha256 t \<and> be_symbol event = rt_symbol t \<and> be_open_time_ms event = rt_open_time_ms t"

text \<open>The inbox rows not met yet, the identities of the gaps, and \<^verbatim>\<open>durable\<close> in its order.\<close>

record queue_scan =
  qs_inbox :: "inbox_row list"
  qs_missing :: "string list"
  qs_durable :: "(string \<times> string \<times> string) list"

definition scan_row :: "recovery_host \<Rightarrow> recovery_profile \<Rightarrow> queue_scan \<Rightarrow> queue_row \<Rightarrow> queue_scan py" where
  "scan_row h r s row =
     py_bind (row_payload h (qr_payload row)) (\<lambda>payload.
     py_bind (rh_event h payload) (\<lambda>event.
     py_bind (rh_canonical h payload) (\<lambda>(encoded, hashed).
       let i = qr_message_id row in
       if \<not> row_clean row event \<or> hashed \<noteq> qr_sha256 row \<or> i \<in> set (map fst (qs_durable s))
       then epoch_fail ''R5_OUTBOX_IDENTITY_OR_STATE_CONFLICT''
       else if (case target_by_id r i of Some t \<Rightarrow> \<not> target_matches t row event hashed | None \<Rightarrow> False)
       then epoch_fail ''R5_EXACT_TARGET_ROW_CONFLICT''
       else
         let s' = s\<lparr>qs_inbox := filter (\<lambda>x. ir_message_id x \<noteq> i) (qs_inbox s), qs_durable := qs_durable s @ [(i, hashed, encoded)]\<rparr> in
         case find (\<lambda>x. ir_message_id x = i) (qs_inbox s) of
           None \<Rightarrow>
             if target_by_id r i = None then epoch_fail ''R5_UNEXPECTED_INBOX_GAP''
             else Inr (s'\<lparr>qs_missing := qs_missing s @ [i]\<rparr>)
         | Some x \<Rightarrow> if ir_sha256 x \<noteq> hashed then epoch_fail ''R5_COMPLETED_INBOX_HASH_CONFLICT'' else Inr s')))"

definition queue_report :: "nat \<Rightarrow> nat \<Rightarrow> string list \<Rightarrow> items" where
  "queue_report outbox_rows inbox_rows missing =
     [(''outbox_rows'', PInt (int outbox_rows)), (''inbox_rows'', PInt (int inbox_rows)), (''completed_inbox'', PInt (int inbox_rows)),
      (''pending_outbox'', PInt 0), (''unresolved_inbox'', PInt 0), (''trading_rows'', PInt 0),
      (''missing_inbox_message_ids'', PList (map PStr (sorted_set missing)))]"

definition missing_checks :: "recovery_profile \<Rightarrow> nat \<Rightarrow> queue_scan \<Rightarrow> unit py" where
  "missing_checks r n s =
     in_order
       [fail_when (qs_inbox s \<noteq> [] \<or> set (qs_missing s) \<notin> {set (target_ids r), {}}) ''R5_EXACT_MISSING_INBOX_SET_REQUIRED'',
        fail_when (int n = rp_inbox r \<and> set (qs_missing s) \<noteq> set (target_ids r)) ''R5_EXACT_MISSING_INBOX_SET_REQUIRED'',
        fail_when (int n = rp_outbox r \<and> qs_missing s \<noteq> []) ''R5_PARTIAL_TARGET_COMPLETION_REJECTED'']"

definition validate_queue ::
  "recovery_host \<Rightarrow> recovery_profile \<Rightarrow> queue_row list \<Rightarrow> inbox_row list
    \<Rightarrow> (items \<times> (string \<times> string \<times> string) list \<times> string list) py" where
  "validate_queue h r sent inbox =
     (if int (length sent) \<noteq> rp_outbox r \<or> int (length inbox) \<notin> {rp_inbox r, rp_outbox r}
      then epoch_fail ''R5_EXACT_QUEUE_COUNTS_REQUIRED''
      else
        py_bind (index_inbox r [] inbox) (\<lambda>indexed.
        py_bind (py_run (scan_row h r) \<lparr>qs_inbox = indexed, qs_missing = [], qs_durable = []\<rparr> sent) (\<lambda>s.
        py_bind (missing_checks r (length inbox) s) (\<lambda>_.
          Inr (queue_report (length sent) (length inbox) (qs_missing s), qs_durable s, map ir_message_id indexed)))))"

section \<open>What it accepts\<close>

text \<open>An outbox row that was published once, with what \<^verbatim>\<open>durable\<close> keeps of it.\<close>

definition admitted :: "recovery_host \<Rightarrow> recovery_profile \<Rightarrow> queue_row \<Rightarrow> string \<times> string \<times> string \<Rightarrow> bool" where
  "admitted h r row d \<longleftrightarrow>
     (\<exists>payload event encoded. row_payload h (qr_payload row) = Inr payload \<and> rh_event h payload = Inr event
        \<and> rh_canonical h payload = Inr (encoded, qr_sha256 row) \<and> row_clean row event
        \<and> (\<forall>t. target_by_id r (qr_message_id row) = Some t \<longrightarrow> target_matches t row event (qr_sha256 row))
        \<and> d = (qr_message_id row, qr_sha256 row, encoded))"

lemma index_inbox_iff:
  "index_inbox r seen rows = Inr out \<longleftrightarrow>
     out = seen @ rows \<and> (\<forall>x \<in> set rows. inbox_row_ok r x) \<and> distinct (map ir_message_id rows)
     \<and> set (map ir_message_id rows) \<inter> set (map ir_message_id seen) = {}"
  by (induction rows arbitrary: seen) auto

lemma scan_row_iff:
  "scan_row h r s row = Inr s' \<longleftrightarrow>
     (\<exists>d. admitted h r row d \<and> qr_message_id row \<notin> set (map fst (qs_durable s))
        \<and> (case find (\<lambda>x. ir_message_id x = qr_message_id row) (qs_inbox s) of
             None \<Rightarrow> qr_message_id row \<in> set (target_ids r) | Some x \<Rightarrow> ir_sha256 x = qr_sha256 row)
        \<and> s' = \<lparr>qs_inbox = filter (\<lambda>x. ir_message_id x \<noteq> qr_message_id row) (qs_inbox s),
             qs_missing = qs_missing s @ (if find (\<lambda>x. ir_message_id x = qr_message_id row) (qs_inbox s) = None then [qr_message_id row] else []),
             qs_durable = qs_durable s @ [d]\<rparr>)"
  (is "?L \<longleftrightarrow> ?R")
proof
  assume ?L
  then show ?R
    by (auto simp: scan_row_def admitted_def py_bind_Inr_iff Let_def target_by_id_in split: if_splits option.splits)
next
  assume ?R
  then show ?L
    by (auto simp: scan_row_def admitted_def Let_def target_by_id_in split: option.splits)
qed

lemma find_filter_other:
  "i \<noteq> j \<Longrightarrow> find (\<lambda>x. f x = i) (filter (\<lambda>x. f x \<noteq> j) xs) = find (\<lambda>x. f x = i) xs"
  by (induction xs) auto

definition inbox_agrees :: "recovery_profile \<Rightarrow> inbox_row list \<Rightarrow> queue_row \<Rightarrow> bool" where
  "inbox_agrees r inbox row \<longleftrightarrow>
     (case find (\<lambda>x. ir_message_id x = qr_message_id row) inbox of
        None \<Rightarrow> qr_message_id row \<in> set (target_ids r) | Some x \<Rightarrow> ir_sha256 x = qr_sha256 row)"

definition gaps :: "inbox_row list \<Rightarrow> queue_row list \<Rightarrow> string list" where
  "gaps inbox sent = filter (\<lambda>i. i \<notin> set (map ir_message_id inbox)) (map qr_message_id sent)"

lemma gaps_filter:
  assumes "i \<notin> set (map qr_message_id rows)"
  shows "gaps (filter (\<lambda>x. ir_message_id x \<noteq> i) inbox) rows = gaps inbox rows"
proof -
  have ids: "set (map ir_message_id (filter (\<lambda>x. ir_message_id x \<noteq> i) inbox)) = set (map ir_message_id inbox) - {i}" by auto
  show ?thesis unfolding gaps_def ids using assms by (intro filter_cong) auto
qed

lemma gap_iff: "find (\<lambda>x. ir_message_id x = i) inbox = None \<longleftrightarrow> i \<notin> set (map ir_message_id inbox)"
  by (auto simp: find_None_iff)

lemma admitted_fst: "admitted h r row d \<Longrightarrow> fst d = qr_message_id row"
  by (auto simp: admitted_def)

lemma scan_run_iff:
  "py_run (scan_row h r) s sent = Inr s' \<longleftrightarrow>
     (\<exists>ds. list_all2 (admitted h r) sent ds \<and> distinct (map qr_message_id sent)
        \<and> set (map qr_message_id sent) \<inter> set (map fst (qs_durable s)) = {}
        \<and> (\<forall>row \<in> set sent. inbox_agrees r (qs_inbox s) row)
        \<and> s' = \<lparr>qs_inbox = filter (\<lambda>x. ir_message_id x \<notin> set (map qr_message_id sent)) (qs_inbox s),
             qs_missing = qs_missing s @ gaps (qs_inbox s) sent, qs_durable = qs_durable s @ ds\<rparr>)"
proof (induction sent arbitrary: s)
  case Nil
  then show ?case by (auto simp: gaps_def)
next
  case (Cons row rows)
  let ?i = "qr_message_id row"
  let ?t = "\<lambda>d. \<lparr>qs_inbox = filter (\<lambda>x. ir_message_id x \<noteq> ?i) (qs_inbox s),
     qs_missing = qs_missing s @ (if find (\<lambda>x. ir_message_id x = ?i) (qs_inbox s) = None then [?i] else []), qs_durable = qs_durable s @ [d]\<rparr>"
  have other: "inbox_agrees r (qs_inbox (?t d)) x = inbox_agrees r (qs_inbox s) x" if "qr_message_id x \<noteq> ?i" for x d
    using that by (simp add: inbox_agrees_def find_filter_other)
  have gaps: "gaps (qs_inbox (?t d)) rows = gaps (qs_inbox s) rows" if "?i \<notin> set (map qr_message_id rows)" for d
    using gaps_filter [OF that] by simp
  have first: "gaps (qs_inbox s) (row # rows)
      = (if find (\<lambda>x. ir_message_id x = ?i) (qs_inbox s) = None then [?i] else []) @ gaps (qs_inbox s) rows"
    by (simp add: gaps_def gap_iff del: set_map)
  have drop: "filter (\<lambda>x. ir_message_id x \<notin> set (map qr_message_id rows)) (qs_inbox (?t d))
      = filter (\<lambda>x. ir_message_id x \<notin> set (map qr_message_id (row # rows))) (qs_inbox s)" for d
    by (auto intro: filter_cong)
  have "py_run (scan_row h r) s (row # rows) = Inr s' \<longleftrightarrow>
      (\<exists>d. admitted h r row d \<and> ?i \<notin> set (map fst (qs_durable s)) \<and> inbox_agrees r (qs_inbox s) row
        \<and> py_run (scan_row h r) (?t d) rows = Inr s')"
    by (auto simp: py_bind_Inr_iff scan_row_iff inbox_agrees_def)
  also have "\<dots> \<longleftrightarrow> (\<exists>d ds. admitted h r row d \<and> ?i \<notin> set (map fst (qs_durable s)) \<and> inbox_agrees r (qs_inbox s) row
        \<and> list_all2 (admitted h r) rows ds \<and> distinct (map qr_message_id (row # rows))
        \<and> set (map qr_message_id rows) \<inter> set (map fst (qs_durable s)) = {}
        \<and> (\<forall>x \<in> set rows. inbox_agrees r (qs_inbox s) x)
        \<and> s' = \<lparr>qs_inbox = filter (\<lambda>x. ir_message_id x \<notin> set (map qr_message_id (row # rows))) (qs_inbox s),
             qs_missing = qs_missing s @ gaps (qs_inbox s) (row # rows), qs_durable = qs_durable s @ d # ds\<rparr>)"
  proof -
    have "py_run (scan_row h r) (?t d) rows = Inr s' \<longleftrightarrow>
        (\<exists>ds. list_all2 (admitted h r) rows ds \<and> distinct (map qr_message_id (row # rows))
        \<and> set (map qr_message_id rows) \<inter> set (map fst (qs_durable s)) = {}
        \<and> (\<forall>x \<in> set rows. inbox_agrees r (qs_inbox s) x)
        \<and> s' = \<lparr>qs_inbox = filter (\<lambda>x. ir_message_id x \<notin> set (map qr_message_id (row # rows))) (qs_inbox s),
             qs_missing = qs_missing s @ gaps (qs_inbox s) (row # rows), qs_durable = qs_durable s @ d # ds\<rparr>)"
      if d: "admitted h r row d" for d
    proof (cases "?i \<in> set (map qr_message_id rows)")
      case True
      then show ?thesis unfolding Cons.IH using admitted_fst [OF d] by auto
    next
      case False
      then have "(\<forall>x \<in> set rows. inbox_agrees r (qs_inbox (?t d)) x) \<longleftrightarrow> (\<forall>x \<in> set rows. inbox_agrees r (qs_inbox s) x)"
        by (intro ball_cong refl other) (metis False image_eqI set_map)
      then show ?thesis unfolding Cons.IH drop gaps [OF False] first using False admitted_fst [OF d] by simp
    qed
    then show ?thesis by blast
  qed
  also have "\<dots> \<longleftrightarrow> (\<exists>ds. list_all2 (admitted h r) (row # rows) ds \<and> distinct (map qr_message_id (row # rows))
        \<and> set (map qr_message_id (row # rows)) \<inter> set (map fst (qs_durable s)) = {}
        \<and> (\<forall>x \<in> set (row # rows). inbox_agrees r (qs_inbox s) x)
        \<and> s' = \<lparr>qs_inbox = filter (\<lambda>x. ir_message_id x \<notin> set (map qr_message_id (row # rows))) (qs_inbox s),
             qs_missing = qs_missing s @ gaps (qs_inbox s) (row # rows), qs_durable = qs_durable s @ ds\<rparr>)"
    unfolding list_all2_Cons1 by auto
  finally show ?case .
qed

lemma missing_checks_iff:
  "missing_checks r n s = Inr u \<longleftrightarrow>
     qs_inbox s = [] \<and> (set (qs_missing s) = set (target_ids r) \<or> qs_missing s = [])
     \<and> (int n = rp_inbox r \<longrightarrow> set (qs_missing s) = set (target_ids r)) \<and> (int n = rp_outbox r \<longrightarrow> qs_missing s = [])"
  by (auto simp: missing_checks_def in_order_Inr simp del: in_order.simps)

lemma queue_report_cong: "set a = set b \<Longrightarrow> queue_report n k a = queue_report n k b"
  by (simp add: queue_report_def sorted_set_cong [of a b])

lemma set_gaps: "set (gaps inbox rows) = set (map qr_message_id rows) - set (map ir_message_id inbox)"
  by (auto simp: gaps_def)

lemma validate_queue_iff:
  "validate_queue h r sent inbox = Inr (queue, durable, completed) \<longleftrightarrow>
     int (length sent) = rp_outbox r \<and> int (length inbox) \<in> {rp_inbox r, rp_outbox r}
     \<and> (\<forall>x \<in> set inbox. inbox_row_ok r x) \<and> distinct (map ir_message_id inbox) \<and> completed = map ir_message_id inbox
     \<and> list_all2 (admitted h r) sent durable \<and> distinct (map qr_message_id sent)
     \<and> (\<forall>row \<in> set sent. inbox_agrees r inbox row)
     \<and> set (map ir_message_id inbox) \<subseteq> set (map qr_message_id sent)
     \<and> (set (gaps inbox sent) = set (target_ids r) \<or> gaps inbox sent = [])
     \<and> (int (length inbox) = rp_inbox r \<longrightarrow> set (gaps inbox sent) = set (target_ids r))
     \<and> (int (length inbox) = rp_outbox r \<longrightarrow> gaps inbox sent = [])
     \<and> queue = queue_report (length sent) (length inbox) (gaps inbox sent)"
  by (auto simp: validate_queue_def py_bind_Inr_iff index_inbox_iff scan_run_iff missing_checks_iff filter_empty_conv image_subset_iff
      simp del: py_run.simps)

lemma find_distinct:
  assumes "distinct (map ir_message_id inbox)" "x \<in> set inbox"
  shows "find (\<lambda>y. ir_message_id y = ir_message_id x) inbox = Some x"
  using assms by (induction inbox) auto

lemma inbox_agrees_known:
  assumes "distinct (map ir_message_id inbox)" "set (map ir_message_id inbox) \<subseteq> set (map qr_message_id sent)"
    and "distinct (map qr_message_id sent)"
  shows "(\<forall>row \<in> set sent. inbox_agrees r inbox row) \<longleftrightarrow>
    set (map qr_message_id sent) - set (map ir_message_id inbox) \<subseteq> set (target_ids r)
    \<and> (\<forall>x \<in> set inbox. \<exists>row \<in> set sent. qr_message_id row = ir_message_id x \<and> qr_sha256 row = ir_sha256 x)"
  (is "?L \<longleftrightarrow> ?G \<and> ?H")
proof -
  have known: "inbox_agrees r inbox row \<longleftrightarrow> ir_sha256 x = qr_sha256 row" if "x \<in> set inbox" "ir_message_id x = qr_message_id row" for x row
    using find_distinct [OF assms(1) that(1)] that(2) by (simp add: inbox_agrees_def)
  have gap: "inbox_agrees r inbox row \<longleftrightarrow> qr_message_id row \<in> set (target_ids r)" if "qr_message_id row \<notin> set (map ir_message_id inbox)" for row
    using that gap_iff [of "qr_message_id row" inbox] by (simp add: inbox_agrees_def)
  have same: "a = b" if "a \<in> set sent" "b \<in> set sent" "qr_message_id a = qr_message_id b" for a b
    using assms(3) that by (simp add: distinct_map inj_on_def)
  show ?thesis
  proof
    assume L: ?L
    have ?G using L gap by auto
    moreover have ?H using L known assms(2) by (fastforce simp: image_subset_iff)
    ultimately show "?G \<and> ?H" ..
  next
    assume R: "?G \<and> ?H"
    show ?L
    proof
      fix row assume row: "row \<in> set sent"
      show "inbox_agrees r inbox row"
      proof (cases "qr_message_id row \<in> set (map ir_message_id inbox)")
        case True
        then obtain x where x: "x \<in> set inbox" "ir_message_id x = qr_message_id row" by auto
        then obtain row' where "row' \<in> set sent" "qr_message_id row' = qr_message_id row" "qr_sha256 row' = ir_sha256 x"
          using R by metis
        then show ?thesis using known [OF x] same [of row' row] row by simp
      next
        case False
        then show ?thesis using gap R row by auto
      qed
    qed
  qed
qed

text \<open>The accepted queues, with the gap as a list.\<close>

definition queue_accepted ::
  "recovery_host \<Rightarrow> recovery_profile \<Rightarrow> queue_row list \<Rightarrow> inbox_row list \<Rightarrow> items
    \<Rightarrow> (string \<times> string \<times> string) list \<Rightarrow> string list \<Rightarrow> bool" where
  "queue_accepted h r sent inbox queue durable missing \<longleftrightarrow>
    missing \<in> {[], target_ids r} \<and> int (length sent) = rp_outbox r
    \<and> distinct (map qr_message_id sent) \<and> distinct (map ir_message_id inbox) \<and> list_all2 (admitted h r) sent durable
    \<and> (\<forall>x \<in> set inbox. inbox_row_ok r x)
    \<and> (\<forall>x \<in> set inbox. \<exists>row \<in> set sent. qr_message_id row = ir_message_id x \<and> qr_sha256 row = ir_sha256 x)
    \<and> set (map qr_message_id sent) = set (map ir_message_id inbox) \<union> set missing
    \<and> set (map ir_message_id inbox) \<inter> set missing = {} \<and> queue = queue_report (length sent) (length inbox) missing"

lemma queue_sound:
  assumes "validate_queue h r sent inbox = Inr (queue, durable, completed)"
  obtains missing where "queue_accepted h r sent inbox queue durable missing" "completed = map ir_message_id inbox"
proof -
  note l = assms [unfolded validate_queue_iff]
  have g: "set (gaps inbox sent) = set (map qr_message_id sent) - set (map ir_message_id inbox)" by (rule set_gaps)
  obtain missing where m: "missing \<in> {[], target_ids r}" "set (gaps inbox sent) = set missing" using l by auto
  have "set (map qr_message_id sent) = set (map ir_message_id inbox) \<union> set missing" "set (map ir_message_id inbox) \<inter> set missing = {}"
    using l m(2) g by auto
  moreover have "queue = queue_report (length sent) (length inbox) missing" using l queue_report_cong [OF m(2)] by simp
  ultimately have "queue_accepted h r sent inbox queue durable missing"
    using l m(1) inbox_agrees_known [of inbox sent r] unfolding queue_accepted_def by blast
  then show ?thesis using that l by blast
qed

lemma queue_lengths:
  assumes "profile_ok r" "queue_accepted h r sent inbox queue durable missing"
  shows "length inbox + length missing = length sent" "int (length inbox) = (if missing = [] then rp_outbox r else rp_inbox r)"
proof -
  note a = assms(2) [unfolded queue_accepted_def]
  have d: "distinct missing" using a assms(1) by (auto simp: profile_ok_def)
  have "card (set (map qr_message_id sent)) = card (set (map ir_message_id inbox)) + card (set missing)"
    using a card_Un_disjoint [of "set (map ir_message_id inbox)" "set missing"] by simp
  then show n: "length inbox + length missing = length sent"
    using a distinct_card [OF d] distinct_card [of "map qr_message_id sent"] distinct_card [of "map ir_message_id inbox"] by simp
  have "missing = [] \<or> missing = target_ids r" using a by simp
  then show "int (length inbox) = (if missing = [] then rp_outbox r else rp_inbox r)"
    using a n assms(1) by (auto simp: profile_ok_def target_ids_def)
qed

lemma queue_shows:
  assumes "profile_ok r" "validate_queue h r sent inbox = Inr (queue, durable, completed)"
  obtains missing where "missing \<in> {[], target_ids r}"
    "set (map qr_message_id sent) = set (map ir_message_id inbox) \<union> set missing" "set (map ir_message_id inbox) \<inter> set missing = {}"
    "queue = queue_report (length sent) (length inbox) missing" "completed = map ir_message_id inbox"
    "list_all2 (admitted h r) sent durable" "distinct (map qr_message_id sent)" "distinct (map ir_message_id inbox)"
    "int (length sent) = rp_outbox r" "length inbox + length missing = length sent"
proof -
  obtain missing where m: "queue_accepted h r sent inbox queue durable missing" "completed = map ir_message_id inbox"
    by (rule queue_sound [OF assms(2)])
  note a = m(1) [unfolded queue_accepted_def]
  show ?thesis by (rule that [of missing]) (use a m(2) queue_lengths(1) [OF assms(1) m(1)] in blast)+
qed

lemma queue_complete:
  assumes "profile_ok r" and R: "queue_accepted h r sent inbox queue durable missing"
  shows "validate_queue h r sent inbox = Inr (queue, durable, map ir_message_id inbox)"
proof -
  note a = R [unfolded queue_accepted_def]
  have sub: "set (map ir_message_id inbox) \<subseteq> set (map qr_message_id sent)" using a by blast
  have g: "set (gaps inbox sent) = set missing" using a unfolding set_gaps by blast
  have "set missing \<subseteq> set (target_ids r)" using a by auto
  then have "set (map qr_message_id sent) - set (map ir_message_id inbox) \<subseteq> set (target_ids r)"
    using g unfolding set_gaps by (simp only:)
  then have agree: "\<forall>row \<in> set sent. inbox_agrees r inbox row"
    using a inbox_agrees_known [of inbox sent r] sub by blast
  have pos: "0 < int (length (rp_targets r))" "rp_outbox r = rp_inbox r + int (length (rp_targets r))"
    using assms(1) by (simp_all add: profile_ok_def)
  note len = queue_lengths(2) [OF assms(1) R]
  have split: "missing = [] \<and> gaps inbox sent = [] \<or> missing \<noteq> [] \<and> set (gaps inbox sent) = set (target_ids r)"
    using g a by (metis insertE set_empty singletonD)
  show ?thesis unfolding validate_queue_iff
  proof (intro conjI)
    show "queue = queue_report (length sent) (length inbox) (gaps inbox sent)" using a queue_report_cong [OF g] by simp
    show "int (length inbox) \<in> {rp_inbox r, rp_outbox r}" using len by simp
    show "set (gaps inbox sent) = set (target_ids r) \<or> gaps inbox sent = []" using split by blast
    show "int (length inbox) = rp_inbox r \<longrightarrow> set (gaps inbox sent) = set (target_ids r)" using len split pos by (auto split: if_splits)
    show "int (length inbox) = rp_outbox r \<longrightarrow> gaps inbox sent = []" using len split pos by (auto split: if_splits)
  qed (use a agree sub in blast)+
qed

text \<open>
  C15: the queue validator accepts exactly the outboxes of the fixed size whose rows were each published once and
  carry the identity and the digest of their payload, with an inbox of completed rows of this consumer, each with the digest of its
  outbox row, that lacks either nothing or exactly the targets; it returns what \<open>admitted\<close> says of each row and the report of the gap.
\<close>

theorem validate_queue_exact:
  assumes "profile_ok r"
  shows "validate_queue h r sent inbox = Inr (queue, durable, completed) \<longleftrightarrow>
    int (length sent) = rp_outbox r \<and> distinct (map qr_message_id sent) \<and> list_all2 (admitted h r) sent durable
    \<and> completed = map ir_message_id inbox \<and> distinct completed
    \<and> (\<forall>x \<in> set inbox. inbox_row_ok r x
        \<and> (\<exists>row \<in> set sent. qr_message_id row = ir_message_id x \<and> qr_sha256 row = ir_sha256 x))
    \<and> (\<exists>missing \<in> {[], target_ids r}. set (map qr_message_id sent) = set completed \<union> set missing
        \<and> set completed \<inter> set missing = {} \<and> queue = queue_report (length sent) (length inbox) missing)"
  (is "?L \<longleftrightarrow> ?R")
proof
  assume ?L
  then obtain missing where m: "queue_accepted h r sent inbox queue durable missing" "completed = map ir_message_id inbox"
    by (rule queue_sound)
  show ?R using m(1) unfolding queue_accepted_def m(2) by (elim conjE) (intro conjI ballI bexI [of _ missing], simp_all)
next
  assume ?R
  then obtain missing where "queue_accepted h r sent inbox queue durable missing" "completed = map ir_message_id inbox"
    unfolding queue_accepted_def by (elim conjE bexE) auto
  from queue_complete [OF assms this(1)] this(2) show ?L by simp
qed

end
