(* ===== verification/Recovery_Redis.thy ===== *)
theory Recovery_Redis
  imports Recovery_Queue
begin

text \<open>
  \<^verbatim>\<open>_redis_snapshot\<close> of \<^verbatim>\<open>src/scripts/runtime_epoch_read_recovery_worker.py\<close>: the publication ledger, the stream and
  the pending deliveries of the consumer group, against the outbox and the inbox of the same epoch. The
  answers of Redis are a \<open>redis_view\<close>.
\<close>

section \<open>Digests\<close>

text \<open>\<^verbatim>\<open>digest\<close>: SHA-256 of \<^verbatim>\<open>json.dumps(value, sort_keys=True, separators=(",", ":"))\<close>, which escapes what is not printable ASCII.\<close>

definition state_digest :: "recovery_host \<Rightarrow> pyval \<Rightarrow> string py" where
  "state_digest h v = py_bind (json_text (lenient_float (rh_float_text h)) v) (\<lambda>t. Inr (rh_sha256 h (ascii_json t)))"

definition sorted_strs :: "string list \<Rightarrow> string list" where
  "sorted_strs xs = map fst (foldr key_insort (map (\<lambda>s. (s, ())) xs) [])"

section \<open>Stream identifiers\<close>

text \<open>\<^verbatim>\<open>tuple(int(part) for part in value.split("-", 1))\<close>; its arguments have been checked to be two
  runs of digits. A run of more than 4300 digits is refused by the interpreter.\<close>

definition digits_value :: "string \<Rightarrow> int py" where
  "digits_value s = (if s = [] \<or> \<not> list_all is_digit s \<or> 4300 < length s then Inl ValueError else Inr (int (parse_nat s)))"

definition stream_id_key :: "string \<Rightarrow> int list py" where
  "stream_id_key s =
     (case partition_at (CHR ''-'') s of (a, found, b) \<Rightarrow> py_map digits_value (if found then [a, b] else [a]))"

fun key_less :: "int list \<Rightarrow> int list \<Rightarrow> bool" where
  "key_less xs [] = False"
| "key_less [] (y # ys) = True"
| "key_less (x # xs) (y # ys) = (x < y \<or> (x = y \<and> key_less xs ys))"

definition at_most :: "string \<Rightarrow> string \<Rightarrow> bool py" where
  "at_most a b = py_bind (stream_id_key a) (\<lambda>x. py_bind (stream_id_key b) (\<lambda>y. Inr (x = y \<or> key_less x y)))"

section \<open>What Redis answers\<close>

type_synonym stream_row = "string \<times> (string \<times> string) list"

record redis_view =
  rv_receipt :: "string \<Rightarrow> string option"
  rv_at :: "string \<Rightarrow> stream_row list"
  rv_stream :: "stream_row list"
  rv_groups :: "(string \<times> string) list"
  rv_pending :: "int option"
  rv_details :: "(string \<times> string) list"

definition loads_or_none :: "recovery_host \<Rightarrow> string option \<Rightarrow> pyval py" where
  "loads_or_none h raw = (case raw of None \<Rightarrow> Inr PNone | Some s \<Rightarrow> if s = [] then Inr PNone else rh_loads h s)"

text \<open>Only a string can have a text of the form of a stream identifier.\<close>

definition receipt_value :: "pyval \<Rightarrow> (pyval \<times> string) option" where
  "receipt_value v = (case v of PList [a, PStr s] \<Rightarrow> Some (a, s) | _ \<Rightarrow> None)"

definition holds_only :: "stream_row list \<Rightarrow> string \<Rightarrow> bool" where
  "holds_only rows encoded \<longleftrightarrow> map snd rows = [[(''data'', encoded)]]"

definition read_receipt :: "recovery_host \<Rightarrow> redis_view \<Rightarrow> string \<times> string \<times> string \<Rightarrow> (string \<times> string \<times> string) py" where
  "read_receipt h view = (\<lambda>(i, hashed, encoded).
     py_bind (loads_or_none h (rv_receipt view i)) (\<lambda>v.
       case receipt_value v of
         None \<Rightarrow> epoch_fail ''R5_REDIS_RECEIPT_CONFLICT''
       | Some (a, s) \<Rightarrow>
           if a \<noteq> PStr hashed \<or> \<not> receipt_text s then epoch_fail ''R5_REDIS_RECEIPT_CONFLICT''
           else if \<not> holds_only (rv_at view s) encoded then epoch_fail ''R5_REDIS_STREAM_RECEIPT_CONFLICT''
           else Inr (i, hashed, s)))"

definition validate_boot_stream_rows :: "stream_row list \<Rightarrow> (string \<times> string \<times> string) list \<Rightarrow> string list \<Rightarrow> unit py" where
  "validate_boot_stream_rows rows durable receipt_ids =
     fail_when
       (length rows \<noteq> length durable + 1 \<or> \<not> distinct (map fst rows) \<or> \<not> set receipt_ids \<subseteq> set (map fst rows)
        \<or> list_ex (\<lambda>(_, entry). case entry of
             [(k, v)] \<Rightarrow> k \<noteq> ''data'' \<or> v \<notin> set (map (\<lambda>(_, _, encoded). encoded) durable)
           | _ \<Rightarrow> True) rows)
       ''BOOT_REDIS_UNOWNED_STREAM_ENTRY''"

section \<open>The consumer group\<close>

definition target_map :: "recovery_profile \<Rightarrow> (string \<times> string \<times> string) list \<Rightarrow> (string \<times> string) list" where
  "target_map r receipts = fold (\<lambda>(i, _, s) m. if i \<in> set (target_ids r) then dict_set s i m else m) receipts []"

definition consumer_text :: "string \<Rightarrow> bool" where
  "consumer_text s \<longleftrightarrow>
     startswith s ''consumer-'' \<and> (let rest = drop 9 s in rest \<noteq> [] \<and> length rest \<le> 128
       \<and> list_all (\<lambda>c. is_lower c \<or> is_upper c \<or> is_digit c \<or> c \<in> {CHR ''_'', CHR ''.'', CHR ''-''}) rest)"

definition last_id :: "stream_row list \<Rightarrow> string option" where
  "last_id rows = (if rows = [] then None else Some (fst (last rows)))"

text \<open>\<open>targets\<close> maps stream identifiers to messages; \<open>delivered\<close> are those up to the cursor.\<close>

definition pending_set_ok ::
  "recovery_profile \<Rightarrow> redis_view \<Rightarrow> (string \<times> string) list \<Rightarrow> string list \<Rightarrow> string list \<Rightarrow> string list \<Rightarrow> string \<Rightarrow> bool" where
  "pending_set_ok r view targets delivered completed_ids missing_ids cursor \<longleftrightarrow>
     (let ids = map fst (rv_details view);
          completed = set (map fst (filter (\<lambda>(_, i). i \<in> set completed_ids) targets));
          missing = set (map fst (filter (\<lambda>(_, i). i \<in> set missing_ids) targets)) in
      map fst (rv_groups view) = [''bars''] \<and> rv_pending view = Some (int (length ids)) \<and> length ids \<le> length (rp_targets r)
      \<and> set ids \<subseteq> set (map fst targets) \<and> distinct ids \<and> missing \<inter> set delivered \<subseteq> set ids \<and> set ids \<subseteq> set delivered
      \<and> set delivered \<subseteq> set ids \<union> completed \<and> completed \<subseteq> set delivered \<and> cursor \<in> set (map fst (rv_stream view))
      \<and> list_all (\<lambda>d. consumer_text (snd d)) (rv_details view)
      \<and> (missing_ids = [] \<longrightarrow> ids = [] \<and> last_id (rv_stream view) = Some cursor))"

definition receipts_value :: "(string \<times> string \<times> string) list \<Rightarrow> pyval" where
  "receipts_value receipts = PDict (map (\<lambda>(i, hashed, s). (i, PList [PStr hashed, PStr s])) receipts)"

definition stream_value :: "stream_row list \<Rightarrow> pyval" where
  "stream_value rows = PList (map (\<lambda>(s, entry). PList [PStr s, PDict (map (\<lambda>(k, v). (k, PStr v)) entry)]) rows)"

definition redis_report ::
  "recovery_host \<Rightarrow> redis_view \<Rightarrow> (string \<times> string \<times> string) list \<Rightarrow> (string \<times> string) list \<Rightarrow> string \<Rightarrow> items py" where
  "redis_report h view receipts targets cursor =
     (let ids = map fst (rv_details view);
          rows = rv_stream view in
      py_bind (state_digest h (receipts_value receipts)) (\<lambda>receipts_sha.
      py_bind (state_digest h (PList (map PStr (sorted_strs (map fst receipts))))) (\<lambda>ids_sha.
      py_bind (state_digest h (stream_value rows)) (\<lambda>stream_sha.
        Inr [(''stream_entries'', PInt (int (length rows))),
             (''publication_receipts'', PInt (int (length (remdups (map (\<lambda>(_, _, s). s) receipts))))),
             (''publication_receipts_sha256'', PStr receipts_sha), (''publication_message_ids_sha256'', PStr ids_sha),
             (''stream_sha256'', PStr stream_sha), (''stream_last_id'', case last_id rows of None \<Rightarrow> PNone | Some s \<Rightarrow> PStr s),
             (''consumer_group'', PStr ''bars''), (''last_delivered_id'', PStr cursor), (''pending_deliveries'', PInt (int (length ids))),
             (''pending_target_message_ids'', PList (map PStr (sorted_strs (map (\<lambda>s. the (map_of targets s)) ids)))),
             (''trading_started'', PBool False)]))))"

definition redis_snapshot ::
  "recovery_host \<Rightarrow> recovery_profile \<Rightarrow> redis_view \<Rightarrow> (string \<times> string \<times> string) list \<Rightarrow> string list \<Rightarrow> string list \<Rightarrow> items py" where
  "redis_snapshot h r view durable completed_ids missing_ids =
     py_bind (py_map (read_receipt h view) durable) (\<lambda>receipts.
     py_bind (validate_boot_stream_rows (rv_stream view) durable (map (\<lambda>(_, _, s). s) receipts)) (\<lambda>_.
       let cursor = (case rv_groups view of [(_, l)] \<Rightarrow> l | _ \<Rightarrow> ''0-0'');
           targets = target_map r receipts in
       if \<not> receipt_text cursor then epoch_fail ''R5_REDIS_GROUP_CURSOR_INVALID''
       else
         py_bind (py_map (\<lambda>(s, _). py_bind (at_most s cursor) (\<lambda>b. Inr (s, b))) targets) (\<lambda>flags.
           if \<not> pending_set_ok r view targets (map fst (filter snd flags)) completed_ids missing_ids cursor
           then epoch_fail ''R5_REDIS_PENDING_SET_CONFLICT''
           else redis_report h view receipts targets cursor)))"

end
