(* ===== verification/Recovery_Drain.thy ===== *)
theory Recovery_Drain
  imports Recovery_Redis
begin

text \<open>
  The snapshot of the database, the comparison with a restored copy, the consumer of the pending messages and
  the supervised drain of \<^verbatim>\<open>src/scripts/runtime_epoch_read_recovery_worker.py\<close>, with the dispatch of
  the R5 and the R7 modes. What one transaction reads is a \<open>sql_view\<close>; what the message bus does with the
  consumer is a list of events, and the supervising loop sees one \<open>poll\<close> per turn.
\<close>

section \<open>The database\<close>

record sql_view =
  sv_database :: string
  sv_migrations :: "string list"
  sv_locks :: "bool list"
  sv_tables :: "string list"
  sv_digest :: "string \<Rightarrow> (int \<times> string) py"
  sv_audit_again :: "(int \<times> string) py"
  sv_prefix :: "int \<times> string"
  sv_chain :: "string \<Rightarrow> int \<times> int \<times> int \<times> int"
  sv_outbox :: "queue_row list"
  sv_inbox :: "inbox_row list"
  sv_unaudited :: int
  sv_sequences :: "(string \<times> int \<times> bool) list"
  sv_preserved :: "string \<Rightarrow> int \<times> string"

definition digest_value :: "int \<times> string \<Rightarrow> pyval" where
  "digest_value d = PDict [(''count'', PInt (fst d)), (''sha256'', PStr (snd d))]"

definition verify_schema :: "schema \<Rightarrow> sql_view \<Rightarrow> unit py" where
  "verify_schema p v = fail_when (sv_migrations v \<noteq> sp_migrations p) ''EXACT_CONTROLLED_SCHEMA_REQUIRED''"

definition validate_no_epoch_workers :: "sql_view \<Rightarrow> unit py" where
  "validate_no_epoch_workers v = fail_when (False \<in> set (sv_locks v)) ''EPOCH_WORKER_LOCK_STILL_HELD''"

definition validate_epoch_table_inventory :: "schema \<Rightarrow> string list \<Rightarrow> unit py" where
  "validate_epoch_table_inventory p tables = fail_when (tables \<noteq> sp_public_tables p) ''EXACT_EPOCH_TABLE_INVENTORY_REQUIRED''"

definition history_chain :: "sql_view \<Rightarrow> string \<Rightarrow> (string \<times> pyval) py" where
  "history_chain v symbol =
     (case sv_chain v symbol of (n, u, lo, hi) \<Rightarrow>
        if n = 0 \<or> n \<noteq> u then epoch_fail ''BOOT_HISTORY_UNIQUE_CHAIN_REQUIRED''
        else Inr (symbol, PDict [(''count'', PInt n), (''first_open_time_ms'', PInt lo), (''last_open_time_ms'', PInt hi),
               (''last_close_time_ms'', PInt (hi + MINUTE - 1))]))"

text \<open>\<^verbatim>\<open>boot_history_snapshot\<close>: the count and digest of the audit table, the chains, the original prefix.\<close>

definition boot_history_snapshot :: "schema \<Rightarrow> sql_view \<Rightarrow> ((int \<times> string) \<times> items \<times> items) py" where
  "boot_history_snapshot p v =
     py_bind (sv_audit_again v) (\<lambda>audit.
     py_bind (sv_digest v ''message_outbox'') (\<lambda>_.
     py_bind (py_map (history_chain v) FEED_SYMBOLS) (\<lambda>history.
     py_bind (validate_history_snapshot (PInt (fst audit)) history (PDict [(''anchors'', PDict history)])) (\<lambda>_.
       case expected_original_prefix p of
         PDict e \<Rightarrow>
           let prefix = dict_set ''audit_table_sha256'' (PStr (snd (sv_prefix v))) (dict_set ''rows'' (PInt (fst (sv_prefix v))) e) in
           if \<not> py_eq (PDict prefix) (PDict e) then epoch_fail ''BOOT_ORIGINAL_PREFIX_CONFLICT'' else Inr (audit, history, prefix)
       | _ \<Rightarrow> Inl TypeError))))"

text \<open>\<^verbatim>\<open>[a-z_][a-z0-9_]{0,62}\<close>\<close>

definition sequence_name :: "string \<Rightarrow> bool" where
  "sequence_name s \<longleftrightarrow> s \<noteq> [] \<and> length s \<le> 63 \<and> \<not> is_digit (hd s) \<and> list_all (\<lambda>c. is_lower c \<or> is_digit c \<or> c = CHR ''_'') s"

definition sequence_values :: "(string \<times> int \<times> bool) list \<Rightarrow> items py" where
  "sequence_values rows =
     py_map (\<lambda>(name, value, called).
       if \<not> sequence_name name then epoch_fail ''R5_SEQUENCE_IDENTITY_REJECTED''
       else Inr (name, PDict [(''last_value'', PInt value), (''is_called'', PBool called)])) rows"

definition preserved_value :: "sql_view \<Rightarrow> string \<Rightarrow> string \<times> pyval" where
  "preserved_value v table = (table, PDict [(''n'', PInt (fst (sv_preserved v table))), (''sha'', PStr (snd (sv_preserved v table)))])"

type_synonym sql_state = "items \<times> (string \<times> string \<times> string) list \<times> string list"

definition sql_snapshot :: "recovery_host \<Rightarrow> recovery_profile \<Rightarrow> schema \<Rightarrow> string \<Rightarrow> sql_view \<Rightarrow> sql_state py" where
  "sql_snapshot h r p database v =
     py_bind (in_order [fail_when (sv_database v \<noteq> database) ''R5_DATABASE_IDENTITY_CONFLICT'', verify_schema p v,
       validate_no_epoch_workers v, validate_epoch_table_inventory p (sv_tables v)]) (\<lambda>_.
     py_bind (py_map (\<lambda>t. py_bind (sv_digest v t) (\<lambda>d. Inr (t, d))) (sv_tables v)) (\<lambda>digests.
     let tables = map (\<lambda>(t, d). (t, digest_value d)) digests in
     py_bind (in_order
       [fail_when (list_ex (\<lambda>(t, d). t \<notin> set BOOT_ALLOWED_NONEMPTY_TABLES \<and> fst d \<noteq> 0) digests) ''R5_NONTRADING_TABLE_NOT_EMPTY'',
        validate_boot_database_identity p tables PNone]) (\<lambda>_.
     py_bind (boot_history_snapshot p v) (\<lambda>(audit, history, prefix).
     py_bind (fail_when (dict_get tables ''event_audit'' \<noteq> digest_value audit \<or> fst audit \<noteq> rp_audit r) ''R5_AUDIT_HISTORY_CONFLICT'') (\<lambda>_.
     py_bind (validate_queue h r (sv_outbox v) (sv_inbox v)) (\<lambda>(queue, durable, completed).
     py_bind (fail_when (sv_unaudited v \<noteq> 0) ''R5_AUDIT_OUTBOX_IDENTITY_CONFLICT'') (\<lambda>_.
     py_bind (sequence_values (sv_sequences v)) (\<lambda>sequences.
       Inr ([(''state'', PStr ''PASS_R5_STATE''), (''matched_public_tables'', PInt (int (length tables))), (''tables'', PDict tables),
             (''sequences'', PDict sequences), (''anchors'', PDict history), (''original_prefix'', PDict prefix), (''queue'', PDict queue),
             (''preserved_queue_prefixes'', PDict (map (preserved_value v) [''message_outbox'', ''message_inbox''])),
             (''trading_started'', PBool False)], durable, completed)))))))))"

section \<open>The state of an epoch\<close>

definition missing_gaps :: "items \<Rightarrow> string list" where
  "missing_gaps state =
     (case dict_get state ''queue'' of
        PDict q \<Rightarrow> (case str_items (dict_get q ''missing_inbox_message_ids'') of Some ids \<Rightarrow> ids | None \<Rightarrow> [])
      | _ \<Rightarrow> [])"

definition state_snapshot ::
  "recovery_host \<Rightarrow> recovery_profile \<Rightarrow> schema \<Rightarrow> sql_view \<times> redis_view \<Rightarrow> items py" where
  "state_snapshot h r p = (\<lambda>(v, view).
     py_bind (sql_snapshot h r p (epoch_database (rp_owner r)) v) (\<lambda>(state, durable, completed).
     py_bind (redis_snapshot h r view durable completed (missing_gaps state)) (\<lambda>redis.
       Inr (state @ [(''redis'', PDict redis)]))))"

section \<open>A restored copy\<close>

text \<open>
  Both snapshots are taken by tasks of one group. When one fails the other is cancelled, unless it has ended:
  the flags say whether that happened before it could fail itself.
\<close>

definition task_errors :: "bool \<Rightarrow> 'a py \<Rightarrow> fault list" where
  "task_errors cancelled c = (case c of Inl e \<Rightarrow> if cancelled then [] else [Leaf e] | Inr _ \<Rightarrow> [])"

definition verify_restore ::
  "recovery_host \<Rightarrow> recovery_profile \<Rightarrow> schema \<Rightarrow> items \<Rightarrow> sql_view \<Rightarrow> sql_view \<Rightarrow> bool \<times> bool \<Rightarrow> fault + items" where
  "verify_restore h r p seed original restored cancelled =
     (let source = sql_snapshot h r p (epoch_database (rp_owner r)) original;
          clone = sql_snapshot h r p (restore_database r) restored in
      case (source, clone) of
        (Inr (s, _, _), Inr (c, _, _)) \<Rightarrow>
          lift_leaf
            (py_bind (validate_expected_state r p True seed) (\<lambda>expected.
               if \<not> py_eq (PDict s) (PDict (without [''redis''] expected)) \<or> \<not> py_eq (PDict c) (PDict s)
               then epoch_fail ''R5_FULL_RESTORE_STATE_CONFLICT''
               else Inr (dict_set ''state'' (PStr ''PASS_R5_ISOLATED_RESTORE'') s
                    @ [(''source_clone_sql_equal'', PBool True), (''redis_excluded_from_restore_equality'', PBool True)])))
      | _ \<Rightarrow> Inl (Group (task_errors (fst cancelled) source @ task_errors (snd cancelled) clone)))"

section \<open>The consumer\<close>

record envelope =
  en_topic :: string
  en_payload :: pyval

text \<open>
  What the message bus does: it yields an envelope to the consumer and answers the consumer's acknowledgement, or it
  has the transport acknowledge an envelope, which the transport confirms.
\<close>

datatype consumer_event = Delivered envelope "unit py" | Confirmed pyval

record consumer_state =
  cs_completed :: "string list"
  cs_acked :: "string list"
  cs_stop :: bool

definition expected_delivery :: "recovery_host \<Rightarrow> recovery_profile \<Rightarrow> envelope \<Rightarrow> string py" where
  "expected_delivery h r e =
     py_bind (rh_event h (en_payload e)) (\<lambda>event.
     py_bind (rh_canonical h (en_payload e)) (\<lambda>(_, hashed).
       case target_by_id r (be_message_id event) of
         None \<Rightarrow> epoch_fail ''R5_UNEXPECTED_DELIVERY_REJECTED''
       | Some t \<Rightarrow>
           if be_source event \<noteq> FEED_SOURCE \<or> be_symbol event \<noteq> rt_symbol t \<or> be_open_time_ms event \<noteq> rt_open_time_ms t
              \<or> hashed \<noteq> rt_sha256 t \<or> en_topic e \<noteq> FEED_TOPIC
           then epoch_fail ''R5_UNEXPECTED_DELIVERY_REJECTED''
           else Inr (be_message_id event)))"

text \<open>\<^verbatim>\<open>_AckTrackingTransport.ack\<close>\<close>

definition track_ack :: "recovery_profile \<Rightarrow> consumer_state \<Rightarrow> pyval \<Rightarrow> consumer_state py" where
  "track_ack r s payload =
     py_bind (py_get payload ''message_id'') (\<lambda>v.
       if \<not> hashable v then Inl TypeError
       else
         case v of
           PStr i \<Rightarrow>
             if i \<notin> set (target_ids r) then Inr s
             else
               let acked = List.insert i (cs_acked s) in
               Inr (s\<lparr>cs_acked := acked, cs_stop := (cs_stop s \<or> set acked = set (target_ids r))\<rparr>)
         | _ \<Rightarrow> Inr s)"

definition consume_event :: "recovery_host \<Rightarrow> recovery_profile \<Rightarrow> consumer_state \<Rightarrow> consumer_event \<Rightarrow> consumer_state py" where
  "consume_event h r s event =
     (case event of
        Delivered e answer \<Rightarrow>
          py_bind (expected_delivery h r e) (\<lambda>i. py_bind answer (\<lambda>_. Inr (s\<lparr>cs_completed := List.insert i (cs_completed s)\<rparr>)))
      | Confirmed payload \<Rightarrow> track_ack r s payload)"

definition consumer_start :: consumer_state where
  "consumer_start = \<lparr>cs_completed = [], cs_acked = [], cs_stop = False\<rparr>"

definition consume_exact :: "recovery_host \<Rightarrow> recovery_profile \<Rightarrow> consumer_event list \<Rightarrow> consumer_state py" where
  "consume_exact h r events = py_run (consume_event h r) consumer_start events"

section \<open>The drain\<close>

text \<open>One turn of the supervising loop: the events of the task if it is done, and otherwise the rows of
  the targets in the inbox and the clock.\<close>

record poll =
  po_done :: "consumer_event list option"
  po_rows :: "(string \<times> string \<times> string) list py"
  po_now :: int

definition completed_row :: "recovery_profile \<Rightarrow> string \<times> string \<times> string \<Rightarrow> bool py" where
  "completed_row r = (\<lambda>(i, sha256, status).
     if status \<noteq> ''COMPLETED'' then Inr False
     else case target_by_id r i of None \<Rightarrow> Inl KeyError | Some t \<Rightarrow> Inr (sha256 = rt_sha256 t))"

definition poll_turn :: "recovery_host \<Rightarrow> recovery_profile \<Rightarrow> int \<Rightarrow> poll \<Rightarrow> consumer_state option py" where
  "poll_turn h r deadline turn =
     (case po_done turn of
        Some events \<Rightarrow>
          py_bind (consume_exact h r events) (\<lambda>s.
            if set (cs_completed s) \<noteq> set (target_ids r) then epoch_fail ''R5_CONSUMER_STOPPED_BEFORE_EXACT_COMPLETION''
            else if set (cs_acked s) \<noteq> set (target_ids r) then epoch_fail ''R5_TRANSPORT_ACK_SET_INCOMPLETE''
            else Inr (Some s))
      | None \<Rightarrow>
          py_bind (po_rows turn) (\<lambda>rows.
          py_bind (if length rows \<noteq> length (rp_targets r) then Inr ()
                   else reject_if (py_any (\<lambda>row. py_bind (completed_row r row) (\<lambda>ok. Inr (\<not> ok))) rows)
                     (EpochError ''R5_COMPLETED_TARGET_INBOX_CONFLICT'')) (\<lambda>_.
            if deadline \<le> po_now turn then epoch_fail ''R5_EXACT_COMPLETION_DEADLINE'' else Inr None)))"

partial_function (option) poll_from ::
  "recovery_host \<Rightarrow> recovery_profile \<Rightarrow> int \<Rightarrow> (nat \<Rightarrow> poll) \<Rightarrow> nat \<Rightarrow> consumer_state py option" where
  "poll_from h r deadline polls n =
     (case poll_turn h r deadline (polls n) of
        Inl e \<Rightarrow> Some (Inl e)
      | Inr (Some s) \<Rightarrow> Some (Inr s)
      | Inr None \<Rightarrow> poll_from h r deadline polls (Suc n))"

definition sub_value :: "items \<Rightarrow> string \<Rightarrow> string \<Rightarrow> pyval" where
  "sub_value m k j = (case dict_get m k of PDict d \<Rightarrow> dict_get d j | _ \<Rightarrow> PNone)"

definition sub_keys :: "items \<Rightarrow> string \<Rightarrow> string list" where
  "sub_keys m k = (case dict_get m k of PDict d \<Rightarrow> map fst d | _ \<Rightarrow> [])"

definition cursor_moved_back :: "items \<Rightarrow> items \<Rightarrow> bool py" where
  "cursor_moved_back before after =
     (case (sub_value after ''redis'' ''last_delivered_id'', sub_value before ''redis'' ''last_delivered_id'') of
        (PStr a, PStr b) \<Rightarrow> py_bind (stream_id_key a) (\<lambda>x. py_bind (stream_id_key b) (\<lambda>y. Inr (key_less x y)))
      | _ \<Rightarrow> Inl AttributeError)"

definition drain_differs :: "recovery_profile \<Rightarrow> items \<Rightarrow> items \<Rightarrow> bool py" where
  "drain_differs r before after =
     py_or
       (map (\<lambda>t. Inr (\<not> py_eq (sub_value before ''tables'' t) (sub_value after ''tables'' t))) [''event_audit'', ''message_outbox'']
        @ map (\<lambda>k. Inr (\<not> py_eq (dict_get before k) (dict_get after k)))
            [''sequences'', ''anchors'', ''original_prefix'', ''preserved_queue_prefixes'']
        @ map (\<lambda>t. Inr (t \<noteq> ''message_inbox'' \<and> \<not> py_eq (sub_value before ''tables'' t) (sub_value after ''tables'' t)))
            (sub_keys before ''tables'')
        @ [Inr (py_truth (sub_value after ''queue'' ''missing_inbox_message_ids'')),
           Inr (\<not> py_eq (sub_value after ''queue'' ''completed_inbox'') (PInt (rp_outbox r)))]
        @ map (\<lambda>k. Inr (\<not> py_eq (sub_value after ''redis'' k) (sub_value before ''redis'' k)))
            [''stream_sha256'', ''publication_receipts_sha256'']
        @ [cursor_moved_back before after,
           Inr (\<not> py_eq (sub_value after ''redis'' ''last_delivered_id'') (sub_value after ''redis'' ''stream_last_id'')),
           Inr (\<not> py_eq (sub_value after ''redis'' ''pending_deliveries'') (PInt 0))]
        @ map (\<lambda>k. Inr (\<not> py_eq (sub_value after ''redis'' k) (sub_value before ''redis'' k)))
            [''stream_entries'', ''publication_receipts''])"

definition drain_report :: "recovery_host \<Rightarrow> recovery_profile \<Rightarrow> items \<Rightarrow> items \<Rightarrow> pyval \<Rightarrow> items py" where
  "drain_report h r before after metrics =
     py_bind (state_digest h (PDict before)) (\<lambda>before_sha.
     py_bind (state_digest h (PDict after)) (\<lambda>after_sha.
       Inr [(''state'', PStr ''PASS_EXACT_R5_INBOX_RECOVERY''), (''before_sha256'', PStr before_sha), (''after_sha256'', PStr after_sha),
            (''completed_message_ids'', PList (map PStr (sorted_set (target_ids r)))),
            (''completed_inbox_increment'', PInt (int (length (rp_targets r)))), (''published_messages'', PInt 0),
            (''stream_entries_added'', PInt 0), (''publication_receipts_added'', PInt 0), (''pending_deliveries'', PInt 0),
            (''redis_transport'', metrics), (''audit_history_preserved'', PBool True), (''outbox_and_sequences_preserved'', PBool True),
            (''trading_started'', PBool False)]))"

text \<open>\<open>telemetry\<close> is what the transport counted, to which the task adds the confirmed targets.\<close>

definition transport_metrics :: "items \<Rightarrow> consumer_state \<Rightarrow> pyval" where
  "transport_metrics telemetry s = PDict (telemetry @ [(''target_ack_message_ids'', PList (map PStr (sorted_set (cs_acked s))))])"

definition pending_targets_differ :: "recovery_profile \<Rightarrow> items \<Rightarrow> bool" where
  "pending_targets_differ r before \<longleftrightarrow>
     (case str_items (sub_value before ''redis'' ''pending_target_message_ids'') of
        Some ids \<Rightarrow> length ids > length (rp_targets r) \<or> \<not> set ids \<subseteq> set (target_ids r)
      | None \<Rightarrow> True)"

record drain_world =
  dw_before :: "sql_view \<times> redis_view"
  dw_start :: int
  dw_polls :: "nat \<Rightarrow> poll"
  dw_telemetry :: items
  dw_after :: "sql_view \<times> redis_view"

definition drain :: "recovery_host \<Rightarrow> recovery_profile \<Rightarrow> schema \<Rightarrow> items \<Rightarrow> drain_world \<Rightarrow> items py option" where
  "drain h r p expected w =
     (case state_snapshot h r p (dw_before w) of
        Inl e \<Rightarrow> Some (Inl e)
      | Inr before \<Rightarrow>
          if \<not> py_eq (PDict before) (PDict (without BINDING_KEYS expected)) then Some (epoch_fail ''R5_FULL_PRESTATE_CHANGED'')
          else if pending_targets_differ r before then Some (epoch_fail ''R5_PENDING_TARGET_SET_REQUIRED'')
          else
            map_option (\<lambda>done.
              py_bind done (\<lambda>s.
              py_bind (state_snapshot h r p (dw_after w)) (\<lambda>after.
              py_bind (reject_if (drain_differs r before after) (EpochError ''R5_DRAIN_PRESERVATION_CONFLICT'')) (\<lambda>_.
                drain_report h r before after (transport_metrics (dw_telemetry w) s)))))
              (poll_from h r (dw_start w + 60) (dw_polls w) 0))"

section \<open>Dispatch\<close>

record recovery_world =
  rw_drain :: drain_world
  rw_restored :: sql_view
  rw_cancelled :: "bool \<times> bool"

definition dispatch_r5 ::
  "recovery_host \<Rightarrow> recovery_profile \<Rightarrow> schema \<Rightarrow> string \<Rightarrow> pyval \<Rightarrow> recovery_world \<Rightarrow> (fault + items) option" where
  "dispatch_r5 h r p mode config w =
     (case recovery_validate_config r p mode config of
        Inl e \<Rightarrow> Some (Inl (Leaf e))
      | Inr _ \<Rightarrow>
          (case config of
             PDict m \<Rightarrow>
               if mode = ''r5-state'' then Some (lift_leaf (state_snapshot h r p (dw_before (rw_drain w))))
               else if mode = ''r5-verify-restore''
               then (case dict_get m ''expected_seed'' of
                       PDict seed \<Rightarrow> Some (verify_restore h r p seed (fst (dw_before (rw_drain w))) (rw_restored w) (rw_cancelled w))
                     | _ \<Rightarrow> Some (Inl (Leaf TypeError)))
               else (case dict_get m ''expected_state'' of
                       PDict expected \<Rightarrow> map_option lift_leaf (drain h r p expected (rw_drain w))
                     | _ \<Rightarrow> Some (Inl (Leaf TypeError)))
           | _ \<Rightarrow> Some (Inl (Leaf TypeError))))"

definition dispatch_r7 :: "recovery_host \<Rightarrow> schema \<Rightarrow> string \<Rightarrow> pyval \<Rightarrow> recovery_world \<Rightarrow> (fault + items) option" where
  "dispatch_r7 h p mode config w =
     (case normalize_config mode config of
        Inl e \<Rightarrow> Some (Inl (Leaf e))
      | Inr (internal, n) \<Rightarrow>
          map_option (\<lambda>result. case result of Inl f \<Rightarrow> Inl f | Inr m \<Rightarrow> lift_leaf (translate_result m))
            (dispatch_r5 h R7_PROFILE p internal n w))"

text \<open>\<^verbatim>\<open>main\<close> of the worker completes a result with what binds it to its epoch and mode.\<close>

definition worker_result :: "schema \<Rightarrow> string \<Rightarrow> string \<Rightarrow> string \<Rightarrow> items \<Rightarrow> items" where
  "worker_result p owner mode database m =
     fold (\<lambda>(k, v). dict_set k v)
       ((if is_current p
         then [(''schema_profile'', PStr (sp_identity p)), (''schema_migration_count'', PInt (int (length (sp_migrations p)))),
               (''schema_public_table_count'', PInt (int (length (sp_public_tables p))))]
         else [])
        @ [(''owner'', PStr owner), (''mode'', PStr mode), (''new_epoch_database'', PStr database)]) m"

end
