(* ===== verification/Recovery_Gate.thy ===== *)
theory Recovery_Gate
  imports Recovery_Drain
begin

text \<open>
  What the recovery of an inbox gap guarantees: when the supervising loop returns, what a report of success means for
  the states before and after, and which deliveries may be pending.
\<close>

section \<open>The supervising loop\<close>

lemma poll_from_stops:
  assumes "poll_turn h r deadline (polls k) \<noteq> Inr None" "n \<le> k"
  shows "\<exists>c. poll_from h r deadline polls n = Some c"
  using assms(2)
proof (induction "k - n" arbitrary: n)
  case 0
  then have "n = k" by simp
  then show ?case using assms(1) by (subst poll_from.simps) (auto split: sum.splits option.splits)
next
  case (Suc m)
  then have "\<exists>c. poll_from h r deadline polls (Suc n) = Some c" by simp
  then show ?case by (subst poll_from.simps) (auto split: sum.splits option.splits)
qed

lemma poll_from_result:
  "poll_from h r deadline polls n = Some c \<Longrightarrow>
    \<exists>k \<ge> n. poll_turn h r deadline (polls k) = (case c of Inl e \<Rightarrow> Inl e | Inr s \<Rightarrow> Inr (Some s))"
proof (induction rule: poll_from.raw_induct [rotated 1, consumes 1, case_names unfold])
  case (unfold self h r deadline polls n c)
  show ?case
  proof (cases "poll_turn h r deadline (polls n)")
    case (Inl e)
    then show ?thesis using unfold(2) by (intro exI [of _ n]) auto
  next
    case (Inr s)
    show ?thesis
    proof (cases s)
      case None
      have "\<exists>k \<ge> Suc n. poll_turn h r deadline (polls k) = (case c of Inl e \<Rightarrow> Inl e | Inr s \<Rightarrow> Inr (Some s))"
        by (rule unfold(1)) (use unfold(2) Inr None in simp)
      then show ?thesis by (meson Suc_leD)
    next
      case (Some s')
      then show ?thesis using unfold(2) Inr by (intro exI [of _ n]) auto
    qed
  qed
qed

lemma deadline_stops:
  assumes "deadline \<le> po_now turn"
  shows "poll_turn h r deadline turn \<noteq> Inr None"
  using assms by (auto simp: poll_turn_def py_bind_Inr_iff split: option.splits if_splits)

section \<open>The consumer\<close>

text \<open>
  What the consumer has recorded after some events: every completed target was delivered with its exact
  payload and its acknowledgement was answered, every confirmed target was confirmed by the transport, nothing but
  targets was delivered, and the stop signal is only given when all are confirmed.
\<close>

definition delivered_exactly :: "recovery_host \<Rightarrow> recovery_profile \<Rightarrow> consumer_event list \<Rightarrow> string \<Rightarrow> bool" where
  "delivered_exactly h r events i \<longleftrightarrow> (\<exists>e. Delivered e (Inr ()) \<in> set events \<and> expected_delivery h r e = Inr i)"

definition confirmed_by :: "consumer_event list \<Rightarrow> string \<Rightarrow> bool" where
  "confirmed_by events i \<longleftrightarrow> (\<exists>payload. Confirmed payload \<in> set events \<and> py_get payload ''message_id'' = Inr (PStr i))"

definition consumer_inv :: "recovery_host \<Rightarrow> recovery_profile \<Rightarrow> consumer_event list \<Rightarrow> consumer_state \<Rightarrow> bool" where
  "consumer_inv h r events s \<longleftrightarrow>
     (\<forall>i \<in> set (cs_completed s). delivered_exactly h r events i) \<and> (\<forall>i \<in> set (cs_acked s). confirmed_by events i)
     \<and> (\<forall>e a. Delivered e a \<in> set events \<longrightarrow> (\<exists>i \<in> set (target_ids r). expected_delivery h r e = Inr i))
     \<and> (cs_stop s \<longrightarrow> set (cs_acked s) = set (target_ids r)) \<and> set (cs_acked s) \<subseteq> set (target_ids r)"

lemma expected_delivery_target:
  "expected_delivery h r e = Inr i \<Longrightarrow> i \<in> set (target_ids r)"
  by (auto simp: expected_delivery_def py_bind_Inr_iff target_by_id_in split: option.splits if_splits)

lemma event_recorded:
  "delivered_exactly h r events i \<Longrightarrow> delivered_exactly h r (events @ [x]) i"
  "confirmed_by events i \<Longrightarrow> confirmed_by (events @ [x]) i"
  by (auto simp: delivered_exactly_def confirmed_by_def)

lemma consume_event_inv:
  assumes "consumer_inv h r events s" "consume_event h r s event = Inr s'"
  shows "consumer_inv h r (events @ [event]) s'"
proof (cases event)
  case (Delivered e answer)
  then obtain i where i: "expected_delivery h r e = Inr i" "answer = Inr ()" "s' = s\<lparr>cs_completed := List.insert i (cs_completed s)\<rparr>"
    using assms(2) by (auto simp: consume_event_def py_bind_Inr_iff)
  then have "delivered_exactly h r (events @ [event]) i" using Delivered by (auto simp: delivered_exactly_def)
  then show ?thesis using assms(1) i expected_delivery_target [OF i(1)] Delivered
    by (auto simp: consumer_inv_def event_recorded)
next
  case (Confirmed payload)
  obtain v where v: "py_get payload ''message_id'' = Inr v" using assms(2) Confirmed by (auto simp: consume_event_def track_ack_def py_bind_Inr_iff)
  show ?thesis
  proof (cases "\<exists>i. v = PStr i \<and> i \<in> set (target_ids r)")
    case True
    then obtain i where i: "v = PStr i" "i \<in> set (target_ids r)" by blast
    then have "confirmed_by (events @ [event]) i" using v Confirmed by (auto simp: confirmed_by_def)
    then show ?thesis using assms v i Confirmed
      by (auto simp: consume_event_def track_ack_def Let_def consumer_inv_def event_recorded)
  next
    case False
    then have "s' = s" using assms(2) v Confirmed by (auto simp: consume_event_def track_ack_def split: if_splits pyval.splits)
    then show ?thesis using assms(1) Confirmed by (auto simp: consumer_inv_def event_recorded)
  qed
qed

interpretation consumer: step_machine "consume_event h r" consumer_start "consumer_inv h r" for h r
  by unfold_locales (simp_all add: consumer_inv_def [of _ _ "[]"] consumer_start_def consume_event_inv)

section \<open>Comparison of states\<close>

lemma py_eq_items_get: "py_eq_items m n \<Longrightarrow> map_of m k = Some v \<Longrightarrow> \<exists>w. map_of n k = Some w \<and> py_eq v w"
  by (induction m) (auto split: option.splits if_splits)

lemma py_eq_get: "py_eq (PDict m) (PDict n) \<Longrightarrow> map_of m k = Some v \<Longrightarrow> py_eq v (dict_get n k)"
  by (auto simp: dict_get_def dest!: py_eq_items_get)

lemma without_lookup: "map_of (without ks m) k = (if k \<in> set ks then None else map_of m k)"
  by (induction m) (auto simp: without_def)

lemma py_eq_digest_value: "py_eq (digest_value a) (digest_value b) \<longleftrightarrow> a = b"
  by (cases a; cases b) (auto simp: digest_value_def)

section \<open>What a snapshot shows\<close>

lemma sql_snapshot_shows:
  assumes "sql_snapshot h r p database v = Inr (state, durable, completed)"
  obtains queue where "validate_queue h r (sv_outbox v) (sv_inbox v) = Inr (queue, durable, completed)"
    "dict_get state ''queue'' = PDict queue" "dict_get state ''redis'' = PNone" "map_of state ''redis'' = None"
    "sub_keys state ''tables'' = sp_public_tables p"
    "\<And>t. t \<in> set (sp_public_tables p) \<Longrightarrow> \<exists>d. sv_digest v t = Inr d \<and> sub_value state ''tables'' t = digest_value d"
    "\<exists>seqs. sequence_values (sv_sequences v) = Inr seqs \<and> dict_get state ''sequences'' = PDict seqs"
    "sv_database v = database" "False \<notin> set (sv_locks v)"
proof -
  obtain digests audit history prefix queue seqs where
    c: "in_order [fail_when (sv_database v \<noteq> database) ''R5_DATABASE_IDENTITY_CONFLICT'', verify_schema p v,
       validate_no_epoch_workers v, validate_epoch_table_inventory p (sv_tables v)] = Inr ()" and
    d: "py_map (\<lambda>t. py_bind (sv_digest v t) (\<lambda>d. Inr (t, d))) (sv_tables v) = Inr digests" and
    q: "validate_queue h r (sv_outbox v) (sv_inbox v) = Inr (queue, durable, completed)" and
    s: "sequence_values (sv_sequences v) = Inr seqs" and
    state: "state = [(''state'', PStr ''PASS_R5_STATE''), (''matched_public_tables'', PInt (int (length digests))),
             (''tables'', PDict (map (\<lambda>(t, d). (t, digest_value d)) digests)),
             (''sequences'', PDict seqs), (''anchors'', PDict history), (''original_prefix'', PDict prefix), (''queue'', PDict queue),
             (''preserved_queue_prefixes'', PDict (map (preserved_value v) [''message_outbox'', ''message_inbox''])),
             (''trading_started'', PBool False)]"
    using assms unfolding sql_snapshot_def Let_def by (auto simp: py_bind_Inr_iff split: prod.splits)
  have t: "map fst digests = sv_tables v" "\<forall>x \<in> set digests. sv_digest v (fst x) = Inr (snd x)"
    using py_map_tagged [OF d] by simp_all
  have tables: "sv_tables v = sp_public_tables p" "sv_database v = database" "False \<notin> set (sv_locks v)"
    using c by (simp_all add: in_order_Inr validate_epoch_table_inventory_def validate_no_epoch_workers_def py_bind_Inr_iff)
  have look: "\<exists>d. sv_digest v k = Inr d \<and> sub_value state ''tables'' k = digest_value d" if "k \<in> set (sp_public_tables p)" for k
  proof -
    have "k \<in> fst ` set digests" using that t(1) tables(1) by (metis list.set_map)
    then obtain d where m: "map_of digests k = Some d" by (metis map_of_eq_None_iff not_Some_eq)
    then have "sv_digest v k = Inr d" using t(2) by (fastforce dest: map_of_SomeD)
    moreover have "map_of (map (\<lambda>(t, d). (t, digest_value d)) digests) k = Some (digest_value d)"
      using m by (simp add: map_of_map)
    then have "sub_value state ''tables'' k = digest_value d" by (simp add: sub_value_def state dict_get_def)
    ultimately show ?thesis by blast
  qed
  show ?thesis
  proof (rule that [OF q])
    show "sub_keys state ''tables'' = sp_public_tables p"
      using t(1) tables(1) by (simp add: sub_keys_def state dict_get_def comp_def case_prod_unfold)
    show "\<exists>seqs. sequence_values (sv_sequences v) = Inr seqs \<and> dict_get state ''sequences'' = PDict seqs"
      using s by (simp add: state dict_get_def)
  qed (use look tables in \<open>simp_all add: state dict_get_def\<close>)
qed

section \<open>The pending deliveries\<close>

lemma dict_set_keys [simp]: "fst ` set (dict_set k v m) = insert k (fst ` set m)"
  by (induction k v m rule: dict_set.induct) auto

lemma dict_set_member: "x \<in> set (dict_set k v m) \<Longrightarrow> x = (k, v) \<or> x \<in> set m"
  by (induction k v m rule: dict_set.induct) (auto split: if_splits)

lemma dict_set_distinct: "distinct (map fst m) \<Longrightarrow> distinct (map fst (dict_set k v m))"
  by (induction k v m rule: dict_set.induct) (auto simp: image_iff dest: dict_set_member)

lemma dict_set_lookup: "map_of (dict_set k v m) = (map_of m)(k \<mapsto> v)"
  by (induction k v m rule: dict_set.induct) auto

lemma target_map_snoc:
  "target_map r (receipts @ [(i, hashed, s)])
    = (if i \<in> set (target_ids r) then dict_set s i (target_map r receipts) else target_map r receipts)"
  by (simp add: target_map_def)

lemma target_map_keys:
  "fst ` set (target_map r receipts) = {s. \<exists>i hashed. (i, hashed, s) \<in> set receipts \<and> i \<in> set (target_ids r)}"
proof (induction receipts rule: rev_induct)
  case (snoc x xs)
  then show ?case by (cases x) (auto simp: target_map_snoc)
qed (simp add: target_map_def)

lemma target_map_member:
  "(s, i) \<in> set (target_map r receipts) \<Longrightarrow> i \<in> set (target_ids r) \<and> (\<exists>hashed. (i, hashed, s) \<in> set receipts)"
proof (induction receipts rule: rev_induct)
  case (snoc x xs)
  then show ?case by (cases x) (auto simp: target_map_snoc split: if_splits dest!: dict_set_member)
qed (simp add: target_map_def)

lemma read_receipt_keeps: "read_receipt h view (i, hashed, encoded) = Inr x \<Longrightarrow> \<exists>s. x = (i, hashed, s)"
  by (auto simp: read_receipt_def py_bind_Inr_iff split: option.splits if_splits)

lemma receipts_ids:
  assumes "py_map (read_receipt h view) durable = Inr receipts"
  shows "map fst receipts = map fst durable"
proof -
  have "list_all2 (\<lambda>d x. fst x = fst d) durable receipts"
    using assms unfolding py_map_Inr by (rule list_all2_mono) (auto dest: read_receipt_keeps)
  then show ?thesis by (auto simp: list_all2_conv_all_nth intro: nth_equalityI)
qed

lemma delivered_flags:
  assumes "py_map (\<lambda>(s, _). py_bind (at_most s cursor) (\<lambda>b. Inr (s, b))) targets = Inr flags"
  shows "set (map fst (filter snd flags)) = {s \<in> fst ` set targets. at_most s cursor = Inr True}"
proof -
  have "list_all2 (\<lambda>t x. at_most (fst t) cursor = Inr (snd x) \<and> fst x = fst t) targets flags"
    using assms unfolding py_map_Inr by (rule list_all2_mono) (auto simp: py_bind_Inr_iff)
  then show ?thesis
  proof (induction rule: list_all2_induct)
    case (Cons t ts x xs)
    then show ?case by (cases x) auto
  qed simp
qed

lemma str_items_strs [simp]: "str_items (PList (map PStr xs)) = Some xs"
  by (simp add: str_items_def list_all_iff comp_def)

lemma queue_report_get [simp]:
  "dict_get (queue_report n k missing) ''missing_inbox_message_ids'' = PList (map PStr (sorted_set missing))"
  "dict_get (queue_report n k missing) ''completed_inbox'' = PInt (int k)"
  "dict_get (queue_report n k missing) ''outbox_rows'' = PInt (int n)"
  by (simp_all add: queue_report_def dict_get_def)

lemma state_snapshot_shows:
  assumes "state_snapshot h r p (v, view) = Inr state"
  obtains sql redis durable completed where
    "sql_snapshot h r p (epoch_database (rp_owner r)) v = Inr (sql, durable, completed)"
    "redis_snapshot h r view durable completed (missing_gaps sql) = Inr redis" "state = sql @ [(''redis'', PDict redis)]"
  using assms by (auto simp: state_snapshot_def py_bind_Inr_iff)

lemma redis_snapshot_shows:
  assumes "redis_snapshot h r view durable completed missing = Inr redis"
  obtains receipts cursor flags where "py_map (read_receipt h view) durable = Inr receipts"
    "validate_boot_stream_rows (rv_stream view) durable (map (\<lambda>(_, _, s). s) receipts) = Inr ()"
    "rv_groups view = [(''bars'', cursor)]" "receipt_text cursor"
    "py_map (\<lambda>(s, _). py_bind (at_most s cursor) (\<lambda>b. Inr (s, b))) (target_map r receipts) = Inr flags"
    "pending_set_ok r view (target_map r receipts) (map fst (filter snd flags)) completed missing cursor"
    "redis_report h view receipts (target_map r receipts) cursor = Inr redis"
proof -
  let ?cursor = "case rv_groups view of [(_, l)] \<Rightarrow> l | _ \<Rightarrow> ''0-0''"
  obtain receipts flags where a: "py_map (read_receipt h view) durable = Inr receipts"
    "validate_boot_stream_rows (rv_stream view) durable (map (\<lambda>(_, _, s). s) receipts) = Inr ()" "receipt_text ?cursor"
    "py_map (\<lambda>(s, _). py_bind (at_most s ?cursor) (\<lambda>b. Inr (s, b))) (target_map r receipts) = Inr flags"
    "pending_set_ok r view (target_map r receipts) (map fst (filter snd flags)) completed missing ?cursor"
    "redis_report h view receipts (target_map r receipts) ?cursor = Inr redis"
    using assms unfolding redis_snapshot_def Let_def by (auto simp: py_bind_Inr_iff split: if_splits)
  obtain l where "rv_groups view = [(''bars'', l)]" using a(5) by (auto simp: pending_set_ok_def Let_def map_eq_Cons_conv)
  with a that show ?thesis by simp
qed

lemma sorted_set_empty_iff: "sorted_set xs = [] \<longleftrightarrow> set xs = {}"
  by simp

lemma union_gap: "A = B \<union> C \<Longrightarrow> B \<inter> C = {} \<Longrightarrow> C \<noteq> {} \<Longrightarrow> B = A - C \<and> B \<noteq> A"
  by blast

text \<open>Every row of the outbox has the receipt and the entry that were read for it.\<close>

lemma receipts_follow:
  assumes "list_all2 (admitted h r) sent durable" "py_map (read_receipt h view) durable = Inr receipts"
  shows "list_all2 (\<lambda>row (i, hashed, s). i = qr_message_id row \<and> hashed = qr_sha256 row
      \<and> (\<exists>encoded. read_receipt h view (i, hashed, encoded) = Inr (i, hashed, s))) sent receipts"
proof (rule list_all2_trans [OF _ assms(1) assms(2) [unfolded py_map_Inr]])
  fix row d x assume d: "admitted h r row d" and x: "read_receipt h view d = Inr x"
  obtain encoded where e: "d = (qr_message_id row, qr_sha256 row, encoded)" using d by (auto simp: admitted_def)
  obtain s where s: "x = (qr_message_id row, qr_sha256 row, s)" using read_receipt_keeps [OF x [unfolded e]] by blast
  show "case x of (i, hashed, s) \<Rightarrow> i = qr_message_id row \<and> hashed = qr_sha256 row
      \<and> (\<exists>encoded. read_receipt h view (i, hashed, encoded) = Inr (i, hashed, s))"
    using x unfolding e s by auto
qed

text \<open>When no target is completed, the pending deliveries are those of the targets up to the cursor.\<close>

lemma pending_delivered:
  assumes "pending_set_ok r view (target_map r receipts) (map fst (filter snd flags)) completed missing cursor"
    and "py_map (\<lambda>(s, _). py_bind (at_most s cursor) (\<lambda>b. Inr (s, b))) (target_map r receipts) = Inr flags"
    and disjoint: "set completed \<inter> set (target_ids r) = {}"
  shows "set (map fst (rv_details view))
    = {s. \<exists>i hashed. (i, hashed, s) \<in> set receipts \<and> i \<in> set (target_ids r) \<and> at_most s cursor = Inr True}"
proof -
  have none: "filter (\<lambda>(_, i). i \<in> set completed) (target_map r receipts) = []" unfolding filter_empty_conv
  proof (intro ballI notI)
    fix x assume x: "x \<in> set (target_map r receipts)" "case x of (_, i) \<Rightarrow> i \<in> set completed"
    obtain s i where "x = (s, i)" by (cases x)
    then have "i \<in> set (target_ids r)" "i \<in> set completed" using x target_map_member [of s i r receipts] by simp_all
    then show False using disjoint by blast
  qed
  have "set (map fst (rv_details view)) \<subseteq> set (map fst (filter snd flags))"
    "set (map fst (filter snd flags)) \<subseteq> set (map fst (rv_details view))
       \<union> set (map fst (filter (\<lambda>(_, i). i \<in> set completed) (target_map r receipts)))"
    using assms(1) by (simp_all add: pending_set_ok_def Let_def)
  then have "set (map fst (rv_details view)) = set (map fst (filter snd flags))"
    unfolding none list.map list.set Un_empty_right by (rule subset_antisym)
  then show ?thesis unfolding delivered_flags [OF assms(2)] target_map_keys by blast
qed

text \<open>
  C16: in an accepted state every outbox row has its receipt and its stream entry, there is one consumer group, and either
  everything is consumed, nothing is pending and the cursor is at the end of the stream, or exactly the targets are missing
  from the inbox and the pending deliveries are exactly those targets that the cursor has passed.
\<close>

theorem pending_exact:
  assumes "profile_ok r" "state_snapshot h r p (v, view) = Inr state"
  shows "\<exists>receipts cursor.
    list_all2 (\<lambda>row (i, hashed, s). i = qr_message_id row \<and> hashed = qr_sha256 row
      \<and> (\<exists>encoded. read_receipt h view (i, hashed, encoded) = Inr (i, hashed, s))) (sv_outbox v) receipts
    \<and> rv_groups view = [(''bars'', cursor)] \<and> distinct (map fst (rv_details view))
    \<and> (if set (map ir_message_id (sv_inbox v)) = set (map qr_message_id (sv_outbox v))
       then rv_details view = [] \<and> last_id (rv_stream view) = Some cursor
       else set (map ir_message_id (sv_inbox v)) = set (map qr_message_id (sv_outbox v)) - set (target_ids r)
         \<and> set (map fst (rv_details view))
            = {s. \<exists>i hashed. (i, hashed, s) \<in> set receipts \<and> i \<in> set (target_ids r) \<and> at_most s cursor = Inr True})"
proof -
  obtain sql redis durable completed where sql: "sql_snapshot h r p (epoch_database (rp_owner r)) v = Inr (sql, durable, completed)"
    and redis: "redis_snapshot h r view durable completed (missing_gaps sql) = Inr redis"
    using state_snapshot_shows [OF assms(2)] .
  obtain queue where q: "validate_queue h r (sv_outbox v) (sv_inbox v) = Inr (queue, durable, completed)" "dict_get sql ''queue'' = PDict queue"
    using sql_snapshot_shows [OF sql] by metis
  obtain missing where m: "missing \<in> {[], target_ids r}"
    "set (map qr_message_id (sv_outbox v)) = set (map ir_message_id (sv_inbox v)) \<union> set missing"
    "set (map ir_message_id (sv_inbox v)) \<inter> set missing = {}" "queue = queue_report (length (sv_outbox v)) (length (sv_inbox v)) missing"
    and c: "completed = map ir_message_id (sv_inbox v)" and adm: "list_all2 (admitted h r) (sv_outbox v) durable"
    by (rule queue_shows [OF assms(1) q(1)])
  have mo: "missing_gaps sql = sorted_set missing" using q(2) m(4) by (simp add: missing_gaps_def)
  obtain receipts cursor flags where x: "py_map (read_receipt h view) durable = Inr receipts" "rv_groups view = [(''bars'', cursor)]"
    "py_map (\<lambda>(s, _). py_bind (at_most s cursor) (\<lambda>b. Inr (s, b))) (target_map r receipts) = Inr flags"
    "pending_set_ok r view (target_map r receipts) (map fst (filter snd flags)) completed (missing_gaps sql) cursor"
    by (rule redis_snapshot_shows [OF redis])
  have ok: "distinct (map fst (rv_details view))" "missing_gaps sql = [] \<longrightarrow> rv_details view = [] \<and> last_id (rv_stream view) = Some cursor"
    using x(4) by (simp_all add: pending_set_ok_def Let_def)
  show ?thesis
  proof (cases "missing = []")
    case True
    then show ?thesis using receipts_follow [OF adm x(1)] x(2) ok m(2) mo by auto
  next
    case False
    then have t: "missing = target_ids r" "set (target_ids r) \<noteq> {}" using m(1) by auto
    have g: "set (map ir_message_id (sv_inbox v)) = set (map qr_message_id (sv_outbox v)) - set (target_ids r)"
      "set (map ir_message_id (sv_inbox v)) \<noteq> set (map qr_message_id (sv_outbox v))"
      using union_gap [OF m(2,3) [unfolded t(1)] t(2)] by (rule conjunct1, rule conjunct2)
    have "set completed \<inter> set (target_ids r) = {}" using m(3) unfolding t(1) c .
    note p = pending_delivered [OF x(4,3) this]
    show ?thesis unfolding if_not_P [OF g(2)]
      by (intro exI [of _ receipts] exI [of _ cursor] conjI) (fact receipts_follow [OF adm x(1)] x(2) ok(1) g(1) p)+
  qed
qed

section \<open>The drain\<close>

lemma redis_report_shows:
  assumes "redis_report h view receipts targets cursor = Inr redis"
  shows "dict_get redis ''stream_entries'' = PInt (int (length (rv_stream view)))"
    "dict_get redis ''last_delivered_id'' = PStr cursor"
    "dict_get redis ''stream_last_id'' = (case last_id (rv_stream view) of None \<Rightarrow> PNone | Some s \<Rightarrow> PStr s)"
    "dict_get redis ''pending_deliveries'' = PInt (int (length (rv_details view)))"
    "\<exists>sha. state_digest h (stream_value (rv_stream view)) = Inr sha \<and> dict_get redis ''stream_sha256'' = PStr sha"
    "\<exists>sha. state_digest h (receipts_value receipts) = Inr sha \<and> dict_get redis ''publication_receipts_sha256'' = PStr sha"
  using assms by (auto simp: redis_report_def Let_def py_bind_Inr_iff dict_get_def)

text \<open>The facts of a state that the drain compares.\<close>

definition state_facts ::
  "recovery_host \<Rightarrow> recovery_profile \<Rightarrow> schema \<Rightarrow> sql_view \<Rightarrow> redis_view \<Rightarrow> items \<Rightarrow> string list \<Rightarrow> string \<Rightarrow> bool" where
  "state_facts h r p v view state missing cursor \<longleftrightarrow>
    missing \<in> {[], target_ids r}
    \<and> set (map qr_message_id (sv_outbox v)) = set (map ir_message_id (sv_inbox v)) \<union> set missing
    \<and> set (map ir_message_id (sv_inbox v)) \<inter> set missing = {}
    \<and> length (sv_inbox v) + length missing = length (sv_outbox v) \<and> int (length (sv_outbox v)) = rp_outbox r
    \<and> dict_get state ''queue'' = PDict (queue_report (length (sv_outbox v)) (length (sv_inbox v)) missing)
    \<and> sub_keys state ''tables'' = sp_public_tables p
    \<and> (\<forall>t \<in> set (sp_public_tables p). \<exists>d. sv_digest v t = Inr d \<and> sub_value state ''tables'' t = digest_value d)
    \<and> rv_groups view = [(''bars'', cursor)] \<and> sub_value state ''redis'' ''last_delivered_id'' = PStr cursor
    \<and> sub_value state ''redis'' ''stream_entries'' = PInt (int (length (rv_stream view)))
    \<and> sub_value state ''redis'' ''stream_last_id'' = (case last_id (rv_stream view) of None \<Rightarrow> PNone | Some s \<Rightarrow> PStr s)
    \<and> sub_value state ''redis'' ''pending_deliveries'' = PInt (int (length (rv_details view)))
    \<and> (\<exists>sha. state_digest h (stream_value (rv_stream view)) = Inr sha \<and> sub_value state ''redis'' ''stream_sha256'' = PStr sha)"

lemma state_shows:
  assumes "profile_ok r" "state_snapshot h r p (v, view) = Inr state"
  obtains missing cursor where "state_facts h r p v view state missing cursor"
proof -
  obtain sql redis durable completed where sql: "sql_snapshot h r p (epoch_database (rp_owner r)) v = Inr (sql, durable, completed)"
    and redis: "redis_snapshot h r view durable completed (missing_gaps sql) = Inr redis" and state: "state = sql @ [(''redis'', PDict redis)]"
    using state_snapshot_shows [OF assms(2)] .
  obtain queue where q: "validate_queue h r (sv_outbox v) (sv_inbox v) = Inr (queue, durable, completed)"
    "dict_get sql ''queue'' = PDict queue" "dict_get sql ''redis'' = PNone" "map_of sql ''redis'' = None"
    "sub_keys sql ''tables'' = sp_public_tables p"
    "\<And>t. t \<in> set (sp_public_tables p) \<Longrightarrow> \<exists>d. sv_digest v t = Inr d \<and> sub_value sql ''tables'' t = digest_value d"
    using sql_snapshot_shows [OF sql] by metis
  obtain missing where m: "missing \<in> {[], target_ids r}"
    "set (map qr_message_id (sv_outbox v)) = set (map ir_message_id (sv_inbox v)) \<union> set missing"
    "set (map ir_message_id (sv_inbox v)) \<inter> set missing = {}" "queue = queue_report (length (sv_outbox v)) (length (sv_inbox v)) missing"
    "int (length (sv_outbox v)) = rp_outbox r" "length (sv_inbox v) + length missing = length (sv_outbox v)"
    by (rule queue_shows [OF assms(1) q(1)])
  have other: "dict_get state k = dict_get sql k" if "k \<noteq> ''redis''" for k using that by (simp add: state dict_get_def map_add_def split: option.splits)
  have t: "sub_keys state ''tables'' = sub_keys sql ''tables''" "sub_value state ''tables'' = sub_value sql ''tables''"
    by (simp_all add: sub_keys_def sub_value_def other fun_eq_iff)
  have s: "sub_value state ''redis'' = dict_get redis" using q(4) by (simp add: sub_value_def state dict_get_def map_add_def fun_eq_iff)
  obtain receipts cursor where x: "rv_groups view = [(''bars'', cursor)]" "redis_report h view receipts (target_map r receipts) cursor = Inr redis"
    by (rule redis_snapshot_shows [OF redis])
  have "dict_get state ''queue'' = PDict (queue_report (length (sv_outbox v)) (length (sv_inbox v)) missing)"
    using q(2) m(4) by (simp add: other)
  moreover have "sub_keys state ''tables'' = sp_public_tables p" using q(5) t(1) by simp
  ultimately have "state_facts h r p v view state missing cursor"
    unfolding state_facts_def t(2) s using m q(6) x(1) redis_report_shows(1-5) [OF x(2)] by (intro conjI ballI)
  then show ?thesis by (rule that)
qed

lemma lift_leaf_result [simp]: "lift_leaf c = Inr x \<longleftrightarrow> c = Inr x"
  by (cases c) (simp_all add: lift_leaf_def)

lemma dispatch_drain_cases:
  assumes "dispatch_r5 h r p ''r5-drain'' config w = Some (Inr report)"
  obtains m e accepted before after s where "config = PDict m" "recovery_validate_config r p ''r5-drain'' (PDict m) = Inr ()"
    "dict_get m ''expected_state'' = PDict e" "validate_expected_state r p True e = Inr accepted"
    "state_snapshot h r p (dw_before (rw_drain w)) = Inr before" "py_eq (PDict before) (PDict (without BINDING_KEYS e))"
    "poll_from h r (dw_start (rw_drain w) + 60) (dw_polls (rw_drain w)) 0 = Some (Inr s)"
    "state_snapshot h r p (dw_after (rw_drain w)) = Inr after" "drain_differs r before after = Inr False"
    "drain_report h r before after (transport_metrics (dw_telemetry (rw_drain w)) s) = Inr report"
proof -
  obtain m where m: "config = PDict m" "recovery_validate_config r p ''r5-drain'' (PDict m) = Inr ()"
    using assms by (cases config) (auto simp: dispatch_r5_def recovery_validate_config_def split: sum.splits)
  obtain e accepted where e: "dict_get m ''expected_state'' = PDict e" "validate_expected_state r p True e = Inr accepted"
    using m(2) by (auto simp: recovery_validate_config_def expected_under_def py_bind_Inr_iff split: if_splits pyval.splits)
  have "map_option lift_leaf (drain h r p e (rw_drain w)) = Some (Inr report)"
    using assms m e(1) by (simp add: dispatch_r5_def split: sum.splits)
  then have d: "drain h r p e (rw_drain w) = Some (Inr report)"
    by (auto split: sum.splits)
  show ?thesis
    using d that [OF m e] by (auto simp: drain_def py_bind_Inr_iff reject_if_Inr split: sum.splits if_splits)
qed

lemma accepted_missing:
  assumes "validate_expected_state r p True e = Inr accepted"
  shows "\<exists>q. dict_get (without BINDING_KEYS e) ''queue'' = PDict q
    \<and> dict_get q ''missing_inbox_message_ids'' = PList (map PStr (sorted_set (target_ids r)))"
  using assms
  by (auto simp: validate_expected_state_def Let_def py_bind_Inr_iff in_order_Inr recovery_queue_ok_def py_eq_strs
      simp del: in_order.simps split: if_splits pyval.splits)

definition targets_consumed :: "recovery_host \<Rightarrow> recovery_profile \<Rightarrow> consumer_event list \<Rightarrow> bool" where
  "targets_consumed h r events \<longleftrightarrow>
     (\<forall>i \<in> set (target_ids r). delivered_exactly h r events i \<and> confirmed_by events i)
     \<and> (\<forall>e a. Delivered e a \<in> set events \<longrightarrow> (\<exists>i \<in> set (target_ids r). expected_delivery h r e = Inr i))"

lemma poll_success:
  assumes "poll_from h r deadline polls 0 = Some (Inr s)"
  obtains n events where "po_done (polls n) = Some events" "targets_consumed h r events"
proof -
  obtain k where "poll_turn h r deadline (polls k) = Inr (Some s)" using poll_from_result [OF assms] by auto
  then obtain events where e: "po_done (polls k) = Some events" "consume_exact h r events = Inr s"
    "set (cs_completed s) = set (target_ids r)" "set (cs_acked s) = set (target_ids r)"
    by (auto simp: poll_turn_def py_bind_Inr_iff split: option.splits if_splits)
  have "consumer_inv h r events s" using e(2) unfolding consume_exact_def by (rule consumer.run_inv)
  then have "targets_consumed h r events" using e(3,4) by (simp add: targets_consumed_def consumer_inv_def)
  with e(1) that show ?thesis by blast
qed

lemma drain_agrees:
  assumes "drain_differs r before after = Inr False"
  shows "t \<in> set (sub_keys before ''tables'') \<Longrightarrow> t \<noteq> ''message_inbox''
      \<Longrightarrow> py_eq (sub_value before ''tables'' t) (sub_value after ''tables'' t)"
    "\<not> py_truth (sub_value after ''queue'' ''missing_inbox_message_ids'')"
    "k \<in> {''stream_sha256'', ''publication_receipts_sha256'', ''stream_entries'', ''publication_receipts''}
      \<Longrightarrow> py_eq (sub_value after ''redis'' k) (sub_value before ''redis'' k)"
    "py_eq (sub_value after ''redis'' ''pending_deliveries'') (PInt 0)"
    "py_eq (sub_value after ''redis'' ''last_delivered_id'') (sub_value after ''redis'' ''stream_last_id'')"
    "k' \<in> {''sequences'', ''anchors'', ''original_prefix'', ''preserved_queue_prefixes''} \<Longrightarrow> py_eq (dict_get before k') (dict_get after k')"
  using assms unfolding drain_differs_def py_or_False set_append set_map by (auto simp del: py_or.simps)

text \<open>A state equal to an accepted one has the gap; a state the drain accepts afterwards has none.\<close>

lemma gap_before:
  assumes "profile_ok r" "validate_expected_state r p True e = Inr accepted" "py_eq (PDict before) (PDict (without BINDING_KEYS e))"
    and facts: "state_facts h r p v view before missing cursor"
  shows "missing = target_ids r"
proof -
  let ?queue = "queue_report (length (sv_outbox v)) (length (sv_inbox v)) missing"
  obtain q where q: "dict_get (without BINDING_KEYS e) ''queue'' = PDict q"
    "dict_get q ''missing_inbox_message_ids'' = PList (map PStr (sorted_set (target_ids r)))"
    using accepted_missing [OF assms(2)] by blast
  have "dict_get before ''queue'' = PDict ?queue" using facts unfolding state_facts_def by blast
  then have "map_of before ''queue'' = Some (PDict ?queue)" using dict_get_present [of before "''queue''"] by simp
  from py_eq_get [OF assms(3) this] have "py_eq (PDict ?queue) (PDict q)" using q(1) by simp
  moreover have "map_of ?queue ''missing_inbox_message_ids'' = Some (PList (map PStr (sorted_set missing)))"
    by (simp add: queue_report_def)
  ultimately have "py_eq (PList (map PStr (sorted_set missing))) (PList (map PStr (sorted_set (target_ids r))))"
    using q(2) by (metis py_eq_get)
  then have "sorted_set missing = sorted_set (target_ids r)" by (simp only: py_eq_strs) (simp add: inj_map_eq_map inj_def)
  then have "set missing = set (target_ids r)" by (metis set_sorted_set)
  moreover have "target_ids r \<noteq> []" using assms(1) by (auto simp: profile_ok_def target_ids_def)
  moreover have "missing \<in> {[], target_ids r}" using facts unfolding state_facts_def by blast
  ultimately show ?thesis by (metis insertE set_empty singletonD)
qed

lemma drain_keeps:
  assumes "drain_differs r before after = Inr False"
    and before: "state_facts h r p vb rb before mb cb" and after: "state_facts h r p va ra after ma ca"
  shows "ma = []"
    "t \<in> set (sp_public_tables p) - {''message_inbox''} \<Longrightarrow> \<exists>d. sv_digest vb t = Inr d \<and> sv_digest va t = Inr d"
    "state_digest h (stream_value (rv_stream ra)) = state_digest h (stream_value (rv_stream rb))"
    "length (rv_stream ra) = length (rv_stream rb)" "rv_details ra = []" "last_id (rv_stream ra) = Some ca"
proof -
  note agree = drain_agrees [OF assms(1)] and b = before [unfolded state_facts_def] and a = after [unfolded state_facts_def]
  have "dict_get after ''queue'' = PDict (queue_report (length (sv_outbox va)) (length (sv_inbox va)) ma)" using a by blast
  then show "ma = []" using agree(2) by (simp add: sub_value_def)
  show "\<exists>d. sv_digest vb t = Inr d \<and> sv_digest va t = Inr d" if t: "t \<in> set (sp_public_tables p) - {''message_inbox''}"
  proof -
    obtain x where x: "sv_digest vb t = Inr x" "sub_value before ''tables'' t = digest_value x" using b t by blast
    obtain y where y: "sv_digest va t = Inr y" "sub_value after ''tables'' t = digest_value y" using a t by blast
    have "sub_keys before ''tables'' = sp_public_tables p" using b by blast
    then have "py_eq (sub_value before ''tables'' t) (sub_value after ''tables'' t)" using agree(1) [of t] t by simp
    then show ?thesis using x y by (simp add: py_eq_digest_value)
  qed
  have "py_eq (sub_value after ''redis'' ''stream_sha256'') (sub_value before ''redis'' ''stream_sha256'')"
    "py_eq (sub_value after ''redis'' ''stream_entries'') (sub_value before ''redis'' ''stream_entries'')"
    using agree(3) [of "''stream_sha256''"] agree(3) [of "''stream_entries''"] by simp_all
  moreover obtain x y where "state_digest h (stream_value (rv_stream rb)) = Inr x" "sub_value before ''redis'' ''stream_sha256'' = PStr x"
    "state_digest h (stream_value (rv_stream ra)) = Inr y" "sub_value after ''redis'' ''stream_sha256'' = PStr y"
    using a b by blast
  moreover have "sub_value before ''redis'' ''stream_entries'' = PInt (int (length (rv_stream rb)))"
    "sub_value after ''redis'' ''stream_entries'' = PInt (int (length (rv_stream ra)))"
    using a b by blast+
  ultimately show "state_digest h (stream_value (rv_stream ra)) = state_digest h (stream_value (rv_stream rb))"
    "length (rv_stream ra) = length (rv_stream rb)"
    by simp_all
  have "sub_value after ''redis'' ''last_delivered_id'' = PStr ca"
    "sub_value after ''redis'' ''stream_last_id'' = (case last_id (rv_stream ra) of None \<Rightarrow> PNone | Some s \<Rightarrow> PStr s)"
    "sub_value after ''redis'' ''pending_deliveries'' = PInt (int (length (rv_details ra)))"
    using a by blast+
  then show "rv_details ra = []" "last_id (rv_stream ra) = Some ca" using agree(4,5) by (auto split: option.splits)
qed


lemma poll_from_None: "poll_from h r deadline polls 0 = None \<longleftrightarrow> (\<forall>k. poll_turn h r deadline (polls k) = Inr None)"
proof
  assume "poll_from h r deadline polls 0 = None"
  then show "\<forall>k. poll_turn h r deadline (polls k) = Inr None" using poll_from_stops [of h r deadline polls _ 0] by fastforce
next
  assume all: "\<forall>k. poll_turn h r deadline (polls k) = Inr None"
  show "poll_from h r deadline polls 0 = None"
  proof (cases "poll_from h r deadline polls 0")
    case (Some c)
    then show ?thesis using poll_from_result [OF Some] all by (cases c) auto
  qed
qed

lemma turn_done: "po_done turn \<noteq> None \<Longrightarrow> poll_turn h r deadline turn \<noteq> Inr None"
  by (auto simp: poll_turn_def py_bind_Inr_iff split: if_splits)

text \<open>
  C40: a drain fails to return in one case only: the state is the signed one and no turn of the supervising loop ever
  ends it. Once a turn sees the consumer done or the clock past the sixty seconds, it returns.
\<close>

theorem drain_ends:
  "(drain h r p e d = None \<longleftrightarrow>
      (\<exists>before. state_snapshot h r p (dw_before d) = Inr before \<and> py_eq (PDict before) (PDict (without BINDING_KEYS e))
         \<and> \<not> pending_targets_differ r before)
      \<and> (\<forall>k. poll_turn h r (dw_start d + 60) (dw_polls d k) = Inr None))
   \<and> ((\<forall>k. po_done (dw_polls d k) = None \<and> po_now (dw_polls d k) < dw_start d + 60) \<or> (\<exists>c. drain h r p e d = Some c))"
  (is "(_ \<longleftrightarrow> ?P \<and> ?stuck) \<and> (?Q \<or> _)")
proof -
  have n: "drain h r p e d = None \<longleftrightarrow> ?P \<and> ?stuck"
    unfolding drain_def by (auto simp: poll_from_None split: sum.splits)
  have "?Q" if "?stuck"
  proof
    fix k
    from that have "poll_turn h r (dw_start d + 60) (dw_polls d k) = Inr None" by blast
    then show "po_done (dw_polls d k) = None \<and> po_now (dw_polls d k) < dw_start d + 60"
      using turn_done deadline_stops not_le by blast
  qed
  with n show ?thesis by blast
qed

end
