(* ===== verification/Recovery_Sign.thy ===== *)
theory Recovery_Sign
  imports Recovery_Gate
begin

text \<open>
  The round trip of the signed state: what the observing mode prints, completed by the worker with the binding
  keys, is what the validation of a drain accepts and what its comparison finds again.
\<close>

section \<open>Values that equal themselves\<close>

text \<open>No float, and no key twice in a dictionary.\<close>

fun exact_value :: "pyval \<Rightarrow> bool"
  and exact_list :: "pyval list \<Rightarrow> bool"
  and exact_items :: "items \<Rightarrow> bool" where
  "exact_value (PFloat _) = False"
| "exact_value (PList xs) = exact_list xs"
| "exact_value (PDict m) = (distinct (map fst m) \<and> exact_items m)"
| "exact_value _ = True"
| "exact_list [] = True"
| "exact_list (x # xs) = (exact_value x \<and> exact_list xs)"
| "exact_items [] = True"
| "exact_items ((k, v) # m) = (exact_value v \<and> exact_items m)"

lemma exact_items_iff: "exact_items m \<longleftrightarrow> (\<forall>x \<in> set m. exact_value (snd x))"
  by (induction m) auto

lemma exact_list_iff: "exact_list xs \<longleftrightarrow> (\<forall>x \<in> set xs. exact_value x)"
  by (induction xs) auto

lemma py_eq_items_self:
  assumes "\<forall>x \<in> set m. map_of n (fst x) = Some (snd x)" "\<forall>x \<in> set m. py_eq (snd x) (snd x)"
  shows "py_eq_items m n"
  using assms by (induction m) auto

lemma py_eq_exact:
  "exact_value v \<Longrightarrow> py_eq v v"
  "exact_list xs \<Longrightarrow> list_all2 py_eq xs xs"
  "exact_items m \<Longrightarrow> \<forall>x \<in> set m. py_eq (snd x) (snd x)"
proof (induction v and xs and m rule: exact_value_exact_list_exact_items.induct)
  case (3 m)
  then show ?case by (auto intro: py_eq_items_self)
qed (auto simp: py_eq_list_conv)

section \<open>What the state of one transaction agrees on\<close>

definition targets_in :: "recovery_profile \<Rightarrow> string list \<Rightarrow> nat" where
  "targets_in r ids = length (filter (\<lambda>i. i \<in> set (target_ids r)) ids)"

text \<open>
  PostgreSQL reads one snapshot: the digest of a table counts its rows, and the preserved prefixes count the rows of no
  target. SHA-256 prints 64 digits, Redis identifiers are two numbers, sequences have different names, and the
  canonical text of a payload determines it.
\<close>

definition one_snapshot :: "recovery_host \<Rightarrow> recovery_profile \<Rightarrow> sql_view \<Rightarrow> redis_view \<Rightarrow> bool" where
  "one_snapshot h r v view \<longleftrightarrow>
     (\<forall>t d. sv_digest v t = Inr d \<longrightarrow> 0 \<le> fst d \<and> hex_lower_n 64 (snd d))
     \<and> (\<forall>d. sv_digest v ''message_outbox'' = Inr d \<longrightarrow> fst d = int (length (sv_outbox v)))
     \<and> (\<forall>d. sv_digest v ''message_inbox'' = Inr d \<longrightarrow> fst d = int (length (sv_inbox v)))
     \<and> fst (sv_preserved v ''message_outbox'') = int (length (sv_outbox v)) - int (targets_in r (map qr_message_id (sv_outbox v)))
     \<and> fst (sv_preserved v ''message_inbox'') = int (length (sv_inbox v)) - int (targets_in r (map ir_message_id (sv_inbox v)))
     \<and> hex_lower_n 64 (snd (sv_preserved v ''message_outbox'')) \<and> hex_lower_n 64 (snd (sv_preserved v ''message_inbox''))
     \<and> distinct (map fst (sv_sequences v))
     \<and> (\<forall>row \<in> set (rv_stream view). receipt_text (fst row))
     \<and> (\<forall>b. hex_lower_n 64 (rh_sha256 h b))
     \<and> (\<forall>u w e s t. rh_canonical h u = Inr (e, s) \<and> rh_canonical h w = Inr (e, t) \<longrightarrow> u = w)"

section \<open>The parts of an observed state\<close>

text \<open>The state with the values it was made of.\<close>

lemma sql_snapshot_parts:
  assumes "sql_snapshot h r p database v = Inr (state, durable, completed)"
  obtains digests history prefix queue seqs e where
    "state = [(''state'', PStr ''PASS_R5_STATE''), (''matched_public_tables'', PInt (int (length (sp_public_tables p)))),
             (''tables'', PDict (map (\<lambda>(t, d). (t, digest_value d)) digests)),
             (''sequences'', PDict seqs), (''anchors'', PDict history), (''original_prefix'', PDict prefix), (''queue'', PDict queue),
             (''preserved_queue_prefixes'', PDict (map (preserved_value v) [''message_outbox'', ''message_inbox''])),
             (''trading_started'', PBool False)]"
    "map fst digests = sp_public_tables p" "\<forall>x \<in> set digests. sv_digest v (fst x) = Inr (snd x)"
    "\<not> list_ex (\<lambda>(t, d). t \<notin> set BOOT_ALLOWED_NONEMPTY_TABLES \<and> fst d \<noteq> 0) digests"
    "validate_boot_database_identity p (map (\<lambda>(t, d). (t, digest_value d)) digests) PNone = Inr ()"
    "validate_history_snapshot (PInt (rp_audit r)) history (PDict [(''anchors'', PDict history)]) = Inr ()"
    "\<exists>sha. dict_get (map (\<lambda>(t, d). (t, digest_value d)) digests) ''event_audit'' = digest_value (rp_audit r, sha)"
    "py_map (history_chain v) FEED_SYMBOLS = Inr history"
    "expected_original_prefix p = PDict e" "py_eq (PDict prefix) (PDict e)"
    "prefix = dict_set ''audit_table_sha256'' (PStr (snd (sv_prefix v))) (dict_set ''rows'' (PInt (fst (sv_prefix v))) e)"
    "sequence_values (sv_sequences v) = Inr seqs"
proof -
  obtain digests audit history prefix queue seqs where
    c: "in_order [fail_when (sv_database v \<noteq> database) ''R5_DATABASE_IDENTITY_CONFLICT'', verify_schema p v,
       validate_no_epoch_workers v, validate_epoch_table_inventory p (sv_tables v)] = Inr ()" and
    d: "py_map (\<lambda>t. py_bind (sv_digest v t) (\<lambda>d. Inr (t, d))) (sv_tables v) = Inr digests" and
    i: "in_order [fail_when (list_ex (\<lambda>(t, d). t \<notin> set BOOT_ALLOWED_NONEMPTY_TABLES \<and> fst d \<noteq> 0) digests) ''R5_NONTRADING_TABLE_NOT_EMPTY'',
        validate_boot_database_identity p (map (\<lambda>(t, d). (t, digest_value d)) digests) PNone] = Inr ()" and
    b: "boot_history_snapshot p v = Inr (audit, history, prefix)" and
    a: "dict_get (map (\<lambda>(t, d). (t, digest_value d)) digests) ''event_audit'' = digest_value audit" "fst audit = rp_audit r" and
    s: "sequence_values (sv_sequences v) = Inr seqs" and
    state: "state = [(''state'', PStr ''PASS_R5_STATE''), (''matched_public_tables'', PInt (int (length digests))),
             (''tables'', PDict (map (\<lambda>(t, d). (t, digest_value d)) digests)),
             (''sequences'', PDict seqs), (''anchors'', PDict history), (''original_prefix'', PDict prefix), (''queue'', PDict queue),
             (''preserved_queue_prefixes'', PDict (map (preserved_value v) [''message_outbox'', ''message_inbox''])),
             (''trading_started'', PBool False)]"
    using assms unfolding sql_snapshot_def Let_def by (auto simp: py_bind_Inr_iff split: prod.splits)
  have t: "map fst digests = sv_tables v" "\<forall>x \<in> set digests. sv_digest v (fst x) = Inr (snd x)"
    using py_map_tagged [OF d] by simp_all
  have tables: "sv_tables v = sp_public_tables p"
    using c by (simp add: in_order_Inr validate_epoch_table_inventory_def py_bind_Inr_iff)
  then have n: "length digests = length (sp_public_tables p)" using t(1) by (metis length_map)
  obtain e where e0: "expected_original_prefix p = PDict e" by (simp add: expected_original_prefix_def)
  have e: "validate_history_snapshot (PInt (fst audit)) history (PDict [(''anchors'', PDict history)]) = Inr ()"
    "py_map (history_chain v) FEED_SYMBOLS = Inr history" "expected_original_prefix p = PDict e" "py_eq (PDict prefix) (PDict e)"
    "prefix = dict_set ''audit_table_sha256'' (PStr (snd (sv_prefix v))) (dict_set ''rows'' (PInt (fst (sv_prefix v))) e)"
    using b e0 by (auto simp: boot_history_snapshot_def py_bind_Inr_iff Let_def simp del: py_eq.simps split: if_splits)
  show ?thesis
  proof (rule that [OF state [unfolded n] _ t(2) _ _ _ _ e(2-5) s])
    show "map fst digests = sp_public_tables p" using t(1) tables by simp
    show "\<not> list_ex (\<lambda>(t, d). t \<notin> set BOOT_ALLOWED_NONEMPTY_TABLES \<and> fst d \<noteq> 0) digests"
      "validate_boot_database_identity p (map (\<lambda>(t, d). (t, digest_value d)) digests) PNone = Inr ()"
      using i by (simp_all add: in_order_Inr py_bind_Inr_iff)
    show "validate_history_snapshot (PInt (rp_audit r)) history (PDict [(''anchors'', PDict history)]) = Inr ()" using e(1) a(2) by simp
    show "\<exists>sha. dict_get (map (\<lambda>(t, d). (t, digest_value d)) digests) ''event_audit'' = digest_value (rp_audit r, sha)"
      using a by (metis prod.collapse)
  qed
qed

section \<open>The receipts\<close>

lemma length_key_sort: "length (foldr key_insort ms []) = length ms"
proof (induction ms)
  case (Cons m ms)
  have "length (key_insort m ys) = Suc (length ys)" for ys :: "(string \<times> 'a) list" by (induction ys) auto
  with Cons show ?case by simp
qed simp

lemma sorted_strs_facts:
  "set (sorted_strs xs) = set xs" "length (sorted_strs xs) = length xs" "distinct xs \<Longrightarrow> distinct (sorted_strs xs)"
proof -
  show "set (sorted_strs xs) = set xs" by (simp add: sorted_strs_def image_image)
  show "length (sorted_strs xs) = length xs" by (simp add: sorted_strs_def length_key_sort)
  assume "distinct xs"
  then show "distinct (sorted_strs xs)" unfolding sorted_strs_def by (intro distinct_key_sort) (simp add: comp_def)
qed

lemma read_receipt_holds: "read_receipt h view (i, hashed, encoded) = Inr (i', hashed', s) \<Longrightarrow> holds_only (rv_at view s) encoded"
  by (auto simp: read_receipt_def py_bind_Inr_iff split: option.splits if_splits)

lemma receipts_distinct:
  assumes "list_all2 (admitted h r) sent durable" "distinct (map qr_message_id sent)"
    and "py_map (read_receipt h view) durable = Inr receipts"
    and canonical: "\<forall>u w e s t. rh_canonical h u = Inr (e, s) \<and> rh_canonical h w = Inr (e, t) \<longrightarrow> u = w"
  shows "distinct (map (\<lambda>(_, _, s). s) receipts)"
proof -
  have n: "length receipts = length durable" "length sent = length durable"
    using assms(1,3) by (simp_all add: py_map_Inr list_all2_lengthD)
  have read: "read_receipt h view (durable ! j) = Inr (receipts ! j)" if "j < length durable" for j
    using assms(3) that by (simp add: py_map_Inr list_all2_conv_all_nth)
  have adm: "admitted h r (sent ! j) (durable ! j)" if "j < length durable" for j
    using assms(1) that by (simp add: list_all2_conv_all_nth)
  have same: "j = k" if jk: "j < length durable" "k < length durable"
    and s: "snd (snd (receipts ! j)) = snd (snd (receipts ! k))" for j k
  proof -
    obtain pj ej cj where J: "row_payload h (qr_payload (sent ! j)) = Inr pj" "rh_event h pj = Inr ej"
      "rh_canonical h pj = Inr (cj, qr_sha256 (sent ! j))" "row_clean (sent ! j) ej"
      "durable ! j = (qr_message_id (sent ! j), qr_sha256 (sent ! j), cj)"
      using adm [OF jk(1)] by (auto simp: admitted_def)
    obtain pk ek ck where K: "row_payload h (qr_payload (sent ! k)) = Inr pk" "rh_event h pk = Inr ek"
      "rh_canonical h pk = Inr (ck, qr_sha256 (sent ! k))" "row_clean (sent ! k) ek"
      "durable ! k = (qr_message_id (sent ! k), qr_sha256 (sent ! k), ck)"
      using adm [OF jk(2)] by (auto simp: admitted_def)
    have "holds_only (rv_at view (snd (snd (receipts ! j)))) cj" "holds_only (rv_at view (snd (snd (receipts ! k)))) ck"
      using read [OF jk(1)] read [OF jk(2)] read_receipt_holds unfolding J(5) K(5) by (metis prod.collapse)+
    then have "cj = ck" using s by (simp add: holds_only_def)
    then have "pj = pk" using canonical J(3) K(3) by blast
    then have "qr_message_id (sent ! j) = qr_message_id (sent ! k)" using J(2,4) K(2,4) by (simp add: row_clean_def)
    then show "j = k" using assms(2) jk n(2) by (simp add: distinct_conv_nth) metis
  qed
  then show ?thesis using n(1) by (auto simp: distinct_conv_nth case_prod_unfold)
qed

lemma pending_messages:
  assumes "distinct (map fst receipts)" "distinct ids" "set ids \<subseteq> fst ` set (target_map r receipts)"
  defines "pending \<equiv> map (\<lambda>s. the (map_of (target_map r receipts) s)) ids"
  shows "distinct pending" "set pending \<subseteq> set (target_ids r)"
proof -
  have look: "\<exists>i. map_of (target_map r receipts) s = Some i" if "s \<in> set ids" for s
    using assms(3) that by (metis map_of_eq_None_iff not_Some_eq subsetD)
  have member: "i \<in> set (target_ids r) \<and> (\<exists>hashed. (i, hashed, s) \<in> set receipts)" if "map_of (target_map r receipts) s = Some i" for s i
    using target_map_member map_of_SomeD [OF that] by metis
  show "set pending \<subseteq> set (target_ids r)" using look member by (fastforce simp: pending_def)
  have "s = t" if st: "s \<in> set ids" "t \<in> set ids" "the (map_of (target_map r receipts) s) = the (map_of (target_map r receipts) t)" for s t
  proof -
    obtain i where i: "map_of (target_map r receipts) s = Some i" "map_of (target_map r receipts) t = Some i"
      using look [OF st(1)] look [OF st(2)] st(3) by auto
    obtain a b where "(i, a, s) \<in> set receipts" "(i, b, t) \<in> set receipts" using member [OF i(1)] member [OF i(2)] by blast
    then have "(a, s) = (b, t)" using assms(1) by (metis eq_key_imp_eq_value)
    then show "s = t" by simp
  qed
  then show "distinct pending" using assms(2) by (simp add: pending_def distinct_map inj_on_def)
qed

lemma str_is_hex_ok [simp]: "str_is_hex n (PStr s) = Inr (hex_lower_n n s)"
  by simp

lemma hex_of_digest: "state_digest h u = Inr sha \<Longrightarrow> \<forall>b. hex_lower_n 64 (rh_sha256 h b) \<Longrightarrow> hex_lower_n 64 sha"
  by (auto simp: state_digest_def py_bind_Inr_iff)

lemma observed_redis_ok:
  assumes "profile_ok r" "validate_queue h r sent inbox = Inr (queue, durable, completed)"
    and "redis_snapshot h r view durable completed missing = Inr redis"
    and rows: "\<forall>row \<in> set (rv_stream view). receipt_text (fst row)" and hex: "\<forall>b. hex_lower_n 64 (rh_sha256 h b)"
    and canonical: "\<forall>u w e s t. rh_canonical h u = Inr (e, s) \<and> rh_canonical h w = Inr (e, t) \<longrightarrow> u = w"
  shows "validate_redis_state r (PDict redis) = Inr ()"
proof -
  have q: "int (length sent) = rp_outbox r" "distinct (map qr_message_id sent)" "list_all2 (admitted h r) sent durable"
    using queue_shows [OF assms(1,2)] by blast+
  obtain receipts cursor flags where x: "py_map (read_receipt h view) durable = Inr receipts"
    "validate_boot_stream_rows (rv_stream view) durable (map (\<lambda>(_, _, s). s) receipts) = Inr ()"
    "rv_groups view = [(''bars'', cursor)]" "receipt_text cursor"
    "py_map (\<lambda>(s, _). py_bind (at_most s cursor) (\<lambda>b. Inr (s, b))) (target_map r receipts) = Inr flags"
    "pending_set_ok r view (target_map r receipts) (map fst (filter snd flags)) completed missing cursor"
    "redis_report h view receipts (target_map r receipts) cursor = Inr redis"
    by (rule redis_snapshot_shows [OF assms(3)])
  let ?ids = "map fst (rv_details view)"
  let ?pending = "map (\<lambda>s. the (map_of (target_map r receipts) s)) ?ids"
  have n: "length receipts = length sent" "length (rv_stream view) = length sent + 1"
    using x(1,2) q(3) by (simp_all add: py_map_Inr list_all2_lengthD validate_boot_stream_rows_def)
  have d: "distinct (map (\<lambda>(_, _, s). s) receipts)" by (rule receipts_distinct [OF q(3,2) x(1) canonical])
  have "map fst receipts = map qr_message_id sent"
    using receipts_ids [OF x(1)] q(3) by (auto simp: list_all2_conv_all_nth intro!: nth_equalityI dest!: admitted_fst)
  then have dr: "distinct (map fst receipts)" using q(2) by simp
  have ok: "length ?ids \<le> length (rp_targets r)" "distinct ?ids" "set ?ids \<subseteq> fst ` set (target_map r receipts)"
    using x(6) by (simp_all add: pending_set_ok_def Let_def)
  note pend = pending_messages [OF dr ok(2,3)]
  have ne: "rv_stream view \<noteq> []" using n(2) by auto
  obtain receipts_sha ids_sha stream_sha where sha: "state_digest h (receipts_value receipts) = Inr receipts_sha"
    "state_digest h (PList (map PStr (sorted_strs (map fst receipts)))) = Inr ids_sha"
    "state_digest h (stream_value (rv_stream view)) = Inr stream_sha" and
    redis: "redis = [(''stream_entries'', PInt (int (length (rv_stream view)))),
             (''publication_receipts'', PInt (int (length (remdups (map (\<lambda>(_, _, s). s) receipts))))),
             (''publication_receipts_sha256'', PStr receipts_sha), (''publication_message_ids_sha256'', PStr ids_sha),
             (''stream_sha256'', PStr stream_sha), (''stream_last_id'', case last_id (rv_stream view) of None \<Rightarrow> PNone | Some s \<Rightarrow> PStr s),
             (''consumer_group'', PStr ''bars''), (''last_delivered_id'', PStr cursor), (''pending_deliveries'', PInt (int (length ?ids))),
             (''pending_target_message_ids'', PList (map PStr (sorted_strs ?pending))), (''trading_started'', PBool False)]"
    using x(7) by (auto simp: redis_report_def py_bind_Inr_iff Let_def)
  have count: "length (remdups (map (\<lambda>(_, _, s). s) receipts)) = length sent" using d n(1) by (simp add: distinct_remdups_id)
  have last: "receipt_text (fst (last (rv_stream view)))" using rows ne by simp
  have keys: "keys_are redis REDIS_STATE_KEYS" by (simp add: keys_are_def redis REDIS_STATE_KEYS_def)
  have get: "dict_get redis ''publication_receipts'' = PInt (rp_outbox r)" "dict_get redis ''stream_entries'' = PInt (rp_outbox r + 1)"
    "dict_get redis ''consumer_group'' = PStr ''bars''" "dict_get redis ''pending_target_message_ids'' = PList (map PStr (sorted_strs ?pending))"
    "dict_get redis ''pending_deliveries'' = PInt (int (length ?ids))" "dict_get redis ''stream_last_id'' = PStr (fst (last (rv_stream view)))"
    "dict_get redis ''last_delivered_id'' = PStr cursor" "dict_get redis ''trading_started'' = PBool False"
    "dict_get redis ''publication_receipts_sha256'' = PStr receipts_sha" "dict_get redis ''publication_message_ids_sha256'' = PStr ids_sha"
    "dict_get redis ''stream_sha256'' = PStr stream_sha"
    using count n(2) q(1) ne by (simp_all add: redis dict_get_def last_id_def)
  have "redis_shape_ok r redis"
    unfolding redis_shape_ok_def using keys get ok(1) pend last x(4) sorted_strs_facts [of ?pending] by (simp add: str_where_def)
  then show ?thesis
    using get(9-11) sha [THEN hex_of_digest, OF hex] by (simp add: validate_redis_state_def)
qed

section \<open>The signed state\<close>

definition historical :: "schema \<Rightarrow> bool" where
  "historical p \<longleftrightarrow> schema_profile ''historical-default'' = Inr p"

lemma historical_profile:
  assumes "historical p"
  shows "\<not> is_current p" "sp_public_tables p = CONTROLLED_RUNTIME_PUBLIC_TABLES" "expected_original_prefix p = RECOVERY_PREFIX"
  using assms by (auto simp: historical_def schema_profile_def SCHEMA_PROFILES_def is_current_def expected_original_prefix_def RECOVERY_PREFIX_def)

lemma public_tables_distinct: "distinct CONTROLLED_RUNTIME_PUBLIC_TABLES"
  by code_simp

lemma queue_tables: "''message_outbox'' \<in> set CONTROLLED_RUNTIME_PUBLIC_TABLES" "''message_inbox'' \<in> set CONTROLLED_RUNTIME_PUBLIC_TABLES"
  by code_simp+

lemma dict_set_fresh: "map_of m k = None \<Longrightarrow> dict_set k v m = m @ [(k, v)]"
  by (induction k v m rule: dict_set.induct) (auto split: if_splits)

lemma worker_result_signs:
  assumes "\<not> is_current p" "\<forall>k \<in> set BINDING_KEYS. map_of state k = None"
  shows "worker_result p owner mode database state
      = state @ [(''owner'', PStr owner), (''mode'', PStr mode), (''new_epoch_database'', PStr database)]"
    "without BINDING_KEYS (worker_result p owner mode database state) = state"
proof -
  show w: "worker_result p owner mode database state
      = state @ [(''owner'', PStr owner), (''mode'', PStr mode), (''new_epoch_database'', PStr database)]"
    using assms by (simp add: worker_result_def BINDING_KEYS_def dict_set_fresh)
  have "filter (\<lambda>(k, _). k \<notin> set BINDING_KEYS) state = state"
    using assms(2) by (intro filter_True) (force simp: map_of_eq_None_iff)
  then show "without BINDING_KEYS (worker_result p owner mode database state) = state"
    unfolding w by (simp add: without_def BINDING_KEYS_def)
qed

lemma targets_in_count:
  assumes "distinct ids" "distinct (target_ids r)"
  shows "set (target_ids r) \<subseteq> set ids \<Longrightarrow> targets_in r ids = length (rp_targets r)"
    "set ids \<inter> set (target_ids r) = {} \<Longrightarrow> targets_in r ids = 0"
proof -
  have c: "targets_in r ids = card (set ids \<inter> set (target_ids r))"
    using distinct_card [of "filter (\<lambda>i. i \<in> set (target_ids r)) ids"] assms(1) by (simp add: targets_in_def Int_def conj_commute)
  show "targets_in r ids = length (rp_targets r)" if "set (target_ids r) \<subseteq> set ids"
    using that distinct_card [OF assms(2)] unfolding c by (simp add: Int_absorb1 target_ids_def)
  show "targets_in r ids = 0" if "set ids \<inter> set (target_ids r) = {}" unfolding c that by simp
qed

lemma observed_prefixes_ok:
  assumes "profile_ok r" "one_snapshot h r v view" "distinct (map qr_message_id (sv_outbox v))" "distinct (map ir_message_id (sv_inbox v))"
    and "set (target_ids r) \<subseteq> set (map qr_message_id (sv_outbox v))" "set (map ir_message_id (sv_inbox v)) \<inter> set (target_ids r) = {}"
    and "int (length (sv_outbox v)) = rp_outbox r" "int (length (sv_inbox v)) = rp_inbox r"
  shows "recovery_prefixes r (map (preserved_value v) [''message_outbox'', ''message_inbox'']) = Inr ()"
proof -
  have t: "distinct (target_ids r)" using assms(1) by (simp add: profile_ok_def)
  have n: "fst (sv_preserved v ''message_outbox'') = rp_outbox r - int (length (rp_targets r))" "fst (sv_preserved v ''message_inbox'') = rp_inbox r"
    using assms(2) targets_in_count(1) [OF assms(3) t assms(5)] targets_in_count(2) [OF assms(4) t assms(6)] assms(7,8)
    by (simp_all add: one_snapshot_def)
  have "hex_lower_n 64 (snd (sv_preserved v ''message_outbox''))" "hex_lower_n 64 (snd (sv_preserved v ''message_inbox''))"
    using assms(2) by (simp_all add: one_snapshot_def)
  then have "py_any prefix_differs (map (preserved_value v) [''message_outbox'', ''message_inbox'']) = Inr False"
    by (simp add: prefix_differs_def preserved_value_def dict_get_def dict_get_default_def)
  moreover have "keys_are (map (preserved_value v) [''message_outbox'', ''message_inbox'']) [''message_outbox'', ''message_inbox'']"
    by (simp add: keys_are_def preserved_value_def)
  moreover have "prefix_rows (map (preserved_value v) [''message_outbox'', ''message_inbox'']) t = PInt (fst (sv_preserved v t))"
    if "t \<in> {''message_outbox'', ''message_inbox''}" for t
    using that by (auto simp: prefix_rows_def preserved_value_def dict_get_def)
  ultimately show ?thesis using n unfolding recovery_prefixes_def in_order_Inr by simp
qed

lemma observed_tables_ok:
  assumes "one_snapshot h r v view" "historical p" "map fst digests = sp_public_tables p" "\<forall>x \<in> set digests. sv_digest v (fst x) = Inr (snd x)"
    and "\<not> list_ex (\<lambda>(t, d). t \<notin> set BOOT_ALLOWED_NONEMPTY_TABLES \<and> fst d \<noteq> 0) digests"
    and audit: "dict_get (map (\<lambda>(t, d). (t, digest_value d)) digests) ''event_audit'' = digest_value (rp_audit r, sha)"
    and "int (length (sv_outbox v)) = rp_outbox r" "int (length (sv_inbox v)) = rp_inbox r"
  defines "tables \<equiv> map (\<lambda>(t, d). (t, digest_value d)) digests"
  shows "py_any table_row_differs tables = Inr False" "\<not> recovery_counts_differ r tables" "table_count tables ''event_audit'' = PInt (rp_audit r)"
proof -
  have d: "0 \<le> fst (snd x)" "hex_lower_n 64 (snd (snd x))" if "x \<in> set digests" for x
    using assms(1,4) that unfolding one_snapshot_def by (metis)+
  have row: "table_row_differs (t, digest_value c) = Inr False" if "0 \<le> fst c" "hex_lower_n 64 (snd c)" for t c
    using that by (simp add: table_row_differs_def digest_value_def dict_get_def dict_get_default_def)
  show "py_any table_row_differs tables = Inr False" unfolding py_or_False set_map
  proof
    fix c assume "c \<in> table_row_differs ` set tables"
    then obtain t e where "(t, e) \<in> set digests" "c = table_row_differs (t, digest_value e)" by (auto simp: tables_def)
    then show "c = Inr False" using row d [of "(t, e)"] by simp
  qed
  have dist: "distinct (map fst digests)" using assms(3) historical_profile(2) [OF assms(2)] public_tables_distinct by simp
  have look: "\<exists>c. (t, c) \<in> set digests \<and> table_count tables t = PInt (fst c)" if t: "t \<in> set CONTROLLED_RUNTIME_PUBLIC_TABLES" for t
  proof -
    have "t \<in> fst ` set digests" using t assms(3) historical_profile(2) [OF assms(2)] by (metis list.set_map)
    then obtain c where c: "(t, c) \<in> set digests" by auto
    then have "map_of digests t = Some c" using dist by simp
    then have "map_of tables t = Some (digest_value c)" by (simp add: tables_def map_of_map)
    then have "table_count tables t = PInt (fst c)" by (simp add: table_count_def dict_get_def digest_value_def)
    with c show ?thesis by blast
  qed
  show a: "table_count tables ''event_audit'' = PInt (rp_audit r)"
    using audit by (simp add: tables_def table_count_def digest_value_def dict_get_def)
  have queue: "table_count tables t = PInt n" if t: "t \<in> set CONTROLLED_RUNTIME_PUBLIC_TABLES" and c: "\<forall>d. sv_digest v t = Inr d \<longrightarrow> fst d = n" for t n
  proof -
    obtain d where d: "(t, d) \<in> set digests" "table_count tables t = PInt (fst d)" using look [OF t] by blast
    then have "sv_digest v t = Inr d" using assms(4) by fastforce
    then show ?thesis using c d(2) by simp
  qed
  have "table_count tables ''message_outbox'' = PInt (rp_outbox r)" "table_count tables ''message_inbox'' = PInt (rp_inbox r)"
    using queue [OF queue_tables(1)] queue [OF queue_tables(2)] assms(1,7,8) by (simp_all add: one_snapshot_def)
  moreover have "table_count tables t = PInt 0" if t: "t \<in> set CONTROLLED_RUNTIME_PUBLIC_TABLES" "t \<notin> set BOOT_ALLOWED_NONEMPTY_TABLES" for t
  proof -
    obtain d where d: "(t, d) \<in> set digests" "table_count tables t = PInt (fst d)" using look [OF t(1)] by blast
    have "\<forall>x \<in> set digests. \<not> (fst x \<notin> set BOOT_ALLOWED_NONEMPTY_TABLES \<and> fst (snd x) \<noteq> 0)"
      using assms(5) unfolding list_ex_iff case_prod_unfold by blast
    then show ?thesis using d t(2) by fastforce
  qed
  ultimately show "\<not> recovery_counts_differ r tables" using a by (auto simp: recovery_counts_differ_def list_ex_iff)
qed

lemma observed_shape_ok:
  assumes "historical p" "state = [(''state'', PStr ''PASS_R5_STATE''), (''matched_public_tables'', PInt (int (length (sp_public_tables p)))),
             (''tables'', PDict tables), (''sequences'', PDict seqs), (''anchors'', PDict history), (''original_prefix'', PDict prefix),
             (''queue'', PDict queue), (''preserved_queue_prefixes'', PDict prefixes), (''trading_started'', PBool False)] @ [(''redis'', redis)]"
    and "map fst tables = sp_public_tables p" "py_eq (PDict prefix) RECOVERY_PREFIX"
  shows "recovery_shape_ok True state"
    "dict_get state ''tables'' = PDict tables" "dict_get state ''anchors'' = PDict history" "dict_get state ''queue'' = PDict queue"
    "dict_get state ''preserved_queue_prefixes'' = PDict prefixes" "dict_get state ''redis'' = redis"
    "\<forall>k \<in> set BINDING_KEYS. map_of state k = None"
proof -
  show get: "dict_get state ''tables'' = PDict tables" "dict_get state ''anchors'' = PDict history" "dict_get state ''queue'' = PDict queue"
    "dict_get state ''preserved_queue_prefixes'' = PDict prefixes" "dict_get state ''redis'' = redis"
    unfolding assms(2) by (simp_all add: dict_get_def)
  have more: "dict_get state ''state'' = PStr ''PASS_R5_STATE''" "dict_get state ''trading_started'' = PBool False"
    "dict_get state ''matched_public_tables'' = PInt (int (length CONTROLLED_RUNTIME_PUBLIC_TABLES))"
    "dict_get state ''sequences'' = PDict seqs" "dict_get state ''original_prefix'' = PDict prefix"
    unfolding assms(2) by (simp_all add: dict_get_def historical_profile(2) [OF assms(1)])
  have keys: "map fst state = recovery_state_keys True" unfolding assms(2) by (simp add: recovery_state_keys_def)
  then have "keys_are state (recovery_state_keys True)" by (simp add: keys_are_def)
  moreover have "keys_are tables CONTROLLED_RUNTIME_PUBLIC_TABLES"
    using assms(3) historical_profile(2) [OF assms(1)] by (simp add: keys_are_def)
  ultimately show "recovery_shape_ok True state"
    unfolding recovery_shape_ok_def get more using assms(4) by (simp del: py_eq.simps)
  show "\<forall>k \<in> set BINDING_KEYS. map_of state k = None"
    unfolding assms(2) by (simp add: BINDING_KEYS_def)
qed

lemma queue_report_ok:
  assumes "int n = rp_outbox r" "int k = rp_inbox r"
  shows "recovery_queue_ok r (queue_report n k (target_ids r))"
proof -
  have "keys_are (queue_report n k (target_ids r)) (QUEUE_KEYS @ [''missing_inbox_message_ids''])"
    by (simp add: keys_are_def queue_report_def QUEUE_KEYS_def)
  then show ?thesis
    unfolding recovery_queue_ok_def using assms by (simp add: py_eq_strs del: py_eq.simps) (simp add: queue_report_def dict_get_def)
qed

lemma exact_strs [simp]: "exact_list (map PStr xs)"
  by (simp add: exact_list_iff)

lemma redis_exact:
  assumes "redis_report h view receipts targets cursor = Inr redis"
  shows "exact_value (PDict redis)"
  using assms by (auto simp: redis_report_def py_bind_Inr_iff Let_def split: option.splits)

lemma tagged_exact:
  assumes "py_map f xs = Inr ys" "distinct (map key xs)" "\<And>x y. f x = Inr y \<Longrightarrow> fst y = key x \<and> exact_value (snd y)"
  shows "exact_value (PDict ys)"
proof -
  have l: "list_all2 (\<lambda>x y. fst y = key x \<and> exact_value (snd y)) xs ys"
    using assms(1) unfolding py_map_Inr by (rule list_all2_mono) (rule assms(3))
  then have "map fst ys = map key xs" by (auto simp: list_all2_conv_all_nth intro: nth_equalityI)
  moreover have "\<forall>y \<in> set ys. exact_value (snd y)" using l by (induction rule: list_all2_induct) auto
  ultimately show ?thesis using assms(2) by (simp add: exact_items_iff)
qed

lemma observed_exact:
  assumes "historical p" "sql = [(''state'', PStr ''PASS_R5_STATE''), (''matched_public_tables'', PInt (int (length (sp_public_tables p)))),
             (''tables'', PDict (map (\<lambda>(t, d). (t, digest_value d)) digests)),
             (''sequences'', PDict seqs), (''anchors'', PDict history), (''original_prefix'', PDict prefix), (''queue'', PDict (queue_report n k missing)),
             (''preserved_queue_prefixes'', PDict (map (preserved_value v) [''message_outbox'', ''message_inbox''])),
             (''trading_started'', PBool False)]"
    and "map fst digests = sp_public_tables p" "distinct (map fst (sv_sequences v))" "sequence_values (sv_sequences v) = Inr seqs"
    and "py_map (history_chain v) FEED_SYMBOLS = Inr history" "expected_original_prefix p = PDict e"
    and "prefix = dict_set ''audit_table_sha256'' (PStr (snd (sv_prefix v))) (dict_set ''rows'' (PInt (fst (sv_prefix v))) e)"
    and "exact_value (PDict redis)"
  shows "exact_value (PDict (sql @ [(''redis'', PDict redis)]))"
proof -
  have "exact_value (PDict seqs)"
    by (rule tagged_exact [OF assms(5) [unfolded sequence_values_def] assms(4)]) (auto split: if_splits)
  moreover have "exact_value (PDict history)"
    by (rule tagged_exact [OF assms(6), of "\<lambda>s. s"]) (auto simp: FEED_SYMBOLS_def history_chain_def split: prod.splits if_splits)
  moreover have "e = [(''rows'', PInt 173164),
       (''audit_table_sha256'', PStr ''f23b4060feae703c568b0204f4b3ff8932fe2813b20f578bc0a0d983e5600499''),
       (''last_open_time_ms'', PInt 1789832580000)]"
    using assms(7) historical_profile(3) [OF assms(1)] by (simp add: RECOVERY_PREFIX_def)
  then have "exact_value (PDict prefix)" using assms(8) by simp
  moreover have "exact_value (PDict (map (\<lambda>(t, d). (t, digest_value d)) digests))"
    using assms(3) historical_profile(2) [OF assms(1)] public_tables_distinct
    by (simp add: comp_def case_prod_unfold exact_items_iff digest_value_def)
  moreover have "exact_value (PDict (queue_report n k missing))" by (simp add: queue_report_def)
  moreover have "exact_value (PDict (map (preserved_value v) [''message_outbox'', ''message_inbox'']))" by (simp add: preserved_value_def)
  ultimately show ?thesis using assms(9) unfolding assms(2)
    by (simp only: append.simps exact_value.simps exact_items.simps list.map prod.sel) simp
qed

lemma observed_accepted:
  assumes "profile_ok r" "historical p" "state_snapshot h r p (v, view) = Inr state" "one_snapshot h r v view"
    and "int (length (sv_inbox v)) = rp_inbox r"
  defines "signed \<equiv> worker_result p (rp_owner r) ''r5-state'' (epoch_database (rp_owner r)) state"
  shows "validate_expected_state r p True signed = Inr state
    \<and> py_eq (PDict state) (PDict (without BINDING_KEYS signed))"
proof -
  obtain sql redis durable completed where sql: "sql_snapshot h r p (epoch_database (rp_owner r)) v = Inr (sql, durable, completed)"
    and redis: "redis_snapshot h r view durable completed (missing_gaps sql) = Inr redis" and state: "state = sql @ [(''redis'', PDict redis)]"
    using state_snapshot_shows [OF assms(3)] .
  obtain digests history prefix queue seqs e where
    s: "sql = [(''state'', PStr ''PASS_R5_STATE''), (''matched_public_tables'', PInt (int (length (sp_public_tables p)))),
             (''tables'', PDict (map (\<lambda>(t, d). (t, digest_value d)) digests)),
             (''sequences'', PDict seqs), (''anchors'', PDict history), (''original_prefix'', PDict prefix), (''queue'', PDict queue),
             (''preserved_queue_prefixes'', PDict (map (preserved_value v) [''message_outbox'', ''message_inbox''])),
             (''trading_started'', PBool False)]"
    and d: "map fst digests = sp_public_tables p" "\<forall>x \<in> set digests. sv_digest v (fst x) = Inr (snd x)"
    "\<not> list_ex (\<lambda>(t, d). t \<notin> set BOOT_ALLOWED_NONEMPTY_TABLES \<and> fst d \<noteq> 0) digests"
    and i: "validate_boot_database_identity p (map (\<lambda>(t, d). (t, digest_value d)) digests) PNone = Inr ()"
    "validate_history_snapshot (PInt (rp_audit r)) history (PDict [(''anchors'', PDict history)]) = Inr ()"
    "\<exists>sha. dict_get (map (\<lambda>(t, d). (t, digest_value d)) digests) ''event_audit'' = digest_value (rp_audit r, sha)"
    "py_map (history_chain v) FEED_SYMBOLS = Inr history"
    and e: "expected_original_prefix p = PDict e" "py_eq (PDict prefix) (PDict e)"
    "prefix = dict_set ''audit_table_sha256'' (PStr (snd (sv_prefix v))) (dict_set ''rows'' (PInt (fst (sv_prefix v))) e)"
    "sequence_values (sv_sequences v) = Inr seqs"
    by (rule sql_snapshot_parts [OF sql])
  obtain queue' where q: "validate_queue h r (sv_outbox v) (sv_inbox v) = Inr (queue', durable, completed)" "dict_get sql ''queue'' = PDict queue'"
    using sql_snapshot_shows [OF sql] by metis
  have qq: "queue' = queue" using q(2) unfolding s by (simp add: dict_get_def)
  obtain missing where m: "missing \<in> {[], target_ids r}"
    "set (map qr_message_id (sv_outbox v)) = set (map ir_message_id (sv_inbox v)) \<union> set missing"
    "set (map ir_message_id (sv_inbox v)) \<inter> set missing = {}" "queue = queue_report (length (sv_outbox v)) (length (sv_inbox v)) missing"
    and c: "completed = map ir_message_id (sv_inbox v)" "distinct (map qr_message_id (sv_outbox v))" "distinct (map ir_message_id (sv_inbox v))"
    "int (length (sv_outbox v)) = rp_outbox r" "length (sv_inbox v) + length missing = length (sv_outbox v)"
    by (rule queue_shows [OF assms(1) q(1) [unfolded qq]])
  have "missing \<noteq> []" using assms(1,5) c(4,5) by (auto simp: profile_ok_def)
  then have t: "missing = target_ids r" using m(1) by blast
  have x: "set (target_ids r) \<subseteq> set (map qr_message_id (sv_outbox v))" "set (map ir_message_id (sv_inbox v)) \<inter> set (target_ids r) = {}"
    using m(2,3) t by blast+
  let ?tables = "map (\<lambda>(t, d). (t, digest_value d)) digests"
  obtain sha where sha: "dict_get ?tables ''event_audit'' = digest_value (rp_audit r, sha)" using i(3) by blast
  note tables = observed_tables_ok [OF assms(4,2) d sha c(4) assms(5)]
  have keys: "map fst ?tables = sp_public_tables p" using d(1) by (simp add: comp_def case_prod_unfold)
  have pre: "py_eq (PDict prefix) RECOVERY_PREFIX" using e(1,2) historical_profile(3) [OF assms(2)] by simp
  note shape = observed_shape_ok [OF assms(2) state [unfolded s] keys pre]
  note prefixes = observed_prefixes_ok [OF assms(1,4) c(2,3) x c(4) assms(5)]
  have queue: "recovery_queue_ok r queue" using queue_report_ok [OF c(4) assms(5)] m(4) t by simp
  have "\<forall>row \<in> set (rv_stream view). receipt_text (fst row)" "\<forall>b. hex_lower_n 64 (rh_sha256 h b)"
    "\<forall>u w e s t. rh_canonical h u = Inr (e, s) \<and> rh_canonical h w = Inr (e, t) \<longrightarrow> u = w"
    using assms(4) unfolding one_snapshot_def by blast+
  note redis_ok = observed_redis_ok [OF assms(1) q(1) redis this]
  have seq_names: "distinct (map fst (sv_sequences v))" using assms(4) by (simp add: one_snapshot_def)
  note sign = worker_result_signs [OF historical_profile(1) [OF assms(2)] shape(7), folded signed_def]
  have bind: "dict_get signed ''owner'' = PStr (rp_owner r)" "dict_get signed ''mode'' = PStr ''r5-state''"
    "dict_get signed ''new_epoch_database'' = PStr (epoch_database (rp_owner r))"
    unfolding signed_def sign(1) using shape(7) by (simp_all add: dict_get_def map_add_def BINDING_KEYS_def)
  have w: "without BINDING_KEYS signed = state" using sign(2) by (simp add: signed_def)
  have "validate_expected_state r p True signed = Inr state"
    unfolding validate_expected_state_def Let_def w bind shape(2-6)
    using shape(1) tables i(1,2) queue prefixes redis_ok by (simp add: py_bind_Inr_iff in_order_Inr del: in_order.simps)
  moreover have "py_eq (PDict state) (PDict state)"
  proof -
    obtain receipts cursor where "redis_report h view receipts (target_map r receipts) cursor = Inr redis"
      using redis_snapshot_shows [OF redis] by metis
    note redis_exact [OF this]
    from observed_exact [OF assms(2) s [unfolded m(4)] d(1) seq_names e(4) i(4) e(1,3) this]
    show ?thesis unfolding state s m(4) by (rule py_eq_exact(1))
  qed
  ultimately show ?thesis unfolding w by blast
qed


section \<open>The configuration of a recovery\<close>

definition confined :: "items \<Rightarrow> bool" where
  "confined m \<longleftrightarrow>
     dict_get m ''owner'' = PStr CONTINUATION_OWNER \<and> dict_get m ''database'' = PStr (epoch_database CONTINUATION_OWNER)
     \<and> dict_get m ''pg_host'' = PStr (epoch_prefix CONTINUATION_OWNER @ ''-pg'')
     \<and> dict_get m ''redis_host'' = PStr (epoch_prefix CONTINUATION_OWNER @ ''-redis'')
     \<and> (\<forall>k. map_of m k = None \<or> \<not> endswith k ''password'' \<or> str_where (hex_lower_n 64) (dict_get m k))"

lemma recovery_config_confines:
  assumes "recovery_validate_config r p mode (PDict m) = Inr ()" "rp_owner r = CONTINUATION_OWNER"
  shows "confined m"
proof -
  have ok: "recovery_config_ok r mode m" using assms(1) by (simp add: recovery_validate_config_def split: if_splits)
  have "map_of m k = None \<or> \<not> endswith k ''password'' \<or> str_where (hex_lower_n 64) (dict_get m k)" for k
  proof (cases "map_of m k = None")
    case False
    then have "k \<in> set (recovery_fields mode)" using ok by (auto simp: recovery_config_ok_def keys_are_def map_of_eq_None_iff)
    then show ?thesis using ok by (auto simp: recovery_config_ok_def list_all_iff)
  qed blast
  then show ?thesis using ok assms(2) unfolding confined_def recovery_config_ok_def by simp
qed

lemma confined_set:
  assumes "confined (dict_set j v m)" "j \<in> {''expected_state'', ''expected_seed''}"
  shows "confined m"
proof -
  have keep: "dict_get (dict_set j v m) k = dict_get m k" "map_of (dict_set j v m) k = map_of m k" if "k \<noteq> j" for k
    using that by (simp_all add: dict_get_def dict_set_lookup)
  have fields: "''owner'' \<noteq> j" "''database'' \<noteq> j" "''pg_host'' \<noteq> j" "''redis_host'' \<noteq> j" using assms(2) by auto
  have "map_of m k = None \<or> \<not> endswith k ''password'' \<or> str_where (hex_lower_n 64) (dict_get m k)" for k
  proof (cases "k = j")
    case True
    then show ?thesis using assms(2) by (auto simp: endswith_def)
  next
    case False
    then show ?thesis using assms(1) keep [OF False] unfolding confined_def by metis
  qed
  then show ?thesis using assms(1) unfolding confined_def keep [OF fields(1)] keep [OF fields(2)] keep [OF fields(3)] keep [OF fields(4)] by blast
qed

lemma normalized_confines:
  assumes "normalize_config mode (PDict m) = Inr (internal, PDict n)" "confined n"
  shows "confined m"
  using assms confined_set by (auto simp: normalize_config_def Let_def py_bind_Inr_iff split: if_splits)

lemma normalized_dict: "normalize_config mode v = Inr (internal, n) \<Longrightarrow> \<exists>m'. n = PDict m'"
  by (auto simp: normalize_config_def Let_def py_bind_Inr_iff split: pyval.splits if_splits)

theorem recovery_config_confined:
  assumes "mode \<in> set (R5_MODES @ R7_MODES)" "validate_worker_config (recovery_later r6 p) profile mode (PDict m) = Inr ()"
  shows "confined m \<and> validate_config (recovery_later r6 p) p now mode (PDict m) = Inr ()"
proof -
  have modes: "set (generation_modes ''r5'') = set R5_MODES" "set (generation_modes ''r7'') = set R7_MODES"
    by (auto simp: generation_modes_def R5_MODES_def R7_MODES_def)
  have apart: "set R5_MODES \<inter> set (generation_modes ''r6'') = {}" "set R5_MODES \<inter> set R7_MODES = {}" "set R7_MODES \<inter> set (generation_modes ''r6'') = {}"
    by (auto simp: generation_modes_def R5_MODES_def R7_MODES_def)
  have ok: "recovery_later r6 p mode (PDict m) = Inr ()"
    using assms apart modes by (auto simp: validate_worker_config_def renamed_def split: option.splits sum.splits if_splits)
  have "confined m"
  proof (cases "mode \<in> set R7_MODES")
    case True
    then obtain internal n where n: "normalize_config mode (PDict m) = Inr (internal, n)" "recovery_validate_config R7_PROFILE p internal n = Inr ()"
      using ok by (auto simp: recovery_later_def r7_validate_config_def py_bind_Inr_iff)
    obtain m' where "n = PDict m'" using normalized_dict [OF n(1)] by blast
    then show ?thesis using n normalized_confines recovery_config_confines [of R7_PROFILE p internal m'] by (simp add: R7_PROFILE_def)
  next
    case False
    then have "recovery_validate_config R5_PROFILE p mode (PDict m) = Inr ()"
      using ok assms(1) apart(1) by (auto simp: recovery_later_def split: if_splits)
    then show ?thesis by (rule recovery_config_confines) (simp add: R5_PROFILE_def)
  qed
  moreover have "validate_config (recovery_later r6 p) p now mode (PDict m) = Inr ()"
    using ok assms(1) modes by (auto simp: validate_config_def)
  ultimately show ?thesis ..
qed

end
