(* ===== verification/Recovery_Sample.thy ===== *)
theory Recovery_Sample
  imports Recovery_Sign
begin

text \<open>
  A recovery of one gap: two published bars, of which the second was delivered and not completed. The states
  before and after, the signed state, the turns of the supervising loop and the report.
\<close>

section \<open>The environment\<close>

definition gap_hash :: "string \<Rightarrow> string" where
  "gap_hash i = replicate 64 (if i = ''a'' then CHR ''a'' else CHR ''b'')"

definition gap_payload :: "string \<Rightarrow> pyval" where "gap_payload i = PDict [(''message_id'', PStr i)]"

definition gap_identity :: "pyval \<Rightarrow> string py" where
  "gap_identity v = (case v of PDict [(k, PStr i)] \<Rightarrow> if k = ''message_id'' then Inr i else Inl ValueError | _ \<Rightarrow> Inl ValueError)"

definition gap_host :: recovery_host where
  "gap_host =
     \<lparr>rh_loads = (\<lambda>s. if s = ''ra'' then Inr (PList [PStr (gap_hash ''a''), PStr ''1-0''])
        else if s = ''rb'' then Inr (PList [PStr (gap_hash ''b''), PStr ''2-0'']) else Inl JSONDecodeError),
      rh_event = (\<lambda>v. py_bind (gap_identity v) (\<lambda>i. Inr \<lparr>be_message_id = i, be_source = FEED_SOURCE, be_symbol = ''BTCUSDT'', be_open_time_ms = 0\<rparr>)),
      rh_canonical = (\<lambda>v. py_bind (gap_identity v) (\<lambda>i. Inr (i, gap_hash i))),
      rh_float_text = (\<lambda>_. ''0.0''), rh_sha256 = (\<lambda>_. replicate 64 (CHR ''c''))\<rparr>"

definition gap_profile :: recovery_profile where
  "gap_profile =
     \<lparr>rp_owner = CONTINUATION_OWNER, rp_audit = 5, rp_outbox = 2, rp_inbox = 1, rp_restore_host = ''restore'',
      rp_targets = [pinned_target 2 ''BTCUSDT'' ''b'' (gap_hash ''b'') 0]\<rparr>"

definition gap_schema :: schema where "gap_schema = snd (SCHEMA_PROFILES ! 0)"

lemma gap_profile_ok: "profile_ok gap_profile" and gap_schema_historical: "historical gap_schema"
  by (simp_all add: profile_ok_def gap_profile_def target_ids_def historical_def schema_profile_def SCHEMA_PROFILES_def gap_schema_def)

section \<open>Before and after\<close>

definition gap_row :: "int \<Rightarrow> string \<Rightarrow> queue_row" where
  "gap_row n i =
     \<lparr>qr_id = n, qr_message_id = i, qr_topic = FEED_TOPIC, qr_payload = gap_payload i, qr_sha256 = gap_hash i, qr_producer = FEED_SOURCE,
      qr_published_at = True, qr_attempts = Some 1, qr_last_error = False, qr_lease_owner = False, qr_lease_until = False,
      qr_dead_lettered = False, qr_reconciliation = ''NONE''\<rparr>"

definition gap_inbox :: "string \<Rightarrow> inbox_row" where
  "gap_inbox i = \<lparr>ir_consumer = consumer_service gap_profile @ '':bars'', ir_topic = FEED_TOPIC, ir_message_id = i,
     ir_sha256 = gap_hash i, ir_status = ''COMPLETED''\<rparr>"

definition gap_ids :: "bool \<Rightarrow> string list" where "gap_ids drained = (if drained then [''a'', ''b''] else [''a''])"

definition gap_digest :: "bool \<Rightarrow> string \<Rightarrow> int \<times> string" where
  "gap_digest drained t =
     (if t = ''event_audit'' then (5, gap_hash ''a'')
      else if t = ''message_outbox'' then (2, gap_hash ''a'')
      else if t = ''message_inbox'' then (if drained then (2, gap_hash ''b'') else (1, gap_hash ''a''))
      else if t = ''paper_canary_database_identity'' then (1, ''ba22f0bf5a60970ce0553e4c307106244912c7764e0f355a1955be65898e6e38'')
      else (0, gap_hash ''a''))"

definition gap_sql :: "bool \<Rightarrow> sql_view" where
  "gap_sql drained =
     \<lparr>sv_database = epoch_database CONTINUATION_OWNER, sv_migrations = HISTORICAL_CONTROLLED_RUNTIME_MIGRATIONS,
      sv_locks = [True, True, True], sv_tables = CONTROLLED_RUNTIME_PUBLIC_TABLES, sv_digest = (\<lambda>t. Inr (gap_digest drained t)),
      sv_audit_again = Inr (gap_digest drained ''event_audit''),
      sv_prefix = (173164, ''f23b4060feae703c568b0204f4b3ff8932fe2813b20f578bc0a0d983e5600499''), sv_chain = (\<lambda>_. (1, 1, 0, 0)),
      sv_outbox = [gap_row 1 ''a'', gap_row 2 ''b''], sv_inbox = map gap_inbox (gap_ids drained), sv_unaudited = 0,
      sv_sequences = [(''message_outbox_id_seq'', 2, True)], sv_preserved = (\<lambda>_. (1, gap_hash ''a''))\<rparr>"

definition gap_stream :: "stream_row list" where
  "gap_stream = [(''1-0'', [(''data'', ''a'')]), (''2-0'', [(''data'', ''b'')]), (''3-0'', [(''data'', ''a'')])]"

definition gap_redis :: "bool \<Rightarrow> redis_view" where
  "gap_redis drained =
     \<lparr>rv_receipt = (\<lambda>i. Some (''r'' @ i)), rv_at = (\<lambda>s. filter (\<lambda>x. fst x = s) gap_stream), rv_stream = gap_stream,
      rv_groups = [(''bars'', if drained then ''3-0'' else ''2-0'')], rv_pending = Some (if drained then 0 else 1),
      rv_details = (if drained then [] else [(''2-0'', ''consumer-1'')])\<rparr>"

definition gap_durable :: "(string \<times> string \<times> string) list" where
  "gap_durable = [(''a'', gap_hash ''a'', ''a''), (''b'', gap_hash ''b'', ''b'')]"

lemma gap_queue:
  "validate_queue gap_host gap_profile (sv_outbox (gap_sql False)) (sv_inbox (gap_sql False)) = Inr (queue_report 2 1 [''b''], gap_durable, [''a''])"
  "validate_queue gap_host gap_profile (sv_outbox (gap_sql True)) (sv_inbox (gap_sql True)) = Inr (queue_report 2 2 [], gap_durable, [''a'', ''b''])"
  by code_simp+

definition gap_history :: items where
  "gap_history = map (\<lambda>s. (s, PDict [(''count'', PInt 1), (''first_open_time_ms'', PInt 0), (''last_open_time_ms'', PInt 0),
     (''last_close_time_ms'', PInt 59999)])) FEED_SYMBOLS"

lemma gap_chains: "py_map (history_chain (gap_sql drained)) FEED_SYMBOLS = Inr gap_history"
  by (simp add: FEED_SYMBOLS_def history_chain_def gap_sql_def gap_history_def MINUTE_def)

lemma gap_history_ok: "validate_history_snapshot (PInt 5) gap_history (PDict [(''anchors'', PDict gap_history)]) = Inr ()"
  by code_simp

definition gap_prefix :: items where
  "gap_prefix = [(''rows'', PInt 173164),
     (''audit_table_sha256'', PStr ''f23b4060feae703c568b0204f4b3ff8932fe2813b20f578bc0a0d983e5600499''),
     (''last_open_time_ms'', PInt 1789832580000)]"

lemma gap_prefix_facts: "expected_original_prefix gap_schema = PDict gap_prefix" "py_eq (PDict gap_prefix) (PDict gap_prefix)"
  "dict_set ''audit_table_sha256'' (PStr (snd (sv_prefix (gap_sql drained)))) (dict_set ''rows'' (PInt (fst (sv_prefix (gap_sql drained)))) gap_prefix) = gap_prefix"
  using historical_profile(3) [OF gap_schema_historical] py_eq_exact(1) [of "PDict gap_prefix"]
  by (simp_all add: RECOVERY_PREFIX_def gap_prefix_def gap_sql_def)

lemma gap_audit: "sv_audit_again (gap_sql drained) = Inr (5, gap_hash ''a'')" "sv_digest (gap_sql drained) t = Inr (gap_digest drained t)"
  by (simp_all add: gap_sql_def gap_digest_def)

lemma gap_boot: "boot_history_snapshot gap_schema (gap_sql drained) = Inr ((5, gap_hash ''a''), gap_history, gap_prefix)"
  by (simp add: boot_history_snapshot_def gap_audit gap_chains gap_history_ok gap_prefix_facts Let_def del: py_eq.simps py_map.simps)

definition gap_tables :: "bool \<Rightarrow> items" where
  "gap_tables drained = map (\<lambda>t. (t, digest_value (gap_digest drained t))) CONTROLLED_RUNTIME_PUBLIC_TABLES"

lemma gap_tables_ok: "py_map (\<lambda>t. py_bind (sv_digest (gap_sql drained) t) (\<lambda>d. Inr (t, d))) (sv_tables (gap_sql drained))
    = Inr (map (\<lambda>t. (t, gap_digest drained t)) CONTROLLED_RUNTIME_PUBLIC_TABLES)"
proof -
  have "py_map (\<lambda>t. Inr (t, gap_digest drained t)) ts = Inr (map (\<lambda>t. (t, gap_digest drained t)) ts)" for ts
    by (induction ts) auto
  then show ?thesis by (simp add: gap_audit) (simp add: gap_sql_def)
qed

lemma gap_nonempty: "\<not> list_ex (\<lambda>(t, d). t \<notin> set BOOT_ALLOWED_NONEMPTY_TABLES \<and> fst d \<noteq> 0)
    (map (\<lambda>t. (t, gap_digest drained t)) CONTROLLED_RUNTIME_PUBLIC_TABLES)"
  by (auto simp: list_ex_iff gap_digest_def BOOT_ALLOWED_NONEMPTY_TABLES_def)

lemma gap_table_of: "t \<in> set CONTROLLED_RUNTIME_PUBLIC_TABLES \<Longrightarrow> dict_get (gap_tables drained) t = digest_value (gap_digest drained t)"
  by (simp add: gap_tables_def dict_get_def map_of_map_restrict)

lemma gap_identity_ok: "validate_boot_database_identity gap_schema (gap_tables drained) PNone = Inr ()"
proof -
  have m: "''paper_canary_database_identity'' \<in> set CONTROLLED_RUNTIME_PUBLIC_TABLES" by code_simp
  have d: "digest_value (gap_digest drained ''paper_canary_database_identity'') = BOOT_DATABASE_IDENTITY"
    by (simp add: gap_digest_def digest_value_def BOOT_DATABASE_IDENTITY_def)
  have "py_eq BOOT_DATABASE_IDENTITY BOOT_DATABASE_IDENTITY" by (rule py_eq_exact(1)) (simp add: BOOT_DATABASE_IDENTITY_def)
  then show ?thesis
    using gap_table_of [OF m] d historical_profile(1) [OF gap_schema_historical] by (simp add: validate_boot_database_identity_def Let_def del: py_eq.simps)
qed

definition gap_missing :: "bool \<Rightarrow> string list" where "gap_missing drained = (if drained then [] else [''b''])"

definition gap_sql_state :: "bool \<Rightarrow> items" where
  "gap_sql_state drained =
     [(''state'', PStr ''PASS_R5_STATE''), (''matched_public_tables'', PInt 32), (''tables'', PDict (gap_tables drained)),
      (''sequences'', PDict [(''message_outbox_id_seq'', PDict [(''last_value'', PInt 2), (''is_called'', PBool True)])]),
      (''anchors'', PDict gap_history), (''original_prefix'', PDict gap_prefix),
      (''queue'', PDict (queue_report 2 (length (gap_ids drained)) (gap_missing drained))),
      (''preserved_queue_prefixes'', PDict (map (preserved_value (gap_sql drained)) [''message_outbox'', ''message_inbox''])),
      (''trading_started'', PBool False)]"

lemma gap_queue_at: "validate_queue gap_host gap_profile (sv_outbox (gap_sql drained)) (sv_inbox (gap_sql drained))
    = Inr (queue_report 2 (length (gap_ids drained)) (gap_missing drained), gap_durable, gap_ids drained)"
  using gap_queue by (cases drained) (simp_all add: gap_ids_def gap_missing_def numeral_2_eq_2)

lemma gap_sequences: "sequence_values (sv_sequences (gap_sql drained))
    = Inr [(''message_outbox_id_seq'', PDict [(''last_value'', PInt 2), (''is_called'', PBool True)])]"
  by (simp add: gap_sql_def) code_simp

lemma gap_table_count: "length CONTROLLED_RUNTIME_PUBLIC_TABLES = 32"
  by code_simp

lemma gap_entry: "in_order [fail_when (sv_database (gap_sql drained) \<noteq> epoch_database (rp_owner gap_profile)) ''R5_DATABASE_IDENTITY_CONFLICT'',
    verify_schema gap_schema (gap_sql drained), validate_no_epoch_workers (gap_sql drained),
    validate_epoch_table_inventory gap_schema (sv_tables (gap_sql drained))] = Inr ()"
  using historical_profile(2) [OF gap_schema_historical]
  by (simp add: fail_when_def verify_schema_def validate_no_epoch_workers_def validate_epoch_table_inventory_def gap_sql_def gap_profile_def)
    (simp add: gap_schema_def SCHEMA_PROFILES_def)

lemma gap_sql_snapshot:
  "sql_snapshot gap_host gap_profile gap_schema (epoch_database (rp_owner gap_profile)) (gap_sql drained)
    = Inr (gap_sql_state drained, gap_durable, gap_ids drained)"
proof -
  have tables: "map (\<lambda>(t, d). (t, digest_value d)) (map (\<lambda>t. (t, gap_digest drained t)) CONTROLLED_RUNTIME_PUBLIC_TABLES) = gap_tables drained"
    by (simp add: gap_tables_def)
  have audit: "dict_get (gap_tables drained) ''event_audit'' = digest_value (5, gap_hash ''a'')"
    using gap_table_of [of "''event_audit''"] by (simp add: CONTROLLED_RUNTIME_PUBLIC_TABLES_def gap_digest_def)
  have n: "length (gap_tables drained) = 32" by (simp add: gap_tables_def gap_table_count)
  have inner: "in_order [fail_when (list_ex (\<lambda>(t, d). t \<notin> set BOOT_ALLOWED_NONEMPTY_TABLES \<and> fst d \<noteq> 0)
      (map (\<lambda>t. (t, gap_digest drained t)) CONTROLLED_RUNTIME_PUBLIC_TABLES)) ''R5_NONTRADING_TABLE_NOT_EMPTY'',
      validate_boot_database_identity gap_schema (gap_tables drained) PNone] = Inr ()"
    using gap_nonempty [of drained] by (simp add: gap_identity_ok fail_when_def del: list.map)
  have facts: "rp_audit gap_profile = 5" "sv_unaudited (gap_sql drained) = 0" by (simp_all add: gap_profile_def gap_sql_def)
  show ?thesis
    unfolding sql_snapshot_def gap_entry gap_tables_ok Let_def py_bind.simps tables inner gap_boot
      prod.case gap_queue_at gap_sequences audit fst_conv snd_conv facts n
    by (simp add: fail_when_def gap_sql_state_def)
qed

definition gap_redis_state :: "bool \<Rightarrow> items" where
  "gap_redis_state drained =
     [(''stream_entries'', PInt 3), (''publication_receipts'', PInt 2), (''publication_receipts_sha256'', PStr (replicate 64 (CHR ''c''))),
      (''publication_message_ids_sha256'', PStr (replicate 64 (CHR ''c''))), (''stream_sha256'', PStr (replicate 64 (CHR ''c''))),
      (''stream_last_id'', PStr ''3-0''), (''consumer_group'', PStr ''bars''), (''last_delivered_id'', PStr (if drained then ''3-0'' else ''2-0'')),
      (''pending_deliveries'', PInt (if drained then 0 else 1)),
      (''pending_target_message_ids'', PList (map PStr (gap_missing drained))), (''trading_started'', PBool False)]"

lemma gap_redis_snapshot:
  "redis_snapshot gap_host gap_profile (gap_redis drained) gap_durable (gap_ids drained) (missing_gaps (gap_sql_state drained)) = Inr (gap_redis_state drained)"
proof -
  have "missing_gaps (gap_sql_state drained) = gap_missing drained"
    by (simp add: missing_gaps_def gap_sql_state_def dict_get_def [of "_ # _"] del: map_of.simps) (simp add: gap_missing_def sorted_set_def)
  moreover have "redis_snapshot gap_host gap_profile (gap_redis True) gap_durable (gap_ids True) (gap_missing True) = Inr (gap_redis_state True)"
    "redis_snapshot gap_host gap_profile (gap_redis False) gap_durable (gap_ids False) (gap_missing False) = Inr (gap_redis_state False)"
    by code_simp+
  ultimately show ?thesis by (cases drained) simp_all
qed

definition gap_state :: "bool \<Rightarrow> items" where
  "gap_state drained = gap_sql_state drained @ [(''redis'', PDict (gap_redis_state drained))]"

lemma gap_snapshot: "state_snapshot gap_host gap_profile gap_schema (gap_sql drained, gap_redis drained) = Inr (gap_state drained)"
  by (simp add: state_snapshot_def gap_sql_snapshot gap_redis_snapshot gap_state_def)

section \<open>The signed state\<close>

lemma gap_hashes: "hex_lower_n 64 (gap_hash i)" "hex_lower_n 64 (replicate 64 (CHR ''c''))"
  "hex_lower_n 64 ''ba22f0bf5a60970ce0553e4c307106244912c7764e0f355a1955be65898e6e38''"
  by (simp_all add: gap_hash_def hex_lower_n_def is_hex_lower_def is_digit_def list_all_iff)

lemma gap_canonical: "rh_canonical gap_host u = Inr (e, s) \<Longrightarrow> u = gap_payload e"
  by (auto simp: gap_host_def gap_identity_def gap_payload_def py_bind_Inr_iff split: pyval.splits list.splits if_splits)

lemma gap_one_snapshot: "one_snapshot gap_host gap_profile (gap_sql False) (gap_redis False)"
proof -
  have "0 \<le> fst (gap_digest False t) \<and> hex_lower_n 64 (snd (gap_digest False t))" for t
    by (simp add: gap_digest_def gap_hashes)
  then have d: "\<forall>t d. sv_digest (gap_sql False) t = Inr d \<longrightarrow> 0 \<le> fst d \<and> hex_lower_n 64 (snd d)" by (simp add: gap_audit)
  have rows: "\<forall>row \<in> set (rv_stream (gap_redis False)). receipt_text (fst row)" by code_simp
  have n: "targets_in gap_profile (map qr_message_id (sv_outbox (gap_sql False))) = 1"
    "targets_in gap_profile (map ir_message_id (sv_inbox (gap_sql False))) = 0" by code_simp+
  have "rh_sha256 gap_host b = replicate 64 (CHR ''c'')" for b by (simp add: gap_host_def)
  moreover have "\<forall>u w e s t. rh_canonical gap_host u = Inr (e, s) \<and> rh_canonical gap_host w = Inr (e, t) \<longrightarrow> u = w"
    using gap_canonical by blast
  ultimately show ?thesis
    unfolding one_snapshot_def n using d rows gap_hashes
    by (simp add: gap_audit) (auto simp: gap_sql_def gap_digest_def gap_ids_def)
qed

lemma gap_waiting: "int (length (sv_inbox (gap_sql False))) = rp_inbox gap_profile"
  by (simp add: gap_sql_def gap_ids_def gap_profile_def)

definition gap_signed :: items where
  "gap_signed = worker_result gap_schema (rp_owner gap_profile) ''r5-state'' (epoch_database (rp_owner gap_profile)) (gap_state False)"

lemma gap_signed_accepted: "validate_expected_state gap_profile gap_schema True gap_signed = Inr (gap_state False)"
  "py_eq (PDict (gap_state False)) (PDict (without BINDING_KEYS gap_signed))"
  using observed_accepted [OF gap_profile_ok gap_schema_historical gap_snapshot gap_one_snapshot gap_waiting] by (simp_all add: gap_signed_def)

section \<open>The drain\<close>

definition gap_config :: items where
  "gap_config =
     [(''owner'', PStr CONTINUATION_OWNER), (''database'', PStr (epoch_database CONTINUATION_OWNER)),
      (''pg_host'', PStr (epoch_prefix CONTINUATION_OWNER @ ''-pg'')), (''redis_host'', PStr (epoch_prefix CONTINUATION_OWNER @ ''-redis'')),
      (''admin_password'', PStr (gap_hash ''a''))] @ map (\<lambda>k. (k, PStr (gap_hash ''b''))) CREDENTIALS @ [(''expected_state'', PDict gap_signed)]"

lemma gap_config_ok: "recovery_config_ok gap_profile ''r5-drain'' gap_config" "dict_get gap_config ''expected_state'' = PDict gap_signed"
proof -
  have "recovery_config_ok gap_profile ''r5-drain''
     ([(''owner'', PStr CONTINUATION_OWNER), (''database'', PStr (epoch_database CONTINUATION_OWNER)),
      (''pg_host'', PStr (epoch_prefix CONTINUATION_OWNER @ ''-pg'')), (''redis_host'', PStr (epoch_prefix CONTINUATION_OWNER @ ''-redis'')),
      (''admin_password'', PStr (gap_hash ''a''))] @ map (\<lambda>k. (k, PStr (gap_hash ''b''))) CREDENTIALS @ [(''expected_state'', v)])" for v
    by code_simp
  then show "recovery_config_ok gap_profile ''r5-drain'' gap_config" by (simp only: gap_config_def)
  show "dict_get gap_config ''expected_state'' = PDict gap_signed" by (simp add: gap_config_def CREDENTIALS_def dict_get_def)
qed

definition gap_events :: "consumer_event list" where
  "gap_events = [Delivered \<lparr>en_topic = FEED_TOPIC, en_payload = gap_payload ''b''\<rparr> (Inr ()), Confirmed (gap_payload ''b'')]"

definition gap_polls :: "nat \<Rightarrow> poll" where
  "gap_polls n = (if n = 0 then \<lparr>po_done = None, po_rows = Inr [], po_now = 1\<rparr>
     else \<lparr>po_done = Some gap_events, po_rows = Inr [], po_now = 2\<rparr>)"

definition gap_consumer :: consumer_state where
  "gap_consumer = \<lparr>cs_completed = [''b''], cs_acked = [''b''], cs_stop = True\<rparr>"

lemma gap_turns: "poll_turn gap_host gap_profile 60 (gap_polls 0) = Inr None"
  "poll_turn gap_host gap_profile 60 (gap_polls 1) = Inr (Some gap_consumer)"
  by code_simp+

lemma gap_poll: "poll_from gap_host gap_profile 60 gap_polls 0 = Some (Inr gap_consumer)"
  using gap_turns by (subst poll_from.simps, simp, subst poll_from.simps, simp)

definition gap_world :: recovery_world where
  "gap_world =
     \<lparr>rw_drain = \<lparr>dw_before = (gap_sql False, gap_redis False), dw_start = 0, dw_polls = gap_polls, dw_telemetry = [],
        dw_after = (gap_sql True, gap_redis True)\<rparr>,
      rw_restored = gap_sql False, rw_cancelled = (False, False)\<rparr>"

lemma gap_get:
  "sub_value (gap_state d) ''tables'' t = dict_get (gap_tables d) t" "sub_keys (gap_state d) ''tables'' = CONTROLLED_RUNTIME_PUBLIC_TABLES"
  "sub_value (gap_state d) ''redis'' k = dict_get (gap_redis_state d) k"
  "sub_value (gap_state d) ''queue'' k = dict_get (queue_report 2 (length (gap_ids d)) (gap_missing d)) k"
  "dict_get (gap_state d) ''sequences'' = PDict [(''message_outbox_id_seq'', PDict [(''last_value'', PInt 2), (''is_called'', PBool True)])]"
  "dict_get (gap_state d) ''anchors'' = PDict gap_history" "dict_get (gap_state d) ''original_prefix'' = PDict gap_prefix"
  "dict_get (gap_state d) ''preserved_queue_prefixes'' = PDict (map (preserved_value (gap_sql d)) [''message_outbox'', ''message_inbox''])"
  by (simp_all add: sub_value_def sub_keys_def gap_state_def gap_sql_state_def dict_get_def gap_tables_def comp_def)

lemma gap_drain_agrees: "drain_differs gap_profile (gap_state False) (gap_state True) = Inr False"
proof -
  have tables: "py_eq (dict_get (gap_tables False) t) (dict_get (gap_tables True) t)"
    if "t \<in> set CONTROLLED_RUNTIME_PUBLIC_TABLES" "t \<noteq> ''message_inbox''" for t
    using that by (simp add: gap_table_of gap_digest_def py_eq_digest_value del: py_eq.simps)
  have in_tables: "''event_audit'' \<in> set CONTROLLED_RUNTIME_PUBLIC_TABLES" "''message_outbox'' \<in> set CONTROLLED_RUNTIME_PUBLIC_TABLES" by code_simp+
  have self: "py_eq (PDict gap_history) (PDict gap_history)" "py_eq (PDict gap_prefix) (PDict gap_prefix)"
    "py_eq (PDict (map (preserved_value (gap_sql False)) [''message_outbox'', ''message_inbox'']))
       (PDict (map (preserved_value (gap_sql True)) [''message_outbox'', ''message_inbox'']))"
    by (intro py_eq_exact(1); simp add: gap_history_def gap_prefix_def FEED_SYMBOLS_def)+ (simp add: preserved_value_def gap_sql_def)
  have seq: "py_eq (PDict [(''message_outbox_id_seq'', PDict [(''last_value'', PInt 2), (''is_called'', PBool True)])])
      (PDict [(''message_outbox_id_seq'', PDict [(''last_value'', PInt 2), (''is_called'', PBool True)])])"
    by (intro py_eq_exact(1)) simp
  have cursor: "cursor_moved_back (gap_state False) (gap_state True) = Inr False"
    unfolding cursor_moved_back_def gap_get by code_simp
  show ?thesis
    unfolding drain_differs_def py_or_False cursor using tables in_tables self seq
    by (auto simp: gap_get gap_redis_state_def gap_missing_def gap_profile_def gap_ids_def dict_get_def [of "_ # _"] sorted_set_def simp del: py_eq.simps)
qed

text \<open>Without floats and with integers below \<open>10 ^ 13\<close> a value has a text.\<close>

fun short_value :: "pyval \<Rightarrow> bool" and short_list :: "pyval list \<Rightarrow> bool" and short_items :: "items \<Rightarrow> bool" where
  "short_value (PFloat _) = False"
| "short_value (PInt i) = (\<bar>i\<bar> < 10 ^ 13)"
| "short_value (PList xs) = short_list xs"
| "short_value (PDict m) = short_items m"
| "short_value _ = True"
| "short_list [] = True"
| "short_list (x # xs) = (short_value x \<and> short_list xs)"
| "short_items [] = True"
| "short_items ((k, v) # m) = (short_value v \<and> short_items m)"

lemma short_items_iff: "short_items m \<longleftrightarrow> (\<forall>x \<in> set m. short_value (snd x))"
  by (induction m) auto

lemma short_text:
  "short_value v \<Longrightarrow> \<exists>t. json_text ft v = Inr t"
  "short_list xs \<Longrightarrow> \<exists>ts. json_list ft xs = Inr ts"
  "short_items m \<Longrightarrow> \<exists>ts. json_items ft m = Inr ts"
proof (induction v and xs and m rule: short_value_short_list_short_items.induct)
  case (2 i)
  then have "nat \<bar>i\<bar> < 10 ^ 13" by simp
  then show ?case using show_nat_length [of "nat \<bar>i\<bar>" 13] by simp
qed auto

lemma gap_digests: "state_digest gap_host (PDict (gap_state d)) = Inr (replicate 64 (CHR ''c''))"
proof -
  have "short_items (gap_tables d)" by (auto simp: gap_tables_def short_items_iff digest_value_def gap_digest_def)
  moreover have "short_items gap_history" by (simp add: gap_history_def FEED_SYMBOLS_def)
  moreover have "short_items (queue_report 2 (length (gap_ids d)) (gap_missing d))"
    by (cases d) (simp_all add: queue_report_def gap_ids_def gap_missing_def sorted_set_def)
  moreover have "short_items (gap_redis_state d)" by (cases d) (simp_all add: gap_redis_state_def gap_missing_def)
  ultimately have "short_value (PDict (gap_state d))"
    by (simp add: gap_state_def gap_sql_state_def gap_prefix_def preserved_value_def gap_sql_def)
  from short_text(1) [OF this, of "lenient_float (rh_float_text gap_host)"] obtain t
    where "json_text (lenient_float (rh_float_text gap_host)) (PDict (gap_state d)) = Inr t" ..
  then show ?thesis by (simp add: state_digest_def) (simp add: gap_host_def)
qed

definition gap_report :: items where
  "gap_report = (case drain_report gap_host gap_profile (gap_state False) (gap_state True) (transport_metrics [] gap_consumer) of Inr m \<Rightarrow> m | Inl _ \<Rightarrow> [])"

lemma gap_report_given:
  "drain_report gap_host gap_profile (gap_state False) (gap_state True) (transport_metrics [] gap_consumer) = Inr gap_report"
  by (simp add: gap_report_def drain_report_def gap_digests)

lemma gap_dispatch: "dispatch_r5 gap_host gap_profile gap_schema ''r5-drain'' (PDict gap_config) gap_world = Some (Inr gap_report)"
proof -
  have valid: "recovery_validate_config gap_profile gap_schema ''r5-drain'' (PDict gap_config) = Inr ()"
    by (simp add: recovery_validate_config_def gap_config_ok expected_under_def gap_signed_accepted)
  have pending: "\<not> pending_targets_differ gap_profile (gap_state False)"
    unfolding pending_targets_differ_def gap_get by code_simp
  have "drain gap_host gap_profile gap_schema gap_signed (rw_drain gap_world) = Some (Inr gap_report)"
    using gap_signed_accepted(2) pending
    by (simp add: drain_def gap_world_def gap_snapshot gap_poll gap_drain_agrees gap_report_given del: py_eq.simps)
  then show ?thesis using valid by (simp add: dispatch_r5_def gap_config_ok)
qed

section \<open>The theorems at this recovery\<close>

theorem validate_queue_exact_witness:
  "list_all2 (admitted gap_host gap_profile) (sv_outbox (gap_sql False)) gap_durable"
  using iffD1 [OF validate_queue_exact [OF gap_profile_ok] gap_queue(1)] by blast

theorem pending_exact_witness:
  "set (map fst (rv_details (gap_redis False))) = {''2-0''} \<and> set (map ir_message_id (sv_inbox (gap_sql False))) = {''a''}"
proof -
  have "set (map ir_message_id (sv_inbox (gap_sql False))) \<noteq> set (map qr_message_id (sv_outbox (gap_sql False)))"
    by (simp add: gap_sql_def gap_row_def gap_inbox_def gap_ids_def)
  then have "set (map ir_message_id (sv_inbox (gap_sql False)))
      = set (map qr_message_id (sv_outbox (gap_sql False))) - set (target_ids gap_profile)"
    using pending_exact [OF gap_profile_ok gap_snapshot [of False]] by auto
  then show ?thesis by (auto simp: gap_redis_def gap_sql_def gap_row_def target_ids_def gap_profile_def)
qed



definition observing_config :: items where
  "observing_config =
     [(''owner'', PStr CONTINUATION_OWNER), (''database'', PStr (epoch_database CONTINUATION_OWNER)),
      (''pg_host'', PStr (epoch_prefix CONTINUATION_OWNER @ ''-pg'')), (''redis_host'', PStr (epoch_prefix CONTINUATION_OWNER @ ''-redis'')),
      (''admin_password'', PStr (gap_hash ''a''))] @ map (\<lambda>k. (k, PStr (gap_hash ''b''))) CREDENTIALS"

lemma observing_accepted:
  "validate_worker_config (recovery_later (\<lambda>_ _. Inr ()) gap_schema) ''historical-default'' ''r5-state'' (PDict observing_config) = Inr ()"
  by code_simp

theorem recovery_config_confined_witness:
  "validate_config (recovery_later (\<lambda>_ _. Inr ()) gap_schema) gap_schema 0 ''r5-state'' (PDict observing_config) = Inr ()"
proof -
  have "''r5-state'' \<in> set (R5_MODES @ R7_MODES)" by (simp add: R5_MODES_def)
  from recovery_config_confined [OF this observing_accepted, of 0] show ?thesis ..
qed

end
