(* ===== verification/Spec2Isabelle.thy ===== *)
theory Spec2Isabelle
  imports History_Stream Canary_Gate Redis_Ledger Paper_Sample Soak_Gate History_Seed_Sample Alert_Sample Epoch_Sample Epoch_Policy_Sample Cold_Complete Alert_Topology_Gate Recovery_Sample
begin

text \<open>
  A model of the deployment tooling of Kairos: the Python programs of \<^verbatim>\<open>src/scripts/\<close> that decide whether
  something may be deployed, copied, published, sent or accepted. Every definition follows a function of a
  script, branch by branch; what a script obtains from its environment (answers of PostgreSQL, Redis, Docker,
  HTTP, the file system and the clock, SHA-256, parsers of third-party packages) is an argument.

  \<^bold>\<open>Shared layers.\<close> \<open>Prelude\<close>: exceptions as values of \<open>exn\<close>, results \<open>exn + 'a\<close> sequenced by \<open>py_bind\<close>, the
  short-circuit disjunction \<open>py_or\<close>, the runner \<open>py_run\<close> of a component over its inputs, and the locales
  \<open>step_machine\<close> (invariant of a fallible step function), \<open>transition_invariant\<close> (invariant of a step
  relation) and \<open>run_simulation\<close> (one runner simulates another). \<open>Py_Value\<close>: dynamically typed JSON values
  \<open>pyval\<close> with the language's equality, order and truth, floats with NaN and infinities included. \<open>Py_Text\<close>,
  \<open>Py_Check\<close>, \<open>Py_Json\<close>, \<open>Text_Codec\<close>: the string methods, the shape of a validator as a list of
  checks, \<^verbatim>\<open>json.dumps\<close>, and the UTF-8 and big-endian codecs. Strings are lists of characters with code points
  below 256; Python's integers are \<open>int\<close>, so no operation wraps.

  \<^bold>\<open>Streams and stores.\<close> \<open>History_Stream\<close> (\<^verbatim>\<open>paper_runtime_history_stream.py\<close>, and \<^verbatim>\<open>Budget\<close> of
  \<^verbatim>\<open>paper_runtime_snapshot_worker.py\<close>): the incremental decoder of a binary COPY stream as a state machine, fed
  in arbitrary chunks; sound, complete and fail-closed against the encoding of an ordered list of rows.
  \<open>Redis_Resp\<close>, \<open>Redis_Aof\<close>, \<open>Redis_Ledger\<close> (\<^verbatim>\<open>runtime_epoch_redis_aof.py\<close>): the bounded reader of an
  append-only file, the inventory loop, and what an accepted file means; three instances of \<open>step_machine\<close>
  bind each publication receipt to one stream entry. \<open>History_Seed\<close>, \<open>History_Seed_Gate\<close>,
  \<open>History_Seed_Sample\<close> (\<^verbatim>\<open>runtime_epoch_history_seed.py\<close>): the accumulator that validates bars, the batched
  transactional seed; batches are a \<open>run_simulation\<close> of the unbatched fold.

  \<^bold>\<open>Validators.\<close> \<open>Deployment\<close>, \<open>Deployment_Remote\<close> (\<^verbatim>\<open>validate_deployment.py\<close>) and \<open>Paper_Deployment\<close>
  (\<^verbatim>\<open>validate_paper_deployment.py\<close>): the checks of the source lock, the rendered Compose model, the
  interpolation file, the remote sources, and the exit status. \<open>Compose_Contract\<close> states what both promise as
  locales (\<open>isolating_gate\<close>, \<open>secret_gate\<close>, \<open>exit_gate\<close>); \<open>Deployment_Gate\<close> and \<open>Paper_Gate\<close> interpret
  them, and the \<open>_Sample\<close> theories evaluate a lock and a model that validate. \<open>Canary\<close>, \<open>Canary_Gate\<close>
  (\<^verbatim>\<open>paper_canary_acceptance.py\<close>): the evidence evaluator, its report and exit status, and the SQL text.

  \<^bold>\<open>Processes.\<close> \<open>Soak\<close>, \<open>Soak_Gate\<close> (\<^verbatim>\<open>soak_reconnect.py\<close>): the sampling loop over a schedule of clock
  readings and answers, by \<open>while_option\<close>, so that not returning is the value \<open>None\<close>; it refines a function
  of its observations, ends when the clock passes and a request is answered, and never returns when nothing
  answers. \<open>Alert_Delivery\<close>, \<open>Alert_Gate\<close>, \<open>Alert_Journal\<close>, \<open>Alert_Sample\<close> (\<^verbatim>\<open>alert_delivery.py\<close>): rendered
  notification files, and the qualification as a process over the receipt files that may crash and overlap with
  others; at most one message is sent (\<open>transition_invariant\<close>), and the journal round-trips through its
  validation. \<open>Epoch_Feed\<close>, \<open>Epoch_Outbox\<close>, \<open>Epoch_Gate\<close>, \<open>Epoch_Sample\<close> (\<^verbatim>\<open>runtime_epoch_worker.py\<close>): the
  bounded catch-up, page fetches with retries, the circuit of source failures, and the outbox dispatcher with the
  script Redis runs, as any number of concurrent dispatchers that may be killed or lose an answer; publication is
  exactly once. \<open>Epoch_Config\<close>, \<open>Epoch_Policy\<close>, \<open>Epoch_Policy_Gate\<close>, \<open>Epoch_Policy_Sample\<close>
  (\<^verbatim>\<open>runtime_epoch_controller.py\<close> and the worker's own validators): the configuration each mode may have on both
  sides, the expected state of a boot, and the controller's decisions.

  \<open>Cold_Copy\<close>, \<open>Cold_Gate\<close>, \<open>Cold_Progress\<close>, \<open>Cold_Tree\<close>, \<open>Cold_Complete\<close>
  (\<^verbatim>\<open>runtime_epoch_cold_snapshot.py\<close>): the bounded inventory of a stopped volume and its copy into an empty
  file tree. An accepted copy is the visible part of the source, and a quiet source in time is copied.
  \<open>Alert_Topology\<close>, \<open>Alert_Topology_Gate\<close> (\<^verbatim>\<open>validate_alert_delivery.py\<close>, \<^verbatim>\<open>alert_state.py\<close>): the Compose
  topology of the standalone Alertmanager and of its durable variant; both commands interpret the locale
  \<open>blocking_command\<close>.

  \<^bold>\<open>Recovery.\<close> \<open>Recovery_State\<close>, \<open>Recovery_Queue\<close>, \<open>Recovery_Redis\<close>, \<open>Recovery_Drain\<close>
  (\<^verbatim>\<open>runtime_epoch_read_recovery_worker.py\<close>, \<^verbatim>\<open>runtime_epoch_r7_read_profile.py\<close>, and the readers of
  \<^verbatim>\<open>runtime_epoch_worker.py\<close> they call): the recovery of messages that were published but never reached the inbox. The
  signed state and its validator, the snapshots of the database and of the stream, the comparison with a restored
  copy, and the drain: a consumer (events of the message bus) under a supervising loop (one \<open>poll\<close> per turn). Both
  uses share one model, with the pinned constants as a \<open>recovery_profile\<close>. \<open>Recovery_Gate\<close>: when the loop returns,
  what the consumer has recorded (\<open>step_machine\<close>), which deliveries may be pending, and what a report of success means.
  \<open>Recovery_Sign\<close>: an observed state passes its own validator; the configurations of both sides agree.
  \<open>Recovery_Sample\<close>: a small recovery carried out from the signed state to the report.

  \<^bold>\<open>Bounds and loops.\<close> Recursion is structural or has a \<open>measure\<close>; the loops that may not end (the soak, the
  lowering of a catch-up end, the supervision of a drain) are \<open>while_option\<close> or \<open>partial_function (option)\<close>,
  and that they return is proved where it is claimed (\<open>soak_ends\<close>, \<open>drain_ends\<close>). There is no
  fuel. Byte, row and time limits are the constants of the scripts.

  \<^bold>\<open>Not modelled.\<close> The orchestration of Docker, SSH, Git, restic and PostgreSQL processes: these functions are
  sequences of external commands whose meaning lies in those programs, so a model would consist of parameters.
  SQL texts are modelled only where the script composes them. The other one-off recovery scripts of single incidents,
  and the network, locks and ACL calls of Windows, are left out for the same reason; the manifest names each script.
\<close>

end
